(* ===== verification/NocBase.thy ===== *)
theory NocBase
  imports Complex_Main "HOL-Library.Sublist" "HOL-Library.AList" "HOL-Library.List_Lexorder"
    "HOL-Library.Char_ord" "HOL-Library.Product_Lexorder" "HOL-Library.Multiset"
begin

text \<open>
  Prelude of the development: the Python values, exceptions, strings and tables every component
  of the NOC IQ backend uses.

  \<^item> exceptions are values of \<open>exc\<close>, a fallible pure call has type \<open>'a res\<close> (\<open>Inl\<close> the exception)
    and a fallible call that writes state returns the pair of its result and the state it leaves,
    because a Python exception does not undo the writes made before it was raised;
  \<^item> Python floats, and the seconds the clocks return, are \<open>real\<close>; Python integers are \<open>int\<close>;
  \<^item> strings are \<open>char list\<close>; case folding and whitespace follow \<open>str.lower\<close> and \<open>str.strip\<close> on
    ASCII text;
  \<^item> a dict is an association list in insertion order: \<open>map_of d k\<close> is \<open>d.get(k)\<close> and \<open>AList.update k v d\<close>
    is \<open>d[k] = v\<close> (an existing key keeps its position);
  \<^item> a database table is the list of its rows in insertion order; \<open>query(...).filter(p).first()\<close> is
    \<open>find p\<close>, an \<open>UPDATE ... WHERE p\<close> is \<open>upd_where p f\<close>, an \<open>INSERT\<close> appends and a \<open>DELETE\<close> filters.
\<close>

section \<open>Exceptions and results\<close>

datatype exc =
    ValueError string
  | KeyError string
  | IndexError
  | TypeError
  | NameError string
  | AttributeError string
  | RuntimeError string
  | ValidationError
  | IntegrityError string
  | DBError string
  | HTTPException nat string
  | PaymentTransitionError string string "string list"
  | ConcurrencyLockError string
  | NetworkMismatchError string string
  | TrustlineError string string string

type_synonym 'a res = "exc + 'a"

text \<open>
  \<open>except ValueError\<close> also catches the subclasses: pydantic's \<open>ValidationError\<close> and the payment
  policy's \<open>PaymentTransitionError\<close> derive from \<open>ValueError\<close>.
\<close>

fun is_ValueError :: "exc \<Rightarrow> bool" where
  "is_ValueError (ValueError _) = True"
| "is_ValueError ValidationError = True"
| "is_ValueError (PaymentTransitionError _ _ _) = True"
| "is_ValueError _ = False"

definition quoted :: "string \<Rightarrow> string" where
  "quoted s = CHR 39 # s @ [CHR 39]"

text \<open>
  \<open>str(exc)\<close>: the message a handler copies into the response it raises. The one of a transition error is kept
  without its trailing rendering of the set of allowed targets, whose order depends on the hash seed.
\<close>

fun exc_msg :: "exc \<Rightarrow> string" where
  "exc_msg (ValueError m) = m"
| "exc_msg (RuntimeError m) = m"
| "exc_msg (AttributeError m) = m"
| "exc_msg (NameError m) = ''name '' @ quoted m @ '' is not defined''"
| "exc_msg (KeyError m) = m"
| "exc_msg (IntegrityError m) = m"
| "exc_msg (DBError m) = m"
| "exc_msg (HTTPException _ m) = m"
| "exc_msg (ConcurrencyLockError m) = m"
| "exc_msg (PaymentTransitionError c n _) =
     ''Transition from '' @ quoted c @ '' to '' @ quoted n @ '' is not allowed. ''"
| "exc_msg (NetworkMismatchError e a) =
     ''Network mismatch: instance is configured for '' @ quoted e @ '' but operation targets '' @ quoted a @
     ''. Cross-network operations are forbidden.''"
| "exc_msg (TrustlineError r a c) = ''Trustline check failed for '' @ a @ ''/'' @ c @ '': '' @ r"
| "exc_msg ValidationError = ''validation error''"
| "exc_msg TypeError = ''type error''"
| "exc_msg IndexError = ''index error''"

text \<open>\<open>try: r = call() except ValueError as e: raise HTTPException(status, str(e))\<close>.\<close>

definition http_on_ValueError :: "nat \<Rightarrow> 'a res \<Rightarrow> 'a res" where
  "http_on_ValueError code r = (case r of
     Inl e \<Rightarrow> if is_ValueError e then Inl (HTTPException code (exc_msg e)) else Inl e
   | Inr v \<Rightarrow> Inr v)"

lemma http_on_ValueError_Inr [simp]: "http_on_ValueError c r = Inr v \<longleftrightarrow> r = Inr v"
  by (auto simp: http_on_ValueError_def split: sum.splits)

named_theorems table_simps \<open>rewriting of table lookups after inserts, updates and deletes\<close>
named_theorems key_preserving \<open>row updates keep the primary key\<close>

section \<open>Strings\<close>

definition lower_char :: "char \<Rightarrow> char" where
  "lower_char c = (if 65 \<le> (of_char c :: nat) \<and> (of_char c :: nat) \<le> 90
     then char_of ((of_char c :: nat) + 32) else c)"

definition lower :: "string \<Rightarrow> string" where
  "lower s = map lower_char s"

lemma of_char_lt_256: "(of_char c :: nat) < 256"
  by (metis char_of_mod_256 mod_less_divisor of_char_of of_char_mod_256 zero_less_numeral)

lemma lower_char_idem [simp]: "lower_char (lower_char c) = lower_char c"
  by (auto simp: lower_char_def of_char_of)

lemma lower_idem [simp]: "lower (lower s) = lower s"
  by (simp add: lower_def)

lemma length_lower [simp]: "length (lower s) = length s"
  by (simp add: lower_def)

definition startswith :: "string \<Rightarrow> string \<Rightarrow> bool" where
  "startswith s p \<longleftrightarrow> prefix p s"

definition endswith :: "string \<Rightarrow> string \<Rightarrow> bool" where
  "endswith s p \<longleftrightarrow> suffix p s"

text \<open>Python's \<open>kw in s\<close> on strings.\<close>

definition str_in :: "string \<Rightarrow> string \<Rightarrow> bool" where
  "str_in kw s \<longleftrightarrow> sublist kw s"

definition any_in :: "string list \<Rightarrow> string \<Rightarrow> bool" where
  "any_in kws s \<longleftrightarrow> list_ex (\<lambda>kw. str_in kw s) kws"

definition is_space :: "char \<Rightarrow> bool" where
  "is_space c \<longleftrightarrow> (of_char c :: nat) \<in> {9, 10, 11, 12, 13, 28, 29, 30, 31, 32}"

definition strip :: "string \<Rightarrow> string" where
  "strip s = rev (dropWhile is_space (rev (dropWhile is_space s)))"

fun split_on :: "char \<Rightarrow> string \<Rightarrow> string list" where
  "split_on d [] = [[]]"
| "split_on d (c # cs) = (if c = d then [] # split_on d cs
     else (case split_on d cs of [] \<Rightarrow> [[c]] | w # ws \<Rightarrow> (c # w) # ws))"

lemma split_on_nonempty [simp]: "split_on d s \<noteq> []"
  by (induction s) (auto split: list.splits)

lemma split_on_no_delim: "d \<notin> set s \<Longrightarrow> split_on d s = [s]"
  by (induction s) auto

lemma split_on_append:
  "d \<notin> set s \<Longrightarrow> split_on d (s @ d # t) = s # split_on d t"
  by (induction s) auto

definition is_digit :: "char \<Rightarrow> bool" where
  "is_digit c \<longleftrightarrow> 48 \<le> (of_char c :: nat) \<and> (of_char c :: nat) \<le> 57"

definition is_upper :: "char \<Rightarrow> bool" where
  "is_upper c \<longleftrightarrow> 65 \<le> (of_char c :: nat) \<and> (of_char c :: nat) \<le> 90"

definition is_lower :: "char \<Rightarrow> bool" where
  "is_lower c \<longleftrightarrow> 97 \<le> (of_char c :: nat) \<and> (of_char c :: nat) \<le> 122"

definition isalnum :: "string \<Rightarrow> bool" where
  "isalnum s \<longleftrightarrow> s \<noteq> [] \<and> list_all (\<lambda>c. is_digit c \<or> is_upper c \<or> is_lower c) s"

section \<open>Decimal rendering of integers\<close>

definition digit_char :: "nat \<Rightarrow> char" where
  "digit_char d = char_of (48 + d)"

fun str_nat :: "nat \<Rightarrow> string" where
  "str_nat n = (if n < 10 then [digit_char n] else str_nat (n div 10) @ [digit_char (n mod 10)])"

declare str_nat.simps [simp del]

definition str_int :: "int \<Rightarrow> string" where
  "str_int i = (if i < 0 then CHR ''-'' # str_nat (nat (- i)) else str_nat (nat i))"

lemma digit_char_inj: "a < 10 \<Longrightarrow> b < 10 \<Longrightarrow> digit_char a = digit_char b \<Longrightarrow> a = b"
  by (auto simp: digit_char_def of_char_of dest!: arg_cong [of _ _ "of_char :: char \<Rightarrow> nat"])

lemma is_digit_digit_char: "d < 10 \<Longrightarrow> is_digit (digit_char d)"
  by (simp add: is_digit_def digit_char_def of_char_of)

lemma str_nat_digits: "list_all is_digit (str_nat n)"
proof (induction n rule: str_nat.induct)
  case (1 n)
  then show ?case by (subst str_nat.simps) (auto simp: is_digit_digit_char)
qed

lemma str_nat_nonempty [simp]: "str_nat n \<noteq> []"
  by (subst str_nat.simps) simp

lemma str_nat_inj: "str_nat m = str_nat n \<Longrightarrow> m = n"
proof (induction m arbitrary: n rule: str_nat.induct)
  case (1 m)
  consider (small) "m < 10" "n < 10" | (ml) "m < 10" "\<not> n < 10" | (nl) "\<not> m < 10" "n < 10"
    | (big) "\<not> m < 10" "\<not> n < 10" by blast
  then show ?case
  proof cases
    case small
    with 1 show ?thesis by (auto simp: str_nat.simps [of m] str_nat.simps [of n] dest: digit_char_inj)
  next
    case ml
    with 1 show ?thesis by (metis append_is_Nil_conv append1_eq_conv append_Nil str_nat.simps
        str_nat_nonempty)
  next
    case nl
    with 1 show ?thesis by (simp add: str_nat.simps [of m] str_nat.simps [of n])
  next
    case big
    with 1 have eqs: "str_nat (m div 10) = str_nat (n div 10)"
        "digit_char (m mod 10) = digit_char (n mod 10)"
      by (simp_all add: str_nat.simps [of m] str_nat.simps [of n])
    from eqs(2) have "m mod 10 = n mod 10" by (rule digit_char_inj [rotated 2]) simp_all
    moreover from 1 big eqs(1) have "m div 10 = n div 10" by blast
    ultimately show ?thesis by (metis div_mult_mod_eq)
  qed
qed

lemma digit_not_minus: "is_digit c \<Longrightarrow> c \<noteq> CHR ''-''"
  by (auto simp: is_digit_def)

lemma str_nat_no_minus: "str_nat n \<noteq> CHR ''-'' # s"
proof
  assume "str_nat n = CHR ''-'' # s"
  with str_nat_digits [of n] show False by (simp add: is_digit_def)
qed

lemma str_int_inj: "str_int i = str_int j \<Longrightarrow> i = j"
  by (auto simp: str_int_def str_nat_no_minus str_nat_no_minus [symmetric] split: if_splits
      dest: str_nat_inj)

lemma str_int_no_underscore: "CHR ''_'' \<notin> set (str_int i)" "CHR '','' \<notin> set (str_int i)"
  using str_nat_digits [of "nat i"] str_nat_digits [of "nat (- i)"]
  by (auto simp: str_int_def list_all_iff is_digit_def)

section \<open>Rounding\<close>

text \<open>Python's \<open>round(x, n)\<close>: to the nearest multiple of \<open>10^-n\<close>, ties to the even one.\<close>

definition py_round :: "nat \<Rightarrow> real \<Rightarrow> real" where
  "py_round n x =
    (let y = x * 10 ^ n; f = \<lfloor>y\<rfloor>; d = y - of_int f
     in of_int (if d < 1 / 2 then f else if d > 1 / 2 then f + 1 else if even f then f else f + 1) / 10 ^ n)"

lemma py_round_0 [simp]: "py_round n 0 = 0"
  by (simp add: py_round_def)

lemma py_round_nonneg: "0 \<le> x \<Longrightarrow> 0 \<le> py_round n x"
  by (auto simp: py_round_def Let_def intro!: divide_nonneg_nonneg add_nonneg_nonneg)

section \<open>Dynamic values, datetimes and SQL patterns\<close>

text \<open>The JSON values that dicts of type \<open>Dict[str, Any]\<close> hold.\<close>

datatype json =
    JNull
  | JBool bool
  | JInt int
  | JNum real
  | JStr string
  | JArr "json list"
  | JObj "(string \<times> json) list"

text \<open>An optional value in a dump.\<close>

fun json_opt :: "('a \<Rightarrow> json) \<Rightarrow> 'a option \<Rightarrow> json" where
  "json_opt f None = JNull"
| "json_opt f (Some x) = f x"

text \<open>
  A Python \<open>datetime\<close> is naive or timezone-aware; ordering one against the other raises \<open>TypeError\<close>.
  A column \<open>DateTime\<close> gives back naive values, a column \<open>DateTime(timezone=True)\<close> aware ones on
  PostgreSQL.
\<close>

datatype datetime = Naive real | Aware real

fun dt_less :: "datetime \<Rightarrow> datetime \<Rightarrow> bool res" where
  "dt_less (Naive a) (Naive b) = Inr (a < b)"
| "dt_less (Aware a) (Aware b) = Inr (a < b)"
| "dt_less _ _ = Inl TypeError"

fun dt_secs :: "datetime \<Rightarrow> real" where
  "dt_secs (Naive a) = a"
| "dt_secs (Aware a) = a"

text \<open>The SQL operator \<open>LIKE\<close> with its wildcards and the default escape character.\<close>

fun sql_like :: "string \<Rightarrow> string \<Rightarrow> bool" where
  "sql_like [] s = (s = [])"
| "sql_like (p # ps) s =
    (if p = CHR ''%'' then sql_like ps s \<or> (case s of [] \<Rightarrow> False | c # cs \<Rightarrow> sql_like (p # ps) cs)
     else if p = CHR 92 then (case (ps, s) of (q # qs, c # cs) \<Rightarrow> q = c \<and> sql_like qs cs | _ \<Rightarrow> False)
     else (case s of [] \<Rightarrow> False | c # cs \<Rightarrow> (p = CHR ''_'' \<or> p = c) \<and> sql_like ps cs))"

declare sql_like.simps(2) [simp del]

lemma sql_like_any: "sql_like ''%'' s"
proof (induction s)
  case Nil
  show ?case by (subst sql_like.simps) simp
next
  case (Cons c s)
  then show ?case by (subst sql_like.simps) simp
qed

lemma sql_like_literal:
  assumes "c \<noteq> CHR ''%''" "c \<noteq> CHR ''_''" "c \<noteq> CHR 92"
  shows "sql_like (c # ps) s \<longleftrightarrow> (case s of [] \<Rightarrow> False | d # ds \<Rightarrow> c = d \<and> sql_like ps ds)"
  using assms by (subst sql_like.simps) (simp split: list.splits)

lemma sql_like_prefix:
  assumes "CHR ''%'' \<notin> set p" "CHR ''_'' \<notin> set p" "CHR 92 \<notin> set p"
  shows "sql_like (p @ ''%'') s \<longleftrightarrow> startswith s p"
  using assms
proof (induction p arbitrary: s)
  case Nil
  then show ?case by (simp add: sql_like_any startswith_def)
next
  case (Cons c p)
  then have c: "c \<noteq> CHR ''%''" "c \<noteq> CHR ''_''" "c \<noteq> CHR 92" by auto
  show ?case
    using Cons by (simp add: sql_like_literal [OF c] startswith_def split: list.splits)
qed

section \<open>Tables\<close>

definition upd_where :: "('r \<Rightarrow> bool) \<Rightarrow> ('r \<Rightarrow> 'r) \<Rightarrow> 'r list \<Rightarrow> 'r list" where
  "upd_where p f = map (\<lambda>r. if p r then f r else r)"

definition del_where :: "('r \<Rightarrow> bool) \<Rightarrow> 'r list \<Rightarrow> 'r list" where
  "del_where p = filter (\<lambda>r. \<not> p r)"

lemma find_upd_where_key [table_simps]:
  assumes "\<And>r. key (f r) = key r"
  shows "find (\<lambda>r. key r = k') (upd_where (\<lambda>r. key r = k) f t) =
    (if k' = k then map_option f (find (\<lambda>r. key r = k) t) else find (\<lambda>r. key r = k') t)"
  by (induction t) (auto simp: upd_where_def assms)

lemma find_set_row [table_simps]:
  assumes "key r' = k'"
  shows "find (\<lambda>x. key x = k) (upd_where (\<lambda>x. key x = k') (\<lambda>_. r') t) =
    (if k = k' then map_option (\<lambda>_. r') (find (\<lambda>x. key x = k') t) else find (\<lambda>x. key x = k) t)"
  using assms by (induction t) (auto simp: upd_where_def)

lemma map_set_row:
  assumes "key r' = k'"
  shows "map key (upd_where (\<lambda>x. key x = k') (\<lambda>_. r') t) = map key t"
  using assms by (induction t) (auto simp: upd_where_def)

lemma map_set_row_field:
  assumes "distinct (map key t)" "find (\<lambda>x. key x = k) t = Some r" "f r' = f r"
  shows "map f (upd_where (\<lambda>x. key x = k) (\<lambda>_. r') t) = map f t"
  using assms
proof (induction t)
  case (Cons x t)
  have "map f (upd_where (\<lambda>x. key x = k) (\<lambda>_. r') t) = map f t" if "k \<notin> set (map key t)"
    using that by (auto simp: upd_where_def image_iff)
  with Cons show ?case by (auto simp: upd_where_def split: if_splits)
qed (simp add: upd_where_def)

lemma set_set_row: "set (upd_where (\<lambda>x. key x = k) (\<lambda>_. r') t) \<subseteq> insert r' {r \<in> set t. key r \<noteq> k}"
  by (auto simp: upd_where_def)

lemma upd_where_twice:
  "key a = k \<Longrightarrow> upd_where (\<lambda>x. key x = k) (\<lambda>_. b) (upd_where (\<lambda>x. key x = k) (\<lambda>_. a) t)
    = upd_where (\<lambda>x. key x = k) (\<lambda>_. b) t"
  by (simp add: upd_where_def)

lemma find_append [table_simps]:
  "find p (xs @ ys) = (case find p xs of None \<Rightarrow> find p ys | Some x \<Rightarrow> Some x)"
  by (induction xs) auto

lemma set_upd_where: "set (upd_where p f t) = f ` {r \<in> set t. p r} \<union> {r \<in> set t. \<not> p r}"
  by (auto simp: upd_where_def)

lemma map_upd_where:
  assumes "\<And>r. key (f r) = key r"
  shows "map key (upd_where p f t) = map key t"
  by (induction t) (auto simp: upd_where_def assms)

lemma length_upd_where [simp]: "length (upd_where p f t) = length t"
  by (simp add: upd_where_def)

lemma find_SomeD: "find p t = Some r \<Longrightarrow> r \<in> set t \<and> p r"
  by (induction t) (auto split: if_splits)

lemma find_Some_key: "find (\<lambda>r. key r = k) t = Some r \<Longrightarrow> key r = k"
  using find_SomeD by fastforce

lemma find_None_iff_all: "find p t = None \<longleftrightarrow> (\<forall>r\<in>set t. \<not> p r)"
  by (auto simp: find_None_iff)

lemma find_distinct_key:
  assumes "distinct (map key t)" "r \<in> set t"
  shows "find (\<lambda>x. key x = key r) t = Some r"
  using assms by (induction t) (auto simp: image_iff)

section \<open>Keyset pagination\<close>

text \<open>
  On a list that is strictly descending in a key, the rows below the key of position \<open>n\<close> are exactly
  the rows after it. This is the law behind every \<open>(created_at, id) < cursor\<close> query.
\<close>

lemma filter_below_key:
  fixes k :: "'r \<Rightarrow> 'k::linorder"
  assumes "sorted_wrt (\<lambda>a b. k a > k b) L" "n < length L"
  shows "filter (\<lambda>r. k r < k (L ! n)) L = drop (Suc n) L"
  using assms
proof (induction L arbitrary: n)
  case Nil
  then show ?case by simp
next
  case (Cons x L)
  show ?case
  proof (cases n)
    case 0
    with Cons.prems show ?thesis by (auto simp: filter_id_conv)
  next
    case (Suc m)
    with Cons.prems have "k (L ! m) < k x" by simp
    then have "\<not> k x < k (L ! m)" by simp
    with Cons Suc show ?thesis by simp
  qed
qed

lemma sorted_desc_strict:
  fixes k :: "'r \<Rightarrow> 'k::linorder"
  assumes "distinct (map k q)"
  shows "sorted_wrt (\<lambda>a b. k a > k b) (rev (sort_key k q))"
proof -
  have "distinct (map k (sort_key k q))"
    using assms by (metis distinct_map distinct_sort set_sort)
  then have "sorted_wrt (<) (map k (sort_key k q))"
    by (simp add: strict_sorted_iff)
  then show ?thesis by (simp add: sorted_wrt_rev sorted_wrt_map)
qed

lemma rev_sort_filter: "rev (sort_key k (filter P q)) = filter P (rev (sort_key k q))"
  by (simp add: filter_sort flip: rev_filter)

lemma strip_id: "\<forall>c\<in>set s. \<not> is_space c \<Longrightarrow> strip s = s"
proof -
  assume "\<forall>c\<in>set s. \<not> is_space c"
  then have "dropWhile is_space t = t" if "set t = set s" for t using that by (cases t) auto
  then show "strip s = s" by (simp add: strip_def)
qed

lemma concat_chunks: "concat (map (\<lambda>i. take k (drop (i * k) xs)) [0..<n]) = take (n * k) xs"
proof (induction n)
  case (Suc n)
  have "take (Suc n * k) xs = take (n * k) xs @ take k (drop (n * k) xs)" by (simp add: add.commute [of k] take_add)
  then show ?case using Suc by simp
qed simp

section \<open>Status machines\<close>

text \<open>
  The interface of a status policy: a finite table of allowed transitions together with the statuses
  that are final. Payments, outages and deliveries each provide one; the lemmas of the
  locale hold for every sequence of transitions the policy accepts.
\<close>

locale status_policy =
  fixes allowed :: "'st \<Rightarrow> 'st \<Rightarrow> bool"
    and final :: "'st \<Rightarrow> bool"
  assumes final_stays: "final s \<Longrightarrow> allowed s t \<Longrightarrow> t = s"
begin

inductive run :: "'st \<Rightarrow> 'st list \<Rightarrow> 'st \<Rightarrow> bool" where
  run_nil: "run s [] s"
| run_cons: "allowed s t \<Longrightarrow> run t ts u \<Longrightarrow> run s (t # ts) u"

lemma run_final: "run s ts u \<Longrightarrow> final s \<Longrightarrow> u = s \<and> set ts \<subseteq> {s}"
  by (induction rule: run.induct) (auto dest: final_stays)

lemma run_append: "run s ts u \<Longrightarrow> run u us v \<Longrightarrow> run s (ts @ us) v"
  by (induction rule: run.induct) (auto intro: run.intros)

end

section \<open>State machines\<close>

text \<open>
  The interface of a component with a step relation: an invariant every request keeps, and a reflexive and
  transitive relation of growth (rows are never removed, links never move) that holds between the states before
  and after a request in an admissible state. Every component provides it; both then hold for whole histories.
\<close>

locale step_system =
  fixes step :: "'s \<Rightarrow> 's \<Rightarrow> bool"
    and inv :: "'s \<Rightarrow> bool"
  assumes step_inv: "step s t \<Longrightarrow> inv s \<Longrightarrow> inv t"
begin

lemma history_inv: "step\<^sup>*\<^sup>* s t \<Longrightarrow> inv s \<Longrightarrow> inv t"
  by (induction rule: rtranclp_induct) (auto dest: step_inv)

end

locale growing_system = step_system step inv
  for step :: "'s \<Rightarrow> 's \<Rightarrow> bool" and inv :: "'s \<Rightarrow> bool" +
  fixes grow :: "'s \<Rightarrow> 's \<Rightarrow> bool"
  assumes grow_refl: "grow s s"
    and grow_trans: "grow s t \<Longrightarrow> grow t u \<Longrightarrow> grow s u"
    and step_grow: "step s t \<Longrightarrow> inv s \<Longrightarrow> grow s t"
begin

lemma history_grow: "step\<^sup>*\<^sup>* s t \<Longrightarrow> inv s \<Longrightarrow> grow s t"
proof (induction rule: rtranclp_induct)
  case (step u v)
  then show ?case using grow_trans step_grow history_inv by blast
qed (rule grow_refl)

lemma history_keeps: "step\<^sup>*\<^sup>* s t \<Longrightarrow> inv s \<Longrightarrow> inv t \<and> grow s t"
  using history_inv history_grow by blast

end

end
