(* ===== verification/SlaEngine.thy ===== *)
theory SlaEngine
  imports NocBase
begin

text \<open>
  The SLA engine: \<open>app/services/sla/config.py\<close> (the severity table and its accessors),
  \<open>app/services/sla/sla_calculator.py\<close> (penalty and reward computation), the SLA models of
  \<open>app/models/sla.py\<close>, the contract-result translation of \<open>app/services/contracts/translation.py\<close> and
  the handlers of \<open>app/api/v1/endpoints/sla.py\<close> that only compute. The module-level dict \<open>SLA_CONFIG\<close>
  is the state and is passed explicitly.

  The lemmas relate the integer arithmetic of the calculator to a reference written with exact
  comparisons, and derive from it the sign, the bounds and the monotonicity of the payout.
\<close>

section \<open>Models\<close>

datatype sla_state = in_progress | met | violated
datatype payment_kind = reward | penalty
datatype sla_rating = exceptional | excellent | good | poor

record sla_severity_config =
  threshold_minutes :: int
  penalty_per_minute :: int
  reward_base :: int

record sla_result =
  res_id :: "int option"
  res_outage_id :: string
  res_status :: sla_state
  res_mttr :: int
  res_threshold :: int
  res_amount :: int
  res_payment_type :: payment_kind
  res_rating :: sla_rating
  res_policy_version :: string
  res_threshold_source :: string
  res_reason_code :: "string option"
  res_decision_trace :: "string option"

record sla_status_response =
  st_outage_id :: string
  st_state :: sla_state
  st_mttr :: "int option"
  st_threshold :: int
  st_remaining :: "int option"

text \<open>The string values of the enums, as \<open>.value\<close> renders them.\<close>

fun payment_kind_str :: "payment_kind \<Rightarrow> string" where
  "payment_kind_str reward = ''reward''"
| "payment_kind_str penalty = ''penalty''"

fun rating_str :: "sla_rating \<Rightarrow> string" where
  "rating_str exceptional = ''exceptional''"
| "rating_str excellent = ''excellent''"
| "rating_str good = ''good''"
| "rating_str poor = ''poor''"

fun sla_state_str :: "sla_state \<Rightarrow> string" where
  "sla_state_str in_progress = ''in_progress''"
| "sla_state_str met = ''met''"
| "sla_state_str violated = ''violated''"

section \<open>Configuration\<close>

type_synonym sla_config = "(string \<times> sla_severity_config) list"

definition SLA_CONFIG :: sla_config where
  "SLA_CONFIG =
    [(''critical'', \<lparr>threshold_minutes = 15, penalty_per_minute = 100, reward_base = 750\<rparr>),
     (''high'', \<lparr>threshold_minutes = 30, penalty_per_minute = 50, reward_base = 750\<rparr>),
     (''medium'', \<lparr>threshold_minutes = 60, penalty_per_minute = 25, reward_base = 750\<rparr>),
     (''low'', \<lparr>threshold_minutes = 120, penalty_per_minute = 10, reward_base = 600\<rparr>)]"

text \<open>\<open>SLASeverityConfig(**values)\<close>: every field carries \<open>Field(..., ge=0)\<close>.\<close>

definition SLASeverityConfig :: "sla_severity_config \<Rightarrow> sla_severity_config res" where
  "SLASeverityConfig c = (if 0 \<le> threshold_minutes c \<and> 0 \<le> penalty_per_minute c \<and> 0 \<le> reward_base c
     then Inr c else Inl ValidationError)"

text \<open>The dict comprehension builds the entries in order and stops at the first that fails.\<close>

fun get_all_config :: "sla_config \<Rightarrow> sla_config res" where
  "get_all_config [] = Inr []"
| "get_all_config ((severity, values) # rest) =
    (case SLASeverityConfig values of
       Inl e \<Rightarrow> Inl e
     | Inr c \<Rightarrow> (case get_all_config rest of Inl e \<Rightarrow> Inl e | Inr cs \<Rightarrow> Inr ((severity, c) # cs)))"

definition get_config_for_severity :: "sla_config \<Rightarrow> string \<Rightarrow> sla_severity_config res" where
  "get_config_for_severity cfg severity =
    (let normalized = lower severity in
     case map_of cfg normalized of
       None \<Rightarrow> Inl (ValueError (''Unknown severity level: '' @ severity))
     | Some v \<Rightarrow> SLASeverityConfig v)"

definition update_config_for_severity ::
  "sla_config \<Rightarrow> string \<Rightarrow> sla_severity_config \<Rightarrow> sla_severity_config res \<times> sla_config" where
  "update_config_for_severity cfg severity payload =
    (let normalized = lower severity in
     if map_of cfg normalized = None
     then (Inl (ValueError (''Unknown severity level: '' @ severity)), cfg)
     else (let cfg' = AList.update normalized payload cfg in
           (case map_of cfg' normalized of
              None \<Rightarrow> (Inl (KeyError normalized), cfg')
            | Some v \<Rightarrow> (SLASeverityConfig v, cfg'))))"

section \<open>Calculator\<close>

text \<open>
  \<open>SLACalculator.calculate\<close>. The \<open>try\<close> catches only a \<open>ValidationError\<close> of the stored row (the severity
  is known to be present); its fallback binds the raw dict, whose attribute access then raises.
\<close>

definition calculate ::
  "sla_config \<Rightarrow> string \<Rightarrow> string \<Rightarrow> int \<Rightarrow> string \<Rightarrow> string \<Rightarrow> sla_result res" where
  "calculate cfg outage_id severity0 mttr policy_version threshold_source =
    (let severity = lower severity0 in
     if map_of cfg severity = None then Inl (ValueError (''Unknown severity level: '' @ severity))
     else case get_config_for_severity cfg severity of
       Inl e \<Rightarrow> if is_ValueError e then Inl (AttributeError ''threshold_minutes'') else Inl e
     | Inr config \<Rightarrow>
       (let threshold = threshold_minutes config in
        if mttr > threshold then
          (let overtime = mttr - threshold; pen = overtime * penalty_per_minute config in
           Inr \<lparr>res_id = None, res_outage_id = outage_id, res_status = violated, res_mttr = mttr,
                res_threshold = threshold, res_amount = - pen, res_payment_type = penalty,
                res_rating = poor, res_policy_version = policy_version,
                res_threshold_source = threshold_source, res_reason_code = Some ''mttr_exceeded'',
                res_decision_trace = Some (''MTTR '' @ str_int mttr @ '' > threshold '' @ str_int threshold
                  @ '' (overtime '' @ str_int overtime @ '' minutes)'')\<rparr>)
        else
          (let performance_ratio = (if threshold = 0 then 0 else (mttr * 100) div threshold);
               (multiplier, rating, reason_code) =
                 (if performance_ratio < 50 then (200, exceptional, ''met_exceptional'')
                  else if performance_ratio < 75 then (150, excellent, ''met_excellent'')
                  else (100, good, ''met_good''));
               rew = (reward_base config * multiplier) div 100 in
           Inr \<lparr>res_id = None, res_outage_id = outage_id, res_status = met, res_mttr = mttr,
                res_threshold = threshold, res_amount = rew, res_payment_type = reward,
                res_rating = rating, res_policy_version = policy_version,
                res_threshold_source = threshold_source, res_reason_code = Some reason_code,
                res_decision_trace = Some (''MTTR '' @ str_int mttr @ '' <= threshold '' @ str_int threshold
                  @ '', performance ratio '' @ str_int performance_ratio @ ''%, rating '' @ rating_str rating)\<rparr>)))"

section \<open>Handlers that only compute\<close>

definition get_sla_status :: "sla_config \<Rightarrow> string \<Rightarrow> string \<Rightarrow> int \<Rightarrow> sla_status_response res" where
  "get_sla_status cfg outage_id severity mttr =
    (case calculate cfg outage_id severity mttr ''1.0'' ''config'' of
       Inl e \<Rightarrow> Inl e
     | Inr r \<Rightarrow> Inr \<lparr>st_outage_id = outage_id, st_state = res_status r, st_mttr = Some mttr,
         st_threshold = res_threshold r,
         st_remaining = Some (if res_status r = met then max 0 (res_threshold r - mttr) else 0)\<rparr>)"

definition calculate_sla ::
  "sla_config \<Rightarrow> string \<Rightarrow> string \<Rightarrow> int \<Rightarrow> string \<Rightarrow> string \<Rightarrow> sla_result res" where
  "calculate_sla cfg outage_id severity mttr policy_version threshold_source =
    http_on_ValueError 400 (calculate cfg outage_id severity mttr policy_version threshold_source)"

text \<open>\<open>Severity\<close> of \<open>app/models/enums.py\<close>.\<close>

datatype severity = critical | high | medium | low

fun severity_str :: "severity \<Rightarrow> string" where
  "severity_str critical = ''critical''"
| "severity_str high = ''high''"
| "severity_str medium = ''medium''"
| "severity_str low = ''low''"

definition preview_sla :: "sla_config \<Rightarrow> severity \<Rightarrow> int \<Rightarrow> sla_result res" where
  "preview_sla cfg sev mttr = calculate_sla cfg ''PREVIEW'' (severity_str sev) mttr ''1.0'' ''config''"

definition get_sla_config_by_severity :: "sla_config \<Rightarrow> string \<Rightarrow> sla_severity_config res" where
  "get_sla_config_by_severity cfg severity = http_on_ValueError 404 (get_config_for_severity cfg severity)"

definition update_sla_config ::
  "sla_config \<Rightarrow> string \<Rightarrow> sla_severity_config \<Rightarrow> sla_severity_config res \<times> sla_config" where
  "update_sla_config cfg severity payload =
    (let (r, cfg') = update_config_for_severity cfg severity payload in (http_on_ValueError 404 r, cfg'))"

section \<open>Translation of contract results\<close>

text \<open>
  The raw dict a contract returns, with \<open>None\<close> for an absent key. The constructor call supplies neither
  \<open>policy_version\<close> nor \<open>threshold_source\<close>, which \<open>SLAResult\<close> declares as required fields.
\<close>

record raw_contract_result =
  rc_outage_id :: "string option"
  rc_status :: "string option"
  rc_mttr :: "int option"
  rc_threshold :: "int option"
  rc_amount :: "int option"
  rc_payment_type :: "string option"
  rc_rating :: "string option"

definition rating_table :: "(string \<times> sla_rating) list" where
  "rating_table = [(''top'', exceptional), (''high'', excellent), (''good'', good), (''poor'', poor)]"

definition SLAResult_init ::
  "string \<Rightarrow> sla_state \<Rightarrow> int \<Rightarrow> int \<Rightarrow> int \<Rightarrow> payment_kind \<Rightarrow> sla_rating \<Rightarrow>
   string option \<Rightarrow> string option \<Rightarrow> sla_result res" where
  "SLAResult_init oid st m t a k r policy_version threshold_source =
    (case (policy_version, threshold_source) of
       (Some pv, Some ts) \<Rightarrow>
         Inr \<lparr>res_id = None, res_outage_id = oid, res_status = st, res_mttr = m, res_threshold = t,
           res_amount = a, res_payment_type = k, res_rating = r, res_policy_version = pv,
           res_threshold_source = ts, res_reason_code = None, res_decision_trace = None\<rparr>
     | _ \<Rightarrow> Inl ValidationError)"

definition req :: "string \<Rightarrow> 'a option \<Rightarrow> ('a \<Rightarrow> 'b res) \<Rightarrow> 'b res" where
  "req k v cont = (case v of None \<Rightarrow> Inl (KeyError k) | Some x \<Rightarrow> cont x)"

definition translate_contract_result :: "raw_contract_result \<Rightarrow> sla_result res" where
  "translate_contract_result raw =
    req ''outage_id'' (rc_outage_id raw) (\<lambda>oid.
    req ''status'' (rc_status raw) (\<lambda>st.
    req ''mttr_minutes'' (rc_mttr raw) (\<lambda>m.
    req ''threshold_minutes'' (rc_threshold raw) (\<lambda>t.
    req ''amount'' (rc_amount raw) (\<lambda>a.
    req ''payment_type'' (rc_payment_type raw) (\<lambda>k.
    req ''rating'' (rc_rating raw) (\<lambda>rt.
    req rt (map_of rating_table rt) (\<lambda>r.
      SLAResult_init oid (if st = ''viol'' then violated else met) m t a
        (if k = ''pen'' then penalty else reward) r None None))))))))"


section \<open>A reference for the payout and the laws of the calculator\<close>

definition config_ok :: "sla_config \<Rightarrow> bool" where
  "config_ok cfg \<longleftrightarrow> list_all (\<lambda>(s, c). 0 \<le> threshold_minutes c \<and> 0 \<le> penalty_per_minute c
     \<and> 0 \<le> reward_base c) cfg"

text \<open>
  The reference states the bands with exact comparisons: at most half of the threshold, at most three
  quarters of it, at most the threshold, beyond it.
\<close>

definition rating_ref :: "sla_severity_config \<Rightarrow> int \<Rightarrow> sla_rating" where
  "rating_ref c m = (if m > threshold_minutes c then poor
     else if threshold_minutes c = 0 \<or> 2 * m < threshold_minutes c then exceptional
     else if 4 * m < 3 * threshold_minutes c then excellent else good)"

definition payout_ref :: "sla_severity_config \<Rightarrow> int \<Rightarrow> int" where
  "payout_ref c m = (case rating_ref c m of
     poor \<Rightarrow> (threshold_minutes c - m) * penalty_per_minute c
   | exceptional \<Rightarrow> 2 * reward_base c
   | excellent \<Rightarrow> (3 * reward_base c) div 2
   | good \<Rightarrow> reward_base c)"

lemma div_less_pos_iff:
  assumes t: "0 < (t::int)"
  shows "a div t < n \<longleftrightarrow> a < n * t"
proof -
  have split: "a = a div t * t + a mod t" "0 \<le> a mod t" "a mod t < t" using t by simp_all
  show ?thesis
  proof
    assume "a div t < n"
    then have "(a div t + 1) * t \<le> n * t" using t by (intro mult_right_mono) auto
    then have "a div t * t + t \<le> n * t" by (simp add: algebra_simps)
    then show "a < n * t" using split by linarith
  next
    assume "a < n * t"
    then have "a div t * t < n * t" using split by linarith
    then show "a div t < n" using t by simp
  qed
qed

lemma ratio_bands:
  assumes "0 < (t::int)"
  shows "(m * 100) div t < 50 \<longleftrightarrow> 2 * m < t" "(m * 100) div t < 75 \<longleftrightarrow> 4 * m < 3 * t"
  using assms by (simp_all add: div_less_pos_iff)

lemma config_okD: "config_ok cfg \<Longrightarrow> map_of cfg s = Some c \<Longrightarrow>
    0 \<le> threshold_minutes c \<and> 0 \<le> penalty_per_minute c \<and> 0 \<le> reward_base c"
  by (induction cfg) (auto simp: config_ok_def split: if_splits)

lemma get_config_ok:
  "config_ok cfg \<Longrightarrow> map_of cfg (lower s) = Some c \<Longrightarrow> get_config_for_severity cfg s = Inr c"
  by (auto simp: get_config_for_severity_def SLASeverityConfig_def Let_def dest: config_okD)

lemma calculate_unknown:
  "map_of cfg (lower s) = None \<Longrightarrow>
   calculate cfg oid s m pv ts = Inl (ValueError (''Unknown severity level: '' @ lower s))"
  by (simp add: calculate_def)

text \<open>The result the calculator returns for a known severity, up to its two descriptive strings.\<close>

definition result_ref :: "sla_severity_config \<Rightarrow> string \<Rightarrow> int \<Rightarrow> string \<Rightarrow> string \<Rightarrow> string option \<Rightarrow>
    string option \<Rightarrow> sla_result" where
  "result_ref c oid m pv ts rc tr =
    \<lparr>res_id = None, res_outage_id = oid, res_status = (if rating_ref c m = poor then violated else met),
     res_mttr = m, res_threshold = threshold_minutes c, res_amount = payout_ref c m,
     res_payment_type = (if rating_ref c m = poor then penalty else reward),
     res_rating = rating_ref c m, res_policy_version = pv, res_threshold_source = ts,
     res_reason_code = rc, res_decision_trace = tr\<rparr>"

lemma calculate_known:
  assumes "config_ok cfg" "map_of cfg (lower s) = Some c"
  shows "\<exists>rc tr. calculate cfg oid s m pv ts = Inr (result_ref c oid m pv ts rc tr)"
proof -
  from assms have g: "get_config_for_severity cfg (lower s) = Inr c"
    by (simp add: get_config_ok)
  note unf = calculate_def g assms(2) Let_def result_ref_def payout_ref_def rating_ref_def
  have nn: "0 \<le> threshold_minutes c" using assms config_okD by blast
  consider (over) "m > threshold_minutes c"
    | (zero) "m \<le> threshold_minutes c" "threshold_minutes c = 0"
    | (top) "m \<le> threshold_minutes c" "0 < threshold_minutes c" "2 * m < threshold_minutes c"
    | (mid) "m \<le> threshold_minutes c" "0 < threshold_minutes c" "\<not> 2 * m < threshold_minutes c"
        "4 * m < 3 * threshold_minutes c"
    | (low) "m \<le> threshold_minutes c" "0 < threshold_minutes c" "\<not> 2 * m < threshold_minutes c"
        "\<not> 4 * m < 3 * threshold_minutes c"
    using nn by linarith
  then show ?thesis
    by cases (auto simp: unf ratio_bands algebra_simps)
qed

lemma calculate_Inr_cases:
  assumes "config_ok cfg" "calculate cfg oid s m pv ts = Inr r"
  obtains c rc tr where "map_of cfg (lower s) = Some c" "r = result_ref c oid m pv ts rc tr"
  using assms calculate_known [OF assms(1)] calculate_unknown [of cfg s oid m pv ts]
  by (metis Inl_Inr_False not_None_eq sum.inject(2))

lemma payout_ref_bounds:
  assumes "0 \<le> penalty_per_minute c" "0 \<le> reward_base c"
  shows "m \<le> threshold_minutes c \<Longrightarrow> reward_base c \<le> payout_ref c m"
    "payout_ref c m \<le> 2 * reward_base c"
    "m > threshold_minutes c \<Longrightarrow> payout_ref c m \<le> 0"
  using assms
  by (auto simp: payout_ref_def rating_ref_def mult_nonpos_nonneg
      intro: order_trans [of _ 0])

lemma payout_ref_antitone:
  assumes c: "0 \<le> penalty_per_minute c" "0 \<le> reward_base c" and le: "m1 \<le> m2"
  shows "payout_ref c m2 \<le> payout_ref c m1"
proof (cases "m2 > threshold_minutes c")
  case True
  note over = True
  show ?thesis
  proof (cases "m1 > threshold_minutes c")
    case True
    with over le c show ?thesis
      by (simp add: payout_ref_def rating_ref_def mult_right_mono)
  next
    case False
    then have "0 \<le> payout_ref c m1" using payout_ref_bounds(1) [OF c, of m1] c by simp
    then show ?thesis using payout_ref_bounds(3) [OF c over] by simp
  qed
next
  case False
  with le have "m1 \<le> threshold_minutes c" "m2 \<le> threshold_minutes c" by auto
  with le c show ?thesis by (auto simp: payout_ref_def rating_ref_def)
qed

section \<open>Properties\<close>

text \<open>
  C1. For a valid configuration the calculator is total on the configured severities (in any letter
  case) and rejects every other one; its floor-division bands are exactly the bands of the reference,
  and status, payment type and amount follow from the same band.
\<close>

theorem calculate_refines_reference:
  assumes "config_ok cfg"
  shows "case calculate cfg oid s m pv ts of
      Inl e \<Rightarrow> map_of cfg (lower s) = None \<and> e = ValueError (''Unknown severity level: '' @ lower s)
    | Inr r \<Rightarrow> (\<exists>c. map_of cfg (lower s) = Some c \<and> res_amount r = payout_ref c m
        \<and> res_rating r = rating_ref c m \<and> res_threshold r = threshold_minutes c
        \<and> (res_status r = violated) = (threshold_minutes c < m)
        \<and> (res_payment_type r = penalty) = (threshold_minutes c < m)
        \<and> res_outage_id r = oid \<and> res_mttr r = m \<and> res_policy_version r = pv)"
proof (cases "map_of cfg (lower s)")
  case None
  then show ?thesis by (simp add: calculate_unknown)
next
  case (Some c)
  from calculate_known [OF assms Some] obtain rc tr
    where "calculate cfg oid s m pv ts = Inr (result_ref c oid m pv ts rc tr)" by blast
  then show ?thesis using Some by (auto simp: result_ref_def rating_ref_def)
qed

theorem calculate_refines_reference_witness:
  "config_ok SLA_CONFIG \<and> (case calculate SLA_CONFIG ''o1'' ''High'' 20 ''1.0'' ''config'' of
      Inl e \<Rightarrow> False | Inr r \<Rightarrow> res_amount r = 1125)"
proof -
  have ok: "config_ok SLA_CONFIG" by code_simp
  have "lower ''High'' = ''high''" by code_simp
  with calculate_refines_reference
      [OF ok, where oid = "''o1''" and s = "''High''" and m = 20 and pv = "''1.0''" and ts = "''config''"] ok
  show ?thesis
    by (auto simp: SLA_CONFIG_def payout_ref_def rating_ref_def split: sum.splits)
qed

text \<open>
  C13. A longer repair never pays more: for one severity of a valid configuration the amount is
  antitone in the repair time, across the reward bands and into the penalty range.
\<close>

theorem payout_antitone:
  assumes "config_ok cfg" "m1 \<le> m2"
    and "calculate cfg o1 s m1 pv ts = Inr r1" "calculate cfg o2 s m2 pv ts = Inr r2"
  shows "res_amount r2 \<le> res_amount r1"
proof -
  obtain c rc tr where c: "map_of cfg (lower s) = Some c" "r1 = result_ref c o1 m1 pv ts rc tr"
    using calculate_Inr_cases [OF assms(1,3)] by blast
  obtain rc' tr' where "r2 = result_ref c o2 m2 pv ts rc' tr'"
    using calculate_Inr_cases [OF assms(1,4)] c(1) by (metis option.inject)
  then show ?thesis
    using c payout_ref_antitone [OF _ _ assms(2)] config_okD [OF assms(1) c(1)]
    by (simp add: result_ref_def)
qed

theorem payout_antitone_witness:
  "\<exists>r1 r2. calculate SLA_CONFIG ''a'' ''low'' 10 ''1.0'' ''config'' = Inr r1
     \<and> calculate SLA_CONFIG ''b'' ''low'' 130 ''1.0'' ''config'' = Inr r2 \<and> res_amount r2 \<le> res_amount r1"
proof -
  have ok: "config_ok SLA_CONFIG" by code_simp
  have l: "lower ''low'' = ''low''" by code_simp
  then obtain c where c: "map_of SLA_CONFIG (lower ''low'') = Some c" by (simp add: SLA_CONFIG_def)
  obtain r1 where r1: "calculate SLA_CONFIG ''a'' ''low'' 10 ''1.0'' ''config'' = Inr r1"
    using calculate_known [OF ok c] by blast
  obtain r2 where r2: "calculate SLA_CONFIG ''b'' ''low'' 130 ''1.0'' ''config'' = Inr r2"
    using calculate_known [OF ok c] by blast
  show ?thesis using payout_antitone [OF ok _ r1 r2] r1 r2 by auto
qed

text \<open>
  The amount is bounded by the configuration: a met outage earns between one and two reward bases,
  a violated one never earns anything.
\<close>

theorem payout_bounds:
  assumes "config_ok cfg" "calculate cfg oid s m pv ts = Inr r"
  shows "\<exists>c. map_of cfg (lower s) = Some c \<and> res_amount r \<le> 2 * reward_base c
    \<and> (if res_status r = met then reward_base c \<le> res_amount r else res_amount r \<le> 0)"
proof -
  obtain c rc tr where c: "map_of cfg (lower s) = Some c" "r = result_ref c oid m pv ts rc tr"
    using calculate_Inr_cases [OF assms] by blast
  moreover have "0 \<le> penalty_per_minute c" "0 \<le> reward_base c" using config_okD [OF assms(1) c(1)] by auto
  note payout_ref_bounds [OF this, of m]
  ultimately show ?thesis by (auto simp: result_ref_def rating_ref_def)
qed

theorem payout_bounds_witness:
  "\<exists>r. calculate SLA_CONFIG ''a'' ''critical'' 40 ''1.0'' ''config'' = Inr r \<and> res_amount r \<le> 1500"
proof -
  have ok: "config_ok SLA_CONFIG" by code_simp
  have l: "lower ''critical'' = ''critical''" by code_simp
  then obtain c where c: "map_of SLA_CONFIG (lower ''critical'') = Some c" by (simp add: SLA_CONFIG_def)
  obtain r where r: "calculate SLA_CONFIG ''a'' ''critical'' 40 ''1.0'' ''config'' = Inr r"
    using calculate_known [OF ok c] by blast
  show ?thesis using payout_bounds [OF ok r] r l by (auto simp: SLA_CONFIG_def)
qed

text \<open>
  Updating a severity is a round trip and touches nothing else: reading it back in any letter
  case returns the payload, every other severity reads as before, and a valid table stays valid.
\<close>

theorem config_update_roundtrip:
  assumes "config_ok cfg" "SLASeverityConfig payload = Inr payload" "map_of cfg (lower s) \<noteq> None"
    and "update_config_for_severity cfg s payload = (r, cfg')"
  shows "r = Inr payload \<and> config_ok cfg'
    \<and> (\<forall>s'. get_config_for_severity cfg' s' =
        (if lower s' = lower s then Inr payload else get_config_for_severity cfg s'))"
proof -
  have cfg': "cfg' = AList.update (lower s) payload cfg" and r: "r = Inr payload"
    using assms by (auto simp: update_config_for_severity_def Let_def update_conv')
  have "config_ok (AList.update k payload xs)" if "config_ok xs" for k xs
    using that assms(2)
    by (induction xs) (auto simp: config_ok_def SLASeverityConfig_def split: if_splits)
  then show ?thesis
    using assms(1,2) by (auto simp: cfg' r get_config_for_severity_def Let_def update_conv')
qed

theorem config_update_roundtrip_witness:
  "fst (update_config_for_severity SLA_CONFIG ''LOW''
     \<lparr>threshold_minutes = 90, penalty_per_minute = 5, reward_base = 100\<rparr>)
   = Inr \<lparr>threshold_minutes = 90, penalty_per_minute = 5, reward_base = 100\<rparr>"
proof -
  let ?p = "\<lparr>threshold_minutes = 90, penalty_per_minute = 5, reward_base = 100\<rparr>"
  have ok: "config_ok SLA_CONFIG" by code_simp
  have v: "SLASeverityConfig ?p = Inr ?p" by (simp add: SLASeverityConfig_def)
  have l: "lower ''LOW'' = ''low''" by code_simp
  then have "map_of SLA_CONFIG (lower ''LOW'') \<noteq> None" by (simp add: SLA_CONFIG_def)
  from config_update_roundtrip [OF ok v this surjective_pairing] show ?thesis by simp
qed

text \<open>
  \<open>translate_contract_result\<close> never returns: whatever the contract answered, the constructor call
  lacks two required fields of \<open>SLAResult\<close>, so the bridge path of the outage handlers raises.
\<close>

theorem translate_contract_result_raises: "\<exists>e. translate_contract_result raw = Inl e"
  by (auto simp: translate_contract_result_def req_def SLAResult_init_def split: option.splits)

end
