(* ===== verification/AuditTrail.thy ===== *)
theory AuditTrail
  imports NocBase
begin

text \<open>
  The audit trail, \<open>app/services/audit_log.py\<close>: sanitising of event details, appending of events and the
  filtered listing. The table is the list of entries in insertion order. The correlation id of the
  request context (\<open>get_correlation_id()\<close>) is an argument.
\<close>

record audit_entry =
  ev_type :: string
  ev_email :: "string option"
  ev_actor :: "string option"
  ev_correlation :: "string option"
  ev_details :: "(string \<times> json) list"
  ev_created_at :: real

definition SENSITIVE_KEYS :: "string list" where
  "SENSITIVE_KEYS = [''password'', ''token'', ''access_token'', ''refresh_token'', ''secret'', ''secret_key'',
    ''seed'', ''secret_seed'', ''private_key'', ''mnemonic'', ''signing_key'', ''wallet_secret'']"

definition redacted_mark :: json where
  "redacted_mark = JStr ''[REDACTED]''"

text \<open>\<open>_sanitize\<close>: copy the dict, then overwrite each sensitive key that is present.\<close>

definition sanitize_key :: "string \<Rightarrow> (string \<times> json) list \<Rightarrow> (string \<times> json) list" where
  "sanitize_key key safe = (if map_of safe key \<noteq> None then AList.update key redacted_mark safe else safe)"

definition sanitize :: "(string \<times> json) list option \<Rightarrow> (string \<times> json) list" where
  "sanitize details = (case details of
     None \<Rightarrow> []
   | Some d \<Rightarrow> (if d = [] then [] else fold sanitize_key SENSITIVE_KEYS d))"

definition log_event ::
  "real \<Rightarrow> string option \<Rightarrow> string \<Rightarrow> string option \<Rightarrow> string option \<Rightarrow> (string \<times> json) list option \<Rightarrow>
   string option \<Rightarrow> audit_entry list \<Rightarrow> audit_entry list" where
  "log_event now ctx_correlation event_type email actor_id details correlation_id log0 =
    log0 @ [\<lparr>ev_type = event_type, ev_email = email, ev_actor = actor_id,
      ev_correlation = (case correlation_id of None \<Rightarrow> ctx_correlation | Some c \<Rightarrow> Some c),
      ev_details = sanitize details, ev_created_at = now\<rparr>]"

text \<open>\<open>audit_log.log(event_type, details)\<close> as the handlers call it, with no actor.\<close>

definition audit_log :: "real \<Rightarrow> string option \<Rightarrow> string \<Rightarrow> (string \<times> json) list \<Rightarrow> audit_entry list \<Rightarrow>
    audit_entry list" where
  "audit_log now ctx event_type details log0 = log_event now ctx event_type None None (Some details) None log0"

text \<open>\<open>AuditLogService.list\<close>: prefix filter by \<open>LIKE\<close>, newest first, one page.\<close>

definition newest_first :: "audit_entry list \<Rightarrow> audit_entry list" where
  "newest_first es = rev (sort_key ev_created_at es)"

definition list_audit ::
  "string option \<Rightarrow> string option \<Rightarrow> nat \<Rightarrow> nat \<Rightarrow> audit_entry list \<Rightarrow> audit_entry list" where
  "list_audit event_type_prefix bridge_outcome limit offset log0 =
    (let q1 = (case event_type_prefix of
                 None \<Rightarrow> log0
               | Some p \<Rightarrow> if p = [] then log0 else filter (\<lambda>e. sql_like (p @ ''%'') (ev_type e)) log0);
         q2 = (case bridge_outcome of
                 None \<Rightarrow> q1
               | Some oc \<Rightarrow> if oc = [] then q1
                   else filter (\<lambda>e. sql_like ''bridge.%'' (ev_type e)
                          \<and> map_of (ev_details e) ''outcome_class'' = Some (JStr oc)) q1)
     in take limit (drop offset (newest_first q2)))"

section \<open>Laws of the trail\<close>

lemma map_of_sanitize_key:
  "map_of (sanitize_key key d) k =
    (if k = key \<and> map_of d k \<noteq> None then Some redacted_mark else map_of d k)"
  by (auto simp: sanitize_key_def update_conv')

lemma map_of_fold_sanitize:
  "map_of (fold sanitize_key keys d) k =
    (if k \<in> set keys \<and> map_of d k \<noteq> None then Some redacted_mark else map_of d k)"
  by (induction keys arbitrary: d) (auto simp: map_of_sanitize_key)

lemma map_of_sanitize:
  "map_of (sanitize (Some d)) k =
    (if k \<in> set SENSITIVE_KEYS \<and> map_of d k \<noteq> None then Some redacted_mark else map_of d k)"
  by (auto simp: sanitize_def map_of_fold_sanitize)

lemma sanitize_None [simp]: "sanitize None = []"
  by (simp add: sanitize_def)

text \<open>No entry stores the value of a sensitive top-level key.\<close>

definition trail_clean :: "audit_entry list \<Rightarrow> bool" where
  "trail_clean log0 \<longleftrightarrow> list_all (\<lambda>e. list_all (\<lambda>k. map_of (ev_details e) k \<in> {None, Some redacted_mark})
     SENSITIVE_KEYS) log0"

lemma trail_clean_log_event:
  "trail_clean log0 \<Longrightarrow> trail_clean (log_event now ctx et em ac d corr log0)"
  by (cases d) (auto simp: trail_clean_def log_event_def list_all_iff map_of_sanitize)

lemma trail_clean_audit_log: "trail_clean log0 \<Longrightarrow> trail_clean (audit_log now ctx et d log0)"
  by (simp add: audit_log_def trail_clean_log_event)

lemma length_log_event [simp]: "length (log_event now ctx et em ac d corr log0) = Suc (length log0)"
  by (simp add: log_event_def)

section \<open>Properties\<close>

text \<open>
  Appending an event keeps every earlier entry, redacts the value of every sensitive key of the
  details and keeps every other key as it was given; a trail without stored secrets stays so.
\<close>

theorem log_event_redacts:
  "\<exists>e. log_event now ctx et em ac (Some d) corr log0 = log0 @ [e] \<and> ev_type e = et
    \<and> (\<forall>k. map_of (ev_details e) k =
         (if k \<in> set SENSITIVE_KEYS \<and> map_of d k \<noteq> None then Some redacted_mark else map_of d k))
    \<and> trail_clean (log0 @ [e]) = trail_clean log0"
proof -
  have clean: "trail_clean [\<lparr>ev_type = et, ev_email = em, ev_actor = ac, ev_correlation = co,
      ev_details = sanitize (Some d), ev_created_at = now\<rparr>]" for co
    by (simp add: trail_clean_def list_all_iff map_of_sanitize)
  then have "trail_clean (log0 @ [\<lparr>ev_type = et, ev_email = em, ev_actor = ac, ev_correlation = co,
      ev_details = sanitize (Some d), ev_created_at = now\<rparr>]) = trail_clean log0" for co
    by (simp add: trail_clean_def)
  then show ?thesis unfolding log_event_def by (intro exI conjI refl) (auto simp: map_of_sanitize)
qed

text \<open>
  The listing pages through the trail newest first: it returns only entries whose type the prefix
  pattern accepts, at most \<open>limit\<close> of them, sorted by time descending, and for a prefix without SQL
  wildcards the pattern is the plain string prefix.
\<close>

theorem list_audit_page:
  fixes limit offset :: nat and log0 :: "audit_entry list"
  assumes "p \<noteq> []" "CHR ''%'' \<notin> set p" "CHR ''_'' \<notin> set p" "CHR 92 \<notin> set p"
  defines "page \<equiv> list_audit (Some p) None limit offset log0"
  shows "set page \<subseteq> {e \<in> set log0. startswith (ev_type e) p} \<and> length page \<le> limit
    \<and> sorted (rev (map ev_created_at page))
    \<and> (length log0 \<le> limit \<longrightarrow> offset = 0 \<longrightarrow> mset page = mset (filter (\<lambda>e. startswith (ev_type e) p) log0))"
proof -
  have pg: "page = take limit (drop offset (newest_first (filter (\<lambda>e. startswith (ev_type e) p) log0)))"
    using assms by (simp add: list_audit_def sql_like_prefix)
  have "sorted (rev (map ev_created_at (newest_first es)))" for es
    by (simp add: newest_first_def rev_map)
  then have "sorted_wrt (\<ge>) (map ev_created_at (newest_first es))" for es
    by (simp add: sorted_wrt_rev)
  then have "sorted_wrt (\<ge>) (map ev_created_at page)"
    by (simp add: pg sorted_wrt_take sorted_wrt_drop flip: take_map drop_map)
  then have srt: "sorted (rev (map ev_created_at page))" by (simp add: sorted_wrt_rev)
  have sub: "set page \<subseteq> {e \<in> set log0. startswith (ev_type e) p}"
    by (auto simp: pg newest_first_def dest!: in_set_takeD in_set_dropD)
  have "length (newest_first (filter (\<lambda>e. startswith (ev_type e) p) log0)) \<le> length log0"
    by (simp add: newest_first_def)
  then show ?thesis using srt sub by (auto simp: pg) (auto simp: newest_first_def)
qed

theorem list_audit_page_witness:
  "list_audit (Some ''wallet.'') None 2 0
     [\<lparr>ev_type = ''wallet.created'', ev_email = None, ev_actor = None, ev_correlation = None,
       ev_details = [], ev_created_at = 1\<rparr>] \<noteq> []
   \<and> length (list_audit (Some ''wallet.'') None 2 0
     [\<lparr>ev_type = ''wallet.created'', ev_email = None, ev_actor = None, ev_correlation = None,
       ev_details = [], ev_created_at = 1\<rparr>]) \<le> 2"
proof -
  let ?e = "\<lparr>ev_type = ''wallet.created'', ev_email = None, ev_actor = None, ev_correlation = None,
       ev_details = [], ev_created_at = 1\<rparr> :: audit_entry"
  from list_audit_page [where p = "''wallet.''" and limit = 2 and offset = 0 and ?log0.0 = "[?e]"]
  have "length (list_audit (Some ''wallet.'') None 2 0 [?e]) \<le> 2
    \<and> mset (list_audit (Some ''wallet.'') None 2 0 [?e]) = mset [?e]"
    by (simp add: startswith_def)
  then show ?thesis by auto
qed

end
