(* ===== verification/Payments.thy ===== *)
theory Payments
  imports SlaEngine AuditTrail
begin

text \<open>
  The payment domain: the transition policy of \<open>app/models/payment.py\<close>, the table and operations of
  \<open>app/repositories/payment_repository.py\<close> and the constraints of \<open>app/models/orm/payment.py\<close>.

  The table is the list of rows; the unique columns (primary key, transaction hash, SLA result,
  idempotency key) are enforced by \<open>insert_payment\<close> as the database does at commit. The clock and the
  hex digits \<open>uuid4\<close> returns are arguments; amounts are exact reals.
\<close>

section \<open>Status policy\<close>

datatype payment_status = pending | confirmed | failed | dead_letter

fun payment_status_str :: "payment_status \<Rightarrow> string" where
  "payment_status_str pending = ''pending''"
| "payment_status_str confirmed = ''confirmed''"
| "payment_status_str failed = ''failed''"
| "payment_status_str dead_letter = ''dead_letter''"

text \<open>\<open>PaymentStatus(s)\<close>, with \<open>None\<close> for the \<open>ValueError\<close> of an unknown value.\<close>

definition PaymentStatus :: "string \<Rightarrow> payment_status option" where
  "PaymentStatus s = (if s = ''pending'' then Some pending else if s = ''confirmed'' then Some confirmed
     else if s = ''failed'' then Some failed else if s = ''dead_letter'' then Some dead_letter else None)"

fun VALID_TRANSITIONS :: "payment_status \<Rightarrow> payment_status list" where
  "VALID_TRANSITIONS pending = [confirmed, failed]"
| "VALID_TRANSITIONS confirmed = []"
| "VALID_TRANSITIONS failed = [pending]"
| "VALID_TRANSITIONS dead_letter = [pending]"

definition validate_transition :: "string \<Rightarrow> string \<Rightarrow> unit res" where
  "validate_transition current next_status =
    (case (PaymentStatus current, PaymentStatus next_status) of
       (Some current_enum, Some next_enum) \<Rightarrow>
         (if next_enum \<notin> set (VALID_TRANSITIONS current_enum)
          then Inl (PaymentTransitionError current next_status
                 (map payment_status_str (VALID_TRANSITIONS current_enum)))
          else Inr ())
     | (Some current_enum, None) \<Rightarrow>
         Inl (PaymentTransitionError current next_status
                (map payment_status_str (VALID_TRANSITIONS current_enum)))
     | (None, _) \<Rightarrow> Inl (PaymentTransitionError current next_status []))"

section \<open>Rows\<close>

record payment_row =
  p_id :: string
  p_hash :: string
  p_type :: string
  p_amount :: real
  p_asset :: string
  p_from :: string
  p_to :: string
  p_status :: string
  p_outage_id :: string
  p_sla_result_id :: "int option"
  p_created_at :: real
  p_confirmed_at :: "real option"
  p_retry_count :: int
  p_last_retried_at :: "real option"
  p_failure_taxonomy :: "string option"
  p_idempotency_key :: "string option"
  p_dead_letter_reason :: "string option"
  p_dead_lettered_at :: "real option"

record payment_transaction = payment_row +
  p_residual :: real

definition payment_to_pydantic :: "payment_row \<Rightarrow> payment_transaction" where
  "payment_to_pydantic orm = payment_row.extend orm \<lparr>p_residual = 0\<rparr>"

type_synonym payments = "payment_row list"

text \<open>The unique columns; a nullable unique column admits any number of nulls.\<close>

definition unique_clash :: "payment_row \<Rightarrow> payment_row \<Rightarrow> bool" where
  "unique_clash a b \<longleftrightarrow> p_id a = p_id b \<or> p_hash a = p_hash b
     \<or> (p_sla_result_id a \<noteq> None \<and> p_sla_result_id a = p_sla_result_id b)
     \<or> (p_idempotency_key a \<noteq> None \<and> p_idempotency_key a = p_idempotency_key b)"

definition insert_payment :: "payment_row \<Rightarrow> payments \<Rightarrow> payment_transaction res \<times> payments" where
  "insert_payment orm t = (if list_ex (unique_clash orm) t then (Inl (IntegrityError ''payment_transactions''), t)
     else (Inr (payment_to_pydantic orm), t @ [orm]))"

section \<open>Repository operations\<close>

text \<open>\<open>create\<close> copies thirteen columns; the others take the column defaults.\<close>

definition create_payment :: "payment_row \<Rightarrow> payments \<Rightarrow> payment_transaction res \<times> payments" where
  "create_payment data t = insert_payment
    (data\<lparr>p_retry_count := 0, p_last_retried_at := None, p_failure_taxonomy := None,
       p_dead_letter_reason := None, p_dead_lettered_at := None\<rparr>) t"

definition create_with_submit :: "payment_row \<Rightarrow> payments \<Rightarrow> payment_transaction res \<times> payments" where
  "create_with_submit data t = insert_payment
    (data\<lparr>p_confirmed_at := None, p_idempotency_key := None, p_retry_count := 0, p_last_retried_at := None,
       p_failure_taxonomy := None, p_dead_letter_reason := None, p_dead_lettered_at := None\<rparr>) t"

definition find_payment :: "string \<Rightarrow> payments \<Rightarrow> payment_row option" where
  "find_payment tid t = find (\<lambda>r. p_id r = tid) t"

definition get_payment_row :: "string \<Rightarrow> payments \<Rightarrow> payment_transaction option" where
  "get_payment_row tid t = map_option payment_to_pydantic (find_payment tid t)"

definition get_by_sla_result :: "int \<Rightarrow> payments \<Rightarrow> payment_transaction option" where
  "get_by_sla_result rid t = map_option payment_to_pydantic (find (\<lambda>r. p_sla_result_id r = Some rid) t)"

text \<open>A string filter applies when the argument is neither \<open>None\<close> nor empty.\<close>

definition opt_filter :: "('r \<Rightarrow> string) \<Rightarrow> string option \<Rightarrow> 'r list \<Rightarrow> 'r list" where
  "opt_filter col v t = (case v of None \<Rightarrow> t | Some x \<Rightarrow> if x = [] then t else filter (\<lambda>r. col r = x) t)"

definition list_payment_rows ::
  "int \<Rightarrow> int \<Rightarrow> string option \<Rightarrow> string option \<Rightarrow> string option \<Rightarrow> real option \<Rightarrow> real option \<Rightarrow>
   payments \<Rightarrow> (payment_transaction list \<times> int) res" where
  "list_payment_rows page page_size status outage_id ty date_from date_to t =
    (let q = opt_filter p_type ty (opt_filter p_outage_id outage_id (opt_filter p_status status t));
         q = (case date_from of None \<Rightarrow> q | Some d \<Rightarrow> filter (\<lambda>r. d \<le> p_created_at r) q);
         q = (case date_to of None \<Rightarrow> q | Some d \<Rightarrow> filter (\<lambda>r. p_created_at r \<le> d) q);
         off = (page - 1) * page_size
     in if off < 0 \<or> page_size < 0 then Inl (DBError ''OFFSET must not be negative'')
        else Inr (map payment_to_pydantic
                    (take (nat page_size) (drop (nat off) (rev (sort_key p_created_at q)))), int (length q)))"

definition list_by_outage :: "string \<Rightarrow> payments \<Rightarrow> payment_transaction list" where
  "list_by_outage outage_id t = map payment_to_pydantic (filter (\<lambda>r. p_outage_id r = outage_id) t)"

text \<open>
  Keyset pagination. The cursor string \<open>"<created_at>,<id>"\<close> is kept as the pair it encodes.
\<close>

record cursor_page =
  cp_items :: "payment_transaction list"
  cp_next :: "(real \<times> string) option"
  cp_has_more :: bool

definition cursor_key :: "payment_row \<Rightarrow> real \<times> string" where
  "cursor_key r = (p_created_at r, p_id r)"

definition list_cursor ::
  "nat \<Rightarrow> (real \<times> string) option \<Rightarrow> string option \<Rightarrow> string option \<Rightarrow> string option \<Rightarrow> payments \<Rightarrow>
   cursor_page" where
  "list_cursor limit cursor status outage_id ty t =
    (let q = opt_filter p_type ty (opt_filter p_outage_id outage_id (opt_filter p_status status t));
         q = (case cursor of None \<Rightarrow> q
              | Some (d, i) \<Rightarrow> if i = [] then q else
                  filter (\<lambda>r. p_created_at r < d \<or> (p_created_at r = d \<and> p_id r < i)) q);
         rows = take (limit + 1) (rev (sort_key cursor_key q));
         has_more = length rows > limit;
         items = take limit rows
     in \<lparr>cp_items = map payment_to_pydantic items,
         cp_next = (if has_more \<and> items \<noteq> [] then Some (cursor_key (last items)) else None),
         cp_has_more = has_more\<rparr>)"

text \<open>Dead letters: \<open>ORDER BY dead_lettered_at DESC NULLS LAST, created_at DESC\<close>.\<close>

definition dead_key :: "payment_row \<Rightarrow> bool \<times> real \<times> real" where
  "dead_key r = (case p_dead_lettered_at r of None \<Rightarrow> (False, 0, p_created_at r)
     | Some d \<Rightarrow> (True, d, p_created_at r))"

definition list_dead_letter :: "payments \<Rightarrow> payment_transaction list" where
  "list_dead_letter t = map payment_to_pydantic
     (rev (sort_key dead_key (filter (\<lambda>r. p_status r = ''dead_letter'') t)))"

definition set_payment :: "string \<Rightarrow> payment_row \<Rightarrow> payments \<Rightarrow> payments" where
  "set_payment tid r t = upd_where (\<lambda>x. p_id x = tid) (\<lambda>_. r) t"

definition replay_dead_letter :: "real \<Rightarrow> string \<Rightarrow> payments \<Rightarrow> payment_transaction option res \<times> payments" where
  "replay_dead_letter now tid t =
    (case find_payment tid t of
       None \<Rightarrow> (Inr None, t)
     | Some orm \<Rightarrow>
       if p_status orm \<noteq> ''dead_letter'' then (Inr None, t)
       else (case validate_transition (p_status orm) ''pending'' of
           Inl e \<Rightarrow> (Inl e, t)
         | Inr _ \<Rightarrow>
           (let orm' = orm\<lparr>p_status := ''pending'', p_retry_count := 0, p_last_retried_at := Some now,
                  p_dead_letter_reason := None, p_dead_lettered_at := None\<rparr>
            in (Inr (Some (payment_to_pydantic orm')), set_payment tid orm' t))))"

definition update_status ::
  "real \<Rightarrow> string \<Rightarrow> string \<Rightarrow> payments \<Rightarrow> payment_transaction option res \<times> payments" where
  "update_status now tid status t =
    (case find_payment tid t of
       None \<Rightarrow> (Inr None, t)
     | Some orm \<Rightarrow>
       (case validate_transition (p_status orm) status of
          Inl e \<Rightarrow> (Inl e, t)
        | Inr _ \<Rightarrow>
          (let orm' = orm\<lparr>p_status := status\<rparr>;
               orm'' = (if status = ''confirmed'' then orm'\<lparr>p_confirmed_at := Some now\<rparr> else orm')
           in (Inr (Some (payment_to_pydantic orm'')), set_payment tid orm'' t))))"

record payment_settings =
  PAYMENT_ASSET_CODE :: string
  PAYMENT_FROM_ADDRESS :: string
  PAYMENT_TO_ADDRESS :: string

definition sla_payment :: "payment_settings \<Rightarrow> real \<Rightarrow> string \<Rightarrow> string \<Rightarrow> int \<Rightarrow> sla_result \<Rightarrow> payment_row" where
  "sla_payment st now uid outage_id rid sla =
    \<lparr>p_id = ''pay_'' @ take 12 uid,
     p_hash = ''sla-'' @ str_int rid @ ''-'' @ payment_kind_str (res_payment_type sla),
     p_type = payment_kind_str (res_payment_type sla), p_amount = \<bar>real_of_int (res_amount sla)\<bar>,
     p_asset = PAYMENT_ASSET_CODE st, p_from = PAYMENT_FROM_ADDRESS st, p_to = PAYMENT_TO_ADDRESS st,
     p_status = ''pending'', p_outage_id = outage_id, p_sla_result_id = Some rid, p_created_at = now,
     p_confirmed_at = None, p_retry_count = 0, p_last_retried_at = None, p_failure_taxonomy = None,
     p_idempotency_key = Some (''sla_result_'' @ str_int rid @ ''_'' @ payment_kind_str (res_payment_type sla)),
     p_dead_letter_reason = None, p_dead_lettered_at = None\<rparr>"

definition create_for_sla_result ::
  "payment_settings \<Rightarrow> real \<Rightarrow> string \<Rightarrow> string \<Rightarrow> sla_result \<Rightarrow> payments \<Rightarrow>
   payment_transaction res \<times> payments" where
  "create_for_sla_result st now uid outage_id sla t =
    (case res_id sla of
       None \<Rightarrow> (Inl (ValueError ''SLA result id is required to generate a payment record''), t)
     | Some rid \<Rightarrow>
       (case get_by_sla_result rid t of
          Some existing \<Rightarrow> (Inr existing, t)
        | None \<Rightarrow> create_payment (sla_payment st now uid outage_id rid sla) t))"

section \<open>Reconciliation and retry\<close>

record reconciliation_report =
  rr_matched :: int
  rr_delayed :: int
  rr_missing :: int
  rr_divergent :: int
  rr_items :: "json list"

text \<open>
  The pydantic constructor reads its five declared fields and ignores every other keyword
  (\<open>extra\<close> is not configured, so its default \<open>ignore\<close> applies).
\<close>

definition kw_int :: "(string \<times> json) list \<Rightarrow> string \<Rightarrow> int" where
  "kw_int kw k = (case map_of kw k of Some (JInt i) \<Rightarrow> i | _ \<Rightarrow> 0)"

definition ReconciliationReport :: "(string \<times> json) list \<Rightarrow> reconciliation_report" where
  "ReconciliationReport kw = \<lparr>rr_matched = kw_int kw ''matched'', rr_delayed = kw_int kw ''delayed'',
     rr_missing = kw_int kw ''missing'', rr_divergent = kw_int kw ''divergent'',
     rr_items = (case map_of kw ''items'' of Some (JArr xs) \<Rightarrow> xs | _ \<Rightarrow> [])\<rparr>"

definition report_kwargs :: "string \<Rightarrow> string \<Rightarrow> string \<Rightarrow> string \<Rightarrow> string option \<Rightarrow> (string \<times> json) list" where
  "report_kwargs tid local expected category reason =
    [(''transaction_id'', JStr tid), (''local_status'', JStr local), (''blockchain_status'', JStr expected),
     (''category'', JStr category)] @
    (case reason of None \<Rightarrow> []
     | Some why \<Rightarrow> [(''details'', JObj [(''expected_status'', JStr expected), (''reason'', JStr why)])])"

definition reconcile_one :: "payments \<Rightarrow> string \<times> string \<Rightarrow> reconciliation_report" where
  "reconcile_one t te = (case te of (tid, expected) \<Rightarrow>
    (case find_payment tid t of
       None \<Rightarrow> ReconciliationReport (report_kwargs tid ''unknown'' expected ''missing''
                 (Some ''payment not found in local db''))
     | Some orm \<Rightarrow>
       if p_status orm = expected then
         ReconciliationReport (report_kwargs tid (p_status orm) expected ''matched'' None)
       else if p_status orm = ''pending'' then
         ReconciliationReport (report_kwargs tid (p_status orm) expected ''delayed''
           (Some ''payment still pending locally''))
       else
         ReconciliationReport (report_kwargs tid (p_status orm) expected ''divergent''
           (Some (''local status '' @ quoted (p_status orm) @ '' != expected '' @ quoted expected)))))"

definition reconcile_all :: "(string \<times> string) list \<Rightarrow> payments \<Rightarrow> reconciliation_report list" where
  "reconcile_all expected_statuses t = map (reconcile_one t) expected_statuses"

definition reconcile ::
  "real \<Rightarrow> string \<Rightarrow> string \<Rightarrow> payments \<Rightarrow> payment_transaction option res \<times> payments" where
  "reconcile now tid new_status t =
    (case find_payment tid t of
       None \<Rightarrow> (Inr None, t)
     | Some orm \<Rightarrow>
       (case validate_transition (p_status orm) new_status of
          Inl e \<Rightarrow> (Inl e, t)
        | Inr _ \<Rightarrow>
          (let orm' = orm\<lparr>p_status := new_status\<rparr>;
               orm'' = (if new_status = ''confirmed'' then orm'\<lparr>p_confirmed_at := Some now\<rparr> else orm')
           in (Inr (Some (payment_to_pydantic orm'')), set_payment tid orm'' t))))"

definition MAX_RETRIES :: int where
  "MAX_RETRIES = 3"

definition retry :: "real \<Rightarrow> string \<Rightarrow> payments \<Rightarrow> payment_transaction option res \<times> payments" where
  "retry now tid t =
    (case find_payment tid t of
       None \<Rightarrow> (Inr None, t)
     | Some orm \<Rightarrow>
       if p_retry_count orm \<ge> MAX_RETRIES then (Inr None, t)
       else (case validate_transition (p_status orm) ''pending'' of
           Inl e \<Rightarrow> (Inl e, t)
         | Inr _ \<Rightarrow>
           (let orm' = orm\<lparr>p_retry_count := p_retry_count orm + 1, p_last_retried_at := Some now,
                  p_status := ''pending''\<rparr>
            in (Inr (Some (payment_to_pydantic orm')), set_payment tid orm' t))))"

section \<open>History read from the audit trail\<close>

definition HISTORY_EVENT_TYPES :: "string list" where
  "HISTORY_EVENT_TYPES = [''payment_reconciled'', ''payment_retried'']"

definition history_rows :: "string \<Rightarrow> audit_entry list \<Rightarrow> audit_entry list" where
  "history_rows tid log0 = filter (\<lambda>r. ev_details r \<noteq> [] \<and> map_of (ev_details r) ''id'' = Some (JStr tid))
     (sort_key ev_created_at (filter (\<lambda>r. ev_type r \<in> set HISTORY_EVENT_TYPES) log0))"

record history_entry =
  he_event_type :: string
  he_actor :: "string option"
  he_previous :: "json option"
  he_new :: "json option"
  he_timestamp :: real
  he_details :: "(string \<times> json) list option"

text \<open>Truthiness of a looked-up value, for \<open>details.get("status") or details.get("new_status")\<close>.\<close>

fun truthy :: "json option \<Rightarrow> bool" where
  "truthy None = False"
| "truthy (Some JNull) = False"
| "truthy (Some (JBool b)) = b"
| "truthy (Some (JInt i)) = (i \<noteq> 0)"
| "truthy (Some (JNum x)) = (x \<noteq> 0)"
| "truthy (Some (JStr s)) = (s \<noteq> [])"
| "truthy (Some (JArr xs)) = (xs \<noteq> [])"
| "truthy (Some (JObj xs)) = (xs \<noteq> [])"

definition reconciliation_entry :: "audit_entry \<Rightarrow> history_entry" where
  "reconciliation_entry r =
    (let d = ev_details r;
         rest = filter (\<lambda>(k, v). k \<notin> {''previous_status'', ''status'', ''new_status'', ''id''}) d
     in \<lparr>he_event_type = ev_type r, he_actor = ev_email r,
         he_previous = map_of d ''previous_status'',
         he_new = (if truthy (map_of d ''status'') then map_of d ''status'' else map_of d ''new_status''),
         he_timestamp = ev_created_at r,
         he_details = (if rest = [] then None else Some rest)\<rparr>)"

definition get_reconciliation_history :: "string \<Rightarrow> audit_entry list \<Rightarrow> history_entry list" where
  "get_reconciliation_history tid log0 = map reconciliation_entry (history_rows tid log0)"

section \<open>Laws of the policy\<close>

lemma PaymentStatus_str [simp]: "PaymentStatus (payment_status_str s) = Some s"
  by (cases s) (simp_all add: PaymentStatus_def)

lemma PaymentStatus_SomeD: "PaymentStatus s = Some x \<Longrightarrow> s = payment_status_str x"
  by (auto simp: PaymentStatus_def split: if_splits)

lemma validate_transition_ok_iff:
  "validate_transition c n = Inr () \<longleftrightarrow>
    (\<exists>a b. c = payment_status_str a \<and> n = payment_status_str b \<and> b \<in> set (VALID_TRANSITIONS a))"
  by (auto simp: validate_transition_def split: option.splits if_splits dest: PaymentStatus_SomeD)

lemma validate_transition_cases:
  "validate_transition c n = Inr () \<or> (\<exists>al. validate_transition c n = Inl (PaymentTransitionError c n al))"
  by (auto simp: validate_transition_def split: option.splits)

lemma validate_to_pending:
  "validate_transition c ''pending'' = Inr () \<longleftrightarrow> c = ''failed'' \<or> c = ''dead_letter''"
  by (simp add: validate_transition_def PaymentStatus_def)

lemma validate_from_confirmed: "validate_transition ''confirmed'' n \<noteq> Inr ()"
  by (auto simp: validate_transition_def PaymentStatus_def split: option.splits)

lemma validate_never_dead: "validate_transition c ''dead_letter'' \<noteq> Inr ()"
  by (auto simp: validate_transition_def PaymentStatus_def)

lemma validate_target_valid: "validate_transition c n = Inr () \<Longrightarrow> PaymentStatus n \<noteq> None"
  by (auto simp: validate_transition_ok_iff)

interpretation payment_policy: status_policy
  "\<lambda>c n. validate_transition c n = Inr ()" "\<lambda>s. s = ''confirmed''"
  by unfold_locales (simp add: validate_from_confirmed)

section \<open>The table as a state machine\<close>

text \<open>
  One rule per operation that writes the table, with the arguments the callers of the repository pass:
  the handlers create payments in status \<open>pending\<close> only.
\<close>

inductive payment_step :: "payments \<Rightarrow> payments \<Rightarrow> bool" where
  step_create: "p_status d = ''pending'' \<Longrightarrow> payment_step t (snd (create_payment d t))"
| step_submit: "p_status d = ''pending'' \<Longrightarrow> payment_step t (snd (create_with_submit d t))"
| step_sla: "payment_step t (snd (create_for_sla_result st now uid oid sla t))"
| step_update: "payment_step t (snd (update_status now tid st t))"
| step_reconcile: "payment_step t (snd (reconcile now tid st t))"
| step_retry: "payment_step t (snd (retry now tid t))"
| step_replay: "payment_step t (snd (replay_dead_letter now tid t))"

definition row_ok :: "payment_row \<Rightarrow> bool" where
  "row_ok r \<longleftrightarrow> PaymentStatus (p_status r) \<noteq> None \<and> 0 \<le> p_retry_count r \<and> p_retry_count r \<le> MAX_RETRIES"

definition payments_ok :: "payments \<Rightarrow> bool" where
  "payments_ok t \<longleftrightarrow> sorted_wrt (\<lambda>a b. \<not> unique_clash a b) t \<and> list_all row_ok t"

text \<open>Every operation is an insert of a fresh pending row or an update of one row.\<close>

definition row_change :: "payment_row \<Rightarrow> payment_row \<Rightarrow> bool" where
  "row_change r r' \<longleftrightarrow> p_id r' = p_id r \<and> p_hash r' = p_hash r \<and> p_sla_result_id r' = p_sla_result_id r
     \<and> p_idempotency_key r' = p_idempotency_key r \<and> p_amount r' = p_amount r \<and> p_type r' = p_type r
     \<and> p_outage_id r' = p_outage_id r
     \<and> validate_transition (p_status r) (p_status r') = Inr ()
     \<and> (p_retry_count r' \<in> {p_retry_count r, 0}
        \<or> (p_retry_count r < MAX_RETRIES \<and> p_retry_count r' = p_retry_count r + 1))"

inductive table_change :: "payments \<Rightarrow> payments \<Rightarrow> bool" where
  tc_same: "table_change t t"
| tc_insert: "p_status d = ''pending'' \<Longrightarrow> p_retry_count d = 0 \<Longrightarrow> \<not> list_ex (unique_clash d) t \<Longrightarrow>
     table_change t (t @ [d])"
| tc_update: "find_payment tid t = Some r \<Longrightarrow> row_change r r' \<Longrightarrow> table_change t (set_payment tid r' t)"

lemma find_payment_id: "find_payment tid t = Some r \<Longrightarrow> p_id r = tid"
  unfolding find_payment_def by (rule find_Some_key)

lemma insert_table_change:
  "p_status d = ''pending'' \<Longrightarrow> p_retry_count d = 0 \<Longrightarrow> table_change t (snd (insert_payment d t))"
  by (simp add: insert_payment_def tc_same tc_insert)

lemma update_status_cases:
  obtains (none) "find_payment tid t = None" "update_status now tid st t = (Inr None, t)"
  | (err) r al where "find_payment tid t = Some r"
      "update_status now tid st t = (Inl (PaymentTransitionError (p_status r) st al), t)"
  | (ok) r r' where "find_payment tid t = Some r" "validate_transition (p_status r) st = Inr ()"
      "row_change r r'" "p_status r' = st"
      "update_status now tid st t = (Inr (Some (payment_to_pydantic r')), set_payment tid r' t)"
proof (cases "find_payment tid t")
  case None
  then show thesis by (intro none) (simp_all add: update_status_def)
next
  case (Some r)
  show thesis
  proof (cases "validate_transition (p_status r) st")
    case (Inl e)
    with validate_transition_cases [of "p_status r" st] obtain al
      where "e = PaymentTransitionError (p_status r) st al" by auto
    with Inl Some show thesis by (intro err [of r al]) (simp_all add: update_status_def)
  next
    case (Inr u)
    let ?r' = "if st = ''confirmed'' then r\<lparr>p_status := st, p_confirmed_at := Some now\<rparr>
      else r\<lparr>p_status := st\<rparr>"
    from Inr Some show thesis
      by (intro ok [of r ?r']) (auto simp: update_status_def row_change_def Let_def)
  qed
qed

lemma update_table_change: "table_change t (snd (update_status now tid st t))"
  by (rule update_status_cases [of tid t now st]) (auto intro: table_change.intros)

lemma reconcile_eq_update: "reconcile now tid st t = update_status now tid st t"
  by (simp add: reconcile_def update_status_def)

lemma retry_table_change: "table_change t (snd (retry now tid t))"
proof (cases "find_payment tid t")
  case (Some r)
  then show ?thesis
    using tc_update [OF Some, of "r\<lparr>p_retry_count := p_retry_count r + 1, p_last_retried_at := Some now,
      p_status := ''pending''\<rparr>"]
    by (auto simp: retry_def Let_def row_change_def tc_same split: sum.splits)
qed (simp add: retry_def tc_same)

lemma replay_table_change: "table_change t (snd (replay_dead_letter now tid t))"
proof (cases "find_payment tid t")
  case (Some r)
  then show ?thesis
    using tc_update [OF Some, of "r\<lparr>p_status := ''pending'', p_retry_count := 0, p_last_retried_at := Some now,
      p_dead_letter_reason := None, p_dead_lettered_at := None\<rparr>"]
    by (auto simp: replay_dead_letter_def Let_def row_change_def tc_same split: sum.splits)
qed (simp add: replay_dead_letter_def tc_same)

lemma sla_table_change: "table_change t (snd (create_for_sla_result st now uid oid sla t))"
  by (auto simp: create_for_sla_result_def create_payment_def sla_payment_def split: option.splits
      intro!: table_change.intros insert_table_change)

lemma payment_step_change: "payment_step t t' \<Longrightarrow> table_change t t'"
  by (induction rule: payment_step.induct)
     (auto simp: create_payment_def create_with_submit_def reconcile_eq_update
      intro: insert_table_change update_table_change retry_table_change replay_table_change sla_table_change)

lemma row_change_ok: "row_change r r' \<Longrightarrow> row_ok r \<Longrightarrow> row_ok r'"
  by (auto simp: row_change_def row_ok_def MAX_RETRIES_def dest: validate_target_valid)

lemma unique_clash_sym: "unique_clash a b = unique_clash b a"
  by (rule iffI) (auto simp: unique_clash_def dest: sym)

lemma unique_clash_cong:
  "row_change r r' \<Longrightarrow> unique_clash r' x = unique_clash r x"
  "row_change r r' \<Longrightarrow> unique_clash x r' = unique_clash x r"
  by (auto simp: unique_clash_def row_change_def)

lemma no_clash_unique:
  "sorted_wrt (\<lambda>a b. \<not> unique_clash a b) t \<Longrightarrow> x \<in> set t \<Longrightarrow> y \<in> set t \<Longrightarrow> unique_clash x y \<Longrightarrow> x = y"
  by (induction t) (auto simp: unique_clash_sym)

lemma set_payment_alt:
  assumes "sorted_wrt (\<lambda>a b. \<not> unique_clash a b) t" "find_payment tid t = Some r"
  shows "set_payment tid r' t = map (\<lambda>x. if x = r then r' else x) t"
proof -
  have r: "r \<in> set t" "p_id r = tid"
    using assms(2) find_SomeD [of "\<lambda>r. p_id r = tid" t r] by (simp_all add: find_payment_def)
  then have "p_id x = tid \<longleftrightarrow> x = r" if "x \<in> set t" for x
    using that no_clash_unique [OF assms(1) that r(1)] by (auto simp: unique_clash_def)
  then show ?thesis by (simp add: set_payment_def upd_where_def)
qed

lemma table_change_ok:
  assumes "table_change t t'" "payments_ok t"
  shows "payments_ok t'"
  using assms
proof cases
  case tc_same
  with assms show ?thesis by simp
next
  case (tc_insert d)
  with assms(2) show ?thesis
    by (auto simp: payments_ok_def sorted_wrt_append list_ex_iff row_ok_def PaymentStatus_def MAX_RETRIES_def
        unique_clash_sym)
next
  case (tc_update tid r r')
  from assms(2) have srt: "sorted_wrt (\<lambda>a b. \<not> unique_clash a b) t" by (simp add: payments_ok_def)
  let ?g = "\<lambda>x. if x = r then r' else x"
  have eq: "t' = map ?g t" using tc_update set_payment_alt [OF srt] by simp
  have "unique_clash (?g a) (?g b) = unique_clash a b" for a b
    using tc_update(3) by (simp add: unique_clash_cong)
  then have "sorted_wrt (\<lambda>a b. \<not> unique_clash a b) t'"
    using srt by (simp add: eq sorted_wrt_map)
  moreover have "r \<in> set t"
    using tc_update(2) find_SomeD [of "\<lambda>r. p_id r = tid" t r] by (simp add: find_payment_def)
  then have "row_ok r'" using assms(2) row_change_ok [OF tc_update(3)] by (simp add: payments_ok_def list_all_iff)
  then have "list_all row_ok t'" using assms(2) unfolding eq by (auto simp: payments_ok_def list_all_iff)
  ultimately show ?thesis by (simp add: payments_ok_def)
qed

interpretation payment_table: step_system payment_step payments_ok
  by unfold_locales (rule table_change_ok [OF payment_step_change])

lemma payments_ok_steps: "payment_step\<^sup>*\<^sup>* t t' \<Longrightarrow> payments_ok t \<Longrightarrow> payments_ok t'"
  by (rule payment_table.history_inv)

lemma find_set_payment:
  "p_id r' = tid' \<Longrightarrow> find_payment tid (set_payment tid' r' t) =
    (if tid = tid' then map_option (\<lambda>_. r') (find_payment tid' t) else find_payment tid t)"
  by (simp add: find_payment_def set_payment_def find_set_row)

lemma find_payment_append:
  "find_payment tid t = Some r \<Longrightarrow> find_payment tid (t @ [d]) = Some r"
  by (simp add: find_payment_def find_append)

text \<open>A step leaves a given payment alone or changes it along the policy.\<close>

lemma table_change_row:
  assumes "table_change t t'" "find_payment tid t = Some r"
  shows "find_payment tid t' = Some r \<or> (\<exists>r'. find_payment tid t' = Some r' \<and> row_change r r')"
  using assms
proof cases
  case (tc_update tid' r0 r')
  then have "p_id r' = tid'" by (auto simp: row_change_def dest: find_payment_id)
  with tc_update assms(2) show ?thesis by (auto simp: find_set_payment)
qed (auto simp: assms find_payment_append)

lemma step_row:
  "payment_step t t' \<Longrightarrow> find_payment tid t = Some r \<Longrightarrow>
    find_payment tid t' = Some r \<or> (\<exists>r'. find_payment tid t' = Some r' \<and> row_change r r')"
  by (rule table_change_row [OF payment_step_change])

lemma steps_row_run:
  assumes "payment_step\<^sup>*\<^sup>* t t'" "find_payment tid t = Some r"
  shows "\<exists>r' ts. find_payment tid t' = Some r' \<and> payment_policy.run (p_status r) ts (p_status r')
    \<and> p_amount r' = p_amount r \<and> p_type r' = p_type r \<and> p_outage_id r' = p_outage_id r
    \<and> p_sla_result_id r' = p_sla_result_id r"
  using assms
proof (induction rule: rtranclp_induct)
  case base
  then show ?case by (auto intro: payment_policy.run_nil)
next
  case (step u v)
  then obtain x ts where x: "find_payment tid u = Some x" "payment_policy.run (p_status r) ts (p_status x)"
      "p_amount x = p_amount r" "p_type x = p_type r" "p_outage_id x = p_outage_id r"
      "p_sla_result_id x = p_sla_result_id r"
    by blast
  from step_row [OF step.hyps(2) x(1)] show ?case
  proof
    assume "\<exists>r'. find_payment tid v = Some r' \<and> row_change x r'"
    then obtain y where y: "find_payment tid v = Some y" "row_change x y" by blast
    then have "payment_policy.run (p_status x) [p_status y] (p_status y)"
      by (auto simp: row_change_def intro: payment_policy.run.intros)
    with x(2) have "payment_policy.run (p_status r) (ts @ [p_status y]) (p_status y)"
      by (rule payment_policy.run_append)
    with x y show ?thesis by (auto simp: row_change_def)
  qed (use x in blast)
qed

lemma confirmed_row_kept:
  assumes "payment_step\<^sup>*\<^sup>* t t'" "find_payment tid t = Some r" "p_status r = ''confirmed''"
  shows "find_payment tid t' = Some r"
  using assms
proof (induction rule: rtranclp_induct)
  case (step u v)
  from step_row [OF step.hyps(2) step.IH] step.prems show ?case
    by (auto simp: row_change_def validate_from_confirmed)
qed simp

lemma no_dead_letter_step:
  assumes "table_change t t'" "list_all (\<lambda>r. p_status r \<noteq> ''dead_letter'') t"
  shows "list_all (\<lambda>r. p_status r \<noteq> ''dead_letter'') t'"
  using assms
proof cases
  case (tc_update tid r r')
  then have "p_status r' \<noteq> ''dead_letter''" using validate_never_dead by (auto simp: row_change_def)
  with assms(2) tc_update show ?thesis by (auto simp: set_payment_def upd_where_def list_all_iff)
qed (use assms in auto)

section \<open>Keyset pagination visits every payment once\<close>

definition query_rows :: "string option \<Rightarrow> string option \<Rightarrow> string option \<Rightarrow> payments \<Rightarrow> payments" where
  "query_rows status outage_id ty t =
    opt_filter p_type ty (opt_filter p_outage_id outage_id (opt_filter p_status status t))"

definition ordered_rows :: "string option \<Rightarrow> string option \<Rightarrow> string option \<Rightarrow> payments \<Rightarrow> payments" where
  "ordered_rows status outage_id ty t = rev (sort_key cursor_key (query_rows status outage_id ty t))"

text \<open>The client loop: follow \<open>next_cursor\<close> while \<open>has_more\<close>; running out of fuel is \<open>None\<close>.\<close>

fun walk_pages :: "nat \<Rightarrow> nat \<Rightarrow> (real \<times> string) option \<Rightarrow> string option \<Rightarrow> string option \<Rightarrow> string option \<Rightarrow>
    payments \<Rightarrow> payment_transaction list option" where
  "walk_pages 0 limit cursor status outage_id ty t = None"
| "walk_pages (Suc fuel) limit cursor status outage_id ty t =
    (let pg = list_cursor limit cursor status outage_id ty t in
     if cp_has_more pg
     then map_option (append (cp_items pg)) (walk_pages fuel limit (cp_next pg) status outage_id ty t)
     else Some (cp_items pg))"

lemma set_opt_filter: "set (opt_filter c v t) \<subseteq> set t"
  by (auto simp: opt_filter_def split: option.splits if_splits)

lemma distinct_opt_filter: "distinct (map k t) \<Longrightarrow> distinct (map k (opt_filter c v t))"
  by (auto simp: opt_filter_def distinct_map_filter split: option.splits)

lemma length_opt_filter: "length (opt_filter c v t) \<le> length t"
  by (auto simp: opt_filter_def split: option.splits)

text \<open>The cursor that stands after the first \<open>n\<close> rows.\<close>

definition cursor_at :: "payments \<Rightarrow> nat \<Rightarrow> (real \<times> string) option" where
  "cursor_at L n = (if n = 0 then None else Some (cursor_key (L ! (n - 1))))"

lemma list_cursor_at:
  fixes t :: payments and st oi ty :: "string option"
  assumes dist: "distinct (map cursor_key t)" and ne: "list_all (\<lambda>r. p_id r \<noteq> []) t"
    and n: "n \<le> length (ordered_rows st oi ty t)" and lim: "0 < limit"
  defines "L \<equiv> ordered_rows st oi ty t"
  shows "list_cursor limit (cursor_at L n) st oi ty t =
    \<lparr>cp_items = map payment_to_pydantic (take limit (drop n L)),
     cp_next = (if limit < length L - n then cursor_at L (n + limit) else None),
     cp_has_more = (limit < length L - n)\<rparr>"
proof -
  let ?q = "query_rows st oi ty t"
  have strict: "sorted_wrt (\<lambda>a b. cursor_key a > cursor_key b) L"
    unfolding L_def ordered_rows_def
    by (intro sorted_desc_strict) (simp add: query_rows_def distinct_opt_filter dist)
  have sub: "set L \<subseteq> set t"
    by (simp add: L_def ordered_rows_def query_rows_def) (meson set_opt_filter subset_trans)
  have below: "rev (sort_key cursor_key (case cursor_at L n of None \<Rightarrow> ?q
      | Some (d, i) \<Rightarrow> if i = [] then ?q else filter (\<lambda>r. p_created_at r < d \<or> (p_created_at r = d \<and> p_id r < i)) ?q))
    = drop n L"
  proof (cases n)
    case 0
    then show ?thesis by (simp add: cursor_at_def L_def ordered_rows_def)
  next
    case (Suc m)
    then have m: "m < length L" using n by (simp add: L_def)
    then have "L ! m \<in> set t" using sub nth_mem by blast
    then have "p_id (L ! m) \<noteq> []" using ne by (simp add: list_all_iff)
    moreover have "(\<lambda>r. p_created_at r < p_created_at (L ! m) \<or> (p_created_at r = p_created_at (L ! m)
        \<and> p_id r < p_id (L ! m))) = (\<lambda>r. cursor_key r < cursor_key (L ! m))"
      by (auto simp: cursor_key_def fun_eq_iff less_prod_simp)
    moreover have "filter (\<lambda>r. cursor_key r < cursor_key (L ! m)) L = drop n L"
      using filter_below_key [OF strict m] Suc by simp
    ultimately show ?thesis
      using Suc by (simp add: cursor_at_def cursor_key_def rev_sort_filter)
        (simp add: cursor_key_def L_def ordered_rows_def)
  qed
  have last: "last (take limit (drop n L)) = L ! (n + limit - 1)" if "limit < length L - n"
    using that lim by (simp add: last_conv_nth nth_append)
  let ?rows = "take (limit + 1) (drop n L)"
  have "list_cursor limit (cursor_at L n) st oi ty t =
    \<lparr>cp_items = map payment_to_pydantic (take limit ?rows),
     cp_next = (if length ?rows > limit \<and> take limit ?rows \<noteq> []
       then Some (cursor_key (last (take limit ?rows))) else None),
     cp_has_more = (length ?rows > limit)\<rparr>"
    unfolding list_cursor_def Let_def query_rows_def [symmetric] below by (rule refl)
  moreover have "take limit ?rows = take limit (drop n L)" by simp
  moreover have "(length ?rows > limit) = (limit < length L - n)" by auto
  ultimately show ?thesis using last lim by (auto simp: cursor_at_def)
qed

lemma walk_pages_from:
  fixes t :: payments and st oi ty :: "string option"
  assumes dist: "distinct (map cursor_key t)" and ne: "list_all (\<lambda>r. p_id r \<noteq> []) t" and lim: "0 < limit"
  defines "L \<equiv> ordered_rows st oi ty t"
  shows "n \<le> length L \<Longrightarrow> length L - n < fuel \<Longrightarrow>
    walk_pages fuel limit (cursor_at L n) st oi ty t = Some (map payment_to_pydantic (drop n L))"
proof (induction fuel arbitrary: n)
  case 0
  then show ?case by simp
next
  case (Suc fuel)
  note page = list_cursor_at [OF dist ne _ lim, where st = st and oi = oi and ty = ty, folded L_def, OF Suc.prems(1)]
  show ?case
  proof (cases "limit < length L - n")
    case True
    then have "walk_pages fuel limit (cursor_at L (n + limit)) st oi ty t
        = Some (map payment_to_pydantic (drop (n + limit) L))"
      using Suc lim by (intro Suc.IH) auto
    moreover have "take limit (drop n L) @ drop (n + limit) L = drop n L"
      by (metis add.commute append_take_drop_id drop_drop)
    ultimately show ?thesis using True page by (simp flip: map_append)
  next
    case False
    then show ?thesis using page by simp
  qed
qed

section \<open>Properties\<close>

text \<open>
  The policy accepts exactly the four transitions of the table, and its error reports exactly the
  statuses the current one can move to, whatever strings it is given.
\<close>

theorem validate_transition_spec:
  "(validate_transition c n = Inr () \<longleftrightarrow>
     (c, n) \<in> {(''pending'', ''confirmed''), (''pending'', ''failed''), (''failed'', ''pending''),
       (''dead_letter'', ''pending'')})
   \<and> (case validate_transition c n of
        Inr _ \<Rightarrow> True
      | Inl e \<Rightarrow> (\<exists>al. e = PaymentTransitionError c n al
          \<and> set al = {n'. validate_transition c n' = Inr ()}))"
proof
  have ok: "validate_transition c n = Inr () \<longleftrightarrow>
     (c, n) \<in> {(''pending'', ''confirmed''), (''pending'', ''failed''), (''failed'', ''pending''),
       (''dead_letter'', ''pending'')}" for c n
    by (simp add: validate_transition_def PaymentStatus_def)
  show "validate_transition c n = Inr () \<longleftrightarrow>
     (c, n) \<in> {(''pending'', ''confirmed''), (''pending'', ''failed''), (''failed'', ''pending''),
       (''dead_letter'', ''pending'')}" by (rule ok)
  show "case validate_transition c n of
        Inr _ \<Rightarrow> True
      | Inl e \<Rightarrow> (\<exists>al. e = PaymentTransitionError c n al
          \<and> set al = {n'. validate_transition c n' = Inr ()})"
    unfolding ok by (auto simp: validate_transition_def PaymentStatus_def split: option.splits if_splits)
qed

text \<open>A payment the witnesses use.\<close>

definition sample_payment :: payment_row where
  "sample_payment = \<lparr>p_id = ''pay_a'', p_hash = ''h1'', p_type = ''reward'', p_amount = 10, p_asset = ''USDC'',
    p_from = ''F'', p_to = ''T'', p_status = ''pending'', p_outage_id = ''o1'', p_sla_result_id = Some 1,
    p_created_at = 5, p_confirmed_at = None, p_retry_count = 0, p_last_retried_at = None,
    p_failure_taxonomy = None, p_idempotency_key = None, p_dead_letter_reason = None,
    p_dead_lettered_at = None\<rparr>"

lemma sample_created: "payment_step [] [sample_payment]"
proof -
  have "snd (create_payment sample_payment []) = [sample_payment]"
    by (simp add: create_payment_def insert_payment_def sample_payment_def)
  then show ?thesis using step_create [of sample_payment "[]"] by (simp add: sample_payment_def)
qed

lemma sample_confirmed: "payment_step [sample_payment]
    [sample_payment\<lparr>p_status := ''confirmed'', p_confirmed_at := Some 9\<rparr>]"
proof -
  have "snd (reconcile 9 ''pay_a'' ''confirmed'' [sample_payment])
    = [sample_payment\<lparr>p_status := ''confirmed'', p_confirmed_at := Some 9\<rparr>]"
    by (simp add: reconcile_def find_payment_def sample_payment_def validate_transition_def
        PaymentStatus_def set_payment_def upd_where_def Let_def)
  then show ?thesis using step_reconcile [of "[sample_payment]" 9 "''pay_a''" "''confirmed''"] by simp
qed

text \<open>
  C12. In every table the repository can produce from the empty one, no two rows share a unique column
  (in particular one payment per SLA result), every status is a member of the enum and every retry counter
  lies between zero and \<open>MAX_RETRIES\<close>.
\<close>

theorem reachable_payments_ok:
  assumes "payment_step\<^sup>*\<^sup>* [] t"
  shows "payments_ok t"
  by (rule payments_ok_steps [OF assms]) (simp add: payments_ok_def)

theorem reachable_payments_ok_witness: "payment_step\<^sup>*\<^sup>* [] [sample_payment] \<and> payments_ok [sample_payment]"
  using reachable_payments_ok [OF r_into_rtranclp [where r = payment_step, OF sample_created]] r_into_rtranclp [where r = payment_step, OF sample_created]
  by simp



text \<open>
  C16. A confirmed payment is final: no later operation on the table changes any of its columns.
\<close>

theorem confirmed_is_final:
  assumes "payment_step\<^sup>*\<^sup>* t t'" "find_payment tid t = Some r" "p_status r = ''confirmed''"
  shows "find_payment tid t' = Some r"
  by (rule confirmed_row_kept [OF assms])

theorem confirmed_is_final_witness:
  "find_payment ''pay_a'' (snd (retry 20 ''pay_a''
     [sample_payment\<lparr>p_status := ''confirmed'', p_confirmed_at := Some 9\<rparr>]))
   = Some (sample_payment\<lparr>p_status := ''confirmed'', p_confirmed_at := Some 9\<rparr>)"
  by (rule confirmed_is_final [OF r_into_rtranclp [where r = payment_step, OF step_retry]])
     (simp_all add: find_payment_def sample_payment_def)

text \<open>
  Payment generation is idempotent per SLA result: once a result has a payment, generating it again,
  at any time and with any fresh identifier, returns that payment and leaves the table as it is; the payment
  carries the absolute amount of the result and starts pending.
\<close>

theorem create_for_sla_result_idempotent:
  assumes "create_for_sla_result st now uid oid sla t = (Inr p, t')"
  shows "create_for_sla_result st' now' uid' oid' sla t' = (Inr p, t')
    \<and> (t' = t \<or> (\<exists>rid. res_id sla = Some rid \<and> t' = t @ [sla_payment st now uid oid rid sla]
         \<and> p_status p = ''pending'' \<and> p_amount p = real_of_int \<bar>res_amount sla\<bar>))"
proof (cases "res_id sla")
  case None
  with assms show ?thesis by (simp add: create_for_sla_result_def)
next
  case (Some rid)
  show ?thesis
  proof (cases "get_by_sla_result rid t")
    case None
    let ?r = "sla_payment st now uid oid rid sla"
    have "create_payment ?r t = insert_payment ?r t"
      by (simp add: create_payment_def sla_payment_def)
    then have t': "t' = t @ [?r]" "p = payment_to_pydantic ?r"
      using assms Some None by (auto simp: create_for_sla_result_def insert_payment_def split: if_splits)
    have "find (\<lambda>r. p_sla_result_id r = Some rid) t = None"
      using None by (simp add: get_by_sla_result_def)
    then have "get_by_sla_result rid t' = Some p"
      by (simp add: t' get_by_sla_result_def find_append sla_payment_def)
    then show ?thesis
      using Some t' by (simp add: create_for_sla_result_def payment_to_pydantic_def sla_payment_def
          payment_row.defs)
  next
    case (Some existing)
    with assms \<open>res_id sla = Some rid\<close> show ?thesis by (simp add: create_for_sla_result_def)
  qed
qed

definition sample_sla :: sla_result where
  "sample_sla = \<lparr>res_id = Some 1, res_outage_id = ''o1'', res_status = violated, res_mttr = 40, res_threshold = 30,
    res_amount = -500, res_payment_type = penalty, res_rating = poor, res_policy_version = ''1.0'',
    res_threshold_source = ''config'', res_reason_code = None, res_decision_trace = None\<rparr>"

theorem create_for_sla_result_idempotent_witness:
  "\<exists>p t'. create_for_sla_result \<lparr>PAYMENT_ASSET_CODE = ''USDC'', PAYMENT_FROM_ADDRESS = ''F'', PAYMENT_TO_ADDRESS = ''T''\<rparr>
      3 ''abc'' ''o1'' sample_sla [] = (Inr p, t')
    \<and> create_for_sla_result \<lparr>PAYMENT_ASSET_CODE = ''USDC'', PAYMENT_FROM_ADDRESS = ''F'', PAYMENT_TO_ADDRESS = ''T''\<rparr>
      4 ''def'' ''o1'' sample_sla t' = (Inr p, t')"
proof -
  let ?st = "\<lparr>PAYMENT_ASSET_CODE = ''USDC'', PAYMENT_FROM_ADDRESS = ''F'', PAYMENT_TO_ADDRESS = ''T''\<rparr>"
  obtain p t' where e: "create_for_sla_result ?st 3 ''abc'' ''o1'' sample_sla [] = (Inr p, t')"
    by (simp add: create_for_sla_result_def sample_sla_def get_by_sla_result_def create_payment_def
        insert_payment_def)
  from create_for_sla_result_idempotent [OF e] e show ?thesis by blast
qed

text \<open>
  Keyset pagination is complete and free of duplicates: with distinct \<open>(created_at, id)\<close> keys, following
  \<open>next_cursor\<close> from the start reaches a page without \<open>has_more\<close>, and the pages concatenate to all matching
  payments in descending order.
\<close>

theorem cursor_walk_complete:
  assumes "distinct (map cursor_key t)" "list_all (\<lambda>r. p_id r \<noteq> []) t" "0 < limit"
  shows "walk_pages (Suc (length t)) limit None status outage_id ty t =
    Some (map payment_to_pydantic (ordered_rows status outage_id ty t))"
proof -
  have "length (ordered_rows status outage_id ty t) \<le> length t"
    by (simp add: ordered_rows_def query_rows_def) (meson length_opt_filter le_trans)
  with walk_pages_from [OF assms, where n = 0 and fuel = "Suc (length t)"] show ?thesis
    by (simp add: cursor_at_def)
qed

theorem cursor_walk_complete_witness:
  "walk_pages 3 1 None None None None [sample_payment, sample_payment\<lparr>p_id := ''pay_b'', p_created_at := 7\<rparr>]
    = Some (map payment_to_pydantic (ordered_rows None None None
        [sample_payment, sample_payment\<lparr>p_id := ''pay_b'', p_created_at := 7\<rparr>]))"
  using cursor_walk_complete [of "[sample_payment, sample_payment\<lparr>p_id := ''pay_b'', p_created_at := 7\<rparr>]" 1]
  by (simp add: cursor_key_def sample_payment_def numeral_3_eq_3)

text \<open>
  A reconciliation run reports nothing: whatever the statuses are, each report it returns has zero
  counters and no items, because the constructor ignores the keywords it is called with.
\<close>

theorem reconcile_all_reports_empty:
  "reconcile_all expected t = replicate (length expected)
     \<lparr>rr_matched = 0, rr_delayed = 0, rr_missing = 0, rr_divergent = 0, rr_items = []\<rparr>"
proof -
  have "reconcile_one t x = \<lparr>rr_matched = 0, rr_delayed = 0, rr_missing = 0, rr_divergent = 0, rr_items = []\<rparr>" for x
    by (auto simp: reconcile_one_def report_kwargs_def ReconciliationReport_def kw_int_def
        split: prod.splits option.splits)
  then show ?thesis by (simp add: reconcile_all_def map_replicate_const [symmetric])
qed

text \<open>
  No sequence of repository operations moves a payment into \<open>dead_letter\<close>: a table without dead
  letters never acquires one, so the replay operation always answers that there is nothing to replay.
\<close>

theorem dead_letter_unreachable:
  assumes "payment_step\<^sup>*\<^sup>* [] t"
  shows "list_dead_letter t = [] \<and> replay_dead_letter now tid t = (Inr None, t)"
proof -
  from assms have "list_all (\<lambda>r. p_status r \<noteq> ''dead_letter'') t"
    by (induction rule: rtranclp_induct) (auto dest: payment_step_change no_dead_letter_step)
  moreover have "p_status r \<noteq> ''dead_letter''" if "find_payment tid t = Some r" for r
    using that calculation find_SomeD by (fastforce simp: list_all_iff find_payment_def)
  ultimately show ?thesis
    by (auto simp: list_dead_letter_def replay_dead_letter_def list_all_iff filter_empty_conv
        split: option.splits)
qed

theorem dead_letter_unreachable_witness: "list_dead_letter [sample_payment] = []"
  using dead_letter_unreachable [OF r_into_rtranclp [where r = payment_step, OF sample_created]] by simp

end
