(* ===== verification/Idempotency.thy ===== *)
theory Idempotency
  imports NocBase
begin

text \<open>
  Database-backed idempotency keys, \<open>app/services/idempotency_service.py\<close> with the table of
  \<open>app/models/orm/idempotency.py\<close>. The stored body is kept as the JSON value that \<open>json.dumps\<close> writes and
  \<open>json.loads\<close> reads back. The column \<open>expires_at\<close> is a \<open>DateTime\<close> without time zone, so a stored instant
  reads back naive; the comparisons made by the database itself (\<open>cleanup_expired\<close>) are by instant.
\<close>

record idem_row =
  ik_key :: string
  ik_response :: json
  ik_status :: int
  ik_created_at :: datetime
  ik_expires_at :: datetime

record idem_metrics =
  im_hits :: int
  im_misses :: int
  im_stored :: int
  im_expired_cleaned :: int

record idem_state =
  is_rows :: "idem_row list"
  is_metrics :: idem_metrics

text \<open>What a \<open>DateTime\<close> column gives back for the value written to it.\<close>

definition naive_column :: "datetime \<Rightarrow> datetime" where
  "naive_column d = Naive (dt_secs d)"

definition lookup :: "real \<Rightarrow> string \<Rightarrow> idem_state \<Rightarrow> (json \<times> int) option res \<times> idem_state" where
  "lookup now key s =
    (case find (\<lambda>r. ik_key r = key) (is_rows s) of
       None \<Rightarrow> (Inr None, s\<lparr>is_metrics := (is_metrics s)\<lparr>im_misses := im_misses (is_metrics s) + 1\<rparr>\<rparr>)
     | Some row \<Rightarrow>
       (case dt_less (ik_expires_at row) (Aware now) of
          Inl e \<Rightarrow> (Inl e, s)
        | Inr True \<Rightarrow>
            (Inr None, s\<lparr>is_metrics := (is_metrics s)\<lparr>im_misses := im_misses (is_metrics s) + 1\<rparr>,
                        is_rows := del_where (\<lambda>r. ik_key r = key) (is_rows s)\<rparr>)
        | Inr False \<Rightarrow>
            (Inr (Some (ik_response row, ik_status row)),
             s\<lparr>is_metrics := (is_metrics s)\<lparr>im_hits := im_hits (is_metrics s) + 1\<rparr>\<rparr>)))"

text \<open>
  \<open>store\<close>: \<open>merge\<close> of a row without primary key is an insert, which the unique column \<open>key\<close> rejects when
  the key is already present.
\<close>

definition store :: "int \<Rightarrow> real \<Rightarrow> string \<Rightarrow> json \<Rightarrow> int \<Rightarrow> idem_state \<Rightarrow> unit res \<times> idem_state" where
  "store ttl_hours now key body status_code s =
    (if list_ex (\<lambda>r. ik_key r = key) (is_rows s) then (Inl (IntegrityError ''idempotency_keys''), s)
     else (Inr (),
       s\<lparr>is_rows := is_rows s @
           [\<lparr>ik_key = key, ik_response = body, ik_status = status_code,
             ik_created_at = naive_column (Aware now),
             ik_expires_at = naive_column (Aware (now + 3600 * real_of_int ttl_hours))\<rparr>],
         is_metrics := (is_metrics s)\<lparr>im_stored := im_stored (is_metrics s) + 1\<rparr>\<rparr>))"

definition cleanup_expired :: "real \<Rightarrow> idem_state \<Rightarrow> int \<times> idem_state" where
  "cleanup_expired now s =
    (let expired = filter (\<lambda>r. dt_secs (ik_expires_at r) < now) (is_rows s); count = int (length expired)
     in (count, s\<lparr>is_rows := filter (\<lambda>r. \<not> dt_secs (ik_expires_at r) < now) (is_rows s),
           is_metrics := (is_metrics s)\<lparr>im_expired_cleaned := im_expired_cleaned (is_metrics s) + count\<rparr>\<rparr>))"

section \<open>Laws\<close>

definition rows_naive :: "idem_state \<Rightarrow> bool" where
  "rows_naive s \<longleftrightarrow> list_all (\<lambda>r. ik_expires_at r = Naive (dt_secs (ik_expires_at r))) (is_rows s)"

inductive idem_step :: "idem_state \<Rightarrow> idem_state \<Rightarrow> bool" where
  idem_lookup: "idem_step s (snd (lookup now key s))"
| idem_store: "idem_step s (snd (store ttl now key body code s))"
| idem_cleanup: "idem_step s (snd (cleanup_expired now s))"

definition idem_init :: idem_state where
  "idem_init = \<lparr>is_rows = [], is_metrics = \<lparr>im_hits = 0, im_misses = 0, im_stored = 0, im_expired_cleaned = 0\<rparr>\<rparr>"

lemma lookup_naive:
  assumes "rows_naive s" "find (\<lambda>r. ik_key r = key) (is_rows s) = Some row"
  shows "lookup now key s = (Inl TypeError, s)"
proof -
  have "row \<in> set (is_rows s)" using find_SomeD [OF assms(2)] by simp
  then have "ik_expires_at row = Naive (dt_secs (ik_expires_at row))"
    using assms(1) by (simp add: rows_naive_def list_all_iff)
  then have "dt_less (ik_expires_at row) (Aware now) = Inl TypeError"
    by (cases "ik_expires_at row") simp_all
  then show ?thesis using assms(2) by (simp add: lookup_def)
qed

lemma lookup_absent:
  "find (\<lambda>r. ik_key r = key) (is_rows s) = None \<Longrightarrow>
   lookup now key s = (Inr None, s\<lparr>is_metrics := (is_metrics s)\<lparr>im_misses := im_misses (is_metrics s) + 1\<rparr>\<rparr>)"
  by (simp add: lookup_def)

lemma lookup_rows_subset: "set (is_rows (snd (lookup now key s))) \<subseteq> set (is_rows s)"
  by (auto simp: lookup_def del_where_def split: option.splits sum.splits bool.splits)

lemma rows_naive_step: "idem_step s t \<Longrightarrow> rows_naive s \<Longrightarrow> rows_naive t"
proof (induction rule: idem_step.induct)
  case (idem_lookup s now key)
  then show ?case using lookup_rows_subset [of now key s] by (auto simp: rows_naive_def list_all_iff)
qed (auto simp: rows_naive_def list_all_iff store_def cleanup_expired_def naive_column_def Let_def)

interpretation key_table: step_system idem_step rows_naive
  by unfold_locales (rule rows_naive_step)

lemma idem_steps_naive: "idem_step\<^sup>*\<^sup>* s t \<Longrightarrow> rows_naive s \<Longrightarrow> rows_naive t"
  by (rule key_table.history_inv)

lemma idem_reachable_naive: "idem_step\<^sup>*\<^sup>* idem_init s \<Longrightarrow> rows_naive s"
  by (erule idem_steps_naive) (simp add: idem_init_def rows_naive_def)

section \<open>Properties\<close>

text \<open>
  A stored key is never served: in every state the service can reach, looking up a key that has a
  row raises \<open>TypeError\<close> (the naive \<open>expires_at\<close> of the column is compared with an aware clock value), and
  looking up any other key is a miss; the hit counter stays at zero.
\<close>

theorem idempotency_lookup_never_hits:
  assumes "idem_step\<^sup>*\<^sup>* idem_init s"
  shows "fst (lookup now key s) =
      (if list_ex (\<lambda>r. ik_key r = key) (is_rows s) then Inl TypeError else Inr None)
    \<and> im_hits (is_metrics s) = 0"
proof -
  have hits: "im_hits (is_metrics (snd (lookup now key t))) = im_hits (is_metrics t)" if "rows_naive t" for now key t
    by (cases "find (\<lambda>r. ik_key r = key) (is_rows t)") (simp_all add: lookup_naive [OF that] lookup_absent)
  have inv: "rows_naive s \<and> im_hits (is_metrics s) = 0"
    using assms
  proof (induction rule: rtranclp_induct)
    case base
    show ?case by (simp add: idem_init_def rows_naive_def)
  next
    case (step t u)
    have "im_hits (is_metrics u) = im_hits (is_metrics t)"
      using step.hyps(2) step.IH by cases (auto simp: hits store_def cleanup_expired_def Let_def)
    then show ?case using step rows_naive_step by simp
  qed
  then have naive: "rows_naive s" by simp
  have "fst (lookup now key s) =
      (if list_ex (\<lambda>r. ik_key r = key) (is_rows s) then Inl TypeError else Inr None)"
    by (cases "find (\<lambda>r. ik_key r = key) (is_rows s)")
       (auto simp: lookup_naive [OF naive] lookup_absent list_ex_iff find_None_iff dest: find_SomeD)
  with inv show ?thesis by simp
qed

theorem idempotency_lookup_never_hits_witness:
  "fst (lookup 2 ''k'' (snd (store 24 1 ''k'' JNull 201 idem_init))) = Inl TypeError"
proof -
  have "idem_step\<^sup>*\<^sup>* idem_init (snd (store 24 1 ''k'' JNull 201 idem_init))"
    by (rule r_into_rtranclp) (rule idem_store)
  from idempotency_lookup_never_hits [OF this, of 2 "''k''"] show ?thesis
    by (simp add: store_def idem_init_def)
qed

end
