(* ===== verification/PaymentApi.thy ===== *)
theory PaymentApi
  imports Payments Idempotency
begin

text \<open>
  The payment handlers of \<open>app/api/v1/endpoints/payments.py\<close>. Their state is the payment table, the audit
  trail, the module-level dict \<open>_SEEN_NONCES\<close> and the idempotency service. The keyed digest
  \<open>hmac.new(secret, message, sha256).hexdigest()\<close> and pydantic's \<open>model_dump(mode="json")\<close> are the arguments
  \<open>digest\<close> and \<open>dump\<close>; the correlation id of the request context is \<open>ctx\<close>. The replay window runs on
  \<open>time.monotonic()\<close> (\<open>clk\<close>), the audit trail on the wall clock (\<open>now\<close>); one call reads each clock once.
\<close>

record pay_state =
  ps_payments :: payments
  ps_audit :: "audit_entry list"
  ps_nonces :: "(string \<times> real) list"
  ps_idem :: idem_state

definition CALLBACK_NONCE_TTL_SECONDS :: real where
  "CALLBACK_NONCE_TTL_SECONDS = 300"

definition add_audit :: "real \<Rightarrow> string option \<Rightarrow> string \<Rightarrow> (string \<times> json) list \<Rightarrow> pay_state \<Rightarrow> pay_state" where
  "add_audit now ctx ev d s = s\<lparr>ps_audit := audit_log now ctx ev d (ps_audit s)\<rparr>"

fun jopt :: "string option \<Rightarrow> json" where
  "jopt None = JNull"
| "jopt (Some s) = JStr s"

section \<open>Replay window\<close>

definition evict_stale_nonces :: "real \<Rightarrow> (string \<times> real) list \<Rightarrow> (string \<times> real) list" where
  "evict_stale_nonces now seen =
    (let cutoff = now - CALLBACK_NONCE_TTL_SECONDS in filter (\<lambda>(k, ts). \<not> ts < cutoff) seen)"

definition is_replay :: "real \<Rightarrow> string \<Rightarrow> (string \<times> real) list \<Rightarrow> bool \<times> (string \<times> real) list" where
  "is_replay now nonce seen0 =
    (let seen = evict_stale_nonces now seen0 in
     if map_of seen nonce \<noteq> None then (True, seen) else (False, AList.update nonce now seen))"

section \<open>Provider callback\<close>

record callback =
  cb_transaction_id :: string
  cb_status :: string
  cb_provider_ref :: "string option"
  cb_nonce :: "string option"

text \<open>\<open>a or b\<close> on optional strings: the empty string is falsy.\<close>

definition str_or :: "string option \<Rightarrow> string option \<Rightarrow> string option" where
  "str_or a b = (case a of Some x \<Rightarrow> if x = [] then b else a | None \<Rightarrow> b)"

definition str_true :: "string option \<Rightarrow> bool" where
  "str_true a \<longleftrightarrow> a \<noteq> None \<and> a \<noteq> Some []"

definition callback_message :: "string \<Rightarrow> string \<Rightarrow> string option \<Rightarrow> string" where
  "callback_message tid status nonce = tid @ '':'' @ status @ '':'' @ (case nonce of None \<Rightarrow> [] | Some n \<Rightarrow> n)"

definition verify_callback_signature ::
  "(string \<Rightarrow> string \<Rightarrow> string) \<Rightarrow> string \<Rightarrow> string \<Rightarrow> string option \<Rightarrow> string \<Rightarrow> string \<Rightarrow> bool" where
  "verify_callback_signature digest tid status nonce signature secret \<longleftrightarrow>
    digest secret (callback_message tid status nonce) = signature"

text \<open>The part of the handler after authentication and replay detection.\<close>

definition apply_callback ::
  "real \<Rightarrow> string option \<Rightarrow> callback \<Rightarrow> string option \<Rightarrow> pay_state \<Rightarrow> payment_transaction res \<times> pay_state" where
  "apply_callback now ctx cb nonce s =
    (case get_payment_row (cb_transaction_id cb) (ps_payments s) of
       None \<Rightarrow> (Inl (HTTPException 404 ''Payment not found''),
         add_audit now ctx ''callback_rejected_unknown_payment''
           [(''transaction_id'', JStr (cb_transaction_id cb)), (''provider_ref'', jopt (cb_provider_ref cb))] s)
     | Some existing \<Rightarrow>
       if p_status existing = cb_status cb then (Inr existing, s)
       else (case reconcile now (cb_transaction_id cb) (cb_status cb) (ps_payments s) of
           (Inl e, t) \<Rightarrow>
             if is_ValueError e then
               (Inl (HTTPException 422 (exc_msg e)),
                add_audit now ctx ''callback_rejected_invalid_transition''
                  [(''transaction_id'', JStr (cb_transaction_id cb)), (''from_status'', JStr (p_status existing)),
                   (''to_status'', JStr (cb_status cb)), (''provider_ref'', jopt (cb_provider_ref cb)),
                   (''error'', JStr (exc_msg e))] (s\<lparr>ps_payments := t\<rparr>))
             else (Inl e, s\<lparr>ps_payments := t\<rparr>)
         | (Inr updated, t) \<Rightarrow>
             (case updated of None \<Rightarrow> Inl ValidationError | Some p \<Rightarrow> Inr p,
              add_audit now ctx ''payment_provider_callback''
                [(''id'', JStr (cb_transaction_id cb)), (''status'', JStr (cb_status cb)),
                 (''provider_ref'', jopt (cb_provider_ref cb)), (''nonce'', jopt nonce)]
                (s\<lparr>ps_payments := t\<rparr>))))"

definition provider_callback ::
  "(string \<Rightarrow> string \<Rightarrow> string) \<Rightarrow> string \<Rightarrow> real \<Rightarrow> real \<Rightarrow> string option \<Rightarrow> callback \<Rightarrow> string option \<Rightarrow>
   string option \<Rightarrow> pay_state \<Rightarrow> payment_transaction res \<times> pay_state" where
  "provider_callback digest secret clk now ctx cb x_signature x_nonce s =
    (let effective_nonce = str_or x_nonce (cb_nonce cb);
         who = [(''transaction_id'', JStr (cb_transaction_id cb)), (''provider_ref'', jopt (cb_provider_ref cb))]
     in
     if secret \<noteq> [] \<and> \<not> str_true x_signature then
       (Inl (HTTPException 401 ''Missing webhook signature''),
        add_audit now ctx ''callback_rejected_missing_signature'' who s)
     else if secret \<noteq> [] \<and> \<not> verify_callback_signature digest (cb_transaction_id cb) (cb_status cb)
               effective_nonce (the x_signature) secret then
       (Inl (HTTPException 401 ''Invalid webhook signature''),
        add_audit now ctx ''callback_rejected_bad_signature'' who s)
     else if str_true effective_nonce then
       (case is_replay clk (the effective_nonce) (ps_nonces s) of
          (True, seen) \<Rightarrow>
            (Inl (HTTPException 409 ''Duplicate callback nonce - possible replay attack''),
             add_audit now ctx ''callback_rejected_replay''
               [(''transaction_id'', JStr (cb_transaction_id cb)), (''nonce'', jopt effective_nonce),
                (''provider_ref'', jopt (cb_provider_ref cb))] (s\<lparr>ps_nonces := seen\<rparr>))
        | (False, seen) \<Rightarrow> apply_callback now ctx cb effective_nonce (s\<lparr>ps_nonces := seen\<rparr>))
     else apply_callback now ctx cb effective_nonce s)"

section \<open>Operator handlers\<close>

definition transition_422 :: "exc \<Rightarrow> exc" where
  "transition_422 e = (case e of PaymentTransitionError _ _ _ \<Rightarrow> HTTPException 422 (exc_msg e) | _ \<Rightarrow> e)"

definition reconcile_payment ::
  "real \<Rightarrow> string option \<Rightarrow> string \<Rightarrow> string \<Rightarrow> pay_state \<Rightarrow> payment_transaction res \<times> pay_state" where
  "reconcile_payment now ctx tid status s =
    (case get_payment_row tid (ps_payments s) of
       None \<Rightarrow> (Inl (HTTPException 404 ''Payment not found''), s)
     | Some existing \<Rightarrow>
       (case reconcile now tid status (ps_payments s) of
          (Inl e, t) \<Rightarrow> (Inl (transition_422 e), s\<lparr>ps_payments := t\<rparr>)
        | (Inr None, t) \<Rightarrow> (Inl (HTTPException 404 ''Payment not found''), s\<lparr>ps_payments := t\<rparr>)
        | (Inr (Some p), t) \<Rightarrow>
            (Inr p, add_audit now ctx ''payment_reconciled''
               [(''id'', JStr tid), (''previous_status'', JStr (p_status existing)), (''status'', JStr status)]
               (s\<lparr>ps_payments := t\<rparr>))))"

definition retry_payment ::
  "real \<Rightarrow> string option \<Rightarrow> string \<Rightarrow> pay_state \<Rightarrow> payment_transaction res \<times> pay_state" where
  "retry_payment now ctx tid s =
    (case get_payment_row tid (ps_payments s) of
       None \<Rightarrow> (Inl (HTTPException 404 ''Payment not found''), s)
     | Some existing \<Rightarrow>
       (case retry now tid (ps_payments s) of
          (Inl e, t) \<Rightarrow> (Inl (transition_422 e), s\<lparr>ps_payments := t\<rparr>)
        | (Inr None, t) \<Rightarrow> (Inl (HTTPException 409 ''Max retries reached''), s\<lparr>ps_payments := t\<rparr>)
        | (Inr (Some p), t) \<Rightarrow>
            (Inr p, add_audit now ctx ''payment_retried''
               [(''id'', JStr tid), (''retry_count'', JInt (p_retry_count p))] (s\<lparr>ps_payments := t\<rparr>))))"

definition replay_dead_letter_payment ::
  "real \<Rightarrow> string \<Rightarrow> pay_state \<Rightarrow> payment_transaction res \<times> pay_state" where
  "replay_dead_letter_payment now tid s =
    (case replay_dead_letter now tid (ps_payments s) of
       (Inl e, t) \<Rightarrow> (Inl e, s\<lparr>ps_payments := t\<rparr>)
     | (Inr None, t) \<Rightarrow>
         (Inl (HTTPException 404 ''Payment not found or not in dead_letter state''), s\<lparr>ps_payments := t\<rparr>)
     | (Inr (Some p), t) \<Rightarrow> (Inr p, s\<lparr>ps_payments := t\<rparr>))"

definition get_payment :: "string \<Rightarrow> pay_state \<Rightarrow> payment_transaction res" where
  "get_payment tid s = (case get_payment_row tid (ps_payments s) of
     None \<Rightarrow> Inl (HTTPException 404 ''Payment not found'') | Some p \<Rightarrow> Inr p)"

definition get_payment_reconciliation_history ::
  "string \<Rightarrow> pay_state \<Rightarrow> (string \<times> string \<times> history_entry list) res" where
  "get_payment_reconciliation_history tid s = (case get_payment_row tid (ps_payments s) of
     None \<Rightarrow> Inl (HTTPException 404 ''Payment not found'')
   | Some p \<Rightarrow> Inr (tid, p_status p, get_reconciliation_history tid (ps_audit s)))"

text \<open>\<open>check_blockchain_payment_status\<close> of \<open>sla_adapter.py\<close> answers \<open>None\<close> for every transaction.\<close>

definition check_blockchain_payment_status :: "string \<Rightarrow> (string \<times> string) list option" where
  "check_blockchain_payment_status tid = None"

definition expected_status :: "payment_transaction \<Rightarrow> string \<times> string" where
  "expected_status p = (p_id p,
     (case check_blockchain_payment_status (p_id p) of
        None \<Rightarrow> ''confirmed''
      | Some bc \<Rightarrow> if bc = [] then ''confirmed''
          else (case map_of bc ''status'' of None \<Rightarrow> ''confirmed'' | Some x \<Rightarrow> x)))"

definition reconcile_all_payments ::
  "real \<Rightarrow> string option \<Rightarrow> string \<Rightarrow> pay_state \<Rightarrow> reconciliation_report list res \<times> pay_state" where
  "reconcile_all_payments now ctx email s =
    (case list_payment_rows 1 1000 (Some ''pending'') None None None None (ps_payments s) of
       Inl e \<Rightarrow> (Inl e, s)
     | Inr (items, _) \<Rightarrow>
       (let expected = fold (\<lambda>p d. AList.update (fst (expected_status p)) (snd (expected_status p)) d) items [];
            reports = reconcile_all expected (ps_payments s)
        in (Inr reports, add_audit now ctx ''payments_reconciled''
              [(''count'', JInt (int (length reports))), (''initiated_by'', JStr email)] s)))"

text \<open>Creation with an idempotency key: the answer is the stored body, or the new payment.\<close>

datatype create_answer = Cached json int | Created payment_transaction

definition outage_payment :: "real \<Rightarrow> string \<Rightarrow> payment_row" where
  "outage_payment now outage_id =
    \<lparr>p_id = ''pay_'' @ take 12 outage_id, p_hash = ''outage-'' @ outage_id, p_type = ''sla_settlement'',
     p_amount = 0, p_asset = ''USDC'', p_from = ''SYSTEM_POOL'', p_to = ''OUTAGE_SETTLEMENT'',
     p_status = ''pending'', p_outage_id = outage_id, p_sla_result_id = None, p_created_at = now,
     p_confirmed_at = None, p_retry_count = 0, p_last_retried_at = None, p_failure_taxonomy = None,
     p_idempotency_key = None, p_dead_letter_reason = None, p_dead_lettered_at = None\<rparr>"

definition create_payment_for_outage ::
  "(payment_transaction \<Rightarrow> json) \<Rightarrow> int \<Rightarrow> real \<Rightarrow> string \<Rightarrow> string option \<Rightarrow> pay_state \<Rightarrow>
   create_answer res \<times> pay_state" where
  "create_payment_for_outage dump ttl_hours now outage_id idem_key s =
    (let (cached, si) = (if str_true idem_key then lookup now (the idem_key) (ps_idem s) else (Inr None, ps_idem s));
         s1 = s\<lparr>ps_idem := si\<rparr>
     in case cached of
          Inl e \<Rightarrow> (Inl e, s1)
        | Inr (Some (body, code)) \<Rightarrow> (Inr (Cached body code), s1)
        | Inr None \<Rightarrow>
          (case create_payment (outage_payment now outage_id) (ps_payments s1) of
             (Inl e, t) \<Rightarrow> (Inl e, s1\<lparr>ps_payments := t\<rparr>)
           | (Inr created, t) \<Rightarrow>
             (let s2 = s1\<lparr>ps_payments := t\<rparr> in
              if str_true idem_key then
                (case store ttl_hours now (the idem_key) (dump created) 201 (ps_idem s2) of
                   (Inl e, si') \<Rightarrow> (Inl e, s2\<lparr>ps_idem := si'\<rparr>)
                 | (Inr _, si') \<Rightarrow> (Inr (Created created), s2\<lparr>ps_idem := si'\<rparr>))
              else (Inr (Created created), s2))))"

definition list_dead_letter_payments :: "pay_state \<Rightarrow> payment_transaction list" where
  "list_dead_letter_payments s = list_dead_letter (ps_payments s)"

definition get_payment_history :: "string \<Rightarrow> pay_state \<Rightarrow> audit_entry list res" where
  "get_payment_history tid s = (case get_payment_row tid (ps_payments s) of
     None \<Rightarrow> Inl (HTTPException 404 ''Payment not found'')
   | Some p \<Rightarrow> Inr (history_rows tid (ps_audit s)))"

section \<open>Laws\<close>

text \<open>Every handler that writes, as a step of the service.\<close>

inductive api_step :: "pay_state \<Rightarrow> pay_state \<Rightarrow> bool" where
  api_callback: "api_step s (snd (provider_callback digest secret clk now ctx cb sig nonce s))"
| api_reconcile: "api_step s (snd (reconcile_payment now ctx tid st s))"
| api_retry: "api_step s (snd (retry_payment now ctx tid s))"
| api_replay: "api_step s (snd (replay_dead_letter_payment now tid s))"
| api_reconcile_all: "api_step s (snd (reconcile_all_payments now ctx email s))"
| api_create: "api_step s (snd (create_payment_for_outage dump ttl now oid key s))"

definition api_grows :: "pay_state \<Rightarrow> pay_state \<Rightarrow> bool" where
  "api_grows s s' \<longleftrightarrow> payment_step\<^sup>*\<^sup>* (ps_payments s) (ps_payments s') \<and> prefix (ps_audit s) (ps_audit s')
     \<and> idem_step\<^sup>*\<^sup>* (ps_idem s) (ps_idem s')"

lemma api_grows_refl [simp]: "api_grows s s"
  by (simp add: api_grows_def)

lemma api_grows_trans: "api_grows s t \<Longrightarrow> api_grows t u \<Longrightarrow> api_grows s u"
  unfolding api_grows_def by (metis prefix_order.trans rtranclp_trans)

lemma prefix_audit_log [simp]: "prefix log0 (audit_log now ctx ev d log0)"
  by (simp add: audit_log_def log_event_def)

lemma add_audit_grows [simp]: "api_grows s (add_audit now ctx ev d s)"
  by (simp add: api_grows_def add_audit_def)

lemma add_audit_fields [simp]:
  "ps_payments (add_audit now ctx ev d s) = ps_payments s" "ps_nonces (add_audit now ctx ev d s) = ps_nonces s"
  "ps_idem (add_audit now ctx ev d s) = ps_idem s"
  by (simp_all add: add_audit_def)

lemma api_grows_nonces [simp]: "api_grows (s\<lparr>ps_nonces := n\<rparr>) t \<longleftrightarrow> api_grows s t"
    "api_grows t (s\<lparr>ps_nonces := n\<rparr>) \<longleftrightarrow> api_grows t s"
  by (simp_all add: api_grows_def)

lemma payments_grow: "payment_step (ps_payments s) t \<Longrightarrow> api_grows s (s\<lparr>ps_payments := t\<rparr>)"
  by (auto simp: api_grows_def)

lemma payments_grow_audit: "payment_step (ps_payments s) t \<Longrightarrow> api_grows s (add_audit now ctx ev d (s\<lparr>ps_payments := t\<rparr>))"
  by (rule api_grows_trans [OF payments_grow add_audit_grows])

lemma reconcile_step: "reconcile now tid st t = (r, t') \<Longrightarrow> payment_step t t'"
  using step_reconcile [of t now tid st] by simp

lemma retry_step: "retry now tid t = (r, t') \<Longrightarrow> payment_step t t'"
  using step_retry [of t now tid] by simp

lemma replay_step: "replay_dead_letter now tid t = (r, t') \<Longrightarrow> payment_step t t'"
  using step_replay [of t now tid] by simp

lemma apply_callback_grows: "api_grows s (snd (apply_callback now ctx cb nonce s))"
  by (auto simp: apply_callback_def split: option.splits prod.splits sum.splits
      intro!: payments_grow payments_grow_audit dest: reconcile_step)

lemma apply_callback_nonces_grows:
  "api_grows s (snd (apply_callback now ctx cb nonce (s\<lparr>ps_nonces := n\<rparr>)))"
  using apply_callback_grows [of "s\<lparr>ps_nonces := n\<rparr>"] by simp

lemma provider_callback_grows:
  "api_grows s (snd (provider_callback digest secret clk now ctx cb sig nonce s))"
  by (auto simp: provider_callback_def Let_def apply_callback_grows apply_callback_nonces_grows
      split: prod.splits bool.splits intro: api_grows_trans [OF _ add_audit_grows])

lemma create_for_outage_grows: "api_grows s (snd (create_payment_for_outage dump ttl now oid key s))"
proof -
  let ?c = "if str_true key then lookup now (the key) (ps_idem s) else (Inr None, ps_idem s)"
  let ?s1 = "s\<lparr>ps_idem := snd ?c\<rparr>"
  have idem: "idem_step\<^sup>*\<^sup>* (ps_idem s) (snd ?c)"
    using idem_lookup [of "ps_idem s" now "the key"] by auto
  have pay: "payment_step (ps_payments s) (snd (create_payment (outage_payment now oid) (ps_payments s)))"
    by (rule step_create) (simp add: outage_payment_def)
  have stored: "idem_step\<^sup>*\<^sup>* (ps_idem s) si" if "store ttl now (the key) body 201 (snd ?c) = (r, si)" for body r si
    using rtranclp.rtrancl_into_rtrancl [OF idem idem_store [of "snd ?c" ttl now "the key" body 201]] that by simp
  show ?thesis
  proof (cases "fst ?c")
    case (Inl e)
    with idem show ?thesis
      by (cases "?c") (simp add: create_payment_for_outage_def api_grows_def)
  next
    case (Inr v)
    with idem pay stored show ?thesis
      by (cases "?c") (auto simp: create_payment_for_outage_def api_grows_def Let_def
          split: option.splits prod.splits sum.splits)
  qed
qed

lemma api_step_grows: "api_step s t \<Longrightarrow> api_grows s t"
proof (induction rule: api_step.induct)
  case (api_reconcile s now ctx tid st)
  show ?case
    by (auto simp: reconcile_payment_def split: option.splits prod.splits sum.splits
        intro!: payments_grow payments_grow_audit dest: reconcile_step)
next
  case (api_retry s now ctx tid)
  show ?case
    by (auto simp: retry_payment_def split: option.splits prod.splits sum.splits
        intro!: payments_grow payments_grow_audit dest: retry_step)
next
  case (api_replay s now tid)
  show ?case
    by (auto simp: replay_dead_letter_payment_def split: option.splits prod.splits sum.splits
        intro!: payments_grow dest: replay_step)
next
  case (api_reconcile_all s now ctx email)
  show ?case
    by (auto simp: reconcile_all_payments_def Let_def split: sum.splits prod.splits)
qed (simp_all add: provider_callback_grows create_for_outage_grows)

interpretation payment_api: growing_system api_step "\<lambda>_. True" api_grows
  by unfold_locales (auto intro: api_grows_trans api_step_grows)

lemma api_steps_grow: "api_step\<^sup>*\<^sup>* s t \<Longrightarrow> api_grows s t"
  by (rule payment_api.history_grow) simp_all

text \<open>The replay window as a dict of first-seen instants.\<close>

lemma map_of_evict:
  "map_of seen n = Some ts \<Longrightarrow> clk \<le> ts + 300 \<Longrightarrow> map_of (evict_stale_nonces clk seen) n = Some ts"
  unfolding evict_stale_nonces_def CALLBACK_NONCE_TTL_SECONDS_def Let_def
  by (rule map_of_filter_in) auto

lemma is_replay_seen:
  "map_of seen n = Some ts \<Longrightarrow> clk \<le> ts + 300 \<Longrightarrow> is_replay clk n seen = (True, evict_stale_nonces clk seen)"
  by (simp add: is_replay_def map_of_evict Let_def)

lemma is_replay_keeps:
  "map_of seen n = Some ts \<Longrightarrow> clk \<le> ts + 300 \<Longrightarrow> map_of (snd (is_replay clk m seen)) n = Some ts"
  by (auto simp: is_replay_def Let_def map_of_evict update_conv')

lemma is_replay_fresh: "is_replay clk n seen = (False, seen') \<Longrightarrow> map_of seen' n = Some clk"
  by (auto simp: is_replay_def Let_def update_conv' split: if_splits)

lemma apply_callback_nonces [simp]:
  "ps_nonces (snd (apply_callback now ctx cb nonce s)) = ps_nonces s"
  by (auto simp: apply_callback_def split: option.splits prod.splits sum.splits)

text \<open>A callback request as it arrives, and the service handling a sequence of them.\<close>

record callback_request =
  rq_clk :: real
  rq_now :: real
  rq_ctx :: "string option"
  rq_body :: callback
  rq_signature :: "string option"
  rq_nonce :: "string option"

definition handle_callback ::
  "(string \<Rightarrow> string \<Rightarrow> string) \<Rightarrow> string \<Rightarrow> callback_request \<Rightarrow> pay_state \<Rightarrow> payment_transaction res \<times> pay_state" where
  "handle_callback digest secret q =
    provider_callback digest secret (rq_clk q) (rq_now q) (rq_ctx q) (rq_body q) (rq_signature q) (rq_nonce q)"

definition handle_callbacks ::
  "(string \<Rightarrow> string \<Rightarrow> string) \<Rightarrow> string \<Rightarrow> callback_request list \<Rightarrow> pay_state \<Rightarrow> pay_state" where
  "handle_callbacks digest secret = fold (\<lambda>q s. snd (handle_callback digest secret q s))"

definition effective_nonce :: "callback_request \<Rightarrow> string option" where
  "effective_nonce q = str_or (rq_nonce q) (cb_nonce (rq_body q))"

definition authentic :: "(string \<Rightarrow> string \<Rightarrow> string) \<Rightarrow> string \<Rightarrow> callback_request \<Rightarrow> bool" where
  "authentic digest secret q \<longleftrightarrow> secret = [] \<or> (\<exists>sig. rq_signature q = Some sig \<and> sig \<noteq> [] \<and>
     sig = digest secret (callback_message (cb_transaction_id (rq_body q)) (cb_status (rq_body q)) (effective_nonce q)))"

lemma not_authentic_rejected:
  assumes "\<not> authentic digest secret q"
  shows "\<exists>msg ev d. handle_callback digest secret q s =
    (Inl (HTTPException 401 msg), add_audit (rq_now q) (rq_ctx q) ev d s)"
  using assms
  by (cases "str_true (rq_signature q)")
     (auto simp: authentic_def handle_callback_def provider_callback_def Let_def effective_nonce_def
       verify_callback_signature_def str_true_def)

lemma authentic_handled:
  assumes "authentic digest secret q"
  shows "handle_callback digest secret q s =
    (if str_true (effective_nonce q) then
       (case is_replay (rq_clk q) (the (effective_nonce q)) (ps_nonces s) of
          (True, seen) \<Rightarrow>
            (Inl (HTTPException 409 ''Duplicate callback nonce - possible replay attack''),
             add_audit (rq_now q) (rq_ctx q) ''callback_rejected_replay''
               [(''transaction_id'', JStr (cb_transaction_id (rq_body q))), (''nonce'', jopt (effective_nonce q)),
                (''provider_ref'', jopt (cb_provider_ref (rq_body q)))] (s\<lparr>ps_nonces := seen\<rparr>))
        | (False, seen) \<Rightarrow> apply_callback (rq_now q) (rq_ctx q) (rq_body q) (effective_nonce q) (s\<lparr>ps_nonces := seen\<rparr>))
     else apply_callback (rq_now q) (rq_ctx q) (rq_body q) (effective_nonce q) s)"
proof -
  have "secret = [] \<or> str_true (rq_signature q) \<and> verify_callback_signature digest (cb_transaction_id (rq_body q))
      (cb_status (rq_body q)) (str_or (rq_nonce q) (cb_nonce (rq_body q))) (the (rq_signature q)) secret"
    using assms by (auto simp: authentic_def effective_nonce_def verify_callback_signature_def str_true_def)
  then show ?thesis
    by (elim disjE) (simp_all add: handle_callback_def provider_callback_def Let_def flip: effective_nonce_def)
qed

lemma handle_callback_keeps_nonce:
  assumes "map_of (ps_nonces s) n = Some ts" "rq_clk q \<le> ts + 300"
  shows "map_of (ps_nonces (snd (handle_callback digest secret q s))) n = Some ts"
proof (cases "authentic digest secret q")
  case True
  show ?thesis
    using is_replay_keeps [OF assms, of "the (effective_nonce q)"] assms(1)
    by (auto simp: authentic_handled [OF True] split: prod.splits bool.splits)
next
  case False
  from not_authentic_rejected [OF False, of s] assms(1) show ?thesis by auto
qed

lemma handle_callbacks_keep_nonce:
  assumes "map_of (ps_nonces s) n = Some ts" "\<And>q. q \<in> set qs \<Longrightarrow> rq_clk q \<le> ts + 300"
  shows "map_of (ps_nonces (handle_callbacks digest secret qs s)) n = Some ts"
  using assms
  by (induction qs arbitrary: s) (auto simp: handle_callbacks_def handle_callback_keeps_nonce)

section \<open>Properties\<close>

text \<open>
  C11. Whatever sequence of handlers runs, the payment table evolves only by repository operations, the
  audit trail only grows at its end and the idempotency rows evolve only by the service's operations; so
  every table the API reaches from the empty one satisfies the invariant of the repository.
\<close>

theorem api_refines_repository:
  assumes "api_step\<^sup>*\<^sup>* s s'"
  shows "payment_step\<^sup>*\<^sup>* (ps_payments s) (ps_payments s') \<and> prefix (ps_audit s) (ps_audit s')
    \<and> idem_step\<^sup>*\<^sup>* (ps_idem s) (ps_idem s') \<and> (ps_payments s = [] \<longrightarrow> payments_ok (ps_payments s'))"
proof -
  have grow: "payment_step\<^sup>*\<^sup>* (ps_payments s) (ps_payments s')" "prefix (ps_audit s) (ps_audit s')"
    "idem_step\<^sup>*\<^sup>* (ps_idem s) (ps_idem s')"
    using api_steps_grow [OF assms] by (auto simp: api_grows_def)
  moreover have "payments_ok (ps_payments s')" if "ps_payments s = []"
    using grow(1) by (rule payments_ok_steps) (simp add: that payments_ok_def)
  ultimately show ?thesis by simp
qed

definition api_init :: pay_state where
  "api_init = \<lparr>ps_payments = [], ps_audit = [], ps_nonces = [], ps_idem = idem_init\<rparr>"

theorem api_refines_repository_witness:
  "payments_ok (ps_payments (snd (create_payment_for_outage (\<lambda>_. JNull) 24 1 ''o1'' None api_init)))"
  using api_refines_repository [OF r_into_rtranclp [where r = api_step,
    OF api_create [of api_init "\<lambda>_. JNull" 24 1 "''o1''" None]]]
  by (simp add: api_init_def)

text \<open>
  When a webhook secret is configured, a provider callback that does not carry the keyed digest of
  \<open>transaction:status:nonce\<close> is answered 401: payments, nonces and idempotency rows are unchanged and the
  rejection is recorded as one audit entry.
\<close>

theorem callback_requires_signature:
  assumes "\<not> authentic digest secret q"
  shows "\<exists>msg e. fst (handle_callback digest secret q s) = Inl (HTTPException 401 msg)
    \<and> snd (handle_callback digest secret q s) = s\<lparr>ps_audit := ps_audit s @ [e]\<rparr>
    \<and> ev_created_at e = rq_now q"
proof -
  obtain msg ev d where "handle_callback digest secret q s =
      (Inl (HTTPException 401 msg), add_audit (rq_now q) (rq_ctx q) ev d s)"
    using not_authentic_rejected [OF assms] by blast
  then show ?thesis by (auto simp: add_audit_def audit_log_def log_event_def)
qed

definition sample_request :: callback_request where
  "sample_request = \<lparr>rq_clk = 10, rq_now = 20, rq_ctx = None,
     rq_body = \<lparr>cb_transaction_id = ''pay_a'', cb_status = ''confirmed'', cb_provider_ref = None, cb_nonce = Some ''n''\<rparr>,
     rq_signature = Some ''sig'', rq_nonce = None\<rparr>"

theorem callback_requires_signature_witness:
  "\<exists>msg. fst (handle_callback (\<lambda>k m. k @ m) ''key'' sample_request api_init) = Inl (HTTPException 401 msg)"
proof -
  have "\<not> authentic (\<lambda>k m. k @ m) ''key'' sample_request"
    by (simp add: authentic_def sample_request_def effective_nonce_def str_or_def callback_message_def)
  from callback_requires_signature [OF this] show ?thesis by blast
qed

text \<open>
  C4. Replay protection: once a callback with nonce \<open>n\<close> passes the replay check, an authentic callback
  with the same nonce at most 300 seconds later is answered 409 and leaves every payment unchanged,
  whatever callbacks were handled in between.
\<close>

theorem callback_replay_rejected:
  assumes first: "authentic digest secret q" "effective_nonce q = Some n" "n \<noteq> []"
      "fst (handle_callback digest secret q s)
         \<noteq> Inl (HTTPException 409 ''Duplicate callback nonce - possible replay attack'')"
    and between: "\<And>b. b \<in> set qs \<Longrightarrow> rq_clk b \<le> rq_clk q + 300"
    and again: "authentic digest secret q'" "effective_nonce q' = Some n" "rq_clk q' \<le> rq_clk q + 300"
  shows "let s' = handle_callbacks digest secret qs (snd (handle_callback digest secret q s)) in
    fst (handle_callback digest secret q' s')
      = Inl (HTTPException 409 ''Duplicate callback nonce - possible replay attack'')
    \<and> ps_payments (snd (handle_callback digest secret q' s')) = ps_payments s'"
proof -
  obtain seen where "is_replay (rq_clk q) n (ps_nonces s) = (False, seen)"
    using first by (cases "is_replay (rq_clk q) n (ps_nonces s)")
      (auto simp: authentic_handled str_true_def split: bool.splits)
  then have "map_of (ps_nonces (snd (handle_callback digest secret q s))) n = Some (rq_clk q)"
    using first by (simp add: authentic_handled str_true_def is_replay_fresh)
  from handle_callbacks_keep_nonce [OF this between]
  have "map_of (ps_nonces (handle_callbacks digest secret qs (snd (handle_callback digest secret q s)))) n
    = Some (rq_clk q)" by blast
  from is_replay_seen [OF this again(3)] show ?thesis
    using again first(3) by (simp add: authentic_handled str_true_def Let_def)
qed

theorem callback_replay_rejected_witness:
  "fst (handle_callback (\<lambda>k m. k @ m) [] (sample_request\<lparr>rq_clk := 300\<rparr>)
      (snd (handle_callback (\<lambda>k m. k @ m) [] sample_request api_init)))
    = Inl (HTTPException 409 ''Duplicate callback nonce - possible replay attack'')"
proof -
  have "authentic (\<lambda>k m. k @ m) [] sample_request" "authentic (\<lambda>k m. k @ m) [] (sample_request\<lparr>rq_clk := 300\<rparr>)"
    by (simp_all add: authentic_def)
  moreover have "fst (handle_callback (\<lambda>k m. k @ m) [] sample_request api_init)
      = Inl (HTTPException 404 ''Payment not found'')"
    by (simp add: handle_callback_def provider_callback_def sample_request_def api_init_def str_or_def
        str_true_def is_replay_def evict_stale_nonces_def apply_callback_def get_payment_row_def find_payment_def)
  moreover have "effective_nonce sample_request = Some ''n''" "effective_nonce (sample_request\<lparr>rq_clk := 300\<rparr>) = Some ''n''"
    "rq_clk (sample_request\<lparr>rq_clk := 300\<rparr>) \<le> rq_clk sample_request + 300"
    by (simp_all add: effective_nonce_def sample_request_def str_or_def)
  ultimately show ?thesis
    using callback_replay_rejected [of "\<lambda>k m. k @ m" "[]" sample_request "''n''" api_init "[]"
        "sample_request\<lparr>rq_clk := 300\<rparr>"]
    by (simp add: handle_callbacks_def Let_def)
qed

text \<open>
  Repeating the creation of an outage's payment under an idempotency key whose first request
  succeeded never creates a second payment, but instead of the stored answer the repeat raises
  \<open>TypeError\<close>.
\<close>

theorem create_repeat_raises:
  assumes "idem_step\<^sup>*\<^sup>* idem_init (ps_idem s)" "key \<noteq> []"
    and "fst (create_payment_for_outage dump ttl now oid (Some key) s) = Inr a"
  shows "let s' = snd (create_payment_for_outage dump ttl now oid (Some key) s) in
    create_payment_for_outage dump ttl now' oid' (Some key) s' = (Inl TypeError, s')"
proof -
  define s' where "s' = snd (create_payment_for_outage dump ttl now oid (Some key) s)"
  have naive: "rows_naive (ps_idem s)" using assms(1) by (rule idem_reachable_naive)
  have "find (\<lambda>r. ik_key r = key) (is_rows (ps_idem s)) = None"
    using assms(2,3) lookup_naive [OF naive]
    by (cases "find (\<lambda>r. ik_key r = key) (is_rows (ps_idem s))")
       (auto simp: create_payment_for_outage_def str_true_def)
  then have "\<exists>row. find (\<lambda>r. ik_key r = key) (is_rows (ps_idem s')) = Some row"
    using assms(2,3)
    by (auto simp: s'_def create_payment_for_outage_def str_true_def lookup_absent store_def Let_def
        list_ex_iff find_append split: prod.splits sum.splits if_splits option.splits)
  moreover have "idem_step\<^sup>*\<^sup>* (ps_idem s) (ps_idem s')"
    using create_for_outage_grows [of s dump ttl now oid "Some key"] by (auto simp: s'_def api_grows_def)
  then have "rows_naive (ps_idem s')"
    by (rule idem_steps_naive [OF _ naive])
  ultimately have "lookup now' key (ps_idem s') = (Inl TypeError, ps_idem s')"
    using lookup_naive by blast
  then have "create_payment_for_outage dump ttl now' oid' (Some key) s' = (Inl TypeError, s')"
    using assms(2) by (simp add: create_payment_for_outage_def str_true_def)
  then show ?thesis by (simp add: s'_def Let_def)
qed

theorem create_repeat_raises_witness:
  "let s' = snd (create_payment_for_outage (\<lambda>_. JNull) 24 1 ''o1'' (Some ''k'') api_init) in
    create_payment_for_outage (\<lambda>_. JNull) 24 2 ''o1'' (Some ''k'') s' = (Inl TypeError, s')"
proof -
  have "\<exists>a. fst (create_payment_for_outage (\<lambda>_. JNull) 24 1 ''o1'' (Some ''k'') api_init) = Inr a"
    by (simp add: create_payment_for_outage_def api_init_def idem_init_def str_true_def lookup_def store_def
        create_payment_def insert_payment_def)
  then obtain a where "fst (create_payment_for_outage (\<lambda>_. JNull) 24 1 ''o1'' (Some ''k'') api_init) = Inr a" ..
  then show ?thesis
    using create_repeat_raises [of api_init "''k''" "\<lambda>_. JNull" 24 1 "''o1''" a 2 "''o1''"]
    by (simp add: api_init_def)
qed

end
