(* ===== verification/Caching.thy ===== *)
theory Caching
  imports NocBase
begin

text \<open>
  The in-process TTL cache of \<open>app/utils/cache.py\<close>, the cache key rules of \<open>app/core/cache_governance.py\<close>
  and the sliding request window shared by \<open>SimpleRateLimiter\<close> of \<open>app/core/rate_limiter.py\<close> and the
  contract execution guard. The clock (\<open>time.monotonic()\<close>, \<open>time()\<close>) is an argument of every operation.
\<close>

section \<open>TTL cache\<close>

record 'v ttl_cache =
  tc_ttl :: int
  tc_store :: "(string \<times> 'v \<times> real) list"

record 'v cache_result =
  cr_value :: 'v
  cr_age_seconds :: real
  cr_ttl_remaining :: real

definition is_expired :: "'v cache_result \<Rightarrow> bool" where
  "is_expired r \<longleftrightarrow> cr_ttl_remaining r \<le> 0"

definition TTLCache :: "int \<Rightarrow> 'v ttl_cache" where
  "TTLCache ttl_seconds = \<lparr>tc_ttl = ttl_seconds, tc_store = []\<rparr>"

definition cache_get :: "real \<Rightarrow> string \<Rightarrow> 'v ttl_cache \<Rightarrow> 'v option \<times> 'v ttl_cache" where
  "cache_get now key c =
    (case map_of (tc_store c) key of
       None \<Rightarrow> (None, c)
     | Some (value, expires_at) \<Rightarrow>
         if now > expires_at then (None, c\<lparr>tc_store := AList.delete key (tc_store c)\<rparr>)
         else (Some value, c))"

definition get_with_meta :: "real \<Rightarrow> string \<Rightarrow> 'v ttl_cache \<Rightarrow> 'v cache_result option" where
  "get_with_meta now key c =
    (case map_of (tc_store c) key of
       None \<Rightarrow> None
     | Some (value, expires_at) \<Rightarrow>
         Some \<lparr>cr_value = value, cr_age_seconds = now - (expires_at - real_of_int (tc_ttl c)),
               cr_ttl_remaining = max 0 (expires_at - now)\<rparr>)"

definition cache_set :: "real \<Rightarrow> string \<Rightarrow> 'v \<Rightarrow> 'v ttl_cache \<Rightarrow> 'v ttl_cache" where
  "cache_set now key value c =
    c\<lparr>tc_store := AList.update key (value, now + real_of_int (tc_ttl c)) (tc_store c)\<rparr>"

definition invalidate :: "string \<Rightarrow> 'v ttl_cache \<Rightarrow> 'v ttl_cache" where
  "invalidate key c = c\<lparr>tc_store := AList.delete key (tc_store c)\<rparr>"

definition invalidate_prefix :: "string \<Rightarrow> 'v ttl_cache \<Rightarrow> 'v ttl_cache" where
  "invalidate_prefix pre c = c\<lparr>tc_store :=
     fold AList.delete (filter (\<lambda>k. startswith k pre) (map fst (tc_store c))) (tc_store c)\<rparr>"

section \<open>Cache key governance\<close>

datatype namespace = WALLET | RATE_LIMIT | SESSION | OUTAGE | METRICS

fun namespace_value :: "namespace \<Rightarrow> string" where
  "namespace_value WALLET = ''wallet''"
| "namespace_value RATE_LIMIT = ''rate-limit''"
| "namespace_value SESSION = ''session''"
| "namespace_value OUTAGE = ''outage''"
| "namespace_value METRICS = ''metrics''"

definition all_namespaces :: "namespace list" where
  "all_namespaces = [WALLET, RATE_LIMIT, SESSION, OUTAGE, METRICS]"

fun max_ttl :: "namespace \<Rightarrow> int" where
  "max_ttl WALLET = 300"
| "max_ttl RATE_LIMIT = 60"
| "max_ttl SESSION = 3600"
| "max_ttl OUTAGE = 120"
| "max_ttl METRICS = 30"

definition enforce_ttl :: "namespace \<Rightarrow> int \<Rightarrow> int" where
  "enforce_ttl ns requested_ttl = (if requested_ttl > max_ttl ns then max_ttl ns else requested_ttl)"

fun join :: "string \<Rightarrow> string list \<Rightarrow> string" where
  "join sep [] = []"
| "join sep [p] = p"
| "join sep (p # q # ps) = p @ sep @ join sep (q # ps)"

definition build_key :: "namespace \<Rightarrow> string list \<Rightarrow> string" where
  "build_key ns parts =
    (let joined = join '':'' parts in
     if joined \<noteq> [] then namespace_value ns @ '':'' @ joined else namespace_value ns)"

definition parse_key :: "string \<Rightarrow> namespace option \<times> string" where
  "parse_key key =
    (case find (\<lambda>ns. startswith key (namespace_value ns @ '':'')) all_namespaces of
       Some ns \<Rightarrow> (Some ns, drop (length (namespace_value ns @ '':'')) key)
     | None \<Rightarrow> (None, key))"

section \<open>Sliding request window\<close>

text \<open>\<open>SimpleRateLimiter.is_allowed\<close>: the dict of request times per key is a \<open>defaultdict(list)\<close>.\<close>

definition dict_get :: "'a \<Rightarrow> string \<Rightarrow> (string \<times> 'a) list \<Rightarrow> 'a" where
  "dict_get d k m = (case map_of m k of None \<Rightarrow> d | Some v \<Rightarrow> v)"

definition is_allowed ::
  "int \<Rightarrow> nat \<Rightarrow> real \<Rightarrow> string \<Rightarrow> (string \<times> real list) list \<Rightarrow> bool \<times> (string \<times> real list) list" where
  "is_allowed window_seconds max_requests now key requests =
    (let window_start = now - real_of_int window_seconds;
         recent = filter (\<lambda>t. t > window_start) (dict_get [] key requests);
         requests1 = AList.update key recent requests
     in if length recent \<ge> max_requests then (False, requests1)
        else (True, AList.update key (recent @ [now]) requests1))"

text \<open>
  The interface a request window offers per key: it keeps the accepted instants that are still live and
  accepts while fewer than \<open>limit\<close> of them are.
\<close>

locale request_window =
  fixes admit :: "real \<Rightarrow> real list \<Rightarrow> bool \<times> real list"
    and live :: "real \<Rightarrow> real \<Rightarrow> bool"
    and limit :: nat
  assumes admit_unfold: "admit now ts =
      (if length (filter (live now) ts) \<ge> limit then (False, filter (live now) ts)
       else (True, filter (live now) ts @ [now]))"
    and live_now: "live now now"
    and live_antitone: "live now t \<Longrightarrow> now' \<le> now \<Longrightarrow> live now' t"
begin

text \<open>The instants accepted among a sequence of requests, with the tracker they leave.\<close>

fun accepted :: "real list \<Rightarrow> real list \<Rightarrow> real list \<times> real list" where
  "accepted [] ts = ([], ts)"
| "accepted (q # qs) ts =
    (let (ok, ts') = admit q ts; (acc, fin) = accepted qs ts' in (if ok then q # acc else acc, fin))"

lemma filter_live_filter:
  assumes "now \<le> later"
  shows "filter (live later) (filter (live now) ts) = filter (live later) ts"
proof -
  have "live later x \<Longrightarrow> live now x" for x using live_antitone assms by blast
  then show ?thesis by (auto simp: filter_filter intro!: filter_cong)
qed

lemma window_bound_from:
  assumes "sorted qs" "\<And>q. q \<in> set qs \<Longrightarrow> filter (live q) ts = filter (live q) base"
    and "fst (accepted qs ts) = xs @ a # ys"
  shows "length (filter (live a) (base @ xs @ [a])) \<le> limit"
  using assms
proof (induction qs arbitrary: ts base xs)
  case (Cons q qs)
  obtain ok ts' where adm: "admit q ts = (ok, ts')" by fastforce
  have later: "filter (live r) ts' = filter (live r) (base @ (if ok then [q] else []))" if "r \<in> set qs" for r
  proof -
    have "q \<le> r" using that Cons.prems(1) by simp
    then have "filter (live r) (filter (live q) ts) = filter (live r) base"
      using filter_live_filter Cons.prems(2) [of r] that by simp
    with adm show ?thesis by (auto simp: admit_unfold split: if_splits)
  qed
  have now: "filter (live q) ts = filter (live q) base" using Cons.prems(2) [of q] by simp
  show ?case
  proof (cases ok)
    case True
    show ?thesis
    proof (cases xs)
      case Nil
      with True adm Cons.prems(3) have "a = q" by (simp add: split: prod.splits)
      with True adm now Nil show ?thesis by (auto simp: admit_unfold live_now split: if_splits)
    next
      case (Cons x xs')
      with True adm Cons.prems(3) have "x = q" "fst (accepted qs ts') = xs' @ a # ys"
        by (simp_all add: split: prod.splits)
      with Cons.IH [of ts' "base @ [q]" xs'] Cons.prems(1) later True Cons show ?thesis by simp
    qed
  next
    case False
    with adm Cons.prems(3) have "fst (accepted qs ts') = xs @ a # ys" by (simp split: prod.splits)
    with Cons.IH [of ts' base xs] Cons.prems(1) later False show ?thesis by simp
  qed
qed simp

text \<open>Among requests in clock order, at most \<open>limit\<close> accepted ones are live when one is accepted.\<close>

lemma window_bound:
  "sorted qs \<Longrightarrow> fst (accepted qs []) = xs @ a # ys \<Longrightarrow> length (filter (live a) (xs @ [a])) \<le> limit"
  using window_bound_from [of qs "[]" "[]" xs a ys] by simp

lemma admit_fresh: "\<forall>t\<in>set ts. \<not> live now t \<Longrightarrow> 0 < limit \<Longrightarrow> admit now ts = (True, [now])"
  by (simp add: admit_unfold filter_empty_conv)

end

text \<open>A tracker with one window per key: a request touches only the window of its key.\<close>

locale keyed_window = request_window +
  fixes hit :: "real \<Rightarrow> string \<Rightarrow> 'd \<Rightarrow> bool \<times> 'd"
    and window_of :: "string \<Rightarrow> 'd \<Rightarrow> real list"
  assumes hit_answer: "fst (hit now k d) = fst (admit now (window_of k d))"
    and hit_window: "window_of k' (snd (hit now k d)) =
      (if k' = k then snd (admit now (window_of k d)) else window_of k' d)"
begin

fun hits :: "(real \<times> string) list \<Rightarrow> 'd \<Rightarrow> (real \<times> string) list" where
  "hits [] d = []"
| "hits ((now, k) # qs) d = (if fst (hit now k d) then (now, k) # hits qs (snd (hit now k d))
     else hits qs (snd (hit now k d)))"

lemma hits_of_key:
  "map fst (filter (\<lambda>q. snd q = k) (hits qs d)) =
   fst (accepted (map fst (filter (\<lambda>q. snd q = k) qs)) (window_of k d))"
proof (induction qs d rule: hits.induct)
  case (2 now k' qs d)
  then show ?case
    by (cases "admit now (window_of k d)")
       (auto simp: hit_answer hit_window split: prod.splits)
qed simp

lemma keyed_bound:
  assumes "sorted (map fst qs)" "window_of k d = []"
    and "map fst (filter (\<lambda>q. snd q = k) (hits qs d)) = xs @ a # ys"
  shows "length (filter (live a) (xs @ [a])) \<le> limit"
proof -
  have "sorted (map fst (filter (\<lambda>q. snd q = k) qs))"
    using assms(1) by (simp add: sorted_wrt_map sorted_wrt_filter)
  from window_bound [OF this] show ?thesis using assms(2,3) unfolding hits_of_key by metis
qed

end

section \<open>Laws of the cache\<close>

lemma map_of_delete [table_simps]: "map_of (AList.delete k xs) k' = (if k' = k then None else map_of xs k')"
  by (simp add: AList.delete_conv')

lemma map_of_fold_delete:
  "map_of (fold AList.delete ks xs) k = (if k \<in> set ks then None else map_of xs k)"
  by (induction ks arbitrary: xs) (auto simp: map_of_delete)

text \<open>The contents of the cache as a map from keys to the stored value and the instant it expires.\<close>

definition entry :: "string \<Rightarrow> 'v ttl_cache \<Rightarrow> ('v \<times> real) option" where
  "entry k c = map_of (tc_store c) k"

lemma entry_TTLCache [simp]: "entry k (TTLCache ttl) = None" "tc_ttl (TTLCache ttl) = ttl"
  by (simp_all add: entry_def TTLCache_def)

lemma entry_set [simp]:
  "entry k (cache_set now k' v c) = (if k = k' then Some (v, now + real_of_int (tc_ttl c)) else entry k c)"
  by (simp add: entry_def cache_set_def update_conv')

lemma entry_invalidate [simp]: "entry k (invalidate k' c) = (if k = k' then None else entry k c)"
  by (simp add: entry_def invalidate_def map_of_delete)

lemma entry_invalidate_prefix [simp]:
  "entry k (invalidate_prefix pre c) = (if startswith k pre then None else entry k c)"
  by (auto simp: entry_def invalidate_prefix_def map_of_fold_delete map_of_eq_None_iff)

lemma entry_get [simp]:
  "entry k (snd (cache_get now k' c)) =
    (if k = k' \<and> (\<exists>v e. entry k c = Some (v, e) \<and> e < now) then None else entry k c)"
  by (auto simp: entry_def cache_get_def map_of_delete split: option.splits)

lemma ttl_kept [simp]:
  "tc_ttl (cache_set now k v c) = tc_ttl c" "tc_ttl (invalidate k c) = tc_ttl c"
  "tc_ttl (invalidate_prefix pre c) = tc_ttl c" "tc_ttl (snd (cache_get now k c)) = tc_ttl c"
  by (auto simp: cache_set_def invalidate_def invalidate_prefix_def cache_get_def split: option.splits)

lemma cache_get_entry:
  "fst (cache_get now k c) = (case entry k c of None \<Rightarrow> None | Some (v, e) \<Rightarrow> if e < now then None else Some v)"
  by (auto simp: entry_def cache_get_def split: option.splits)

text \<open>The interface its clients rely on, and what every client may conclude from it.\<close>

locale expiring_store =
  fixes read :: "real \<Rightarrow> string \<Rightarrow> 'c \<Rightarrow> 'v option"
    and put :: "real \<Rightarrow> string \<Rightarrow> 'v \<Rightarrow> 'c \<Rightarrow> 'c"
    and drop_key :: "string \<Rightarrow> 'c \<Rightarrow> 'c"
    and ttl :: "'c \<Rightarrow> real"
  assumes read_write: "read t k (put now k' v c) =
      (if k = k' then (if t \<le> now + ttl c then Some v else None) else read t k c)"
    and read_drop: "read t k (drop_key k' c) = (if k = k' then None else read t k c)"
    and ttl_write: "ttl (put now k v c) = ttl c"
    and ttl_drop: "ttl (drop_key k c) = ttl c"
begin

lemma read_after_writes:
  assumes "k \<notin> fst ` snd ` set ws"
  shows "read t k (fold (\<lambda>(now, k', v). put now k' v) ws c) = read t k c"
  using assms by (induction ws arbitrary: c) (auto simp: read_write)

lemma ttl_writes: "ttl (fold (\<lambda>(now, k', v). put now k' v) ws c) = ttl c"
  by (induction ws arbitrary: c) (auto simp: ttl_write)

text \<open>Write-through: once a key is dropped, no other put brings its old value back.\<close>

lemma dropped_stays:
  assumes "k \<notin> fst ` snd ` set ws"
  shows "read t k (fold (\<lambda>(now, k', v). put now k' v) ws (drop_key k c)) = None"
  using read_after_writes [OF assms] by (simp add: read_drop)

end

interpretation ttl_store: expiring_store "\<lambda>t k c. fst (cache_get t k c)" cache_set invalidate "\<lambda>c. real_of_int (tc_ttl c)"
  by unfold_locales (auto simp: cache_get_entry)

text \<open>
  Operations on the cache in the order they run, each with the clock value it reads, and the map a caller
  expects: the last value written to a key and not invalidated since, with the instant of the write.
\<close>

datatype 'v cache_op = Get real string | Put real string 'v | Drop string | DropPrefix string

fun run_op :: "'v cache_op \<Rightarrow> 'v ttl_cache \<Rightarrow> 'v ttl_cache" where
  "run_op (Get now k) c = snd (cache_get now k c)"
| "run_op (Put now k v) c = cache_set now k v c"
| "run_op (Drop k) c = invalidate k c"
| "run_op (DropPrefix p) c = invalidate_prefix p c"

fun expect_op :: "'v cache_op \<Rightarrow> (string \<Rightarrow> ('v \<times> real) option) \<Rightarrow> string \<Rightarrow> ('v \<times> real) option" where
  "expect_op (Get now k) m = m"
| "expect_op (Put now k v) m = m(k \<mapsto> (v, now))"
| "expect_op (Drop k) m = m(k := None)"
| "expect_op (DropPrefix p) m = (\<lambda>k. if startswith k p then None else m k)"

fun not_after :: "real \<Rightarrow> 'v cache_op \<Rightarrow> bool" where
  "not_after t (Get now k) \<longleftrightarrow> now \<le> t"
| "not_after t (Put now k v) \<longleftrightarrow> now \<le> t"
| "not_after t _ \<longleftrightarrow> True"

definition agrees :: "real \<Rightarrow> string \<Rightarrow> 'v ttl_cache \<Rightarrow> (string \<Rightarrow> ('v \<times> real) option) \<Rightarrow> bool" where
  "agrees t k c m \<longleftrightarrow> (case m k of
     None \<Rightarrow> entry k c = None
   | Some (v, t0) \<Rightarrow> entry k c = Some (v, t0 + real_of_int (tc_ttl c))
       \<or> (entry k c = None \<and> t0 + real_of_int (tc_ttl c) < t))"

lemma agrees_op:
  assumes "agrees t k c m" "not_after t p"
  shows "agrees t k (run_op p c) (expect_op p m)"
  using assms by (cases p) (auto simp: agrees_def split: option.splits)

lemma agrees_ops:
  assumes "agrees t k c m" "list_all (not_after t) ps"
  shows "agrees t k (fold run_op ps c) (fold expect_op ps m)"
  using assms by (induction ps arbitrary: c m) (simp_all add: agrees_op)

lemma ttl_run_op [simp]: "tc_ttl (run_op p c) = tc_ttl c"
  by (cases p) simp_all

lemma ttl_run_ops [simp]: "tc_ttl (fold run_op ps c) = tc_ttl c"
  by (induction ps arbitrary: c) simp_all

section \<open>Rate limiting\<close>

definition simple_admit :: "int \<Rightarrow> nat \<Rightarrow> real \<Rightarrow> real list \<Rightarrow> bool \<times> real list" where
  "simple_admit window_seconds max_requests now ts =
    (let recent = filter (\<lambda>t. t > now - real_of_int window_seconds) ts
     in if length recent \<ge> max_requests then (False, recent) else (True, recent @ [now]))"

lemma is_allowed_window:
  "fst (is_allowed w n now k d) = fst (simple_admit w n now (dict_get [] k d))"
  "dict_get [] k' (snd (is_allowed w n now k d)) =
     (if k' = k then snd (simple_admit w n now (dict_get [] k d)) else dict_get [] k' d)"
  by (auto simp: is_allowed_def simple_admit_def Let_def dict_get_def update_conv')

lemma simple_window:
  "0 < w \<Longrightarrow> keyed_window (simple_admit w n) (\<lambda>now t. t > now - real_of_int w) n (is_allowed w n) (dict_get [])"
  by unfold_locales (auto simp: simple_admit_def is_allowed_window)

text \<open>The instance the auth endpoints use: \<open>AUTH_RATE_LIMIT_WINDOW_SECONDS\<close> and \<open>AUTH_RATE_LIMIT_REQUESTS\<close>.\<close>

interpretation auth_window:
  keyed_window "simple_admit 300 10" "\<lambda>now t. t > now - real_of_int 300" 10 "is_allowed 300 10" "dict_get []"
  by (rule simple_window) simp

section \<open>Properties\<close>

text \<open>
  C21. The cache is a last-write map with expiry: after any sequence of reads, writes and invalidations, a
  read no earlier than all of them returns exactly the last value written to the key, provided it was
  not invalidated since and was written at most \<open>ttl\<close> seconds ago; otherwise it returns nothing.
\<close>

theorem cache_is_last_write_map:
  assumes "list_all (not_after t) ps"
  shows "fst (cache_get t k (fold run_op ps (TTLCache ttl))) =
    (case fold expect_op ps (\<lambda>_. None) k of
       None \<Rightarrow> None
     | Some (v, t0) \<Rightarrow> if t \<le> t0 + real_of_int ttl then Some v else None)"
proof -
  have "agrees t k (TTLCache ttl) (\<lambda>_. None)" by (simp add: agrees_def)
  then have "agrees t k (fold run_op ps (TTLCache ttl)) (fold expect_op ps (\<lambda>_. None))"
    using assms by (rule agrees_ops)
  then show ?thesis by (auto simp: agrees_def cache_get_entry split: option.splits)
qed

theorem cache_is_last_write_map_witness:
  "fst (cache_get 40 ''a'' (fold run_op [Put 1 ''a'' (5::int), Put 20 ''a'' 6, Get 35 ''a'', Drop ''b''] (TTLCache 30)))
    = Some 6"
  using cache_is_last_write_map [of 40 "[Put 1 ''a'' (5::int), Put 20 ''a'' 6, Get 35 ''a'', Drop ''b'']" "''a''" 30]
  by simp

fun allowed_requests :: "int \<Rightarrow> nat \<Rightarrow> (real \<times> string) list \<Rightarrow> (string \<times> real list) list \<Rightarrow> (real \<times> string) list" where
  "allowed_requests w n [] d = []"
| "allowed_requests w n ((now, k) # qs) d =
    (let (ok, d') = is_allowed w n now k d
     in if ok then (now, k) # allowed_requests w n qs d' else allowed_requests w n qs d')"

lemma allowed_requests_hits: "allowed_requests 300 10 qs d = auth_window.hits qs d"
proof (induction qs d rule: auth_window.hits.induct)
  case (2 now k qs d)
  then show ?case by (cases "is_allowed 300 10 now k d") auto
qed simp

text \<open>
  The limiter of the authentication endpoints: among requests in clock order, whatever other keys
  are used in between, at no accepted request have more than ten requests of its key been accepted in
  the last 300 seconds, itself included.
\<close>

theorem auth_rate_limit:
  assumes "sorted (map fst qs)"
    and "map fst (filter (\<lambda>q. snd q = k) (allowed_requests 300 10 qs [])) = xs @ a # ys"
  shows "length (filter (\<lambda>t. a - 300 < t) (xs @ [a])) \<le> 10"
  using auth_window.keyed_bound [OF assms(1), of k "[]" xs a ys] assms(2)
  by (simp add: allowed_requests_hits dict_get_def)

theorem auth_rate_limit_witness:
  "length (filter (\<lambda>t. 2 - 300 < t) ([1] @ [2 :: real])) \<le> 10"
  by (rule auth_rate_limit [of "[(1, ''k''), (2, ''k'')]" "''k''" "[1]" 2 "[]"])
     (simp_all add: is_allowed_def dict_get_def Let_def)

text \<open>
  Cache keys parse back to the namespace and the parts they were built from, and the effective
  time to live never exceeds the limit of the namespace nor the requested value.
\<close>

theorem cache_key_roundtrip:
  assumes "join '':'' parts \<noteq> []"
  shows "parse_key (build_key ns parts) = (Some ns, join '':'' parts) \<and> enforce_ttl ns t = min t (max_ttl ns)"
proof -
  have "parse_key (build_key ns parts) = (Some ns, join '':'' parts)"
    using assms
    by (cases ns) (simp_all add: parse_key_def build_key_def all_namespaces_def startswith_def Let_def)
  then show ?thesis by (simp add: enforce_ttl_def min_def)
qed

theorem cache_key_roundtrip_witness:
  "parse_key (build_key SESSION [''u1'', ''x'']) = (Some SESSION, ''u1:x'') \<and> enforce_ttl SESSION 9000 = min 9000 3600"
  using cache_key_roundtrip [of "[''u1'', ''x'']" SESSION 9000] by simp

end
