(* ===== verification/ContractBridge.thy ===== *)
theory ContractBridge
  imports Caching
begin

text \<open>
  The bridge to the SLA contract: error classification (\<open>sla_adapter.classify_error\<close>,
  \<open>bridge_error_mapper.map_bridge_error\<close>), asset, network and trustline guards, the balance cache
  (\<open>BalanceFetchAdapter\<close>), the execution guard and the circuit-breaking fallback chain. Horizon's answer, the
  live balance fetcher, the upstream callables and Python's number parsing and dict rendering are arguments.
\<close>

section \<open>Error classification\<close>

datatype retry_class = RC_network | RC_rate_limit | RC_semantic | RC_unknown

definition classify_error :: "string \<Rightarrow> retry_class" where
  "classify_error error_text =
    (let error_str = lower error_text in
     if any_in [''timeout'', ''connection'', ''dns'', ''reset''] error_str then RC_network
     else if any_in [''rate limit'', ''429'', ''too many''] error_str then RC_rate_limit
     else if any_in [''invalid'', ''bad request'', ''unauthorized'', ''forbidden'', ''not found''] error_str
       then RC_semantic
     else RC_unknown)"

datatype bridge_error_code = TIMEOUT | REJECTED | INSUFFICIENT_FUNDS | NETWORK_ERROR | CONTRACT_ERROR | UNKNOWN

record bridge_error =
  be_code :: bridge_error_code
  be_message :: string
  be_retryable :: bool

definition TIMEOUT_KEYWORDS :: "string list" where
  "TIMEOUT_KEYWORDS = [''timeout'', ''timed out'', ''deadline exceeded'', ''read timed out'']"
definition NETWORK_KEYWORDS :: "string list" where
  "NETWORK_KEYWORDS = [''connection'', ''dns'', ''reset'', ''refused'', ''unreachable'', ''network'']"
definition REJECTED_KEYWORDS :: "string list" where
  "REJECTED_KEYWORDS = [''rejected'', ''denied'', ''forbidden'', ''unauthorized'', ''not allowed'']"
definition FUNDS_KEYWORDS :: "string list" where
  "FUNDS_KEYWORDS = [''insufficient'', ''not enough'', ''balance'', ''insufficient funds'']"
definition CONTRACT_KEYWORDS :: "string list" where
  "CONTRACT_KEYWORDS = [''contract'', ''soroban'', ''invoke'', ''wasm'', ''soroban_rpc'']"

definition map_bridge_error :: "string \<Rightarrow> bridge_error" where
  "map_bridge_error raw =
    (let error_str = lower raw;
         mk = (\<lambda>code retryable. \<lparr>be_code = code, be_message = raw, be_retryable = retryable\<rparr>)
     in if any_in TIMEOUT_KEYWORDS error_str then mk TIMEOUT True
        else if any_in NETWORK_KEYWORDS error_str then mk NETWORK_ERROR True
        else if any_in REJECTED_KEYWORDS error_str then mk REJECTED False
        else if any_in FUNDS_KEYWORDS error_str then mk INSUFFICIENT_FUNDS False
        else if any_in CONTRACT_KEYWORDS error_str then mk CONTRACT_ERROR False
        else mk UNKNOWN False)"

record timeout_config =
  to_sla_check_ms :: int
  to_payment_ms :: int
  to_balance_check_ms :: int

definition for_operation :: "timeout_config \<Rightarrow> string \<Rightarrow> int" where
  "for_operation c operation =
    (let mapping = [(''sla_check'', to_sla_check_ms c), (''payment'', to_payment_ms c),
                    (''balance_check'', to_balance_check_ms c)]
     in case map_of mapping operation of None \<Rightarrow> to_payment_ms c | Some ms \<Rightarrow> ms)"

section \<open>Payout guards\<close>

definition asset_error :: "string \<Rightarrow> 'a res" where
  "asset_error detail = Inl (ValueError (''[INVALID_ASSET_CONFIG] '' @ detail))"

definition validate_asset_config :: "string option \<Rightarrow> string option \<Rightarrow> unit res" where
  "validate_asset_config asset_code asset_issuer =
    (let code = strip (case asset_code of None \<Rightarrow> [] | Some s \<Rightarrow> s);
         issuer = strip (case asset_issuer of None \<Rightarrow> [] | Some s \<Rightarrow> s)
     in if code = [] then asset_error ''asset_code must not be empty.''
        else if \<not> isalnum code then
          asset_error (''asset_code '' @ quoted code @ '' must be alphanumeric (Stellar asset code rules).'')
        else if length code > 12 then
          asset_error (''asset_code '' @ quoted code @ '' exceeds maximum length of 12.'')
        else if issuer = [] then asset_error ''asset_issuer must not be empty.''
        else if \<not> startswith issuer ''G'' \<or> length issuer \<noteq> 56 then
          asset_error (''asset_issuer '' @ quoted issuer @ '' must be a valid 56-character Stellar G-address.'')
        else Inr ())"

record bridge_settings =
  PAYMENT_ASSET_CODE :: string
  PAYMENT_ASSET_ISSUER :: string
  STELLAR_NETWORK :: string
  CONTRACT_EXECUTION_MODE :: string
  ALLOWED_CONTRACT_ADDRESSES :: "string list"
  MAX_CONTRACT_EXECUTION_AMOUNT :: real
  CONTRACT_CALL_RATE_LIMIT :: nat

definition validate_payout_asset :: "bridge_settings \<Rightarrow> string option \<Rightarrow> string option \<Rightarrow> unit res" where
  "validate_payout_asset st asset_code asset_issuer =
    validate_asset_config
      (Some (case asset_code of None \<Rightarrow> PAYMENT_ASSET_CODE st | Some c \<Rightarrow> c))
      (Some (case asset_issuer of None \<Rightarrow> PAYMENT_ASSET_ISSUER st | Some i \<Rightarrow> i))"

definition assert_network :: "bridge_settings \<Rightarrow> string \<Rightarrow> unit res" where
  "assert_network st wallet_network =
    (let expected = STELLAR_NETWORK st in
     if lower wallet_network \<noteq> expected then Inl (NetworkMismatchError expected wallet_network) else Inr ())"

text \<open>What \<open>GET /accounts/<address>\<close> gives: a status error, no answer, or the list of balances.\<close>

record horizon_balance =
  hb_asset_code :: "string option"
  hb_asset_issuer :: "string option"
  hb_limit :: "string option"
  hb_balance :: "string option"

datatype horizon_response = HTTPStatusError nat | RequestError | Balances "horizon_balance list"

datatype trustline_status = READY | MISSING | LIMIT_ZERO | TS_UNKNOWN

record trustline_result =
  tr_status :: trustline_status
  tr_asset_code :: string
  tr_asset_issuer :: string
  tr_balance :: "string option"
  tr_limit :: "string option"

definition check_trustline ::
  "(string \<Rightarrow> real option) \<Rightarrow> horizon_response \<Rightarrow> string \<Rightarrow> string \<Rightarrow> trustline_result res" where
  "check_trustline float resp asset_code asset_issuer =
    (let plain = (\<lambda>s. \<lparr>tr_status = s, tr_asset_code = asset_code, tr_asset_issuer = asset_issuer,
                        tr_balance = None, tr_limit = None\<rparr>)
     in case resp of
          HTTPStatusError code \<Rightarrow> if code = 404 then Inr (plain MISSING) else Inr (plain TS_UNKNOWN)
        | RequestError \<Rightarrow> Inr (plain TS_UNKNOWN)
        | Balances balances \<Rightarrow>
          (case find (\<lambda>b. hb_asset_code b = Some asset_code \<and> hb_asset_issuer b = Some asset_issuer) balances of
             None \<Rightarrow> Inr (plain MISSING)
           | Some b \<Rightarrow>
             (let limit = (case hb_limit b of None \<Rightarrow> ''0'' | Some l \<Rightarrow> l) in
              case float limit of
                None \<Rightarrow> Inl (ValueError (''could not convert string to float: '' @ limit))
              | Some x \<Rightarrow>
                Inr \<lparr>tr_status = (if x = 0 then LIMIT_ZERO else READY), tr_asset_code = asset_code,
                     tr_asset_issuer = asset_issuer, tr_balance = hb_balance b, tr_limit = Some limit\<rparr>)))"

fun trustline_reason :: "trustline_status \<Rightarrow> string" where
  "trustline_reason MISSING = ''TRUSTLINE_MISSING''"
| "trustline_reason LIMIT_ZERO = ''TRUSTLINE_LIMIT_ZERO''"
| "trustline_reason TS_UNKNOWN = ''TRUSTLINE_CHECK_FAILED''"
| "trustline_reason READY = []"

definition assert_trustline_ready ::
  "(string \<Rightarrow> real option) \<Rightarrow> horizon_response \<Rightarrow> string \<Rightarrow> string \<Rightarrow> string \<Rightarrow> trustline_result res" where
  "assert_trustline_ready float resp address asset_code asset_issuer =
    (case check_trustline float resp asset_code asset_issuer of
       Inl e \<Rightarrow> Inl e
     | Inr r \<Rightarrow> if tr_status r = READY then Inr r
                else Inl (TrustlineError (trustline_reason (tr_status r)) address asset_code))"

section \<open>Balance cache\<close>

datatype balance_source = Live | Cache | Stale_fallback

datatype fetch_code = STALE_FALLBACK | FETCH_FAILED

record 'b balance_result =
  br_address :: string
  br_balances :: "'b option"
  br_source :: balance_source
  br_cached_at :: "real option"
  br_ttl_remaining :: "int option"
  br_is_degraded :: bool
  br_error :: "(fetch_code \<times> string) option"

text \<open>
  \<open>fetch\<close>: \<open>clk\<close> is the monotonic clock when the cache is read, \<open>clk'\<close> when it is written, \<open>now\<close> the wall
  clock; \<open>None\<close> as balances is the empty dict of the last branch.
\<close>

definition balance_fetch ::
  "real \<Rightarrow> real \<Rightarrow> real \<Rightarrow> string \<Rightarrow> (string \<Rightarrow> 'b res) \<Rightarrow> bool \<Rightarrow> ('b \<times> real) ttl_cache \<Rightarrow>
   'b balance_result \<times> ('b \<times> real) ttl_cache" where
  "balance_fetch clk clk' now address live_fetcher force_refresh c =
    (let meta = get_with_meta clk address c in
     case meta of
       Some m \<Rightarrow>
         if \<not> force_refresh \<and> \<not> is_expired m then
           (\<lparr>br_address = address, br_balances = Some (fst (cr_value m)), br_source = Cache,
             br_cached_at = Some (snd (cr_value m)), br_ttl_remaining = Some \<lfloor>cr_ttl_remaining m\<rfloor>,
             br_is_degraded = False, br_error = None\<rparr>, c)
         else (case live_fetcher address of
             Inr balances \<Rightarrow>
               (\<lparr>br_address = address, br_balances = Some balances, br_source = Live, br_cached_at = Some now,
                 br_ttl_remaining = Some (tc_ttl c), br_is_degraded = False, br_error = None\<rparr>,
                cache_set clk' address (balances, now) c)
           | Inl e \<Rightarrow>
               (\<lparr>br_address = address, br_balances = Some (fst (cr_value m)), br_source = Stale_fallback,
                 br_cached_at = Some (snd (cr_value m)), br_ttl_remaining = Some 0, br_is_degraded = True,
                 br_error = Some (STALE_FALLBACK, ''Live fetch failed; serving stale data. Reason: '' @ exc_msg e)\<rparr>, c))
     | None \<Rightarrow>
         (case live_fetcher address of
             Inr balances \<Rightarrow>
               (\<lparr>br_address = address, br_balances = Some balances, br_source = Live, br_cached_at = Some now,
                 br_ttl_remaining = Some (tc_ttl c), br_is_degraded = False, br_error = None\<rparr>,
                cache_set clk' address (balances, now) c)
           | Inl e \<Rightarrow>
               (\<lparr>br_address = address, br_balances = None, br_source = Live, br_cached_at = None,
                 br_ttl_remaining = None, br_is_degraded = True,
                 br_error = Some (FETCH_FAILED,
                   ''Balance fetch failed and no cached data is available. Reason: '' @ exc_msg e)\<rparr>, c)))"

definition balance_invalidate :: "string \<Rightarrow> ('b \<times> real) ttl_cache \<Rightarrow> ('b \<times> real) ttl_cache" where
  "balance_invalidate address c = invalidate address c"

section \<open>Execution guard\<close>

record guard_params =
  gp_execution_mode :: "string option"
  gp_contract_address :: "string option"
  gp_network :: "string option"
  gp_amount :: "real option"
  gp_user_id :: "string option"

record guard_result =
  gr_passed :: bool
  gr_check :: string

type_synonym rate_tracker = "(string \<times> real list) list"

definition truthy :: "string option \<Rightarrow> bool" where
  "truthy s \<longleftrightarrow> s \<noteq> None \<and> s \<noteq> Some []"

definition check_execution_mode :: "bridge_settings \<Rightarrow> guard_params \<Rightarrow> guard_result" where
  "check_execution_mode st p =
    (if truthy (gp_execution_mode p) \<and> gp_execution_mode p \<noteq> Some (CONTRACT_EXECUTION_MODE st)
     then \<lparr>gr_passed = False, gr_check = ''execution_mode''\<rparr>
     else \<lparr>gr_passed = True, gr_check = ''execution_mode''\<rparr>)"

definition check_contract_address :: "bridge_settings \<Rightarrow> guard_params \<Rightarrow> guard_result" where
  "check_contract_address st p =
    (let address = (case gp_contract_address p of None \<Rightarrow> [] | Some a \<Rightarrow> a);
         allowed = ALLOWED_CONTRACT_ADDRESSES st
     in if allowed \<noteq> [] \<and> address \<noteq> [] \<and> address \<notin> set allowed
        then \<lparr>gr_passed = False, gr_check = ''contract_address''\<rparr>
        else \<lparr>gr_passed = True, gr_check = ''contract_address''\<rparr>)"

definition check_network :: "bridge_settings \<Rightarrow> guard_params \<Rightarrow> guard_result" where
  "check_network st p =
    (if truthy (gp_network p) \<and> gp_network p \<noteq> Some (STELLAR_NETWORK st)
     then \<lparr>gr_passed = False, gr_check = ''network''\<rparr> else \<lparr>gr_passed = True, gr_check = ''network''\<rparr>)"

definition check_amount :: "bridge_settings \<Rightarrow> guard_params \<Rightarrow> guard_result" where
  "check_amount st p =
    (case gp_amount p of
       None \<Rightarrow> \<lparr>gr_passed = True, gr_check = ''amount''\<rparr>
     | Some amount \<Rightarrow>
         let max_amount = MAX_CONTRACT_EXECUTION_AMOUNT st in
         if max_amount > 0 \<and> amount > max_amount then \<lparr>gr_passed = False, gr_check = ''amount''\<rparr>
         else \<lparr>gr_passed = True, gr_check = ''amount''\<rparr>)"

definition check_rate_limit ::
  "bridge_settings \<Rightarrow> real \<Rightarrow> guard_params \<Rightarrow> rate_tracker \<Rightarrow> guard_result \<times> rate_tracker" where
  "check_rate_limit st now p tracker0 =
    (let user_id = (case gp_user_id p of None \<Rightarrow> ''anonymous'' | Some u \<Rightarrow> u);
         timestamps = filter (\<lambda>t. now - t < 60) (dict_get [] user_id tracker0);
         tracker1 = AList.update user_id timestamps tracker0
     in if length timestamps \<ge> CONTRACT_CALL_RATE_LIMIT st
        then (\<lparr>gr_passed = False, gr_check = ''rate_limit''\<rparr>, tracker1)
        else (\<lparr>gr_passed = True, gr_check = ''rate_limit''\<rparr>,
              AList.update user_id (timestamps @ [now]) tracker1))"

definition pre_check ::
  "bridge_settings \<Rightarrow> real \<Rightarrow> guard_params \<Rightarrow> rate_tracker \<Rightarrow> guard_result \<times> rate_tracker" where
  "pre_check st now p tr =
    (let r1 = check_execution_mode st p in if \<not> gr_passed r1 then (r1, tr) else
     let r2 = check_contract_address st p in if \<not> gr_passed r2 then (r2, tr) else
     let r3 = check_network st p in if \<not> gr_passed r3 then (r3, tr) else
     let r4 = check_amount st p in if \<not> gr_passed r4 then (r4, tr) else
     let (r5, tr') = check_rate_limit st now p tr in if \<not> gr_passed r5 then (r5, tr') else
     (\<lparr>gr_passed = True, gr_check = ''all''\<rparr>, tr'))"

definition post_check :: "'r option \<Rightarrow> guard_result" where
  "post_check r = (case r of None \<Rightarrow> \<lparr>gr_passed = False, gr_check = ''post_execution''\<rparr>
     | Some _ \<Rightarrow> \<lparr>gr_passed = True, gr_check = ''post_execution''\<rparr>)"

section \<open>Circuit breaker and fallback chain\<close>

datatype circuit_state = CLOSED | OPEN | HALF_OPEN

record circuit_breaker =
  cb_state :: circuit_state
  cb_failure_count :: nat
  cb_last_failure_time :: real
  cb_threshold :: nat
  cb_cooldown_seconds :: real

definition CircuitBreaker :: "nat \<Rightarrow> real \<Rightarrow> circuit_breaker" where
  "CircuitBreaker threshold cooldown = \<lparr>cb_state = CLOSED, cb_failure_count = 0, cb_last_failure_time = 0,
     cb_threshold = threshold, cb_cooldown_seconds = cooldown\<rparr>"

definition record_success :: "circuit_breaker \<Rightarrow> circuit_breaker" where
  "record_success b = b\<lparr>cb_failure_count := 0, cb_state := CLOSED\<rparr>"

definition record_failure :: "real \<Rightarrow> circuit_breaker \<Rightarrow> circuit_breaker" where
  "record_failure now b =
    (let b1 = b\<lparr>cb_failure_count := cb_failure_count b + 1, cb_last_failure_time := now\<rparr>
     in if cb_failure_count b1 \<ge> cb_threshold b1 then b1\<lparr>cb_state := OPEN\<rparr> else b1)"

definition allow_request :: "real \<Rightarrow> circuit_breaker \<Rightarrow> bool \<times> circuit_breaker" where
  "allow_request now b =
    (case cb_state b of
       CLOSED \<Rightarrow> (True, b)
     | OPEN \<Rightarrow>
         if now - cb_last_failure_time b \<ge> cb_cooldown_seconds b then (True, b\<lparr>cb_state := HALF_OPEN\<rparr>)
         else (False, b)
     | HALF_OPEN \<Rightarrow> (True, b))"

record 'r fallback_result =
  fr_data :: 'r
  fr_source :: string
  fr_latency_ms :: real
  fr_stale :: bool

record 'r fallback_service =
  fs_cache :: "'r ttl_cache"
  fs_breakers :: "(string \<times> circuit_breaker) list"
  fs_threshold :: nat
  fs_cooldown :: real

definition get_breaker :: "string \<Rightarrow> 'r fallback_service \<Rightarrow> circuit_breaker" where
  "get_breaker name s = (case map_of (fs_breakers s) name of
     None \<Rightarrow> CircuitBreaker (fs_threshold s) (fs_cooldown s) | Some b \<Rightarrow> b)"

definition set_breaker :: "string \<Rightarrow> circuit_breaker \<Rightarrow> 'r fallback_service \<Rightarrow> 'r fallback_service" where
  "set_breaker name b s = s\<lparr>fs_breakers := AList.update name b (fs_breakers s)\<rparr>"

text \<open>
  An upstream is called at a clock value and returns its outcome with the clock value at its return; the
  calls of the chain read the clock in between without delay. \<open>key\<close> is the text \<open>f"{method}:{params}"\<close>.
\<close>

type_synonym 'r upstream = "real \<Rightarrow> 'r res \<times> real"

definition upstream_name :: "string \<Rightarrow> nat \<Rightarrow> string" where
  "upstream_name meth idx = meth @ '':upstream_'' @ str_nat idx"

fun try_upstreams ::
  "string \<Rightarrow> string \<Rightarrow> nat \<Rightarrow> 'r upstream list \<Rightarrow> real \<Rightarrow> 'r fallback_service \<Rightarrow>
   'r fallback_result option \<times> real \<times> 'r fallback_service" where
  "try_upstreams meth key idx [] clk s = (None, clk, s)"
| "try_upstreams meth key idx (fn # fns) clk s =
    (let name = upstream_name meth idx; (allowed, b) = allow_request clk (get_breaker name s);
         s1 = set_breaker name b s
     in if \<not> allowed then try_upstreams meth key (idx + 1) fns clk s1
        else (case fn clk of
            (Inr result, clk') \<Rightarrow>
              (Some \<lparr>fr_data = result, fr_source = name, fr_latency_ms = (clk' - clk) * 1000, fr_stale = False\<rparr>,
               clk', (set_breaker name (record_success b) s1)\<lparr>fs_cache := cache_set clk' key result (fs_cache s1)\<rparr>)
          | (Inl e, clk') \<Rightarrow>
              try_upstreams meth key (idx + 1) fns clk' (set_breaker name (record_failure clk' b) s1)))"

definition execute_with_fallback ::
  "bool \<Rightarrow> string \<Rightarrow> string \<Rightarrow> 'r upstream list \<Rightarrow> real \<Rightarrow> 'r fallback_service \<Rightarrow>
   'r fallback_result res \<times> 'r fallback_service" where
  "execute_with_fallback enabled meth key upstreams clk s =
    (if \<not> enabled then (Inl (RuntimeError ''Bridge fallback is disabled''), s)
     else case try_upstreams meth key 0 upstreams clk s of
       (Some r, _, s') \<Rightarrow> (Inr r, s')
     | (None, clk', s') \<Rightarrow>
       (case get_with_meta clk' key (fs_cache s') of
          Some m \<Rightarrow> (Inr \<lparr>fr_data = cr_value m, fr_source = ''stale_cache'', fr_latency_ms = 0, fr_stale = True\<rparr>, s')
        | None \<Rightarrow> (Inl (RuntimeError
            (''All fallback upstreams exhausted and no cached data available for '' @ meth)), s')))"

section \<open>Laws\<close>

lemma retryable_codes: "be_retryable (map_bridge_error raw) \<longleftrightarrow> be_code (map_bridge_error raw) \<in> {TIMEOUT, NETWORK_ERROR}"
  by (simp add: map_bridge_error_def Let_def)

lemma any_in_mono: "any_in kws s \<Longrightarrow> set kws \<subseteq> set kws' \<Longrightarrow> any_in kws' s"
  by (auto simp: any_in_def list_ex_iff)

lemma network_is_retryable:
  assumes "classify_error raw = RC_network"
  shows "be_retryable (map_bridge_error raw)"
proof -
  have "any_in [''timeout'', ''connection'', ''dns'', ''reset''] (lower raw)"
    using assms by (simp add: classify_error_def Let_def split: if_splits)
  then have "any_in (TIMEOUT_KEYWORDS @ NETWORK_KEYWORDS) (lower raw)"
    by (rule any_in_mono) (simp add: TIMEOUT_KEYWORDS_def NETWORK_KEYWORDS_def)
  then show ?thesis by (auto simp: map_bridge_error_def any_in_def Let_def)
qed

text \<open>The rate window of the execution guard.\<close>

definition guard_user :: "guard_params \<Rightarrow> string" where
  "guard_user p = (case gp_user_id p of None \<Rightarrow> ''anonymous'' | Some u \<Rightarrow> u)"

definition guard_admit :: "nat \<Rightarrow> real \<Rightarrow> real list \<Rightarrow> bool \<times> real list" where
  "guard_admit limit now ts = (let live = filter (\<lambda>t. now - t < 60) ts
     in if length live \<ge> limit then (False, live) else (True, live @ [now]))"

definition guard_hit :: "bridge_settings \<Rightarrow> real \<Rightarrow> string \<Rightarrow> rate_tracker \<Rightarrow> bool \<times> rate_tracker" where
  "guard_hit st now user tr =
    (let r = check_rate_limit st now
        \<lparr>gp_execution_mode = None, gp_contract_address = None, gp_network = None, gp_amount = None,
         gp_user_id = Some user\<rparr> tr
     in (gr_passed (fst r), snd r))"

lemma check_rate_limit_hit:
  "gr_passed (fst (check_rate_limit st now p tr)) = fst (guard_hit st now (guard_user p) tr)"
  "snd (check_rate_limit st now p tr) = snd (guard_hit st now (guard_user p) tr)"
  by (auto simp: check_rate_limit_def guard_hit_def guard_user_def Let_def split: option.splits)

interpretation contract_window:
  keyed_window "guard_admit (CONTRACT_CALL_RATE_LIMIT st)" "\<lambda>now t. now - t < 60"
    "CONTRACT_CALL_RATE_LIMIT st" "guard_hit st" "dict_get []" for st
  by unfold_locales
     (auto simp: guard_admit_def guard_hit_def check_rate_limit_def Let_def dict_get_def update_conv')

definition static_ok :: "bridge_settings \<Rightarrow> guard_params \<Rightarrow> bool" where
  "static_ok st p \<longleftrightarrow> gr_passed (check_execution_mode st p) \<and> gr_passed (check_contract_address st p)
     \<and> gr_passed (check_network st p) \<and> gr_passed (check_amount st p)"

lemma pre_check_eq:
  "gr_passed (fst (pre_check st now p tr)) \<longleftrightarrow> static_ok st p \<and> fst (guard_hit st now (guard_user p) tr)"
  "snd (pre_check st now p tr) = (if static_ok st p then snd (guard_hit st now (guard_user p) tr) else tr)"
  using check_rate_limit_hit [of st now p tr]
  by (cases "check_rate_limit st now p tr"; simp add: pre_check_def static_ok_def Let_def)+

text \<open>The calls that pass the guard, with the instant and the user of each.\<close>

fun passed_calls :: "bridge_settings \<Rightarrow> (real \<times> guard_params) list \<Rightarrow> rate_tracker \<Rightarrow> (real \<times> string) list" where
  "passed_calls st [] tr = []"
| "passed_calls st ((now, p) # cs) tr =
    (let (r, tr') = pre_check st now p tr
     in if gr_passed r then (now, guard_user p) # passed_calls st cs tr' else passed_calls st cs tr')"

lemma passed_calls_hits:
  "passed_calls st cs tr =
   contract_window.hits st (map (\<lambda>(now, p). (now, guard_user p)) (filter (\<lambda>c. static_ok st (snd c)) cs)) tr"
proof (induction cs arbitrary: tr)
  case (Cons c cs)
  obtain now p where c: "c = (now, p)" by fastforce
  show ?case
    using Cons pre_check_eq [of st now p tr] by (cases "pre_check st now p tr") (auto simp: c)
qed simp

lemma passed_calls_sound:
  "q \<in> set (passed_calls st cs tr) \<Longrightarrow> \<exists>p. (fst q, p) \<in> set cs \<and> guard_user p = snd q \<and> static_ok st p"
proof (induction cs arbitrary: tr)
  case (Cons c cs)
  obtain now p where c: "c = (now, p)" by fastforce
  consider "q = (now, guard_user p)" "static_ok st p" | "q \<in> set (passed_calls st cs (snd (pre_check st now p tr)))"
    using Cons.prems pre_check_eq(1) [of st now p tr]
    by (cases "pre_check st now p tr") (auto simp: c split: if_splits)
  then show ?case using Cons.IH by cases (auto simp: c)
qed simp

text \<open>The breaker as a machine over its three operations.\<close>

datatype breaker_op = Success | Failure real | Allow real

fun run_breaker :: "breaker_op \<Rightarrow> circuit_breaker \<Rightarrow> circuit_breaker" where
  "run_breaker Success b = record_success b"
| "run_breaker (Failure now) b = record_failure now b"
| "run_breaker (Allow now) b = snd (allow_request now b)"

fun count_op :: "breaker_op \<Rightarrow> nat \<Rightarrow> nat" where
  "count_op Success n = 0"
| "count_op (Failure now) n = n + 1"
| "count_op (Allow now) n = n"

definition consecutive_failures :: "breaker_op list \<Rightarrow> nat" where
  "consecutive_failures ops = fold count_op ops 0"

definition breaker_ok :: "nat \<Rightarrow> circuit_breaker \<Rightarrow> bool" where
  "breaker_ok n b \<longleftrightarrow> cb_failure_count b = n \<and> (cb_state b = CLOSED \<longleftrightarrow> n < cb_threshold b)"

lemma breaker_ok_step:
  "breaker_ok n b \<Longrightarrow> 0 < cb_threshold b \<Longrightarrow>
   breaker_ok (count_op p n) (run_breaker p b) \<and> cb_threshold (run_breaker p b) = cb_threshold b
   \<and> cb_cooldown_seconds (run_breaker p b) = cb_cooldown_seconds b"
  by (cases p; cases "cb_state b")
     (auto simp: breaker_ok_def record_success_def record_failure_def allow_request_def Let_def)

lemma breaker_ok_steps:
  "breaker_ok n b \<Longrightarrow> 0 < cb_threshold b \<Longrightarrow>
   breaker_ok (fold count_op ps n) (fold run_breaker ps b) \<and> cb_threshold (fold run_breaker ps b) = cb_threshold b
   \<and> cb_cooldown_seconds (fold run_breaker ps b) = cb_cooldown_seconds b"
proof (induction ps arbitrary: n b)
  case (Cons p ps)
  with breaker_ok_step [of n b p] Cons.IH [of "count_op p n" "run_breaker p b"] show ?case by simp
qed simp

text \<open>The cache of the fallback service only gains entries.\<close>

lemma fs_cache_set_breaker [simp]: "fs_cache (set_breaker name b s) = fs_cache s"
  by (simp add: set_breaker_def)

lemma try_upstreams_result:
  "try_upstreams meth key idx fns clk s = (r, clk', s') \<Longrightarrow>
   (case r of
      None \<Rightarrow> fs_cache s' = fs_cache s
    | Some f \<Rightarrow> (\<exists>t. fs_cache s' = cache_set t key (fr_data f) (fs_cache s)) \<and> \<not> fr_stale f)"
proof (induction fns arbitrary: idx clk s)
  case (Cons fn fns)
  let ?n = "upstream_name meth idx"
  obtain allowed b where al: "allow_request clk (get_breaker ?n s) = (allowed, b)" by fastforce
  obtain out clk1 where fn: "fn clk = (out, clk1)" by fastforce
  show ?case
  proof (cases "allowed \<and> isl out \<or> \<not> allowed")
    case True
    then obtain clk2 s2 where "try_upstreams meth key (Suc idx) fns clk2 s2 = (r, clk', s')" "fs_cache s2 = fs_cache s"
      using Cons.prems al fn by (cases out; cases allowed) (auto simp: Let_def)
    with Cons.IH show ?thesis by metis
  next
    case False
    then obtain v where "out = Inr v" "allowed" by (cases out) auto
    with Cons.prems al fn show ?thesis by (auto simp: Let_def)
  qed
qed simp

lemma get_with_meta_entry:
  "get_with_meta clk k c = None \<longleftrightarrow> entry k c = None"
  "get_with_meta clk k c = Some m \<Longrightarrow> \<exists>e. entry k c = Some (cr_value m, e)"
  by (auto simp: get_with_meta_def entry_def split: option.splits)

lemma execute_cases:
  obtains (fresh) f t where "fst (execute_with_fallback True meth key ups clk s) = Inr f" "\<not> fr_stale f"
      "fs_cache (snd (execute_with_fallback True meth key ups clk s)) = cache_set t key (fr_data f) (fs_cache s)"
  | (stale) f e where "fst (execute_with_fallback True meth key ups clk s) = Inr f" "fr_stale f"
      "entry key (fs_cache s) = Some (fr_data f, e)"
      "fs_cache (snd (execute_with_fallback True meth key ups clk s)) = fs_cache s"
  | (exhausted) msg where "fst (execute_with_fallback True meth key ups clk s) = Inl (RuntimeError msg)"
      "entry key (fs_cache s) = None"
      "fs_cache (snd (execute_with_fallback True meth key ups clk s)) = fs_cache s"
proof -
  obtain r clk' s' where run: "try_upstreams meth key 0 ups clk s = (r, clk', s')"
    by (metis prod_cases3)
  note res = try_upstreams_result [OF run]
  show thesis
  proof (cases r)
    case (Some f)
    with res obtain t where "fs_cache s' = cache_set t key (fr_data f) (fs_cache s)" "\<not> fr_stale f" by auto
    with Some run show thesis by (intro fresh [of f t]) (simp_all add: execute_with_fallback_def)
  next
    case None
    with res have same: "fs_cache s' = fs_cache s" by simp
    show thesis
    proof (cases "get_with_meta clk' key (fs_cache s)")
      case None
      with \<open>r = None\<close> run same get_with_meta_entry(1) [of clk' key "fs_cache s"] show thesis
        by (intro exhausted) (simp_all add: execute_with_fallback_def)
    next
      case (Some m)
      then obtain e where "entry key (fs_cache s) = Some (cr_value m, e)" using get_with_meta_entry(2) by blast
      with Some \<open>r = None\<close> run same show thesis
        by (intro stale [of "\<lparr>fr_data = cr_value m, fr_source = ''stale_cache'', fr_latency_ms = 0, fr_stale = True\<rparr>" e])
           (simp_all add: execute_with_fallback_def)
    qed
  qed
qed

section \<open>Properties\<close>

text \<open>
  The two classifiers agree on what may be retried: every error text that the adapter classifies
  as a network failure is mapped to a retryable bridge error, and a bridge error is retryable exactly when
  its code is \<open>TIMEOUT\<close> or \<open>NETWORK_ERROR\<close>.
\<close>

theorem retry_classes_agree:
  "(classify_error raw = RC_network \<longrightarrow> be_retryable (map_bridge_error raw))
   \<and> (be_retryable (map_bridge_error raw) \<longleftrightarrow> be_code (map_bridge_error raw) \<in> {TIMEOUT, NETWORK_ERROR})
   \<and> be_message (map_bridge_error raw) = raw"
proof (intro conjI impI)
  show "be_message (map_bridge_error raw) = raw" by (simp add: map_bridge_error_def Let_def)
qed (fact retryable_codes | erule network_is_retryable)+

theorem retry_classes_agree_witness:
  "be_retryable (map_bridge_error ''dns'')"
proof -
  have "classify_error ''dns'' = RC_network"
    by (simp add: classify_error_def any_in_def str_in_def lower_def lower_char_def)
  then show ?thesis using retry_classes_agree [of "''dns''"] by blast
qed

text \<open>
  C20. The execution guard lets a call through only when mode, address, network and amount are
  acceptable, and among calls in clock order no user has more than \<open>CONTRACT_CALL_RATE_LIMIT\<close> calls let
  through in any window of 60 seconds that ends at one of them; calls refused by an earlier check do not
  count.
\<close>

theorem execution_guard_bounds:
  assumes "sorted (map fst cs)"
    and "map fst (filter (\<lambda>c. snd c = u) (passed_calls st cs [])) = xs @ a # ys"
  shows "length (filter (\<lambda>t. a - t < 60) (xs @ [a])) \<le> CONTRACT_CALL_RATE_LIMIT st
    \<and> (\<forall>q \<in> set (passed_calls st cs []). \<exists>p. (fst q, p) \<in> set cs \<and> guard_user p = snd q \<and> static_ok st p)"
proof -
  let ?qs = "map (\<lambda>(now, p). (now, guard_user p)) (filter (\<lambda>c. static_ok st (snd c)) cs)"
  have fst_qs: "map fst ?qs = map fst (filter (\<lambda>c. static_ok st (snd c)) cs)" by (simp add: case_prod_beta)
  have "sorted (map fst ?qs)"
    unfolding fst_qs using assms(1) by (simp add: sorted_wrt_map sorted_wrt_filter)
  moreover have "map fst (filter (\<lambda>c. snd c = u) (contract_window.hits st ?qs [])) = xs @ a # ys"
    using assms(2) by (simp add: passed_calls_hits)
  ultimately have bound: "length (filter (\<lambda>t. a - t < 60) (xs @ [a])) \<le> CONTRACT_CALL_RATE_LIMIT st"
    by (intro contract_window.keyed_bound [of ?qs u "[]" st xs a ys]) (simp_all add: dict_get_def)
  show ?thesis using bound passed_calls_sound by blast
qed

definition sample_settings :: bridge_settings where
  "sample_settings = \<lparr>PAYMENT_ASSET_CODE = ''USDC'', PAYMENT_ASSET_ISSUER = [], STELLAR_NETWORK = ''testnet'',
    CONTRACT_EXECUTION_MODE = ''local_adapter'', ALLOWED_CONTRACT_ADDRESSES = [],
    MAX_CONTRACT_EXECUTION_AMOUNT = 0, CONTRACT_CALL_RATE_LIMIT = 1\<rparr>"

definition sample_call :: guard_params where
  "sample_call = \<lparr>gp_execution_mode = None, gp_contract_address = None, gp_network = Some ''testnet'',
    gp_amount = Some 5, gp_user_id = Some ''u''\<rparr>"

lemmas guard_eval = pre_check_def check_execution_mode_def check_contract_address_def check_network_def
  check_amount_def check_rate_limit_def truthy_def guard_user_def dict_get_def sample_settings_def sample_call_def

theorem execution_guard_bounds_witness:
  "length (filter (\<lambda>t. 1 - t < 60) ([] @ [1 :: real])) \<le> 1"
proof -
  have "map fst (filter (\<lambda>c. snd c = ''u'') (passed_calls sample_settings [(1, sample_call), (2, sample_call)] []))
    = [] @ 1 # []"
    by (simp add: guard_eval Let_def)
  from execution_guard_bounds [OF _ this] show ?thesis by (simp add: sample_settings_def)
qed

text \<open>
  C24. The circuit breaker counts the failures since the last success, is closed exactly while fewer
  than the threshold have happened, and refuses a request exactly when it is open and the cooldown since
  the last failure has not passed.
\<close>

theorem circuit_breaker_spec:
  assumes "0 < n"
  shows "let b = fold run_breaker ps (CircuitBreaker n cd) in
    cb_failure_count b = consecutive_failures ps
    \<and> (cb_state b = CLOSED \<longleftrightarrow> consecutive_failures ps < n)
    \<and> (fst (allow_request now b) \<longleftrightarrow> \<not> (cb_state b = OPEN \<and> now < cb_last_failure_time b + cd))"
proof -
  have "breaker_ok 0 (CircuitBreaker n cd)" "0 < cb_threshold (CircuitBreaker n cd)"
    using assms by (simp_all add: breaker_ok_def CircuitBreaker_def)
  from breaker_ok_steps [OF this, of ps] show ?thesis
    by (auto simp: breaker_ok_def consecutive_failures_def CircuitBreaker_def allow_request_def Let_def
        split: circuit_state.splits)
qed

theorem circuit_breaker_spec_witness:
  "let b = fold run_breaker [Failure 1, Success, Failure 5, Failure 6] (CircuitBreaker 2 30) in
    cb_failure_count b = 2 \<and> cb_state b \<noteq> CLOSED \<and> \<not> fst (allow_request 10 b)"
  using circuit_breaker_spec [of 2 "[Failure 1, Success, Failure 5, Failure 6]" 30 10]
  by (simp add: consecutive_failures_def Let_def CircuitBreaker_def record_failure_def record_success_def)

type_synonym 'r fallback_call = "string \<times> string \<times> 'r upstream list \<times> real"

definition run_calls :: "'r fallback_call list \<Rightarrow> 'r fallback_service \<Rightarrow> 'r fallback_service" where
  "run_calls cs s = fold (\<lambda>(meth, key, ups, clk) s. snd (execute_with_fallback True meth key ups clk s)) cs s"

lemma run_calls_keep_entry:
  "entry key (fs_cache s) \<noteq> None \<Longrightarrow> entry key (fs_cache (run_calls cs s)) \<noteq> None"
proof (induction cs arbitrary: s)
  case (Cons c cs)
  obtain meth k ups clk where c: "c = (meth, k, ups, clk)" by (metis prod_cases4)
  have "entry key (fs_cache (snd (execute_with_fallback True meth k ups clk s))) \<noteq> None"
    by (rule execute_cases [of meth k ups clk s]) (use Cons.prems in auto)
  with Cons.IH show ?case by (simp add: run_calls_def c)
qed (simp add: run_calls_def)

text \<open>
  C37. Once a request has been answered by an upstream, the same request never fails again while the
  fallback is enabled: whatever other requests are executed in between, a later execution is answered by
  an upstream or, when every upstream is skipped or fails, from the cache; an answer from the cache is
  marked stale and is the data of an earlier answer.
\<close>

theorem fallback_never_lost:
  assumes "fst (execute_with_fallback True meth key ups clk s) = Inr r"
  shows "let s' = run_calls cs (snd (execute_with_fallback True meth key ups clk s)) in
    \<exists>r'. fst (execute_with_fallback True meth' key ups' clk' s') = Inr r'
      \<and> (fr_stale r' \<longrightarrow> (\<exists>e. entry key (fs_cache s') = Some (fr_data r', e)))"
proof -
  let ?s1 = "snd (execute_with_fallback True meth key ups clk s)"
  let ?s' = "run_calls cs ?s1"
  have "entry key (fs_cache ?s1) \<noteq> None"
    by (rule execute_cases [of meth key ups clk s]) (use assms in auto)
  then have kept: "entry key (fs_cache ?s') \<noteq> None" by (rule run_calls_keep_entry)
  show ?thesis unfolding Let_def
    by (rule execute_cases [of meth' key ups' clk' ?s']) (use kept in auto)
qed

definition sample_service :: "int fallback_service" where
  "sample_service = \<lparr>fs_cache = TTLCache 60, fs_breakers = [], fs_threshold = 3, fs_cooldown = 30\<rparr>"

theorem fallback_never_lost_witness:
  "\<exists>r'. fst (execute_with_fallback True ''m'' ''m:{}'' [\<lambda>t. (Inl TypeError, t)] 1000
      (snd (execute_with_fallback True ''m'' ''m:{}'' [\<lambda>t. (Inr 7, t + 1)] 1 sample_service))) = Inr r'"
proof -
  have "\<exists>r. fst (execute_with_fallback True ''m'' ''m:{}'' [\<lambda>t. (Inr 7, t + 1)] 1 sample_service) = Inr r"
    by (simp add: execute_with_fallback_def sample_service_def get_breaker_def CircuitBreaker_def
        allow_request_def Let_def)
  then obtain r where "fst (execute_with_fallback True ''m'' ''m:{}'' [\<lambda>t. (Inr 7, t + 1)] 1 sample_service) = Inr r" ..
  from fallback_never_lost [OF this, of "[]" "''m''" "[\<lambda>t. (Inl TypeError, t)]" 1000] show ?thesis
    by (auto simp: run_calls_def Let_def)
qed

text \<open>
  Balance reads: the cache answers exactly when an entry has not expired and no refresh is forced;
  otherwise the live answer is returned and stored, and when the live fetch fails the answer is degraded
  and carries the last stored balances, or none. After \<open>invalidate\<close> a failing fetch never serves the
  balances stored before.
\<close>

theorem balance_fetch_spec:
  "let (r, c') = balance_fetch clk clk' now addr live force c; hit = (\<exists>v e. entry addr c = Some (v, e) \<and> clk < e) in
    (br_source r = Cache \<longleftrightarrow> \<not> force \<and> hit)
    \<and> (br_is_degraded r \<longleftrightarrow> \<not> (\<not> force \<and> hit) \<and> isl (live addr))
    \<and> (\<not> (\<not> force \<and> hit) \<longrightarrow> (case live addr of
          Inr b \<Rightarrow> br_balances r = Some b \<and> entry addr c' = Some ((b, now), clk' + real_of_int (tc_ttl c))
        | Inl _ \<Rightarrow> br_balances r = map_option (\<lambda>(v, e). fst v) (entry addr c) \<and> c' = c))
    \<and> (isl (live addr) \<longrightarrow>
        br_balances (fst (balance_fetch clk clk' now addr live force (balance_invalidate addr c))) = None)"
proof -
  have inv: "get_with_meta clk addr (balance_invalidate addr c) = None"
    by (simp add: balance_invalidate_def get_with_meta_entry)
  show ?thesis
  proof (cases "entry addr c")
    case None
    then have "get_with_meta clk addr c = None" by (simp add: get_with_meta_entry)
    with None inv show ?thesis
      by (cases "live addr") (simp_all add: balance_fetch_def Let_def)
  next
    case (Some a)
    obtain b t e where a: "a = ((b, t), e)" by (metis prod.exhaust)
    with Some have "get_with_meta clk addr c = Some \<lparr>cr_value = (b, t),
        cr_age_seconds = clk - (e - real_of_int (tc_ttl c)), cr_ttl_remaining = max 0 (e - clk)\<rparr>"
      by (simp add: get_with_meta_def entry_def)
    with Some inv a show ?thesis
      by (cases "live addr") (auto simp: balance_fetch_def Let_def is_expired_def)
  qed
qed

theorem balance_fetch_spec_witness:
  "br_is_degraded (fst (balance_fetch 5 5 5 ''G'' (\<lambda>_. Inl TypeError :: int res) False (TTLCache 60)))"
  using balance_fetch_spec [of 5 5 5 "''G''" "\<lambda>_. Inl TypeError :: int res" False "TTLCache 60"]
  by (simp add: case_prod_beta Let_def)

end
