(* ===== verification/WebhookPolicy.thy ===== *)
theory WebhookPolicy
  imports Caching
begin

text \<open>
  The pure policies of the webhook subsystem: signing and verification (\<open>app/services/webhook_signing.py\<close>)
  and, from \<open>app/services/webhook_service.py\<close>, partition assignment and backpressure counters, SSRF checks,
  payload redaction, the SLO window, status classification and schema versions. The keyed digest
  \<open>hmac.new(secret, payload, sha256).hexdigest()\<close>, DNS resolution, \<open>urlparse\<close> and the address predicates of
  \<open>ipaddress\<close> are arguments.
\<close>

section \<open>Signing\<close>

type_synonym digest = "string \<Rightarrow> string \<Rightarrow> string"

definition CURRENT_SIGNATURE_VERSION :: int where
  "CURRENT_SIGNATURE_VERSION = 1"

definition sign_payload_v1 :: "digest \<Rightarrow> string \<Rightarrow> string \<Rightarrow> string" where
  "sign_payload_v1 hmac secret payload = hmac secret payload"

definition verify_signature_v1 :: "digest \<Rightarrow> string \<Rightarrow> string \<Rightarrow> string \<Rightarrow> bool" where
  "verify_signature_v1 hmac secret payload signature \<longleftrightarrow> sign_payload_v1 hmac secret payload = signature"

definition sign_payload :: "digest \<Rightarrow> string \<Rightarrow> string \<Rightarrow> int \<Rightarrow> (string \<times> int) res" where
  "sign_payload hmac secret payload version =
    (if version = 1 then Inr (sign_payload_v1 hmac secret payload, version)
     else Inl (ValueError (''Unsupported signature version: '' @ str_int version)))"

definition verify_signature :: "digest \<Rightarrow> string \<Rightarrow> string \<Rightarrow> string \<Rightarrow> int \<Rightarrow> bool" where
  "verify_signature hmac secret payload signature version =
    (if version = 1 then verify_signature_v1 hmac secret payload signature else False)"

definition verify_with_grace_window ::
  "digest \<Rightarrow> string option \<Rightarrow> string option \<Rightarrow> string \<Rightarrow> string \<Rightarrow> int \<Rightarrow> bool" where
  "verify_with_grace_window hmac current_secret previous_secret payload signature version =
    (if (case current_secret of None \<Rightarrow> False
          | Some s \<Rightarrow> s \<noteq> [] \<and> verify_signature hmac s payload signature version) then True
     else if (case previous_secret of None \<Rightarrow> False
          | Some s \<Rightarrow> s \<noteq> [] \<and> verify_signature hmac s payload signature version) then True
     else False)"

text \<open>\<open>part.split("=", 1)\<close> on a part that contains the separator.\<close>

definition split_once :: "char \<Rightarrow> string \<Rightarrow> string \<times> string" where
  "split_once d s = (takeWhile (\<lambda>c. c \<noteq> d) s, drop 1 (dropWhile (\<lambda>c. c \<noteq> d) s))"

definition parse_signature_header :: "string \<Rightarrow> (string \<times> string) list" where
  "parse_signature_header header_value =
    (if header_value = [] then []
     else fold (\<lambda>part result. if CHR ''='' \<in> set part
                 then AList.update (strip (fst (split_once (CHR ''='') part)))
                        (strip (snd (split_once (CHR ''='') part))) result
                 else result)
            (map strip (split_on (CHR '','') header_value)) [])"

section \<open>Events, partitions and backpressure\<close>

datatype webhook_event = SLA_VIOLATION | SLA_WARNING | SLA_RESOLVED

fun event_value :: "webhook_event \<Rightarrow> string" where
  "event_value SLA_VIOLATION = ''sla.violation''"
| "event_value SLA_WARNING = ''sla.warning''"
| "event_value SLA_RESOLVED = ''sla.resolved''"

record hook_settings =
  PARTITION_COUNT :: nat
  BACKPRESSURE_THRESHOLD :: int
  SLA_PRIORITY_PARTITION :: nat
  RETRY_BASE_DELAYS :: "int list"
  RETRY_MAX_DELAY_SECONDS :: int
  REDACTION_ENABLED :: bool
  REDACTED_FIELDS :: "string list"
  REDACTION_MASK :: string
  SLO_SUCCESS_TARGET :: real
  SLO_LATENCY_TARGET_MS :: real
  SLO_BURN_RATE_THRESHOLD :: real
  SLO_WINDOW_SECONDS :: real
  SLO_BUDGET_BURN_ALERT_PERCENT :: real
  GRACE_WINDOW_SECONDS :: real

definition get_partition_for_webhook :: "hook_settings \<Rightarrow> nat \<Rightarrow> string list \<Rightarrow> nat" where
  "get_partition_for_webhook st webhook_id events =
    (if set events \<inter> {''sla.violation'', ''sla.warning'', ''sla.resolved''} \<noteq> {}
     then SLA_PRIORITY_PARTITION st else webhook_id mod PARTITION_COUNT st)"

record partition_state =
  ps_lag :: "(nat \<times> int) list"
  ps_throughput :: "(nat \<times> real) list"
  ps_last_recorded :: "(nat \<times> real) list"

definition get_partition_pending_count :: "partition_state \<Rightarrow> nat \<Rightarrow> int" where
  "get_partition_pending_count s pid = (case map_of (ps_lag s) pid of None \<Rightarrow> 0 | Some n \<Rightarrow> n)"

definition record_partition_metrics :: "real \<Rightarrow> nat \<Rightarrow> bool \<Rightarrow> partition_state \<Rightarrow> partition_state" where
  "record_partition_metrics now pid success s =
    s\<lparr>ps_throughput := AList.update pid
         ((case map_of (ps_throughput s) pid of None \<Rightarrow> 0 | Some x \<Rightarrow> x) + 1) (ps_throughput s),
      ps_lag := AList.update pid
         (max 0 (get_partition_pending_count s pid + (if success then 0 else 1))) (ps_lag s),
      ps_last_recorded := AList.update pid now (ps_last_recorded s)\<rparr>"

definition is_backpressured :: "hook_settings \<Rightarrow> partition_state \<Rightarrow> nat \<Rightarrow> bool" where
  "is_backpressured st s pid \<longleftrightarrow> get_partition_pending_count s pid \<ge> BACKPRESSURE_THRESHOLD st"

section \<open>SSRF checks\<close>

text \<open>
  The answers of \<open>ipaddress\<close> for one address: membership in a configured range is \<open>None\<close> when the range
  does not parse. \<open>resolve\<close> is \<open>None\<close> when the host name does not resolve; \<open>ip_of\<close> is \<open>None\<close> when the text
  is not an address. The set of resolved addresses is a list; only its elements matter to the verdict.
\<close>

record ip_info =
  ip_is_loopback :: bool
  ip_is_link_local :: bool
  ip_is_private :: bool
  ip_in_range :: "string \<Rightarrow> bool option"

record ssrf_settings =
  SSRF_BLOCKED_RANGES :: "string list"
  SSRF_BLOCKED_HOSTNAMES :: "string list"
  SSRF_ALLOW_PRIVATE :: bool
  SSRF_ALLOW_LOOPBACK :: bool
  SSRF_ALLOW_LINK_LOCAL :: bool

text \<open>The check of one resolved address, in the order of the source; \<open>Some reason\<close> blocks.\<close>

definition ip_blocked :: "ssrf_settings \<Rightarrow> string \<Rightarrow> ip_info \<Rightarrow> string option" where
  "ip_blocked st ip_str ip =
    (case find (\<lambda>r. ip_in_range ip r = Some True) (SSRF_BLOCKED_RANGES st) of
       Some cidr \<Rightarrow> Some (''IP '' @ ip_str @ '' is in blocked range '' @ cidr)
     | None \<Rightarrow>
       if ip_is_loopback ip \<and> \<not> SSRF_ALLOW_LOOPBACK st then Some (''IP '' @ ip_str @ '' is loopback'')
       else if ip_is_link_local ip \<and> \<not> SSRF_ALLOW_LINK_LOCAL st then Some (''IP '' @ ip_str @ '' is link-local'')
       else if ip_is_private ip \<and> \<not> SSRF_ALLOW_PRIVATE st then Some (''IP '' @ ip_str @ '' is private'')
       else None)"

fun first_blocked :: "ssrf_settings \<Rightarrow> (string \<Rightarrow> ip_info option) \<Rightarrow> string list \<Rightarrow> string option" where
  "first_blocked st ip_of [] = None"
| "first_blocked st ip_of (s # ss) =
    (case ip_of s of
       None \<Rightarrow> first_blocked st ip_of ss
     | Some ip \<Rightarrow> (case ip_blocked st s ip of Some r \<Rightarrow> Some r | None \<Rightarrow> first_blocked st ip_of ss))"

definition resolve_and_check_ip ::
  "ssrf_settings \<Rightarrow> (string \<Rightarrow> string list option) \<Rightarrow> (string \<Rightarrow> ip_info option) \<Rightarrow> string \<Rightarrow> bool \<times> string" where
  "resolve_and_check_ip st resolve ip_of hostname =
    (case resolve hostname of
       None \<Rightarrow> (True, ''DNS resolution failed for '' @ hostname)
     | Some ips \<Rightarrow> (case first_blocked st ip_of ips of Some r \<Rightarrow> (True, r) | None \<Rightarrow> (False, [])))"

text \<open>\<open>urlparse(url).hostname\<close> is \<open>None\<close> when the URL is malformed, else the host name or \<open>None\<close>.\<close>

definition validate_webhook_url ::
  "ssrf_settings \<Rightarrow> (string \<Rightarrow> string option option) \<Rightarrow> (string \<Rightarrow> string list option) \<Rightarrow>
   (string \<Rightarrow> ip_info option) \<Rightarrow> string \<Rightarrow> bool \<times> string" where
  "validate_webhook_url st urlhost resolve ip_of url =
    (case urlhost url of
       None \<Rightarrow> (False, ''Malformed URL'')
     | Some h \<Rightarrow>
       (let hostname = (case h of None \<Rightarrow> [] | Some x \<Rightarrow> x) in
        if lower hostname \<in> set (SSRF_BLOCKED_HOSTNAMES st)
        then (False, ''Hostname '' @ quoted hostname @ '' is in the SSRF denylist'')
        else (case resolve_and_check_ip st resolve ip_of hostname of
                (True, reason) \<Rightarrow> (False, reason) | (False, _) \<Rightarrow> (True, []))))"

definition validate_webhook_url_fast ::
  "ssrf_settings \<Rightarrow> (string \<Rightarrow> string option) \<Rightarrow> (string \<Rightarrow> ip_info option) \<Rightarrow> string \<Rightarrow> bool \<times> string" where
  "validate_webhook_url_fast st urlhost ip_of url =
    (let hostname = (case urlhost url of None \<Rightarrow> [] | Some x \<Rightarrow> x) in
     if lower hostname \<in> set (SSRF_BLOCKED_HOSTNAMES st)
     then (False, ''Hostname '' @ quoted hostname @ '' is in the SSRF denylist'')
     else case ip_of hostname of
       None \<Rightarrow> (True, [])
     | Some ip \<Rightarrow>
       if ip_is_loopback ip \<and> \<not> SSRF_ALLOW_LOOPBACK st then (False, ''IP '' @ hostname @ '' is loopback'')
       else if ip_is_private ip \<and> \<not> SSRF_ALLOW_PRIVATE st then (False, ''IP '' @ hostname @ '' is private'')
       else if ip_is_link_local ip \<and> \<not> SSRF_ALLOW_LINK_LOCAL st then (False, ''IP '' @ hostname @ '' is link-local'')
       else (case find (\<lambda>r. ip_in_range ip r = Some True) (SSRF_BLOCKED_RANGES st) of
               Some cidr \<Rightarrow> (False, ''IP '' @ hostname @ '' is in blocked range '' @ cidr)
             | None \<Rightarrow> (True, [])))"

section \<open>Redaction\<close>

function redact_payload :: "hook_settings \<Rightarrow> nat \<Rightarrow> json \<Rightarrow> json" where
  "redact_payload st depth data =
    (if \<not> REDACTION_ENABLED st then data
     else if depth > 10 then data
     else case data of
       JObj kvs \<Rightarrow> JObj (map (\<lambda>(k, v). (k, if lower k \<in> set (REDACTED_FIELDS st) then JStr (REDACTION_MASK st)
                                           else redact_payload st (depth + 1) v)) kvs)
     | JArr items \<Rightarrow> JArr (map (redact_payload st (depth + 1)) items)
     | _ \<Rightarrow> data)"
  by pat_completeness auto
termination by (relation "measure (\<lambda>(st, depth, _). 11 - depth)") auto

declare redact_payload.simps [simp del]

definition WEBHOOK_SCHEMA_VERSION :: string where
  "WEBHOOK_SCHEMA_VERSION = ''1''"

definition build_redacted_payload :: "hook_settings \<Rightarrow> string \<Rightarrow> json \<Rightarrow> webhook_event \<Rightarrow> (string \<times> json) list" where
  "build_redacted_payload st event_timestamp sla_data event =
    [(''schema_version'', JStr WEBHOOK_SCHEMA_VERSION), (''event'', JStr (event_value event)),
     (''timestamp'', JStr event_timestamp), (''data'', redact_payload st 0 sla_data)]"

section \<open>Schema versions and status classification\<close>

definition SUPPORTED_SCHEMA_VERSIONS :: "(string \<times> string list) list" where
  "SUPPORTED_SCHEMA_VERSIONS = [(''1'', [''sla.violation'', ''sla.warning'', ''sla.resolved''])]"

text \<open>
  \<open>str(payload.get("schema_version", ""))\<close>. Values other than strings and integers render to a text that is
  no version; it is written \<open>?\<close> here.
\<close>

definition schema_version_of :: "(string \<times> json) list \<Rightarrow> string" where
  "schema_version_of payload = (case map_of payload ''schema_version'' of Some (JStr s) \<Rightarrow> s
     | Some (JInt i) \<Rightarrow> str_int i | Some _ \<Rightarrow> ''?'' | None \<Rightarrow> [])"

definition validate_payload_schema_version :: "(string \<times> json) list \<Rightarrow> webhook_event \<Rightarrow> bool \<times> string" where
  "validate_payload_schema_version payload event =
    (case map_of SUPPORTED_SCHEMA_VERSIONS (schema_version_of payload) of
       None \<Rightarrow> (False, ''unknown_schema_version'')
     | Some compatible \<Rightarrow>
         if event_value event \<notin> set compatible then (False, ''incompatible_event_type'') else (True, []))"

definition RETRYABLE_STATUS_CODES :: "int list" where
  "RETRYABLE_STATUS_CODES = [500, 502, 503, 504]"

definition TERMINAL_STATUS_CODES :: "int list" where
  "TERMINAL_STATUS_CODES = [200, 201, 202, 203, 204, 205, 206, 207, 208, 226,
     300, 301, 302, 303, 304, 305, 306, 307, 308,
     400, 401, 402, 403, 404, 405, 406, 407, 408, 409, 410, 411, 412, 413, 414, 415, 416, 417, 418, 421, 422,
     423, 424, 425, 426, 428, 429, 431, 451]"

datatype status_class = Terminal | Retryable

definition classify_http_status :: "int \<Rightarrow> status_class" where
  "classify_http_status code =
    (if code \<in> set RETRYABLE_STATUS_CODES then Retryable
     else if code \<in> set TERMINAL_STATUS_CODES then Terminal
     else if 500 \<le> code \<and> code < 600 then Retryable else Terminal)"

section \<open>SLO window\<close>

record slo_observation =
  ob_timestamp :: real
  ob_success :: bool
  ob_latency_ms :: real
  ob_event :: string
  ob_endpoint :: string

definition record_slo_observation ::
  "hook_settings \<Rightarrow> real \<Rightarrow> bool \<Rightarrow> real \<Rightarrow> string \<Rightarrow> string \<Rightarrow> slo_observation list \<Rightarrow> slo_observation list" where
  "record_slo_observation st now success latency event endpoint window =
    (let cutoff = now - SLO_WINDOW_SECONDS st
     in dropWhile (\<lambda>o1. ob_timestamp o1 < cutoff) window @
        [\<lparr>ob_timestamp = now, ob_success = success, ob_latency_ms = latency, ob_event = event, ob_endpoint = endpoint\<rparr>])"

text \<open>\<open>latencies[int(len(latencies) * q)]\<close>.\<close>

definition percentile :: "real \<Rightarrow> real list \<Rightarrow> real" where
  "percentile q latencies = latencies ! nat \<lfloor>real (length latencies) * q\<rfloor>"

record group_stats =
  gs_total :: nat
  gs_success_rate :: real
  gs_avg_latency_ms :: real
  gs_p95_latency_ms :: real

record slo_metrics =
  sm_total :: nat
  sm_successes :: nat
  sm_success_rate :: real
  sm_avg_latency_ms :: real
  sm_p95_latency_ms :: real
  sm_p99_latency_ms :: real
  sm_error_budget :: real
  sm_actual_error_rate :: real
  sm_burn_rate :: real
  sm_budget_remaining_pct :: real
  sm_burn_rate_alert :: bool
  sm_budget_burn_alert :: bool
  sm_latency_breach :: bool
  sm_per_event :: "(string \<times> group_stats) list"
  sm_per_endpoint :: "(string \<times> nat \<times> real) list"

text \<open>The keys of a dict filled in one pass, in insertion order.\<close>

definition dict_keys :: "string list \<Rightarrow> string list" where
  "dict_keys xs = foldl (\<lambda>acc x. if x \<in> set acc then acc else acc @ [x]) [] xs"

definition successes :: "slo_observation list \<Rightarrow> nat" where
  "successes window = length (filter ob_success window)"

definition event_stats :: "slo_observation list \<Rightarrow> group_stats" where
  "event_stats g =
    (let latencies = sort (map ob_latency_ms g)
     in \<lparr>gs_total = length g,
         gs_success_rate = (if g \<noteq> [] then py_round 4 (real (successes g) / real (length g)) else 0),
         gs_avg_latency_ms = (if latencies \<noteq> [] then py_round 2 (sum_list latencies / real (length latencies)) else 0),
         gs_p95_latency_ms = (if length latencies > 1 then py_round 2 (percentile (95 / 100) latencies) else 0)\<rparr>)"

definition get_slo_metrics :: "hook_settings \<Rightarrow> real \<Rightarrow> slo_observation list \<Rightarrow> slo_metrics option" where
  "get_slo_metrics st now slo_window =
    (let cutoff = now - SLO_WINDOW_SECONDS st;
         window = filter (\<lambda>o1. ob_timestamp o1 \<ge> cutoff) slo_window
     in if window = [] then None
        else
         (let total = length window; succ = successes window;
              latency_values = sort (map ob_latency_ms window);
              overall_success_rate = real succ / real total;
              avg_latency = sum_list latency_values / real (length latency_values);
              p95 = percentile (95 / 100) latency_values; p99 = percentile (99 / 100) latency_values;
              error_budget = 1 - SLO_SUCCESS_TARGET st;
              actual_error_rate = 1 - overall_success_rate;
              burn_rate = (if error_budget > 0 then actual_error_rate / error_budget else 0);
              budget_consumed = (if error_budget > 0 then min 1 (actual_error_rate / error_budget) else 1);
              budget_remaining_pct = max 0 ((1 - budget_consumed) * 100)
          in Some \<lparr>sm_total = total, sm_successes = succ, sm_success_rate = py_round 6 overall_success_rate,
               sm_avg_latency_ms = py_round 2 avg_latency, sm_p95_latency_ms = py_round 2 p95,
               sm_p99_latency_ms = py_round 2 p99, sm_error_budget = py_round 6 error_budget,
               sm_actual_error_rate = py_round 6 actual_error_rate, sm_burn_rate = py_round 4 burn_rate,
               sm_budget_remaining_pct = py_round 2 budget_remaining_pct,
               sm_burn_rate_alert = (burn_rate \<ge> SLO_BURN_RATE_THRESHOLD st),
               sm_budget_burn_alert = (budget_remaining_pct \<le> SLO_BUDGET_BURN_ALERT_PERCENT st),
               sm_latency_breach = (p95 > SLO_LATENCY_TARGET_MS st),
               sm_per_event = map (\<lambda>ev. (ev, event_stats (filter (\<lambda>o1. ob_event o1 = ev) window)))
                 (dict_keys (map ob_event window)),
               sm_per_endpoint = map (\<lambda>ep. let g = filter (\<lambda>o1. ob_endpoint o1 = ep) window
                   in (ep, length g, if g \<noteq> [] then py_round 4 (real (successes g) / real (length g)) else 0))
                 (dict_keys (map ob_endpoint window))\<rparr>))"

section \<open>Laws\<close>

lemma py_round_ge: "of_int a \<le> x \<Longrightarrow> of_int a \<le> py_round n x"
proof -
  assume "of_int a \<le> x"
  then have "of_int (a * 10 ^ n) \<le> x * 10 ^ n" by (simp add: mult_right_mono)
  then have "a * 10 ^ n \<le> \<lfloor>x * 10 ^ n\<rfloor>" by (simp only: le_floor_iff)
  then have "of_int (a * 10 ^ n) \<le> (of_int \<lfloor>x * 10 ^ n\<rfloor> :: real)" by linarith
  then show ?thesis by (auto simp: py_round_def Let_def field_simps)
qed

lemma py_round_le: "x \<le> of_int b \<Longrightarrow> py_round n x \<le> of_int b"
proof -
  assume "x \<le> of_int b"
  then have le: "x * 10 ^ n \<le> of_int (b * 10 ^ n)" by (simp add: mult_right_mono)
  show ?thesis
  proof (cases "\<lfloor>x * 10 ^ n\<rfloor> = b * 10 ^ n")
    case True
    then have "x * 10 ^ n - of_int \<lfloor>x * 10 ^ n\<rfloor> = 0" using le by linarith
    then show ?thesis using True by (simp add: py_round_def Let_def)
  next
    case False
    have "\<lfloor>x * 10 ^ n\<rfloor> \<le> b * 10 ^ n" using le by linarith
    with False have "of_int (\<lfloor>x * 10 ^ n\<rfloor> + 1) \<le> (of_int (b * 10 ^ n) :: real)" by linarith
    then show ?thesis by (auto simp: py_round_def Let_def field_simps)
  qed
qed

lemma percentile_in: "xs \<noteq> [] \<Longrightarrow> 0 \<le> q \<Longrightarrow> q < 1 \<Longrightarrow> percentile q xs \<in> set xs"
proof -
  assume "xs \<noteq> []" "0 \<le> q" "q < 1"
  then have "real (length xs) * q < real (length xs)" "0 \<le> real (length xs) * q" by simp_all
  then have "nat \<lfloor>real (length xs) * q\<rfloor> < length xs" by linarith
  then show ?thesis by (simp add: percentile_def)
qed

lemma dict_keys_props: "distinct (dict_keys xs)" "set (dict_keys xs) = set xs"
proof -
  have "distinct (foldl (\<lambda>acc x. if x \<in> set acc then acc else acc @ [x]) acc xs)
      \<and> set (foldl (\<lambda>acc x. if x \<in> set acc then acc else acc @ [x]) acc xs) = set acc \<union> set xs"
    if "distinct acc" for acc using that by (induction xs arbitrary: acc) auto
  from this [of "[]"] show "distinct (dict_keys xs)" "set (dict_keys xs) = set xs"
    by (simp_all add: dict_keys_def)
qed

lemma group_sizes:
  assumes "distinct ks" "set (map f xs) \<subseteq> set ks"
  shows "sum_list (map (\<lambda>k. length (filter (\<lambda>x. f x = k) xs)) ks) = length xs"
  using assms(2)
proof (induction xs)
  case (Cons x xs)
  have "sum_list (map (\<lambda>k. if f x = k then 1 else 0) ks) = (1::nat)"
    using assms(1) Cons.prems by (simp add: sum_list_distinct_conv_sum_set)
  moreover have "sum_list (map (\<lambda>k. length (filter (\<lambda>y. f y = k) (x # xs))) ks)
    = sum_list (map (\<lambda>k. (if f x = k then 1 else 0) + length (filter (\<lambda>y. f y = k) xs)) ks)"
    by (rule arg_cong [where f = sum_list]) (rule map_cong, auto)
  ultimately show ?case using Cons by (simp add: sum_list_addf)
qed simp

fun masked :: "hook_settings \<Rightarrow> nat \<Rightarrow> json \<Rightarrow> bool" where
  "masked st 0 data = True"
| "masked st (Suc n) (JObj kvs) = list_all (\<lambda>(k, v). if lower k \<in> set (REDACTED_FIELDS st)
     then v = JStr (REDACTION_MASK st) else masked st n v) kvs"
| "masked st (Suc n) (JArr items) = list_all (masked st n) items"
| "masked st (Suc n) data = True"

lemma redact_masked:
  assumes "REDACTION_ENABLED st" "depth + n = 11"
  shows "masked st n (redact_payload st depth data)"
  using assms(2)
proof (induction n arbitrary: depth data)
  case (Suc n)
  then have IH: "masked st n (redact_payload st (Suc depth) v)" for v by simp
  show ?case using Suc.prems assms(1)
    by (cases data) (auto simp: redact_payload.simps [of st depth] list_all_iff IH)
qed simp

fun nested :: "nat \<Rightarrow> json \<Rightarrow> json" where
  "nested 0 j = j"
| "nested (Suc n) j = JArr [nested n j]"

lemma redact_nested: "10 < depth + n \<Longrightarrow> redact_payload st depth (nested n j) = nested n j"
proof (induction n arbitrary: depth)
  case (Suc n)
  then show ?case by (auto simp: redact_payload.simps [of st depth])
qed (simp add: redact_payload.simps)

lemma first_blocked_None:
  "first_blocked st ip_of ss = None \<longleftrightarrow> (\<forall>s\<in>set ss. \<forall>ip. ip_of s = Some ip \<longrightarrow> ip_blocked st s ip = None)"
  by (induction ss) (auto split: option.splits)

lemma ip_blocked_None:
  "ip_blocked st s ip = None \<longleftrightarrow>
    (\<forall>r\<in>set (SSRF_BLOCKED_RANGES st). ip_in_range ip r \<noteq> Some True)
    \<and> (ip_is_loopback ip \<longrightarrow> SSRF_ALLOW_LOOPBACK st) \<and> (ip_is_link_local ip \<longrightarrow> SSRF_ALLOW_LINK_LOCAL st)
    \<and> (ip_is_private ip \<longrightarrow> SSRF_ALLOW_PRIVATE st)"
  by (auto simp: ip_blocked_def find_None_iff dest: find_SomeD split: option.splits)

text \<open>A hexadecimal digest has no separator and no white space.\<close>

definition is_hex :: "string \<Rightarrow> bool" where
  "is_hex s \<longleftrightarrow> s \<noteq> [] \<and> list_all (\<lambda>c. is_digit c \<or> c \<in> set ''abcdef'') s"

lemma hex_char: "is_digit c \<or> c \<in> set ''abcdef'' \<Longrightarrow> \<not> is_space c \<and> c \<noteq> CHR '','' \<and> c \<noteq> CHR ''=''"
  by (auto simp: is_digit_def is_space_def)

lemma parse_signature_hex:
  assumes "is_hex s"
  shows "parse_signature_header (''sha256='' @ s) = [(''sha256'', s)]"
proof -
  have chars: "\<not> is_space c" "c \<noteq> CHR '',''" if "c \<in> set s" for c
    using assms that hex_char by (auto simp: is_hex_def list_all_iff)
  have "CHR '','' \<notin> set (''sha256='' @ s)" using chars(2) by auto
  then have "split_on (CHR '','') (''sha256='' @ s) = [''sha256='' @ s]" by (rule split_on_no_delim)
  moreover have "strip (''sha256='' @ s) = ''sha256='' @ s" "strip s = s"
    using chars(1) by (auto intro!: strip_id simp: is_space_def)
  moreover have "strip ''sha256'' = ''sha256''" by (simp add: strip_def is_space_def)
  ultimately show ?thesis by (simp add: parse_signature_header_def split_once_def)
qed

section \<open>Properties\<close>

text \<open>
  C38. A signature produced for a non-empty secret, sent as \<open>sha256=<hex>\<close> and parsed back from the header,
  verifies against that secret, whether it is the current secret of the receiver or the previous one of
  the grace window; under any other version number nothing verifies.
\<close>

theorem signature_roundtrip:
  assumes "is_hex (hmac secret payload)" "secret \<noteq> []"
    and "sign_payload hmac secret payload version = Inr (sig, version)"
    and "current = Some secret \<or> previous = Some secret"
  shows "\<exists>received. map_of (parse_signature_header (''sha256='' @ sig)) ''sha256'' = Some received
    \<and> verify_with_grace_window hmac current previous payload received version
    \<and> (\<forall>v. v \<noteq> 1 \<longrightarrow> \<not> verify_with_grace_window hmac current previous payload received v)"
proof -
  have "version = 1" "sig = hmac secret payload"
    using assms(3) by (auto simp: sign_payload_def sign_payload_v1_def split: if_splits)
  then have "map_of (parse_signature_header (''sha256='' @ sig)) ''sha256'' = Some (hmac secret payload)"
    using parse_signature_hex [OF assms(1)] by simp
  moreover have "verify_with_grace_window hmac current previous payload (hmac secret payload) version"
    using assms(2,4) \<open>version = 1\<close>
    by (auto simp: verify_with_grace_window_def verify_signature_def verify_signature_v1_def sign_payload_v1_def)
  moreover have "\<not> verify_with_grace_window hmac current previous payload received v" if "v \<noteq> 1" for received v
    using that by (simp add: verify_with_grace_window_def verify_signature_def split: option.splits)
  ultimately show ?thesis by blast
qed

theorem signature_roundtrip_witness:
  "\<exists>received. map_of (parse_signature_header (''sha256='' @ ''ab12'')) ''sha256'' = Some received
    \<and> verify_with_grace_window (\<lambda>_ _. ''ab12'') (Some ''new'') (Some ''old'') ''{}'' received 1"
  using signature_roundtrip [of "\<lambda>_ _. ''ab12''" "''old''" "''{}''" 1 "''ab12''" "Some ''new''" "Some ''old''"]
  by (auto simp: is_hex_def is_digit_def sign_payload_def sign_payload_v1_def)

text \<open>
  C30. A webhook URL passes the dispatch-time check exactly when it parses, its host is not on the
  denylist, it resolves, and no resolved address lies in a blocked range or is a loopback, link-local or
  private address that is not allowed.
\<close>

theorem ssrf_verdict:
  "fst (validate_webhook_url st urlhost resolve ip_of url) \<longleftrightarrow>
    (\<exists>h ips. urlhost url = Some h
      \<and> (let host = (case h of None \<Rightarrow> [] | Some x \<Rightarrow> x) in
          lower host \<notin> set (SSRF_BLOCKED_HOSTNAMES st) \<and> resolve host = Some ips
          \<and> (\<forall>s\<in>set ips. \<forall>ip. ip_of s = Some ip \<longrightarrow>
              (\<forall>r\<in>set (SSRF_BLOCKED_RANGES st). ip_in_range ip r \<noteq> Some True)
              \<and> (ip_is_loopback ip \<longrightarrow> SSRF_ALLOW_LOOPBACK st)
              \<and> (ip_is_link_local ip \<longrightarrow> SSRF_ALLOW_LINK_LOCAL st)
              \<and> (ip_is_private ip \<longrightarrow> SSRF_ALLOW_PRIVATE st))))"
proof (cases "urlhost url")
  case None
  then show ?thesis by (simp add: validate_webhook_url_def)
next
  case (Some h)
  let ?host = "case h of None \<Rightarrow> [] | Some x \<Rightarrow> x"
  have "fst (validate_webhook_url st urlhost resolve ip_of url) \<longleftrightarrow>
    lower ?host \<notin> set (SSRF_BLOCKED_HOSTNAMES st) \<and> (\<exists>ips. resolve ?host = Some ips \<and> first_blocked st ip_of ips = None)"
    using Some
    by (cases "resolve ?host")
       (simp_all add: validate_webhook_url_def resolve_and_check_ip_def Let_def split: option.splits)
  then show ?thesis using Some by (simp add: first_blocked_None ip_blocked_None Let_def)
qed

definition sample_ssrf :: ssrf_settings where
  "sample_ssrf = \<lparr>SSRF_BLOCKED_RANGES = [''10.0.0.0/8''], SSRF_BLOCKED_HOSTNAMES = [''localhost''],
     SSRF_ALLOW_PRIVATE = False, SSRF_ALLOW_LOOPBACK = False, SSRF_ALLOW_LINK_LOCAL = False\<rparr>"

theorem ssrf_verdict_witness:
  "\<not> fst (validate_webhook_url sample_ssrf (\<lambda>_. Some (Some ''h'')) (\<lambda>_. Some [''a'', ''b''])
      (\<lambda>s. Some \<lparr>ip_is_loopback = False, ip_is_link_local = False, ip_is_private = (s = ''b''),
                ip_in_range = (\<lambda>_. Some False)\<rparr>) ''http://h/'')"
  unfolding ssrf_verdict by (simp add: sample_ssrf_def)

text \<open>
  With redaction enabled, every value under a redacted key in the first eleven levels of nesting is
  replaced by the mask; anything nested deeper is passed on unchanged, so a payload of twelve levels
  leaks.
\<close>

theorem redaction_depth:
  assumes "REDACTION_ENABLED st"
  shows "masked st 11 (redact_payload st 0 data)
    \<and> redact_payload st 0 (nested 11 (JObj [(k, v)])) = nested 11 (JObj [(k, v)])"
  using redact_masked [OF assms, of 0 11] by (simp add: redact_nested)

definition sample_hook_settings :: hook_settings where
  "sample_hook_settings = \<lparr>PARTITION_COUNT = 4, BACKPRESSURE_THRESHOLD = 500, SLA_PRIORITY_PARTITION = 0,
     RETRY_BASE_DELAYS = [30, 120, 600], RETRY_MAX_DELAY_SECONDS = 3600, REDACTION_ENABLED = True,
     REDACTED_FIELDS = [''seed'', ''secret_seed'', ''private_key'', ''mnemonic'', ''password'', ''token'',
       ''access_token'', ''refresh_token'', ''signing_key'', ''wallet_secret''],
     REDACTION_MASK = ''[REDACTED]'', SLO_SUCCESS_TARGET = 999 / 1000, SLO_LATENCY_TARGET_MS = 5000,
     SLO_BURN_RATE_THRESHOLD = 2, SLO_WINDOW_SECONDS = 3600, SLO_BUDGET_BURN_ALERT_PERCENT = 50,
     GRACE_WINDOW_SECONDS = 3600\<rparr>"

theorem redaction_depth_witness:
  "redact_payload sample_hook_settings 0 (nested 11 (JObj [(''password'', JStr ''pw'')]))
    = nested 11 (JObj [(''password'', JStr ''pw'')])"
proof -
  have "REDACTION_ENABLED sample_hook_settings" by (simp add: sample_hook_settings_def)
  from redaction_depth [OF this] show ?thesis by blast
qed

text \<open>
  A response status is retried exactly when it is a server error, so the two published code tables
  agree with the class ranges, and every event of the enum is valid under the payload version the service
  builds.
\<close>

lemma status_and_schema_tables:
  "(classify_http_status code = Retryable \<longleftrightarrow> 500 \<le> code \<and> code < 600)
   \<and> validate_payload_schema_version (build_redacted_payload st ts data ev) ev = (True, [])"
  by (cases ev)
     (auto simp: classify_http_status_def RETRYABLE_STATUS_CODES_def TERMINAL_STATUS_CODES_def
       validate_payload_schema_version_def build_redacted_payload_def schema_version_of_def
       WEBHOOK_SCHEMA_VERSION_def SUPPORTED_SCHEMA_VERSIONS_def)

text \<open>
  SLO metrics are well formed whenever the window holds an observation: rates lie between 0 and 1,
  the remaining budget between 0 and 100, the percentiles are rounded latencies of the window, and the
  per-event totals add up to the number of observations.
\<close>

theorem slo_metrics_bounds:
  assumes "get_slo_metrics st now slo = Some m"
  shows "0 \<le> sm_success_rate m \<and> sm_success_rate m \<le> 1 \<and> 0 \<le> sm_budget_remaining_pct m
    \<and> sm_budget_remaining_pct m \<le> 100
    \<and> (\<exists>o1\<in>set slo. sm_p95_latency_ms m = py_round 2 (ob_latency_ms o1))
    \<and> (\<exists>o1\<in>set slo. sm_p99_latency_ms m = py_round 2 (ob_latency_ms o1))
    \<and> sum_list (map (\<lambda>(ev, g). gs_total g) (sm_per_event m)) = sm_total m"
proof -
  define w where "w = filter (\<lambda>o1. ob_timestamp o1 \<ge> now - SLO_WINDOW_SECONDS st) slo"
  note eqn = assms [unfolded get_slo_metrics_def Let_def, folded w_def]
  have m: "w \<noteq> []" using eqn by (auto split: if_splits)
  let ?rate = "real (successes w) / real (length w)"
  have rate: "0 \<le> ?rate" "?rate \<le> 1" using m by (simp_all add: successes_def)
  let ?b = "if 1 - SLO_SUCCESS_TARGET st > 0 then min 1 ((1 - ?rate) / (1 - SLO_SUCCESS_TARGET st)) else 1"
  have budget: "0 \<le> max 0 ((1 - ?b) * 100)" "max 0 ((1 - ?b) * 100) \<le> 100" using rate by auto
  have pct: "\<exists>o1\<in>set slo. py_round 2 (percentile q (sort (map ob_latency_ms w))) = py_round 2 (ob_latency_ms o1)"
    if "0 \<le> q" "q < 1" for q
  proof -
    have "sort (map ob_latency_ms w) \<noteq> []" using m by (metis map_is_Nil_conv set_empty set_sort)
    from percentile_in [OF this that] obtain o1 where
      "o1 \<in> set w" "percentile q (sort (map ob_latency_ms w)) = ob_latency_ms o1" by auto
    then show ?thesis by (auto simp: w_def)
  qed
  have tot: "sum_list (map (\<lambda>k. length (filter (\<lambda>x. ob_event x = k) w)) (dict_keys (map ob_event w))) = length w"
    by (rule group_sizes) (simp_all add: dict_keys_props)
  have "sm_success_rate m = py_round 6 ?rate" "sm_budget_remaining_pct m = py_round 2 (max 0 ((1 - ?b) * 100))"
    "sm_p95_latency_ms m = py_round 2 (percentile (95 / 100) (sort (map ob_latency_ms w)))"
    "sm_p99_latency_ms m = py_round 2 (percentile (99 / 100) (sort (map ob_latency_ms w)))"
    "sm_per_event m = map (\<lambda>ev. (ev, event_stats (filter (\<lambda>o1. ob_event o1 = ev) w))) (dict_keys (map ob_event w))"
    "sm_total m = length w"
    using eqn m by auto
  then show ?thesis
    using pct [of "95 / 100"] pct [of "99 / 100"] tot
      py_round_ge [of 0 ?rate 6] py_round_le [of ?rate 1 6] rate
      py_round_ge [of 0 "max 0 ((1 - ?b) * 100)" 2] py_round_le [of "max 0 ((1 - ?b) * 100)" 100 2] budget
    by (simp add: event_stats_def Let_def comp_def)
qed

theorem slo_metrics_bounds_witness:
  "\<exists>m. get_slo_metrics sample_hook_settings 10
      [\<lparr>ob_timestamp = 5, ob_success = True, ob_latency_ms = 7, ob_event = ''e'', ob_endpoint = ''u''\<rparr>] = Some m
    \<and> sm_success_rate m \<le> 1"
proof -
  obtain m where m: "get_slo_metrics sample_hook_settings 10
      [\<lparr>ob_timestamp = 5, ob_success = True, ob_latency_ms = 7, ob_event = ''e'', ob_endpoint = ''u''\<rparr>] = Some m"
    by (simp add: get_slo_metrics_def sample_hook_settings_def Let_def)
  from slo_metrics_bounds [OF m] m show ?thesis by blast
qed

end
