(* ===== verification/Webhooks.thy ===== *)
theory Webhooks
  imports WebhookPolicy
begin

text \<open>
  The delivery engine of \<open>app/services/webhook_service.py\<close> with the tables of \<open>app/models/webhook.py\<close>: creating,
  dispatching, retrying and replaying deliveries, and the retry and secret rotation handlers of
  \<open>app/api/v1/endpoints/webhooks.py\<close>. What one HTTP POST does is the argument \<open>post\<close>, which may depend on the
  instant, the delivery, the webhook and the headers; identifiers made by \<open>uuid4\<close>, rendering and parsing of
  timestamps and \<open>json.dumps\<close> are arguments too. The column \<open>events\<close> is kept parsed; \<open>None\<close> is text that is not
  JSON.
\<close>

section \<open>Tables\<close>

datatype delivery_status = PENDING | SUCCESS | FAILED | RETRYING | DEAD_LETTER

record webhook =
  w_id :: nat
  w_name :: string
  w_url :: string
  w_secret :: "string option"
  w_is_active :: bool
  w_events :: "string list option"
  w_max_retries :: int
  w_last_secret_rotation_at :: "real option"
  w_secret_version :: int
  w_previous_secret :: "string option"
  w_rotation_grace_expires_at :: "real option"

record delivery =
  d_id :: nat
  d_webhook_id :: nat
  d_event :: webhook_event
  d_payload :: "(string \<times> json) list"
  d_status :: delivery_status
  d_attempt_count :: nat
  d_next_retry_at :: "real option"
  d_response_status_code :: "int option"
  d_response_body :: "string option"
  d_error_message :: "string option"
  d_delivered_at :: "real option"
  d_dead_lettered_at :: "real option"
  d_signature_version :: int
  d_idempotency_key :: string
  d_event_timestamp :: real
  d_created_at :: real
  d_updated_at :: real

record hook_state =
  hs_webhooks :: "webhook list"
  hs_deliveries :: "delivery list"
  hs_events_cache :: "string list ttl_cache"
  hs_partitions :: partition_state
  hs_slo :: "slo_observation list"

text \<open>The library calls the engine makes.\<close>

datatype http_outcome = Response int string | TimeoutException string | ReqError string

record hook_env =
  env_hmac :: digest
  env_sha256 :: "string \<Rightarrow> string"
  env_dumps :: "(string \<times> json) list \<Rightarrow> string"
  env_isoformat :: "real \<Rightarrow> string"
  env_uuid_str :: "nat \<Rightarrow> string"
  env_post :: "real \<Rightarrow> delivery \<Rightarrow> webhook \<Rightarrow> (string \<times> string) list \<Rightarrow> http_outcome \<times> real"
  env_url_ok :: "string \<Rightarrow> bool"
  env_uuid4 :: "delivery list \<Rightarrow> nat"

definition find_delivery :: "nat \<Rightarrow> hook_state \<Rightarrow> delivery option" where
  "find_delivery did s = find (\<lambda>d. d_id d = did) (hs_deliveries s)"

definition find_webhook :: "nat \<Rightarrow> hook_state \<Rightarrow> webhook option" where
  "find_webhook wid s = find (\<lambda>w. w_id w = wid) (hs_webhooks s)"

definition set_delivery :: "delivery \<Rightarrow> hook_state \<Rightarrow> hook_state" where
  "set_delivery d s = s\<lparr>hs_deliveries := upd_where (\<lambda>x. d_id x = d_id d) (\<lambda>_. d) (hs_deliveries s)\<rparr>"

section \<open>Headers and one attempt\<close>

definition generate_idempotency_key :: "hook_env \<Rightarrow> nat \<Rightarrow> webhook_event \<Rightarrow> string \<Rightarrow> string" where
  "generate_idempotency_key env webhook_id event event_timestamp =
    env_sha256 env (env_uuid_str env webhook_id @ '':'' @ event_value event @ '':'' @ event_timestamp)"

definition build_headers ::
  "hook_env \<Rightarrow> real \<Rightarrow> webhook \<Rightarrow> string \<Rightarrow> webhook_event \<Rightarrow> int \<Rightarrow> string \<Rightarrow> (string \<times> string) list res" where
  "build_headers env now w payload event signature_version idempotency_key =
    (let h1 = [(''Content-Type'', ''application/json''), (''X-Webhook-Event'', event_value event),
               (''X-Webhook-Timestamp'', env_isoformat env now)];
         h2 = (if idempotency_key \<noteq> [] then AList.update ''X-Webhook-Idempotency-Key'' idempotency_key h1 else h1)
     in case w_secret w of
          None \<Rightarrow> Inr h2
        | Some secret \<Rightarrow>
          if secret = [] then Inr h2
          else (case sign_payload (env_hmac env) secret payload signature_version of
              Inl e \<Rightarrow> Inl e
            | Inr (sig_hex, _) \<Rightarrow>
                Inr (AList.update ''X-Webhook-Signature-Version'' (str_int signature_version)
                      (AList.update ''X-Webhook-Signature'' (''sha256='' @ sig_hex) h2))))"

definition attempt_delivery ::
  "hook_env \<Rightarrow> real \<Rightarrow> delivery \<Rightarrow> webhook \<Rightarrow> (bool \<times> delivery \<times> real) res" where
  "attempt_delivery env now d w =
    (case build_headers env now w (env_dumps env (d_payload d)) (d_event d) (d_signature_version d)
            (d_idempotency_key d) of
       Inl e \<Rightarrow> Inl e
     | Inr headers \<Rightarrow>
       (case env_post env now d w headers of
          (Response code body, latency) \<Rightarrow>
            (let d1 = d\<lparr>d_response_status_code := Some code, d_response_body := Some (take 4000 body)\<rparr>
             in case classify_http_status code of
                  Terminal \<Rightarrow>
                    if 200 \<le> code \<and> code < 300 then Inr (True, d1, latency)
                    else Inr (False, d1\<lparr>d_error_message := Some (''Terminal failure: HTTP '' @ str_int code)\<rparr>, latency)
                | Retryable \<Rightarrow>
                    Inr (False, d1\<lparr>d_error_message := Some (''Retryable failure: HTTP '' @ str_int code)\<rparr>, latency))
        | (TimeoutException m, latency) \<Rightarrow>
            Inr (False, d\<lparr>d_error_message := Some (''Request timed out: '' @ m)\<rparr>, latency)
        | (ReqError m, latency) \<Rightarrow>
            Inr (False, d\<lparr>d_error_message := Some (''Request error: '' @ m)\<rparr>, latency)))"

section \<open>Dispatch\<close>

definition effective_max_retries :: "webhook \<Rightarrow> int" where
  "effective_max_retries w = (if w_max_retries w = 0 then 3 else w_max_retries w)"

definition retry_delay :: "hook_settings \<Rightarrow> nat \<Rightarrow> int" where
  "retry_delay st retry_index = min (RETRY_BASE_DELAYS st ! retry_index * 2 ^ retry_index) (RETRY_MAX_DELAY_SECONDS st)"

text \<open>
  One dispatch reads the wall clock once (\<open>now\<close>). The status update after an attempt; the flag says whether the metrics count it as a success.
\<close>

definition settle ::
  "hook_settings \<Rightarrow> real \<Rightarrow> webhook \<Rightarrow> bool \<Rightarrow> delivery \<Rightarrow> delivery \<times> bool" where
  "settle st now w success d =
    (if success then
       (d\<lparr>d_status := SUCCESS, d_delivered_at := Some now, d_next_retry_at := None, d_updated_at := now\<rparr>, True)
     else if (case d_response_status_code d of None \<Rightarrow> False
              | Some code \<Rightarrow> code \<noteq> 0 \<and> classify_http_status code = Terminal) then
       (d\<lparr>d_status := DEAD_LETTER, d_dead_lettered_at := Some now, d_next_retry_at := None, d_updated_at := now\<rparr>, True)
     else
       (let retry_index = d_attempt_count d - 1 in
        if int retry_index < effective_max_retries w \<and> retry_index < length (RETRY_BASE_DELAYS st)
        then (d\<lparr>d_next_retry_at := Some (now + real_of_int (retry_delay st retry_index)), d_status := RETRYING,
                d_updated_at := now\<rparr>, False)
        else (d\<lparr>d_status := DEAD_LETTER, d_dead_lettered_at := Some now, d_next_retry_at := None,
                d_updated_at := now\<rparr>, False)))"

definition begin_attempt :: "real \<Rightarrow> delivery \<Rightarrow> delivery" where
  "begin_attempt now d = d\<lparr>d_attempt_count := d_attempt_count d + 1,
     d_status := (if d_attempt_count d + 1 > 1 then RETRYING else PENDING), d_updated_at := now\<rparr>"

definition dispatch_delivery ::
  "hook_settings \<Rightarrow> hook_env \<Rightarrow> real \<Rightarrow> nat \<Rightarrow> hook_state \<Rightarrow> unit res \<times> hook_state" where
  "dispatch_delivery st env now did s =
    (case find_delivery did s of
       None \<Rightarrow> (Inr (), s)
     | Some d0 \<Rightarrow>
       (let d = begin_attempt now d0; s1 = set_delivery d s
        in case find_webhook (d_webhook_id d) s of
             None \<Rightarrow> (Inl (AttributeError ''secret''), s1)
           | Some w \<Rightarrow>
             (case attempt_delivery env now d w of
                Inl e \<Rightarrow> (Inl e, s1)
              | Inr (success, d1, latency) \<Rightarrow>
                (case w_events w of
                   None \<Rightarrow> (Inl (ValueError ''JSONDecodeError''), s1)
                 | Some events \<Rightarrow>
                   (let pid = get_partition_for_webhook st (w_id w) events;
                        (d2, counted) = settle st now w success d1;
                        s2 = set_delivery d2 s1
                    in (Inr (), s2\<lparr>
                          hs_partitions := record_partition_metrics now pid counted (hs_partitions s2),
                          hs_slo := record_slo_observation st now counted latency (event_value (d_event d2))
                                      (w_url w) (hs_slo s2)\<rparr>))))))"

text \<open>\<open>for delivery in ...: dispatch_delivery(...)\<close>: the first exception leaves the loop.\<close>

fun dispatch_all ::
  "hook_settings \<Rightarrow> hook_env \<Rightarrow> real \<Rightarrow> nat list \<Rightarrow> hook_state \<Rightarrow> unit res \<times> hook_state" where
  "dispatch_all st env now [] s = (Inr (), s)"
| "dispatch_all st env now (did # ds) s =
    (case dispatch_delivery st env now did s of
       (Inl e, s') \<Rightarrow> (Inl e, s')
     | (Inr _, s') \<Rightarrow> dispatch_all st env now ds s')"

definition retry_pending_deliveries ::
  "hook_settings \<Rightarrow> hook_env \<Rightarrow> real \<Rightarrow> hook_state \<Rightarrow> nat res \<times> hook_state" where
  "retry_pending_deliveries st env now s =
    (let due = filter (\<lambda>d. d_status d = RETRYING \<and> (case d_next_retry_at d of None \<Rightarrow> False | Some t \<Rightarrow> t \<le> now))
                 (hs_deliveries s)
     in case dispatch_all st env now (map d_id due) s of
          (Inl e, s') \<Rightarrow> (Inl e, s')
        | (Inr _, s') \<Rightarrow> (Inr (length due), s'))"

section \<open>Triggering\<close>

definition events_cache_key :: "hook_env \<Rightarrow> nat \<Rightarrow> string" where
  "events_cache_key env wid = ''webhook_events:'' @ env_uuid_str env wid"

text \<open>
  The rows the containment query selects, filtered again through the cache of parsed subscriptions.
\<close>

fun filter_subscribed ::
  "hook_env \<Rightarrow> real \<Rightarrow> webhook_event \<Rightarrow> webhook list \<Rightarrow> string list ttl_cache \<Rightarrow> webhook list \<times> string list ttl_cache" where
  "filter_subscribed env now event [] c = ([], c)"
| "filter_subscribed env now event (w # ws) c =
    (let key = events_cache_key env (w_id w); (cached, c1) = cache_get now key c
     in case (case cached of Some evs \<Rightarrow> Some (evs, c1)
              | None \<Rightarrow> (case w_events w of None \<Rightarrow> None | Some evs \<Rightarrow> Some (evs, cache_set now key evs c1))) of
          None \<Rightarrow> filter_subscribed env now event ws c1
        | Some (evs, c2) \<Rightarrow>
            (let (rest, c3) = filter_subscribed env now event ws c2
             in (if event_value event \<in> set evs then w # rest else rest, c3)))"

definition get_active_webhooks_for_event ::
  "hook_env \<Rightarrow> real \<Rightarrow> webhook_event \<Rightarrow> hook_state \<Rightarrow> webhook list \<times> hook_state" where
  "get_active_webhooks_for_event env now event s =
    (let rows = filter (\<lambda>w. w_is_active w \<and> (case w_events w of None \<Rightarrow> False | Some evs \<Rightarrow> event_value event \<in> set evs))
                  (hs_webhooks s);
         (ws, c) = filter_subscribed env now event rows (hs_events_cache s)
     in (ws, s\<lparr>hs_events_cache := c\<rparr>))"

definition invalidate_webhook_cache :: "hook_env \<Rightarrow> nat \<Rightarrow> hook_state \<Rightarrow> hook_state" where
  "invalidate_webhook_cache env wid s =
    s\<lparr>hs_events_cache := invalidate (events_cache_key env wid) (hs_events_cache s)\<rparr>"

text \<open>\<open>create_delivery\<close>: the key column is unique, so a second row with the same key is rejected.\<close>

definition create_delivery ::
  "hook_env \<Rightarrow> real \<Rightarrow> nat \<Rightarrow> webhook \<Rightarrow> webhook_event \<Rightarrow> (string \<times> json) list \<Rightarrow> real \<Rightarrow> int \<Rightarrow> hook_state \<Rightarrow>
   delivery res \<times> hook_state" where
  "create_delivery env now did w event payload event_ts signature_version s =
    (let d = \<lparr>d_id = did, d_webhook_id = w_id w, d_event = event, d_payload = payload, d_status = PENDING,
              d_attempt_count = 0, d_next_retry_at = None, d_response_status_code = None, d_response_body = None,
              d_error_message = None, d_delivered_at = None, d_dead_lettered_at = None,
              d_signature_version = signature_version,
              d_idempotency_key = generate_idempotency_key env (w_id w) event (env_isoformat env event_ts),
              d_event_timestamp = event_ts, d_created_at = now, d_updated_at = now\<rparr>
     in if list_ex (\<lambda>x. d_idempotency_key x = d_idempotency_key d \<or> d_id x = did) (hs_deliveries s)
        then (Inl (IntegrityError ''webhook_deliveries''), s)
        else (Inr d, s\<lparr>hs_deliveries := hs_deliveries s @ [d]\<rparr>))"

text \<open>The loop of \<open>trigger_sla_violation_webhooks\<close>.\<close>

fun trigger_loop ::
  "hook_settings \<Rightarrow> hook_env \<Rightarrow> real \<Rightarrow> webhook_event \<Rightarrow> (string \<times> json) list \<Rightarrow> int \<Rightarrow> webhook list \<Rightarrow>
   hook_state \<Rightarrow> nat list res \<times> hook_state" where
  "trigger_loop st env now event payload ver [] s = (Inr [], s)"
| "trigger_loop st env now event payload ver (w # ws) s =
    (if \<not> env_url_ok env (w_url w) then trigger_loop st env now event payload ver ws s
     else case w_events w of
       None \<Rightarrow> (Inl (ValueError ''JSONDecodeError''), s)
     | Some events \<Rightarrow>
       (let pid = get_partition_for_webhook st (w_id w) events in
        if is_backpressured st (hs_partitions s) pid \<and> pid \<noteq> SLA_PRIORITY_PARTITION st
        then trigger_loop st env now event payload ver ws s
        else case create_delivery env now (env_uuid4 env (hs_deliveries s)) w event payload now ver s of
          (Inl e, s1) \<Rightarrow> (Inl e, s1)
        | (Inr d, s1) \<Rightarrow>
          (let (r, s2) = (case validate_payload_schema_version payload event of
               (False, reason) \<Rightarrow>
                 (Inr (), set_delivery (d\<lparr>d_status := DEAD_LETTER, d_dead_lettered_at := Some now,
                            d_error_message := Some (''dead_lettered: '' @ reason)\<rparr>) s1)
             | (True, _) \<Rightarrow> dispatch_delivery st env now (d_id d) s1)
           in case r of
                Inl e \<Rightarrow> (Inl e, s2)
              | Inr _ \<Rightarrow>
                (case trigger_loop st env now event payload ver ws s2 of
                   (Inl e, s3) \<Rightarrow> (Inl e, s3) | (Inr ds, s3) \<Rightarrow> (Inr (d_id d # ds), s3)))))"

text \<open>
  The key and the column \<open>event_timestamp\<close> use one clock reading (\<open>now\<close>), the field \<open>timestamp\<close> of the
  payload another (\<open>now'\<close>).
\<close>

definition trigger_sla_violation_webhooks ::
  "hook_settings \<Rightarrow> hook_env \<Rightarrow> real \<Rightarrow> real \<Rightarrow> json \<Rightarrow> webhook_event \<Rightarrow> int \<Rightarrow> hook_state \<Rightarrow>
   nat list res \<times> hook_state" where
  "trigger_sla_violation_webhooks st env now now' sla_data event ver s =
    (let (ws, s1) = get_active_webhooks_for_event env now event s;
         payload = build_redacted_payload st (env_isoformat env now') sla_data event
     in trigger_loop st env now event payload ver ws s1)"

section \<open>Dead letters and recovery\<close>

definition get_dead_letter_deliveries :: "nat option \<Rightarrow> nat \<Rightarrow> hook_state \<Rightarrow> delivery list" where
  "get_dead_letter_deliveries wid limit s =
    take limit (filter (\<lambda>d. case wid of None \<Rightarrow> True | Some i \<Rightarrow> d_webhook_id d = i)
      (rev (sort_key (\<lambda>d. case d_dead_lettered_at d of None \<Rightarrow> 0 | Some t \<Rightarrow> t)
        (filter (\<lambda>d. d_status d = DEAD_LETTER) (hs_deliveries s)))))"

definition reset_delivery :: "real \<Rightarrow> delivery \<Rightarrow> delivery" where
  "reset_delivery now d = d\<lparr>d_status := PENDING, d_attempt_count := 0, d_next_retry_at := None,
     d_dead_lettered_at := None, d_error_message := None, d_response_status_code := None,
     d_response_body := None, d_delivered_at := None, d_updated_at := now\<rparr>"

definition replay_dead_letter_delivery ::
  "hook_settings \<Rightarrow> hook_env \<Rightarrow> real \<Rightarrow> nat \<Rightarrow> hook_state \<Rightarrow> bool res \<times> hook_state" where
  "replay_dead_letter_delivery st env now did s =
    (case find_delivery did s of
       None \<Rightarrow> (Inr False, s)
     | Some d \<Rightarrow>
       if d_status d \<noteq> DEAD_LETTER then (Inr False, s)
       else (case dispatch_delivery st env now did (set_delivery (reset_delivery now d) s) of
               (Inl e, s') \<Rightarrow> (Inl e, s') | (Inr _, s') \<Rightarrow> (Inr True, s')))"

fun replay_all ::
  "hook_settings \<Rightarrow> hook_env \<Rightarrow> real \<Rightarrow> nat list \<Rightarrow> hook_state \<Rightarrow> nat res \<times> hook_state" where
  "replay_all st env now [] s = (Inr 0, s)"
| "replay_all st env now (did # ds) s =
    (case replay_dead_letter_delivery st env now did s of
       (Inl e, s') \<Rightarrow> (Inl e, s')
     | (Inr ok, s') \<Rightarrow>
       (case replay_all st env now ds s' of
          (Inl e, s'') \<Rightarrow> (Inl e, s'') | (Inr n, s'') \<Rightarrow> (Inr (if ok then n + 1 else n), s'')))"

definition data_field :: "string \<Rightarrow> delivery \<Rightarrow> json option" where
  "data_field k d = (case map_of (d_payload d) ''data'' of Some (JObj kvs) \<Rightarrow> map_of kvs k | _ \<Rightarrow> None)"

definition replay_deliveries_by_event_context ::
  "hook_settings \<Rightarrow> hook_env \<Rightarrow> real \<Rightarrow> webhook_event \<Rightarrow> string option \<Rightarrow> string option \<Rightarrow> nat \<Rightarrow> hook_state \<Rightarrow>
   nat res \<times> hook_state" where
  "replay_deliveries_by_event_context st env now event device_id outage_id limit s =
    (let given = (\<lambda>x. x \<noteq> None \<and> x \<noteq> Some []);
         q = filter (\<lambda>d. d_status d = DEAD_LETTER \<and> d_event d = event) (hs_deliveries s);
         sel = (if given device_id \<or> given outage_id
                then take limit (filter (\<lambda>d. (given device_id \<and> data_field ''device_id'' d = Some (JStr (the device_id)))
                        \<or> (given outage_id \<and> data_field ''outage_id'' d = Some (JStr (the outage_id)))) q)
                else take limit q)
     in replay_all st env now (map d_id sel) s)"

record recover_result =
  rr_total :: nat
  rr_replayed :: nat
  rr_skipped :: nat

text \<open>One candidate of the window; the status is read when its turn comes.\<close>

fun recover_loop ::
  "hook_settings \<Rightarrow> hook_env \<Rightarrow> real \<Rightarrow> nat list \<Rightarrow> hook_state \<Rightarrow> (nat \<times> nat) res \<times> hook_state" where
  "recover_loop st env now [] s = (Inr (0, 0), s)"
| "recover_loop st env now (did # ds) s =
    (case find_delivery did s of
       None \<Rightarrow> (Inl (RuntimeError ''ObjectDeletedError''), s)
     | Some d \<Rightarrow>
       (let (r, s1) =
          (if d_status d = SUCCESS then (Inr False, s)
           else if d_status d = DEAD_LETTER then replay_dead_letter_delivery st env now did s
           else (case dispatch_delivery st env now did
                   (set_delivery (d\<lparr>d_status := PENDING, d_next_retry_at := None, d_dead_lettered_at := None\<rparr>) s) of
                   (Inl e, s') \<Rightarrow> (Inl e, s') | (Inr _, s') \<Rightarrow> (Inr True, s')))
        in case r of
             Inl e \<Rightarrow> (Inl e, s1)
           | Inr ok \<Rightarrow>
             (case recover_loop st env now ds s1 of
                (Inl e, s2) \<Rightarrow> (Inl e, s2)
              | (Inr (rp, sk), s2) \<Rightarrow> (Inr (if ok then (rp + 1, sk) else (rp, sk + 1)), s2))))"

definition recover_deliveries_in_window ::
  "hook_settings \<Rightarrow> hook_env \<Rightarrow> real \<Rightarrow> real \<Rightarrow> real \<Rightarrow> hook_state \<Rightarrow> recover_result res \<times> hook_state" where
  "recover_deliveries_in_window st env now start_time end_time s =
    (if end_time < start_time
     then (Inl (ValueError ''end_time must be greater than or equal to start_time''), s)
     else
      (let candidates = sort_key d_event_timestamp
             (filter (\<lambda>d. start_time \<le> d_event_timestamp d \<and> d_event_timestamp d \<le> end_time) (hs_deliveries s))
       in case recover_loop st env now (map d_id candidates) s of
            (Inl e, s') \<Rightarrow> (Inl e, s')
          | (Inr (rp, sk), s') \<Rightarrow>
              (Inr \<lparr>rr_total = length candidates, rr_replayed = rp, rr_skipped = sk\<rparr>, s')))"

section \<open>Handlers\<close>

definition retry_delivery ::
  "hook_settings \<Rightarrow> hook_env \<Rightarrow> real \<Rightarrow> nat \<Rightarrow> nat \<Rightarrow> hook_state \<Rightarrow> delivery res \<times> hook_state" where
  "retry_delivery st env now wid did s =
    (case find_webhook wid s of
       None \<Rightarrow> (Inl (HTTPException 404 ''Webhook not found.''), s)
     | Some _ \<Rightarrow>
       (case find (\<lambda>d. d_id d = did \<and> d_webhook_id d = wid) (hs_deliveries s) of
          None \<Rightarrow> (Inl (HTTPException 404 ''Delivery not found.''), s)
        | Some d \<Rightarrow>
          if d_status d = SUCCESS then (Inl (HTTPException 400 ''Delivery already succeeded; retry not needed.''), s)
          else (case dispatch_delivery st env now did s of
                  (Inl e, s') \<Rightarrow> (Inl e, s')
                | (Inr _, s') \<Rightarrow> (Inr (the (find_delivery did s')), s'))))"

definition rotate_webhook_secret ::
  "hook_settings \<Rightarrow> real \<Rightarrow> string \<Rightarrow> nat \<Rightarrow> hook_state \<Rightarrow> (string \<times> real) res \<times> hook_state" where
  "rotate_webhook_secret st now new_secret wid s =
    (case find_webhook wid s of
       None \<Rightarrow> (Inl (HTTPException 404 ''Webhook not found.''), s)
     | Some w \<Rightarrow>
       (let expires = now + GRACE_WINDOW_SECONDS st;
            w' = w\<lparr>w_previous_secret := w_secret w, w_rotation_grace_expires_at := Some expires,
                   w_secret := Some new_secret, w_secret_version := w_secret_version w + 1,
                   w_last_secret_rotation_at := Some now\<rparr>
        in (Inr (new_secret, expires),
            s\<lparr>hs_webhooks := upd_where (\<lambda>x. w_id x = wid) (\<lambda>_. w') (hs_webhooks s)\<rparr>)))"

text \<open>Subscriptions: the bodies are validated before the handlers run; \<open>wid\<close> is the \<open>uuid4\<close> of the new row.\<close>

record webhook_create =
  wc_name :: string
  wc_url :: string
  wc_secret :: "string option"
  wc_events :: "webhook_event list"
  wc_max_retries :: int
  wc_is_active :: bool

definition create_webhook :: "nat \<Rightarrow> webhook_create \<Rightarrow> hook_state \<Rightarrow> webhook res \<times> hook_state" where
  "create_webhook wid p s =
    (let w = \<lparr>w_id = wid, w_name = wc_name p, w_url = wc_url p, w_secret = wc_secret p,
              w_is_active = wc_is_active p, w_events = Some (map event_value (wc_events p)),
              w_max_retries = wc_max_retries p, w_last_secret_rotation_at = None, w_secret_version = 1,
              w_previous_secret = None, w_rotation_grace_expires_at = None\<rparr>
     in if list_ex (\<lambda>x. w_id x = wid) (hs_webhooks s) then (Inl (IntegrityError ''webhooks''), s)
        else (Inr w, s\<lparr>hs_webhooks := hs_webhooks s @ [w]\<rparr>))"

record webhook_update =
  wu_name :: "string option"
  wu_url :: "string option"
  wu_secret :: "string option"
  wu_events :: "webhook_event list option"
  wu_max_retries :: "int option"
  wu_is_active :: "bool option"

definition patch :: "'a option \<Rightarrow> 'a \<Rightarrow> 'a" where
  "patch new old = (case new of None \<Rightarrow> old | Some v \<Rightarrow> v)"

definition patch_webhook :: "webhook_update \<Rightarrow> webhook \<Rightarrow> webhook" where
  "patch_webhook p w = w\<lparr>w_name := patch (wu_name p) (w_name w), w_url := patch (wu_url p) (w_url w),
     w_secret := (case wu_secret p of None \<Rightarrow> w_secret w | Some x \<Rightarrow> Some x),
     w_events := (case wu_events p of None \<Rightarrow> w_events w | Some evs \<Rightarrow> Some (map event_value evs)),
     w_max_retries := patch (wu_max_retries p) (w_max_retries w),
     w_is_active := patch (wu_is_active p) (w_is_active w)\<rparr>"

definition update_webhook :: "hook_env \<Rightarrow> nat \<Rightarrow> webhook_update \<Rightarrow> hook_state \<Rightarrow> webhook res \<times> hook_state" where
  "update_webhook env wid p s =
    (case find_webhook wid s of
       None \<Rightarrow> (Inl (HTTPException 404 ''Webhook not found.''), s)
     | Some w \<Rightarrow>
       (let w' = patch_webhook p w;
            s1 = s\<lparr>hs_webhooks := upd_where (\<lambda>x. w_id x = wid) (\<lambda>_. w') (hs_webhooks s)\<rparr>
        in (Inr w', if wu_events p \<noteq> None \<or> wu_is_active p \<noteq> None then invalidate_webhook_cache env wid s1 else s1)))"

text \<open>Deletion cascades to the deliveries of the webhook.\<close>

definition delete_webhook :: "hook_env \<Rightarrow> nat \<Rightarrow> hook_state \<Rightarrow> unit res \<times> hook_state" where
  "delete_webhook env wid s =
    (case find_webhook wid s of
       None \<Rightarrow> (Inl (HTTPException 404 ''Webhook not found.''), s)
     | Some w \<Rightarrow>
       (let s1 = invalidate_webhook_cache env wid s
        in (Inr (), s1\<lparr>hs_webhooks := del_where (\<lambda>x. w_id x = wid) (hs_webhooks s1),
                      hs_deliveries := del_where (\<lambda>d. d_webhook_id d = wid) (hs_deliveries s1)\<rparr>)))"

end
