(* ===== verification/WebhookLaws.thy ===== *)
theory WebhookLaws
  imports Webhooks
begin

text \<open>
  Laws and properties of the webhook delivery engine: one dispatch, the invariant of the tables at rest, what
  a delivery keeps for life, the backpressure counters and the subscription cache.
\<close>

section \<open>One dispatch\<close>

text \<open>The columns a delivery keeps for life.\<close>

definition identity :: "delivery \<Rightarrow> nat \<times> nat \<times> webhook_event \<times> (string \<times> json) list \<times> int \<times> string \<times> real" where
  "identity d = (d_id d, d_webhook_id d, d_event d, d_payload d, d_signature_version d, d_idempotency_key d,
     d_event_timestamp d)"

definition is_2xx :: "int option \<Rightarrow> bool" where
  "is_2xx c \<longleftrightarrow> (\<exists>code. c = Some code \<and> 200 \<le> code \<and> code < 300)"

definition delivery_ok :: "hook_settings \<Rightarrow> delivery \<Rightarrow> bool" where
  "delivery_ok st d \<longleftrightarrow> (case d_status d of
     RETRYING \<Rightarrow> 1 \<le> d_attempt_count d \<and> d_attempt_count d \<le> length (RETRY_BASE_DELAYS st) \<and> d_next_retry_at d \<noteq> None
   | DEAD_LETTER \<Rightarrow> d_dead_lettered_at d \<noteq> None \<and> d_next_retry_at d = None
   | SUCCESS \<Rightarrow> d_delivered_at d \<noteq> None \<and> d_next_retry_at d = None \<and> is_2xx (d_response_status_code d)
   | _ \<Rightarrow> False)"

lemma build_headers_v1: "\<exists>h. build_headers env now w payload ev 1 key = Inr h"
  by (simp add: build_headers_def sign_payload_def Let_def split: option.splits)

lemma attempt_delivery_ok:
  assumes "d_signature_version d = 1"
  obtains success d1 latency where "attempt_delivery env now d w = Inr (success, d1, latency)"
    "identity d1 = identity d" "d_attempt_count d1 = d_attempt_count d" "success \<longrightarrow> is_2xx (d_response_status_code d1)"
proof -
  obtain h where h: "build_headers env now w (env_dumps env (d_payload d)) (d_event d) (d_signature_version d)
      (d_idempotency_key d) = Inr h"
    using build_headers_v1 assms by metis
  obtain r lat where r: "env_post env now d w h = (r, lat)" by fastforce
  note att = attempt_delivery_def [of env now d w] h r
  show thesis
  proof (cases r)
    case (Response code body)
    show thesis
    proof (cases "classify_http_status code = Terminal \<and> 200 \<le> code \<and> code < 300")
      case True
      then have "attempt_delivery env now d w = Inr (True, d\<lparr>d_response_status_code := Some code,
          d_response_body := Some (take 4000 body)\<rparr>, lat)"
        using Response by (simp add: att Let_def)
      then show thesis by (rule that) (use True in \<open>simp_all add: identity_def is_2xx_def\<close>)
    next
      case False
      then obtain m where "attempt_delivery env now d w = Inr (False, d\<lparr>d_response_status_code := Some code,
          d_response_body := Some (take 4000 body), d_error_message := Some m\<rparr>, lat)"
        using Response by (cases "classify_http_status code") (auto simp: att Let_def)
      then show thesis by (rule that) (simp_all add: identity_def)
    qed
  next
    case (TimeoutException m)
    then have "attempt_delivery env now d w = Inr (False, d\<lparr>d_error_message := Some (''Request timed out: '' @ m)\<rparr>, lat)"
      by (simp add: att)
    then show thesis by (rule that) (simp_all add: identity_def)
  next
    case (ReqError m)
    then have "attempt_delivery env now d w = Inr (False, d\<lparr>d_error_message := Some (''Request error: '' @ m)\<rparr>, lat)"
      by (simp add: att)
    then show thesis by (rule that) (simp_all add: identity_def)
  qed
qed

lemma classify_retryable: "classify_http_status code = Retryable \<longleftrightarrow> 500 \<le> code \<and> code < 600"
  by (auto simp: classify_http_status_def RETRYABLE_STATUS_CODES_def TERMINAL_STATUS_CODES_def)

lemma attempt_response:
  assumes "d_signature_version d = 1" "\<And>h. env_post env now d w h = (Response code body, lat)"
  obtains d1 where "attempt_delivery env now d w = Inr (200 \<le> code \<and> code < 300, d1, lat)"
    "identity d1 = identity d" "d_attempt_count d1 = d_attempt_count d" "d_response_status_code d1 = Some code"
proof -
  obtain h where h: "build_headers env now w (env_dumps env (d_payload d)) (d_event d) (d_signature_version d)
      (d_idempotency_key d) = Inr h"
    using build_headers_v1 assms(1) by metis
  let ?d = "d\<lparr>d_response_status_code := Some code, d_response_body := Some (take 4000 body)\<rparr>"
  have "\<exists>m. attempt_delivery env now d w = Inr (200 \<le> code \<and> code < 300,
      if 200 \<le> code \<and> code < 300 then ?d else ?d\<lparr>d_error_message := Some m\<rparr>, lat)"
    using classify_retryable [of code] assms(2) h
    by (cases "classify_http_status code") (auto simp: attempt_delivery_def Let_def)
  then obtain m where "attempt_delivery env now d w = Inr (200 \<le> code \<and> code < 300,
      if 200 \<le> code \<and> code < 300 then ?d else ?d\<lparr>d_error_message := Some m\<rparr>, lat)" ..
  then show thesis by (rule that) (simp_all add: identity_def)
qed

lemma settle_ok:
  assumes "settle st now w success d = (d2, counted)" "1 \<le> d_attempt_count d"
    "success \<longrightarrow> is_2xx (d_response_status_code d)"
  shows "delivery_ok st d2" "identity d2 = identity d" "d_attempt_count d2 = d_attempt_count d"
  using assms by (auto simp: settle_def delivery_ok_def identity_def Let_def split: if_splits option.splits)

section \<open>Invariant at rest\<close>

definition base_ok :: "hook_state \<Rightarrow> bool" where
  "base_ok s \<longleftrightarrow> distinct (map d_id (hs_deliveries s)) \<and> distinct (map d_idempotency_key (hs_deliveries s))
     \<and> distinct (map w_id (hs_webhooks s)) \<and> (\<forall>w\<in>set (hs_webhooks s). w_events w \<noteq> None)
     \<and> (\<forall>d\<in>set (hs_deliveries s). d_signature_version d = 1 \<and> d_webhook_id d \<in> set (map w_id (hs_webhooks s)))"

definition rows_ok :: "hook_settings \<Rightarrow> nat set \<Rightarrow> hook_state \<Rightarrow> bool" where
  "rows_ok st X s \<longleftrightarrow> (\<forall>d\<in>set (hs_deliveries s). d_id d \<notin> X \<longrightarrow> delivery_ok st d)"

definition hook_ok :: "hook_settings \<Rightarrow> hook_state \<Rightarrow> bool" where
  "hook_ok st s \<longleftrightarrow> base_ok s \<and> rows_ok st {} s"

text \<open>What every operation of the engine does to the rest of the state.\<close>

definition grows :: "hook_state \<Rightarrow> hook_state \<Rightarrow> bool" where
  "grows s s' \<longleftrightarrow> prefix (map identity (hs_deliveries s)) (map identity (hs_deliveries s'))
     \<and> (\<forall>pid. get_partition_pending_count (hs_partitions s) pid \<le> get_partition_pending_count (hs_partitions s') pid)"

lemma grows_refl [simp]: "grows s s"
  by (simp add: grows_def)

lemma grows_trans [trans]: "grows s t \<Longrightarrow> grows t u \<Longrightarrow> grows s u"
  unfolding grows_def by (meson order_trans prefix_order.trans)

lemma pending_mono:
  "get_partition_pending_count p pid \<le> get_partition_pending_count (record_partition_metrics now pid' ok p) pid"
  by (auto simp: get_partition_pending_count_def record_partition_metrics_def update_conv' split: option.splits)

lemma find_delivery_mem: "find_delivery did s = Some d \<Longrightarrow> d \<in> set (hs_deliveries s) \<and> d_id d = did"
  using find_SomeD unfolding find_delivery_def by fastforce

lemma set_delivery_fields [simp]:
  "hs_webhooks (set_delivery d s) = hs_webhooks s" "hs_partitions (set_delivery d s) = hs_partitions s"
  "hs_slo (set_delivery d s) = hs_slo s" "hs_events_cache (set_delivery d s) = hs_events_cache s"
  by (simp_all add: set_delivery_def)

lemma identity_fields:
  "identity a = identity b \<Longrightarrow> d_id a = d_id b \<and> d_webhook_id a = d_webhook_id b
     \<and> d_signature_version a = d_signature_version b \<and> d_idempotency_key a = d_idempotency_key b
     \<and> d_event_timestamp a = d_event_timestamp b \<and> d_event a = d_event b"
  by (simp add: identity_def)

lemma set_delivery_twice:
  "d_id a = d_id b \<Longrightarrow> set_delivery b (set_delivery a s) = set_delivery b s"
  by (simp add: set_delivery_def upd_where_twice)

text \<open>Replacing a stored row by one of the same identity.\<close>

lemma set_delivery_keeps:
  assumes "base_ok s" "find_delivery did s = Some d0" "identity d = identity d0"
  shows "map identity (hs_deliveries (set_delivery d s)) = map identity (hs_deliveries s)"
    "base_ok (set_delivery d s)"
    "set (hs_deliveries (set_delivery d s)) \<subseteq> insert d {x \<in> set (hs_deliveries s). d_id x \<noteq> did}"
    "find_delivery did (set_delivery d s) = Some d"
proof -
  have id: "d_id d = did" using find_delivery_mem [OF assms(2)] identity_fields [OF assms(3)] by simp
  note find = assms(2) [unfolded find_delivery_def]
  have dist: "distinct (map d_id (hs_deliveries s))" using assms(1) by (simp add: base_ok_def)
  have same: "map f (hs_deliveries (set_delivery d s)) = map f (hs_deliveries s)" if "f d = f d0" for f :: "delivery \<Rightarrow> 'x"
    unfolding set_delivery_def using map_set_row_field [OF dist find that] id by simp
  show ident: "map identity (hs_deliveries (set_delivery d s)) = map identity (hs_deliveries s)"
    by (rule same) (rule assms(3))
  show sub: "set (hs_deliveries (set_delivery d s)) \<subseteq> insert d {x \<in> set (hs_deliveries s). d_id x \<noteq> did}"
    unfolding set_delivery_def using set_set_row [of d_id did d "hs_deliveries s"] id by simp
  show "find_delivery did (set_delivery d s) = Some d"
    unfolding find_delivery_def set_delivery_def using id find by (simp add: find_set_row)
  have "d0 \<in> set (hs_deliveries s)" using find_delivery_mem [OF assms(2)] by simp
  then have "d_signature_version d = 1 \<and> d_webhook_id d \<in> set (map w_id (hs_webhooks s))"
    using assms(1) identity_fields [OF assms(3)] by (auto simp: base_ok_def)
  moreover have "map d_id (hs_deliveries (set_delivery d s)) = map d_id (hs_deliveries s)"
    "map d_idempotency_key (hs_deliveries (set_delivery d s)) = map d_idempotency_key (hs_deliveries s)"
    using identity_fields [OF assms(3)] by (auto intro: same)
  ultimately show "base_ok (set_delivery d s)"
    using assms(1) sub by (auto simp: base_ok_def)
qed

lemma identity_begin_attempt [simp]: "identity (begin_attempt now d) = identity d"
  by (simp add: begin_attempt_def identity_def)

lemma dispatch_unfold:
  assumes "find_delivery did s = Some d0" "find_webhook (d_webhook_id d0) s = Some w" "w_events w = Some events"
    "attempt_delivery env now (begin_attempt now d0) w = Inr (success, d1, lat)"
    "settle st now w success d1 = (d2, c)" "identity d2 = identity d0"
  shows "dispatch_delivery st env now did s = (Inr (), (set_delivery d2 s)\<lparr>
      hs_partitions := record_partition_metrics now (get_partition_for_webhook st (w_id w) events) c (hs_partitions s),
      hs_slo := record_slo_observation st now c lat (event_value (d_event d2)) (w_url w) (hs_slo s)\<rparr>)"
proof -
  have "set_delivery d2 (set_delivery (begin_attempt now d0) s) = set_delivery d2 s"
    by (rule set_delivery_twice) (metis identity_begin_attempt identity_fields assms(6))
  moreover have "d_webhook_id (begin_attempt now d0) = d_webhook_id d0" by (simp add: begin_attempt_def)
  ultimately show ?thesis using assms by (simp add: dispatch_delivery_def Let_def)
qed

lemma dispatch_delivery_ok:
  assumes "base_ok s" "rows_ok st {did} s"
  shows "fst (dispatch_delivery st env now did s) = Inr ()"
    "hook_ok st (snd (dispatch_delivery st env now did s))"
    "grows s (snd (dispatch_delivery st env now did s))"
    "hs_webhooks (snd (dispatch_delivery st env now did s)) = hs_webhooks s"
    "hs_events_cache (snd (dispatch_delivery st env now did s)) = hs_events_cache s"
proof -
  let ?r = "dispatch_delivery st env now did s"
  have "fst ?r = Inr () \<and> hook_ok st (snd ?r) \<and> grows s (snd ?r) \<and> hs_webhooks (snd ?r) = hs_webhooks s
    \<and> hs_events_cache (snd ?r) = hs_events_cache s"
  proof (cases "find_delivery did s")
    case None
    then have "did \<notin> set (map d_id (hs_deliveries s))"
      by (auto simp: find_delivery_def find_None_iff)
    then have "rows_ok st {} s" using assms(2) by (auto simp: rows_ok_def)
    with None assms(1) show ?thesis by (simp add: dispatch_delivery_def hook_ok_def)
  next
    case (Some d0)
    let ?d = "begin_attempt now d0"
    have idd: "identity ?d = identity d0" by simp
    have mem: "d0 \<in> set (hs_deliveries s)" "d_id d0 = did" using find_delivery_mem [OF Some] by auto
    then have ver: "d_signature_version ?d = 1" using assms(1) idd by (auto simp: base_ok_def begin_attempt_def)
    obtain w where w: "find_webhook (d_webhook_id ?d) s = Some w" "w \<in> set (hs_webhooks s)"
    proof -
      have "d_webhook_id ?d \<in> set (map w_id (hs_webhooks s))"
        using assms(1) mem by (auto simp: base_ok_def begin_attempt_def)
      then obtain w where "w \<in> set (hs_webhooks s)" "w_id w = d_webhook_id ?d" by auto
      moreover have "distinct (map w_id (hs_webhooks s))" using assms(1) by (simp add: base_ok_def)
      ultimately show thesis using that find_distinct_key [of w_id] unfolding find_webhook_def by metis
    qed
    obtain events where ev: "w_events w = Some events" using assms(1) w(2) by (auto simp: base_ok_def)
    obtain success d1 lat where att: "attempt_delivery env now ?d w = Inr (success, d1, lat)"
        "identity d1 = identity ?d" "d_attempt_count d1 = d_attempt_count ?d"
        "success \<longrightarrow> is_2xx (d_response_status_code d1)"
      using attempt_delivery_ok [OF ver] by metis
    obtain d2 c where st: "settle st now w success d1 = (d2, c)" by fastforce
    have cnt: "1 \<le> d_attempt_count d1" using att(3) by (simp add: begin_attempt_def)
    note ok = settle_ok [OF st cnt att(4)]
    have id2: "identity d2 = identity d0" using ok(2) att(2) idd by simp
    note keep = set_delivery_keeps [OF assms(1) Some id2]
    have "rows_ok st {} (set_delivery d2 s)"
      using keep(3) assms(2) ok(1) by (auto simp: rows_ok_def)
    moreover have "find_webhook (d_webhook_id d0) s = Some w" using w(1) by (simp add: begin_attempt_def)
    from dispatch_unfold [OF Some this ev att(1) st id2]
    have "snd ?r = (set_delivery d2 s)\<lparr>
        hs_partitions := record_partition_metrics now (get_partition_for_webhook st (w_id w) events) c (hs_partitions s),
        hs_slo := record_slo_observation st now c lat (event_value (d_event d2)) (w_url w) (hs_slo s)\<rparr>" "fst ?r = Inr ()"
      by simp_all
    ultimately show ?thesis using keep(1,2)
      by (simp add: hook_ok_def base_ok_def rows_ok_def grows_def pending_mono)
  qed
  then show "fst ?r = Inr ()" "hook_ok st (snd ?r)" "grows s (snd ?r)" "hs_webhooks (snd ?r) = hs_webhooks s"
    "hs_events_cache (snd ?r) = hs_events_cache s" by simp_all
qed

section \<open>The operations of the engine\<close>

definition good :: "hook_settings \<Rightarrow> hook_state \<Rightarrow> hook_state \<Rightarrow> bool" where
  "good st s s' \<longleftrightarrow> hook_ok st s' \<and> grows s s' \<and> hs_webhooks s' = hs_webhooks s"

lemma good_refl: "hook_ok st s \<Longrightarrow> good st s s"
  by (simp add: good_def)

lemma good_trans: "good st s t \<Longrightarrow> good st t u \<Longrightarrow> good st s u"
  by (auto simp: good_def intro: grows_trans)

lemma good_ok: "good st s t \<Longrightarrow> hook_ok st t"
  by (simp add: good_def)

lemma good_cache [simp]: "good st s (t\<lparr>hs_events_cache := c\<rparr>) = good st s t" "good st (s\<lparr>hs_events_cache := c\<rparr>) t = good st s t"
  by (simp_all add: good_def hook_ok_def base_ok_def rows_ok_def grows_def)

lemma hook_ok_except: "hook_ok st s \<Longrightarrow> base_ok s \<and> rows_ok st X s"
  by (auto simp: hook_ok_def rows_ok_def)

lemma dispatch_good: "base_ok s \<Longrightarrow> rows_ok st {did} s \<Longrightarrow> good st s (snd (dispatch_delivery st env now did s))"
  using dispatch_delivery_ok [of s st did env now] by (simp add: good_def)

lemma dispatch_good_ok: "hook_ok st s \<Longrightarrow> good st s (snd (dispatch_delivery st env now did s))"
  using hook_ok_except dispatch_good by blast

lemma dispatch_all_good:
  "hook_ok st s \<Longrightarrow> good st s (snd (dispatch_all st env now ds s)) \<and> fst (dispatch_all st env now ds s) = Inr ()"
proof (induction ds arbitrary: s)
  case Nil
  then show ?case by (simp add: good_refl)
next
  case (Cons did ds)
  obtain s' where d: "dispatch_delivery st env now did s = (Inr (), s')"
    using dispatch_delivery_ok(1) [of s st did env now] hook_ok_except [OF Cons.prems, of "{did}"]
    by (cases "dispatch_delivery st env now did s") auto
  have "good st s s'" using dispatch_good_ok [OF Cons.prems, of env now did] d by simp
  with Cons.IH [of s'] show ?case by (auto simp: d intro: good_trans dest: good_ok)
qed

text \<open>Resetting a stored row, then dispatching it.\<close>

lemma reset_dispatch_good:
  assumes "hook_ok st s" "find_delivery did s = Some d0" "identity d = identity d0"
  shows "good st s (snd (dispatch_delivery st env now did (set_delivery d s)))
    \<and> fst (dispatch_delivery st env now did (set_delivery d s)) = Inr ()"
proof -
  have base: "base_ok s" using assms(1) by (simp add: hook_ok_def)
  note keep = set_delivery_keeps [OF base assms(2,3)]
  have "d_id d = did" using find_delivery_mem [OF assms(2)] identity_fields [OF assms(3)] by simp
  with keep(3) assms(1) have "rows_ok st {did} (set_delivery d s)"
    by (auto simp: rows_ok_def hook_ok_def)
  with keep(2) have "good st (set_delivery d s) (snd (dispatch_delivery st env now did (set_delivery d s)))"
    "fst (dispatch_delivery st env now did (set_delivery d s)) = Inr ()"
    using dispatch_good dispatch_delivery_ok(1) by blast+
  moreover have "grows s (set_delivery d s)" using keep(1) by (simp add: grows_def)
  ultimately show ?thesis by (auto simp: good_def intro: grows_trans)
qed

lemma replay_good:
  assumes "hook_ok st s"
  shows "good st s (snd (replay_dead_letter_delivery st env now did s))"
proof (cases "find_delivery did s")
  case None
  then show ?thesis using assms by (simp add: replay_dead_letter_delivery_def good_refl)
next
  case (Some d)
  have "identity (reset_delivery now d) = identity d" by (simp add: reset_delivery_def identity_def)
  from reset_dispatch_good [OF assms Some this, of env now] Some show ?thesis
    using good_refl [OF assms] by (auto simp: replay_dead_letter_delivery_def split: prod.splits sum.splits)
qed

lemma replay_all_good: "hook_ok st s \<Longrightarrow> good st s (snd (replay_all st env now ds s))"
proof (induction ds arbitrary: s)
  case Nil
  then show ?case by (simp add: good_refl)
next
  case (Cons did ds)
  obtain r s' where r: "replay_dead_letter_delivery st env now did s = (r, s')" by fastforce
  have g: "good st s s'" using replay_good [OF Cons.prems, of env now did] r by simp
  then have "good st s (snd (replay_all st env now ds s'))"
    using Cons.IH [of s'] good_trans good_ok by blast
  with g show ?case by (cases r) (auto simp: r split: prod.splits sum.splits)
qed

lemma recover_loop_good: "hook_ok st s \<Longrightarrow> good st s (snd (recover_loop st env now ds s))"
proof (induction ds arbitrary: s)
  case Nil
  then show ?case by (simp add: good_refl)
next
  case (Cons did ds)
  show ?case
  proof (cases "find_delivery did s")
    case None
    then show ?thesis using Cons.prems by (simp add: good_refl)
  next
    case (Some d)
    let ?step = "if d_status d = SUCCESS then (Inr False, s)
        else if d_status d = DEAD_LETTER then replay_dead_letter_delivery st env now did s
        else (case dispatch_delivery st env now did
                (set_delivery (d\<lparr>d_status := PENDING, d_next_retry_at := None, d_dead_lettered_at := None\<rparr>) s) of
                (Inl e, s') \<Rightarrow> (Inl e, s') | (Inr _, s') \<Rightarrow> (Inr True, s'))"
    have "identity (d\<lparr>d_status := PENDING, d_next_retry_at := None, d_dead_lettered_at := None\<rparr>) = identity d"
      by (simp add: identity_def)
    from reset_dispatch_good [OF Cons.prems Some this, of env now]
    have g: "good st s (snd ?step)"
      using replay_good [OF Cons.prems, of env now did] good_refl [OF Cons.prems]
      by (auto split: prod.splits sum.splits)
    obtain r s1 where r: "?step = (r, s1)" by fastforce
    with g have "good st s s1" by simp
    with Cons.IH [of s1] have "good st s (snd (recover_loop st env now ds s1))"
      using good_trans good_ok by blast
    then show ?thesis using Some r \<open>good st s s1\<close>
      by (cases r) (auto simp: Let_def split: prod.splits sum.splits)
  qed
qed

lemma create_delivery_ok:
  assumes "hook_ok st s" "w \<in> set (hs_webhooks s)" "create_delivery env now u w ev payload ts 1 s = (r, s1)"
  shows "(\<exists>e. r = Inl e \<and> s1 = s) \<or>
    (\<exists>d. r = Inr d \<and> d_id d = u \<and> base_ok s1 \<and> rows_ok st {u} s1 \<and> grows s s1
       \<and> hs_webhooks s1 = hs_webhooks s \<and> find_delivery u s1 = Some d)"
proof (cases r)
  case (Inl e)
  then show ?thesis using assms(3) by (auto simp: create_delivery_def Let_def split: if_splits)
next
  case (Inr d)
  then have s1: "s1 = s\<lparr>hs_deliveries := hs_deliveries s @ [d]\<rparr>"
    and d: "d_id d = u" "d_signature_version d = 1" "d_webhook_id d = w_id w"
    and new: "\<forall>x\<in>set (hs_deliveries s). d_idempotency_key x \<noteq> d_idempotency_key d \<and> d_id x \<noteq> u"
    using assms(3) by (auto simp: create_delivery_def Let_def list_ex_iff split: if_splits)
  have "base_ok s1" using assms(1,2) d new by (auto simp: s1 hook_ok_def base_ok_def)
  moreover have "rows_ok st {u} s1" using assms(1) d by (auto simp: s1 hook_ok_def rows_ok_def)
  moreover have "grows s s1" by (simp add: s1 grows_def)
  moreover have "find (\<lambda>x. d_id x = u) (hs_deliveries s) = None" using new by (simp add: find_None_iff_all)
  then have "find_delivery u s1 = Some d" using d(1) by (simp add: s1 find_delivery_def find_append)
  ultimately show ?thesis using Inr d by (simp add: s1)
qed

lemma trigger_loop_good:
  assumes "hook_ok st s" "set ws \<subseteq> set (hs_webhooks s)"
    "fst (validate_payload_schema_version payload ev)"
  shows "good st s (snd (trigger_loop st env now ev payload 1 ws s))"
  using assms
proof (induction ws arbitrary: s)
  case Nil
  then show ?case by (simp add: good_refl)
next
  case (Cons w ws)
  have skip: "good st s (snd (trigger_loop st env now ev payload 1 ws s))" using Cons by simp
  let ?pid = "get_partition_for_webhook st (w_id w) (the (w_events w))"
  obtain r s1 where c: "create_delivery env now (env_uuid4 env (hs_deliveries s)) w ev payload now 1 s = (r, s1)"
    by fastforce
  have valid: "\<exists>x. validate_payload_schema_version payload ev = (True, x)"
    using Cons.prems(3) by (cases "validate_payload_schema_version payload ev") simp
  consider (skipped) "\<not> env_url_ok env (w_url w)" | (bad) "w_events w = None"
    | (pressed) "is_backpressured st (hs_partitions s) ?pid" "?pid \<noteq> SLA_PRIORITY_PARTITION st"
    | (go) evs where "env_url_ok env (w_url w)" "w_events w = Some evs"
        "\<not> (is_backpressured st (hs_partitions s) ?pid \<and> ?pid \<noteq> SLA_PRIORITY_PARTITION st)"
    by (cases "w_events w") auto
  then show ?case
  proof cases
    case go
    then have body: "trigger_loop st env now ev payload 1 (w # ws) s = (case r of
        Inl e \<Rightarrow> (Inl e, s1)
      | Inr d \<Rightarrow> (case dispatch_delivery st env now (d_id d) s1 of
          (Inl e, s2) \<Rightarrow> (Inl e, s2)
        | (Inr _, s2) \<Rightarrow> (case trigger_loop st env now ev payload 1 ws s2 of
            (Inl e, s3) \<Rightarrow> (Inl e, s3) | (Inr ds, s3) \<Rightarrow> (Inr (d_id d # ds), s3))))"
      using valid c by (auto simp: Let_def split: sum.splits prod.splits)
    have "w \<in> set (hs_webhooks s)" using Cons.prems(2) by simp
    from create_delivery_ok [OF Cons.prems(1) this c] show ?thesis
    proof (elim disjE exE conjE)
      fix e assume "r = Inl e" "s1 = s"
      then show ?thesis using body Cons.prems(1) by (simp add: good_refl)
    next
      fix d assume d: "r = Inr d" "d_id d = env_uuid4 env (hs_deliveries s)" "base_ok s1"
        "rows_ok st {env_uuid4 env (hs_deliveries s)} s1" "grows s s1" "hs_webhooks s1 = hs_webhooks s"
      obtain s2 where s2: "dispatch_delivery st env now (d_id d) s1 = (Inr (), s2)"
        using dispatch_delivery_ok(1) [of s1 st "d_id d" env now] d by (cases "dispatch_delivery st env now (d_id d) s1") auto
      have "good st s1 s2" using dispatch_good [of s1 st "d_id d" env now] d s2 by simp
      then have g: "good st s s2" using d by (auto simp: good_def intro: grows_trans)
      have "good st s2 (snd (trigger_loop st env now ev payload 1 ws s2))"
        using Cons.IH [of s2] Cons.prems g by (auto simp: good_def)
      with g have "good st s (snd (trigger_loop st env now ev payload 1 ws s2))" by (rule good_trans)
      then show ?thesis using body d(1) s2 by (auto split: prod.splits sum.splits)
    qed
  qed (use skip Cons.prems(1) good_refl in \<open>auto simp: Let_def split: option.splits\<close>)
qed

lemma filter_subscribed_subset: "set (fst (filter_subscribed env now ev ws c)) \<subseteq> set ws"
proof (induction ws arbitrary: c)
  case (Cons w ws)
  then show ?case
    by (auto simp: Let_def split: prod.splits option.splits if_splits) (metis fst_conv subsetD)+
qed simp

lemma trigger_good:
  assumes "hook_ok st s"
  shows "good st s (snd (trigger_sla_violation_webhooks st env now now' data ev 1 s))"
proof -
  obtain ws s1 where a: "get_active_webhooks_for_event env now ev s = (ws, s1)" by fastforce
  then obtain c where c: "s1 = s\<lparr>hs_events_cache := c\<rparr>"
    by (auto simp: get_active_webhooks_for_event_def Let_def split: prod.splits)
  have ws: "set ws \<subseteq> set (hs_webhooks s)"
    using a filter_subscribed_subset [of env now ev
        "filter (\<lambda>w. w_is_active w \<and> (case w_events w of None \<Rightarrow> False | Some evs \<Rightarrow> event_value ev \<in> set evs)) (hs_webhooks s)"
        "hs_events_cache s"]
    by (auto simp: get_active_webhooks_for_event_def Let_def split: prod.splits)
  let ?p = "build_redacted_payload st (env_isoformat env now') data ev"
  have "fst (validate_payload_schema_version ?p ev)"
    by (cases ev) (simp_all add: validate_payload_schema_version_def build_redacted_payload_def
        schema_version_of_def WEBHOOK_SCHEMA_VERSION_def SUPPORTED_SCHEMA_VERSIONS_def)
  moreover have "hook_ok st s1" using assms by (simp add: c hook_ok_def base_ok_def rows_ok_def)
  ultimately have "good st s1 (snd (trigger_loop st env now ev ?p 1 ws s1))"
    using ws by (intro trigger_loop_good) (simp_all add: c)
  then show ?thesis by (simp add: trigger_sla_violation_webhooks_def a c)
qed

text \<open>Every way the running service touches deliveries and subscriptions, deletions apart.\<close>

inductive hook_step :: "hook_settings \<Rightarrow> hook_state \<Rightarrow> hook_state \<Rightarrow> bool" for st where
  hs_trigger: "hook_step st s (snd (trigger_sla_violation_webhooks st env now now' data ev CURRENT_SIGNATURE_VERSION s))"
| hs_dispatch: "hook_step st s (snd (dispatch_delivery st env now did s))"
| hs_retry_due: "hook_step st s (snd (retry_pending_deliveries st env now s))"
| hs_replay: "hook_step st s (snd (replay_dead_letter_delivery st env now did s))"
| hs_replay_context: "hook_step st s (snd (replay_deliveries_by_event_context st env now ev dev out n s))"
| hs_recover: "hook_step st s (snd (recover_deliveries_in_window st env now a b s))"
| hs_retry: "hook_step st s (snd (retry_delivery st env now wid did s))"
| hs_create: "hook_step st s (snd (create_webhook wid p s))"
| hs_update: "hook_step st s (snd (update_webhook env wid u s))"
| hs_rotate: "hook_step st s (snd (rotate_webhook_secret st now sec wid s))"

definition hook_init :: hook_state where
  "hook_init = \<lparr>hs_webhooks = [], hs_deliveries = [], hs_events_cache = TTLCache 60,
     hs_partitions = \<lparr>ps_lag = [], ps_throughput = [], ps_last_recorded = []\<rparr>, hs_slo = []\<rparr>"

lemma webhooks_update_ok:
  assumes "hook_ok st s" "map w_id ws = map w_id (hs_webhooks s)" "\<forall>w\<in>set ws. w_events w \<noteq> None"
  shows "hook_ok st (s\<lparr>hs_webhooks := ws\<rparr>)" "grows s (s\<lparr>hs_webhooks := ws\<rparr>)"
proof -
  have "w_id ` set ws = w_id ` set (hs_webhooks s)" using assms(2) by (metis set_map)
  then show "hook_ok st (s\<lparr>hs_webhooks := ws\<rparr>)"
    using assms by (auto simp: hook_ok_def base_ok_def rows_ok_def)
qed (simp add: grows_def)

lemma set_webhook_ok:
  assumes "hook_ok st s" "w_id w' = wid" "w_events w' \<noteq> None"
  shows "hook_ok st (s\<lparr>hs_webhooks := upd_where (\<lambda>x. w_id x = wid) (\<lambda>_. w') (hs_webhooks s)\<rparr>)"
    "grows s (s\<lparr>hs_webhooks := upd_where (\<lambda>x. w_id x = wid) (\<lambda>_. w') (hs_webhooks s)\<rparr>)"
  using webhooks_update_ok [OF assms(1), of "upd_where (\<lambda>x. w_id x = wid) (\<lambda>_. w') (hs_webhooks s)"] assms
  by (auto simp: map_set_row hook_ok_def base_ok_def set_upd_where)

lemma hook_ok_cache [simp]: "hook_ok st (s\<lparr>hs_events_cache := c\<rparr>) = hook_ok st s" "grows s (t\<lparr>hs_events_cache := c\<rparr>) = grows s t"
  by (simp_all add: hook_ok_def base_ok_def rows_ok_def grows_def)

lemma find_webhook_mem: "find_webhook wid s = Some w \<Longrightarrow> w \<in> set (hs_webhooks s) \<and> w_id w = wid"
  using find_SomeD unfolding find_webhook_def by fastforce

lemma create_webhook_ok:
  "hook_ok st s \<Longrightarrow> hook_ok st (snd (create_webhook wid p s)) \<and> grows s (snd (create_webhook wid p s))"
  by (auto simp: create_webhook_def Let_def list_ex_iff hook_ok_def base_ok_def rows_ok_def grows_def)

lemma update_webhook_ok:
  assumes "hook_ok st s"
  shows "hook_ok st (snd (update_webhook env wid u s)) \<and> grows s (snd (update_webhook env wid u s))"
proof (cases "find_webhook wid s")
  case (Some w)
  have "w_id (patch_webhook u w) = wid" "w_events (patch_webhook u w) \<noteq> None"
    using find_webhook_mem [OF Some] assms by (auto simp: patch_webhook_def hook_ok_def base_ok_def split: option.splits)
  from set_webhook_ok [OF assms this] Some show ?thesis
    by (simp add: update_webhook_def invalidate_webhook_cache_def Let_def)
qed (use assms in \<open>simp add: update_webhook_def\<close>)

lemma rotate_ok:
  assumes "hook_ok st s"
  shows "hook_ok st (snd (rotate_webhook_secret st now sec wid s)) \<and> grows s (snd (rotate_webhook_secret st now sec wid s))"
proof (cases "find_webhook wid s")
  case (Some w)
  let ?w = "w\<lparr>w_previous_secret := w_secret w, w_rotation_grace_expires_at := Some (now + GRACE_WINDOW_SECONDS st),
      w_secret := Some sec, w_secret_version := w_secret_version w + 1, w_last_secret_rotation_at := Some now\<rparr>"
  have "w_id ?w = wid" "w_events ?w \<noteq> None"
    using find_webhook_mem [OF Some] assms by (auto simp: hook_ok_def base_ok_def)
  from set_webhook_ok [OF assms this] Some show ?thesis by (simp add: rotate_webhook_secret_def Let_def)
qed (use assms in \<open>simp add: rotate_webhook_secret_def\<close>)

lemma good_split: "good st s t \<Longrightarrow> hook_ok st t \<and> grows s t"
  by (simp add: good_def)

lemma hook_step_ok: "hook_step st s t \<Longrightarrow> hook_ok st s \<Longrightarrow> hook_ok st t \<and> grows s t"
proof (induction rule: hook_step.induct)
  case (hs_trigger s env now now' data ev)
  then show ?case using trigger_good good_split by (simp add: CURRENT_SIGNATURE_VERSION_def) blast
next
  case (hs_dispatch s env now did)
  then show ?case using dispatch_good_ok good_split by blast
next
  case (hs_retry_due s env now)
  then have "hook_ok st (snd (dispatch_all st env now ds s)) \<and> grows s (snd (dispatch_all st env now ds s))" for ds
    using dispatch_all_good good_split by blast
  then show ?case by (auto simp: retry_pending_deliveries_def Let_def split: prod.splits sum.splits) (metis snd_conv)+
next
  case (hs_replay s env now did)
  then show ?case using replay_good good_split by blast
next
  case (hs_replay_context s env now ev dev out n)
  then show ?case unfolding replay_deliveries_by_event_context_def Let_def
    using replay_all_good good_split by blast
next
  case (hs_recover s env now a b)
  then have "hook_ok st (snd (recover_loop st env now ds s)) \<and> grows s (snd (recover_loop st env now ds s))" for ds
    using recover_loop_good good_split by blast
  then show ?case using hs_recover
    by (auto simp: recover_deliveries_in_window_def Let_def split: prod.splits sum.splits) (metis snd_conv)+
next
  case (hs_retry s env now wid did)
  then have "hook_ok st (snd (dispatch_delivery st env now did s)) \<and> grows s (snd (dispatch_delivery st env now did s))"
    using dispatch_good_ok good_split by blast
  with hs_retry show ?case by (auto simp: retry_delivery_def split: prod.splits sum.splits option.splits)
next
  case (hs_create s wid p)
  then show ?case by (rule create_webhook_ok)
next
  case (hs_update s env wid u)
  then show ?case by (rule update_webhook_ok)
next
  case (hs_rotate s now sec wid)
  then show ?case by (rule rotate_ok)
qed

interpretation hooks: growing_system "hook_step st" "hook_ok st" grows for st
  by unfold_locales (auto dest: hook_step_ok intro: grows_trans)

lemma hook_steps_ok: "(hook_step st)\<^sup>*\<^sup>* s t \<Longrightarrow> hook_ok st s \<Longrightarrow> hook_ok st t \<and> grows s t"
  by (rule hooks.history_keeps)

lemma hook_init_ok: "hook_ok st hook_init"
  by (simp add: hook_init_def hook_ok_def base_ok_def rows_ok_def)

lemma find_by_identity:
  assumes "prefix (map identity t) (map identity t')" "distinct (map d_id t')" "find (\<lambda>d. d_id d = did) t = Some d"
  shows "\<exists>d'. find (\<lambda>d. d_id d = did) t' = Some d' \<and> identity d' = identity d"
proof -
  have "d \<in> set t" "d_id d = did" using find_SomeD [OF assms(3)] by auto
  then have "identity d \<in> set (map identity t')" using set_mono_prefix [OF assms(1)] by auto
  then obtain d' where d': "d' \<in> set t'" "identity d' = identity d" by auto
  then have "d_id d' = did" using identity_fields \<open>d_id d = did\<close> by metis
  then show ?thesis using d' find_distinct_key [OF assms(2), of d'] by auto
qed

section \<open>Properties\<close>


definition sample_hook :: webhook_create where
  "sample_hook = \<lparr>wc_name = ''n'', wc_url = ''http://h/'', wc_secret = None, wc_events = [SLA_VIOLATION],
     wc_max_retries = 3, wc_is_active = True\<rparr>"

definition sample_env :: hook_env where
  "sample_env = \<lparr>env_hmac = (\<lambda>k m. ''ab''), env_sha256 = (\<lambda>s. s), env_dumps = (\<lambda>_. ''{}''), env_isoformat = (\<lambda>_. ''t''),
     env_uuid_str = str_nat, env_post = (\<lambda>_ _ _ _. (Response 503 [], 12)), env_url_ok = (\<lambda>_. True),
     env_uuid4 = length\<rparr>"

abbreviation "sample_state1 \<equiv> snd (create_webhook 1 sample_hook hook_init)"
abbreviation "sample_state2 \<equiv> snd (trigger_sla_violation_webhooks sample_hook_settings sample_env 100 100
   (JObj []) SLA_VIOLATION CURRENT_SIGNATURE_VERSION sample_state1)"

lemma sample_steps: "(hook_step sample_hook_settings)\<^sup>*\<^sup>* hook_init sample_state2"
  by (rule rtranclp.rtrancl_into_rtrancl [OF r_into_rtranclp [where r = "hook_step sample_hook_settings", OF hs_create]
        hs_trigger])


text \<open>
  Whatever is triggered, retried, replayed or recovered, a delivery keeps its webhook, event, payload,
  signature version, idempotency key and event timestamp, so receivers can deduplicate every attempt.
\<close>

theorem delivery_identity_fixed:
  assumes "(hook_step st)\<^sup>*\<^sup>* hook_init s" "(hook_step st)\<^sup>*\<^sup>* s s'" "find_delivery did s = Some d"
  shows "\<exists>d'. find_delivery did s' = Some d' \<and> identity d' = identity d"
proof -
  have ok: "hook_ok st s" using hook_steps_ok [OF assms(1) hook_init_ok] by simp
  then have "prefix (map identity (hs_deliveries s)) (map identity (hs_deliveries s'))" "hook_ok st s'"
    using hook_steps_ok [OF assms(2)] by (simp_all add: grows_def)
  then show ?thesis
    using find_by_identity assms(3) by (simp add: find_delivery_def hook_ok_def base_ok_def)
qed

lemmas sample_eval = trigger_sla_violation_webhooks_def get_active_webhooks_for_event_def create_webhook_def
  sample_hook_def sample_env_def sample_hook_settings_def hook_init_def cache_get_def TTLCache_def
  create_delivery_def build_redacted_payload_def validate_payload_schema_version_def schema_version_of_def
  SUPPORTED_SCHEMA_VERSIONS_def WEBHOOK_SCHEMA_VERSION_def get_partition_for_webhook_def
  is_backpressured_def get_partition_pending_count_def dispatch_delivery_def find_delivery_def
  find_webhook_def begin_attempt_def set_delivery_def upd_where_def attempt_delivery_def build_headers_def
  classify_http_status_def RETRYABLE_STATUS_CODES_def settle_def effective_max_retries_def

theorem delivery_identity_fixed_witness:
  "\<exists>d'. find_delivery 0 (snd (retry_pending_deliveries sample_hook_settings sample_env 130 sample_state2)) = Some d'
     \<and> d_event d' = SLA_VIOLATION"
proof -
  have "\<exists>d. find_delivery 0 sample_state2 = Some d \<and> d_event d = SLA_VIOLATION"
    by (simp add: sample_eval Let_def)
  then obtain d where d: "find_delivery 0 sample_state2 = Some d" "d_event d = SLA_VIOLATION" by blast
  from delivery_identity_fixed [OF sample_steps r_into_rtranclp [where r = "hook_step sample_hook_settings",
      OF hs_retry_due [of _ _ sample_env 130]] d(1)]
  show ?thesis using d(2) identity_fields by metis
qed

text \<open>
  The pending counter of a partition never decreases, whatever the engine does, so a partition that is
  backpressured once is backpressured forever.
\<close>

theorem backpressure_is_permanent:
  assumes "(hook_step st)\<^sup>*\<^sup>* hook_init s" "(hook_step st)\<^sup>*\<^sup>* s s'"
  shows "get_partition_pending_count (hs_partitions s) pid \<le> get_partition_pending_count (hs_partitions s') pid
    \<and> (is_backpressured st (hs_partitions s) pid \<longrightarrow> is_backpressured st (hs_partitions s') pid)"
proof -
  have "hook_ok st s" using hook_steps_ok [OF assms(1) hook_init_ok] by simp
  then have "get_partition_pending_count (hs_partitions s) pid \<le> get_partition_pending_count (hs_partitions s') pid"
    using hook_steps_ok [OF assms(2)] by (simp add: grows_def)
  then show ?thesis by (simp add: is_backpressured_def)
qed

theorem backpressure_is_permanent_witness:
  "get_partition_pending_count (hs_partitions hook_init) 0 \<le> get_partition_pending_count (hs_partitions sample_state2) 0"
  using backpressure_is_permanent [OF rtranclp.rtrancl_refl sample_steps, of 0] by blast

text \<open>
  What one dispatch does with an HTTP answer: a 2xx marks the delivery successful; a server error
  schedules the next attempt after \<open>min(delay * 2^k, maximum)\<close> seconds while both the retries of the webhook
  and the configured delays last, and dead-letters it otherwise; any other answer dead-letters it at once,
  and that failure is recorded in the SLO window and the partition counters as a success.
\<close>

theorem dispatch_answer:
  assumes "(hook_step st)\<^sup>*\<^sup>* hook_init s"
    and d0: "find_delivery did s = Some d0" and w: "find_webhook (d_webhook_id d0) s = Some w"
    and post: "\<And>h. env_post env now (begin_attempt now d0) w h = (Response code body, lat)" and "code \<noteq> 0"
  shows "let s' = snd (dispatch_delivery st env now did s); d' = the (find_delivery did s'); k = d_attempt_count d0 in
    d_attempt_count d' = k + 1
    \<and> (200 \<le> code \<and> code < 300 \<longrightarrow> d_status d' = SUCCESS)
    \<and> (500 \<le> code \<and> code < 600 \<longrightarrow> \<not> ob_success (last (hs_slo s'))
        \<and> (if int k < effective_max_retries w \<and> k < length (RETRY_BASE_DELAYS st)
           then d_status d' = RETRYING \<and> d_next_retry_at d' = Some (now + real_of_int (retry_delay st k))
           else d_status d' = DEAD_LETTER))
    \<and> (\<not> (200 \<le> code \<and> code < 300) \<and> \<not> (500 \<le> code \<and> code < 600) \<longrightarrow> d_status d' = DEAD_LETTER
        \<and> ob_success (last (hs_slo s'))
        \<and> (0 \<le> get_partition_pending_count (hs_partitions s) pid \<longrightarrow>
            get_partition_pending_count (hs_partitions s') pid = get_partition_pending_count (hs_partitions s) pid))"
proof -
  have ok: "hook_ok st s" using hook_steps_ok [OF assms(1) hook_init_ok] by simp
  then have base: "base_ok s" by (simp add: hook_ok_def)
  obtain events where ev: "w_events w = Some events"
    using find_webhook_mem [OF w] base by (auto simp: base_ok_def)
  have ver: "d_signature_version (begin_attempt now d0) = 1"
    using find_delivery_mem [OF d0] base by (auto simp: base_ok_def begin_attempt_def)
  let ?ok = "200 \<le> code \<and> code < 300"
  obtain d1 where att: "attempt_delivery env now (begin_attempt now d0) w = Inr (?ok, d1, lat)"
    and d1: "identity d1 = identity d0" "d_attempt_count d1 = d_attempt_count d0 + 1"
      "d_response_status_code d1 = Some code"
  proof -
    have cnt: "d_attempt_count (begin_attempt now d0) = d_attempt_count d0 + 1" by (simp add: begin_attempt_def)
    show thesis
      by (rule attempt_response [OF ver post], rule that) (simp_all only: cnt identity_begin_attempt)
  qed
  obtain d2 c where st: "settle st now w ?ok d1 = (d2, c)" by fastforce
  have "1 \<le> d_attempt_count d1" "?ok \<longrightarrow> is_2xx (d_response_status_code d1)"
    using d1 by (simp_all add: is_2xx_def)
  note sok = settle_ok [OF st this]
  have id2: "identity d2 = identity d0" using sok(2) d1(1) by simp
  have find2: "find_delivery did (set_delivery d2 s) = Some d2" by (rule set_delivery_keeps(4) [OF base d0 id2])
  let ?s' = "snd (dispatch_delivery st env now did s)"
  have eqn: "find_delivery did ?s' = Some d2" "ob_success (last (hs_slo ?s')) = c"
    "hs_partitions ?s' = record_partition_metrics now (get_partition_for_webhook st (w_id w) events) c (hs_partitions s)"
    using find2 dispatch_unfold [OF d0 w ev att st id2]
    by (simp_all add: find_delivery_def record_slo_observation_def Let_def)
  have terminal: "classify_http_status code = Terminal \<longleftrightarrow> \<not> (500 \<le> code \<and> code < 600)"
    using classify_retryable [of code] by (cases "classify_http_status code") auto
  have pend: "get_partition_pending_count (record_partition_metrics now p True q) pid = get_partition_pending_count q pid"
    if "0 \<le> get_partition_pending_count q pid" for p q
    using that by (auto simp: record_partition_metrics_def get_partition_pending_count_def update_conv' split: option.splits)
  have settled: "d_status d2 = SUCCESS" if ?ok using st that by (auto simp: settle_def)
  have retried: "\<not> c \<and> (if int (d_attempt_count d0) < effective_max_retries w \<and> d_attempt_count d0 < length (RETRY_BASE_DELAYS st)
      then d_status d2 = RETRYING \<and> d_next_retry_at d2 = Some (now + real_of_int (retry_delay st (d_attempt_count d0)))
      else d_status d2 = DEAD_LETTER)" if "500 \<le> code \<and> code < 600"
    using st that d1 terminal by (auto simp: settle_def Let_def split: if_splits)
  have dead: "d_status d2 = DEAD_LETTER \<and> c" if "\<not> ?ok" "\<not> (500 \<le> code \<and> code < 600)"
    using st that d1 terminal assms(5) by (auto simp: settle_def split: if_splits)
  show ?thesis unfolding Let_def eqn option.sel
    using settled retried dead pend sok(3) d1(2) by auto
qed

theorem dispatch_answer_witness:
  "d_status (the (find_delivery 0 (snd (dispatch_delivery sample_hook_settings
     (sample_env\<lparr>env_post := (\<lambda>_ _ _ _. (Response 404 [], 7))\<rparr>) 200 0 sample_state2)))) = DEAD_LETTER"
proof -
  let ?env = "sample_env\<lparr>env_post := (\<lambda>_ _ _ _. (Response 404 [], 7))\<rparr>"
  have "\<exists>d w. find_delivery 0 sample_state2 = Some d \<and> find_webhook (d_webhook_id d) sample_state2 = Some w"
    by (simp add: sample_eval Let_def)
  then obtain d w where "find_delivery 0 sample_state2 = Some d" "find_webhook (d_webhook_id d) sample_state2 = Some w"
    by blast
  from dispatch_answer [OF sample_steps this, of ?env 200 404 "[]" 7] show ?thesis
    by (simp add: sample_env_def Let_def)
qed

end
