(* ===== verification/Auth.thy ===== *)
theory Auth
  imports AuditTrail Caching
begin

text \<open>
  Accounts, sessions and token families: \<open>app/services/auth_store.py\<close>, the repositories
  \<open>user_repository.py\<close>, \<open>session_repository.py\<close> and \<open>token_family_repository.py\<close>, the guards of
  \<open>app/core/security.py\<close> and the handlers of \<open>app/api/v1/endpoints/auth.py\<close>. Password hashing and verification,
  the SHA-256 of a token and the values of \<open>uuid4\<close> are arguments. The columns \<open>locked_until\<close> and
  \<open>expires_at\<close> are \<open>DateTime(timezone=True)\<close>: what is read back is aware. The defaults of the columns
  \<open>created_at\<close> are \<open>datetime.now(timezone.utc)\<close>, evaluated when the model classes are imported: every row gets
  that instant, \<open>env_started\<close>. The \<open>created_at\<close> and \<open>updated_at\<close> of a token family are never read and left out.
\<close>

section \<open>Tables\<close>

datatype role = Role_admin | Role_engineer

fun role_value :: "role \<Rightarrow> string" where
  "role_value Role_admin = ''admin''"
| "role_value Role_engineer = ''engineer''"

definition Role :: "string \<Rightarrow> role option" where
  "Role s = find (\<lambda>r. role_value r = s) [Role_admin, Role_engineer]"

record user_row =
  u_id :: string
  u_email :: string
  u_hashed_password :: string
  u_full_name :: "string option"
  u_role :: string
  u_stellar_wallet :: "string option"
  u_created_at :: real
  u_failed_login_attempts :: int
  u_locked_until :: "datetime option"

record session_row =
  s_access_token :: string
  s_refresh_token :: string
  s_email :: string
  s_family_id :: "string option"
  s_sequence :: int
  s_expires_at :: datetime
  s_created_at :: real

record family_row =
  f_family_id :: string
  f_email :: string
  f_current_sequence :: int
  f_compromised :: bool

record auth_state =
  as_users :: "user_row list"
  as_sessions :: "session_row list"
  as_families :: "family_row list"
  as_audit :: "audit_entry list"

record auth_user =
  au_id :: string
  au_email :: string
  au_full_name :: "string option"
  au_role :: role
  au_stellar_wallet :: "string option"
  au_created_at :: real

definition user_orm_to_pydantic :: "user_row \<Rightarrow> auth_user res" where
  "user_orm_to_pydantic u = (case Role (u_role u) of
     None \<Rightarrow> Inl (ValueError (u_role u @ '' is not a valid Role''))
   | Some r \<Rightarrow> Inr \<lparr>au_id = u_id u, au_email = u_email u, au_full_name = u_full_name u, au_role = r,
                   au_stellar_wallet = u_stellar_wallet u, au_created_at = u_created_at u\<rparr>)"

section \<open>User repository\<close>

definition get_by_email :: "string \<Rightarrow> auth_state \<Rightarrow> user_row option" where
  "get_by_email email s = find (\<lambda>u. u_email u = email) (as_users s)"

definition get_by_id :: "string \<Rightarrow> auth_state \<Rightarrow> user_row option" where
  "get_by_id uid s = find (\<lambda>u. u_id u = uid) (as_users s)"

definition get_by_stellar_wallet :: "string \<Rightarrow> auth_state \<Rightarrow> user_row option" where
  "get_by_stellar_wallet w s = find (\<lambda>u. u_stellar_wallet u = Some w) (as_users s)"

definition create_user ::
  "real \<Rightarrow> string \<Rightarrow> string \<Rightarrow> string \<Rightarrow> string \<Rightarrow> role \<Rightarrow> auth_state \<Rightarrow> user_row res \<times> auth_state" where
  "create_user started uid email hashed full_name r s =
    (let u = \<lparr>u_id = uid, u_email = email, u_hashed_password = hashed, u_full_name = Some full_name,
              u_role = role_value r, u_stellar_wallet = None, u_created_at = started,
              u_failed_login_attempts = 0, u_locked_until = None\<rparr>
     in if list_ex (\<lambda>x. u_id x = uid \<or> u_email x = email) (as_users s) then (Inl (IntegrityError ''users''), s)
        else (Inr u, s\<lparr>as_users := as_users s @ [u]\<rparr>))"

definition upd_user :: "string \<Rightarrow> (user_row \<Rightarrow> user_row) \<Rightarrow> auth_state \<Rightarrow> auth_state" where
  "upd_user email f s = s\<lparr>as_users := upd_where (\<lambda>u. u_email u = email) f (as_users s)\<rparr>"

definition increment_failed_attempts :: "string \<Rightarrow> auth_state \<Rightarrow> auth_state" where
  "increment_failed_attempts email =
    upd_user email (\<lambda>u. u\<lparr>u_failed_login_attempts := u_failed_login_attempts u + 1\<rparr>)"

definition reset_failed_attempts :: "string \<Rightarrow> auth_state \<Rightarrow> auth_state" where
  "reset_failed_attempts email = upd_user email (\<lambda>u. u\<lparr>u_failed_login_attempts := 0, u_locked_until := None\<rparr>)"

definition lock_account :: "string \<Rightarrow> real \<Rightarrow> auth_state \<Rightarrow> auth_state" where
  "lock_account email until = upd_user email (\<lambda>u. u\<lparr>u_locked_until := Some (Aware until)\<rparr>)"

text \<open>\<open>user.locked_until > datetime.utcnow()\<close>: the right-hand side is naive.\<close>

definition is_account_locked :: "real \<Rightarrow> string \<Rightarrow> auth_state \<Rightarrow> bool res" where
  "is_account_locked now email s =
    (case get_by_email email s of
       None \<Rightarrow> Inr False
     | Some u \<Rightarrow> (case u_locked_until u of None \<Rightarrow> Inr False | Some t \<Rightarrow> dt_less (Naive now) t))"

definition update_profile :: "string \<Rightarrow> string option \<Rightarrow> string option \<Rightarrow> auth_state \<Rightarrow> user_row option \<times> auth_state" where
  "update_profile uid full_name wallet s =
    (case get_by_id uid s of
       None \<Rightarrow> (None, s)
     | Some u \<Rightarrow>
       (let u1 = (if full_name \<noteq> None then u\<lparr>u_full_name := full_name\<rparr> else u);
            u2 = (if wallet \<noteq> None then u1\<lparr>u_stellar_wallet := wallet\<rparr> else u1)
        in (Some u2, s\<lparr>as_users := upd_where (\<lambda>x. u_id x = uid) (\<lambda>_. u2) (as_users s)\<rparr>)))"

section \<open>Session and token family repositories\<close>

definition create_session ::
  "real \<Rightarrow> string \<Rightarrow> string \<Rightarrow> string \<Rightarrow> string \<Rightarrow> int \<Rightarrow> real \<Rightarrow> auth_state \<Rightarrow> session_row res \<times> auth_state" where
  "create_session started access refresh email family sequence expires s =
    (let r = \<lparr>s_access_token = access, s_refresh_token = refresh, s_email = email, s_family_id = Some family,
              s_sequence = sequence, s_expires_at = Aware expires, s_created_at = started\<rparr>
     in if list_ex (\<lambda>x. s_access_token x = access \<or> s_refresh_token x = refresh) (as_sessions s)
        then (Inl (IntegrityError ''sessions''), s)
        else (Inr r, s\<lparr>as_sessions := as_sessions s @ [r]\<rparr>))"

definition get_session :: "string \<Rightarrow> auth_state \<Rightarrow> session_row option" where
  "get_session access s = find (\<lambda>r. s_access_token r = access) (as_sessions s)"

definition get_session_by_refresh_token :: "string \<Rightarrow> auth_state \<Rightarrow> session_row option" where
  "get_session_by_refresh_token refresh s = find (\<lambda>r. s_refresh_token r = refresh) (as_sessions s)"

definition delete_session :: "string \<Rightarrow> auth_state \<Rightarrow> auth_state" where
  "delete_session access s = s\<lparr>as_sessions := del_where (\<lambda>r. s_access_token r = access) (as_sessions s)\<rparr>"

definition delete_sessions_by_family :: "string \<Rightarrow> auth_state \<Rightarrow> nat \<times> auth_state" where
  "delete_sessions_by_family family s =
    (length (filter (\<lambda>r. s_family_id r = Some family) (as_sessions s)),
     s\<lparr>as_sessions := del_where (\<lambda>r. s_family_id r = Some family) (as_sessions s)\<rparr>)"

definition list_sessions_by_email :: "string \<Rightarrow> auth_state \<Rightarrow> session_row list" where
  "list_sessions_by_email email s = rev (sort_key s_created_at (filter (\<lambda>r. s_email r = email) (as_sessions s)))"

definition delete_sessions_by_email :: "string \<Rightarrow> auth_state \<Rightarrow> nat \<times> auth_state" where
  "delete_sessions_by_email email s =
    (length (list_sessions_by_email email s),
     s\<lparr>as_sessions := del_where (\<lambda>r. s_email r = email) (as_sessions s)\<rparr>)"

definition create_family :: "string \<Rightarrow> string \<Rightarrow> auth_state \<Rightarrow> unit res \<times> auth_state" where
  "create_family fid email s =
    (if list_ex (\<lambda>f. f_family_id f = fid) (as_families s) then (Inl (IntegrityError ''token_families''), s)
     else (Inr (), s\<lparr>as_families := as_families s @
             [\<lparr>f_family_id = fid, f_email = email, f_current_sequence = 0, f_compromised = False\<rparr>]\<rparr>))"

definition get_family :: "string \<Rightarrow> auth_state \<Rightarrow> family_row option" where
  "get_family fid s = find (\<lambda>f. f_family_id f = fid) (as_families s)"

definition upd_family :: "string \<Rightarrow> (family_row \<Rightarrow> family_row) \<Rightarrow> auth_state \<Rightarrow> auth_state" where
  "upd_family fid g s = s\<lparr>as_families := upd_where (\<lambda>f. f_family_id f = fid) g (as_families s)\<rparr>"

definition increment_sequence :: "string \<Rightarrow> auth_state \<Rightarrow> auth_state" where
  "increment_sequence fid = upd_family fid (\<lambda>f. f\<lparr>f_current_sequence := f_current_sequence f + 1\<rparr>)"

definition compromise_family :: "string \<Rightarrow> auth_state \<Rightarrow> auth_state" where
  "compromise_family fid = upd_family fid (\<lambda>f. f\<lparr>f_compromised := True\<rparr>)"

definition delete_families_by_email :: "string \<Rightarrow> auth_state \<Rightarrow> auth_state" where
  "delete_families_by_email email s = s\<lparr>as_families := del_where (\<lambda>f. f_email f = email) (as_families s)\<rparr>"

section \<open>Password policy and bearer tokens\<close>

definition validate_password_policy :: "string \<Rightarrow> bool" where
  "validate_password_policy password \<longleftrightarrow>
    \<not> length password < 8 \<and> list_ex is_lower password \<and> list_ex is_upper password \<and> list_ex is_digit password
    \<and> list_ex (\<lambda>c. c \<in> set ''!@#$%^&*(),.?:{}|<>'' \<or> c = CHR 34) password"

definition extract_bearer_token :: "string option \<Rightarrow> string res" where
  "extract_bearer_token authorization =
    (if authorization = None \<or> authorization = Some [] then Inl (HTTPException 401 ''Missing Authorization header'')
     else if \<not> startswith (the authorization) ''Bearer '' then Inl (HTTPException 401 ''Invalid Authorization header'')
     else Inr (drop 7 (the authorization)))"

section \<open>Auth store\<close>

text \<open>
  The library functions the store calls, and the import instant. An ORM user has no attribute \<open>user_id\<close>; reading it raises
  \<open>AttributeError\<close>, before the call it is an argument of.
\<close>

record auth_env =
  env_verify :: "string \<Rightarrow> string \<Rightarrow> bool"
  env_hash :: "string \<Rightarrow> string"
  env_sha :: "string \<Rightarrow> string"
  env_started :: real

definition user_id_attr :: "user_row \<Rightarrow> string res" where
  "user_id_attr u = Inl (AttributeError ''user_id'')"

definition audit_event ::
  "real \<Rightarrow> string option \<Rightarrow> string \<Rightarrow> string option \<Rightarrow> string option \<Rightarrow> (string \<times> json) list option \<Rightarrow> auth_state \<Rightarrow> auth_state" where
  "audit_event now ctx ev email actor details s =
    s\<lparr>as_audit := log_event now ctx ev email actor details None (as_audit s)\<rparr>"

record register_request =
  rr_email :: string
  rr_password :: string
  rr_full_name :: string
  rr_role :: role

definition register ::
  "auth_env \<Rightarrow> real \<Rightarrow> string option \<Rightarrow> string \<Rightarrow> register_request \<Rightarrow> auth_state \<Rightarrow> auth_user res \<times> auth_state" where
  "register env now ctx uid p s =
    (if get_by_email (rr_email p) s \<noteq> None then (Inl (ValueError ''User already exists''), s)
     else if \<not> validate_password_policy (rr_password p) then
       (Inl (ValueError ''Password does not meet policy requirements (min 8 chars, uppercase, lowercase, digit, special char)''), s)
     else case create_user (env_started env) uid (rr_email p) (env_hash env (rr_password p)) (rr_full_name p) (rr_role p) s of
       (Inl e, s1) \<Rightarrow> (Inl e, s1)
     | (Inr u, s1) \<Rightarrow>
         (user_orm_to_pydantic u,
          audit_event now ctx ''registration'' (Some (rr_email p)) (Some uid)
            (Some [(''user_id'', JStr uid), (''role'', JStr (role_value (rr_role p)))]) s1))"

record auth_session_response =
  ar_access_token :: string
  ar_refresh_token :: string
  ar_expires_in :: int
  ar_user :: auth_user

definition TOKEN_TTL_SECONDS :: real where
  "TOKEN_TTL_SECONDS = 3600"

definition AUTH_MAX_FAILED_ATTEMPTS :: int where
  "AUTH_MAX_FAILED_ATTEMPTS = 5"

definition AUTH_LOCKOUT_DURATION_MINUTES :: int where
  "AUTH_LOCKOUT_DURATION_MINUTES = 15"

text \<open>
  The failing branch of \<open>login\<close>. \<open>stored_user\<close> is the ORM object of the session, so its counter is read after
  the increment.
\<close>

definition login_failed ::
  "real \<Rightarrow> string option \<Rightarrow> string \<Rightarrow> auth_state \<Rightarrow> auth_session_response res \<times> auth_state" where
  "login_failed now ctx email s =
    (let s1 = increment_failed_attempts email s in
     case get_by_email email s1 of
       None \<Rightarrow>
         (Inl (ValueError ''Invalid credentials''),
          audit_event now ctx ''login_failed'' (Some email) None (Some [(''reason'', JStr ''invalid_credentials'')]) s1)
     | Some u \<Rightarrow>
       if u_failed_login_attempts u \<ge> AUTH_MAX_FAILED_ATTEMPTS then
         (let s2 = lock_account email (now + 60 * real_of_int AUTH_LOCKOUT_DURATION_MINUTES) s1 in
          case user_id_attr u of
            Inl e \<Rightarrow> (Inl e, s2)
          | Inr uid \<Rightarrow>
            (Inl (ValueError ''Account locked due to too many failed attempts. Try again in 15 minutes''),
             audit_event now ctx ''account_locked'' (Some email) (Some uid)
               (Some [(''lockout_duration_minutes'', JInt AUTH_LOCKOUT_DURATION_MINUTES),
                      (''failed_attempts'', JInt (u_failed_login_attempts u))]) s2))
       else
         (case user_id_attr u of
            Inl e \<Rightarrow> (Inl e, s1)
          | Inr uid \<Rightarrow>
            (Inl (ValueError ''Invalid credentials''),
             audit_event now ctx ''login_failed'' (Some email) (Some uid)
               (Some [(''reason'', JStr ''invalid_credentials'')]) s1)))"

definition login ::
  "auth_env \<Rightarrow> real \<Rightarrow> string option \<Rightarrow> string \<Rightarrow> string \<Rightarrow> string \<Rightarrow> string \<Rightarrow> string \<Rightarrow> auth_state \<Rightarrow>
   auth_session_response res \<times> auth_state" where
  "login env now ctx access refresh fid email password s =
    (case is_account_locked now email s of
       Inl e \<Rightarrow> (Inl e, s)
     | Inr True \<Rightarrow>
         (Inl (ValueError ''Account is temporarily locked due to too many failed login attempts''),
          audit_event now ctx ''login_failed_locked'' (Some email) None (Some [(''reason'', JStr ''account_locked'')]) s)
     | Inr False \<Rightarrow>
       (case get_by_email email s of
          None \<Rightarrow> login_failed now ctx email s
        | Some u \<Rightarrow>
          if \<not> env_verify env password (u_hashed_password u) then login_failed now ctx email s
          else
           (let s1 = reset_failed_attempts email s in
            case create_family fid email s1 of
              (Inl e, s2) \<Rightarrow> (Inl e, s2)
            | (Inr _, s2) \<Rightarrow>
              (case create_session (env_started env) (env_sha env access) (env_sha env refresh) email fid 0 (now + TOKEN_TTL_SECONDS) s2 of
                 (Inl e, s3) \<Rightarrow> (Inl e, s3)
               | (Inr _, s3) \<Rightarrow>
                 (case user_id_attr u of
                    Inl e \<Rightarrow> (Inl e, s3)
                  | Inr uid \<Rightarrow>
                    (map_sum id (\<lambda>au. \<lparr>ar_access_token = access, ar_refresh_token = refresh, ar_expires_in = 3600,
                                      ar_user = au\<rparr>) (user_orm_to_pydantic u),
                     audit_event now ctx ''login_success'' (Some email) (Some uid) None s3))))))"

definition get_user_for_token :: "auth_env \<Rightarrow> real \<Rightarrow> string \<Rightarrow> auth_state \<Rightarrow> auth_user option res \<times> auth_state" where
  "get_user_for_token env now token s =
    (case get_session (env_sha env token) s of
       None \<Rightarrow> (Inr None, s)
     | Some r \<Rightarrow>
       (case (case s_expires_at r of Aware e \<Rightarrow> dt_less (Naive e) (Naive now)
              | Naive e \<Rightarrow> dt_less (Naive e) (Aware now)) of
          Inl e \<Rightarrow> (Inl e, s)
        | Inr True \<Rightarrow> (Inr None, delete_session (env_sha env token) s)
        | Inr False \<Rightarrow>
          (case get_by_email (s_email r) s of
             None \<Rightarrow> (Inr None, s)
           | Some u \<Rightarrow> (map_sum id Some (user_orm_to_pydantic u), s))))"

text \<open>
  Rotation. \<open>family\<close> is the ORM object that \<open>increment_sequence\<close> updates, so the new session gets the
  incremented sequence plus one. A rotated session is deleted before the user is looked up.
\<close>

definition rotate_session ::
  "auth_env \<Rightarrow> real \<Rightarrow> string option \<Rightarrow> string \<Rightarrow> string \<Rightarrow> session_row \<Rightarrow> string \<Rightarrow> auth_state \<Rightarrow>
   auth_session_response res \<times> auth_state" where
  "rotate_session env now ctx access refresh old fid s =
    (let s1 = increment_sequence fid s; s2 = delete_session (s_access_token old) s1; email = s_email old in
     case get_by_email email s2 of
       None \<Rightarrow> (Inl (ValueError ''User not found''), s2)
     | Some u \<Rightarrow>
       (let seq = (case get_family fid s2 of None \<Rightarrow> 0 | Some f \<Rightarrow> f_current_sequence f) in
        case create_session (env_started env) (env_sha env access) (env_sha env refresh) email fid (seq + 1) (now + TOKEN_TTL_SECONDS) s2 of
          (Inl e, s3) \<Rightarrow> (Inl e, s3)
        | (Inr _, s3) \<Rightarrow>
          (case user_id_attr u of
             Inl e \<Rightarrow> (Inl e, s3)
           | Inr uid \<Rightarrow>
             (map_sum id (\<lambda>au. \<lparr>ar_access_token = access, ar_refresh_token = refresh, ar_expires_in = 3600,
                               ar_user = au\<rparr>) (user_orm_to_pydantic u),
              audit_event now ctx ''refresh'' (Some email) (Some uid)
                (Some [(''family_id'', JStr fid), (''event'', JStr ''token_rotation'')]) s3))))"

definition refresh ::
  "auth_env \<Rightarrow> real \<Rightarrow> string option \<Rightarrow> string \<Rightarrow> string \<Rightarrow> string \<Rightarrow> string \<Rightarrow> auth_state \<Rightarrow>
   auth_session_response res \<times> auth_state" where
  "refresh env now ctx access refresh_new fid_new refresh_token s =
    (case get_session_by_refresh_token (env_sha env refresh_token) s of
       None \<Rightarrow> (Inl (ValueError ''Invalid or expired refresh token''), s)
     | Some old0 \<Rightarrow>
       (let email = s_email old0 in
        case is_account_locked now email s of
          Inl e \<Rightarrow> (Inl e, s)
        | Inr True \<Rightarrow>
            (Inl (ValueError ''Account is temporarily locked''),
             audit_event now ctx ''refresh_failed_locked'' (Some email) None (Some [(''reason'', JStr ''account_locked'')]) s)
        | Inr False \<Rightarrow>
          (let (r, old, fid, s1) =
             (case s_family_id old0 of
                Some f \<Rightarrow> (Inr (), old0, f, s)
              | None \<Rightarrow>
                (let (r, s') = create_family fid_new email s; old = old0\<lparr>s_family_id := Some fid_new, s_sequence := 0\<rparr>
                 in (r, old, fid_new, if isl r then s' else
                      s'\<lparr>as_sessions := upd_where (\<lambda>x. s_access_token x = s_access_token old0) (\<lambda>_. old) (as_sessions s')\<rparr>)))
           in case r of Inl e \<Rightarrow> (Inl e, s1) | Inr _ \<Rightarrow>
             (case get_family fid s1 of
                None \<Rightarrow> (Inl (ValueError ''Invalid token family''), s1)
              | Some family \<Rightarrow>
                if f_compromised family then
                  (Inl (ValueError ''Session family has been compromised''),
                   audit_event now ctx ''refresh_failed_compromised'' (Some email) None
                     (Some [(''family_id'', JStr fid), (''reason'', JStr ''compromised_family'')]) s1)
                else if s_sequence old < f_current_sequence family then
                  (Inl (ValueError ''Refresh token reuse detected. Session family invalidated.''),
                   audit_event now ctx ''refresh_token_reuse'' (Some email) None
                     (Some [(''family_id'', JStr fid), (''sequence'', JInt (s_sequence old)),
                            (''expected'', JInt (f_current_sequence family)), (''reason'', JStr ''token_replay_detected'')])
                     (snd (delete_sessions_by_family fid (compromise_family fid s1))))
                else rotate_session env now ctx access refresh_new old fid s1))))"

definition logout :: "auth_env \<Rightarrow> real \<Rightarrow> string option \<Rightarrow> string \<Rightarrow> auth_state \<Rightarrow> auth_state" where
  "logout env now ctx token s =
    (case get_session (env_sha env token) s of
       None \<Rightarrow> s
     | Some r \<Rightarrow> audit_event now ctx ''logout'' (Some (s_email r)) None None (delete_session (env_sha env token) s))"

record session_info =
  si_access_token_preview :: string
  si_refresh_token_preview :: string
  si_email :: string
  si_expires_at :: datetime
  si_created_at :: real
  si_is_active :: bool

fun session_infos :: "real \<Rightarrow> session_row list \<Rightarrow> session_info list res" where
  "session_infos now [] = Inr []"
| "session_infos now (r # rs) =
    (case dt_less (Naive (dt_secs (s_expires_at r))) (Aware now) of
       Inl e \<Rightarrow> Inl e
     | Inr gone \<Rightarrow>
       map_sum id (\<lambda>l. \<lparr>si_access_token_preview = take 12 (s_access_token r) @ ''...'',
                       si_refresh_token_preview = take 12 (s_refresh_token r) @ ''...'', si_email = s_email r,
                       si_expires_at = s_expires_at r, si_created_at = s_created_at r,
                       si_is_active = (\<not> gone)\<rparr> # l) (session_infos now rs))"

definition get_user_sessions :: "real \<Rightarrow> string \<Rightarrow> auth_state \<Rightarrow> session_info list res" where
  "get_user_sessions now email s = session_infos now (list_sessions_by_email email s)"

definition logout_all_sessions :: "real \<Rightarrow> string option \<Rightarrow> string \<Rightarrow> auth_state \<Rightarrow> nat \<times> auth_state" where
  "logout_all_sessions now ctx email s =
    (let (count, s1) = delete_sessions_by_email email s; s2 = delete_families_by_email email s1
     in (count, audit_event now ctx ''logout_all_sessions'' (Some email) None
                  (Some [(''sessions_invalidated'', JInt (int count))]) s2))"

section \<open>Guards and handlers\<close>

definition get_current_user ::
  "auth_env \<Rightarrow> real \<Rightarrow> string option \<Rightarrow> auth_state \<Rightarrow> auth_user res \<times> auth_state" where
  "get_current_user env now authorization s =
    (case extract_bearer_token authorization of
       Inl e \<Rightarrow> (Inl e, s)
     | Inr token \<Rightarrow>
       (case get_user_for_token env now token s of
          (Inl e, s1) \<Rightarrow> (Inl e, s1)
        | (Inr None, s1) \<Rightarrow> (Inl (HTTPException 401 ''Invalid or expired token''), s1)
        | (Inr (Some u), s1) \<Rightarrow> (Inr u, s1)))"

definition require_role :: "role \<Rightarrow> auth_user res \<Rightarrow> auth_user res" where
  "require_role required r =
    (case r of
       Inl e \<Rightarrow> Inl e
     | Inr u \<Rightarrow> if au_role u \<noteq> required
         then Inl (HTTPException 403 (''Insufficient permissions. Required role: '' @ role_value required)) else Inr u)"

definition get_client_ip :: "nat \<Rightarrow> string option \<Rightarrow> string option \<Rightarrow> string" where
  "get_client_ip trusted forwarded client_host =
    (let direct = (case client_host of None \<Rightarrow> ''unknown'' | Some h \<Rightarrow> h) in
     if trusted > 0 then
       (case forwarded of
          None \<Rightarrow> direct
        | Some f \<Rightarrow> if f = [] then direct
            else (let parts = map strip (split_on (CHR '','') f) in parts ! (length parts - trusted)))
     else direct)"

definition login_handler ::
  "auth_env \<Rightarrow> real \<Rightarrow> string option \<Rightarrow> string \<Rightarrow> string \<Rightarrow> string \<Rightarrow> string \<Rightarrow> string \<Rightarrow> string \<Rightarrow>
   auth_state \<times> (string \<times> real list) list \<Rightarrow> auth_session_response res \<times> auth_state \<times> (string \<times> real list) list" where
  "login_handler env now ctx access refresh_new fid ip email password st =
    (let (s, lim) = st; (ok, lim') = is_allowed 300 10 now (''login_ip_'' @ ip) lim in
     if \<not> ok then
       (Inl (HTTPException 429 ''Too many login attempts from this IP. Please try again later.''), s, lim')
     else (let (r, s') = login env now ctx access refresh_new fid email password s
           in (http_on_ValueError 401 r, s', lim')))"

definition refresh_handler ::
  "auth_env \<Rightarrow> real \<Rightarrow> string option \<Rightarrow> string \<Rightarrow> string \<Rightarrow> string \<Rightarrow> string \<Rightarrow> string \<Rightarrow>
   auth_state \<times> (string \<times> real list) list \<Rightarrow> auth_session_response res \<times> auth_state \<times> (string \<times> real list) list" where
  "refresh_handler env now ctx access refresh_new fid ip token st =
    (let (s, lim) = st; (ok, lim') = is_allowed 300 10 now (''refresh_ip_'' @ ip) lim in
     if \<not> ok then
       (Inl (HTTPException 429 ''Too many refresh attempts from this IP. Please try again later.''), s, lim')
     else (let (r, s') = refresh env now ctx access refresh_new fid token s
           in (http_on_ValueError 401 r, s', lim')))"

definition register_handler ::
  "auth_env \<Rightarrow> real \<Rightarrow> string option \<Rightarrow> string \<Rightarrow> register_request \<Rightarrow> auth_state \<Rightarrow> auth_user res \<times> auth_state" where
  "register_handler env now ctx uid p s = (let (r, s') = register env now ctx uid p s in (http_on_ValueError 400 r, s'))"

definition update_profile_handler ::
  "real \<Rightarrow> string option \<Rightarrow> auth_user \<Rightarrow> string option \<Rightarrow> string option \<Rightarrow> auth_state \<Rightarrow> auth_user res \<times> auth_state" where
  "update_profile_handler now ctx current full_name wallet s =
    (if full_name = None \<and> wallet = None then (Inl (HTTPException 400 ''No updatable fields provided''), s)
     else case update_profile (au_id current) full_name wallet s of
       (None, s1) \<Rightarrow> (Inl (HTTPException 404 ''User not found''), s1)
     | (Some u, s1) \<Rightarrow>
         (user_orm_to_pydantic u,
          audit_event now ctx ''profile_updated'' (Some (au_email current)) None
            (Some [(''changed_fields'', JArr ((if full_name \<noteq> None then [JStr ''full_name''] else [])
               @ (if wallet \<noteq> None then [JStr ''stellar_wallet''] else [])))]) s1))"

section \<open>Laws\<close>

inductive auth_step :: "auth_state \<Rightarrow> auth_state \<Rightarrow> bool" where
  st_register: "auth_step s (snd (register env now ctx uid p s))"
| st_login: "auth_step s (snd (login env now ctx access rt fid email password s))"
| st_token: "auth_step s (snd (get_user_for_token env now token s))"
| st_refresh: "auth_step s (snd (refresh env now ctx access rt fid token s))"
| st_logout: "auth_step s (logout env now ctx token s)"
| st_logout_all: "auth_step s (snd (logout_all_sessions now ctx email s))"
| st_profile: "auth_step s (snd (update_profile uid full_name wallet s))"

definition auth_init :: auth_state where
  "auth_init = \<lparr>as_users = [], as_sessions = [], as_families = [], as_audit = []\<rparr>"

lemma audit_event_tables [simp]:
  "as_users (audit_event now ctx ev em ac d s) = as_users s" "as_sessions (audit_event now ctx ev em ac d s) = as_sessions s"
  "as_families (audit_event now ctx ev em ac d s) = as_families s"
  by (simp_all add: audit_event_def)

lemma upd_user_tables [simp]:
  "as_sessions (upd_user email f s) = as_sessions s" "as_families (upd_user email f s) = as_families s"
  by (simp_all add: upd_user_def)

lemma login_failed_tables [simp]:
  "as_sessions (snd (login_failed now ctx email s)) = as_sessions s"
  "as_families (snd (login_failed now ctx email s)) = as_families s"
  by (simp_all add: login_failed_def increment_failed_attempts_def lock_account_def user_id_attr_def Let_def
      split: option.splits)

text \<open>Sessions and families: one live session per family, never behind its family, no family compromised.\<close>

definition owned :: "family_row list \<Rightarrow> session_row \<Rightarrow> bool" where
  "owned fs r \<longleftrightarrow> (\<exists>f\<in>set fs. s_family_id r = Some (f_family_id f) \<and> f_email f = s_email r
     \<and> f_current_sequence f \<le> s_sequence r)"

definition family_inv :: "session_row list \<Rightarrow> family_row list \<Rightarrow> bool" where
  "family_inv ss fs \<longleftrightarrow> distinct (map f_family_id fs) \<and> distinct (map s_family_id ss)
     \<and> (\<forall>f\<in>set fs. \<not> f_compromised f) \<and> (\<forall>r\<in>set ss. owned fs r)"

definition session_inv :: "auth_state \<Rightarrow> bool" where
  "session_inv s \<longleftrightarrow> family_inv (as_sessions s) (as_families s)"

lemma family_inv_filter: "family_inv ss fs \<Longrightarrow> family_inv (filter P ss) fs"
  by (auto simp: family_inv_def distinct_map inj_on_def)

lemma family_inv_drop_email:
  "family_inv ss fs \<Longrightarrow> family_inv (del_where (\<lambda>r. s_email r = e) ss) (del_where (\<lambda>f. f_email f = e) fs)"
  by (fastforce simp: family_inv_def owned_def del_where_def distinct_map inj_on_def)

lemma family_inv_login:
  assumes "family_inv ss fs" "fid \<notin> f_family_id ` set fs" "s_family_id r = Some fid" "s_sequence r = 0" "s_email r = e"
  shows "family_inv (ss @ [r]) (fs @ [\<lparr>f_family_id = fid, f_email = e, f_current_sequence = 0, f_compromised = False\<rparr>])"
    "family_inv ss (fs @ [\<lparr>f_family_id = fid, f_email = e, f_current_sequence = 0, f_compromised = False\<rparr>])"
proof -
  have "s_family_id x \<noteq> Some fid" if "x \<in> set ss" for x
  proof -
    have "owned fs x" using assms(1) that by (simp add: family_inv_def)
    then show ?thesis using assms(2) by (auto simp: owned_def)
  qed
  then show "family_inv (ss @ [r]) (fs @ [\<lparr>f_family_id = fid, f_email = e, f_current_sequence = 0, f_compromised = False\<rparr>])"
    "family_inv ss (fs @ [\<lparr>f_family_id = fid, f_email = e, f_current_sequence = 0, f_compromised = False\<rparr>])"
    using assms by (auto simp: family_inv_def owned_def)
qed

lemma family_inv_rotate:
  assumes inv: "family_inv ss fs" and old: "old \<in> set ss" "s_family_id old = Some fid"
    and ss': "set ss' \<subseteq> set ss - {old}" "distinct (map s_family_id ss')"
    and fs': "fs' = upd_where (\<lambda>f. f_family_id f = fid) (\<lambda>f. f\<lparr>f_current_sequence := f_current_sequence f + 1\<rparr>) fs"
  shows "family_inv ss' fs'"
    "f \<in> set fs' \<Longrightarrow> f_family_id f = fid \<Longrightarrow> s_family_id r = Some fid \<Longrightarrow> s_email r = s_email old \<Longrightarrow>
       f_current_sequence f \<le> s_sequence r \<Longrightarrow> family_inv (ss' @ [r]) fs'"
proof -
  have inj: "inj_on s_family_id (set ss)" using inv by (simp add: family_inv_def distinct_map)
  have others: "s_family_id x \<noteq> Some fid" if "x \<in> set ss'" for x
  proof -
    have "x \<in> set ss" "x \<noteq> old" using that ss' by auto
    then show ?thesis using inj_onD [OF inj, of x old] old by auto
  qed
  have ids: "map f_family_id fs' = map f_family_id fs" unfolding fs' by (rule map_upd_where) simp
  have "owned fs' x" if "x \<in> set ss'" for x
  proof -
    have "owned fs x" using inv ss'(1) that by (auto simp: family_inv_def)
    then obtain g where g: "g \<in> set fs" "s_family_id x = Some (f_family_id g)" "f_email g = s_email x"
        "f_current_sequence g \<le> s_sequence x"
      by (auto simp: owned_def)
    then have "g \<in> set fs'" using others [OF that] by (auto simp: fs' set_upd_where)
    with g show ?thesis by (auto simp: owned_def)
  qed
  moreover have "\<forall>f\<in>set fs'. \<not> f_compromised f" using inv by (auto simp: family_inv_def fs' set_upd_where)
  ultimately show inv': "family_inv ss' fs'" using inv ids ss'(2) by (simp add: family_inv_def)
  assume f: "f \<in> set fs'" "f_family_id f = fid" "s_family_id r = Some fid" "s_email r = s_email old"
    "f_current_sequence f \<le> s_sequence r"
  have "f_email f = s_email old"
  proof -
    have "owned fs old" using inv old(1) by (simp add: family_inv_def)
    then obtain g where g: "g \<in> set fs" "f_family_id g = fid" "f_email g = s_email old"
      using old(2) by (auto simp: owned_def)
    obtain f0 where f0: "f0 \<in> set fs" "f_family_id f0 = fid" "f_email f = f_email f0"
    proof -
      let ?k = "\<lambda>f. (f_family_id f, f_email f)"
      have "map ?k fs' = map ?k fs" unfolding fs' by (rule map_upd_where) simp
      then have "?k ` set fs' = ?k ` set fs" by (metis set_map)
      moreover have "?k f \<in> ?k ` set fs'" using f(1) by (rule imageI)
      ultimately obtain f0 where "f0 \<in> set fs" "?k f = ?k f0" by blast
      then show thesis using f(2) by (intro that [of f0]) simp_all
    qed
    have "inj_on f_family_id (set fs)" using inv by (simp add: family_inv_def distinct_map)
    then have "f0 = g" using f0 g by (auto dest: inj_onD)
    with g f0 show ?thesis by simp
  qed
  with f have "owned fs' r" by (auto simp: owned_def)
  moreover have "s_family_id r \<notin> s_family_id ` set ss'" using others f(3) by (metis imageE)
  ultimately show "family_inv (ss' @ [r]) fs'" using inv' by (auto simp: family_inv_def)
qed

lemma delete_session_inv: "session_inv s \<Longrightarrow> session_inv (delete_session a s)"
  by (simp add: session_inv_def delete_session_def del_where_def family_inv_filter)

lemma login_inv:
  assumes "session_inv s"
  shows "session_inv (snd (login env now ctx access rt fid email password s))"
proof -
  let ?f = "\<lparr>f_family_id = fid, f_email = email, f_current_sequence = 0, f_compromised = False\<rparr>"
  let ?r = "\<lparr>s_access_token = env_sha env access, s_refresh_token = env_sha env rt, s_email = email,
      s_family_id = Some fid, s_sequence = 0, s_expires_at = Aware (now + TOKEN_TTL_SECONDS), s_created_at = env_started env\<rparr>"
  have new: "family_inv (as_sessions s @ [?r]) (as_families s @ [?f])" "family_inv (as_sessions s) (as_families s @ [?f])"
    if "\<not> list_ex (\<lambda>f. f_family_id f = fid) (as_families s)"
    using family_inv_login [of "as_sessions s" "as_families s" fid ?r email] assms that
    by (auto simp: session_inv_def list_ex_iff)
  show ?thesis
    using assms new
    by (auto simp: login_def create_family_def create_session_def user_id_attr_def session_inv_def Let_def
        reset_failed_attempts_def split: sum.splits bool.splits option.splits)
qed

lemma rotate_inv:
  assumes inv: "session_inv s" and old: "old \<in> set (as_sessions s)" "s_family_id old = Some fid"
  shows "session_inv (snd (rotate_session env now ctx access rt old fid s))"
proof -
  let ?fs = "upd_where (\<lambda>f. f_family_id f = fid) (\<lambda>f. f\<lparr>f_current_sequence := f_current_sequence f + 1\<rparr>) (as_families s)"
  let ?ss = "del_where (\<lambda>r. s_access_token r = s_access_token old) (as_sessions s)"
  let ?s2 = "delete_session (s_access_token old) (increment_sequence fid s)"
  have s2: "as_sessions ?s2 = ?ss" "as_families ?s2 = ?fs"
    by (simp_all add: delete_session_def increment_sequence_def upd_family_def)
  have ss: "set ?ss \<subseteq> set (as_sessions s) - {old}" "distinct (map s_family_id ?ss)"
    using inv family_inv_filter by (auto simp: del_where_def session_inv_def family_inv_def distinct_map inj_on_def)
  note rot = family_inv_rotate [OF inv [unfolded session_inv_def] old ss refl]
  obtain f where f: "get_family fid ?s2 = Some f"
  proof -
    have "owned (as_families s) old" using inv old(1) by (simp add: session_inv_def family_inv_def)
    then have "find (\<lambda>f. f_family_id f = fid) (as_families s) \<noteq> None"
      using old(2) by (auto simp: owned_def find_None_iff)
    then have "get_family fid ?s2 \<noteq> None"
      by (simp add: get_family_def s2 find_upd_where_key [where key = f_family_id])
    then show thesis using that by blast
  qed
  have mem: "f \<in> set ?fs" "f_family_id f = fid"
    using find_SomeD [OF f [unfolded get_family_def]] by (simp_all add: s2)
  have new: "family_inv (?ss @ [r]) ?fs"
    if "s_family_id r = Some fid" "s_email r = s_email old" "s_sequence r = f_current_sequence f + 1" for r
    using rot(2) [OF mem, of r] that by simp
  show ?thesis
    using rot(1) new f s2
    by (auto simp: rotate_session_def create_session_def user_id_attr_def session_inv_def Let_def split: option.splits)
qed

lemma is_account_locked_raises: "is_account_locked now email s = Inl e \<Longrightarrow> e = TypeError"
  by (auto simp: is_account_locked_def elim: dt_less.elims split: option.splits)

lemma refresh_inv:
  assumes "session_inv s"
  shows "session_inv (snd (refresh env now ctx access rt fid token s))"
    "fst (refresh env now ctx access rt fid token s)
       \<noteq> Inl (ValueError ''Refresh token reuse detected. Session family invalidated.'')"
proof -
  have "session_inv (snd (refresh env now ctx access rt fid token s)) \<and> fst (refresh env now ctx access rt fid token s)
       \<noteq> Inl (ValueError ''Refresh token reuse detected. Session family invalidated.'')"
  proof (cases "get_session_by_refresh_token (env_sha env token) s")
    case None
    then show ?thesis using assms by (simp add: refresh_def)
  next
    case (Some old)
    then have old: "old \<in> set (as_sessions s)" using find_SomeD by (fastforce simp: get_session_by_refresh_token_def)
    then have "owned (as_families s) old" using assms by (simp add: session_inv_def family_inv_def)
    then obtain f where f: "f \<in> set (as_families s)" "s_family_id old = Some (f_family_id f)"
        "f_current_sequence f \<le> s_sequence old" by (auto simp: owned_def)
    have dist: "distinct (map f_family_id (as_families s))" using assms by (simp add: session_inv_def family_inv_def)
    have fam: "get_family (f_family_id f) s = Some f"
      unfolding get_family_def by (rule find_distinct_key [OF dist f(1)])
    have clean: "\<not> f_compromised f" using assms f(1) by (auto simp: session_inv_def family_inv_def)
    note rot = rotate_inv [OF assms old f(2), of env now ctx access rt]
    have "fst (rotate_session env now ctx access rt old (f_family_id f) s)
       \<noteq> Inl (ValueError ''Refresh token reuse detected. Session family invalidated.'')"
      by (auto simp: rotate_session_def create_session_def user_id_attr_def Let_def split: option.splits)
    with rot show ?thesis
      using Some f fam clean assms
      by (auto simp: refresh_def session_inv_def Let_def dest: is_account_locked_raises split: sum.splits bool.splits)
  qed
  then show "session_inv (snd (refresh env now ctx access rt fid token s))"
    "fst (refresh env now ctx access rt fid token s)
       \<noteq> Inl (ValueError ''Refresh token reuse detected. Session family invalidated.'')" by simp_all
qed

lemma auth_step_inv: "auth_step s t \<Longrightarrow> session_inv s \<Longrightarrow> session_inv t"
proof (induction rule: auth_step.induct)
  case (st_register s env now ctx uid p)
  then show ?case by (auto simp: register_def create_user_def session_inv_def Let_def)
next
  case (st_token s env now token)
  then show ?case
    by (auto simp: get_user_for_token_def delete_session_inv split: option.splits sum.splits bool.splits)
next
  case (st_logout s env now ctx token)
  then show ?case using delete_session_inv [of s "env_sha env token"]
    by (auto simp: logout_def session_inv_def split: option.splits)
next
  case (st_logout_all s now ctx email)
  then show ?case
    by (simp add: logout_all_sessions_def delete_sessions_by_email_def delete_families_by_email_def
        session_inv_def family_inv_drop_email)
next
  case (st_profile s uid full_name wallet)
  then show ?case by (auto simp: update_profile_def session_inv_def Let_def split: option.splits)
qed (simp_all add: login_inv refresh_inv)

interpretation sessions: step_system auth_step session_inv
  by unfold_locales (rule auth_step_inv)

lemma auth_steps_inv: "auth_step\<^sup>*\<^sup>* auth_init s \<Longrightarrow> session_inv s"
  by (erule sessions.history_inv) (simp add: auth_init_def session_inv_def family_inv_def)

text \<open>Users: emails are unique and a lock is an aware instant.\<close>

definition users_inv :: "auth_state \<Rightarrow> bool" where
  "users_inv s \<longleftrightarrow> distinct (map u_email (as_users s)) \<and> distinct (map u_id (as_users s))
     \<and> (\<forall>u\<in>set (as_users s). \<forall>t. u_locked_until u = Some t \<longrightarrow> t = Aware (dt_secs t))"

definition locked :: "string \<Rightarrow> auth_state \<Rightarrow> bool" where
  "locked email s \<longleftrightarrow> (\<exists>u\<in>set (as_users s). u_email u = email \<and> u_locked_until u \<noteq> None)"

text \<open>A change of the user table that keeps keys and only sets locks to aware instants.\<close>

lemma users_inv_upd:
  assumes "users_inv s" "\<And>u. u_email (f u) = u_email u" "\<And>u. u_id (f u) = u_id u"
    "\<And>u. u_locked_until (f u) \<in> {u_locked_until u, None} \<or> (\<exists>x. u_locked_until (f u) = Some (Aware x))"
  shows "users_inv (upd_user email f s)"
proof -
  have "t = Aware (dt_secs t)" if "u \<in> set (as_users s)" "u_locked_until (f u) = Some t" for u t
    using assms(1) assms(4) [of u] that by (auto simp: users_inv_def)
  then show ?thesis
    using assms by (auto simp: users_inv_def upd_user_def map_upd_where set_upd_where)
qed

lemma locked_upd:
  assumes "locked email s" "\<And>u. u_email (f u) = u_email u" "\<And>u. u_locked_until u \<noteq> None \<Longrightarrow> u_locked_until (f u) \<noteq> None"
  shows "locked email (upd_user email' f s)"
proof -
  obtain u where u: "u \<in> set (as_users s)" "u_email u = email" "u_locked_until u \<noteq> None" using assms(1) by (auto simp: locked_def)
  let ?v = "if u_email u = email' then f u else u"
  have "?v \<in> set (as_users (upd_user email' f s))" using u(1) by (auto simp: upd_user_def set_upd_where)
  moreover have "u_email ?v = email" "u_locked_until ?v \<noteq> None" using u assms(2) assms(3) [OF u(3)] by auto
  ultimately show ?thesis unfolding locked_def by blast
qed

lemma login_failed_users:
  assumes "users_inv s"
  shows "users_inv (snd (login_failed now ctx e s))" "locked email s \<Longrightarrow> locked email (snd (login_failed now ctx e s))"
proof -
  have i: "users_inv (increment_failed_attempts e s)"
    unfolding increment_failed_attempts_def by (rule users_inv_upd [OF assms]) auto
  then have l: "users_inv (lock_account e t (increment_failed_attempts e s))" for t
    unfolding lock_account_def by (rule users_inv_upd) auto
  show "users_inv (snd (login_failed now ctx e s))"
    using i l by (auto simp: login_failed_def user_id_attr_def Let_def users_inv_def split: option.splits)
  assume "locked email s"
  then have i: "locked email (increment_failed_attempts e s)"
    unfolding increment_failed_attempts_def by (rule locked_upd) auto
  then have l: "locked email (lock_account e t (increment_failed_attempts e s))" for t
    unfolding lock_account_def by (rule locked_upd) auto
  show "locked email (snd (login_failed now ctx e s))"
    using i l by (auto simp: login_failed_def user_id_attr_def Let_def locked_def split: option.splits)
qed

lemma locked_raises:
  assumes "users_inv s" "locked email s"
  shows "is_account_locked now email s = Inl TypeError"
proof -
  obtain u t where m: "u \<in> set (as_users s)" "u_email u = email" "u_locked_until u = Some t"
    using assms(2) by (auto simp: locked_def)
  then have u: "get_by_email email s = Some u" "u_locked_until u = Some t"
    using find_distinct_key [of u_email "as_users s" u] assms(1) by (auto simp: get_by_email_def users_inv_def)
  have "t = Aware (dt_secs t)" using assms(1) m by (auto simp: users_inv_def)
  then have "dt_less (Naive now) t = Inl TypeError" by (cases t) simp_all
  then show ?thesis using u by (simp add: is_account_locked_def)
qed

lemma users_cong:
  "as_users t = as_users s \<Longrightarrow> users_inv s \<Longrightarrow> users_inv t"
  "as_users t = as_users s \<Longrightarrow> locked email s \<Longrightarrow> locked email t"
  by (simp_all add: users_inv_def locked_def)

lemma create_tables_users [simp]:
  "as_users (snd (create_family fid e s)) = as_users s" "as_users (snd (create_session now a r e fid q x s)) = as_users s"
  "as_users (delete_session a s) = as_users s" "as_users (increment_sequence fid s) = as_users s"
  "as_users (compromise_family fid s) = as_users s" "as_users (snd (delete_sessions_by_family fid s)) = as_users s"
  by (simp_all add: create_family_def create_session_def delete_session_def increment_sequence_def
      compromise_family_def upd_family_def delete_sessions_by_family_def Let_def)

lemma refresh_users: "as_users (snd (refresh env now ctx access rt fid token s)) = as_users s"
proof -
  have "as_users (snd (rotate_session env now ctx access rt old f s')) = as_users s'" for old f s'
    by (simp add: rotate_session_def Let_def case_prod_beta split: option.split sum.split)
  note [simp] = this
  show ?thesis
  proof (cases "get_session_by_refresh_token (env_sha env token) s")
    case (Some old)
    show ?thesis
    proof (cases "is_account_locked now (s_email old) s")
      case (Inr b)
      note eq = refresh_def Let_def case_prod_beta Some Inr
      show ?thesis
        by (cases b; cases "s_family_id old"; cases "fst (create_family fid (s_email old) s)")
           (simp_all add: eq split: option.split)
    qed (simp add: refresh_def Some)
  qed (simp add: refresh_def)
qed

lemma login_users:
  assumes "users_inv s"
  shows "users_inv (snd (login env now ctx access rt fid e pw s))"
    "locked email s \<Longrightarrow> locked email (snd (login env now ctx access rt fid e pw s))"
proof -
  have r: "users_inv (reset_failed_attempts e s)"
    unfolding reset_failed_attempts_def by (rule users_inv_upd [OF assms]) auto
  have cases: "snd (login env now ctx access rt fid e pw s) = snd (login_failed now ctx e s)
      \<or> as_users (snd (login env now ctx access rt fid e pw s)) = as_users s
      \<or> (as_users (snd (login env now ctx access rt fid e pw s)) = as_users (reset_failed_attempts e s)
          \<and> is_account_locked now e s = Inr False)"
    by (auto simp: login_def create_family_def create_session_def user_id_attr_def Let_def
        split: sum.splits bool.splits option.splits)
  then show "users_inv (snd (login env now ctx access rt fid e pw s))"
    using login_failed_users(1) [OF assms] by (elim disjE conjE) (simp, erule users_cong, rule assms, erule users_cong, rule r)
  assume l: "locked email s"
  have "locked email (reset_failed_attempts e s)" if "is_account_locked now e s = Inr False"
  proof -
    have "e \<noteq> email" using locked_raises [OF assms l, of now] that by auto
    then show ?thesis using l
      by (auto simp: locked_def reset_failed_attempts_def upd_user_def set_upd_where)
  qed
  with cases show "locked email (snd (login env now ctx access rt fid e pw s))"
    using login_failed_users(2) [OF assms l]
    by (elim disjE conjE) (simp, erule users_cong, rule l, erule users_cong, simp)
qed

lemma update_profile_users:
  assumes "users_inv s"
  shows "users_inv (snd (update_profile uid full_name wallet s))"
    "locked email s \<Longrightarrow> locked email (snd (update_profile uid full_name wallet s))"
proof -
  have *: "users_inv (snd (update_profile uid full_name wallet s))
    \<and> (locked email s \<longrightarrow> locked email (snd (update_profile uid full_name wallet s)))"
  proof (cases "get_by_id uid s")
    case (Some u)
    obtain u' where u': "snd (update_profile uid full_name wallet s) =
        s\<lparr>as_users := upd_where (\<lambda>x. u_id x = uid) (\<lambda>_. u') (as_users s)\<rparr>"
      "u_id u' = u_id u" "u_email u' = u_email u" "u_locked_until u' = u_locked_until u"
      by (simp add: update_profile_def Some Let_def)
    note find = Some [unfolded get_by_id_def]
    have ids: "distinct (map u_id (as_users s))" using assms by (simp add: users_inv_def)
    have same: "map f (upd_where (\<lambda>x. u_id x = uid) (\<lambda>_. u') (as_users s)) = map f (as_users s)"
      if "f u' = f u" for f :: "user_row \<Rightarrow> 'x"
      by (rule map_set_row_field [OF ids find that])
    let ?k = "\<lambda>x. (u_email x, u_locked_until x)"
    let ?us = "upd_where (\<lambda>x. u_id x = uid) (\<lambda>_. u') (as_users s)"
    have k: "map ?k ?us = map ?k (as_users s)" by (rule same) (simp add: u')
    have lk: "locked email x \<longleftrightarrow> list_ex (\<lambda>p. fst p = email \<and> snd p \<noteq> None) (map ?k (as_users x))" for x
      by (auto simp: locked_def list_ex_iff)
    have us: "as_users (s\<lparr>as_users := ?us\<rparr>) = ?us" by simp
    have "locked email (snd (update_profile uid full_name wallet s)) = locked email s" by (simp only: u'(1) lk us k)
    moreover have "users_inv (snd (update_profile uid full_name wallet s))"
      using assms same [of u_email] same [of u_id] u' find_SomeD [OF find] set_set_row [of u_id uid u' "as_users s"]
      by (auto simp: users_inv_def)
    ultimately show ?thesis by simp
  qed (use assms in \<open>simp add: update_profile_def\<close>)
  then show "users_inv (snd (update_profile uid full_name wallet s))"
    "locked email s \<Longrightarrow> locked email (snd (update_profile uid full_name wallet s))" by simp_all
qed

lemma auth_step_users:
  assumes "auth_step s t" "users_inv s"
  shows "users_inv t \<and> (locked email s \<longrightarrow> locked email t)"
  using assms
proof (induction rule: auth_step.induct)
  case (st_register s env now ctx uid p)
  then show ?case
    by (auto simp: register_def create_user_def users_inv_def locked_def list_ex_iff Let_def)
next
  case (st_login s env now ctx access rt fid e pw)
  then show ?case using login_users by blast
next
  case (st_token s env now token)
  have "as_users (snd (get_user_for_token env now token s)) = as_users s"
    by (simp add: get_user_for_token_def split: option.split sum.split bool.split)
  with st_token show ?case using users_cong by blast
next
  case (st_refresh s env now ctx access rt fid token)
  then show ?case using users_cong [OF refresh_users] by blast
next
  case (st_logout s env now ctx token)
  have "as_users (logout env now ctx token s) = as_users s" by (simp add: logout_def split: option.split)
  with st_logout show ?case using users_cong by blast
next
  case (st_logout_all s now ctx e)
  have "as_users (snd (logout_all_sessions now ctx e s)) = as_users s"
    by (simp add: logout_all_sessions_def delete_sessions_by_email_def delete_families_by_email_def)
  with st_logout_all show ?case using users_cong by blast
next
  case (st_profile s uid full_name wallet)
  then show ?case using update_profile_users by blast
qed

interpretation users: growing_system auth_step users_inv "\<lambda>s t. \<forall>email. locked email s \<longrightarrow> locked email t"
  by unfold_locales (use auth_step_users in blast)+

lemma auth_steps_users:
  "auth_step\<^sup>*\<^sup>* s t \<Longrightarrow> users_inv s \<Longrightarrow> users_inv t \<and> (locked email s \<longrightarrow> locked email t)"
  using users.history_keeps by blast

lemma auth_init_users: "users_inv auth_init"
  by (simp add: auth_init_def users_inv_def)

section \<open>Properties\<close>

text \<open>
  Login never returns tokens. With correct credentials on an unlocked account and fresh identifiers it
  resets the failure counter and stores a family and a session for the hashed token, then raises
  \<open>AttributeError\<close> on \<open>stored_user.user_id\<close>, so the caller gets an error and the session stays behind.
\<close>

theorem login_never_returns:
  assumes "get_by_email email s = Some u" "u_locked_until u = None" "env_verify env password (u_hashed_password u)"
    and "\<not> list_ex (\<lambda>f. f_family_id f = fid) (as_families s)"
    and "\<not> list_ex (\<lambda>r. s_access_token r = env_sha env access \<or> s_refresh_token r = env_sha env rt) (as_sessions s)"
  shows "fst (login env now ctx access rt fid email password s) = Inl (AttributeError ''user_id'')
    \<and> (\<exists>r. get_session (env_sha env access) (snd (login env now ctx access rt fid email password s)) = Some r
          \<and> s_email r = email \<and> s_expires_at r = Aware (now + 3600))
    \<and> (\<forall>e p s0. isl (fst (login env now ctx access rt fid e p s0)))"
proof (intro conjI allI)
  have lock: "is_account_locked now email s = Inr False" using assms(1,2) by (simp add: is_account_locked_def)
  show "fst (login env now ctx access rt fid email password s) = Inl (AttributeError ''user_id'')"
    using assms lock by (simp add: login_def create_family_def create_session_def user_id_attr_def Let_def
        reset_failed_attempts_def)
  have "find (\<lambda>r. s_access_token r = env_sha env access) (as_sessions s) = None"
    using assms(5) by (auto simp: find_None_iff list_ex_iff)
  then show "\<exists>r. get_session (env_sha env access) (snd (login env now ctx access rt fid email password s)) = Some r
      \<and> s_email r = email \<and> s_expires_at r = Aware (now + 3600)"
    using assms lock
    by (simp add: login_def create_family_def create_session_def user_id_attr_def Let_def get_session_def
        reset_failed_attempts_def find_append TOKEN_TTL_SECONDS_def)
  fix e p s0
  show "isl (fst (login env now ctx access rt fid e p s0))"
    by (simp add: login_def login_failed_def create_family_def create_session_def user_id_attr_def Let_def
        split: sum.split bool.split option.split)
qed

definition sample_auth_env :: auth_env where
  "sample_auth_env = \<lparr>env_verify = (\<lambda>p h. p = h), env_hash = (\<lambda>p. p), env_sha = (\<lambda>t. t), env_started = 0\<rparr>"

definition sample_user :: user_row where
  "sample_user = \<lparr>u_id = ''u1'', u_email = ''e'', u_hashed_password = ''Passw0rd!'', u_full_name = None,
     u_role = ''engineer'', u_stellar_wallet = None, u_created_at = 0, u_failed_login_attempts = 0,
     u_locked_until = None\<rparr>"

theorem login_never_returns_witness:
  "fst (login sample_auth_env 10 None ''atk'' ''rtk'' ''fam'' ''e'' ''Passw0rd!'' (auth_init\<lparr>as_users := [sample_user]\<rparr>))
    = Inl (AttributeError ''user_id'')"
  using login_never_returns [of "''e''" "auth_init\<lparr>as_users := [sample_user]\<rparr>" sample_user sample_auth_env "''Passw0rd!''"
      "''fam''" "''atk''" "''rtk''" 10 None]
  by (simp add: get_by_email_def sample_user_def sample_auth_env_def auth_init_def)

text \<open>
  A locked account stays locked: once \<open>locked_until\<close> is set, no sequence of operations clears it, and
  every login for that email raises \<open>TypeError\<close> at any later time, because the stored instant is aware and
  \<open>utcnow()\<close> is naive.
\<close>

theorem lockout_is_permanent:
  assumes "auth_step\<^sup>*\<^sup>* auth_init s" "locked email s" "auth_step\<^sup>*\<^sup>* s s'"
  shows "locked email s' \<and> login env now ctx access rt fid email password s' = (Inl TypeError, s')"
proof -
  have "users_inv s" using auth_steps_users [OF assms(1) auth_init_users] by simp
  then have "users_inv s'" "locked email s'" using auth_steps_users [OF assms(3)] assms(2) by blast+
  then show ?thesis using locked_raises [of s' email now] by (simp add: login_def)
qed

definition sample_registered :: auth_state where
  "sample_registered = snd (register sample_auth_env 1 None ''u1''
     \<lparr>rr_email = ''e'', rr_password = ''Passw0rd!'', rr_full_name = ''n'', rr_role = Role_engineer\<rparr> auth_init)"

definition bad_login :: "auth_state \<Rightarrow> auth_state" where
  "bad_login s = snd (login sample_auth_env 10 None ''a'' ''r'' ''f'' ''e'' ''bad'' s)"

lemma bad_logins_reachable: "auth_step\<^sup>*\<^sup>* auth_init ((bad_login ^^ n) sample_registered)"
proof (induction n)
  case 0
  show ?case unfolding sample_registered_def
    by (simp add: r_into_rtranclp [where r = auth_step, OF st_register])
next
  case (Suc n)
  have "auth_step ((bad_login ^^ n) sample_registered) (bad_login ((bad_login ^^ n) sample_registered))"
    unfolding bad_login_def by (rule st_login)
  with Suc show ?case by (simp add: rtranclp.rtrancl_into_rtrancl)
qed

lemma five_bad_logins_lock: "locked ''e'' ((bad_login ^^ 5) sample_registered)"
  by (simp add: numeral_eq_Suc locked_def bad_login_def sample_registered_def register_def get_by_email_def auth_init_def
      validate_password_policy_def is_lower_def is_upper_def is_digit_def create_user_def sample_auth_env_def Let_def
      login_def is_account_locked_def login_failed_def increment_failed_attempts_def upd_user_def upd_where_def
      AUTH_MAX_FAILED_ATTEMPTS_def user_id_attr_def lock_account_def audit_event_def)

theorem lockout_is_permanent_witness:
  "login sample_auth_env 9000 None ''a'' ''r'' ''f'' ''e'' ''Passw0rd!'' ((bad_login ^^ 5) sample_registered)
    = (Inl TypeError, (bad_login ^^ 5) sample_registered)"
  using lockout_is_permanent [OF bad_logins_reachable five_bad_logins_lock rtranclp.rtrancl_refl] by blast



text \<open>
  C14. Bearer tokens: a user is returned only for a stored, unexpired session of an existing account with a
  valid role; after \<open>logout_all_sessions\<close> no token authenticates as that email.
\<close>

theorem token_sound_and_revocable:
  "(fst (get_user_for_token env now token s) = Inr (Some au) \<longrightarrow>
      (\<exists>r u x. get_session (env_sha env token) s = Some r \<and> get_by_email (s_email r) s = Some u
         \<and> s_expires_at r = Aware x \<and> now \<le> x \<and> user_orm_to_pydantic u = Inr au \<and> au_email au = s_email r))
   \<and> (fst (get_user_for_token env now' token' (snd (logout_all_sessions t ctx email s))) = Inr (Some au') \<longrightarrow>
        au_email au' \<noteq> email)"
proof -
  have sound: "\<exists>r u x. get_session (env_sha env token) s = Some r \<and> get_by_email (s_email r) s = Some u
      \<and> s_expires_at r = Aware x \<and> now \<le> x \<and> user_orm_to_pydantic u = Inr au \<and> au_email au = s_email r"
    if got: "fst (get_user_for_token env now token s) = Inr (Some au)" for env now token s au
  proof -
    obtain r where r: "get_session (env_sha env token) s = Some r"
      using got by (cases "get_session (env_sha env token) s") (auto simp: get_user_for_token_def)
    obtain x where x: "s_expires_at r = Aware x" "now \<le> x"
      using got r by (cases "s_expires_at r") (auto simp: get_user_for_token_def split: bool.splits)
    obtain u where u: "get_by_email (s_email r) s = Some u"
      using got r x by (auto simp: get_user_for_token_def split: option.splits bool.splits)
    have conv: "user_orm_to_pydantic u = Inr au"
      using got r x u by (cases "user_orm_to_pydantic u") (auto simp: get_user_for_token_def split: bool.splits)
    then have "au_email au = u_email u" by (auto simp: user_orm_to_pydantic_def split: option.splits)
    moreover have "u_email u = s_email r" using u unfolding get_by_email_def by (rule find_Some_key)
    ultimately show ?thesis using r x u conv by simp
  qed
  have "au_email au' \<noteq> email"
    if got: "fst (get_user_for_token env now' token' (snd (logout_all_sessions t ctx email s))) = Inr (Some au')"
  proof -
    obtain r where r: "get_session (env_sha env token') (snd (logout_all_sessions t ctx email s)) = Some r"
      "au_email au' = s_email r" using sound [OF got] by blast
    have "r \<in> set (as_sessions (snd (logout_all_sessions t ctx email s)))"
      using find_SomeD [OF r(1) [unfolded get_session_def]] by simp
    then have "s_email r \<noteq> email"
      by (simp add: logout_all_sessions_def delete_sessions_by_email_def delete_families_by_email_def del_where_def)
    with r(2) show ?thesis by simp
  qed
  with sound show ?thesis by blast
qed

definition sample_session :: session_row where
  "sample_session = \<lparr>s_access_token = ''atk'', s_refresh_token = ''rtk'', s_email = ''e'', s_family_id = Some ''f'',
     s_sequence = 0, s_expires_at = Aware 100, s_created_at = 0\<rparr>"

theorem token_sound_and_revocable_witness:
  "\<exists>au. fst (get_user_for_token sample_auth_env 50 ''atk'' (auth_init\<lparr>as_users := [sample_user], as_sessions := [sample_session]\<rparr>))
      = Inr (Some au) \<and> au_email au = ''e''"
proof -
  let ?s = "auth_init\<lparr>as_users := [sample_user], as_sessions := [sample_session]\<rparr>"
  have "\<exists>au. fst (get_user_for_token sample_auth_env 50 ''atk'' ?s) = Inr (Some au)"
    by (simp add: get_user_for_token_def get_session_def get_by_email_def sample_session_def sample_user_def
        sample_auth_env_def user_orm_to_pydantic_def Role_def)
  then obtain au where au: "fst (get_user_for_token sample_auth_env 50 ''atk'' ?s) = Inr (Some au)" ..
  have "get_session (env_sha sample_auth_env ''atk'') ?s = Some sample_session"
    by (simp add: get_session_def sample_session_def sample_auth_env_def)
  moreover have "\<exists>r. get_session (env_sha sample_auth_env ''atk'') ?s = Some r \<and> au_email au = s_email r"
    using token_sound_and_revocable [of sample_auth_env 50 "''atk''" ?s au] au by blast
  ultimately have "au_email au = ''e''" by (simp add: sample_session_def)
  with au show ?thesis by blast
qed

end
