(* ===== verification/Outages.thy ===== *)
theory Outages
  imports SlaEngine AuditTrail
begin

text \<open>
  Outages: the status machine of \<open>app/core/outage_state_machine.py\<close>, the table and repository of
  \<open>app/repositories/outage_repository.py\<close>, the event timeline of \<open>outage_event_repository.py\<close> and
  \<open>app/models/outage_event.py\<close>, and the handlers of \<open>app/api/v1/endpoints/outages.py\<close>.

  \<open>outage_repository.py\<close> ends with a second class named \<open>OutageRepository\<close> that rebinds the name; the model is
  of the first, which has the methods the handlers call. The type coercions of pydantic are arguments, the
  validators declared in \<open>app/models/outage_dto.py\<close> are definitions. The column \<open>sla_status\<close> is never written and
  \<open>created_at\<close> never read; both are left out. A query without \<open>ORDER BY\<close> answers in table order.
\<close>

section \<open>Status machine\<close>

datatype outage_status = Status_open | Status_resolved

fun outage_status_value :: "outage_status \<Rightarrow> string" where
  "outage_status_value Status_open = ''open''"
| "outage_status_value Status_resolved = ''resolved''"

definition OUTAGE_TRANSITIONS :: "(string \<times> string list) list" where
  "OUTAGE_TRANSITIONS = [(''investigating'', [''active'', ''resolved'']), (''active'', [''resolved'']), (''resolved'', [])]"

definition can_transition :: "string \<Rightarrow> string \<Rightarrow> bool" where
  "can_transition from_status to_status \<longleftrightarrow>
    to_status \<in> set (case map_of OUTAGE_TRANSITIONS from_status of None \<Rightarrow> [] | Some l \<Rightarrow> l)"

text \<open>The text of a Python set depends on the hash seed; \<open>show_set\<close> renders it.\<close>

definition validate_outage_transition :: "(string list \<Rightarrow> string) \<Rightarrow> string \<Rightarrow> string \<Rightarrow> unit res" where
  "validate_outage_transition show_set from_status to_status =
    (case map_of OUTAGE_TRANSITIONS from_status of
       None \<Rightarrow> Inl (ValueError (''Unknown outage status: '' @ from_status))
     | Some l \<Rightarrow>
       if \<not> can_transition from_status to_status then
         Inl (ValueError (''Invalid transition: '' @ from_status @ '' -> '' @ to_status @ ''. Valid transitions from ''
           @ quoted from_status @ '': '' @ (if l = [] then ''(none)'' else show_set l)))
       else Inr ())"

definition get_valid_next_states :: "string \<Rightarrow> string list res" where
  "get_valid_next_states from_status =
    (case map_of OUTAGE_TRANSITIONS from_status of
       None \<Rightarrow> Inl (ValueError (''Unknown outage status: '' @ from_status)) | Some l \<Rightarrow> Inr l)"

definition transition ::
  "(string list \<Rightarrow> string) \<Rightarrow> real \<Rightarrow> string option \<Rightarrow> string \<Rightarrow> string \<Rightarrow> string \<Rightarrow> audit_entry list \<Rightarrow>
   unit res \<times> audit_entry list" where
  "transition show_set now ctx outage_id from_status to_status log0 =
    (case validate_outage_transition show_set from_status to_status of
       Inl e \<Rightarrow> (Inl e, log0)
     | Inr _ \<Rightarrow> (Inr (), audit_log now ctx ''outage_status_transition''
         [(''outage_id'', JStr outage_id), (''from_status'', JStr from_status), (''to_status'', JStr to_status)] log0))"

section \<open>Tables and requests\<close>

type_synonym location = "real \<times> real"

record outage_row =
  o_id :: string
  o_site_name :: string
  o_site_id :: "string option"
  o_severity :: string
  o_status :: string
  o_detected_at :: real
  o_resolved_at :: "real option"
  o_description :: string
  o_affected_services :: "string list"
  o_affected_subscribers :: "int option"
  o_assigned_to :: "string option"
  o_created_by :: "string option"
  o_location :: "location option"
  o_mttr_minutes :: "int option"
  o_updated_at :: real

record outage =
  out_id :: string
  out_site_name :: string
  out_site_id :: "string option"
  out_severity :: string
  out_status :: string
  out_detected_at :: real
  out_resolved_at :: "real option"
  out_description :: string
  out_affected_services :: "string list"
  out_affected_subscribers :: "int option"
  out_assigned_to :: "string option"
  out_created_by :: "string option"
  out_location :: "location option"

definition outage_orm_to_pydantic :: "outage_row \<Rightarrow> outage" where
  "outage_orm_to_pydantic r =
    \<lparr>out_id = o_id r, out_site_name = o_site_name r, out_site_id = o_site_id r, out_severity = o_severity r,
     out_status = o_status r, out_detected_at = o_detected_at r, out_resolved_at = o_resolved_at r,
     out_description = o_description r, out_affected_services = o_affected_services r,
     out_affected_subscribers = o_affected_subscribers r, out_assigned_to = o_assigned_to r,
     out_created_by = o_created_by r, out_location = o_location r\<rparr>"

record outage_create =
  oc_id :: string
  oc_site_name :: string
  oc_site_id :: "string option"
  oc_severity :: severity
  oc_status :: outage_status
  oc_detected_at :: datetime
  oc_description :: string
  oc_affected_services :: "string list"
  oc_affected_subscribers :: "int option"
  oc_assigned_to :: "string option"
  oc_created_by :: "string option"
  oc_location :: "location option"

record outage_limits =
  MAX_SITE_NAME_LENGTH :: nat
  MAX_DESCRIPTION_LENGTH :: nat
  MAX_AFFECTED_SERVICES_COUNT :: nat
  MAX_BULK_OUTAGES_COUNT :: nat

text \<open>
  The declared constraints of \<open>OutageCreate\<close> on coerced values. A naive \<open>detected_at\<close> makes its validator call
  pydantic's \<open>ValidationError\<close> with a message; the class has no public constructor and the call raises \<open>TypeError\<close>.
\<close>

definition OutageCreate :: "outage_limits \<Rightarrow> outage_create \<Rightarrow> outage_create res" where
  "OutageCreate lm p =
    (case oc_detected_at p of
       Naive _ \<Rightarrow> Inl TypeError
     | Aware _ \<Rightarrow>
       if oc_id p = [] \<or> oc_site_name p = [] \<or> length (oc_site_name p) > MAX_SITE_NAME_LENGTH lm
          \<or> oc_description p = [] \<or> length (oc_description p) > MAX_DESCRIPTION_LENGTH lm
          \<or> oc_affected_services p = [] \<or> length (oc_affected_services p) > MAX_AFFECTED_SERVICES_COUNT lm
          \<or> (case oc_affected_subscribers p of None \<Rightarrow> False | Some n \<Rightarrow> n < 0)
       then Inl ValidationError else Inr p)"

text \<open>An update: \<open>None\<close> is a field that was not sent, \<open>Some None\<close> an explicit null.\<close>

record outage_update =
  ou_status :: "outage_status option option"
  ou_site_name :: "string option option"
  ou_severity :: "severity option option"
  ou_resolved_at :: "real option option"
  ou_description :: "string option option"
  ou_affected_services :: "string list option option"
  ou_affected_subscribers :: "int option option"
  ou_assigned_to :: "string option option"
  ou_created_by :: "string option option"
  ou_location :: "location option option"

section \<open>Repository\<close>

definition get_orm :: "string \<Rightarrow> outage_row list \<Rightarrow> outage_row option" where
  "get_orm oid t = find (\<lambda>r. o_id r = oid) t"

definition get_outage_row :: "string \<Rightarrow> outage_row list \<Rightarrow> outage option" where
  "get_outage_row oid t = map_option outage_orm_to_pydantic (get_orm oid t)"

definition ALLOWED_STATUS_TRANSITIONS :: "(string \<times> string list) list" where
  "ALLOWED_STATUS_TRANSITIONS = [(''open'', [''open'', ''resolved'']), (''resolved'', [''resolved''])]"

definition validate_status_transition :: "string \<Rightarrow> string \<Rightarrow> unit res" where
  "validate_status_transition current_status next_status =
    (if next_status \<notin> set (case map_of ALLOWED_STATUS_TRANSITIONS current_status of None \<Rightarrow> [] | Some l \<Rightarrow> l)
     then Inl (ValueError (''Invalid status transition: '' @ current_status @ '' -> '' @ next_status))
     else Inr ())"

definition find_duplicate_orm :: "outage_create \<Rightarrow> outage_row list \<Rightarrow> outage_row option" where
  "find_duplicate_orm p t =
    find (\<lambda>r. o_site_name r = oc_site_name p \<and> o_detected_at r = dt_secs (oc_detected_at p)
            \<and> o_description r = oc_description p
            \<and> (case oc_site_id p of None \<Rightarrow> True | Some i \<Rightarrow> i = [] \<or> o_site_id r = Some i)) t"

definition is_same_outage :: "outage_row \<Rightarrow> outage_create \<Rightarrow> bool" where
  "is_same_outage r p \<longleftrightarrow>
    o_id r = oc_id p \<and> o_site_name r = oc_site_name p \<and> o_site_id r = oc_site_id p
    \<and> o_severity r = severity_str (oc_severity p) \<and> o_status r = outage_status_value (oc_status p)
    \<and> o_detected_at r = dt_secs (oc_detected_at p) \<and> o_description r = oc_description p
    \<and> o_affected_services r = oc_affected_services p \<and> o_affected_subscribers r = oc_affected_subscribers p
    \<and> o_assigned_to r = oc_assigned_to p \<and> o_created_by r = oc_created_by p \<and> o_location r = oc_location p"

definition check_duplicate :: "outage_create \<Rightarrow> outage_row list \<Rightarrow> outage option res" where
  "check_duplicate p t =
    (case get_orm (oc_id p) t of
       Some r \<Rightarrow>
         if is_same_outage r p then Inr (Some (outage_orm_to_pydantic r))
         else Inl (ValueError (''Outage with id '' @ quoted (oc_id p) @ '' already exists with different content''))
     | None \<Rightarrow> Inr (map_option outage_orm_to_pydantic (find_duplicate_orm p t)))"

definition OutageORM :: "real \<Rightarrow> outage_create \<Rightarrow> outage_row" where
  "OutageORM started p =
    \<lparr>o_id = oc_id p, o_site_name = oc_site_name p, o_site_id = oc_site_id p, o_severity = severity_str (oc_severity p),
     o_status = outage_status_value (oc_status p), o_detected_at = dt_secs (oc_detected_at p), o_resolved_at = None,
     o_description = oc_description p, o_affected_services = oc_affected_services p,
     o_affected_subscribers = oc_affected_subscribers p, o_assigned_to = oc_assigned_to p,
     o_created_by = oc_created_by p, o_location = oc_location p, o_mttr_minutes = None, o_updated_at = started\<rparr>"

definition create_or_get_existing ::
  "real \<Rightarrow> outage_create \<Rightarrow> outage_row list \<Rightarrow> (outage \<times> bool) res \<times> outage_row list" where
  "create_or_get_existing started p t =
    (case check_duplicate p t of
       Inl e \<Rightarrow> (Inl e, t)
     | Inr (Some existing) \<Rightarrow> (Inr (existing, False), t)
     | Inr None \<Rightarrow> (let r = OutageORM started p in (Inr (outage_orm_to_pydantic r, True), t @ [r])))"

definition create_row :: "real \<Rightarrow> outage_create \<Rightarrow> outage_row list \<Rightarrow> outage res \<times> outage_row list" where
  "create_row started p t = (let (r, t') = create_or_get_existing started p t in (map_sum id fst r, t'))"

fun bulk_create :: "real \<Rightarrow> outage_create list \<Rightarrow> outage_row list \<Rightarrow> outage list res \<times> outage_row list" where
  "bulk_create started [] t = (Inr [], t)"
| "bulk_create started (p # ps) t =
    (case create_row started p t of
       (Inl e, t1) \<Rightarrow> (Inl e, t1)
     | (Inr x, t1) \<Rightarrow> (let (r, t2) = bulk_create started ps t1 in (map_sum id ((#) x) r, t2)))"

text \<open>Explicit nulls in the columns declared \<open>nullable=False\<close> are rejected by the database.\<close>

definition null_violation :: "outage_update \<Rightarrow> bool" where
  "null_violation p \<longleftrightarrow> ou_status p = Some None \<or> ou_site_name p = Some None \<or> ou_severity p = Some None
     \<or> ou_description p = Some None \<or> ou_affected_services p = Some None"

definition keep :: "'a \<Rightarrow> 'a option option \<Rightarrow> 'a" where
  "keep old new = (case new of Some (Some v) \<Rightarrow> v | _ \<Rightarrow> old)"

definition assign :: "'a option \<Rightarrow> 'a option option \<Rightarrow> 'a option" where
  "assign old new = (case new of None \<Rightarrow> old | Some v \<Rightarrow> v)"

definition apply_update :: "outage_update \<Rightarrow> outage_row \<Rightarrow> outage_row" where
  "apply_update p r = r\<lparr>
     o_status := keep (o_status r) (map_option (map_option outage_status_value) (ou_status p)),
     o_site_name := keep (o_site_name r) (ou_site_name p),
     o_severity := keep (o_severity r) (map_option (map_option severity_str) (ou_severity p)),
     o_resolved_at := assign (o_resolved_at r) (ou_resolved_at p),
     o_description := keep (o_description r) (ou_description p),
     o_affected_services := keep (o_affected_services r) (ou_affected_services p),
     o_affected_subscribers := assign (o_affected_subscribers r) (ou_affected_subscribers p),
     o_assigned_to := assign (o_assigned_to r) (ou_assigned_to p),
     o_created_by := assign (o_created_by r) (ou_created_by p),
     o_location := assign (o_location r) (ou_location p)\<rparr>"

definition set_outage :: "string \<Rightarrow> outage_row \<Rightarrow> outage_row list \<Rightarrow> outage_row list" where
  "set_outage oid r = upd_where (\<lambda>x. o_id x = oid) (\<lambda>_. r)"

definition update_row ::
  "real \<Rightarrow> string \<Rightarrow> outage_update \<Rightarrow> outage_row list \<Rightarrow> outage option res \<times> outage_row list" where
  "update_row now oid p t =
    (case get_orm oid t of
       None \<Rightarrow> (Inr None, t)
     | Some orm \<Rightarrow>
       (case (case ou_status p of Some (Some st) \<Rightarrow> validate_status_transition (o_status orm) (outage_status_value st)
              | _ \<Rightarrow> Inr ()) of
          Inl e \<Rightarrow> (Inl e, t)
        | Inr _ \<Rightarrow>
          if null_violation p then (Inl (IntegrityError ''outages''), t)
          else (let orm' = (apply_update p orm)\<lparr>o_updated_at := now\<rparr>
                in (Inr (Some (outage_orm_to_pydantic orm')), set_outage oid orm' t))))"

definition delete_row :: "string \<Rightarrow> outage_row list \<Rightarrow> outage_row list" where
  "delete_row oid t = del_where (\<lambda>r. o_id r = oid) t"

definition resolve_row ::
  "real \<Rightarrow> string \<Rightarrow> int \<Rightarrow> outage_row list \<Rightarrow> outage option res \<times> outage_row list" where
  "resolve_row now oid mttr t =
    (case get_orm oid t of
       None \<Rightarrow> (Inr None, t)
     | Some orm \<Rightarrow>
       if o_status orm = ''resolved'' \<and> o_mttr_minutes orm = Some mttr
       then (Inr (Some (outage_orm_to_pydantic orm)), t)
       else (case validate_status_transition (o_status orm) ''resolved'' of
          Inl e \<Rightarrow> (Inl e, t)
        | Inr _ \<Rightarrow>
          (let orm' = orm\<lparr>o_status := ''resolved'', o_mttr_minutes := Some mttr, o_resolved_at := Some now,
                          o_updated_at := now\<rparr>
           in (Inr (Some (outage_orm_to_pydantic orm')), set_outage oid orm' t))))"

fun violations_of :: "sla_config \<Rightarrow> outage_row list \<Rightarrow> (outage \<times> sla_result) list res" where
  "violations_of cfg [] = Inr []"
| "violations_of cfg (r # rs) =
    (case o_mttr_minutes r of
       None \<Rightarrow> violations_of cfg rs
     | Some m \<Rightarrow>
       (case calculate cfg (o_id r) (o_severity r) m ''1.0'' ''config'' of
          Inl e \<Rightarrow> Inl e
        | Inr sla \<Rightarrow> map_sum id (\<lambda>l. if res_status sla = violated then (outage_orm_to_pydantic r, sla) # l else l)
            (violations_of cfg rs)))"

definition list_violations :: "sla_config \<Rightarrow> outage_row list \<Rightarrow> (outage \<times> sla_result) list res" where
  "list_violations cfg t = violations_of cfg (filter (\<lambda>r. o_status r = ''resolved'') t)"

text \<open>
  Filtering, sorting and paging. \<open>ILIKE\<close> compares lower-cased text, \<open>NULL\<close> matches nothing, a negative \<open>OFFSET\<close> or
  \<open>LIMIT\<close> is an error of the database. Text columns are compared by code point.
\<close>

record outage_filter =
  fl_severity :: "severity option"
  fl_status :: "outage_status option"
  fl_search :: "string option"
  fl_start :: "real option"
  fl_end :: "real option"

definition ilike :: "string \<Rightarrow> string \<Rightarrow> bool" where
  "ilike pat s \<longleftrightarrow> sql_like (lower pat) (lower s)"

definition search_match :: "string \<Rightarrow> outage_row \<Rightarrow> bool" where
  "search_match search r \<longleftrightarrow>
    (let pat = ''%'' @ search @ ''%''
     in ilike pat (o_id r) \<or> (case o_site_id r of None \<Rightarrow> False | Some i \<Rightarrow> ilike pat i) \<or> ilike pat (o_site_name r))"

definition outage_matches :: "outage_filter \<Rightarrow> outage_row \<Rightarrow> bool" where
  "outage_matches f r \<longleftrightarrow>
    (case fl_severity f of None \<Rightarrow> True | Some v \<Rightarrow> o_severity r = severity_str v)
    \<and> (case fl_status f of None \<Rightarrow> True | Some v \<Rightarrow> o_status r = outage_status_value v)
    \<and> (case fl_search f of None \<Rightarrow> True | Some q \<Rightarrow> q = [] \<or> search_match q r)
    \<and> (case fl_start f of None \<Rightarrow> True | Some d \<Rightarrow> d \<le> o_detected_at r)
    \<and> (case fl_end f of None \<Rightarrow> True | Some d \<Rightarrow> o_detected_at r \<le> d)"

definition list_filtered :: "outage_filter \<Rightarrow> outage_row list \<Rightarrow> outage list" where
  "list_filtered f t = map outage_orm_to_pydantic (filter (outage_matches f) t)"

datatype sort_field = By_detected_at | By_site_name | By_severity | By_status | By_id
datatype sort_direction = Asc | Desc

fun sort_by :: "sort_field \<Rightarrow> outage_row list \<Rightarrow> outage_row list" where
  "sort_by By_detected_at = sort_key o_detected_at"
| "sort_by By_site_name = sort_key o_site_name"
| "sort_by By_severity = sort_key o_severity"
| "sort_by By_status = sort_key o_status"
| "sort_by By_id = sort_key o_id"

definition order_rows :: "sort_field \<Rightarrow> sort_direction \<Rightarrow> outage_row list \<Rightarrow> outage_row list" where
  "order_rows f d t =
    (let by_id = sort_key o_id t in case d of Asc \<Rightarrow> sort_by f by_id | Desc \<Rightarrow> rev (sort_by f (rev by_id)))"

definition list_rows ::
  "outage_filter \<Rightarrow> int \<Rightarrow> int \<Rightarrow> sort_field \<Rightarrow> sort_direction \<Rightarrow> outage_row list \<Rightarrow> (outage list \<times> nat) res" where
  "list_rows f page page_size field dir t =
    (let q = order_rows field dir (filter (outage_matches f) t); off = (page - 1) * page_size in
     if off < 0 \<or> page_size < 0 then Inl (DBError ''OFFSET'')
     else Inr (map outage_orm_to_pydantic (take (nat page_size) (drop (nat off) q)), length q))"

section \<open>Event timeline\<close>

record outage_event =
  oe_id :: string
  oe_outage_id :: string
  oe_event_type :: string
  oe_detail :: "(string \<times> json) list"
  oe_schema_version :: string
  oe_occurred_at :: real

definition need :: "string \<Rightarrow> (json \<Rightarrow> json option) \<Rightarrow> (string \<times> json) list \<Rightarrow> (string \<times> json) list res" where
  "need k conv d = (case Option.bind (map_of d k) conv of None \<Rightarrow> Inl ValidationError | Some v \<Rightarrow> Inr [(k, v)])"

definition as_str :: "json \<Rightarrow> json option" where
  "as_str v = (case v of JStr _ \<Rightarrow> Some v | _ \<Rightarrow> None)"

text \<open>
  \<open>validate_event_detail\<close>: the model of the event type picks its declared field and ignores the others.
  \<open>as_int\<close> is pydantic's conversion to \<open>int\<close>.
\<close>

definition validate_event_detail ::
  "(json \<Rightarrow> json option) \<Rightarrow> string \<Rightarrow> (string \<times> json) list \<Rightarrow> (string \<times> json) list res" where
  "validate_event_detail as_int event_type d =
    (if event_type = ''created'' then need ''site_name'' as_str d
     else if event_type = ''updated'' \<or> event_type = ''patched'' then
       (case map_of d ''changes'' of
          None \<Rightarrow> Inr [(''changes'', JObj [])]
        | Some (JObj c) \<Rightarrow> Inr [(''changes'', JObj c)]
        | Some _ \<Rightarrow> Inl ValidationError)
     else if event_type = ''resolved'' then need ''mttr_minutes'' as_int d
     else if event_type = ''sla_computed'' \<or> event_type = ''sla_recomputed'' then need ''status'' as_str d
     else Inl (ValueError (''Unknown event_type: '' @ quoted event_type)))"

record outage_state =
  os_outages :: "outage_row list"
  os_events :: "outage_event list"
  os_audit :: "audit_entry list"

definition record_event ::
  "(json \<Rightarrow> json option) \<Rightarrow> real \<Rightarrow> string \<Rightarrow> string \<Rightarrow> string \<Rightarrow> (string \<times> json) list \<Rightarrow> outage_state \<Rightarrow>
   unit res \<times> outage_state" where
  "record_event as_int now eid outage_id event_type detail s =
    (case validate_event_detail as_int event_type detail of
       Inl e \<Rightarrow> (Inl e, s)
     | Inr d \<Rightarrow>
       if list_ex (\<lambda>x. oe_id x = eid) (os_events s) \<or> get_orm outage_id (os_outages s) = None
       then (Inl (IntegrityError ''outage_events''), s)
       else (Inr (), s\<lparr>os_events := os_events s @
              [\<lparr>oe_id = eid, oe_outage_id = outage_id, oe_event_type = event_type, oe_detail = d,
                oe_schema_version = ''1'', oe_occurred_at = now\<rparr>]\<rparr>))"

definition list_for_outage ::
  "string \<Rightarrow> string option \<Rightarrow> real option \<Rightarrow> real option \<Rightarrow> nat \<Rightarrow> nat \<Rightarrow> outage_event list \<Rightarrow>
   outage_event list \<times> nat" where
  "list_for_outage outage_id event_type start_date end_date page page_size es =
    (let q = filter (\<lambda>e. oe_outage_id e = outage_id
               \<and> (case event_type of None \<Rightarrow> True | Some ty \<Rightarrow> ty = [] \<or> oe_event_type e = ty)
               \<and> (case start_date of None \<Rightarrow> True | Some d \<Rightarrow> d \<le> oe_occurred_at e)
               \<and> (case end_date of None \<Rightarrow> True | Some d \<Rightarrow> oe_occurred_at e \<le> d)) es;
         q = sort_key oe_occurred_at q
     in (take page_size (drop ((page - 1) * page_size) q), length q))"

section \<open>Import\<close>

text \<open>A row result keeps the exception that \<open>_row_error\<close> renders into its field errors.\<close>

record import_row =
  ir_row :: nat
  ir_id :: "string option"
  ir_error :: "exc option"
  ir_outage_id :: "string option"
  ir_persisted :: "bool option"
  ir_duplicate :: "bool option"
  ir_existing_id :: "string option"

definition row_error :: "nat \<Rightarrow> string option \<Rightarrow> exc \<Rightarrow> import_row" where
  "row_error i rid e = \<lparr>ir_row = i, ir_id = rid, ir_error = Some e, ir_outage_id = None, ir_persisted = None,
     ir_duplicate = None, ir_existing_id = None\<rparr>"

definition import_row_ok :: "nat \<Rightarrow> string option \<Rightarrow> import_row" where
  "import_row_ok i rid = \<lparr>ir_row = i, ir_id = rid, ir_error = None, ir_outage_id = None, ir_persisted = None,
     ir_duplicate = None, ir_existing_id = None\<rparr>"

record import_response =
  imp_mode :: string
  imp_total_rows :: nat
  imp_persisted :: nat
  imp_validated :: nat
  imp_error_count :: nat
  imp_rows :: "import_row list"

definition mk_import_response :: "string \<Rightarrow> nat \<Rightarrow> nat \<Rightarrow> import_row list \<Rightarrow> import_response" where
  "mk_import_response mode total_rows persisted outcomes =
    \<lparr>imp_mode = mode, imp_total_rows = total_rows, imp_persisted = persisted,
     imp_validated = length (filter (\<lambda>r. ir_error r = None) outcomes),
     imp_error_count = length (filter (\<lambda>r. ir_error r \<noteq> None) outcomes), imp_rows = outcomes\<rparr>"

text \<open>A raw row is its \<open>id\<close> entry with its coerced fields; the validators of \<open>OutageCreate\<close> run on them.\<close>

type_synonym raw_row = "string option \<times> outage_create res"

definition validate_raw :: "outage_limits \<Rightarrow> raw_row \<Rightarrow> raw_row" where
  "validate_raw lm row = (fst row, case snd row of Inl e \<Rightarrow> Inl e | Inr p \<Rightarrow> OutageCreate lm p)"

fun dry_rows :: "nat \<Rightarrow> raw_row list \<Rightarrow> outage_row list \<Rightarrow> import_row list" where
  "dry_rows i [] t = []"
| "dry_rows i ((rid, parsed) # rows) t =
    (case parsed of
       Inl e \<Rightarrow> row_error i rid e
     | Inr p \<Rightarrow>
       (case check_duplicate p t of
          Inl e \<Rightarrow> row_error i rid e
        | Inr (Some d) \<Rightarrow> (import_row_ok i (Some (oc_id p)))\<lparr>ir_duplicate := Some True, ir_existing_id := Some (out_id d)\<rparr>
        | Inr None \<Rightarrow> (import_row_ok i (Some (oc_id p)))\<lparr>ir_duplicate := Some False\<rparr>))
    # dry_rows (Suc i) rows t"

definition created_outcome :: "import_row \<Rightarrow> outage \<Rightarrow> bool \<Rightarrow> import_row" where
  "created_outcome r created persisted =
    (let r' = r\<lparr>ir_outage_id := Some (out_id created), ir_persisted := Some persisted\<rparr>
     in if persisted then r' else r'\<lparr>ir_duplicate := Some True, ir_existing_id := Some (out_id created)\<rparr>)"

text \<open>
  The loop of the atomic mode; every \<open>create_or_get_existing\<close> commits, so the rollback after a failure finds
  nothing to undo.
\<close>

fun atomic_rows ::
  "real \<Rightarrow> (import_row \<times> outage_create) list \<Rightarrow> outage_row list \<Rightarrow> (import_row list \<times> nat) res \<times> outage_row list" where
  "atomic_rows started [] t = (Inr ([], 0), t)"
| "atomic_rows started ((r, p) # rows) t =
    (case create_or_get_existing started p t of
       (Inl e, t1) \<Rightarrow> (Inl e, t1)
     | (Inr (created, persisted), t1) \<Rightarrow>
       (let (res, t2) = atomic_rows started rows t1
        in (map_sum id (\<lambda>(rs, n). (created_outcome r created persisted # rs, if persisted then Suc n else n)) res, t2)))"

fun partial_rows ::
  "real \<Rightarrow> nat \<Rightarrow> raw_row list \<Rightarrow> outage_row list \<Rightarrow> (import_row list \<times> nat) \<times> outage_row list" where
  "partial_rows started i [] t = (([], 0), t)"
| "partial_rows started i ((rid, parsed) # rows) t =
    (case (case parsed of Inl e \<Rightarrow> (Inl e, t) | Inr p \<Rightarrow> create_or_get_existing started p t) of
       (Inl e, t1) \<Rightarrow>
         (let ((rs, n), t2) = partial_rows started (Suc i) rows t1 in ((row_error i rid e # rs, n), t2))
     | (Inr (created, persisted), t1) \<Rightarrow>
         (let ((rs, n), t2) = partial_rows started (Suc i) rows t1;
              r = (import_row_ok i (map_option oc_id (case parsed of Inl _ \<Rightarrow> None | Inr p \<Rightarrow> Some p)))
                    \<lparr>ir_outage_id := Some (out_id created), ir_persisted := Some persisted,
                     ir_duplicate := Some (\<not> persisted),
                     ir_existing_id := (if \<not> persisted then Some (out_id created) else None)\<rparr>
          in ((r # rs, if persisted then Suc n else n), t2)))"

fun parse_outcomes :: "nat \<Rightarrow> raw_row list \<Rightarrow> import_row list" where
  "parse_outcomes i [] = []"
| "parse_outcomes i ((rid, parsed) # rows) =
    (case parsed of Inl e \<Rightarrow> row_error i rid e | Inr _ \<Rightarrow> import_row_ok i rid) # parse_outcomes (Suc i) rows"

fun parsed_rows :: "raw_row list \<Rightarrow> outage_create list" where
  "parsed_rows [] = []"
| "parsed_rows ((rid, Inl e) # rows) = parsed_rows rows"
| "parsed_rows ((rid, Inr p) # rows) = p # parsed_rows rows"

datatype import_consistency = Atomic | Partial

text \<open>\<open>import_outages\<close> from the row limit on; reading and decoding the file is left to its caller.\<close>

definition import_outages ::
  "outage_limits \<Rightarrow> real \<Rightarrow> bool \<Rightarrow> import_consistency \<Rightarrow> raw_row list \<Rightarrow> outage_state \<Rightarrow>
   import_response res \<times> outage_state" where
  "import_outages lm started dry_run consistency raw s =
    (let rows = map (validate_raw lm) raw in
     if length rows > MAX_BULK_OUTAGES_COUNT lm then
       (Inl (HTTPException 400 (''Too many rows in file. Maximum allowed is ''
          @ str_int (int (MAX_BULK_OUTAGES_COUNT lm)) @ ''.'')), s)
     else if dry_run then
       (Inr (mk_import_response ''dry_run'' (length rows) 0 (dry_rows 0 rows (os_outages s))), s)
     else case consistency of
       Atomic \<Rightarrow>
         (let outcomes = parse_outcomes 0 rows in
          if list_ex (\<lambda>r. ir_error r \<noteq> None) outcomes then
            (Inr (mk_import_response ''import'' (length rows) 0 outcomes), s)
          else (case atomic_rows started (zip outcomes (parsed_rows rows)) (os_outages s) of
             (Inl e, t) \<Rightarrow> (Inl (HTTPException 500 (''Transaction failed: '' @ exc_msg e)), s\<lparr>os_outages := t\<rparr>)
           | (Inr (rs, n), t) \<Rightarrow> (Inr (mk_import_response ''import'' (length rows) n rs), s\<lparr>os_outages := t\<rparr>)))
     | Partial \<Rightarrow>
         (let ((rs, n), t) = partial_rows started 0 rows (os_outages s)
          in (Inr (mk_import_response ''import'' (length rows) n rs), s\<lparr>os_outages := t\<rparr>)))"

section \<open>Handlers\<close>

text \<open>
  What the handlers take from the environment: the import instant, the integer conversion of pydantic, the
  rendering of a set and the correlation id of the request.
\<close>

record outage_env =
  oe_started :: real
  oe_as_int :: "json \<Rightarrow> json option"
  oe_show_set :: "string list \<Rightarrow> string"
  oe_ctx :: "string option"

definition outage_audit :: "outage_env \<Rightarrow> real \<Rightarrow> string \<Rightarrow> (string \<times> json) list \<Rightarrow> outage_state \<Rightarrow> outage_state" where
  "outage_audit env now ev d s = s\<lparr>os_audit := audit_log now (oe_ctx env) ev d (os_audit s)\<rparr>"

definition get_outage :: "string \<Rightarrow> outage_state \<Rightarrow> outage res" where
  "get_outage oid s = (case get_outage_row oid (os_outages s) of
     None \<Rightarrow> Inl (HTTPException 404 ''Outage not found'') | Some x \<Rightarrow> Inr x)"

definition create_outage ::
  "outage_env \<Rightarrow> real \<Rightarrow> string \<Rightarrow> outage_create \<Rightarrow> outage_state \<Rightarrow> outage res \<times> outage_state" where
  "create_outage env now eid p s =
    (case create_row (oe_started env) p (os_outages s) of
       (Inl e, t) \<Rightarrow> (http_on_ValueError 400 (Inl e), s\<lparr>os_outages := t\<rparr>)
     | (Inr x, t) \<Rightarrow>
       (case record_event (oe_as_int env) now eid (out_id x) ''created'' [(''site_name'', JStr (out_site_name x))]
               (outage_audit env now ''outage_created'' [(''id'', JStr (out_id x))] (s\<lparr>os_outages := t\<rparr>)) of
          (Inl e, s1) \<Rightarrow> (Inl e, s1)
        | (Inr _, s1) \<Rightarrow> (Inr x, s1)))"

fun bulk_loop :: "real \<Rightarrow> outage_create list \<Rightarrow> outage_row list \<Rightarrow> (outage list \<times> nat) res \<times> outage_row list" where
  "bulk_loop started [] t = (Inr ([], 0), t)"
| "bulk_loop started (p # ps) t =
    (case create_or_get_existing started p t of
       (Inl e, t1) \<Rightarrow> (Inl e, t1)
     | (Inr (x, persisted), t1) \<Rightarrow>
       (let (r, t2) = bulk_loop started ps t1
        in (map_sum id (\<lambda>(xs, n). (x # xs, if persisted then Suc n else n)) r, t2)))"

definition bulk_create_outages ::
  "outage_env \<Rightarrow> outage_create list \<Rightarrow> outage_state \<Rightarrow> (outage list \<times> nat) res \<times> outage_state" where
  "bulk_create_outages env ps s =
    (let (r, t) = bulk_loop (oe_started env) ps (os_outages s) in (http_on_ValueError 400 r, s\<lparr>os_outages := t\<rparr>))"

text \<open>The repository update and the event of \<open>update_outage\<close> and \<open>patch_outage\<close>. No field of an update is named \<open>changes\<close>.\<close>

definition update_and_record ::
  "outage_env \<Rightarrow> real \<Rightarrow> string \<Rightarrow> string \<Rightarrow> string \<Rightarrow> outage_update \<Rightarrow> (string \<times> json) list \<Rightarrow> outage_state \<Rightarrow>
   outage option res \<times> outage_state" where
  "update_and_record env now eid event_type oid p dump s =
    (case update_row now oid p (os_outages s) of
       (Inl e, t) \<Rightarrow> (http_on_ValueError 400 (Inl e), s\<lparr>os_outages := t\<rparr>)
     | (Inr updated, t) \<Rightarrow>
       (case record_event (oe_as_int env) now eid oid event_type dump (s\<lparr>os_outages := t\<rparr>) of
          (Inl e, s1) \<Rightarrow> (Inl e, s1)
        | (Inr _, s1) \<Rightarrow> (Inr updated, s1)))"

definition update_outage ::
  "outage_env \<Rightarrow> real \<Rightarrow> string \<Rightarrow> string \<Rightarrow> outage_update \<Rightarrow> (string \<times> json) list \<Rightarrow> outage_state \<Rightarrow>
   outage option res \<times> outage_state" where
  "update_outage env now eid oid p dump s =
    (case get_outage_row oid (os_outages s) of
       None \<Rightarrow> (Inl (HTTPException 404 ''Outage not found''), s)
     | Some existing \<Rightarrow>
       (let (r, log1) = (case ou_status p of
              Some (Some st) \<Rightarrow> transition (oe_show_set env) now (oe_ctx env) oid (out_status existing)
                 (outage_status_value st) (os_audit s)
            | _ \<Rightarrow> (Inr (), os_audit s));
            s1 = s\<lparr>os_audit := log1\<rparr>
        in case http_on_ValueError 400 r of
             Inl e \<Rightarrow> (Inl e, s1)
           | Inr _ \<Rightarrow> update_and_record env now eid ''updated'' oid p dump s1))"

definition patch_outage ::
  "outage_env \<Rightarrow> real \<Rightarrow> string \<Rightarrow> string \<Rightarrow> outage_update \<Rightarrow> (string \<times> json) list \<Rightarrow> outage_state \<Rightarrow>
   outage option res \<times> outage_state" where
  "patch_outage env now eid oid p dump s =
    (case get_outage_row oid (os_outages s) of
       None \<Rightarrow> (Inl (HTTPException 404 ''Outage not found''), s)
     | Some existing \<Rightarrow> update_and_record env now eid ''patched'' oid p dump s)"

text \<open>\<open>delete_outage\<close> names \<open>outage_store\<close>, which the module does not import.\<close>

definition delete_outage :: "string \<Rightarrow> outage_state \<Rightarrow> unit res \<times> outage_state" where
  "delete_outage oid s =
    (case get_outage_row oid (os_outages s) of
       None \<Rightarrow> (Inl (HTTPException 404 ''Outage not found''), s)
     | Some _ \<Rightarrow> (Inl (NameError ''outage_store''), s))"

text \<open>
  \<open>resolve_outage\<close> and \<open>recompute_sla\<close> with the answer of \<open>pg_try_advisory_xact_lock\<close>. The class
  \<open>SLAContractAdapter\<close> has an empty body; the attribute \<open>calculate_sla\<close> they call does not exist, and what
  follows the call is not reached.
\<close>

definition calculate_sla_attr :: "raw_contract_result res" where
  "calculate_sla_attr = Inl (AttributeError ''calculate_sla'')"

definition lock_busy :: "string \<Rightarrow> exc" where
  "lock_busy key = ConcurrencyLockError (''Operation for '' @ quoted key @ '' is already in progress. Please retry later.'')"

definition resolve_outage ::
  "outage_env \<Rightarrow> real \<Rightarrow> bool \<Rightarrow> string \<Rightarrow> string \<Rightarrow> int \<Rightarrow> outage_state \<Rightarrow> raw_contract_result res \<times> outage_state" where
  "resolve_outage env now acquired eid oid mttr s =
    (case get_outage_row oid (os_outages s) of
       None \<Rightarrow> (Inl (HTTPException 404 ''Outage not found''), s)
     | Some existing \<Rightarrow>
       (case transition (oe_show_set env) now (oe_ctx env) oid (out_status existing) ''resolved'' (os_audit s) of
          (Inl e, _) \<Rightarrow> (http_on_ValueError 400 (Inl e), s)
        | (Inr _, log1) \<Rightarrow>
          (let s1 = s\<lparr>os_audit := log1\<rparr> in
           if \<not> acquired then (Inl (HTTPException 409 (exc_msg (lock_busy (''resolve:'' @ oid)))), s1)
           else (case resolve_row now oid mttr (os_outages s1) of
             (Inl e, t) \<Rightarrow> (http_on_ValueError 400 (Inl e), s1\<lparr>os_outages := t\<rparr>)
           | (Inr None, t) \<Rightarrow> (Inl (HTTPException 404 ''Outage not found''), s1\<lparr>os_outages := t\<rparr>)
           | (Inr (Some x), t) \<Rightarrow>
             (case record_event (oe_as_int env) now eid oid ''resolved'' [(''mttr_minutes'', JInt mttr)]
                     (outage_audit env now ''outage_resolved'' [(''id'', JStr (out_id x)), (''mttr'', JInt mttr)]
                       (s1\<lparr>os_outages := t\<rparr>)) of
                (Inl e, s2) \<Rightarrow> (Inl e, s2)
              | (Inr _, s2) \<Rightarrow> (calculate_sla_attr, s2))))))"

definition recompute_sla :: "bool \<Rightarrow> string \<Rightarrow> outage_state \<Rightarrow> raw_contract_result res \<times> outage_state" where
  "recompute_sla acquired oid s =
    (case get_outage_row oid (os_outages s) of
       None \<Rightarrow> (Inl (HTTPException 404 ''Outage not found''), s)
     | Some existing \<Rightarrow>
       if out_status existing \<noteq> ''resolved''
       then (Inl (HTTPException 400 ''Outage must be resolved to recompute SLA''), s)
       else if \<not> acquired then (Inl (HTTPException 409 (exc_msg (lock_busy (''recompute:'' @ oid)))), s)
       else (calculate_sla_attr, s))"

definition get_outage_timeline ::
  "string \<Rightarrow> string option \<Rightarrow> real option \<Rightarrow> real option \<Rightarrow> nat \<Rightarrow> nat \<Rightarrow> outage_state \<Rightarrow>
   (outage_event list \<times> nat) res" where
  "get_outage_timeline oid event_type start_date end_date page page_size s =
    (case get_outage_row oid (os_outages s) of
       None \<Rightarrow> Inl (HTTPException 404 ''Outage not found'')
     | Some _ \<Rightarrow> Inr (list_for_outage oid event_type start_date end_date page page_size (os_events s)))"

definition get_valid_transitions :: "string \<Rightarrow> outage_state \<Rightarrow> string list res" where
  "get_valid_transitions oid s =
    (case get_outage_row oid (os_outages s) of
       None \<Rightarrow> Inl (HTTPException 404 ''Outage not found'')
     | Some x \<Rightarrow> map_sum id sort (get_valid_next_states (out_status x)))"

end
