(* ===== verification/OutageLaws.thy ===== *)
theory OutageLaws
  imports Outages
begin

text \<open>
  Laws of the outage component: the life cycle of a row under every sequence of handlers, idempotent creation,
  the import modes, and the two status tables. The repository's table of transitions interprets the status
  policy of the prelude.
\<close>

section \<open>Repository steps\<close>

interpretation outage_policy: status_policy
  "\<lambda>c n. validate_status_transition c n = Inr ()" "\<lambda>s. s = ''resolved''"
  by unfold_locales
    (auto simp: validate_status_transition_def ALLOWED_STATUS_TRANSITIONS_def split: if_splits)

lemma status_values: "outage_status_value st = ''open'' \<or> outage_status_value st = ''resolved''"
  by (cases st) auto

definition outage_ok :: "outage_row \<Rightarrow> bool" where
  "outage_ok r \<longleftrightarrow> (o_status r = ''open'' \<or> o_status r = ''resolved'') \<and> (\<exists>v. o_severity r = severity_str v)
     \<and> o_mttr_minutes r = None"

definition outage_inv :: "outage_row list \<Rightarrow> bool" where
  "outage_inv t \<longleftrightarrow> distinct (map o_id t) \<and> list_all outage_ok t"

definition row_evolves :: "outage_row \<Rightarrow> outage_row \<Rightarrow> bool" where
  "row_evolves r r' \<longleftrightarrow> o_id r' = o_id r \<and> o_site_id r' = o_site_id r \<and> o_detected_at r' = o_detected_at r
     \<and> (\<exists>ts. outage_policy.run (o_status r) ts (o_status r'))"

definition evolves :: "outage_row list \<Rightarrow> outage_row list \<Rightarrow> bool" where
  "evolves t t' \<longleftrightarrow> (\<forall>r\<in>set t. \<exists>r'\<in>set t'. row_evolves r r')"

lemma row_evolves_refl [simp]: "row_evolves r r"
  by (auto simp: row_evolves_def intro: outage_policy.run_nil)

lemma row_evolves_trans: "row_evolves a b \<Longrightarrow> row_evolves b c \<Longrightarrow> row_evolves a c"
  unfolding row_evolves_def using outage_policy.run_append by metis

lemma evolves_refl [simp]: "evolves t t"
  unfolding evolves_def by (meson row_evolves_refl)

lemma evolves_trans: "evolves a b \<Longrightarrow> evolves b c \<Longrightarrow> evolves a c"
  unfolding evolves_def using row_evolves_trans by meson

inductive table_step :: "outage_row list \<Rightarrow> outage_row list \<Rightarrow> bool" where
  ts_create: "table_step t (snd (create_or_get_existing started p t))"
| ts_update: "table_step t (snd (update_row now oid p t))"

lemma create_table:
  "snd (create_or_get_existing started p t) =
    (if check_duplicate p t = Inr None then t @ [OutageORM started p] else t)"
  by (simp add: create_or_get_existing_def Let_def split: sum.split option.split)

lemma check_duplicate_None: "check_duplicate p t = Inr None \<longleftrightarrow> get_orm (oc_id p) t = None \<and> find_duplicate_orm p t = None"
  by (auto simp: check_duplicate_def split: option.splits)

lemma OutageORM_ok: "outage_ok (OutageORM started p)"
  using status_values [of "oc_status p"] by (auto simp: outage_ok_def OutageORM_def)

lemma update_row_cases:
  obtains "snd (update_row now oid p t) = t"
  | orm where "get_orm oid t = Some orm"
      "snd (update_row now oid p t) = set_outage oid ((apply_update p orm)\<lparr>o_updated_at := now\<rparr>) t"
      "\<And>st. ou_status p = Some (Some st) \<Longrightarrow> validate_status_transition (o_status orm) (outage_status_value st) = Inr ()"
proof (cases "get_orm oid t")
  case (Some orm)
  show ?thesis
  proof (cases "case ou_status p of Some (Some st) \<Rightarrow> validate_status_transition (o_status orm) (outage_status_value st)
              | _ \<Rightarrow> Inr ()")
    case (Inr u)
    show ?thesis
    proof (cases "null_violation p")
      case False
      with Some Inr show ?thesis by (intro that(2) [of orm]) (auto simp: update_row_def Let_def)
    qed (use Some Inr in \<open>intro that(1), simp add: update_row_def\<close>)
  qed (use Some in \<open>intro that(1), simp add: update_row_def\<close>)
qed (intro that(1), simp add: update_row_def)

lemma apply_update_evolves:
  assumes "\<And>st. ou_status p = Some (Some st) \<Longrightarrow> validate_status_transition (o_status r) (outage_status_value st) = Inr ()"
  shows "row_evolves r ((apply_update p r)\<lparr>o_updated_at := now\<rparr>)"
proof -
  have "\<exists>ts. outage_policy.run (o_status r) ts (o_status (apply_update p r))"
  proof (cases "ou_status p = None \<or> ou_status p = Some None")
    case True
    then show ?thesis by (intro exI [of _ "[]"]) (auto simp: apply_update_def keep_def outage_policy.run_nil)
  next
    case False
    then obtain st where st: "ou_status p = Some (Some st)" by (cases "ou_status p") auto
    then have "outage_policy.run (o_status r) [outage_status_value st] (outage_status_value st)"
      by (intro outage_policy.run_cons outage_policy.run_nil assms)
    with st show ?thesis by (auto simp: apply_update_def keep_def)
  qed
  then show ?thesis by (simp add: row_evolves_def apply_update_def)
qed

lemma apply_update_ok: "outage_ok r \<Longrightarrow> outage_ok ((apply_update p r)\<lparr>o_updated_at := now\<rparr>)"
  using status_values
  by (auto simp: outage_ok_def apply_update_def keep_def split: option.splits)

lemma table_step_keeps:
  assumes "table_step t t'" "outage_inv t"
  shows "outage_inv t' \<and> evolves t t'"
  using assms
proof (induction rule: table_step.induct)
  case (ts_create t started p)
  have "evolves t (t @ [OutageORM started p])" unfolding evolves_def
    by (metis UnI1 row_evolves_refl set_append)
  moreover have "o_id (OutageORM started p) = oc_id p" by (simp add: OutageORM_def)
  ultimately show ?case
    using ts_create OutageORM_ok [of started p]
    by (auto simp: create_table check_duplicate_None outage_inv_def get_orm_def find_None_iff_all)
next
  case (ts_update t now oid p)
  show ?case
  proof (cases rule: update_row_cases [of now oid p t])
    case 1
    with ts_update show ?thesis by simp
  next
    case (2 orm)
    have orm: "orm \<in> set t" "o_id orm = oid" using find_SomeD [OF 2(1) [unfolded get_orm_def]] by auto
    let ?r = "(apply_update p orm)\<lparr>o_updated_at := now\<rparr>"
    have id: "o_id ?r = oid" using orm by (simp add: apply_update_def)
    have ok: "outage_ok ?r" using ts_update orm by (intro apply_update_ok) (auto simp: outage_inv_def list_all_iff)
    have ids: "map o_id (set_outage oid ?r t) = map o_id t" unfolding set_outage_def by (rule map_set_row [where key = o_id, OF id])
    have "outage_inv (set_outage oid ?r t)"
      using ts_update ok set_set_row [of o_id oid ?r t] unfolding outage_inv_def ids
      by (auto simp: list_all_iff set_outage_def)
    moreover have "\<exists>r'\<in>set (set_outage oid ?r t). row_evolves r r'" if r: "r \<in> set t" for r
    proof (cases "o_id r = oid")
      case True
      have "r = orm"
        using ts_update r orm True unfolding outage_inv_def by (metis find_distinct_key option.inject)
      with r True apply_update_evolves [of p orm now] 2(3) show ?thesis
        by (intro bexI [of _ ?r]) (auto simp: set_outage_def set_upd_where)
    next
      case False
      with r show ?thesis by (intro bexI [of _ r]) (auto simp: set_outage_def set_upd_where)
    qed
    ultimately show ?thesis using 2(2) by (simp add: evolves_def)
  qed
qed

interpretation outage_table: growing_system table_step outage_inv evolves
  by unfold_locales (use table_step_keeps evolves_trans evolves_refl in blast)+

lemma table_steps_keep: "table_step\<^sup>*\<^sup>* t t' \<Longrightarrow> outage_inv t \<Longrightarrow> outage_inv t' \<and> evolves t t'"
  by (rule outage_table.history_keeps)

section \<open>Handlers over the table\<close>

lemma record_event_tables [simp]: "os_outages (snd (record_event conv now eid oid ty d s)) = os_outages s"
  by (simp add: record_event_def split: sum.split)

lemma outage_audit_tables [simp]:
  "os_outages (outage_audit env now ev d s) = os_outages s" "os_events (outage_audit env now ev d s) = os_events s"
  by (simp_all add: outage_audit_def)

lemma table_step_create: "table_step\<^sup>*\<^sup>* t (snd (create_or_get_existing started p t))"
  by (rule r_into_rtranclp [where r = table_step, OF ts_create])

lemma create_outage_table: "os_outages (snd (create_outage env now eid p s)) = snd (create_or_get_existing (oe_started env) p (os_outages s))"
proof -
  obtain r t where rt: "create_row (oe_started env) p (os_outages s) = (r, t)" by fastforce
  then have "t = snd (create_or_get_existing (oe_started env) p (os_outages s))"
    by (auto simp: create_row_def split: prod.splits)
  with rt show ?thesis
    by (cases r) (simp_all add: create_outage_def case_prod_beta split: sum.split)
qed

lemma bulk_loop_steps: "table_step\<^sup>*\<^sup>* t (snd (bulk_loop started ps t))"
proof (induction ps arbitrary: t)
  case (Cons p ps)
  let ?c = "create_or_get_existing started p t"
  have "table_step\<^sup>*\<^sup>* t (snd (bulk_loop started ps (snd ?c)))"
    by (rule rtranclp_trans [OF table_step_create Cons.IH])
  then show ?case using table_step_create [of t started p]
    by (auto simp: case_prod_beta split: prod.splits sum.split)
qed simp

lemma atomic_rows_steps: "table_step\<^sup>*\<^sup>* t (snd (atomic_rows started rows t))"
proof (induction rows arbitrary: t)
  case (Cons x rows)
  obtain r p where x: "x = (r, p)" by fastforce
  let ?c = "create_or_get_existing started p t"
  have "table_step\<^sup>*\<^sup>* t (snd (atomic_rows started rows (snd ?c)))"
    by (rule rtranclp_trans [OF table_step_create Cons.IH])
  then show ?case using table_step_create [of t started p]
    by (auto simp: x case_prod_beta split: prod.splits sum.split)
qed simp

definition row_table :: "real \<Rightarrow> outage_create res \<Rightarrow> outage_row list \<Rightarrow> outage_row list" where
  "row_table started parsed t = (case parsed of Inl e \<Rightarrow> t | Inr p \<Rightarrow> snd (create_or_get_existing started p t))"

definition row_persists :: "outage_create res \<Rightarrow> outage_row list \<Rightarrow> bool" where
  "row_persists parsed t \<longleftrightarrow> (case parsed of Inl e \<Rightarrow> False | Inr p \<Rightarrow> check_duplicate p t = Inr None)"

lemma partial_rows_Cons:
  "snd (partial_rows started i ((rid, parsed) # rows) t) = snd (partial_rows started (Suc i) rows (row_table started parsed t))"
  "snd (fst (partial_rows started i ((rid, parsed) # rows) t)) =
     (if row_persists parsed t then Suc else id) (snd (fst (partial_rows started (Suc i) rows (row_table started parsed t))))"
  "length (fst (fst (partial_rows started i ((rid, parsed) # rows) t))) =
     Suc (length (fst (fst (partial_rows started (Suc i) rows (row_table started parsed t)))))"
  by (cases parsed; cases "check_duplicate (projr parsed) t"; cases "projr (check_duplicate (projr parsed) t)";
      simp add: row_table_def row_persists_def create_or_get_existing_def case_prod_beta Let_def)+

lemma partial_rows_steps: "table_step\<^sup>*\<^sup>* t (snd (partial_rows started i rows t))"
proof (induction rows arbitrary: i t)
  case (Cons x rows)
  obtain rid parsed where x: "x = (rid, parsed)" by fastforce
  have "table_step\<^sup>*\<^sup>* t (row_table started parsed t)"
    by (cases parsed) (simp_all add: row_table_def table_step_create)
  from rtranclp_trans [OF this Cons.IH [where i = "Suc i"]] show ?case unfolding x partial_rows_Cons(1) .
qed simp

lemma import_steps: "table_step\<^sup>*\<^sup>* (os_outages s) (os_outages (snd (import_outages lm started dry c raw s)))"
  using atomic_rows_steps partial_rows_steps
  by (auto simp: import_outages_def Let_def case_prod_beta split: import_consistency.split sum.split)

lemma update_and_record_table:
  "os_outages (snd (update_and_record env now eid ty oid p dump s)) = snd (update_row now oid p (os_outages s))"
  by (auto simp: update_and_record_def case_prod_beta split: sum.split)

lemma table_step_update: "table_step\<^sup>*\<^sup>* t (snd (update_row now oid p t))"
  by (rule r_into_rtranclp [where r = table_step, OF ts_update])

lemma update_outage_steps: "table_step\<^sup>*\<^sup>* (os_outages s) (os_outages (snd (update_outage env now eid oid p dump s)))"
  using table_step_update
  by (auto simp: update_outage_def Let_def case_prod_beta update_and_record_table split: option.split sum.split)

lemma patch_outage_steps: "table_step\<^sup>*\<^sup>* (os_outages s) (os_outages (snd (patch_outage env now eid oid p dump s)))"
  using table_step_update by (auto simp: patch_outage_def update_and_record_table split: option.split)

lemma transition_refused:
  assumes "st = ''open'' \<or> st = ''resolved''"
  shows "\<exists>m. transition show_set now ctx oid st to_status log0 = (Inl (ValueError m), log0)"
  using assms by (auto simp: transition_def validate_outage_transition_def OUTAGE_TRANSITIONS_def can_transition_def)

lemma resolve_outage_refused:
  assumes "outage_inv (os_outages s)"
  shows "snd (resolve_outage env now acquired eid oid mttr s) = s"
    "\<exists>code m. fst (resolve_outage env now acquired eid oid mttr s) = Inl (HTTPException code m)
       \<and> code = (if get_orm oid (os_outages s) = None then 404 else 400)"
proof -
  have *: "\<exists>m. transition (oe_show_set env) now (oe_ctx env) oid (o_status r) ''resolved'' (os_audit s)
      = (Inl (ValueError m), os_audit s)" if "get_orm oid (os_outages s) = Some r" for r
    using that assms find_SomeD [of _ "os_outages s" r] unfolding get_orm_def
    by (intro transition_refused) (auto simp: outage_inv_def list_all_iff outage_ok_def)
  then show "snd (resolve_outage env now acquired eid oid mttr s) = s"
    by (cases "get_orm oid (os_outages s)")
      (auto simp: resolve_outage_def get_outage_row_def outage_orm_to_pydantic_def)
  from * show "\<exists>code m. fst (resolve_outage env now acquired eid oid mttr s) = Inl (HTTPException code m)
       \<and> code = (if get_orm oid (os_outages s) = None then 404 else 400)"
    by (cases "get_orm oid (os_outages s)")
      (auto simp: resolve_outage_def get_outage_row_def outage_orm_to_pydantic_def http_on_ValueError_def)
qed

inductive outage_step :: "outage_state \<Rightarrow> outage_state \<Rightarrow> bool" where
  os_create: "outage_step s (snd (create_outage env now eid p s))"
| os_bulk: "outage_step s (snd (bulk_create_outages env ps s))"
| os_import: "outage_step s (snd (import_outages lm started dry c raw s))"
| os_update: "outage_step s (snd (update_outage env now eid oid p dump s))"
| os_patch: "outage_step s (snd (patch_outage env now eid oid p dump s))"
| os_delete: "outage_step s (snd (delete_outage oid s))"
| os_resolve: "outage_step s (snd (resolve_outage env now acquired eid oid mttr s))"
| os_recompute: "outage_step s (snd (recompute_sla acquired oid s))"

lemma outage_step_table:
  assumes "outage_step s s'" "outage_inv (os_outages s)"
  shows "table_step\<^sup>*\<^sup>* (os_outages s) (os_outages s')"
  using assms
proof (induction rule: outage_step.induct)
  case (os_create s env now eid p)
  show ?case unfolding create_outage_table by (rule table_step_create)
next
  case (os_bulk s env ps)
  show ?case using bulk_loop_steps by (auto simp: bulk_create_outages_def case_prod_beta)
next
  case (os_import s lm started dry c raw)
  show ?case by (rule import_steps)
next
  case (os_update s env now eid oid p dump)
  show ?case by (rule update_outage_steps)
next
  case (os_patch s env now eid oid p dump)
  show ?case by (rule patch_outage_steps)
next
  case (os_delete s oid)
  show ?case by (simp add: delete_outage_def split: option.split)
next
  case (os_resolve s env now acquired eid oid mttr)
  then show ?case by (simp add: resolve_outage_refused)
next
  case (os_recompute s acquired oid)
  show ?case by (simp add: recompute_sla_def split: option.split)
qed

definition outage_init :: outage_state where
  "outage_init = \<lparr>os_outages = [], os_events = [], os_audit = []\<rparr>"

interpretation outage_api: growing_system outage_step "\<lambda>s. outage_inv (os_outages s)" "\<lambda>s t. evolves (os_outages s) (os_outages t)"
  by unfold_locales (use table_steps_keep outage_step_table evolves_trans evolves_refl in blast)+

lemma outage_steps_keep:
  "outage_step\<^sup>*\<^sup>* s s' \<Longrightarrow> outage_inv (os_outages s) \<Longrightarrow> outage_inv (os_outages s') \<and> evolves (os_outages s) (os_outages s')"
  by (rule outage_api.history_keeps)

lemma outage_init_inv [simp]: "outage_inv (os_outages outage_init)"
  by (simp add: outage_init_def outage_inv_def)

section \<open>Creation and import\<close>

text \<open>A payload is settled when the table has a row with its id or with its content.\<close>

definition settled :: "outage_create \<Rightarrow> outage_row list \<Rightarrow> bool" where
  "settled p t \<longleftrightarrow> get_orm (oc_id p) t \<noteq> None \<or> find_duplicate_orm p t \<noteq> None"

lemma settled_iff: "settled p t \<longleftrightarrow> check_duplicate p t \<noteq> Inr None"
  by (auto simp: settled_def check_duplicate_None)

lemma settled_append: "settled p t \<Longrightarrow> settled p (t @ u)"
  by (auto simp: settled_def get_orm_def find_duplicate_orm_def find_None_iff_all)

lemma create_settles: "settled p (snd (create_or_get_existing started p t))"
proof (cases "settled p t")
  case False
  then show ?thesis
    by (auto simp: create_table settled_iff) (auto simp: check_duplicate_None get_orm_def find_None_iff_all OutageORM_def)
qed (auto simp: create_table settled_iff)

lemma row_table_append: "\<exists>u. row_table started parsed t = t @ u"
  by (cases parsed) (auto simp: row_table_def create_table)

lemma row_table_length: "length (row_table started parsed t) = (if row_persists parsed t then Suc else id) (length t)"
  by (cases parsed) (auto simp: row_table_def row_persists_def create_table)

lemma partial_rows_append: "\<exists>u. snd (partial_rows started i rows t) = t @ u"
proof (induction rows arbitrary: i t)
  case (Cons x rows)
  obtain rid parsed where x: "x = (rid, parsed)" by fastforce
  obtain u v where "row_table started parsed t = t @ u"
      "snd (partial_rows started (Suc i) rows (t @ u)) = (t @ u) @ v"
    using row_table_append Cons.IH by metis
  then show ?case unfolding x partial_rows_Cons(1) by simp
qed simp

lemma partial_rows_settles:
  "(rid, Inr p) \<in> set rows \<Longrightarrow> settled p (snd (partial_rows started i rows t))"
proof (induction rows arbitrary: i t)
  case (Cons x rows)
  obtain rid' parsed where x: "x = (rid', parsed)" by fastforce
  show ?case
  proof (cases "(rid, Inr p) \<in> set rows")
    case True
    then show ?thesis unfolding x partial_rows_Cons(1) by (rule Cons.IH)
  next
    case False
    with Cons.prems x have "settled p (row_table started parsed t)" by (auto simp: row_table_def create_settles)
    then show ?thesis unfolding x partial_rows_Cons(1)
      using partial_rows_append [of started "Suc i" rows "row_table started parsed t"] settled_append by fastforce
  qed
qed simp

lemma partial_rows_again:
  assumes "\<And>rid p. (rid, Inr p) \<in> set rows \<Longrightarrow> settled p t"
  shows "snd (partial_rows started i rows t) = t \<and> snd (fst (partial_rows started i rows t)) = 0"
  using assms
proof (induction rows arbitrary: i)
  case (Cons x rows)
  obtain rid parsed where x: "x = (rid, parsed)" by fastforce
  have "row_table started parsed t = t \<and> \<not> row_persists parsed t"
  proof (cases parsed)
    case (Inr p)
    with Cons.prems [of rid p] x have "settled p t" by simp
    then show ?thesis using Inr by (simp add: row_table_def row_persists_def create_table settled_iff)
  qed (simp add: row_table_def row_persists_def)
  with Cons.IH [of "Suc i"] Cons.prems show ?case unfolding x partial_rows_Cons by auto
qed simp

lemma partial_rows_growth:
  "length (snd (partial_rows started i rows t)) = length t + snd (fst (partial_rows started i rows t))
   \<and> length (fst (fst (partial_rows started i rows t))) = length rows"
proof (induction rows arbitrary: i t)
  case (Cons x rows)
  obtain rid parsed where x: "x = (rid, parsed)" by fastforce
  show ?case unfolding x partial_rows_Cons using Cons.IH [of "Suc i" "row_table started parsed t"]
    by (simp add: row_table_length)
qed simp

lemma import_partial:
  assumes "length raw \<le> MAX_BULK_OUTAGES_COUNT lm"
  shows "import_outages lm started False Partial raw s =
    (let x = partial_rows started 0 (map (validate_raw lm) raw) (os_outages s)
     in (Inr (mk_import_response ''import'' (length raw) (snd (fst x)) (fst (fst x))), s\<lparr>os_outages := snd x\<rparr>))"
  using assms by (simp add: import_outages_def Let_def case_prod_beta)

lemma response_counts:
  "length outcomes = n \<Longrightarrow> imp_validated (mk_import_response m n k outcomes) + imp_error_count (mk_import_response m n k outcomes) = n"
  using sum_length_filter_compl [of "\<lambda>r. ir_error r = None" outcomes] by (simp add: mk_import_response_def)

lemma response_fields [simp]:
  "imp_persisted (mk_import_response m n k outcomes) = k" "imp_total_rows (mk_import_response m n k outcomes) = n"
  by (simp_all add: mk_import_response_def)

lemma zip_split_at:
  "length os = length (ps @ p # qs) \<Longrightarrow>
    zip os (ps @ p # qs) = zip (take (length ps) os) ps @ (os ! length ps, p) # zip (drop (Suc (length ps)) os) qs"
proof (induction ps arbitrary: os)
  case (Cons q ps)
  then show ?case by (cases os) auto
qed (auto simp: length_Suc_conv)

lemma atomic_rows_append:
  assumes "bulk_loop started ps t = (Inr y, t1)" "length os = length ps" "create_or_get_existing started p t1 = (Inl e, t2)"
  shows "atomic_rows started (zip os ps @ (r, p) # rest) t = (Inl e, t2)"
  using assms
proof (induction ps arbitrary: t y os)
  case (Cons q ps)
  then obtain r0 os' where r0: "os = r0 # os'" by (cases os) auto
  obtain x b t' where c: "create_or_get_existing started q t = (Inr (x, b), t')"
    using Cons.prems(1) by (cases "create_or_get_existing started q t") (auto split: sum.splits)
  then obtain y' where "bulk_loop started ps t' = (Inr y', t1)"
    using Cons.prems(1) by (cases "bulk_loop started ps t'") (auto split: sum.splits prod.splits simp: map_sum_def)
  from Cons.IH [OF this] Cons.prems r0 c show ?case by simp
qed simp

section \<open>Properties\<close>

text \<open>
  C8. Life cycle: in every reachable state ids are unique and statuses and severities are valid; from there on
  a row is never removed, keeps its site and detection time, and its status follows the repository's table; a
  resolved outage is never reopened.
\<close>

theorem outage_lifecycle:
  assumes "outage_step\<^sup>*\<^sup>* outage_init s" "outage_step\<^sup>*\<^sup>* s s'" "get_orm oid (os_outages s) = Some r"
  shows "outage_inv (os_outages s') \<and> (\<exists>r'. get_orm oid (os_outages s') = Some r'
    \<and> o_site_id r' = o_site_id r \<and> o_detected_at r' = o_detected_at r
    \<and> (\<exists>ts. status_policy.run (\<lambda>c n. validate_status_transition c n = Inr ()) (o_status r) ts (o_status r'))
    \<and> (o_status r = ''resolved'' \<longrightarrow> o_status r' = ''resolved''))"
proof -
  have "outage_inv (os_outages s)" using outage_steps_keep [OF assms(1)] by simp
  from outage_steps_keep [OF assms(2) this] have inv: "outage_inv (os_outages s')"
    and ev: "evolves (os_outages s) (os_outages s')" by auto
  have r: "r \<in> set (os_outages s)" "o_id r = oid" using find_SomeD [OF assms(3) [unfolded get_orm_def]] by auto
  from ev r obtain r' where r': "r' \<in> set (os_outages s')" "row_evolves r r'" by (auto simp: evolves_def)
  then have "get_orm oid (os_outages s') = Some r'"
    using inv find_distinct_key [of o_id "os_outages s'" r'] r(2)
    by (simp add: get_orm_def row_evolves_def outage_inv_def)
  moreover have "o_status r = ''resolved'' \<Longrightarrow> o_status r' = ''resolved''"
    using r'(2) outage_policy.run_final by (auto simp: row_evolves_def)
  ultimately show ?thesis using inv r'(2) by (auto simp: row_evolves_def)
qed

definition sample_outage :: outage_create where
  "sample_outage = \<lparr>oc_id = ''o1'', oc_site_name = ''s'', oc_site_id = None, oc_severity = high, oc_status = Status_resolved,
     oc_detected_at = Aware 10, oc_description = ''d'', oc_affected_services = [''4G''], oc_affected_subscribers = None,
     oc_assigned_to = None, oc_created_by = None, oc_location = None\<rparr>"

definition sample_outage_env :: outage_env where
  "sample_outage_env = \<lparr>oe_started = 0, oe_as_int = Some, oe_show_set = (\<lambda>_. []), oe_ctx = None\<rparr>"

definition sample_outage_state :: outage_state where
  "sample_outage_state = snd (create_outage sample_outage_env 1 ''evt'' sample_outage outage_init)"

lemma sample_outage_reachable: "outage_step\<^sup>*\<^sup>* outage_init sample_outage_state"
  unfolding sample_outage_state_def by (rule r_into_rtranclp [where r = outage_step, OF os_create])

lemma sample_outage_row: "get_orm ''o1'' (os_outages sample_outage_state) = Some (OutageORM 0 sample_outage)"
  by (simp add: sample_outage_state_def create_outage_table create_table check_duplicate_None outage_init_def get_orm_def
      find_duplicate_orm_def sample_outage_def sample_outage_env_def OutageORM_def)

definition sample_reopen :: outage_update where
  "sample_reopen = \<lparr>ou_status = Some (Some Status_open), ou_site_name = None, ou_severity = None, ou_resolved_at = None,
     ou_description = None, ou_affected_services = None, ou_affected_subscribers = None, ou_assigned_to = None,
     ou_created_by = None, ou_location = None\<rparr>"

theorem outage_lifecycle_witness:
  "\<exists>r'. get_orm ''o1'' (os_outages (snd (patch_outage sample_outage_env 2 ''e2'' ''o1'' sample_reopen [] sample_outage_state)))
      = Some r' \<and> o_status r' = ''resolved''"
proof -
  have "o_status (OutageORM 0 sample_outage) = ''resolved''" by (simp add: OutageORM_def sample_outage_def)
  with outage_lifecycle [OF sample_outage_reachable
      r_into_rtranclp [where r = outage_step, OF os_patch [of _ sample_outage_env 2 "''e2''" "''o1''" sample_reopen "[]"]]
      sample_outage_row]
  show ?thesis by (elim conjE exE) auto
qed

text \<open>
  The status machine of the handlers knows neither \<open>open\<close> nor a way out of \<open>resolved\<close>: in every reachable state
  \<open>resolve_outage\<close> answers 404 or 400 and changes nothing, \<open>update_outage\<close> refuses every status with 400, and
  since no outage ever gets a repair time the list of violations is empty.
\<close>

theorem resolve_never_succeeds:
  assumes "outage_step\<^sup>*\<^sup>* outage_init s"
  shows "(\<exists>m. resolve_outage env now acquired eid oid mttr s
            = (Inl (HTTPException (if get_orm oid (os_outages s) = None then 404 else 400) m), s))
    \<and> (ou_status p = Some (Some st) \<longrightarrow> get_orm oid (os_outages s) \<noteq> None \<longrightarrow>
         (\<exists>m. update_outage env now eid oid p dump s = (Inl (HTTPException 400 m), s)))
    \<and> list_violations cfg (os_outages s) = Inr []"
proof (intro conjI impI)
  have inv: "outage_inv (os_outages s)" using outage_steps_keep [OF assms] by simp
  show "\<exists>m. resolve_outage env now acquired eid oid mttr s
            = (Inl (HTTPException (if get_orm oid (os_outages s) = None then 404 else 400) m), s)"
    using resolve_outage_refused [OF inv, of env now acquired eid oid mttr] by (auto simp: prod_eq_iff)
  show "\<exists>m. update_outage env now eid oid p dump s = (Inl (HTTPException 400 m), s)"
    if st: "ou_status p = Some (Some st)" and "get_orm oid (os_outages s) \<noteq> None"
  proof -
    from that obtain r where r: "get_orm oid (os_outages s) = Some r" by auto
    then have "outage_ok r" using inv find_SomeD unfolding get_orm_def outage_inv_def list_all_iff by fast
    then obtain m where "transition (oe_show_set env) now (oe_ctx env) oid (o_status r) (outage_status_value st) (os_audit s)
        = (Inl (ValueError m), os_audit s)" using transition_refused unfolding outage_ok_def by metis
    with st r show ?thesis
      by (simp add: update_outage_def get_outage_row_def outage_orm_to_pydantic_def http_on_ValueError_def)
  qed
  have "violations_of cfg t = Inr []" if "list_all outage_ok t" for t
    using that by (induction t) (auto simp: outage_ok_def)
  moreover have "list_all outage_ok (filter (\<lambda>r. o_status r = ''resolved'') (os_outages s))"
    using inv by (auto simp: outage_inv_def list_all_iff)
  ultimately show "list_violations cfg (os_outages s) = Inr []" by (simp add: list_violations_def)
qed

theorem resolve_never_succeeds_witness:
  "\<exists>m. resolve_outage sample_outage_env 5 True ''e3'' ''o1'' 30 sample_outage_state = (Inl (HTTPException 400 m), sample_outage_state)"
  using resolve_never_succeeds [OF sample_outage_reachable, of sample_outage_env 5 True "''e3''" "''o1''" 30]
  by (simp add: sample_outage_row)

text \<open>
  Creation is idempotent: whenever it answers, the same payload answers with the same outage again, not
  persisted, and leaves the table as it is; a persisted outage is what a lookup by id returns, and the table
  grows exactly when one is persisted.
\<close>

theorem create_idempotent:
  assumes "create_or_get_existing started p t = (Inr (x, persisted), t')"
  shows "create_or_get_existing started' p t' = (Inr (x, False), t')
    \<and> (persisted \<longrightarrow> get_outage_row (oc_id p) t' = Some x \<and> length t' = Suc (length t)) \<and> (\<not> persisted \<longrightarrow> t' = t)"
proof (cases "check_duplicate p t = Inr None")
  case True
  then have new: "get_orm (oc_id p) t = None" by (simp add: check_duplicate_None)
  have eqs: "x = outage_orm_to_pydantic (OutageORM started p)" "persisted" "t' = t @ [OutageORM started p]"
    using assms True by (auto simp: create_or_get_existing_def Let_def)
  have "get_orm (oc_id p) t' = Some (OutageORM started p)"
    using new by (simp add: eqs get_orm_def table_simps OutageORM_def)
  moreover have "is_same_outage (OutageORM started p) p" by (simp add: is_same_outage_def OutageORM_def)
  ultimately show ?thesis using eqs
    by (simp add: create_or_get_existing_def check_duplicate_def get_outage_row_def)
next
  case False
  then show ?thesis using assms
    by (auto simp: create_or_get_existing_def Let_def split: sum.splits option.splits)
qed

theorem create_idempotent_witness:
  "\<exists>x t'. create_or_get_existing 0 sample_outage [] = (Inr (x, True), t') \<and> create_or_get_existing 7 sample_outage t' = (Inr (x, False), t')"
proof -
  have c: "create_or_get_existing 0 sample_outage [] =
      (Inr (outage_orm_to_pydantic (OutageORM 0 sample_outage), True), [OutageORM 0 sample_outage])"
    by (simp add: create_or_get_existing_def check_duplicate_def get_orm_def find_duplicate_orm_def Let_def)
  with create_idempotent [OF c, of 7] show ?thesis by blast
qed


definition sample_limits :: outage_limits where
  "sample_limits = \<lparr>MAX_SITE_NAME_LENGTH = 255, MAX_DESCRIPTION_LENGTH = 5000, MAX_AFFECTED_SERVICES_COUNT = 50,
     MAX_BULK_OUTAGES_COUNT = 1000\<rparr>"


text \<open>
  The atomic import is all-or-nothing only for validation errors: an invalid row leaves the state unchanged,
  but when a row conflicts with an existing id after the rows before it were created, the answer is 500 and those
  rows stay in the table.
\<close>

theorem atomic_import_keeps_prefix:
  assumes "length raw \<le> MAX_BULK_OUTAGES_COUNT lm"
    and "map (validate_raw lm) raw = map (\<lambda>p. (Some (oc_id p), Inr p)) (ps @ p # qs)"
    and "bulk_loop started ps (os_outages s) = (Inr y, t)" "check_duplicate p t = Inl e"
  shows "import_outages lm started False Atomic raw s
      = (Inl (HTTPException 500 (''Transaction failed: '' @ exc_msg e)), s\<lparr>os_outages := t\<rparr>)
    \<and> (\<exists>r. import_outages lm started False Atomic ((rid, Inl e') # tl raw) s = (Inr r, s) \<and> imp_persisted r = 0)"
proof
  have ok: "parsed_rows (map (\<lambda>p. (Some (oc_id p), Inr p)) xs) = xs" for xs by (induction xs) auto
  have none: "\<not> list_ex (\<lambda>r. ir_error r \<noteq> None) (parse_outcomes i (map (\<lambda>p. (Some (oc_id p), Inr p)) xs))" for xs i
    by (induction xs arbitrary: i) (auto simp: import_row_ok_def)
  have len: "length (parse_outcomes i xs) = length xs" for xs i by (induction xs arbitrary: i) (auto split: prod.splits)
  let ?o = "parse_outcomes 0 (map (\<lambda>p. (Some (oc_id p), Inr p)) (ps @ p # qs))"
  have split: "zip ?o (ps @ p # qs) = zip (take (length ps) ?o) ps @ (?o ! length ps, p) # zip (drop (Suc (length ps)) ?o) qs"
    by (rule zip_split_at) (simp add: len)
  have "atomic_rows started (zip ?o (ps @ p # qs)) (os_outages s) = (Inl e, t)"
    unfolding split using assms(3,4) len by (intro atomic_rows_append) (auto simp: create_or_get_existing_def)
  moreover have "length raw = length (ps @ p # qs)" using arg_cong [OF assms(2), of length] by (simp only: length_map)
  then have "\<not> MAX_BULK_OUTAGES_COUNT lm < Suc (length ps + length qs)" using assms(1) by simp
  ultimately show "import_outages lm started False Atomic raw s
      = (Inl (HTTPException 500 (''Transaction failed: '' @ exc_msg e)), s\<lparr>os_outages := t\<rparr>)"
    using assms(1,2) none by (simp add: import_outages_def ok Let_def del: parse_outcomes.simps map_append)
  show "\<exists>r. import_outages lm started False Atomic ((rid, Inl e') # tl raw) s = (Inr r, s) \<and> imp_persisted r = 0"
    using assms(1,2) by (cases raw) (auto simp: import_outages_def Let_def validate_raw_def row_error_def)
qed

theorem atomic_import_keeps_prefix_witness:
  "fst (import_outages sample_limits 0 False Atomic [(Some ''o1'', Inr sample_outage),
       (Some ''o1'', Inr (sample_outage\<lparr>oc_description := ''other''\<rparr>))] outage_init)
     = Inl (HTTPException 500 (''Transaction failed: '' @ ''Outage with id '' @ quoted ''o1'' @ '' already exists with different content''))
   \<and> length (os_outages (snd (import_outages sample_limits 0 False Atomic [(Some ''o1'', Inr sample_outage),
       (Some ''o1'', Inr (sample_outage\<lparr>oc_description := ''other''\<rparr>))] outage_init))) = 1"
proof -
  have v: "map (validate_raw sample_limits) [(Some ''o1'', Inr sample_outage), (Some ''o1'', Inr (sample_outage\<lparr>oc_description := ''other''\<rparr>))]
      = map (\<lambda>p. (Some (oc_id p), Inr p)) ([sample_outage] @ sample_outage\<lparr>oc_description := ''other''\<rparr> # [])"
    by (simp add: validate_raw_def OutageCreate_def sample_outage_def sample_limits_def)
  have b: "bulk_loop 0 [sample_outage] (os_outages outage_init) = (Inr ([outage_orm_to_pydantic (OutageORM 0 sample_outage)], 1),
      [OutageORM 0 sample_outage])"
    by (simp add: outage_init_def create_or_get_existing_def check_duplicate_def get_orm_def find_duplicate_orm_def Let_def)
  have d: "check_duplicate (sample_outage\<lparr>oc_description := ''other''\<rparr>) [OutageORM 0 sample_outage]
      = Inl (ValueError (''Outage with id '' @ quoted ''o1'' @ '' already exists with different content''))"
    by (simp add: check_duplicate_def get_orm_def OutageORM_def is_same_outage_def sample_outage_def)
  show ?thesis using atomic_import_keeps_prefix [OF _ v b d] by (simp add: sample_limits_def)
qed

end
