(* ===== verification/Jobs.thy ===== *)
theory Jobs
  imports AuditTrail
begin

text \<open>
  Background jobs: the table of \<open>app/models/job.py\<close>, the bookkeeping of \<open>DatabaseTask\<close> and the SLA tasks of
  \<open>app/tasks/sla_tasks.py\<close>, leases, retention and retry policies of \<open>app/services/job_cleanup.py\<close> and the handlers
  of \<open>app/api/v1/endpoints/jobs.py\<close>.

  Celery is an argument: the id that \<open>apply_async\<close> returns (or its failure) and the state of a task. The function
  \<open>compute_device_sla\<close> that the tasks import is an argument too; \<open>app/services/sla_service.py\<close> does not define it, so in
  this commit it is an import error. Text columns that hold \<open>json.dumps\<close> output are kept as the JSON value. One clock
  reading is used per operation. Metrics and log lines are left out, and so is \<open>error_details\<close>, which is only
  ever set to null.
\<close>

section \<open>The table\<close>

datatype job_status = J_PENDING | J_STARTED | J_SUCCESS | J_FAILURE | J_REVOKED | J_QUARANTINED | J_DEAD_LETTER

fun job_status_value :: "job_status \<Rightarrow> string" where
  "job_status_value J_PENDING = ''pending''"
| "job_status_value J_STARTED = ''started''"
| "job_status_value J_SUCCESS = ''success''"
| "job_status_value J_FAILURE = ''failure''"
| "job_status_value J_REVOKED = ''revoked''"
| "job_status_value J_QUARANTINED = ''quarantined''"
| "job_status_value J_DEAD_LETTER = ''dead_letter''"

definition all_job_statuses :: "job_status list" where
  "all_job_statuses = [J_PENDING, J_STARTED, J_SUCCESS, J_FAILURE, J_REVOKED, J_QUARANTINED, J_DEAD_LETTER]"

definition JobStatus :: "string \<Rightarrow> job_status option" where
  "JobStatus v = find (\<lambda>s. job_status_value s = v) all_job_statuses"

datatype job_type = SLA_COMPUTATION | WEBHOOK_DISPATCH | BULK_SLA_COMPUTATION | WEBHOOK_DR_REPLAY

fun job_type_value :: "job_type \<Rightarrow> string" where
  "job_type_value SLA_COMPUTATION = ''sla_computation''"
| "job_type_value WEBHOOK_DISPATCH = ''webhook_dispatch''"
| "job_type_value BULK_SLA_COMPUTATION = ''bulk_sla_computation''"
| "job_type_value WEBHOOK_DR_REPLAY = ''webhook_dr_replay''"

record job =
  j_id :: string
  j_task :: string
  j_type :: job_type
  j_status :: job_status
  j_payload :: "(string \<times> json) list option"
  j_result :: "json option"
  j_error :: "string option"
  j_error_code :: "string option"
  j_error_retryable :: "bool option"
  j_progress :: real
  j_progress_details :: "(string \<times> json) list option"
  j_partial_results :: "(string \<times> json) list option"
  j_item_errors :: "(string \<times> json) list option"
  j_retry_count :: int
  j_max_retries :: int
  j_retry_class :: "string option"
  j_last_retried_at :: "real option"
  j_dead_letter_reason :: "string option"
  j_dead_letter_at :: "real option"
  j_started_at :: "real option"
  j_finished_at :: "real option"
  j_created_at :: real
  j_payload_hash :: "string option"
  j_quarantine_reason :: "string option"
  j_quarantined_at :: "real option"
  j_worker :: "string option"
  j_heartbeat_at :: "real option"
  j_lease :: "real option"
  j_under_investigation :: bool
  j_under_dispute :: bool
  j_audit_critical :: bool

text \<open>\<open>Job(celery_task_id=.., job_type=.., payload=..)\<close> with the column defaults.\<close>

definition Job :: "string \<Rightarrow> real \<Rightarrow> string \<Rightarrow> job_type \<Rightarrow> (string \<times> json) list \<Rightarrow> job" where
  "Job uid now task ty payload =
    \<lparr>j_id = uid, j_task = task, j_type = ty, j_status = J_PENDING, j_payload = Some payload, j_result = None, j_error = None,
     j_error_code = None, j_error_retryable = None, j_progress = 0, j_progress_details = None, j_partial_results = None,
     j_item_errors = None, j_retry_count = 0, j_max_retries = 3, j_retry_class = None, j_last_retried_at = None,
     j_dead_letter_reason = None, j_dead_letter_at = None, j_started_at = None, j_finished_at = None, j_created_at = now,
     j_payload_hash = None, j_quarantine_reason = None, j_quarantined_at = None, j_worker = None, j_heartbeat_at = None,
     j_lease = None, j_under_investigation = False, j_under_dispute = False, j_audit_critical = False\<rparr>"

record job_state =
  js_jobs :: "job list"
  js_audit :: "audit_entry list"

record job_settings =
  JOB_LEASE_TIMEOUT_SECONDS :: int
  JOB_LEASE_RECLAMATION_ENABLED :: bool
  JOB_RETRY_DEAD_LETTER_ENABLED :: bool
  JOB_RETENTION_SUCCESS_DAYS :: int
  JOB_RETENTION_FAILURE_DAYS :: int
  JOB_RETENTION_REVOKED_DAYS :: int
  JOB_RETENTION_QUARANTINED_DAYS :: int
  JOB_RETENTION_DEAD_LETTER_DAYS :: int
  JOB_RETENTION_AUDIT_CRITICAL_DAYS :: int

definition job_by_id :: "string \<Rightarrow> job list \<Rightarrow> job option" where
  "job_by_id uid t = find (\<lambda>j. j_id j = uid) t"

definition job_by_task :: "string \<Rightarrow> job list \<Rightarrow> job option" where
  "job_by_task task t = find (\<lambda>j. j_task j = task) t"

definition upd_task :: "string \<Rightarrow> (job \<Rightarrow> job) \<Rightarrow> job list \<Rightarrow> job list" where
  "upd_task task = upd_where (\<lambda>j. j_task j = task)"

definition upd_job :: "string \<Rightarrow> (job \<Rightarrow> job) \<Rightarrow> job list \<Rightarrow> job list" where
  "upd_job uid = upd_where (\<lambda>j. j_id j = uid)"

definition add_job_row :: "job \<Rightarrow> job list \<Rightarrow> unit res \<times> job list" where
  "add_job_row j t = (if list_ex (\<lambda>x. j_id x = j_id j \<or> j_task x = j_task j) t then (Inl (IntegrityError ''jobs''), t)
     else (Inr (), t @ [j]))"

text \<open>Assigning \<open>celery_task_id\<close> and committing: the column is unique.\<close>

definition set_task_id :: "string \<Rightarrow> string \<Rightarrow> job list \<Rightarrow> unit res \<times> job list" where
  "set_task_id uid task t =
    (if list_ex (\<lambda>x. j_task x = task \<and> j_id x \<noteq> uid) t then (Inl (IntegrityError ''jobs''), t)
     else (Inr (), upd_job uid (\<lambda>j. j\<lparr>j_task := task\<rparr>) t))"

definition job_audit :: "real \<Rightarrow> string option \<Rightarrow> string \<Rightarrow> (string \<times> json) list \<Rightarrow> job_state \<Rightarrow> job_state" where
  "job_audit now ctx ev d s = s\<lparr>js_audit := log_event now ctx ev None None (Some d) None (js_audit s)\<rparr>"

fun opt_str :: "string option \<Rightarrow> json" where
  "opt_str None = JNull"
| "opt_str (Some s) = JStr s"

fun opt_obj :: "(string \<times> json) list option \<Rightarrow> json" where
  "opt_obj None = JNull"
| "opt_obj (Some d) = JObj d"

section \<open>Task bookkeeping\<close>

definition mark_started :: "int \<Rightarrow> real \<Rightarrow> string \<Rightarrow> job list \<Rightarrow> job list" where
  "mark_started timeout now task = upd_task task (\<lambda>j. j\<lparr>j_status := J_STARTED, j_started_at := Some now,
     j_heartbeat_at := Some now, j_lease := Some (now + real_of_int timeout)\<rparr>)"

definition heartbeat :: "int \<Rightarrow> real \<Rightarrow> string \<Rightarrow> job list \<Rightarrow> job list" where
  "heartbeat timeout now task = upd_task task (\<lambda>j. if j_status j = J_STARTED
     then j\<lparr>j_heartbeat_at := Some now, j_lease := Some (now + real_of_int timeout)\<rparr> else j)"

definition mark_success :: "real \<Rightarrow> string \<Rightarrow> json \<Rightarrow> job list \<Rightarrow> job list" where
  "mark_success now task result = upd_task task (\<lambda>j. j\<lparr>j_status := J_SUCCESS, j_result := Some result, j_progress := 100,
     j_finished_at := Some now, j_lease := None, j_heartbeat_at := None\<rparr>)"

text \<open>\<open>_hash_job_payload\<close>: the digest of the canonical JSON of the payload, \<open>""\<close> when there is none.\<close>

definition hash_job_payload :: "((string \<times> json) list option \<Rightarrow> string) \<Rightarrow> job \<Rightarrow> string" where
  "hash_job_payload digest j = digest (j_payload j)"

definition dead_letter_text :: "int \<Rightarrow> string \<Rightarrow> string" where
  "dead_letter_text m err = ''Max retries exhausted ('' @ str_int m @ ''). Last error: '' @ err"

definition mark_failure ::
  "bool \<Rightarrow> ((string \<times> json) list option \<Rightarrow> string) \<Rightarrow> real \<Rightarrow> string option \<Rightarrow> string \<Rightarrow> string \<Rightarrow> string option \<Rightarrow>
   bool option \<Rightarrow> job_state \<Rightarrow> job_state" where
  "mark_failure dead_letter_enabled digest now ctx task err code retryable s =
    (case job_by_task task (js_jobs s) of
       None \<Rightarrow> s
     | Some j \<Rightarrow>
       (let attempts = j_retry_count j + 1 in
        if attempts \<ge> max (j_max_retries j) 0 then
          if dead_letter_enabled then
            job_audit now ctx ''job_dead_lettered''
              [(''job_id'', JStr (j_id j)), (''celery_task_id'', JStr task), (''job_type'', JStr (job_type_value (j_type j))),
               (''retry_count'', JInt attempts), (''max_retries'', JInt (j_max_retries j)),
               (''retry_class'', opt_str (j_retry_class j)), (''error'', JStr err), (''error_code'', opt_str code)]
              (s\<lparr>js_jobs := upd_task task (\<lambda>j. j\<lparr>j_status := J_DEAD_LETTER,
                 j_dead_letter_reason := Some (dead_letter_text (j_max_retries j) err), j_dead_letter_at := Some now,
                 j_finished_at := Some now, j_retry_count := attempts, j_error := Some err,
                 j_error_code := Some (case code of None \<Rightarrow> ''DEAD_LETTER'' | Some c \<Rightarrow> if c = [] then ''DEAD_LETTER'' else c),
                 j_error_retryable := Some False\<rparr>) (js_jobs s)\<rparr>)
          else
            job_audit now ctx ''job_quarantined''
              [(''job_id'', JStr (j_id j)), (''celery_task_id'', JStr task), (''job_type'', JStr (job_type_value (j_type j))),
               (''retry_count'', JInt attempts), (''max_retries'', JInt (j_max_retries j)),
               (''payload_hash'', JStr (hash_job_payload digest j)), (''error'', JStr err)]
              (s\<lparr>js_jobs := upd_task task (\<lambda>j. j\<lparr>j_payload_hash := Some (hash_job_payload digest j),
                 j_quarantine_reason := Some err, j_quarantined_at := Some now, j_status := J_QUARANTINED,
                 j_retry_count := attempts, j_finished_at := Some now,
                 j_error_code := Some (case code of None \<Rightarrow> ''QUARANTINED'' | Some c \<Rightarrow> if c = [] then ''QUARANTINED'' else c),
                 j_error_retryable := Some False\<rparr>) (js_jobs s)\<rparr>)
        else
          s\<lparr>js_jobs := upd_task task (\<lambda>j. j\<lparr>j_retry_count := attempts, j_status := J_FAILURE, j_error := Some err,
             j_error_code := code, j_error_retryable := Some (case retryable of None \<Rightarrow> False | Some b \<Rightarrow> b),
             j_finished_at := Some now\<rparr>) (js_jobs s)\<rparr>))"

definition update_progress :: "string \<Rightarrow> real \<Rightarrow> (string \<times> json) list option \<Rightarrow> job list \<Rightarrow> job list" where
  "update_progress task p details = upd_task task (\<lambda>j. j\<lparr>j_progress := min p 99,
     j_progress_details := (case details of None \<Rightarrow> j_progress_details j
        | Some d \<Rightarrow> if d = [] then j_progress_details j else Some d)\<rparr>)"

text \<open>
  The JSON columns are plain \<open>JSON\<close>, without mutation tracking: the entry is stored when the column was empty and the
  dict is assigned; adding to a dict that was loaded from the row does not mark it as changed.
\<close>

definition add_json_entry :: "string \<Rightarrow> json \<Rightarrow> (string \<times> json) list option \<Rightarrow> (string \<times> json) list option" where
  "add_json_entry k v col = (case col of None \<Rightarrow> Some [(k, v)] | Some d \<Rightarrow> if d = [] then Some [(k, v)] else Some d)"

definition add_partial_result :: "string \<Rightarrow> string \<Rightarrow> json \<Rightarrow> job list \<Rightarrow> job list" where
  "add_partial_result task item result =
    upd_task task (\<lambda>j. j\<lparr>j_partial_results := add_json_entry item result (j_partial_results j)\<rparr>)"

definition add_item_error :: "string \<Rightarrow> string \<Rightarrow> string \<Rightarrow> job list \<Rightarrow> job list" where
  "add_item_error task item err =
    upd_task task (\<lambda>j. j\<lparr>j_item_errors := add_json_entry item (JStr err) (j_item_errors j)\<rparr>)"

definition log_retry :: "real \<Rightarrow> string option \<Rightarrow> string \<Rightarrow> int \<Rightarrow> string \<Rightarrow> job_state \<Rightarrow> job_state" where
  "log_retry now ctx task retry_count err s =
    (case job_by_task task (js_jobs s) of
       None \<Rightarrow> s
     | Some j \<Rightarrow> job_audit now ctx ''job_retried''
         [(''job_id'', JStr (j_id j)), (''celery_task_id'', JStr task), (''job_type'', JStr (job_type_value (j_type j))),
          (''retry_count'', JInt retry_count), (''error'', JStr err), (''payload'', opt_obj (j_payload j))] s)"

section \<open>The SLA tasks\<close>

record task_env =
  te_settings :: job_settings
  te_digest :: "(string \<times> json) list option \<Rightarrow> string"
  te_import :: "exc option"
  te_compute :: "string \<Rightarrow> string \<Rightarrow> (string \<times> json) list res"
  te_trigger :: "string \<Rightarrow> (string \<times> json) list \<Rightarrow> unit res"
  te_ctx :: "string option"

text \<open>\<open>te_import\<close> is what the import statement raises, if it does; \<open>compute_device_sla\<close> is the import and the call.\<close>

definition compute_device_sla :: "task_env \<Rightarrow> string \<Rightarrow> string \<Rightarrow> (string \<times> json) list res" where
  "compute_device_sla env device period =
    (case te_import env of Some e \<Rightarrow> Inl e | None \<Rightarrow> te_compute env device period)"

fun json_true :: "json \<Rightarrow> bool" where
  "json_true JNull = False"
| "json_true (JBool b) = b"
| "json_true (JInt i) = (i \<noteq> 0)"
| "json_true (JNum x) = (x \<noteq> 0)"
| "json_true (JStr s) = (s \<noteq> [])"
| "json_true (JArr l) = (l \<noteq> [])"
| "json_true (JObj d) = (d \<noteq> [])"

definition is_violated :: "(string \<times> json) list \<Rightarrow> bool" where
  "is_violated r \<longleftrightarrow> (case map_of r ''is_violated'' of None \<Rightarrow> False | Some v \<Rightarrow> json_true v)"

definition on_jobs :: "(job list \<Rightarrow> job list) \<Rightarrow> job_state \<Rightarrow> job_state" where
  "on_jobs f s = s\<lparr>js_jobs := f (js_jobs s)\<rparr>"

definition stage :: "string \<Rightarrow> string \<Rightarrow> string \<Rightarrow> (string \<times> json) list \<Rightarrow> (string \<times> json) list option" where
  "stage name device period extra =
    Some ([(''stage'', JStr name), (''device_id'', JStr device), (''period'', JStr period)] @ extra)"

text \<open>The \<open>except\<close> branch of both tasks: \<open>retries\<close> is Celery's counter, the answer is the exception handed to \<open>self.retry\<close>.\<close>

definition task_failed ::
  "task_env \<Rightarrow> real \<Rightarrow> int \<Rightarrow> string \<Rightarrow> int \<Rightarrow> string \<Rightarrow> exc \<Rightarrow> job_state \<Rightarrow> (string \<times> json) list res \<times> job_state" where
  "task_failed env now max_retries code retries task e s =
    (let err = exc_msg e; again = retries < max_retries;
         s1 = (if again then log_retry now (te_ctx env) task (retries + 1) err s else s)
     in (Inl e, mark_failure (JOB_RETRY_DEAD_LETTER_ENABLED (te_settings env)) (te_digest env) now (te_ctx env) task err
           (Some code) (Some again) s1))"

definition compute_sla_for_device ::
  "task_env \<Rightarrow> real \<Rightarrow> int \<Rightarrow> string \<Rightarrow> string \<Rightarrow> string \<Rightarrow> job_state \<Rightarrow> (string \<times> json) list res \<times> job_state" where
  "compute_sla_for_device env now retries task device period s =
    (let s1 = on_jobs (mark_started (JOB_LEASE_TIMEOUT_SECONDS (te_settings env)) now task) s;
         s2 = on_jobs (update_progress task 30 (stage ''data_collection'' device period [])) s1
     in if te_import env \<noteq> None then
          task_failed env now 3 ''SLA_COMPUTATION_ERROR'' retries task (the (te_import env)) s1
        else case te_compute env device period of
          Inl e \<Rightarrow> task_failed env now 3 ''SLA_COMPUTATION_ERROR'' retries task e s2
        | Inr result \<Rightarrow>
          (let s3 = on_jobs (update_progress task 70 (stage ''sla_computation_complete'' device period
                      [(''is_violated'', (case map_of result ''is_violated'' of None \<Rightarrow> JBool False | Some v \<Rightarrow> v))])) s2;
               s4 = (if is_violated result then on_jobs (update_progress task 85 (stage ''triggering_webhooks'' device period
                      [(''violation_detected'', JBool True)])) s3 else s3)
           in case (if is_violated result then te_trigger env device result else Inr ()) of
                Inl e \<Rightarrow> task_failed env now 3 ''SLA_COMPUTATION_ERROR'' retries task e s4
              | Inr _ \<Rightarrow>
                (Inr result, on_jobs (mark_success now task (JObj result))
                  (on_jobs (update_progress task 95 (stage ''finalizing'' device period [])) s4))))"

text \<open>The loop of \<open>compute_bulk_sla\<close>: results, violated devices, processed and failed counts.\<close>

record bulk_acc =
  ba_results :: "json list"
  ba_violations :: "string list"
  ba_processed :: nat
  ba_errors :: nat

definition bulk_item :: "task_env \<Rightarrow> string \<Rightarrow> string \<Rightarrow> string \<Rightarrow> bulk_acc \<Rightarrow> job list \<Rightarrow> bulk_acc \<times> job list" where
  "bulk_item env task period device acc t =
    (case compute_device_sla env device period of
       Inl e \<Rightarrow>
         (acc\<lparr>ba_results := ba_results acc @ [JObj [(''device_id'', JStr device), (''error'', JStr (exc_msg e))]],
              ba_errors := Suc (ba_errors acc)\<rparr>, add_item_error task device (exc_msg e) t)
     | Inr result \<Rightarrow>
         (let acc1 = acc\<lparr>ba_results := ba_results acc @ [JObj [(''device_id'', JStr device), (''result'', JObj result)]]\<rparr>;
              t1 = add_partial_result task device (JObj result) t
          in if is_violated result then
               (let acc2 = acc1\<lparr>ba_violations := ba_violations acc1 @ [device]\<rparr> in
                case te_trigger env device result of
                  Inl e \<Rightarrow>
                    (acc2\<lparr>ba_results := ba_results acc2 @ [JObj [(''device_id'', JStr device), (''error'', JStr (exc_msg e))]],
                          ba_errors := Suc (ba_errors acc2)\<rparr>, add_item_error task device (exc_msg e) t1)
                | Inr _ \<Rightarrow> (acc2\<lparr>ba_processed := Suc (ba_processed acc2)\<rparr>, t1))
             else (acc1\<lparr>ba_processed := Suc (ba_processed acc1)\<rparr>, t1)))"

definition bulk_details :: "nat \<Rightarrow> string \<Rightarrow> bulk_acc \<Rightarrow> real \<Rightarrow> (string \<times> json) list" where
  "bulk_details n device acc pct =
    [(''stage'', JStr ''processing_devices''), (''current_device'', JStr device),
     (''processed_count'', JInt (int (ba_processed acc))), (''error_count'', JInt (int (ba_errors acc))),
     (''total_devices'', JInt (int n)), (''violations_found'', JInt (int (length (ba_violations acc)))),
     (''progress_percentage'', JNum pct)]"

fun bulk_devices ::
  "task_env \<Rightarrow> string \<Rightarrow> string \<Rightarrow> nat \<Rightarrow> nat \<Rightarrow> string list \<Rightarrow> bulk_acc \<Rightarrow> job list \<Rightarrow> bulk_acc \<times> job list" where
  "bulk_devices env task period n i [] acc t = (acc, t)"
| "bulk_devices env task period n i (d # ds) acc t =
    (let (acc1, t1) = bulk_item env task period d acc t; p = (real i / real n) * 100
     in bulk_devices env task period n (Suc i) ds acc1
          (update_progress task p (Some (bulk_details n d acc1 (py_round 2 p))) t1))"

definition bulk_summary :: "nat \<Rightarrow> bulk_acc \<Rightarrow> (string \<times> json) list" where
  "bulk_summary n acc =
    [(''total'', JInt (int n)), (''violations'', JInt (int (length (ba_violations acc)))),
     (''violated_devices'', JArr (map JStr (ba_violations acc))), (''processed_count'', JInt (int (ba_processed acc))),
     (''error_count'', JInt (int (ba_errors acc))), (''results'', JArr (ba_results acc))]"

text \<open>With every failure of a device caught in the loop, nothing is left for the outer \<open>except\<close>.\<close>

definition compute_bulk_sla ::
  "task_env \<Rightarrow> real \<Rightarrow> string \<Rightarrow> string list \<Rightarrow> string \<Rightarrow> job_state \<Rightarrow>
   (string \<times> json) list res \<times> job_state" where
  "compute_bulk_sla env now task devices period s =
    (let n = length devices;
         s1 = on_jobs (mark_started (JOB_LEASE_TIMEOUT_SECONDS (te_settings env)) now task) s;
         s2 = on_jobs (update_progress task 5 (Some [(''stage'', JStr ''initialization''), (''total_devices'', JInt (int n)),
                (''period'', JStr period)])) s1;
         (acc, t) = bulk_devices env task period n 1 devices
            \<lparr>ba_results = [], ba_violations = [], ba_processed = 0, ba_errors = 0\<rparr> (js_jobs s2);
         s3 = on_jobs (update_progress task 95 (Some [(''stage'', JStr ''finalizing''), (''total_devices'', JInt (int n)),
                (''processed_count'', JInt (int (ba_processed acc))), (''error_count'', JInt (int (ba_errors acc))),
                (''violations_found'', JInt (int (length (ba_violations acc))))])) (s2\<lparr>js_jobs := t\<rparr>);
         summary = bulk_summary n acc
     in (Inr summary, on_jobs (mark_success now task (JObj summary)) s3))"

section \<open>Retry policies and leases\<close>

record retry_policy =
  rp_class :: string
  rp_max_retries :: int
  rp_base_delay :: int

definition RETRY_CLASS_DEFAULTS :: "(string \<times> retry_policy) list" where
  "RETRY_CLASS_DEFAULTS =
    [(''sla_computation'', \<lparr>rp_class = ''exponential_backoff'', rp_max_retries = 3, rp_base_delay = 30\<rparr>),
     (''bulk_sla_computation'', \<lparr>rp_class = ''exponential_backoff'', rp_max_retries = 2, rp_base_delay = 60\<rparr>),
     (''webhook_dispatch'', \<lparr>rp_class = ''at_least_once'', rp_max_retries = 5, rp_base_delay = 30\<rparr>),
     (''webhook_dr_replay'', \<lparr>rp_class = ''at_most_once'', rp_max_retries = 1, rp_base_delay = 60\<rparr>)]"

definition get_retry_policy :: "string \<Rightarrow> retry_policy" where
  "get_retry_policy ty = (case map_of RETRY_CLASS_DEFAULTS ty of
     None \<Rightarrow> \<lparr>rp_class = ''at_least_once'', rp_max_retries = 3, rp_base_delay = 30\<rparr> | Some p \<Rightarrow> p)"

definition heartbeat_job :: "real \<Rightarrow> string \<Rightarrow> string \<Rightarrow> int \<Rightarrow> job list \<Rightarrow> job option \<times> job list" where
  "heartbeat_job now task worker timeout t =
    (case job_by_task task t of
       None \<Rightarrow> (None, t)
     | Some j \<Rightarrow>
       (let f = (\<lambda>j. j\<lparr>j_heartbeat_at := Some now, j_lease := Some (now + real_of_int timeout), j_worker := Some worker\<rparr>)
        in (Some (f j), upd_task task f t)))"

definition stale_lease :: "real \<Rightarrow> job \<Rightarrow> bool" where
  "stale_lease now j \<longleftrightarrow> (case j_lease j of None \<Rightarrow> False | Some l \<Rightarrow> l < now) \<and> j_worker j \<noteq> None \<and> j_status j = J_STARTED"

text \<open>\<open>fmt\<close> renders an instant.\<close>

definition reclaimed :: "(real \<Rightarrow> string) \<Rightarrow> real \<Rightarrow> job \<Rightarrow> job" where
  "reclaimed fmt now j = j\<lparr>j_worker := None, j_heartbeat_at := None, j_lease := None, j_status := J_PENDING, j_started_at := None,
     j_error := Some (''Lease expired (worker='' @ the (j_worker j) @ '', expired='' @ fmt (the (j_lease j)) @
       ''); reclaimed at '' @ fmt now)\<rparr>"

fun reclaim_loop :: "(real \<Rightarrow> string) \<Rightarrow> real \<Rightarrow> string option \<Rightarrow> job list \<Rightarrow> job_state \<Rightarrow> job_state" where
  "reclaim_loop fmt now ctx [] s = s"
| "reclaim_loop fmt now ctx (j # js) s =
    reclaim_loop fmt now ctx js
      (job_audit now ctx ''job_lease_reclaimed''
        [(''job_id'', JStr (j_id j)), (''celery_task_id'', JStr (j_task j)), (''job_type'', JStr (job_type_value (j_type j))),
         (''previous_worker'', opt_str (j_worker j)), (''lease_expired'', opt_str (map_option fmt (j_lease j))),
         (''reclaimed_at'', JStr (fmt now))]
        (on_jobs (upd_job (j_id j) (reclaimed fmt now)) s))"

record reclaim_report =
  rr_found :: nat
  rr_reclaimed :: nat
  rr_dry_run :: bool

definition reclaim_stale_leases ::
  "(real \<Rightarrow> string) \<Rightarrow> real \<Rightarrow> string option \<Rightarrow> nat \<Rightarrow> bool \<Rightarrow> job_state \<Rightarrow> reclaim_report \<times> job_state" where
  "reclaim_stale_leases fmt now ctx batch_size dry_run s =
    (let stale = take batch_size (filter (stale_lease now) (js_jobs s));
         report = \<lparr>rr_found = length stale, rr_reclaimed = length stale, rr_dry_run = dry_run\<rparr>
     in (report, if dry_run then s else reclaim_loop fmt now ctx stale s))"

section \<open>Retention\<close>

definition finished_before :: "real \<Rightarrow> job \<Rightarrow> bool" where
  "finished_before cutoff j \<longleftrightarrow> (case j_finished_at j of None \<Rightarrow> False | Some f \<Rightarrow> f < cutoff)"

definition eligible :: "job_status \<Rightarrow> real \<Rightarrow> job \<Rightarrow> bool" where
  "eligible st cutoff j \<longleftrightarrow> j_status j = st \<and> finished_before cutoff j \<and> \<not> j_under_investigation j \<and> \<not> j_under_dispute j
     \<and> \<not> j_audit_critical j"

definition eligible_critical :: "real \<Rightarrow> job \<Rightarrow> bool" where
  "eligible_critical cutoff j \<longleftrightarrow> j_audit_critical j \<and> finished_before cutoff j \<and> \<not> j_under_investigation j \<and> \<not> j_under_dispute j"

text \<open>The batch loop of \<open>_delete_eligible\<close> and \<open>cleanup_audit_critical\<close>.\<close>

function delete_batches :: "(job \<Rightarrow> bool) \<Rightarrow> nat \<Rightarrow> job list \<Rightarrow> nat \<times> job list" where
  "delete_batches P batch_size t =
    (let ids = map j_id (take batch_size (filter P t)) in
     if ids = [] then (0, t)
     else (let t' = del_where (\<lambda>j. j_id j \<in> set ids) t in
       if length ids < batch_size then (length ids, t')
       else (let (k, t'') = delete_batches P batch_size t' in (length ids + k, t''))))"
  by pat_completeness auto

lemma batch_shrinks:
  assumes "map j_id (take n (filter P t)) \<noteq> []"
  shows "length (del_where (\<lambda>j. j_id j \<in> set (map j_id (take n (filter P t)))) t) < length t"
proof -
  from assms obtain j where j: "j \<in> set (take n (filter P t))" by (cases "take n (filter P t)") auto
  then have "j \<in> set t" using set_take_subset by fastforce
  with j show ?thesis unfolding del_where_def by (intro length_filter_less [of j]) auto
qed

termination delete_batches
  by (relation "measure (\<lambda>(P, n, t). length t)") (use batch_shrinks in auto)

declare delete_batches.simps [simp del]

definition delete_eligible :: "(job \<Rightarrow> bool) \<Rightarrow> int \<Rightarrow> job list \<Rightarrow> nat res \<times> job list" where
  "delete_eligible P batch_size t =
    (if batch_size < 0 then (Inl (DBError ''LIMIT''), t)
     else (let (k, t') = delete_batches P (nat batch_size) t in (Inr k, t')))"

definition default_retention :: "job_settings \<Rightarrow> (string \<times> int) list" where
  "default_retention cfg = [(''success'', JOB_RETENTION_SUCCESS_DAYS cfg), (''failure'', JOB_RETENTION_FAILURE_DAYS cfg),
     (''revoked'', JOB_RETENTION_REVOKED_DAYS cfg), (''quarantined'', JOB_RETENTION_QUARANTINED_DAYS cfg),
     (''dead_letter'', JOB_RETENTION_DEAD_LETTER_DAYS cfg)]"

definition cutoff_at :: "real \<Rightarrow> int \<Rightarrow> real" where
  "cutoff_at now days = now - 86400 * real_of_int days"

text \<open>
  The loop over the windows: the counts per status, their sum and the table. The recorded count is replaced by
  the number of deleted rows.
\<close>

fun sweep ::
  "real \<Rightarrow> bool \<Rightarrow> int \<Rightarrow> (string \<times> int) list \<Rightarrow> job list \<Rightarrow> ((string \<times> nat) list \<times> nat) res \<times> job list" where
  "sweep now dry_run batch_size [] t = (Inr ([], 0), t)"
| "sweep now dry_run batch_size ((st, days) # ws) t =
    (case JobStatus st of
       None \<Rightarrow> sweep now dry_run batch_size ws t
     | Some status \<Rightarrow>
       (let P = eligible status (cutoff_at now days); count = length (filter P t) in
        case (if \<not> dry_run \<and> count > 0 then delete_eligible P batch_size t else (Inr 0, t)) of
          (Inl e, t1) \<Rightarrow> (Inl e, t1)
        | (Inr deleted, t1) \<Rightarrow>
          (let (r, t2) = sweep now dry_run batch_size ws t1
           in (map_sum id (\<lambda>(l, n). ((st, if \<not> dry_run \<and> count > 0 then deleted else count) # l, deleted + n)) r, t2))))"

record cleanup_stats =
  cs_dry_run :: bool
  cs_deleted_by_status :: "(string \<times> nat) list"
  cs_total_deleted :: nat
  cs_cutoffs :: "(string \<times> real) list"

definition stats_json :: "(real \<Rightarrow> string) \<Rightarrow> cleanup_stats \<Rightarrow> (string \<times> json) list" where
  "stats_json fmt st =
    [(''dry_run'', JBool (cs_dry_run st)),
     (''deleted_by_status'', JObj (map (\<lambda>(k, n). (k, JInt (int n))) (cs_deleted_by_status st))),
     (''total_deleted'', JInt (int (cs_total_deleted st))),
     (''cutoffs'', JObj (map (\<lambda>(k, c). (k, JStr (fmt c))) (cs_cutoffs st)))]"

definition cleanup_old_jobs ::
  "job_settings \<Rightarrow> (real \<Rightarrow> string) \<Rightarrow> real \<Rightarrow> string option \<Rightarrow> (string \<times> int) list option \<Rightarrow> bool \<Rightarrow> int \<Rightarrow> job_state \<Rightarrow>
   cleanup_stats res \<times> job_state" where
  "cleanup_old_jobs cfg fmt now ctx retention_days dry_run batch_size s =
    (let windows = (case retention_days of None \<Rightarrow> default_retention cfg
                    | Some w \<Rightarrow> if w = [] then default_retention cfg else w) in
     case sweep now dry_run batch_size windows (js_jobs s) of
       (Inl e, t) \<Rightarrow> (Inl e, s\<lparr>js_jobs := t\<rparr>)
     | (Inr (by_status, n), t) \<Rightarrow>
       (let stats = \<lparr>cs_dry_run = dry_run, cs_deleted_by_status = by_status, cs_total_deleted = n,
                     cs_cutoffs = map (\<lambda>(k, d). (k, cutoff_at now d)) windows\<rparr>;
            s1 = s\<lparr>js_jobs := t\<rparr>
        in (Inr stats, if \<not> dry_run \<and> n > 0 then job_audit now ctx ''job_cleanup_executed'' (stats_json fmt stats) s1 else s1)))"

record critical_report =
  cr_eligible :: nat
  cr_deleted :: nat
  cr_dry_run :: bool
  cr_retention_days :: int

definition cleanup_audit_critical ::
  "job_settings \<Rightarrow> real \<Rightarrow> int \<Rightarrow> bool \<Rightarrow> int \<Rightarrow> job list \<Rightarrow> critical_report res \<times> job list" where
  "cleanup_audit_critical cfg now retention_days dry_run batch_size t =
    (let days = (if retention_days = 0 then JOB_RETENTION_AUDIT_CRITICAL_DAYS cfg else retention_days);
         P = eligible_critical (cutoff_at now days); count = length (filter P t) in
     case (if \<not> dry_run \<and> count > 0 then delete_eligible P batch_size t else (Inr 0, t)) of
       (Inl e, t1) \<Rightarrow> (Inl e, t1)
     | (Inr deleted, t1) \<Rightarrow>
       (Inr \<lparr>cr_eligible = count, cr_deleted = (if \<not> dry_run then deleted else count), cr_dry_run = dry_run,
             cr_retention_days = days\<rparr>, t1))"

record retention_stats =
  rs_total :: nat
  rs_by_status :: "(string \<times> nat) list"
  rs_by_age :: "(string \<times> nat) list"
  rs_protected :: "(string \<times> nat) list"

definition get_retention_stats :: "real \<Rightarrow> job list \<Rightarrow> retention_stats" where
  "get_retention_stats now t =
    \<lparr>rs_total = length t,
     rs_by_status = map (\<lambda>st. (job_status_value st, length (filter (\<lambda>j. j_status j = st) t))) all_job_statuses,
     rs_by_age = map (\<lambda>(label, days). (label, length (filter (\<lambda>j. j_created_at j < cutoff_at now days) t)))
       [(''older_than_30_days'', 30), (''older_than_60_days'', 60), (''older_than_90_days'', 90),
        (''older_than_180_days'', 180), (''older_than_365_days'', 365)],
     rs_protected = [(''under_investigation'', length (filter j_under_investigation t)),
       (''under_dispute'', length (filter j_under_dispute t)), (''audit_critical'', length (filter j_audit_critical t))]\<rparr>"

definition set_investigation_flag ::
  "real \<Rightarrow> string option \<Rightarrow> string \<Rightarrow> bool \<Rightarrow> job_state \<Rightarrow> job option \<times> job_state" where
  "set_investigation_flag now ctx uid flag s =
    (case job_by_id uid (js_jobs s) of
       None \<Rightarrow> (None, s)
     | Some j \<Rightarrow>
       (let f = (\<lambda>j. j\<lparr>j_under_investigation := flag\<rparr>) in
        (Some (f j), job_audit now ctx ''job_investigation_flag_changed''
          [(''job_id'', JStr uid), (''under_investigation'', JBool flag)] (on_jobs (upd_job uid f) s))))"

definition set_dispute_flag ::
  "real \<Rightarrow> string option \<Rightarrow> string \<Rightarrow> bool \<Rightarrow> job_state \<Rightarrow> job option \<times> job_state" where
  "set_dispute_flag now ctx uid flag s =
    (case job_by_id uid (js_jobs s) of
       None \<Rightarrow> (None, s)
     | Some j \<Rightarrow>
       (let f = (\<lambda>j. j\<lparr>j_under_dispute := flag\<rparr>) in
        (Some (f j), job_audit now ctx ''job_dispute_flag_changed''
          [(''job_id'', JStr uid), (''under_dispute'', JBool flag)] (on_jobs (upd_job uid f) s))))"

section \<open>Handlers\<close>

text \<open>
  \<open>je_show\<close> renders a status inside an f-string, \<open>je_email\<close> the acting user. A dispatch is what \<open>apply_async\<close> or
  \<open>delay\<close> gives: a task id, or the error of the broker.
\<close>

record job_env =
  je_settings :: job_settings
  je_iso :: "real \<Rightarrow> string"
  je_show :: "job_status \<Rightarrow> string"
  je_ctx :: "string option"
  je_email :: string

definition enqueue_payload :: "string option \<Rightarrow> (string \<times> json) list \<Rightarrow> (string \<times> json) list" where
  "enqueue_payload correlation base =
    (case correlation of None \<Rightarrow> base | Some c \<Rightarrow> if c = [] then base else base @ [(''correlation_id'', JStr c)])"

text \<open>
  \<open>enqueue_sla_computation\<close> and \<open>enqueue_bulk_sla_computation\<close>: the task is sent, then a row is inserted and
  committed together with whatever the session holds.
\<close>

definition enqueue ::
  "job_type \<Rightarrow> real \<Rightarrow> string option \<Rightarrow> string \<Rightarrow> string res \<Rightarrow> (string \<times> json) list \<Rightarrow> job list \<Rightarrow> job res \<times> job list" where
  "enqueue ty now correlation uid dispatch base t =
    (case dispatch of
       Inl e \<Rightarrow> (Inl e, t)
     | Inr task \<Rightarrow>
       (let j = Job uid now task ty (enqueue_payload correlation base) in
        case add_job_row j t of (Inl e, t1) \<Rightarrow> (Inl e, t1) | (Inr _, t1) \<Rightarrow> (Inr j, t1)))"

definition sla_payload :: "json \<Rightarrow> json \<Rightarrow> (string \<times> json) list" where
  "sla_payload device period = [(''device_id'', device), (''period'', period)]"

definition bulk_payload :: "json \<Rightarrow> json \<Rightarrow> (string \<times> json) list" where
  "bulk_payload devices period = [(''device_ids'', devices), (''period'', period)]"

definition apply_policy :: "job \<Rightarrow> job list \<Rightarrow> job list" where
  "apply_policy j = upd_job (j_id j) (\<lambda>x. x\<lparr>j_retry_class := Some (rp_class (get_retry_policy (job_type_value (j_type j))))\<rparr>)"

definition submit_sla_computation ::
  "job_env \<Rightarrow> real \<Rightarrow> string \<Rightarrow> string res \<Rightarrow> string \<Rightarrow> string \<Rightarrow> job_state \<Rightarrow> string res \<times> job_state" where
  "submit_sla_computation env now uid dispatch device period s =
    (case enqueue SLA_COMPUTATION now (je_ctx env) uid dispatch (sla_payload (JStr device) (JStr period)) (js_jobs s) of
       (Inl e, t) \<Rightarrow> (Inl e, s\<lparr>js_jobs := t\<rparr>)
     | (Inr j, t) \<Rightarrow> (Inr (j_id j), s\<lparr>js_jobs := apply_policy j t\<rparr>))"

definition submit_bulk_sla_computation ::
  "job_env \<Rightarrow> real \<Rightarrow> string \<Rightarrow> string res \<Rightarrow> string list \<Rightarrow> string \<Rightarrow> job_state \<Rightarrow> string res \<times> job_state" where
  "submit_bulk_sla_computation env now uid dispatch devices period s =
    (if devices = [] then (Inl (HTTPException 400 ''device_ids must not be empty.''), s)
     else case enqueue BULK_SLA_COMPUTATION now (je_ctx env) uid dispatch
              (bulk_payload (JArr (map JStr devices)) (JStr period)) (js_jobs s) of
       (Inl e, t) \<Rightarrow> (Inl e, s\<lparr>js_jobs := t\<rparr>)
     | (Inr j, t) \<Rightarrow> (Inr (j_id j), s\<lparr>js_jobs := apply_policy j t\<rparr>))"

definition not_found :: exc where
  "not_found = HTTPException 404 ''Job not found.''"

definition celery_state_map :: "(string \<times> job_status) list" where
  "celery_state_map = [(''PENDING'', J_PENDING), (''STARTED'', J_STARTED), (''SUCCESS'', J_SUCCESS), (''FAILURE'', J_FAILURE),
     (''REVOKED'', J_REVOKED)]"

definition sync_job_status_from_celery :: "string \<Rightarrow> job \<Rightarrow> job list \<Rightarrow> job \<times> job list" where
  "sync_job_status_from_celery celery_state j t =
    (if j_status j \<in> {J_SUCCESS, J_FAILURE, J_REVOKED, J_DEAD_LETTER, J_QUARANTINED} then (j, t)
     else (let st = (case map_of celery_state_map celery_state of None \<Rightarrow> j_status j | Some x \<Rightarrow> x) in
       if st \<noteq> j_status j then (j\<lparr>j_status := st\<rparr>, upd_job (j_id j) (\<lambda>x. x\<lparr>j_status := st\<rparr>) t) else (j, t)))"

definition get_job :: "string \<Rightarrow> string \<Rightarrow> job_state \<Rightarrow> job res \<times> job_state" where
  "get_job celery_state uid s =
    (case job_by_id uid (js_jobs s) of
       None \<Rightarrow> (Inl not_found, s)
     | Some j \<Rightarrow> (let (j', t) = sync_job_status_from_celery celery_state j (js_jobs s) in (Inr j', s\<lparr>js_jobs := t\<rparr>)))"

record job_error_detail =
  ed_code :: string
  ed_message :: string
  ed_retryable :: bool

definition build_error_detail :: "job \<Rightarrow> job_error_detail option" where
  "build_error_detail j =
    (let nonempty = (\<lambda>x. x \<noteq> None \<and> x \<noteq> Some []); err = (case j_error j of None \<Rightarrow> [] | Some m \<Rightarrow> m) in
     if nonempty (j_error_code j) then Some \<lparr>ed_code = the (j_error_code j), ed_message = err,
        ed_retryable = (case j_error_retryable j of None \<Rightarrow> False | Some b \<Rightarrow> b)\<rparr>
     else if nonempty (j_error j) then Some \<lparr>ed_code = ''UNKNOWN'', ed_message = err, ed_retryable = False\<rparr>
     else None)"

definition list_jobs :: "job_type option \<Rightarrow> job_status option \<Rightarrow> nat \<Rightarrow> job list \<Rightarrow> job list" where
  "list_jobs ty st limit t =
    take limit (filter (\<lambda>j. (case ty of None \<Rightarrow> True | Some x \<Rightarrow> j_type j = x) \<and> (case st of None \<Rightarrow> True | Some x \<Rightarrow> j_status j = x))
      (rev (sort_key j_created_at t)))"

definition cancel_job :: "job_env \<Rightarrow> real \<Rightarrow> string \<Rightarrow> job_state \<Rightarrow> unit res \<times> job_state" where
  "cancel_job env now uid s =
    (case job_by_id uid (js_jobs s) of
       None \<Rightarrow> (Inl not_found, s)
     | Some j \<Rightarrow>
       if j_status j \<in> {J_SUCCESS, J_FAILURE, J_REVOKED, J_DEAD_LETTER} then
         (Inl (HTTPException 400 (''Cannot cancel a job with status '' @ quoted (je_show env (j_status j)) @ ''.'')), s)
       else
         (Inr (), on_jobs (upd_job uid (\<lambda>x. x\<lparr>j_status := J_REVOKED\<rparr>))
            (job_audit now (je_ctx env) ''job_revoked''
              [(''job_id'', JStr uid), (''celery_task_id'', JStr (j_task j)), (''job_type'', JStr (job_type_value (j_type j))),
               (''previous_status'', JStr (job_status_value (j_status j))), (''payload'', opt_obj (j_payload j))] s)))"

definition reset_for_retry :: "real \<Rightarrow> job \<Rightarrow> job" where
  "reset_for_retry now j = j\<lparr>j_retry_count := j_retry_count j + 1, j_last_retried_at := Some now, j_error := None,
     j_error_code := None, j_error_retryable := None, j_status := J_PENDING, j_progress := 0, j_started_at := None,
     j_finished_at := None, j_dead_letter_reason := None, j_dead_letter_at := None\<rparr>"

definition payload_get :: "string \<Rightarrow> json \<Rightarrow> job \<Rightarrow> json" where
  "payload_get k d j = (case map_of (case j_payload j of None \<Rightarrow> [] | Some p \<Rightarrow> p) k of None \<Rightarrow> d | Some v \<Rightarrow> v)"

text \<open>
  The common tail of \<open>retry_job\<close> and \<open>release_job_from_quarantine\<close>: the row has been modified in the session by
  \<open>f\<close>; \<open>enqueue\<close> commits that together with a new row, and the assignment of the new row's task id to the old
  row then violates the unique column. An \<open>HTTPException\<close> leaves the modification uncommitted; any other
  exception is rolled back and answered with 500.
\<close>

definition link_new_task ::
  "job_env \<Rightarrow> real \<Rightarrow> (exc \<Rightarrow> string res) \<Rightarrow> string \<Rightarrow> string res \<Rightarrow> job_type \<Rightarrow> (string \<times> json) list \<Rightarrow> string \<Rightarrow> job list \<Rightarrow>
   job_state \<Rightarrow> string res \<times> job_state" where
  "link_new_task env now fail uid' dispatch ty base uid t0 s =
    (case enqueue ty now (je_ctx env) uid' dispatch base t0 of
       (Inl e, _) \<Rightarrow> (fail e, s)
     | (Inr new, t1) \<Rightarrow>
       (case set_task_id uid (j_task new) t1 of
          (Inl e, _) \<Rightarrow> (fail e, s\<lparr>js_jobs := t1\<rparr>)
        | (Inr _, t2) \<Rightarrow> (Inr (j_task new), s\<lparr>js_jobs := t2\<rparr>)))"

definition redispatch ::
  "job_env \<Rightarrow> real \<Rightarrow> string \<Rightarrow> string \<Rightarrow> string \<Rightarrow> string res \<Rightarrow> (job \<Rightarrow> job) \<Rightarrow> job \<Rightarrow> job_state \<Rightarrow> string res \<times> job_state" where
  "redispatch env now failed unsupported uid' dispatch f j s =
    (let fail = (\<lambda>e. Inl (HTTPException 500 (failed @ exc_msg e)));
         t0 = upd_job (j_id j) f (js_jobs s);
         via = (\<lambda>ty base. link_new_task env now fail uid' dispatch ty base (j_id j) t0 s)
     in case j_type j of
          SLA_COMPUTATION \<Rightarrow> via SLA_COMPUTATION (sla_payload (payload_get ''device_id'' (JStr []) j) (payload_get ''period'' (JStr []) j))
        | BULK_SLA_COMPUTATION \<Rightarrow> via BULK_SLA_COMPUTATION (bulk_payload (payload_get ''device_ids'' (JArr []) j) (payload_get ''period'' (JStr []) j))
        | WEBHOOK_DISPATCH \<Rightarrow>
            (case dispatch of
               Inl e \<Rightarrow> (fail e, s)
             | Inr task \<Rightarrow>
               (case set_task_id (j_id j) task t0 of
                  (Inl e, _) \<Rightarrow> (fail e, s)
                | (Inr _, t2) \<Rightarrow> (Inr task, s\<lparr>js_jobs := t2\<rparr>)))
        | WEBHOOK_DR_REPLAY \<Rightarrow> (Inl (HTTPException 400 (unsupported @ job_type_value (j_type j))), s))"

definition retry_job :: "job_env \<Rightarrow> real \<Rightarrow> string \<Rightarrow> string res \<Rightarrow> string \<Rightarrow> job_state \<Rightarrow> string res \<times> job_state" where
  "retry_job env now uid' dispatch uid s =
    (case job_by_id uid (js_jobs s) of
       None \<Rightarrow> (Inl not_found, s)
     | Some j \<Rightarrow>
       if j_status j \<notin> {J_FAILURE, J_REVOKED, J_DEAD_LETTER} then
         (Inl (HTTPException 400 (''Cannot retry job with status '' @ quoted (job_status_value (j_status j))
            @ ''. Only FAILED, REVOKED, or DEAD_LETTER jobs can be retried.'')), s)
       else if j_retry_count j \<ge> j_max_retries j then
         if JOB_RETRY_DEAD_LETTER_ENABLED (je_settings env) \<and> j_status j \<noteq> J_DEAD_LETTER then
           (Inl (HTTPException 400 (''Job has exceeded maximum retry limit ('' @ str_int (j_max_retries j)
              @ '') and has been moved to DEAD_LETTER. Current retry count: '' @ str_int (j_retry_count j))),
            on_jobs (upd_job uid (\<lambda>x. x\<lparr>j_status := J_DEAD_LETTER,
              j_dead_letter_reason := Some (dead_letter_text (j_max_retries x)
                 (case j_error x of None \<Rightarrow> ''None'' | Some m \<Rightarrow> m)),
              j_dead_letter_at := Some now, j_finished_at := Some now\<rparr>)) s)
         else
           (Inl (HTTPException 400 (''Job has exceeded maximum retry limit ('' @ str_int (j_max_retries j)
              @ ''). Current retry count: '' @ str_int (j_retry_count j))), s)
       else if j_retry_class j = Some ''at_most_once'' then
         (Inl (HTTPException 400 (''Job has retry class '' @ quoted ''at_most_once'' @ '' and cannot be retried.'')), s)
       else
         (let s1 = job_audit now (je_ctx env) ''job_retry_initiated''
              [(''job_id'', JStr uid), (''original_celery_task_id'', JStr (j_task j)),
               (''job_type'', JStr (job_type_value (j_type j))), (''previous_status'', JStr (job_status_value (j_status j))),
               (''retry_count'', JInt (j_retry_count j + 1)), (''max_retries'', JInt (j_max_retries j)),
               (''retry_class'', opt_str (j_retry_class j)), (''payload'', opt_obj (j_payload j)),
               (''previous_error'', opt_str (j_error j)), (''correlation_id'', opt_str (je_ctx env)),
               (''initiated_by'', JStr (je_email env))] s
          in redispatch env now ''Failed to retry job: '' ''Unsupported job type for retry: '' uid' dispatch (reset_for_retry now) j s1))"

definition reset_released :: "job \<Rightarrow> job" where
  "reset_released j = j\<lparr>j_quarantined_at := None, j_quarantine_reason := None, j_payload_hash := None, j_retry_count := 0,
     j_error := None, j_error_code := None, j_error_retryable := None, j_finished_at := None, j_started_at := None,
     j_progress := 0, j_status := J_PENDING\<rparr>"

definition release_job_from_quarantine ::
  "job_env \<Rightarrow> real \<Rightarrow> string \<Rightarrow> string res \<Rightarrow> string \<Rightarrow> job_state \<Rightarrow> string res \<times> job_state" where
  "release_job_from_quarantine env now uid' dispatch uid s =
    (case job_by_id uid (js_jobs s) of
       None \<Rightarrow> (Inl not_found, s)
     | Some j \<Rightarrow>
       if j_status j \<noteq> J_QUARANTINED then
         (Inl (HTTPException 400 (''Job is not quarantined (current status: '' @ job_status_value (j_status j) @ '').'')), s)
       else
         (let s1 = job_audit now (je_ctx env) ''job_released_from_quarantine''
              [(''job_id'', JStr uid), (''celery_task_id'', JStr (j_task j)), (''job_type'', JStr (job_type_value (j_type j))),
               (''payload_hash'', opt_str (j_payload_hash j)), (''previous_quarantine_reason'', opt_str (j_quarantine_reason j)),
               (''released_by'', JStr (je_email env)), (''correlation_id'', opt_str (je_ctx env))] s
          in if j_type j = WEBHOOK_DISPATCH \<and> \<not> json_true (payload_get ''delivery_id'' JNull j)
                \<and> \<not> json_true (payload_get ''idempotency_key'' JNull j)
             then (Inl (HTTPException 400 ''webhook dispatch job payload missing delivery_id.''), s1)
             else redispatch env now ''Failed to release quarantine: '' ''Unsupported job type for release: '' uid' dispatch reset_released j s1))"

definition record_job_heartbeat :: "job_env \<Rightarrow> real \<Rightarrow> string \<Rightarrow> string \<Rightarrow> job_state \<Rightarrow> real res \<times> job_state" where
  "record_job_heartbeat env now uid worker s =
    (case job_by_id uid (js_jobs s) of
       None \<Rightarrow> (Inl not_found, s)
     | Some j \<Rightarrow>
       if j_status j \<notin> {J_STARTED, J_PENDING} then
         (Inl (HTTPException 400 (''Cannot heartbeat a job with status '' @ quoted (job_status_value (j_status j)) @ ''.'')), s)
       else (case heartbeat_job now (j_task j) worker (JOB_LEASE_TIMEOUT_SECONDS (je_settings env)) (js_jobs s) of
          (None, t) \<Rightarrow> (Inl (HTTPException 500 ''Failed to update heartbeat.''), s\<lparr>js_jobs := t\<rparr>)
        | (Some u, t) \<Rightarrow> (Inr now, s\<lparr>js_jobs := t\<rparr>)))"

definition reclaim_stale_job_leases ::
  "job_env \<Rightarrow> real \<Rightarrow> nat \<Rightarrow> bool \<Rightarrow> job_state \<Rightarrow> reclaim_report res \<times> job_state" where
  "reclaim_stale_job_leases env now batch_size dry_run s =
    (if \<not> JOB_LEASE_RECLAMATION_ENABLED (je_settings env) then
       (Inl (HTTPException 400 ''Lease reclamation is disabled in configuration.''), s)
     else (let (r, s1) = reclaim_stale_leases (je_iso env) now (je_ctx env) batch_size dry_run s in (Inr r, s1)))"

definition cleanup_handler ::
  "job_env \<Rightarrow> real \<Rightarrow> (string \<times> int) list option \<Rightarrow> bool \<Rightarrow> int \<Rightarrow> job_state \<Rightarrow> cleanup_stats res \<times> job_state" where
  "cleanup_handler env now retention_days dry_run batch_size s =
    (case cleanup_old_jobs (je_settings env) (je_iso env) now (je_ctx env) retention_days dry_run batch_size s of
       (Inl e, s1) \<Rightarrow> (Inl e, s1)
     | (Inr st, s1) \<Rightarrow>
       (Inr st, job_audit now (je_ctx env) ''job_cleanup_executed''
          [(''total_deleted'', JInt (int (cs_total_deleted st))),
           (''deleted_by_status'', JObj (map (\<lambda>(k, n). (k, JInt (int n))) (cs_deleted_by_status st))),
           (''dry_run'', JBool dry_run), (''executed_by'', JStr (je_email env))] s1))"

definition update_job_protection_flags ::
  "job_env \<Rightarrow> real \<Rightarrow> string \<Rightarrow> bool option \<Rightarrow> bool option \<Rightarrow> job_state \<Rightarrow> unit res \<times> job_state" where
  "update_job_protection_flags env now uid investigation dispute s =
    (case job_by_id uid (js_jobs s) of
       None \<Rightarrow> (Inl not_found, s)
     | Some j \<Rightarrow>
       (let s1 = (case investigation of None \<Rightarrow> s | Some b \<Rightarrow>
              job_audit now (je_ctx env) ''job_investigation_flag_changed''
                [(''job_id'', JStr uid), (''under_investigation'', JBool b), (''updated_by'', JStr (je_email env))]
                (on_jobs (upd_job uid (\<lambda>x. x\<lparr>j_under_investigation := b\<rparr>)) s));
            s2 = (case dispute of None \<Rightarrow> s1 | Some b \<Rightarrow>
              job_audit now (je_ctx env) ''job_dispute_flag_changed''
                [(''job_id'', JStr uid), (''under_dispute'', JBool b), (''updated_by'', JStr (je_email env))]
                (on_jobs (upd_job uid (\<lambda>x. x\<lparr>j_under_dispute := b\<rparr>)) s1))
        in (Inr (), s2)))"

section \<open>Reading handlers\<close>

text \<open>Timestamps in responses are kept as instants; \<open>isoformat\<close> only renders them.\<close>

record job_envelope =
  je_job_id :: string
  je_task_id :: string
  je_job_type :: string
  je_status :: string
  je_progress :: real
  je_result :: "json option"
  je_error :: "job_error_detail option"
  je_retry_count :: int
  je_max_retries :: int
  je_retry_class :: "string option"
  je_started_at :: "real option"
  je_finished_at :: "real option"
  je_created_at :: real
  je_worker :: "string option"
  je_lease :: "real option"
  je_flags :: "bool \<times> bool \<times> bool"

definition serialize_envelope :: "job \<Rightarrow> job_envelope" where
  "serialize_envelope j =
    \<lparr>je_job_id = j_id j, je_task_id = j_task j, je_job_type = job_type_value (j_type j), je_status = job_status_value (j_status j),
     je_progress = j_progress j, je_result = j_result j, je_error = build_error_detail j, je_retry_count = j_retry_count j,
     je_max_retries = (if j_max_retries j = 0 then 3 else j_max_retries j), je_retry_class = j_retry_class j,
     je_started_at = j_started_at j, je_finished_at = j_finished_at j, je_created_at = j_created_at j, je_worker = j_worker j,
     je_lease = j_lease j, je_flags = (j_under_investigation j, j_under_dispute j, j_audit_critical j)\<rparr>"

definition get_job_envelope :: "string \<Rightarrow> string \<Rightarrow> job_state \<Rightarrow> job_envelope res \<times> job_state" where
  "get_job_envelope celery_state uid s = (let (r, s1) = get_job celery_state uid s in (map_sum id serialize_envelope r, s1))"

record job_progress =
  jp_id :: string
  jp_status :: job_status
  jp_progress :: real
  jp_details :: "(string \<times> json) list option"
  jp_partial_results :: "(string \<times> json) list option"
  jp_item_errors :: "(string \<times> json) list option"

definition get_job_progress :: "string \<Rightarrow> string \<Rightarrow> job_state \<Rightarrow> job_progress res \<times> job_state" where
  "get_job_progress celery_state uid s =
    (let (r, s1) = get_job celery_state uid s in
     (map_sum id (\<lambda>j. \<lparr>jp_id = j_id j, jp_status = j_status j, jp_progress = j_progress j, jp_details = j_progress_details j,
        jp_partial_results = j_partial_results j, jp_item_errors = j_item_errors j\<rparr>) r, s1))"

text \<open>\<open>ORDER BY .. DESC NULLS LAST\<close>.\<close>

definition desc_nulls_last :: "(job \<Rightarrow> real option) \<Rightarrow> job list \<Rightarrow> job list" where
  "desc_nulls_last k t = rev (sort_key (\<lambda>j. the (k j)) (filter (\<lambda>j. k j \<noteq> None) t)) @ filter (\<lambda>j. k j = None) t"

record dead_letter_summary =
  dls_id :: string
  dls_task :: string
  dls_type :: job_type
  dls_reason :: "string option"
  dls_at :: "real option"
  dls_retry_count :: int
  dls_max_retries :: int
  dls_created_at :: real

definition list_dead_letter_jobs :: "nat \<Rightarrow> job list \<Rightarrow> dead_letter_summary list" where
  "list_dead_letter_jobs limit t =
    map (\<lambda>j. \<lparr>dls_id = j_id j, dls_task = j_task j, dls_type = j_type j, dls_reason = j_dead_letter_reason j,
        dls_at = j_dead_letter_at j, dls_retry_count = j_retry_count j, dls_max_retries = j_max_retries j, dls_created_at = j_created_at j\<rparr>)
      (take limit (desc_nulls_last j_dead_letter_at (filter (\<lambda>j. j_status j = J_DEAD_LETTER) t)))"

record quarantined_summary =
  qs_id :: string
  qs_task :: string
  qs_type :: job_type
  qs_payload_hash :: string
  qs_reason :: "string option"
  qs_at :: "real option"
  qs_retry_count :: int
  qs_max_retries :: int

definition list_quarantined_jobs :: "nat \<Rightarrow> job list \<Rightarrow> quarantined_summary list" where
  "list_quarantined_jobs limit t =
    map (\<lambda>j. \<lparr>qs_id = j_id j, qs_task = j_task j, qs_type = j_type j,
        qs_payload_hash = (case j_payload_hash j of None \<Rightarrow> [] | Some h \<Rightarrow> h), qs_reason = j_quarantine_reason j,
        qs_at = j_quarantined_at j, qs_retry_count = j_retry_count j, qs_max_retries = j_max_retries j\<rparr>)
      (take limit (desc_nulls_last j_quarantined_at (filter (\<lambda>j. j_status j = J_QUARANTINED) t)))"

text \<open>\<open>sorted(RETRY_CLASS_DEFAULTS.items())\<close>: the keys are distinct, so the policies are never compared.\<close>

definition list_retry_policies :: "(string \<times> retry_policy) list" where
  "list_retry_policies = map (\<lambda>k. (k, the (map_of RETRY_CLASS_DEFAULTS k))) (sort (map fst RETRY_CLASS_DEFAULTS))"

definition cleanup_audit_critical_jobs ::
  "job_settings \<Rightarrow> real \<Rightarrow> int \<Rightarrow> bool \<Rightarrow> job_state \<Rightarrow> critical_report res \<times> job_state" where
  "cleanup_audit_critical_jobs cfg now retention_days dry_run s =
    (let (r, t) = cleanup_audit_critical cfg now retention_days dry_run 500 (js_jobs s) in (r, s\<lparr>js_jobs := t\<rparr>))"

end
