(* ===== verification/JobLaws.thy ===== *)
theory JobLaws
  imports Jobs
begin

text \<open>
  Laws of the jobs component: the batched sweeps equal one filter of the table and terminate, lease reclamation,
  the life of a failing task, manual retries, bulk runs, and the well-formedness of rows under every sequence of
  operations.
\<close>

section \<open>Retention sweeps\<close>

lemma filter_none: "filter P xs = [] \<Longrightarrow> filter (\<lambda>x. \<not> P x) xs = xs"
  by (induction xs) (auto split: if_splits)

lemma filter_drop_keys:
  assumes "distinct (map key F)"
  shows "filter (\<lambda>j. key j \<notin> set (map key (take n F))) F = drop n F"
proof -
  have *: "filter (\<lambda>j. key j \<notin> set (map key A)) (A @ B) = B" if "distinct (map key (A @ B))" for A B
  proof -
    have "key ` set A \<inter> key ` set B = {}" using that by auto
    then have "filter (\<lambda>j. key j \<notin> set (map key A)) B = B" by (intro filter_True) auto
    then show ?thesis by simp
  qed
  from assms have "distinct (map key (take n F @ drop n F))" by simp
  from * [OF this] show ?thesis by simp
qed

lemma batch_filters:
  fixes P :: "job \<Rightarrow> bool" and n :: nat
  assumes "distinct (map j_id t)"
  defines "t' \<equiv> del_where (\<lambda>j. j_id j \<in> set (map j_id (take n (filter P t)))) t"
  shows "filter P t' = drop n (filter P t)" "filter (\<lambda>j. \<not> P j) t' = filter (\<lambda>j. \<not> P j) t" "distinct (map j_id t')"
proof -
  have "distinct (map j_id (filter P t))" using assms(1) by (rule distinct_map_filter)
  from filter_drop_keys [OF this, of n] show "filter P t' = drop n (filter P t)"
    by (simp add: t'_def del_where_def filter_filter conj_commute)
  have "j_id j \<notin> set (map j_id (take n (filter P t)))" if "j \<in> set t" "\<not> P j" for j
  proof
    assume "j_id j \<in> set (map j_id (take n (filter P t)))"
    then obtain k where "k \<in> set (filter P t)" "j_id k = j_id j" by (auto dest: in_set_takeD)
    with that assms(1) show False by (auto simp: distinct_map inj_on_def)
  qed
  then show "filter (\<lambda>j. \<not> P j) t' = filter (\<lambda>j. \<not> P j) t"
    unfolding t'_def del_where_def filter_filter by (intro filter_cong) auto
  show "distinct (map j_id t')" unfolding t'_def del_where_def using assms(1) by (rule distinct_map_filter)
qed

lemma delete_batches_all:
  assumes "distinct (map j_id t)" "0 < n"
  shows "delete_batches P n t = (length (filter P t), filter (\<lambda>j. \<not> P j) t)"
  using assms
proof (induction P n t rule: delete_batches.induct)
  case (1 P n t)
  let ?F = "filter P t"
  let ?ids = "map j_id (take n ?F)"
  let ?t' = "del_where (\<lambda>j. j_id j \<in> set ?ids) t"
  note f = batch_filters [where P = P and n = n, OF 1(2)]
  have len: "length ?ids = min n (length ?F)" by simp
  show ?case
  proof (cases "?F = []")
    case True
    then have "filter (\<lambda>j. \<not> P j) t = t" by (rule filter_none)
    then show ?thesis using True by (simp add: delete_batches.simps)
  next
    case False
    with 1(3) have ne: "?ids \<noteq> []" by simp
    show ?thesis
    proof (cases "length ?ids < n")
      case True
      then have "filter P ?t' = []" using f(1) len by simp
      then have "filter (\<lambda>j. \<not> P j) ?t' = ?t'" by (rule filter_none)
      then have t': "?t' = filter (\<lambda>j. \<not> P j) t" using f(2) by simp
      have "length ?F < n" using True len by simp
      then show ?thesis unfolding delete_batches.simps [of P n t] Let_def t' using ne by simp
    next
      case full: False
      have "delete_batches P n ?t' = (length (filter P ?t'), filter (\<lambda>j. \<not> P j) ?t')"
        by (rule 1(1) [OF refl ne refl full]) (use f(3) 1(3) in auto)
      then have rec: "delete_batches P n ?t' = (length ?F - n, filter (\<lambda>j. \<not> P j) t)" using f by simp
      show ?thesis unfolding delete_batches.simps [of P n t] Let_def rec using full ne len by auto
    qed
  qed
qed

lemma JobStatus_value [simp]: "JobStatus (job_status_value st) = Some st"
  by (cases st) (simp_all add: JobStatus_def all_job_statuses_def)

lemma JobStatus_inj: "JobStatus a = Some st \<Longrightarrow> a = job_status_value st"
  unfolding JobStatus_def by (drule find_SomeD) simp

text \<open>What a clean-up may remove, written out: the window of the job's status has passed and no flag protects it.\<close>

definition in_window :: "real \<Rightarrow> job \<Rightarrow> string \<times> int \<Rightarrow> bool" where
  "in_window now j w \<longleftrightarrow> fst w = job_status_value (j_status j)
     \<and> (\<exists>f. j_finished_at j = Some f \<and> f < now - 86400 * real_of_int (snd w))
     \<and> \<not> j_under_investigation j \<and> \<not> j_under_dispute j \<and> \<not> j_audit_critical j"

lemma in_window_unknown: "JobStatus (fst w) = None \<Longrightarrow> \<not> in_window now j w"
  by (auto simp: in_window_def)

definition expired :: "real \<Rightarrow> (string \<times> int) list \<Rightarrow> job \<Rightarrow> bool" where
  "expired now ws j \<longleftrightarrow> list_ex (in_window now j) ws"

fun window_counts :: "real \<Rightarrow> (string \<times> int) list \<Rightarrow> job list \<Rightarrow> (string \<times> nat) list" where
  "window_counts now [] t = []"
| "window_counts now (w # ws) t =
    (if JobStatus (fst w) = None then window_counts now ws t
     else (fst w, length (filter (\<lambda>j. in_window now j w) t)) # window_counts now ws t)"

lemma in_window_eligible: "JobStatus st = Some x \<Longrightarrow> in_window now j (st, d) \<longleftrightarrow> eligible x (cutoff_at now d) j"
  by (auto simp: in_window_def eligible_def finished_before_def cutoff_at_def split: option.split dest: JobStatus_inj)

lemma sweep_dry: "sweep now True b ws t = (Inr (window_counts now ws t, 0), t)"
proof (induction ws)
  case (Cons w ws)
  obtain st d where w: "w = (st, d)" by fastforce
  show ?case using Cons by (cases "JobStatus st") (simp_all add: w Let_def in_window_eligible)
qed simp

lemma window_counts_filter:
  "st \<notin> fst ` set ws \<Longrightarrow> window_counts now ws (filter (\<lambda>j. \<not> in_window now j (st, d)) t) = window_counts now ws t"
proof (induction ws)
  case (Cons w ws)
  have "\<not> (in_window now j w \<and> in_window now j (st, d))" for j
  proof
    assume "in_window now j w \<and> in_window now j (st, d)"
    then have "fst w = job_status_value (j_status j)" "st = job_status_value (j_status j)"
      using JobStatus_inj by (auto simp: in_window_def)
    with Cons.prems show False by simp
  qed
  then have "filter (\<lambda>j. \<not> in_window now j (st, d) \<and> in_window now j w) t = filter (\<lambda>j. in_window now j w) t"
    by (intro filter_cong) auto
  with Cons show ?case by simp
qed simp

lemma sweep_live:
  assumes "distinct (map fst ws)" "distinct (map j_id t)" "0 < b"
  shows "sweep now False b ws t
    = (Inr (window_counts now ws t, sum_list (map snd (window_counts now ws t))), filter (\<lambda>j. \<not> expired now ws j) t)"
  using assms
proof (induction ws arbitrary: t)
  case Nil
  then show ?case by (simp add: expired_def)
next
  case (Cons w ws)
  obtain st d where w: "w = (st, d)" by fastforce
  show ?case
  proof (cases "JobStatus st")
    case None
    then have "\<not> in_window now j w" for j by (simp add: w in_window_unknown)
    then show ?thesis using None Cons w by (simp add: expired_def)
  next
    case (Some x)
    define P where "P = eligible x (cutoff_at now d)"
    have P: "in_window now j (st, d) \<longleftrightarrow> P j" for j using in_window_eligible [OF Some] by (simp add: P_def)
    let ?t1 = "filter (\<lambda>j. \<not> P j) t"
    have "delete_eligible P b t = (Inr (length (filter P t)), ?t1)"
      using Cons.prems by (simp add: delete_eligible_def delete_batches_all)
    moreover have "filter P t = [] \<Longrightarrow> ?t1 = t" by (rule filter_none)
    ultimately have del: "(if \<not> False \<and> 0 < length (filter P t) then delete_eligible P b t else (Inr 0, t))
        = (Inr (length (filter P t)), ?t1)" by (cases "filter P t = []") auto
    have ih: "sweep now False b ws ?t1 = (Inr (window_counts now ws t, sum_list (map snd (window_counts now ws t))),
        filter (\<lambda>j. \<not> expired now ws j) ?t1)"
      using Cons.IH [of ?t1] Cons.prems window_counts_filter [of st ws now d t] w by (simp add: P distinct_map_filter)
    have "filter (\<lambda>j. \<not> expired now ws j) ?t1 = filter (\<lambda>j. \<not> expired now (w # ws) j) t"
      by (simp add: filter_filter expired_def w P conj_commute)
    then show ?thesis using del ih Some by (simp add: w P P_def [symmetric] Let_def)
  qed
qed

section \<open>Lease reclamation\<close>

lemma reclaim_loop_jobs:
  "js_jobs (reclaim_loop fmt now ctx js s) = fold (\<lambda>j. upd_job (j_id j) (reclaimed fmt now)) js (js_jobs s)"
  by (induction js arbitrary: s) (simp_all add: on_jobs_def job_audit_def)

lemma fold_upd_job:
  assumes "distinct (map j_id js)" and that: "\<And>x. j_id (f x) = j_id x"
  shows "fold (\<lambda>j. upd_job (j_id j) f) js t = map (\<lambda>x. if j_id x \<in> j_id ` set js then f x else x) t"
  using assms(1)
proof (induction js arbitrary: t)
  case (Cons j js)
  then have nj: "j_id j \<notin> j_id ` set js" by auto
  show ?case using Cons nj by (auto simp: upd_job_def upd_where_def that)
qed simp

lemma reclaim_all:
  assumes "distinct (map j_id (js_jobs s))" "length (filter (stale_lease now) (js_jobs s)) \<le> batch"
  shows "js_jobs (snd (reclaim_stale_leases fmt now ctx batch False s))
    = map (\<lambda>j. if stale_lease now j then reclaimed fmt now j else j) (js_jobs s)"
proof -
  let ?S = "filter (stale_lease now) (js_jobs s)"
  have d: "distinct (map j_id ?S)" using assms(1) by (rule distinct_map_filter)
  have "j_id j \<in> j_id ` set ?S \<longleftrightarrow> stale_lease now j" if "j \<in> set (js_jobs s)" for j
    using that assms(1) by (auto simp: distinct_map inj_on_def)
  moreover have "j_id (reclaimed fmt now x) = j_id x" for x by (simp add: reclaimed_def)
  ultimately show ?thesis using assms(2)
    by (simp add: reclaim_stale_leases_def Let_def reclaim_loop_jobs fold_upd_job [OF d])
qed

lemma reclaimed_not_stale [simp]: "\<not> stale_lease now' (reclaimed fmt now j)"
  by (simp add: stale_lease_def reclaimed_def)

section \<open>Executions of a task\<close>

lemma job_by_task_upd:
  assumes "\<And>j. j_task (f j) = j_task j"
  shows "job_by_task task (upd_task task f t) = map_option f (job_by_task task t)"
  using find_upd_where_key [of j_task f task task t] assms by (simp add: job_by_task_def upd_task_def)

lemma job_by_id_upd:
  assumes "\<And>j. j_id (f j) = j_id j"
  shows "job_by_id uid (upd_job uid f t) = map_option f (job_by_id uid t)"
  using find_upd_where_key [of j_id f uid uid t] assms by (simp add: job_by_id_def upd_job_def)

lemma js_audit_frame [simp]: "js_jobs (job_audit now ctx ev d s) = js_jobs s"
  by (simp add: job_audit_def)

lemma log_retry_jobs [simp]: "js_jobs (log_retry now ctx task k err s) = js_jobs s"
  by (simp add: log_retry_def split: option.split)

lemma js_jobs_on_jobs [simp]: "js_jobs (on_jobs f s) = f (js_jobs s)"
  by (simp add: on_jobs_def)

lemma mark_failure_row:
  assumes "job_by_task task (js_jobs s) = Some j"
  shows "\<exists>j'. job_by_task task (js_jobs (mark_failure True digest now ctx task err code ret s)) = Some j'
    \<and> j_retry_count j' = j_retry_count j + 1 \<and> j_max_retries j' = j_max_retries j \<and> j_finished_at j' = Some now
    \<and> j_status j' = (if j_retry_count j + 1 \<ge> max (j_max_retries j) 0 then J_DEAD_LETTER else J_FAILURE)"
  using assms by (simp add: mark_failure_def Let_def job_by_task_upd)

lemma failing_execution:
  assumes "job_by_task task (js_jobs s) = Some j" "compute_device_sla env device period = Inl e"
    "JOB_RETRY_DEAD_LETTER_ENABLED (te_settings env)"
  shows "\<exists>j'. job_by_task task (js_jobs (snd (compute_sla_for_device env now retries task device period s))) = Some j'
    \<and> j_retry_count j' = j_retry_count j + 1 \<and> j_max_retries j' = j_max_retries j \<and> j_finished_at j' = Some now
    \<and> j_status j' = (if j_retry_count j + 1 \<ge> max (j_max_retries j) 0 then J_DEAD_LETTER else J_FAILURE)"
proof -
  let ?s1 = "on_jobs (mark_started (JOB_LEASE_TIMEOUT_SECONDS (te_settings env)) now task) s"
  let ?s2 = "on_jobs (update_progress task 30 (stage ''data_collection'' device period [])) ?s1"
  obtain j1 where j1: "job_by_task task (js_jobs ?s1) = Some j1" "j_retry_count j1 = j_retry_count j" "j_max_retries j1 = j_max_retries j"
    using assms(1) by (simp add: mark_started_def job_by_task_upd)
  obtain j2 where j2: "job_by_task task (js_jobs ?s2) = Some j2" "j_retry_count j2 = j_retry_count j" "j_max_retries j2 = j_max_retries j"
    using j1 by (simp add: update_progress_def job_by_task_upd)
  obtain x where x: "snd (compute_sla_for_device env now retries task device period s)
      = snd (task_failed env now 3 ''SLA_COMPUTATION_ERROR'' retries task e x)" "x = ?s1 \<or> x = ?s2"
    using assms(2) by (cases "te_import env") (auto simp: compute_sla_for_device_def compute_device_sla_def Let_def)
  then obtain jx where jx: "job_by_task task (js_jobs x) = Some jx" "j_retry_count jx = j_retry_count j" "j_max_retries jx = j_max_retries j"
    using j1 j2 by auto
  have "job_by_task task (js_jobs (if retries < 3 then log_retry now (te_ctx env) task (retries + 1) (exc_msg e) x else x)) = Some jx"
    using jx(1) by simp
  from mark_failure_row [OF this, of "te_digest env" now "te_ctx env" "exc_msg e" "Some ''SLA_COMPUTATION_ERROR''" "Some (retries < 3)"]
  show ?thesis using jx(2,3) assms(3) by (simp add: x(1) task_failed_def Let_def)
qed

text \<open>\<open>k\<close> executions of the same task: Celery runs it again under the same id with the next retry count.\<close>

primrec executions :: "task_env \<Rightarrow> real \<Rightarrow> string \<Rightarrow> string \<Rightarrow> string \<Rightarrow> nat \<Rightarrow> job_state \<Rightarrow> job_state" where
  "executions env now task device period 0 s = s"
| "executions env now task device period (Suc k) s =
    snd (compute_sla_for_device env now (int k) task device period (executions env now task device period k s))"

lemma executions_fail:
  assumes "job_by_task task (js_jobs s) = Some j" "compute_device_sla env device period = Inl e"
    "JOB_RETRY_DEAD_LETTER_ENABLED (te_settings env)"
  shows "\<exists>j'. job_by_task task (js_jobs (executions env now task device period k s)) = Some j'
    \<and> j_retry_count j' = j_retry_count j + int k \<and> j_max_retries j' = j_max_retries j
    \<and> (0 < k \<longrightarrow> j_status j' = (if j_retry_count j + int k \<ge> max (j_max_retries j) 0 then J_DEAD_LETTER else J_FAILURE))"
proof (induction k)
  case 0
  show ?case using assms(1) by simp
next
  case (Suc k)
  then obtain j' where "job_by_task task (js_jobs (executions env now task device period k s)) = Some j'"
    "j_retry_count j' = j_retry_count j + int k" "j_max_retries j' = j_max_retries j" by blast
  with failing_execution [OF this(1) assms(2,3), of now "int k"] show ?case by (auto simp: algebra_simps)
qed

section \<open>Manual retries\<close>

lemma enqueue_row:
  assumes "enqueue ty now c uid' dispatch base t = (Inr new, t1)"
  shows "\<exists>task. dispatch = Inr task \<and> new = Job uid' now task ty (enqueue_payload c base) \<and> t1 = t @ [new]
    \<and> uid' \<notin> j_id ` set t \<and> task \<notin> j_task ` set t"
proof -
  obtain task where task: "dispatch = Inr task" using assms by (cases dispatch) (auto simp: enqueue_def)
  have ids: "j_id (Job uid' now task ty (enqueue_payload c base)) = uid'"
    "j_task (Job uid' now task ty (enqueue_payload c base)) = task" by (simp_all add: Job_def)
  with assms task show ?thesis
    by (auto simp: enqueue_def add_job_row_def Let_def list_ex_iff split: if_splits)
qed

lemma link_new_task_fails:
  assumes "uid \<in> j_id ` set t0"
  shows "\<exists>e. fst (link_new_task env now fail uid' dispatch ty base uid t0 s) = fail e
    \<and> (snd (link_new_task env now fail uid' dispatch ty base uid t0 s) = s
       \<or> (\<exists>new. snd (link_new_task env now fail uid' dispatch ty base uid t0 s) = s\<lparr>js_jobs := t0 @ [new]\<rparr>
            \<and> j_id new = uid' \<and> j_status new = J_PENDING \<and> dispatch = Inr (j_task new)
            \<and> uid' \<notin> j_id ` set t0 \<and> j_task new \<notin> j_task ` set t0))"
proof (cases "enqueue ty now (je_ctx env) uid' dispatch base t0")
  case (Pair r t1)
  show ?thesis
  proof (cases r)
    case (Inl e)
    then show ?thesis using Pair by (auto simp: link_new_task_def)
  next
    case (Inr new)
    from enqueue_row [OF Pair [unfolded Inr]] obtain task where n: "dispatch = Inr task"
      "new = Job uid' now task ty (enqueue_payload (je_ctx env) base)" "t1 = t0 @ [new]" "uid' \<notin> j_id ` set t0"
      "task \<notin> j_task ` set t0" by blast
    have new: "j_id new = uid'" "j_task new = task" "j_status new = J_PENDING" by (simp_all add: n(2) Job_def)
    have "uid' \<noteq> uid" using n(4) assms by auto
    then have "set_task_id uid (j_task new) t1 = (Inl (IntegrityError ''jobs''), t1)"
      using n(3) new(1) by (simp add: set_task_id_def)
    then have "link_new_task env now fail uid' dispatch ty base uid t0 s
        = (fail (IntegrityError ''jobs''), s\<lparr>js_jobs := t0 @ [new]\<rparr>)" using Pair Inr n(3) by (simp add: link_new_task_def)
    then show ?thesis using n(1,4,5) new
      by (intro exI [of _ "IntegrityError ''jobs''"] conjI disjI2 exI [of _ new]) simp_all
  qed
qed

definition sla_job :: "job \<Rightarrow> bool" where
  "sla_job j \<longleftrightarrow> j_type j = SLA_COMPUTATION \<or> j_type j = BULK_SLA_COMPUTATION"

lemma redispatch_sla:
  assumes "sla_job j" "job_by_id (j_id j) (js_jobs s) = Some j" "\<And>x. j_id (f x) = j_id x"
  shows "\<exists>m. fst (redispatch env now fl us uid' dispatch f j s) = Inl (HTTPException 500 m)
    \<and> (snd (redispatch env now fl us uid' dispatch f j s) = s
       \<or> (\<exists>new. snd (redispatch env now fl us uid' dispatch f j s) = s\<lparr>js_jobs := upd_job (j_id j) f (js_jobs s) @ [new]\<rparr>
            \<and> j_id new = uid' \<and> j_status new = J_PENDING \<and> dispatch = Inr (j_task new)
            \<and> uid' \<notin> j_id ` set (upd_job (j_id j) f (js_jobs s)) \<and> j_task new \<notin> j_task ` set (upd_job (j_id j) f (js_jobs s))))"
proof -
  have "j \<in> set (js_jobs s)" using assms(2) find_SomeD by (fastforce simp: job_by_id_def)
  then have "f j \<in> set (upd_job (j_id j) f (js_jobs s))" by (auto simp: upd_job_def set_upd_where)
  then have mem: "j_id j \<in> j_id ` set (upd_job (j_id j) f (js_jobs s))" using assms(3) by (metis imageI)
  obtain ty base where "redispatch env now fl us uid' dispatch f j s
      = link_new_task env now (\<lambda>e. Inl (HTTPException 500 (fl @ exc_msg e))) uid' dispatch ty base (j_id j) (upd_job (j_id j) f (js_jobs s)) s"
    using assms(1) by (auto simp: redispatch_def Let_def sla_job_def)
  with link_new_task_fails [OF mem, of env now "\<lambda>e. Inl (HTTPException 500 (fl @ exc_msg e))" uid' dispatch ty base s]
  show ?thesis by auto
qed

section \<open>Well-formed rows\<close>

definition job_ok :: "job \<Rightarrow> bool" where
  "job_ok j \<longleftrightarrow>
     (j_status j = J_DEAD_LETTER \<longrightarrow> j_dead_letter_at j \<noteq> None \<and> j_dead_letter_reason j \<noteq> None \<and> j_finished_at j \<noteq> None)
     \<and> (j_status j = J_QUARANTINED \<longrightarrow> j_quarantined_at j \<noteq> None \<and> j_payload_hash j \<noteq> None \<and> j_finished_at j \<noteq> None)
     \<and> (j_heartbeat_at j = None \<longleftrightarrow> j_lease j = None) \<and> 0 \<le> j_retry_count j \<and> 0 \<le> j_progress j \<and> j_progress j \<le> 100"

definition jobs_inv :: "job list \<Rightarrow> bool" where
  "jobs_inv t \<longleftrightarrow> distinct (map j_id t) \<and> distinct (map j_task t) \<and> list_all job_ok t"

lemma jobs_inv_upd:
  assumes "jobs_inv t" "\<And>j. job_ok j \<Longrightarrow> job_ok (f j)" "\<And>j. j_id (f j) = j_id j" "\<And>j. j_task (f j) = j_task j"
  shows "jobs_inv (upd_where P f t)"
proof -
  have "map j_id (upd_where P f t) = map j_id t" "map j_task (upd_where P f t) = map j_task t"
    using map_upd_where [of j_id f P t] map_upd_where [of j_task f P t] assms(3,4) by auto
  then show ?thesis using assms(1,2) by (auto simp: jobs_inv_def list_all_iff set_upd_where)
qed

lemma jobs_inv_filter: "jobs_inv t \<Longrightarrow> jobs_inv (filter P t)"
  by (auto simp: jobs_inv_def list_all_iff distinct_map_filter)

lemma jobs_inv_append:
  "jobs_inv t \<Longrightarrow> job_ok j \<Longrightarrow> j_id j \<notin> j_id ` set t \<Longrightarrow> j_task j \<notin> j_task ` set t \<Longrightarrow> jobs_inv (t @ [j])"
  by (simp add: jobs_inv_def)

lemma Job_ok [simp]: "job_ok (Job uid now task ty p)"
  by (simp add: job_ok_def Job_def)

named_theorems job_updates \<open>row updates of the component keep a table well formed\<close>

lemma upd_task_inv [job_updates]:
  "jobs_inv t \<Longrightarrow> (\<And>j. job_ok j \<Longrightarrow> job_ok (f j) \<and> j_id (f j) = j_id j \<and> j_task (f j) = j_task j) \<Longrightarrow>
   (\<And>j. j_id (f j) = j_id j) \<Longrightarrow> (\<And>j. j_task (f j) = j_task j) \<Longrightarrow> jobs_inv (upd_task task f t)"
  unfolding upd_task_def by (rule jobs_inv_upd) auto

lemma upd_job_inv [job_updates]:
  "jobs_inv t \<Longrightarrow> (\<And>j. job_ok j \<Longrightarrow> job_ok (f j) \<and> j_id (f j) = j_id j \<and> j_task (f j) = j_task j) \<Longrightarrow>
   (\<And>j. j_id (f j) = j_id j) \<Longrightarrow> (\<And>j. j_task (f j) = j_task j) \<Longrightarrow> jobs_inv (upd_job uid f t)"
  unfolding upd_job_def by (rule jobs_inv_upd) auto

lemma bookkeeping_inv [job_updates]:
  "jobs_inv t \<Longrightarrow> jobs_inv (mark_started timeout now task t)"
  "jobs_inv t \<Longrightarrow> jobs_inv (heartbeat timeout now task t)"
  "jobs_inv t \<Longrightarrow> jobs_inv (mark_success now task result t)"
  "jobs_inv t \<Longrightarrow> 0 \<le> p \<Longrightarrow> jobs_inv (update_progress task p d t)"
  "jobs_inv t \<Longrightarrow> jobs_inv (add_partial_result task item result t)"
  "jobs_inv t \<Longrightarrow> jobs_inv (add_item_error task item err t)"
  unfolding mark_started_def heartbeat_def mark_success_def update_progress_def add_partial_result_def add_item_error_def
  by (intro upd_task_inv; simp add: job_ok_def)+

lemma mark_failure_inv [job_updates]:
  assumes "jobs_inv (js_jobs s)"
  shows "jobs_inv (js_jobs (mark_failure dl digest now ctx task err code ret s))"
proof (cases "job_by_task task (js_jobs s)")
  case (Some j)
  then have "job_ok j" using assms find_SomeD by (fastforce simp: job_by_task_def jobs_inv_def list_all_iff)
  then have "0 \<le> j_retry_count j + 1" by (simp add: job_ok_def)
  then show ?thesis using Some assms unfolding mark_failure_def
    by (auto simp: Let_def intro!: upd_task_inv) (auto simp: job_ok_def)
qed (use assms in \<open>simp add: mark_failure_def\<close>)

lemma task_failed_inv: "jobs_inv (js_jobs s) \<Longrightarrow> jobs_inv (js_jobs (snd (task_failed env now m code retries task e s)))"
  by (simp add: task_failed_def Let_def mark_failure_inv)

lemma compute_sla_inv:
  assumes "jobs_inv (js_jobs s)"
  shows "jobs_inv (js_jobs (snd (compute_sla_for_device env now retries task device period s)))"
  using assms unfolding compute_sla_for_device_def Let_def
  by (auto split: sum.split option.split intro!: task_failed_inv bookkeeping_inv)

lemma bulk_item_inv: "jobs_inv t \<Longrightarrow> jobs_inv (snd (bulk_item env task period d acc t))"
  unfolding bulk_item_def Let_def by (auto split: sum.split intro!: bookkeeping_inv)

lemma bulk_devices_inv: "jobs_inv t \<Longrightarrow> jobs_inv (snd (bulk_devices env task period n i ds acc t))"
proof (induction ds arbitrary: i acc t)
  case (Cons d ds)
  from bulk_item_inv [OF Cons.prems] show ?case
    by (simp add: Let_def case_prod_beta) (intro Cons.IH bookkeeping_inv, simp_all)
qed simp

lemma compute_bulk_inv: "jobs_inv (js_jobs s) \<Longrightarrow> jobs_inv (js_jobs (snd (compute_bulk_sla env now task ds period s)))"
  unfolding compute_bulk_sla_def Let_def
  by (simp add: case_prod_beta) (intro bookkeeping_inv bulk_devices_inv, simp_all)

lemma enqueue_inv: "jobs_inv t \<Longrightarrow> jobs_inv (snd (enqueue ty now c uid dispatch base t))"
proof (cases "enqueue ty now c uid dispatch base t")
  case (Pair r t1)
  assume inv: "jobs_inv t"
  show ?thesis
  proof (cases r)
    case (Inl e)
    then have "t1 = t" using Pair
      by (auto simp: enqueue_def add_job_row_def Let_def split: sum.splits if_splits)
    then show ?thesis using inv Pair by simp
  next
    case (Inr j)
    with enqueue_row [OF Pair [unfolded Inr]] inv show ?thesis using Pair Inr
      by (auto simp: Job_def intro!: jobs_inv_append) (simp_all add: job_ok_def)
  qed
qed

lemma set_task_id_inv: "jobs_inv t \<Longrightarrow> jobs_inv (snd (set_task_id uid task t))"
proof (cases "list_ex (\<lambda>x. j_task x = task \<and> j_id x \<noteq> uid) t")
  case False
  assume inv: "jobs_inv t"
  let ?f = "\<lambda>j. if j_id j = uid then j\<lparr>j_task := task\<rparr> else j"
  have "inj_on (j_task \<circ> ?f) (set t)"
    using False inv by (auto simp: inj_on_def jobs_inv_def distinct_map list_ex_iff)
  moreover have "distinct t" using inv by (auto simp: jobs_inv_def distinct_map)
  ultimately have "distinct (map j_task (map ?f t))" by (simp add: distinct_map)
  moreover have "distinct (map j_id (map ?f t))" using inv by (auto simp: jobs_inv_def distinct_map inj_on_def split: if_splits)
  ultimately show ?thesis using False inv
    by (auto simp: set_task_id_def jobs_inv_def upd_job_def upd_where_def list_all_iff job_ok_def)
qed (simp add: set_task_id_def)

lemma reset_ok [simp]:
  "job_ok j \<Longrightarrow> job_ok (reset_for_retry now j)" "job_ok j \<Longrightarrow> job_ok (reset_released j)" "job_ok j \<Longrightarrow> job_ok (reclaimed fmt now j)"
  by (auto simp: job_ok_def reset_for_retry_def reset_released_def reclaimed_def)

lemma reset_keys [simp]:
  "j_id (reset_for_retry now j) = j_id j" "j_task (reset_for_retry now j) = j_task j"
  "j_id (reset_released j) = j_id j" "j_task (reset_released j) = j_task j"
  "j_id (reclaimed fmt now j) = j_id j" "j_task (reclaimed fmt now j) = j_task j"
  by (simp_all add: reset_for_retry_def reset_released_def reclaimed_def)

lemma link_new_task_inv:
  assumes "jobs_inv (js_jobs s)" "jobs_inv t0"
  shows "jobs_inv (js_jobs (snd (link_new_task env now fail uid' dispatch ty base uid t0 s)))"
  using assms enqueue_inv [OF assms(2), of ty now "je_ctx env" uid' dispatch base]
    set_task_id_inv [of "snd (enqueue ty now (je_ctx env) uid' dispatch base t0)" uid]
  by (auto simp: link_new_task_def case_prod_beta split: sum.split prod.splits)

lemma redispatch_inv:
  assumes "jobs_inv (js_jobs s)" "\<And>x. job_ok x \<Longrightarrow> job_ok (f x)" "\<And>x. j_id (f x) = j_id x" "\<And>x. j_task (f x) = j_task x"
  shows "jobs_inv (js_jobs (snd (redispatch env now fl us uid' dispatch f j s)))"
proof -
  have t0: "jobs_inv (upd_job (j_id j) f (js_jobs s))" using assms by (intro upd_job_inv) auto
  then show ?thesis
    using assms(1) link_new_task_inv [OF assms(1) t0] set_task_id_inv [OF t0]
    by (cases "j_type j") (auto simp: redispatch_def Let_def case_prod_beta split: sum.split)
qed

lemma retry_job_inv: "jobs_inv (js_jobs s) \<Longrightarrow> jobs_inv (js_jobs (snd (retry_job env now uid' dispatch uid s)))"
  by (auto simp: retry_job_def Let_def split: option.split intro!: redispatch_inv upd_job_inv) (auto simp: job_ok_def)

lemma release_inv: "jobs_inv (js_jobs s) \<Longrightarrow> jobs_inv (js_jobs (snd (release_job_from_quarantine env now uid' dispatch uid s)))"
  by (auto simp: release_job_from_quarantine_def Let_def split: option.split intro!: redispatch_inv)

lemma submit_inv:
  "jobs_inv (js_jobs s) \<Longrightarrow> jobs_inv (js_jobs (snd (submit_sla_computation env now uid dispatch device period s)))"
  "jobs_inv (js_jobs s) \<Longrightarrow> jobs_inv (js_jobs (snd (submit_bulk_sla_computation env now uid dispatch devices period s)))"
proof -
  have ap: "jobs_inv t \<Longrightarrow> jobs_inv (apply_policy j t)" for j t
    unfolding apply_policy_def by (intro upd_job_inv) (auto simp: job_ok_def)
  assume inv: "jobs_inv (js_jobs s)"
  show "jobs_inv (js_jobs (snd (submit_sla_computation env now uid dispatch device period s)))"
    using enqueue_inv [OF inv, of SLA_COMPUTATION now "je_ctx env" uid dispatch "sla_payload (JStr device) (JStr period)"]
    by (auto simp: submit_sla_computation_def case_prod_beta split: sum.split intro: ap)
  show "jobs_inv (js_jobs (snd (submit_bulk_sla_computation env now uid dispatch devices period s)))"
    using inv enqueue_inv [OF inv, of BULK_SLA_COMPUTATION now "je_ctx env" uid dispatch "bulk_payload (JArr (map JStr devices)) (JStr period)"]
    by (auto simp: submit_bulk_sla_computation_def case_prod_beta split: sum.split intro: ap)
qed

lemma celery_states: "map_of celery_state_map st = Some x \<Longrightarrow> x \<noteq> J_DEAD_LETTER \<and> x \<noteq> J_QUARANTINED"
  by (auto simp: celery_state_map_def split: if_splits)

lemma get_job_inv: "jobs_inv (js_jobs s) \<Longrightarrow> jobs_inv (js_jobs (snd (get_job st uid s)))"
  using celery_states
  by (auto simp: get_job_def sync_job_status_from_celery_def Let_def split: option.split intro!: upd_job_inv)
    (auto simp: job_ok_def)

lemma cancel_inv: "jobs_inv (js_jobs s) \<Longrightarrow> jobs_inv (js_jobs (snd (cancel_job env now uid s)))"
  by (auto simp: cancel_job_def split: option.split intro!: upd_job_inv) (auto simp: job_ok_def)

lemma heartbeat_inv: "jobs_inv (js_jobs s) \<Longrightarrow> jobs_inv (js_jobs (snd (record_job_heartbeat env now uid worker s)))"
  by (auto simp: record_job_heartbeat_def heartbeat_job_def Let_def split: option.split intro!: upd_task_inv)
    (auto simp: job_ok_def)

lemma reclaim_inv: "jobs_inv (js_jobs s) \<Longrightarrow> jobs_inv (js_jobs (snd (reclaim_stale_job_leases env now b dry s)))"
proof -
  have "jobs_inv t \<Longrightarrow> jobs_inv (fold (\<lambda>j. upd_job (j_id j) (reclaimed fmt now)) js t)" for fmt js t
    by (induction js arbitrary: t) (simp_all add: upd_job_inv)
  then show "jobs_inv (js_jobs s) \<Longrightarrow> ?thesis"
    by (auto simp: reclaim_stale_job_leases_def reclaim_stale_leases_def Let_def reclaim_loop_jobs)
qed

lemma delete_batches_inv: "jobs_inv t \<Longrightarrow> jobs_inv (snd (delete_batches P n t))"
proof (induction P n t rule: delete_batches.induct)
  case (1 P n t)
  let ?ids = "map j_id (take n (filter P t))"
  have t': "jobs_inv (del_where (\<lambda>j. j_id j \<in> set ?ids) t)" unfolding del_where_def by (rule jobs_inv_filter [OF 1(2)])
  show ?case
  proof (cases "?ids \<noteq> [] \<and> \<not> length ?ids < n")
    case True
    then have "jobs_inv (snd (delete_batches P n (del_where (\<lambda>j. j_id j \<in> set ?ids) t)))" using 1(1) [OF refl _ refl _ t'] by blast
    then show ?thesis unfolding delete_batches.simps [of P n t] Let_def using True by (simp add: case_prod_beta)
  next
    case False
    then show ?thesis unfolding delete_batches.simps [of P n t] Let_def using t' 1(2) by auto
  qed
qed

lemma sweep_inv: "jobs_inv t \<Longrightarrow> jobs_inv (snd (sweep now dry b ws t))"
proof (induction ws arbitrary: t)
  case (Cons w ws)
  obtain st d where w: "w = (st, d)" by fastforce
  have "jobs_inv (snd (delete_eligible P b t))" for P
    using Cons.prems delete_batches_inv by (auto simp: delete_eligible_def Let_def case_prod_beta)
  with Cons show ?case unfolding w
    by (auto simp: Let_def case_prod_beta split: option.split sum.split)
qed simp

lemma cleanup_inv:
  "jobs_inv (js_jobs s) \<Longrightarrow> jobs_inv (js_jobs (snd (cleanup_handler env now ws dry b s)))"
  "jobs_inv t \<Longrightarrow> jobs_inv (snd (cleanup_audit_critical cfg now days dry b t))"
  using sweep_inv delete_batches_inv
  by (auto simp: cleanup_handler_def cleanup_old_jobs_def cleanup_audit_critical_def delete_eligible_def Let_def case_prod_beta
      split: sum.split prod.split option.split)

lemma flags_inv: "jobs_inv (js_jobs s) \<Longrightarrow> jobs_inv (js_jobs (snd (update_job_protection_flags env now uid a b s)))"
  by (auto simp: update_job_protection_flags_def Let_def split: option.split intro!: upd_job_inv) (auto simp: job_ok_def)

inductive job_step :: "job_state \<Rightarrow> job_state \<Rightarrow> bool" where
  jst_submit: "job_step s (snd (submit_sla_computation jenv now uid dispatch device period s))"
| jst_submit_bulk: "job_step s (snd (submit_bulk_sla_computation jenv now uid dispatch devices period s))"
| jst_run: "job_step s (snd (compute_sla_for_device env now retries task device period s))"
| jst_run_bulk: "job_step s (snd (compute_bulk_sla env now task devices period s))"
| jst_beat: "job_step s (on_jobs (heartbeat timeout now task) s)"
| jst_heartbeat: "job_step s (snd (record_job_heartbeat jenv now uid worker s))"
| jst_get: "job_step s (snd (get_job st uid s))"
| jst_cancel: "job_step s (snd (cancel_job jenv now uid s))"
| jst_retry: "job_step s (snd (retry_job jenv now uid' dispatch uid s))"
| jst_release: "job_step s (snd (release_job_from_quarantine jenv now uid' dispatch uid s))"
| jst_reclaim: "job_step s (snd (reclaim_stale_job_leases jenv now b dry s))"
| jst_cleanup: "job_step s (snd (cleanup_handler jenv now ws dry n s))"
| jst_critical: "job_step s (on_jobs (\<lambda>t. snd (cleanup_audit_critical cfg now days dry n t)) s)"
| jst_flags: "job_step s (snd (update_job_protection_flags jenv now uid a d s))"

lemmas job_invs = submit_inv compute_sla_inv compute_bulk_inv heartbeat_inv get_job_inv cancel_inv retry_job_inv release_inv
  reclaim_inv cleanup_inv flags_inv bookkeeping_inv(2)

lemma job_step_inv: "job_step s s' \<Longrightarrow> jobs_inv (js_jobs s) \<Longrightarrow> jobs_inv (js_jobs s')"
  by (induction rule: job_step.induct) (simp_all add: job_invs)

interpretation job_table: step_system job_step "\<lambda>s. jobs_inv (js_jobs s)"
  by unfold_locales (rule job_step_inv)

lemma job_steps_inv: "job_step\<^sup>*\<^sup>* s s' \<Longrightarrow> jobs_inv (js_jobs s) \<Longrightarrow> jobs_inv (js_jobs s')"
  by (rule job_table.history_inv)

definition job_init :: job_state where
  "job_init = \<lparr>js_jobs = [], js_audit = []\<rparr>"

lemma job_init_inv [simp]: "jobs_inv (js_jobs job_init)"
  by (simp add: job_init_def jobs_inv_def)

section \<open>Bulk runs\<close>

lemma add_json_entry_again: "add_json_entry k v (Some (x # xs)) = Some (x # xs)"
  by (simp add: add_json_entry_def)

definition col_frozen :: "string \<Rightarrow> (string \<times> json) list \<Rightarrow> job list \<Rightarrow> bool" where
  "col_frozen task c t \<longleftrightarrow> (\<exists>j. job_by_task task t = Some j \<and> j_partial_results j = Some c)"

lemma bulk_item_partial:
  assumes "col_frozen task (x # xs) t"
  shows "col_frozen task (x # xs) (snd (bulk_item env task period d acc t))"
  using assms unfolding bulk_item_def Let_def col_frozen_def
  by (auto simp: add_partial_result_def add_item_error_def job_by_task_upd add_json_entry_again split: sum.split)

lemma update_progress_partial:
  "col_frozen task c t \<Longrightarrow> col_frozen task c (update_progress task p d t)"
  unfolding col_frozen_def update_progress_def by (auto simp: job_by_task_upd)

lemma bulk_devices_partial:
  "col_frozen task (x # xs) t \<Longrightarrow> col_frozen task (x # xs) (snd (bulk_devices env task period n i ds acc t))"
proof (induction ds arbitrary: i acc t)
  case (Cons d ds)
  from update_progress_partial [OF bulk_item_partial [OF Cons.prems, of env period d acc]]
  show ?case by (simp add: Let_def case_prod_beta Cons.IH)
qed simp

lemma bulk_counts:
  "ba_processed (fst (bulk_devices env task period n i ds acc t)) + ba_errors (fst (bulk_devices env task period n i ds acc t))
    = ba_processed acc + ba_errors acc + length ds"
proof (induction ds arbitrary: i acc t)
  case (Cons d ds)
  have "ba_processed (fst (bulk_item env task period d acc t)) + ba_errors (fst (bulk_item env task period d acc t))
      = Suc (ba_processed acc + ba_errors acc)" by (auto simp: bulk_item_def Let_def split: sum.split)
  then show ?case by (simp add: Let_def case_prod_beta Cons.IH)
qed simp

lemma bulk_item_first:
  assumes "job_by_task task t = Some j" "j_partial_results j = None" "compute_device_sla env d period = Inr r"
  shows "col_frozen task [(d, JObj r)] (snd (bulk_item env task period d acc t))"
  using assms unfolding bulk_item_def Let_def col_frozen_def
  by (auto simp: add_partial_result_def add_item_error_def job_by_task_upd add_json_entry_def split: sum.split)

section \<open>Properties\<close>

lemma window_total:
  "distinct (map fst ws) \<Longrightarrow> sum_list (map snd (window_counts now ws t)) = length (filter (expired now ws) t)"
proof (induction ws arbitrary: t)
  case Nil
  show ?case by (simp add: expired_def)
next
  case (Cons w ws)
  obtain st d where w: "w = (st, d)" by fastforce
  have "length (filter (expired now (w # ws)) t) = length (filter (\<lambda>j. in_window now j w) t)
      + length (filter (expired now ws) (filter (\<lambda>j. \<not> in_window now j w) t))"
    using sum_length_filter_compl [of "\<lambda>j. in_window now j w" "filter (expired now (w # ws)) t"]
    by (simp add: filter_filter expired_def conj_commute conj_disj_distribL cong: conj_cong)
  moreover have "sum_list (map snd (window_counts now ws t)) = length (filter (expired now ws) (filter (\<lambda>j. \<not> in_window now j w) t))"
    using Cons.IH [of "filter (\<lambda>j. \<not> in_window now j w) t"] Cons.prems window_counts_filter [of st ws now d t] by (auto simp: w)
  moreover have "JobStatus (fst w) = None \<Longrightarrow> filter (\<lambda>j. in_window now j w) t = []"
    by (simp add: in_window_unknown)
  ultimately show ?case by auto
qed

text \<open>
  C6. For a reachable job table, the windowed and batched clean-up with any positive batch size equals one filter
  of the table: it removes exactly the jobs that are older than the window of their status and carry no
  investigation, dispute or audit-critical flag. The reported total is the number of removed rows, and a dry run
  reports the same counts per status and changes nothing.
\<close>

theorem cleanup_is_filter:
  assumes "job_step\<^sup>*\<^sup>* job_init s" "0 < b" "ws \<noteq> []" "distinct (map fst ws)"
  shows "\<exists>st s' dry. cleanup_old_jobs cfg fmt now ctx (Some ws) False b s = (Inr st, s')
    \<and> js_jobs s' = filter (\<lambda>j. \<not> expired now ws j) (js_jobs s)
    \<and> cs_total_deleted st = length (filter (expired now ws) (js_jobs s))
    \<and> cleanup_old_jobs cfg fmt now ctx (Some ws) True b s = (Inr dry, s)
    \<and> cs_deleted_by_status dry = cs_deleted_by_status st \<and> cs_total_deleted dry = 0"
proof -
  have d: "distinct (map j_id (js_jobs s))" using job_steps_inv [OF assms(1) job_init_inv] by (simp add: jobs_inv_def)
  show ?thesis unfolding cleanup_old_jobs_def Let_def
    using assms(3) sweep_dry [of now b ws "js_jobs s"] sweep_live [OF assms(4) d assms(2), of now] window_total [OF assms(4), of now "js_jobs s"]
    by simp
qed

definition sample_job_settings :: job_settings where
  "sample_job_settings = \<lparr>JOB_LEASE_TIMEOUT_SECONDS = 300, JOB_LEASE_RECLAMATION_ENABLED = True, JOB_RETRY_DEAD_LETTER_ENABLED = True,
     JOB_RETENTION_SUCCESS_DAYS = 30, JOB_RETENTION_FAILURE_DAYS = 90, JOB_RETENTION_REVOKED_DAYS = 30,
     JOB_RETENTION_QUARANTINED_DAYS = 90, JOB_RETENTION_DEAD_LETTER_DAYS = 180, JOB_RETENTION_AUDIT_CRITICAL_DAYS = 365\<rparr>"

definition sample_job_env :: job_env where
  "sample_job_env = \<lparr>je_settings = sample_job_settings, je_iso = (\<lambda>_. []), je_show = job_status_value, je_ctx = None,
     je_email = ''a@b.c''\<rparr>"

definition sample_task_env :: task_env where
  "sample_task_env = \<lparr>te_settings = sample_job_settings, te_digest = (\<lambda>_. []),
     te_import = Some (NameError ''compute_device_sla''), te_compute = (\<lambda>_ _. Inr []), te_trigger = (\<lambda>_ _. Inr ()), te_ctx = None\<rparr>"

definition sample_jobs :: job_state where
  "sample_jobs = snd (submit_sla_computation sample_job_env 0 ''j1'' (Inr ''t1'') ''d'' ''p'' job_init)"

lemma sample_jobs_reachable: "job_step\<^sup>*\<^sup>* job_init sample_jobs"
  unfolding sample_jobs_def by (rule r_into_rtranclp [where r = job_step]) (rule jst_submit)

lemma sample_jobs_row:
  "js_jobs sample_jobs = [(Job ''j1'' 0 ''t1'' SLA_COMPUTATION (sla_payload (JStr ''d'') (JStr ''p'')))
     \<lparr>j_retry_class := Some ''exponential_backoff''\<rparr>]"
  by (simp add: sample_jobs_def submit_sla_computation_def enqueue_def add_job_row_def job_init_def Let_def Job_def sample_job_env_def
      enqueue_payload_def apply_policy_def upd_job_def upd_where_def get_retry_policy_def RETRY_CLASS_DEFAULTS_def)

definition sample_failed_jobs :: job_state where
  "sample_failed_jobs = snd (compute_sla_for_device sample_task_env 0 0 ''t1'' ''d'' ''p'' sample_jobs)"

lemma sample_failed_reachable: "job_step\<^sup>*\<^sup>* job_init sample_failed_jobs"
  unfolding sample_failed_jobs_def by (rule rtranclp.rtrancl_into_rtrancl [OF sample_jobs_reachable]) (rule jst_run)

lemma sample_failed_row:
  "\<exists>j. js_jobs sample_failed_jobs = [j] \<and> j_id j = ''j1'' \<and> j_status j = J_FAILURE \<and> j_finished_at j = Some 0
     \<and> j_retry_count j = 1 \<and> j_max_retries j = 3 \<and> j_retry_class j = Some ''exponential_backoff'' \<and> j_type j = SLA_COMPUTATION
     \<and> \<not> j_under_investigation j \<and> \<not> j_under_dispute j \<and> \<not> j_audit_critical j"
  by (simp add: sample_failed_jobs_def compute_sla_for_device_def sample_task_env_def task_failed_def mark_failure_def Let_def
      sample_jobs_row mark_started_def upd_task_def upd_where_def job_by_task_def Job_def sample_job_settings_def)

theorem cleanup_is_filter_witness:
  "js_jobs (snd (cleanup_old_jobs sample_job_settings (\<lambda>_. []) 864000 None (Some [(''failure'', 1)]) False 10 sample_failed_jobs)) = []"
proof -
  have "[(''failure'', 1::int)] \<noteq> []" "distinct (map fst [(''failure'', 1::int)])" "(0::int) < 10" by simp_all
  from cleanup_is_filter [OF sample_failed_reachable this(3,1,2), of sample_job_settings "\<lambda>_. []" 864000 None]
  have "js_jobs (snd (cleanup_old_jobs sample_job_settings (\<lambda>_. []) 864000 None (Some [(''failure'', 1)]) False 10 sample_failed_jobs))
      = filter (\<lambda>j. \<not> expired 864000 [(''failure'', 1)] j) (js_jobs sample_failed_jobs)" by (elim exE conjE) (simp only: snd_conv)
  then show ?thesis using sample_failed_row
    by (auto simp: expired_def in_window_def eligible_def finished_before_def cutoff_at_def JobStatus_def all_job_statuses_def)
qed

text \<open>The batch loop with a bound on the number of rounds; \<open>None\<close> when the bound is reached.\<close>

primrec delete_rounds :: "nat \<Rightarrow> (job \<Rightarrow> bool) \<Rightarrow> nat \<Rightarrow> job list \<Rightarrow> (nat \<times> job list) option" where
  "delete_rounds 0 P n t = None"
| "delete_rounds (Suc fuel) P n t =
    (let ids = map j_id (take n (filter P t)) in
     if ids = [] then Some (0, t)
     else (let t' = del_where (\<lambda>j. j_id j \<in> set ids) t in
       if length ids < n then Some (length ids, t')
       else map_option (\<lambda>(k, t''). (length ids + k, t'')) (delete_rounds fuel P n t')))"

lemma delete_rounds_batches: "delete_rounds fuel P n t = Some r \<Longrightarrow> delete_batches P n t = r"
proof (induction fuel arbitrary: t r)
  case (Suc fuel)
  then show ?case unfolding delete_batches.simps [of P n t]
    by (auto simp: Let_def split: if_splits prod.splits)
qed simp

text \<open>
  C19. The deletion loop ends: with a positive batch size it needs at most one round more than there are full
  batches of matching rows, and its result is the same as removing all matching rows at once.
\<close>

theorem delete_loop_terminates:
  assumes "distinct (map j_id t)" "0 < n" "length (filter P t) div n < fuel"
  shows "delete_rounds fuel P n t = Some (length (filter P t), filter (\<lambda>j. \<not> P j) t)
    \<and> delete_batches P n t = (length (filter P t), filter (\<lambda>j. \<not> P j) t)"
proof -
  have "\<exists>r. delete_rounds fuel P n t = Some r"
    using assms
  proof (induction fuel arbitrary: t)
    case (Suc fuel)
    let ?ids = "map j_id (take n (filter P t))"
    let ?t' = "del_where (\<lambda>j. j_id j \<in> set ?ids) t"
    note f = batch_filters [where P = P and n = n, OF Suc.prems(1)]
    show ?case
    proof (cases "?ids = [] \<or> length ?ids < n")
      case False
      then have "n \<le> length (filter P t)" by auto
      then have "length (filter P ?t') div n < fuel" using Suc.prems(2,3) f(1) by (simp add: le_div_geq)
      with Suc.IH f(3) Suc.prems(2) obtain r where "delete_rounds fuel P n ?t' = Some r" by blast
      with False show ?thesis by (auto simp: Let_def case_prod_beta)
    qed (auto simp: Let_def)
  qed simp
  then show ?thesis using delete_rounds_batches delete_batches_all [OF assms(1,2), of P] by metis
qed

theorem delete_loop_terminates_witness:
  "delete_rounds 2 (\<lambda>j. j_status j = J_PENDING) 1 (js_jobs sample_jobs) = Some (1, [])"
proof -
  have "distinct (map j_id (js_jobs sample_jobs))" "(0::nat) < 1"
    "length (filter (\<lambda>j. j_status j = J_PENDING) (js_jobs sample_jobs)) div 1 < 2"
    by (simp_all add: sample_jobs_row Job_def)
  from delete_loop_terminates [OF this] show ?thesis by (simp add: sample_jobs_row Job_def)
qed

text \<open>
  Lease reclamation on a reachable table with a batch that is large enough resets exactly the started jobs
  that have a worker and an expired lease and leaves every other row alone; running it again at any later time
  finds none of the reset rows, and a dry run reports the same number without a change.
\<close>

theorem reclaim_exact:
  assumes "job_step\<^sup>*\<^sup>* job_init s" "length (filter (stale_lease now) (js_jobs s)) \<le> batch"
  shows "js_jobs (snd (reclaim_stale_leases fmt now ctx batch False s))
      = map (\<lambda>j. if stale_lease now j then reclaimed fmt now j else j) (js_jobs s)
    \<and> rr_reclaimed (fst (reclaim_stale_leases fmt now ctx batch False s)) = length (filter (stale_lease now) (js_jobs s))
    \<and> rr_found (fst (reclaim_stale_leases fmt now ctx batch False (snd (reclaim_stale_leases fmt now ctx batch False s)))) = 0
    \<and> snd (reclaim_stale_leases fmt now ctx batch True s) = s
    \<and> fst (reclaim_stale_leases fmt now ctx batch True s)
      = (fst (reclaim_stale_leases fmt now ctx batch False s))\<lparr>rr_dry_run := True\<rparr>"
proof -
  have d: "distinct (map j_id (js_jobs s))" using job_steps_inv [OF assms(1) job_init_inv] by (simp add: jobs_inv_def)
  have none: "filter (stale_lease now) (map (\<lambda>j. if stale_lease now j then reclaimed fmt now j else j) (js_jobs s)) = []"
    by (auto simp: filter_empty_conv)
  show ?thesis
  proof (intro conjI)
    have "rr_found (fst (reclaim_stale_leases fmt now ctx batch False s')) = length (take batch (filter (stale_lease now) (js_jobs s')))" for s'
      by (simp add: reclaim_stale_leases_def Let_def)
    then show "rr_found (fst (reclaim_stale_leases fmt now ctx batch False (snd (reclaim_stale_leases fmt now ctx batch False s)))) = 0"
      by (simp only: reclaim_all [OF d assms(2)] none) simp
    show "js_jobs (snd (reclaim_stale_leases fmt now ctx batch False s))
        = map (\<lambda>j. if stale_lease now j then reclaimed fmt now j else j) (js_jobs s)" by (rule reclaim_all [OF d assms(2)])
    show "rr_reclaimed (fst (reclaim_stale_leases fmt now ctx batch False s)) = length (filter (stale_lease now) (js_jobs s))"
      using assms(2) by (simp add: reclaim_stale_leases_def Let_def)
  qed (simp_all add: reclaim_stale_leases_def Let_def)
qed

definition sample_leased_jobs :: job_state where
  "sample_leased_jobs = snd (get_job ''STARTED'' ''j1'' (snd (record_job_heartbeat sample_job_env 0 ''j1'' ''w1'' sample_jobs)))"

lemma sample_leased_reachable: "job_step\<^sup>*\<^sup>* job_init sample_leased_jobs"
  unfolding sample_leased_jobs_def
  by (rule rtranclp.rtrancl_into_rtrancl [OF rtranclp.rtrancl_into_rtrancl [OF sample_jobs_reachable jst_heartbeat] jst_get])

lemma sample_leased_row:
  "\<exists>j. js_jobs sample_leased_jobs = [j] \<and> j_lease j = Some 300 \<and> j_worker j = Some ''w1'' \<and> j_status j = J_STARTED"
  by (simp add: sample_leased_jobs_def record_job_heartbeat_def get_job_def sync_job_status_from_celery_def job_by_id_def sample_jobs_row
      Job_def heartbeat_job_def job_by_task_def upd_task_def upd_job_def upd_where_def Let_def celery_state_map_def
      sample_job_env_def sample_job_settings_def)

theorem reclaim_exact_witness:
  "rr_reclaimed (fst (reclaim_stale_leases (\<lambda>_. []) 1000 None 5 False sample_leased_jobs)) = 1"
proof -
  obtain j where j: "js_jobs sample_leased_jobs = [j]" "j_lease j = Some 300" "j_worker j = Some ''w1''" "j_status j = J_STARTED"
    using sample_leased_row by blast
  have "length (filter (stale_lease 1000) (js_jobs sample_leased_jobs)) \<le> 5" by (simp add: j(1))
  from reclaim_exact [OF sample_leased_reachable this, of "\<lambda>_. []" None] show ?thesis
    by (elim conjE) (simp add: j stale_lease_def)
qed

text \<open>
  C35. A task whose computation fails: after \<open>k\<close> executions the row counts \<open>k\<close> more attempts and is in \<open>FAILURE\<close>
  as long as fewer than \<open>max_retries\<close> attempts were made, and in \<open>DEAD_LETTER\<close> from then on. In this commit every
  SLA job takes this path, because the import of \<open>compute_device_sla\<close> fails.
\<close>

theorem failing_runs:
  assumes "job_by_task task (js_jobs s) = Some j" "te_import env = Some e"
    "JOB_RETRY_DEAD_LETTER_ENABLED (te_settings env)" "0 < k"
  shows "\<exists>j'. job_by_task task (js_jobs (executions env now task device period k s)) = Some j'
    \<and> j_retry_count j' = j_retry_count j + int k
    \<and> j_status j' = (if j_retry_count j + int k \<ge> max (j_max_retries j) 0 then J_DEAD_LETTER else J_FAILURE)"
  using executions_fail [OF assms(1) _ assms(3), where device = device and period = period and e = e and now = now and k = k] assms(2,4)
  by (auto simp: compute_device_sla_def)

theorem failing_runs_witness:
  "\<exists>j'. job_by_task ''t1'' (js_jobs (executions sample_task_env 0 ''t1'' ''d'' ''p'' 3 sample_jobs)) = Some j'
    \<and> j_retry_count j' = 3 \<and> j_status j' = J_DEAD_LETTER"
proof -
  have "job_by_task ''t1'' (js_jobs sample_jobs) = Some (hd (js_jobs sample_jobs))"
    "te_import sample_task_env = Some (NameError ''compute_device_sla'')" "JOB_RETRY_DEAD_LETTER_ENABLED (te_settings sample_task_env)" "0 < (3::nat)"
    by (simp_all add: sample_jobs_row Job_def job_by_task_def sample_task_env_def sample_job_settings_def)
  from failing_runs [OF this, of 0 "''d''" "''p''"] show ?thesis by (simp add: sample_jobs_row Job_def)
qed

lemma link_new_task_orphan:
  assumes "uid \<in> j_id ` set t0" "uid' \<notin> j_id ` set t0" "task \<notin> j_task ` set t0"
  shows "snd (link_new_task env now fail uid' (Inr task) ty base uid t0 s)
    = s\<lparr>js_jobs := t0 @ [Job uid' now task ty (enqueue_payload (je_ctx env) base)]\<rparr>"
proof -
  let ?new = "Job uid' now task ty (enqueue_payload (je_ctx env) base)"
  have new: "j_id ?new = uid'" "j_task ?new = task" by (simp_all add: Job_def)
  have "enqueue ty now (je_ctx env) uid' (Inr task) base t0 = (Inr ?new, t0 @ [?new])"
    using assms(2,3) by (auto simp: enqueue_def add_job_row_def new list_ex_iff Let_def)
  moreover have "set_task_id uid task (t0 @ [?new]) = (Inl (IntegrityError ''jobs''), t0 @ [?new])"
    using assms(1,2) by (auto simp: set_task_id_def new)
  ultimately show ?thesis by (simp add: link_new_task_def new)
qed

lemma upd_job_keys:
  assumes "\<And>x. key (f x) = key x"
  shows "key ` set (upd_job uid f t) = key ` set t"
  using map_upd_where [of key f "\<lambda>j. j_id j = uid" t] assms unfolding upd_job_def by (metis set_map)

definition retryable_job :: "job \<Rightarrow> bool" where
  "retryable_job j \<longleftrightarrow> j_status j \<in> {J_FAILURE, J_REVOKED, J_DEAD_LETTER} \<and> j_retry_count j < j_max_retries j
     \<and> j_retry_class j \<noteq> Some ''at_most_once''"

lemma retry_sla_orphan:
  assumes "job_by_id uid (js_jobs s) = Some j" "sla_job j" "retryable_job j"
    "uid' \<notin> j_id ` set (js_jobs s)" "task \<notin> j_task ` set (js_jobs s)"
  shows "\<exists>new. js_jobs (snd (retry_job env now uid' (Inr task) uid s)) = upd_job uid (reset_for_retry now) (js_jobs s) @ [new]
    \<and> j_id new = uid' \<and> j_task new = task \<and> j_status new = J_PENDING"
proof -
  let ?t0 = "upd_job uid (reset_for_retry now) (js_jobs s)"
  have j: "j_id j = uid" "j \<in> set (js_jobs s)" using assms(1) find_SomeD by (fastforce simp: job_by_id_def)+
  have f: "j_id (reset_for_retry now x) = j_id x" "j_task (reset_for_retry now x) = j_task x" for x by (simp_all add: reset_for_retry_def)
  have keys: "uid \<in> j_id ` set ?t0" "uid' \<notin> j_id ` set ?t0" "task \<notin> j_task ` set ?t0"
    using assms(4,5) j upd_job_keys [of j_id "reset_for_retry now", OF f(1)] upd_job_keys [of j_task "reset_for_retry now", OF f(2)] by auto
  obtain s1 ty base where "snd (retry_job env now uid' (Inr task) uid s)
      = snd (link_new_task env now (\<lambda>e. Inl (HTTPException 500 (''Failed to retry job: '' @ exc_msg e))) uid' (Inr task) ty base uid ?t0 s1)"
    using assms(1,2,3) j(1) by (auto simp: retry_job_def redispatch_def Let_def sla_job_def retryable_job_def)
  then show ?thesis using link_new_task_orphan [OF keys] by (simp add: Job_def)
qed

text \<open>
  The manual retry of an SLA or bulk SLA job never succeeds: whatever the dispatch answers, the handler ends in
  an HTTP error. When the job was eligible and the broker took the task, the row has been reset to \<open>PENDING\<close> with
  its old task id and a second row for the new task stays in the table.
\<close>

theorem retry_sla_never_succeeds:
  assumes "job_by_id uid (js_jobs s) = Some j" "sla_job j"
  shows "(\<exists>code m. fst (retry_job env now uid' dispatch uid s) = Inl (HTTPException code m))
    \<and> (retryable_job j \<longrightarrow> dispatch = Inr task \<longrightarrow> uid' \<notin> j_id ` set (js_jobs s) \<longrightarrow> task \<notin> j_task ` set (js_jobs s) \<longrightarrow>
       (\<exists>new. js_jobs (snd (retry_job env now uid' dispatch uid s)) = upd_job uid (reset_for_retry now) (js_jobs s) @ [new]
         \<and> j_id new = uid' \<and> j_task new = task \<and> j_status new = J_PENDING))"
proof -
  have uid: "j_id j = uid" using assms(1) find_SomeD by (fastforce simp: job_by_id_def)
  have "\<exists>m. fst (redispatch env now fl us uid' dispatch (reset_for_retry now) j (job_audit now c ev d s)) = Inl (HTTPException 500 m)" for fl us c ev d
    using redispatch_sla [OF assms(2), of "job_audit now c ev d s" "reset_for_retry now"] assms(1) uid by (auto simp: reset_for_retry_def)
  then have "\<exists>code m. fst (retry_job env now uid' dispatch uid s) = Inl (HTTPException code m)"
    using assms(1) unfolding retry_job_def Let_def by simp blast
  then show ?thesis using retry_sla_orphan [OF assms] by blast
qed

theorem retry_sla_never_succeeds_witness:
  "\<exists>code m. fst (retry_job sample_job_env 5 ''j2'' (Inr ''t2'') ''j1'' sample_failed_jobs) = Inl (HTTPException code m)"
proof -
  obtain j where j: "js_jobs sample_failed_jobs = [j]" "j_id j = ''j1''" "j_type j = SLA_COMPUTATION" using sample_failed_row by blast
  then have "job_by_id ''j1'' (js_jobs sample_failed_jobs) = Some j" "sla_job j" by (simp_all add: job_by_id_def sla_job_def)
  from retry_sla_never_succeeds [OF this, of sample_job_env 5 "''j2''" "Inr ''t2''" "''t2''"] show ?thesis by blast
qed

text \<open>
  C17. After any sequence of submissions, executions, heartbeats, status reads, cancellations, retries, releases,
  reclamations, clean-ups and flag changes, the rows have distinct ids and distinct task ids and every row is well
  typed: a dead-lettered row has its time, reason and finishing time, a quarantined row its time, payload hash and
  finishing time, heartbeat and lease are set together, progress lies in \<open>0..100\<close> and the retry count is not
  negative.
\<close>

theorem job_rows_well_formed:
  assumes "job_step\<^sup>*\<^sup>* job_init s"
  shows "distinct (map j_id (js_jobs s)) \<and> distinct (map j_task (js_jobs s)) \<and> list_all job_ok (js_jobs s)"
  using job_steps_inv [OF assms job_init_inv] by (simp add: jobs_inv_def)

theorem job_rows_well_formed_witness:
  "list_all job_ok (js_jobs sample_failed_jobs) \<and> map j_id (js_jobs sample_failed_jobs) = [''j1'']"
  using job_rows_well_formed [OF sample_failed_reachable] sample_failed_row by auto

text \<open>
  A bulk run always finishes as \<open>SUCCESS\<close>: processed and failed devices add up to the devices, and a failed
  device does not stop the others. Of the partial results only the entry of the first device is stored when that
  device succeeds.
\<close>

theorem bulk_run_accounts:
  assumes "job_by_task task (js_jobs s) = Some j" "j_partial_results j = None" "compute_device_sla env d period = Inr r"
  shows "\<exists>acc j'. fst (compute_bulk_sla env now task (d # ds) period s) = Inr (bulk_summary (Suc (length ds)) acc)
    \<and> ba_processed acc + ba_errors acc = Suc (length ds)
    \<and> job_by_task task (js_jobs (snd (compute_bulk_sla env now task (d # ds) period s))) = Some j'
    \<and> j_status j' = J_SUCCESS \<and> j_progress j' = 100 \<and> j_partial_results j' = Some [(d, JObj r)]"
proof -
  define acc0 where "acc0 = \<lparr>ba_results = [], ba_violations = [], ba_processed = 0, ba_errors = 0\<rparr>"
  define t2 where "t2 = update_progress task 5 (Some [(''stage'', JStr ''initialization''), (''total_devices'', JInt (int (Suc (length ds)))),
      (''period'', JStr period)]) (mark_started (JOB_LEASE_TIMEOUT_SECONDS (te_settings env)) now task (js_jobs s))"
  define x where "x = bulk_devices env task period (Suc (length ds)) 1 (d # ds) acc0 t2"
  obtain j2 where "job_by_task task t2 = Some j2" "j_partial_results j2 = None"
    using assms(1,2) by (simp add: t2_def update_progress_def mark_started_def job_by_task_upd)
  from bulk_item_first [OF this assms(3), of acc0] have "col_frozen task [(d, JObj r)] (snd x)"
    unfolding x_def by (simp add: Let_def case_prod_beta bulk_devices_partial update_progress_partial)
  then obtain j3 where j3: "job_by_task task (snd x) = Some j3" "j_partial_results j3 = Some [(d, JObj r)]"
    by (auto simp: col_frozen_def)
  have counts: "ba_processed (fst x) + ba_errors (fst x) = Suc (length ds)"
    unfolding x_def bulk_counts by (simp add: acc0_def)
  have "compute_bulk_sla env now task (d # ds) period s = (Inr (bulk_summary (Suc (length ds)) (fst x)),
      on_jobs (mark_success now task (JObj (bulk_summary (Suc (length ds)) (fst x))))
       (on_jobs (update_progress task 95 (Some [(''stage'', JStr ''finalizing''), (''total_devices'', JInt (int (Suc (length ds)))),
                (''processed_count'', JInt (int (ba_processed (fst x)))), (''error_count'', JInt (int (ba_errors (fst x)))),
                (''violations_found'', JInt (int (length (ba_violations (fst x)))))])) (s\<lparr>js_jobs := snd x\<rparr>)))"
    unfolding compute_bulk_sla_def Let_def x_def t2_def acc0_def
    by (simp add: case_prod_beta on_jobs_def del: bulk_devices.simps)
  then show ?thesis using j3 counts
    by (simp add: mark_success_def update_progress_def job_by_task_upd) (intro exI [of _ "fst x"], simp)
qed

theorem bulk_run_accounts_witness:
  "\<exists>acc. fst (compute_bulk_sla (sample_task_env\<lparr>te_import := None\<rparr>) 0 ''t1'' [''d'', ''e''] ''p'' sample_jobs)
     = Inr (bulk_summary 2 acc) \<and> ba_processed acc + ba_errors acc = 2"
proof -
  have "job_by_task ''t1'' (js_jobs sample_jobs) = Some (hd (js_jobs sample_jobs))" "j_partial_results (hd (js_jobs sample_jobs)) = None"
    "compute_device_sla (sample_task_env\<lparr>te_import := None\<rparr>) ''d'' ''p'' = Inr []"
    by (simp_all add: sample_jobs_row Job_def job_by_task_def compute_device_sla_def sample_task_env_def)
  from bulk_run_accounts [OF this, of 0 "[''e'']"] show ?thesis by (simp add: numeral_2_eq_2) blast
qed

end
