(* ===== verification/SlaResults.thy ===== *)
theory SlaResults
  imports Outages Caching
begin

text \<open>
  Stored SLA results: the tables of \<open>app/models/orm/sla.py\<close>, \<open>app/models/orm/sla_snapshot.py\<close> and
  \<open>app/models/sla_dispute.py\<close>, the repository \<open>app/repositories/sla_repository.py\<close>, the dispute handlers of
  \<open>app/api/v1/endpoints/sla_dispute.py\<close> and the analytics handlers of \<open>app/api/v1/endpoints/sla.py\<close>.

  The table of outages is an argument of the operations that join it or reference it. The arguments of the
  environment are the time zone database, PostgreSQL's \<open>date_trunc\<close> and timestamp rendering and the digest; the
  session time zone of the database is UTC. Amounts of \<open>SLAResult\<close> are integers, which the float column holds.
  Handlers are modelled up to the value they return; the conversion to the response schema is FastAPI's.
\<close>

section \<open>Tables\<close>

record sla_row =
  sr_id :: int
  sr_outage :: string
  sr_status :: sla_state
  sr_mttr :: int
  sr_threshold :: int
  sr_amount :: int
  sr_payment_type :: payment_kind
  sr_rating :: sla_rating
  sr_policy_version :: string
  sr_threshold_source :: string
  sr_created :: real
  sr_is_latest :: bool
  sr_reason_code :: "string option"
  sr_decision_trace :: "string option"

record snapshot =
  sn_id :: int
  sn_key :: string
  sn_total_outages :: int
  sn_total_violations :: int
  sn_total_rewards :: real
  sn_total_penalties :: real
  sn_net_payout :: real
  sn_avg_mttr :: real
  sn_checksum :: string
  sn_created :: datetime

datatype dispute_status = D_PENDING | D_RESOLVED | D_REJECTED

fun dispute_status_value :: "dispute_status \<Rightarrow> string" where
  "dispute_status_value D_PENDING = ''pending''"
| "dispute_status_value D_RESOLVED = ''resolved''"
| "dispute_status_value D_REJECTED = ''rejected''"

record dispute =
  dp_id :: string
  dp_result :: int
  dp_baseline :: "int option"
  dp_proposed :: "int option"
  dp_flagged_by :: string
  dp_reason :: string
  dp_flagged_at :: real
  dp_status :: dispute_status
  dp_resolved_by :: "string option"
  dp_notes :: "string option"
  dp_resolved_at :: "real option"

record dispute_log =
  dl_dispute :: string
  dl_action :: string
  dl_actor :: string
  dl_notes :: "string option"
  dl_at :: real

text \<open>The tables with the sequences of the integer keys, which also advance when an insert fails.\<close>

record sla_store =
  sd_results :: "sla_row list"
  sd_next :: int
  sd_snaps :: "snapshot list"
  sd_snap_next :: int
  sd_disputes :: "dispute list"
  sd_log :: "dispute_log list"

record sla_env =
  se_started :: real
  se_zone :: "string \<Rightarrow> bool"
  se_trunc :: "string \<Rightarrow> string \<Rightarrow> real \<Rightarrow> real"
  se_show :: "real \<Rightarrow> string"
  se_iso :: "real \<Rightarrow> string"
  se_digest :: "(string \<times> json) list \<Rightarrow> string"
  se_dump :: "sla_result \<Rightarrow> string"

section \<open>Repository\<close>

definition sla_orm_to_pydantic :: "sla_row \<Rightarrow> sla_result" where
  "sla_orm_to_pydantic r =
    \<lparr>res_id = Some (sr_id r), res_outage_id = sr_outage r, res_status = sr_status r, res_mttr = sr_mttr r,
     res_threshold = sr_threshold r, res_amount = sr_amount r, res_payment_type = sr_payment_type r,
     res_rating = sr_rating r, res_policy_version = sr_policy_version r, res_threshold_source = sr_threshold_source r,
     res_reason_code = sr_reason_code r, res_decision_trace = sr_decision_trace r\<rparr>"

text \<open>A new row: \<open>created_at\<close> has the value the column default was evaluated to when the module was loaded.\<close>

definition SLAResultORM :: "real \<Rightarrow> int \<Rightarrow> bool \<Rightarrow> sla_result \<Rightarrow> sla_row" where
  "SLAResultORM started i latest p =
    \<lparr>sr_id = i, sr_outage = res_outage_id p, sr_status = res_status p, sr_mttr = res_mttr p, sr_threshold = res_threshold p,
     sr_amount = res_amount p, sr_payment_type = res_payment_type p, sr_rating = res_rating p,
     sr_policy_version = res_policy_version p, sr_threshold_source = res_threshold_source p, sr_created = started,
     sr_is_latest = latest, sr_reason_code = res_reason_code p, sr_decision_trace = res_decision_trace p\<rparr>"

definition demote :: "string \<Rightarrow> sla_row list \<Rightarrow> sla_row list" where
  "demote oid = upd_where (\<lambda>r. sr_outage r = oid \<and> sr_is_latest r) (\<lambda>r. r\<lparr>sr_is_latest := False\<rparr>)"

definition create_result :: "real \<Rightarrow> outage_row list \<Rightarrow> sla_result \<Rightarrow> sla_store \<Rightarrow> sla_result res \<times> sla_store" where
  "create_result started outs p s =
    (let existing = find (\<lambda>r. sr_outage r = res_outage_id p \<and> sr_is_latest r) (sd_results s);
         t = (if existing \<noteq> None then demote (res_outage_id p) (sd_results s) else sd_results s);
         orm = SLAResultORM started (sd_next s) True p
     in if get_orm (res_outage_id p) outs = None
        then (Inl (IntegrityError ''sla_results''), s\<lparr>sd_next := sd_next s + 1\<rparr>)
        else (Inr (sla_orm_to_pydantic orm), s\<lparr>sd_results := t @ [orm], sd_next := sd_next s + 1\<rparr>))"

definition get_by_outage :: "string \<Rightarrow> sla_row list \<Rightarrow> sla_result option" where
  "get_by_outage oid t =
    map_option sla_orm_to_pydantic
      (case find (\<lambda>r. sr_outage r = oid \<and> sr_is_latest r) t of
         Some r \<Rightarrow> Some r
       | None \<Rightarrow> (case rev (sort_key sr_created (filter (\<lambda>r. sr_outage r = oid) t)) of [] \<Rightarrow> None | r # _ \<Rightarrow> Some r))"

definition create_if_changed :: "real \<Rightarrow> outage_row list \<Rightarrow> sla_result \<Rightarrow> sla_store \<Rightarrow> sla_result res \<times> sla_store" where
  "create_if_changed started outs p s =
    (case get_by_outage (res_outage_id p) (sd_results s) of
       Some latest \<Rightarrow> if latest = p then (Inr latest, s) else create_result started outs p s
     | None \<Rightarrow> create_result started outs p s)"

definition list_results_by_outage :: "string \<Rightarrow> sla_row list \<Rightarrow> sla_result list" where
  "list_results_by_outage oid t = map sla_orm_to_pydantic (rev (sort_key sr_created (filter (\<lambda>r. sr_outage r = oid) t)))"

section \<open>Aggregates\<close>

text \<open>A filter that is absent or empty does not restrict the query.\<close>

definition given :: "string option \<Rightarrow> bool" where
  "given f \<longleftrightarrow> f \<noteq> None \<and> f \<noteq> Some []"

definition outage_join :: "outage_row list \<Rightarrow> string option \<Rightarrow> string option \<Rightarrow> sla_row list \<Rightarrow> sla_row list" where
  "outage_join outs severity site_id =
    filter (\<lambda>r. case get_orm (sr_outage r) outs of
       None \<Rightarrow> False
     | Some x \<Rightarrow> (given severity \<longrightarrow> Some (o_severity x) = severity) \<and> (given site_id \<longrightarrow> o_site_id x = site_id))"

text \<open>\<open>row_number() = 1\<close> in the partition of the outage, ordered by creation time and id, both descending.\<close>

definition newest_rows :: "sla_row list \<Rightarrow> sla_row list" where
  "newest_rows q = filter (\<lambda>r. list_all (\<lambda>x. sr_outage x = sr_outage r \<longrightarrow>
     sr_created x < sr_created r \<or> (sr_created x = sr_created r \<and> sr_id x \<le> sr_id r)) q) q"

record sla_performance =
  pf_total_outages :: int
  pf_violation_rate :: real
  pf_avg_mttr :: real
  pf_payout_sum :: real

definition SLAPerformanceAggregation :: "sla_performance \<Rightarrow> sla_performance res" where
  "SLAPerformanceAggregation p =
    (if 0 \<le> pf_total_outages p \<and> 0 \<le> pf_violation_rate p \<and> pf_violation_rate p \<le> 1 \<and> 0 \<le> pf_avg_mttr p then Inr p
     else Inl ValidationError)"

definition count_violated :: "sla_row list \<Rightarrow> nat" where
  "count_violated q = length (filter (\<lambda>r. sr_status r = violated) q)"

definition aggregate_performance ::
  "outage_row list \<Rightarrow> real option \<Rightarrow> real option \<Rightarrow> string option \<Rightarrow> string option \<Rightarrow> sla_row list \<Rightarrow> sla_performance res" where
  "aggregate_performance outs start_date end_date severity site_id t =
    (let q = filter (\<lambda>r. (case start_date of None \<Rightarrow> True | Some d \<Rightarrow> d \<le> sr_created r)
           \<and> (case end_date of None \<Rightarrow> True | Some d \<Rightarrow> sr_created r \<le> d)) (outage_join outs severity site_id t);
         rows = newest_rows q; n = length rows
     in SLAPerformanceAggregation
          \<lparr>pf_total_outages = int n,
           pf_violation_rate = py_round 4 (if n = 0 then 0 else real (count_violated rows) / real n),
           pf_avg_mttr = py_round 2 (if n = 0 then 0 else real_of_int (sum_list (map sr_mttr rows)) / real n),
           pf_payout_sum = py_round 2 (real_of_int (sum_list (map sr_amount rows)))\<rparr>)"

record sla_kpi =
  kp_total_outages :: int
  kp_total_violations :: int
  kp_total_rewards :: real
  kp_total_penalties :: real
  kp_net_payout :: real

definition SLADashboardKPI :: "sla_kpi \<Rightarrow> sla_kpi res" where
  "SLADashboardKPI k =
    (if 0 \<le> kp_total_outages k \<and> 0 \<le> kp_total_violations k \<and> 0 \<le> kp_total_rewards k \<and> 0 \<le> kp_total_penalties k then Inr k
     else Inl ValidationError)"

definition sum_rewards :: "sla_row list \<Rightarrow> int" where
  "sum_rewards q = sum_list (map (\<lambda>r. if sr_payment_type r = reward then sr_amount r else 0) q)"

definition sum_penalties :: "sla_row list \<Rightarrow> int" where
  "sum_penalties q = sum_list (map (\<lambda>r. if sr_payment_type r = penalty then \<bar>sr_amount r\<bar> else 0) q)"

definition optional_join :: "outage_row list \<Rightarrow> string option \<Rightarrow> string option \<Rightarrow> sla_row list \<Rightarrow> sla_row list" where
  "optional_join outs severity site_id t = (if given severity \<or> given site_id then outage_join outs severity site_id t else t)"

definition aggregate_dashboard_kpis ::
  "outage_row list \<Rightarrow> string option \<Rightarrow> string option \<Rightarrow> sla_row list \<Rightarrow> sla_kpi res" where
  "aggregate_dashboard_kpis outs severity site_id t =
    (let q = optional_join outs severity site_id t;
         rewards = py_round 2 (real_of_int (sum_rewards q));
         penalties = py_round 2 (real_of_int (sum_penalties q))
     in SLADashboardKPI
          \<lparr>kp_total_outages = int (length q), kp_total_violations = int (count_violated q), kp_total_rewards = rewards,
           kp_total_penalties = penalties, kp_net_payout = py_round 2 (rewards - penalties)\<rparr>)"

record trend_point =
  tp_date :: string
  tp_total_outages :: int
  tp_violations :: int
  tp_rewards :: real
  tp_penalties :: real

definition SLATrendPoint :: "trend_point \<Rightarrow> trend_point res" where
  "SLATrendPoint p =
    (if 0 \<le> tp_total_outages p \<and> 0 \<le> tp_violations p \<and> 0 \<le> tp_rewards p \<and> 0 \<le> tp_penalties p then Inr p
     else Inl ValidationError)"

fun trend_points :: "(real \<Rightarrow> string) \<Rightarrow> (sla_row \<Rightarrow> real) \<Rightarrow> sla_row list \<Rightarrow> real list \<Rightarrow> trend_point list res" where
  "trend_points shw bucket_expr q [] = Inr []"
| "trend_points shw bucket_expr q (b # bs) =
    (let g = filter (\<lambda>r. bucket_expr r = b) q in
     case SLATrendPoint \<lparr>tp_date = shw b, tp_total_outages = int (length g), tp_violations = int (count_violated g),
         tp_rewards = py_round 2 (real_of_int (sum_rewards g)), tp_penalties = py_round 2 (real_of_int (sum_penalties g))\<rparr> of
       Inl e \<Rightarrow> Inl e
     | Inr p \<Rightarrow> map_sum id (\<lambda>ps. p # ps) (trend_points shw bucket_expr q bs))"

definition VALID_BUCKETS :: "string list" where
  "VALID_BUCKETS = [''day'', ''week'', ''month'']"

definition invalid_bucket :: "string \<Rightarrow> string" where
  "invalid_bucket bucket = ''Invalid bucket '' @ quoted bucket @ ''. Must be one of: '' @ join '', '' VALID_BUCKETS"

text \<open>The groups in descending order of the bucket, cut to the limit, and reversed at the end.\<close>

definition aggregate_trends ::
  "sla_env \<Rightarrow> outage_row list \<Rightarrow> nat \<Rightarrow> string \<Rightarrow> string \<Rightarrow> string option \<Rightarrow> string option \<Rightarrow> sla_row list \<Rightarrow>
   trend_point list res" where
  "aggregate_trends env outs limit_days bucket tz severity site_id t =
    (if bucket \<notin> set VALID_BUCKETS then Inl (ValueError (invalid_bucket bucket))
     else if \<not> se_zone env tz then Inl (ValueError (''Unknown timezone: '' @ quoted tz))
     else (let q = optional_join outs severity site_id t;
               bucket_expr = (\<lambda>r. se_trunc env bucket tz (sr_created r));
               groups = take limit_days (rev (sort (remdups (map bucket_expr q))))
           in map_sum id rev (trend_points (se_show env) bucket_expr q groups)))"

section \<open>Snapshots\<close>

text \<open>\<open>isoformat\<close>: an aware UTC instant carries its offset.\<close>

fun isoformat :: "(real \<Rightarrow> string) \<Rightarrow> datetime \<Rightarrow> string" where
  "isoformat fmt (Naive t) = fmt t"
| "isoformat fmt (Aware t) = fmt t @ ''+00:00''"

definition checksum_data :: "(real \<Rightarrow> string) \<Rightarrow> snapshot \<Rightarrow> (string \<times> json) list" where
  "checksum_data fmt x =
    [(''snapshot_key'', JStr (sn_key x)), (''total_outages'', JInt (sn_total_outages x)),
     (''total_violations'', JInt (sn_total_violations x)), (''total_rewards'', JNum (sn_total_rewards x)),
     (''total_penalties'', JNum (sn_total_penalties x)), (''net_payout'', JNum (sn_net_payout x)),
     (''avg_mttr'', JNum (sn_avg_mttr x)), (''created_at'', JStr (isoformat fmt (sn_created x)))]"

definition compute_checksum :: "sla_env \<Rightarrow> snapshot \<Rightarrow> string" where
  "compute_checksum env x = se_digest env (checksum_data (se_iso env) x)"

text \<open>What a query of the row gives back: the timestamp column is time zone aware.\<close>

definition stored :: "snapshot \<Rightarrow> snapshot" where
  "stored x = x\<lparr>sn_created := Aware (dt_secs (sn_created x))\<rparr>"

definition create_snapshot ::
  "sla_env \<Rightarrow> outage_row list \<Rightarrow> real \<Rightarrow> string \<Rightarrow> sla_store \<Rightarrow> snapshot res \<times> sla_store" where
  "create_snapshot env outs now key s =
    (case aggregate_dashboard_kpis outs None None (sd_results s) of
       Inl e \<Rightarrow> (Inl e, s)
     | Inr k \<Rightarrow>
       (case aggregate_performance outs None None None None (sd_results s) of
          Inl e \<Rightarrow> (Inl e, s)
        | Inr p \<Rightarrow>
          (let orm = \<lparr>sn_id = sd_snap_next s, sn_key = key, sn_total_outages = kp_total_outages k,
                  sn_total_violations = kp_total_violations k, sn_total_rewards = kp_total_rewards k,
                  sn_total_penalties = kp_total_penalties k, sn_net_payout = kp_net_payout k, sn_avg_mttr = pf_avg_mttr p,
                  sn_checksum = [], sn_created = Naive now\<rparr>;
               row = stored (orm\<lparr>sn_checksum := compute_checksum env orm\<rparr>)
           in (Inr row, s\<lparr>sd_snaps := sd_snaps s @ [row], sd_snap_next := sd_snap_next s + 1\<rparr>))))"

definition rebuild_snapshot ::
  "sla_env \<Rightarrow> outage_row list \<Rightarrow> real \<Rightarrow> string \<Rightarrow> sla_store \<Rightarrow> snapshot res \<times> sla_store" where
  "rebuild_snapshot env outs now key s = create_snapshot env outs now key s"

definition get_latest_snapshot :: "string \<Rightarrow> snapshot list \<Rightarrow> snapshot option" where
  "get_latest_snapshot key t =
    (case rev (sort_key (\<lambda>x. dt_secs (sn_created x)) (filter (\<lambda>x. sn_key x = key) t)) of [] \<Rightarrow> None | x # _ \<Rightarrow> Some x)"

record integrity_report =
  ir_valid :: bool
  ir_snapshot_id :: "int option"
  ir_message :: "string option"

definition verify_snapshot_integrity :: "sla_env \<Rightarrow> string \<Rightarrow> snapshot list \<Rightarrow> integrity_report" where
  "verify_snapshot_integrity env key t =
    (case get_latest_snapshot key t of
       None \<Rightarrow> \<lparr>ir_valid = False, ir_snapshot_id = None, ir_message = Some ''No snapshot found''\<rparr>
     | Some x \<Rightarrow>
       (let valid = (compute_checksum env x = sn_checksum x) in
        \<lparr>ir_valid = valid, ir_snapshot_id = Some (sn_id x),
         ir_message = (if valid then None else Some ''Checksum mismatch - snapshot may have been tampered with'')\<rparr>))"

record reconcile_report =
  rp_snapshot :: "snapshot option"
  rp_drift :: bool
  rp_recommendation :: string
  rp_differences :: "(string \<times> real) list"
  rp_live :: sla_kpi
  rp_live_avg_mttr :: real

text \<open>A difference is reported as the live value less the snapshot's; the two values are in the report anyway.\<close>

definition diff_entry :: "string \<Rightarrow> bool \<Rightarrow> real \<Rightarrow> (string \<times> real) list" where
  "diff_entry name changed d = (if changed then [(name, d)] else [])"

definition reconcile_snapshots ::
  "outage_row list \<Rightarrow> string \<Rightarrow> sla_store \<Rightarrow> reconcile_report res" where
  "reconcile_snapshots outs key s =
    (case aggregate_dashboard_kpis outs None None (sd_results s) of
       Inl e \<Rightarrow> Inl e
     | Inr k \<Rightarrow>
       (case aggregate_performance outs None None None None (sd_results s) of
          Inl e \<Rightarrow> Inl e
        | Inr p \<Rightarrow>
          Inr (case get_latest_snapshot key (sd_snaps s) of
             None \<Rightarrow> \<lparr>rp_snapshot = None, rp_drift = False, rp_recommendation = ''rebuild'', rp_differences = [], rp_live = k,
                      rp_live_avg_mttr = pf_avg_mttr p\<rparr>
           | Some x \<Rightarrow>
             (let outs_differ = sn_total_outages x \<noteq> kp_total_outages k;
                  viol_differ = sn_total_violations x \<noteq> kp_total_violations k;
                  rew_differ = sn_total_rewards x \<noteq> kp_total_rewards k;
                  pen_differ = sn_total_penalties x \<noteq> kp_total_penalties k;
                  net_differ = \<bar>sn_net_payout x - kp_net_payout k\<bar> > 1 / 100;
                  mttr_differ = \<bar>sn_avg_mttr x - pf_avg_mttr p\<bar> > 1 / 100;
                  drift = (outs_differ \<or> viol_differ \<or> rew_differ \<or> pen_differ \<or> net_differ \<or> mttr_differ);
                  differences =
                    diff_entry ''total_outages'' outs_differ (real_of_int (kp_total_outages k - sn_total_outages x))
                    @ diff_entry ''total_violations'' viol_differ (real_of_int (kp_total_violations k - sn_total_violations x))
                    @ diff_entry ''total_rewards'' rew_differ (py_round 2 (kp_total_rewards k - sn_total_rewards x))
                    @ diff_entry ''total_penalties'' pen_differ (py_round 2 (kp_total_penalties k - sn_total_penalties x))
                    @ diff_entry ''net_payout'' net_differ (py_round 2 (kp_net_payout k - sn_net_payout x))
                    @ diff_entry ''avg_mttr'' mttr_differ (py_round 2 (pf_avg_mttr p - sn_avg_mttr x))
              in \<lparr>rp_snapshot = Some x, rp_drift = drift, rp_recommendation = (if drift then ''rebuild'' else ''ok''),
                  rp_differences = differences, rp_live = k, rp_live_avg_mttr = pf_avg_mttr p\<rparr>))))"

section \<open>Disputes\<close>

definition pending_dispute :: "int \<Rightarrow> dispute list \<Rightarrow> dispute option" where
  "pending_dispute rid = find (\<lambda>d. dp_result d = rid \<and> dp_status d = D_PENDING)"

definition result_by_id :: "int \<Rightarrow> sla_row list \<Rightarrow> sla_row option" where
  "result_by_id rid = find (\<lambda>r. sr_id r = rid)"

definition upd_dispute :: "string \<Rightarrow> (dispute \<Rightarrow> dispute) \<Rightarrow> dispute list \<Rightarrow> dispute list" where
  "upd_dispute uid = upd_where (\<lambda>d. dp_id d = uid)"

definition DisputeAuditLog :: "real \<Rightarrow> string \<Rightarrow> string \<Rightarrow> string \<Rightarrow> string \<Rightarrow> dispute_log" where
  "DisputeAuditLog now uid action actor notes =
    \<lparr>dl_dispute = uid, dl_action = action, dl_actor = actor, dl_notes = Some notes, dl_at = now\<rparr>"

definition list_disputes :: "dispute_status option \<Rightarrow> sla_store \<Rightarrow> dispute list" where
  "list_disputes status_filter s =
    filter (\<lambda>d. case status_filter of None \<Rightarrow> True | Some st \<Rightarrow> dp_status d = st) (rev (sort_key dp_flagged_at (sd_disputes s)))"

text \<open>\<open>uid\<close> is the UUID of the new row. The request schema asks for a reason of at least ten characters.\<close>

definition flag_dispute :: "real \<Rightarrow> string \<Rightarrow> int \<Rightarrow> string \<Rightarrow> string \<Rightarrow> sla_store \<Rightarrow> dispute res \<times> sla_store" where
  "flag_dispute now uid rid flagged_by reason s =
    (if length reason < 10 then (Inl ValidationError, s)
     else case result_by_id rid (sd_results s) of
       None \<Rightarrow> (Inl (HTTPException 404 ''SLA result not found''), s)
     | Some _ \<Rightarrow>
       if pending_dispute rid (sd_disputes s) \<noteq> None then
         (Inl (HTTPException 409 ''An active dispute already exists for this SLA result.''), s)
       else if list_ex (\<lambda>d. dp_id d = uid) (sd_disputes s) then (Inl (IntegrityError ''sla_disputes''), s)
       else (let d = \<lparr>dp_id = uid, dp_result = rid, dp_baseline = Some rid, dp_proposed = None, dp_flagged_by = flagged_by,
                      dp_reason = reason, dp_flagged_at = now, dp_status = D_PENDING, dp_resolved_by = None, dp_notes = None,
                      dp_resolved_at = None\<rparr>
             in (Inr d, s\<lparr>sd_disputes := sd_disputes s @ [d], sd_log := sd_log s @ [DisputeAuditLog now uid ''flagged'' flagged_by reason]\<rparr>)))"

record proposal_request =
  pq_created_by :: string
  pq_severity :: string
  pq_mttr :: int
  pq_policy_version :: string
  pq_threshold_source :: string
  pq_notes :: "string option"

definition create_proposed_sla ::
  "sla_env \<Rightarrow> sla_config \<Rightarrow> outage_row list \<Rightarrow> real \<Rightarrow> int \<Rightarrow> proposal_request \<Rightarrow> sla_store \<Rightarrow> dispute res \<times> sla_store" where
  "create_proposed_sla env cfg outs now rid payload s =
    (case pending_dispute rid (sd_disputes s) of
       None \<Rightarrow> (Inl (HTTPException 404 ''No pending dispute found for this SLA result.''), s)
     | Some d \<Rightarrow>
       (case Option.bind (dp_baseline d) (\<lambda>b. result_by_id b (sd_results s)) of
          None \<Rightarrow> (Inl (HTTPException 404 ''Baseline SLA not found''), s)
        | Some baseline \<Rightarrow>
          (case calculate cfg (sr_outage baseline) (pq_severity payload) (pq_mttr payload) (pq_policy_version payload) (pq_threshold_source payload) of
             Inl e \<Rightarrow> (Inl e, s)
           | Inr new \<Rightarrow>
             if get_orm (res_outage_id new) outs = None
             then (Inl (IntegrityError ''sla_results''), s\<lparr>sd_next := sd_next s + 1\<rparr>)
             else (let pid = sd_next s;
                       notes = ''Proposed SLA created: '' @ se_dump env new
                         @ (case pq_notes payload of None \<Rightarrow> [] | Some n \<Rightarrow> if n = [] then [] else '' | Notes: '' @ n)
                   in (Inr (d\<lparr>dp_proposed := Some pid\<rparr>),
                       s\<lparr>sd_results := sd_results s @ [SLAResultORM (se_started env) pid False new], sd_next := pid + 1,
                         sd_disputes := upd_dispute (dp_id d) (\<lambda>x. x\<lparr>dp_proposed := Some pid\<rparr>) (sd_disputes s),
                         sd_log := sd_log s @ [DisputeAuditLog now (dp_id d) ''proposed_sla_created'' (pq_created_by payload) notes]\<rparr>)))))"

record resolve_request =
  rq_resolved_by :: string
  rq_notes :: string
  rq_status :: dispute_status
  rq_apply :: bool

text \<open>The promotion of the proposed row: the current latest row is demoted, then the proposed one is marked.\<close>

definition promote :: "sla_row \<Rightarrow> sla_row list \<Rightarrow> sla_row list" where
  "promote proposed t =
    (let t1 = (case find (\<lambda>r. sr_outage r = sr_outage proposed \<and> sr_is_latest r) t of
                 None \<Rightarrow> t
               | Some old \<Rightarrow> upd_where (\<lambda>r. sr_id r = sr_id old) (\<lambda>r. r\<lparr>sr_is_latest := False\<rparr>) t)
     in upd_where (\<lambda>r. sr_id r = sr_id proposed) (\<lambda>r. r\<lparr>sr_is_latest := True\<rparr>) t1)"

text \<open>The assignments to the dispute are not committed when a later check raises.\<close>

definition resolve_dispute :: "real \<Rightarrow> int \<Rightarrow> resolve_request \<Rightarrow> sla_store \<Rightarrow> dispute res \<times> sla_store" where
  "resolve_dispute now rid payload s =
    (if length (rq_notes payload) < 10 then (Inl ValidationError, s)
     else if rq_status payload \<notin> {D_RESOLVED, D_REJECTED} then
       (Inl (HTTPException 400 (''Resolution status must be '' @ quoted ''resolved'' @ '' or '' @ quoted ''rejected'' @ ''.'')), s)
     else case pending_dispute rid (sd_disputes s) of
       None \<Rightarrow> (Inl (HTTPException 404 ''No pending dispute found for this SLA result.''), s)
     | Some d \<Rightarrow>
       (let f = (\<lambda>x. x\<lparr>dp_status := rq_status payload, dp_resolved_by := Some (rq_resolved_by payload), dp_notes := Some (rq_notes payload),
                       dp_resolved_at := Some now\<rparr>);
            commit = (\<lambda>t. (Inr (f d), s\<lparr>sd_results := t, sd_disputes := upd_dispute (dp_id d) f (sd_disputes s),
                sd_log := sd_log s @ [DisputeAuditLog now (dp_id d) (dispute_status_value (rq_status payload)) (rq_resolved_by payload) (rq_notes payload)]\<rparr>))
        in if rq_status payload = D_RESOLVED \<and> rq_apply payload then
             (if dp_proposed d = None \<or> dp_proposed d = Some 0 then (Inl (HTTPException 400 ''No proposed SLA result to apply.''), s)
              else case result_by_id (the (dp_proposed d)) (sd_results s) of
                None \<Rightarrow> (Inl (HTTPException 404 ''Proposed SLA not found''), s)
              | Some proposed \<Rightarrow> commit (promote proposed (sd_results s)))
           else commit (sd_results s)))"

definition get_dispute :: "int \<Rightarrow> sla_store \<Rightarrow> dispute res" where
  "get_dispute rid s =
    (case rev (sort_key dp_flagged_at (filter (\<lambda>d. dp_result d = rid) (sd_disputes s))) of
       [] \<Rightarrow> Inl (HTTPException 404 ''No dispute found for this SLA result.'')
     | d # _ \<Rightarrow> Inr d)"

definition get_dispute_history :: "int \<Rightarrow> sla_store \<Rightarrow> dispute_log list res" where
  "get_dispute_history rid s =
    map_sum id (\<lambda>d. sort_key dl_at (filter (\<lambda>l. dl_dispute l = dp_id d) (sd_log s))) (get_dispute rid s)"

section \<open>Analytics handlers\<close>

datatype analytics = KPI sla_kpi | Trends "trend_point list" | Performance sla_performance

type_synonym analytics_cache = "analytics ttl_cache"

definition dashboard_cache :: analytics_cache where
  "dashboard_cache = TTLCache 30"

definition invalidate_analytics_cache :: "analytics_cache \<Rightarrow> analytics_cache" where
  "invalidate_analytics_cache c =
    invalidate_prefix ''perf_agg_'' (invalidate_prefix ''trends_'' (invalidate_prefix ''dashboard_kpis_'' c))"

text \<open>An f-string renders a missing value as \<open>None\<close>.\<close>

definition fstr :: "string option \<Rightarrow> string" where
  "fstr x = (case x of None \<Rightarrow> ''None'' | Some s \<Rightarrow> s)"

definition resolved_site :: "string option \<Rightarrow> string option \<Rightarrow> string option" where
  "resolved_site site_id site = (if given site_id then site_id else site)"

text \<open>
  The read-through part the handlers share: an unexpired entry is answered as a hit, otherwise the query runs
  and its result is stored. The flag is the header \<open>X-Cache\<close>.
\<close>

definition cached_read ::
  "real \<Rightarrow> string \<Rightarrow> analytics res \<Rightarrow> analytics_cache \<Rightarrow> (analytics \<times> bool) res \<times> analytics_cache" where
  "cached_read now key query c =
    (let miss = (case query of Inl e \<Rightarrow> (Inl e, c) | Inr v \<Rightarrow> (Inr (v, False), cache_set now key v c)) in
     case get_with_meta now key c of
       None \<Rightarrow> miss
     | Some hit \<Rightarrow> if is_expired hit then miss else (Inr (cr_value hit, True), c))"

definition dashboard_key :: "string option \<Rightarrow> string option \<Rightarrow> string" where
  "dashboard_key severity site = ''dashboard_kpis_'' @ fstr severity @ ''_'' @ fstr site"

definition get_sla_dashboard_kpis ::
  "outage_row list \<Rightarrow> real \<Rightarrow> string option \<Rightarrow> string option \<Rightarrow> string option \<Rightarrow> sla_store \<Rightarrow> analytics_cache \<Rightarrow>
   (analytics \<times> bool) res \<times> analytics_cache" where
  "get_sla_dashboard_kpis outs now severity site_id site s =
    (let st = resolved_site site_id site in
     cached_read now (dashboard_key severity st) (map_sum id KPI (aggregate_dashboard_kpis outs severity st (sd_results s))))"

definition get_sla_trends ::
  "sla_env \<Rightarrow> outage_row list \<Rightarrow> real \<Rightarrow> nat \<Rightarrow> string \<Rightarrow> string \<Rightarrow> string option \<Rightarrow> string option \<Rightarrow> string option \<Rightarrow> sla_store \<Rightarrow>
   analytics_cache \<Rightarrow> (analytics \<times> bool) res \<times> analytics_cache" where
  "get_sla_trends env outs now days bucket tz severity site_id site s c =
    (if bucket \<notin> set VALID_BUCKETS then (Inl (HTTPException 400 (invalid_bucket bucket)), c)
     else (let st = resolved_site site_id site in
       cached_read now
         (''trends_'' @ str_nat days @ ''_'' @ bucket @ ''_'' @ tz @ ''_'' @ fstr severity @ ''_'' @ fstr st)
         (map_sum id Trends (http_on_ValueError 400 (aggregate_trends env outs days bucket tz severity st (sd_results s)))) c))"

text \<open>Aware bounds are converted to naive UTC; \<open>se_show\<close> also renders a bound inside the key.\<close>

definition aggregate_sla_performance ::
  "sla_env \<Rightarrow> outage_row list \<Rightarrow> real \<Rightarrow> datetime option \<Rightarrow> datetime option \<Rightarrow> string option \<Rightarrow> string option \<Rightarrow> string option \<Rightarrow>
   sla_store \<Rightarrow> analytics_cache \<Rightarrow> (analytics \<times> bool) res \<times> analytics_cache" where
  "aggregate_sla_performance env outs now start_date end_date severity site_id site s c =
    (let st = resolved_site site_id site; a = map_option dt_secs start_date; b = map_option dt_secs end_date in
     if a \<noteq> None \<and> b \<noteq> None \<and> the a > the b then (Inl (HTTPException 400 ''start_date cannot be after end_date''), c)
     else cached_read now
       (''perf_agg_'' @ fstr (map_option (se_show env) a) @ ''_'' @ fstr (map_option (se_show env) b) @ ''_'' @ fstr severity
          @ ''_'' @ fstr st)
       (map_sum id Performance (aggregate_performance outs a b severity st (sd_results s))) c)"

definition create_analytics_snapshot ::
  "sla_env \<Rightarrow> outage_row list \<Rightarrow> real \<Rightarrow> string \<Rightarrow> sla_store \<Rightarrow> analytics_cache \<Rightarrow> snapshot res \<times> sla_store \<times> analytics_cache" where
  "create_analytics_snapshot env outs now key s c =
    (case create_snapshot env outs now key s of
       (Inl e, s1) \<Rightarrow> (Inl e, s1, c)
     | (Inr x, s1) \<Rightarrow> (Inr x, s1, invalidate_analytics_cache c))"

definition rebuild_analytics_snapshot ::
  "sla_env \<Rightarrow> outage_row list \<Rightarrow> real \<Rightarrow> string \<Rightarrow> sla_store \<Rightarrow> analytics_cache \<Rightarrow> snapshot res \<times> sla_store \<times> analytics_cache" where
  "rebuild_analytics_snapshot env outs now key s c =
    (case rebuild_snapshot env outs now key s of
       (Inl e, s1) \<Rightarrow> (Inl e, s1, c)
     | (Inr x, s1) \<Rightarrow> (Inr x, s1, invalidate_analytics_cache c))"

definition get_latest_analytics_snapshot :: "string \<Rightarrow> sla_store \<Rightarrow> snapshot res" where
  "get_latest_analytics_snapshot key s =
    (case get_latest_snapshot key (sd_snaps s) of
       None \<Rightarrow> Inl (HTTPException 404 ''No snapshot found for the given key'')
     | Some x \<Rightarrow> Inr x)"

text \<open>
  \<open>get_sla_summary\<close> over the service it comes with, which looks at the year of the start only: 503 is an outage of the service, 200 an
  empty answer, everything else one fixed figure.
\<close>

definition fetch_sla_aggregates :: "int \<Rightarrow> json list res" where
  "fetch_sla_aggregates start_year =
    (if start_year = 503 then Inl (HTTPException 503 ''ANALYTICS_SERVICE_UNAVAILABLE'')
     else if start_year = 200 then Inr []
     else Inr [JObj [(''metric'', JStr ''uptime_percentage''), (''value'', JNum 99.98)]])"

definition get_sla_summary :: "int \<Rightarrow> (string \<times> json) list res" where
  "get_sla_summary start_year =
    (case fetch_sla_aggregates start_year of
       Inl e \<Rightarrow> Inl e
     | Inr d \<Rightarrow> Inr [(''success'', JBool True), (''schema_version'', JStr ''1.0.0''), (''data'', JArr d), (''is_empty'', JBool (length d = 0))])"

definition verify_snapshot_handler :: "sla_env \<Rightarrow> string \<Rightarrow> sla_store \<Rightarrow> integrity_report res" where
  "verify_snapshot_handler env key s =
    (let r = verify_snapshot_integrity env key (sd_snaps s) in
     if \<not> ir_valid r then Inl (HTTPException 409 (case ir_message r of None \<Rightarrow> ''Invalid snapshot'' | Some m \<Rightarrow> m)) else Inr r)"

end
