(* ===== verification/SlaResultLaws.thy ===== *)
theory SlaResultLaws
  imports SlaResults
begin

text \<open>
  Laws of the stored SLA results: the invariant of the result and dispute tables under every sequence of
  operations, the authoritative result of an outage, the dispute life cycle, the snapshot checksum, reconciliation
  after a rebuild, the trend buckets and the analytics cache.
\<close>

section \<open>Rows\<close>

lemma SLAResultORM_simps [simp]:
  "sr_id (SLAResultORM st i b p) = i" "sr_outage (SLAResultORM st i b p) = res_outage_id p"
  "sr_is_latest (SLAResultORM st i b p) = b" "sr_created (SLAResultORM st i b p) = st"
  "sr_status (SLAResultORM st i b p) = res_status p" "sr_amount (SLAResultORM st i b p) = res_amount p"
  "sr_mttr (SLAResultORM st i b p) = res_mttr p"
  "sla_orm_to_pydantic (SLAResultORM st i b p) = p\<lparr>res_id := Some i\<rparr>"
  by (simp_all add: SLAResultORM_def sla_orm_to_pydantic_def)

lemma upd_where_member: "r \<in> set (upd_where p f t) \<longleftrightarrow> (\<exists>x\<in>set t. r = (if p x then f x else x))"
  by (auto simp: upd_where_def)

definition latest_one :: "sla_row list \<Rightarrow> bool" where
  "latest_one t \<longleftrightarrow> (\<forall>r\<in>set t. \<forall>r'\<in>set t. sr_is_latest r \<and> sr_is_latest r' \<and> sr_outage r = sr_outage r' \<longrightarrow> r = r')"

definition latest_some :: "sla_row list \<Rightarrow> bool" where
  "latest_some t \<longleftrightarrow> (\<forall>r\<in>set t. \<exists>r'\<in>set t. sr_outage r' = sr_outage r \<and> sr_is_latest r')"

definition ids_ok :: "int \<Rightarrow> sla_row list \<Rightarrow> bool" where
  "ids_ok n t \<longleftrightarrow> distinct (map sr_id t) \<and> 0 < n \<and> (\<forall>r\<in>set t. 0 < sr_id r \<and> sr_id r < n)"

lemma ids_ok_eq: "ids_ok n t \<Longrightarrow> r \<in> set t \<Longrightarrow> r' \<in> set t \<Longrightarrow> sr_id r = sr_id r' \<Longrightarrow> r = r'"
  by (auto simp: ids_ok_def distinct_map inj_on_def)

lemma ids_ok_upd:
  assumes "ids_ok n t" "\<And>r. sr_id (f r) = sr_id r"
  shows "ids_ok n (upd_where p f t)"
proof -
  have "map sr_id (upd_where p f t) = map sr_id t" by (rule map_upd_where) (rule assms(2))
  then show ?thesis using assms unfolding ids_ok_def by (auto simp: upd_where_member)
qed

lemma ids_ok_append: "ids_ok n t \<Longrightarrow> sr_id r = n \<Longrightarrow> ids_ok (n + 1) (t @ [r])"
  by (fastforce simp: ids_ok_def)

lemma ids_ok_mono: "ids_ok n t \<Longrightarrow> ids_ok (n + 1) t"
  by (fastforce simp: ids_ok_def)

lemma demote_member:
  "r \<in> set (demote oid t) \<longleftrightarrow> (\<exists>x\<in>set t. r = (if sr_outage x = oid \<and> sr_is_latest x then x\<lparr>sr_is_latest := False\<rparr> else x))"
  by (simp add: demote_def upd_where_member)

lemma demote_none: "r \<in> set (demote oid t) \<Longrightarrow> sr_outage r = oid \<Longrightarrow> \<not> sr_is_latest r"
  unfolding demote_member by (elim bexE) (simp split: if_split_asm)

lemma demote_latest: "r \<in> set (demote oid t) \<Longrightarrow> sr_is_latest r \<Longrightarrow> r \<in> set t"
  unfolding demote_member by (elim bexE) (simp split: if_split_asm)

lemma latest_one_demote: "latest_one t \<Longrightarrow> latest_one (demote oid t)"
  unfolding latest_one_def by (blast dest: demote_latest)

lemma latest_one_append:
  "latest_one t \<Longrightarrow> (sr_is_latest r \<Longrightarrow> \<forall>x\<in>set t. sr_outage x = sr_outage r \<longrightarrow> \<not> sr_is_latest x) \<Longrightarrow> latest_one (t @ [r])"
  unfolding latest_one_def by auto

lemma demote_other: "r \<in> set t \<Longrightarrow> sr_outage r \<noteq> oid \<Longrightarrow> r \<in> set (demote oid t)"
  unfolding demote_member by (rule bexI [of _ r]) simp_all

lemma demote_outage: "r \<in> set (demote oid t) \<Longrightarrow> \<exists>x\<in>set t. sr_outage r = sr_outage x"
  unfolding demote_member by (elim bexE) (auto split: if_split_asm)

lemma latest_some_create:
  assumes "latest_some t" "sr_outage r = oid" "sr_is_latest r"
  shows "latest_some (demote oid t @ [r])"
  unfolding latest_some_def
proof
  fix x assume x: "x \<in> set (demote oid t @ [r])"
  show "\<exists>r'\<in>set (demote oid t @ [r]). sr_outage r' = sr_outage x \<and> sr_is_latest r'"
  proof (cases "sr_outage x = oid")
    case False
    with x assms(2) obtain y where "y \<in> set t" "sr_outage x = sr_outage y" using demote_outage by fastforce
    with assms(1) obtain z where "z \<in> set t" "sr_outage z = sr_outage x" "sr_is_latest z" unfolding latest_some_def by metis
    then show ?thesis using demote_other [of z t oid] False by auto
  qed (use assms in auto)
qed

lemma latest_some_append: "latest_some t \<Longrightarrow> b \<in> set t \<Longrightarrow> sr_outage r = sr_outage b \<Longrightarrow> latest_some (t @ [r])"
  unfolding latest_some_def by auto

text \<open>The table \<open>create\<close> extends: demoting is a no-op when there is nothing to demote.\<close>

lemma demote_noop:
  "find (\<lambda>r. sr_outage r = oid \<and> sr_is_latest r) t = None \<Longrightarrow> demote oid t = t"
  unfolding demote_def upd_where_def by (rule map_idI) (auto simp: find_None_iff)

lemma create_result_cases:
  "create_result st outs p s =
    (if get_orm (res_outage_id p) outs = None then (Inl (IntegrityError ''sla_results''), s\<lparr>sd_next := sd_next s + 1\<rparr>)
     else (Inr (p\<lparr>res_id := Some (sd_next s)\<rparr>),
       s\<lparr>sd_results := demote (res_outage_id p) (sd_results s) @ [SLAResultORM st (sd_next s) True p], sd_next := sd_next s + 1\<rparr>))"
  unfolding create_result_def Let_def
  by (cases "find (\<lambda>r. sr_outage r = res_outage_id p \<and> sr_is_latest r) (sd_results s)") (auto simp: demote_noop)

lemma get_by_outage_created:
  "get_by_outage oid (demote oid t @ [SLAResultORM st i True p]) = Some (p\<lparr>res_id := Some i\<rparr>)" if "res_outage_id p = oid"
proof -
  have "find (\<lambda>r. sr_outage r = oid \<and> sr_is_latest r) (demote oid t) = None"
    by (auto simp: find_None_iff dest: demote_none)
  then show ?thesis using that by (simp add: get_by_outage_def find_append)
qed

lemma get_by_outage_id: "get_by_outage oid t = Some x \<Longrightarrow> res_id x \<noteq> None"
  by (auto simp: get_by_outage_def sla_orm_to_pydantic_def)

section \<open>The invariant\<close>

definition dispute_ok :: "sla_row list \<Rightarrow> dispute \<Rightarrow> bool" where
  "dispute_ok t d \<longleftrightarrow> dp_baseline d = Some (dp_result d) \<and> (dp_status d = D_PENDING \<longleftrightarrow> dp_resolved_at d = None)
     \<and> (\<exists>b\<in>set t. sr_id b = dp_result d \<and> (\<forall>i. dp_proposed d = Some i \<longrightarrow> (\<exists>r\<in>set t. sr_id r = i \<and> sr_outage r = sr_outage b)))"

definition pending_one :: "dispute list \<Rightarrow> bool" where
  "pending_one ds \<longleftrightarrow> (\<forall>d\<in>set ds. \<forall>d'\<in>set ds. dp_status d = D_PENDING \<and> dp_status d' = D_PENDING \<and> dp_result d = dp_result d' \<longrightarrow> d = d')"

definition sla_inv :: "sla_store \<Rightarrow> bool" where
  "sla_inv s \<longleftrightarrow> ids_ok (sd_next s) (sd_results s) \<and> latest_one (sd_results s) \<and> latest_some (sd_results s) \<and> distinct (map dp_id (sd_disputes s))
     \<and> pending_one (sd_disputes s) \<and> (\<forall>d\<in>set (sd_disputes s). dispute_ok (sd_results s) d)"

text \<open>A dispute stays well formed when the results keep their ids and outages and only grow.\<close>

definition extends :: "sla_row list \<Rightarrow> sla_row list \<Rightarrow> bool" where
  "extends t t' \<longleftrightarrow> (\<forall>r\<in>set t. \<exists>r'\<in>set t'. sr_id r' = sr_id r \<and> sr_outage r' = sr_outage r)"

lemma dispute_ok_extends: "dispute_ok t d \<Longrightarrow> extends t t' \<Longrightarrow> dispute_ok t' d"
  unfolding dispute_ok_def extends_def by (metis (no_types, lifting))

lemma extends_refl [simp]: "extends t t"
  by (auto simp: extends_def)

lemma extends_append: "extends t u \<Longrightarrow> extends t (u @ v)"
  by (auto simp: extends_def)

lemma extends_upd: "(\<And>r. sr_id (f r) = sr_id r \<and> sr_outage (f r) = sr_outage r) \<Longrightarrow> extends t (upd_where p f t)"
  unfolding extends_def by (auto simp: upd_where_def)

lemma extends_trans: "extends t u \<Longrightarrow> extends u v \<Longrightarrow> extends t v"
  unfolding extends_def by metis

lemma create_result_inv: "sla_inv s \<Longrightarrow> sla_inv (snd (create_result st outs p s))"
proof -
  assume inv: "sla_inv s"
  have "extends (sd_results s) (demote (res_outage_id p) (sd_results s) @ [SLAResultORM st (sd_next s) True p])"
    unfolding demote_def by (intro extends_append extends_upd) simp
  moreover have "ids_ok (sd_next s) (demote (res_outage_id p) (sd_results s))"
    using inv unfolding demote_def sla_inv_def by (intro ids_ok_upd) auto
  ultimately show ?thesis using inv
    by (auto simp: create_result_cases sla_inv_def ids_ok_mono intro!: ids_ok_append latest_one_append latest_one_demote latest_some_create
        dest: demote_none intro: dispute_ok_extends)
qed

lemma create_if_changed_inv: "sla_inv s \<Longrightarrow> sla_inv (snd (create_if_changed st outs p s))"
  by (auto simp: create_if_changed_def create_result_inv split: option.split)

lemma find_latest:
  assumes "latest_one t" "x \<in> set t" "sr_is_latest x"
  shows "find (\<lambda>r. sr_outage r = sr_outage x \<and> sr_is_latest r) t = Some x"
proof (cases "find (\<lambda>r. sr_outage r = sr_outage x \<and> sr_is_latest r) t")
  case None
  then show ?thesis using assms by (auto simp: find_None_iff)
next
  case (Some y)
  from find_SomeD [OF this] show ?thesis using Some assms unfolding latest_one_def by auto
qed

text \<open>Where the rows of a promotion come from.\<close>

lemma promote_member:
  assumes "latest_one t" "ids_ok n t" "r \<in> set (promote p t)"
  shows "sr_id r = sr_id p \<and> sr_is_latest r \<or> sr_id r \<noteq> sr_id p \<and> (sr_is_latest r \<longrightarrow> r \<in> set t \<and> sr_outage r \<noteq> sr_outage p)"
proof -
  define t1 where "t1 = (case find (\<lambda>r. sr_outage r = sr_outage p \<and> sr_is_latest r) t of None \<Rightarrow> t
    | Some old \<Rightarrow> upd_where (\<lambda>r. sr_id r = sr_id old) (\<lambda>r. r\<lparr>sr_is_latest := False\<rparr>) t)"
  have t1: "y \<in> set t \<and> sr_outage y \<noteq> sr_outage p" if y: "y \<in> set t1" "sr_is_latest y" for y
  proof (cases "find (\<lambda>r. sr_outage r = sr_outage p \<and> sr_is_latest r) t")
    case None
    then have "t1 = t" by (simp add: t1_def)
    then show ?thesis using None y by (auto simp: find_None_iff)
  next
    case (Some old)
    then obtain x where x: "x \<in> set t" "y = (if sr_id x = sr_id old then x\<lparr>sr_is_latest := False\<rparr> else x)"
      using y(1) by (auto simp: t1_def upd_where_member)
    then have "y = x" "sr_id x \<noteq> sr_id old" using y(2) by (auto split: if_splits)
    moreover have "sr_outage x \<noteq> sr_outage p" using find_latest [OF assms(1) x(1)] Some y(2) calculation by auto
    ultimately show ?thesis using x(1) by simp
  qed
  obtain y where "y \<in> set t1" "r = (if sr_id y = sr_id p then y\<lparr>sr_is_latest := True\<rparr> else y)"
    using assms(3) unfolding promote_def Let_def t1_def [symmetric] upd_where_member by blast
  then show ?thesis using t1 by (cases "sr_id y = sr_id p") auto
qed

lemma promote_ids: "ids_ok n t \<Longrightarrow> ids_ok n (promote p t)"
  unfolding promote_def Let_def by (intro ids_ok_upd) (auto split: option.split intro: ids_ok_upd)

lemma promote_extends: "extends t (promote p t)"
proof -
  have "extends t (case find (\<lambda>r. sr_outage r = sr_outage p \<and> sr_is_latest r) t of None \<Rightarrow> t
    | Some old \<Rightarrow> upd_where (\<lambda>r. sr_id r = sr_id old) (\<lambda>r. r\<lparr>sr_is_latest := False\<rparr>) t)"
    by (auto split: option.split intro: extends_upd)
  then show ?thesis unfolding promote_def Let_def by (rule extends_trans) (rule extends_upd, simp)
qed

lemma promote_outage: "ids_ok n t \<Longrightarrow> p \<in> set t \<Longrightarrow> r \<in> set (promote p t) \<Longrightarrow> sr_id r = sr_id p \<Longrightarrow> sr_outage r = sr_outage p"
  using promote_extends [of t p] promote_ids [of n t p] ids_ok_eq [of n "promote p t" r] unfolding extends_def by metis

lemma promote_latest_one:
  assumes "latest_one t" "ids_ok n t" "p \<in> set t"
  shows "latest_one (promote p t)"
  unfolding latest_one_def
proof (intro ballI impI)
  fix r r' assume m: "r \<in> set (promote p t)" "r' \<in> set (promote p t)"
    and l: "sr_is_latest r \<and> sr_is_latest r' \<and> sr_outage r = sr_outage r'"
  note out = promote_outage [OF assms(2,3)]
  from promote_member [OF assms(1,2) m(1)] promote_member [OF assms(1,2) m(2)] l out [OF m(1)] out [OF m(2)]
  consider "sr_id r = sr_id r'" | "r \<in> set t" "r' \<in> set t" by auto
  then show "r = r'"
  proof cases
    case 1
    then show ?thesis using ids_ok_eq [OF promote_ids [OF assms(2)] m] by blast
  next
    case 2
    then show ?thesis using assms(1) l unfolding latest_one_def by blast
  qed
qed

lemma promote_keeps:
  assumes "r \<in> set t" "sr_outage r \<noteq> sr_outage p" "ids_ok n t" "p \<in> set t"
  shows "r \<in> set (promote p t)"
proof -
  have ids: "sr_id r \<noteq> sr_id p" using assms ids_ok_eq by blast
  have "r \<in> set (case find (\<lambda>r. sr_outage r = sr_outage p \<and> sr_is_latest r) t of None \<Rightarrow> t
      | Some old \<Rightarrow> upd_where (\<lambda>r. sr_id r = sr_id old) (\<lambda>r. r\<lparr>sr_is_latest := False\<rparr>) t)"
  proof (cases "find (\<lambda>r. sr_outage r = sr_outage p \<and> sr_is_latest r) t")
    case (Some old)
    from find_SomeD [OF this] have "sr_id r \<noteq> sr_id old" using assms ids_ok_eq [OF assms(3)] by metis
    then show ?thesis using Some assms(1) by (auto simp: upd_where_member intro!: bexI [of _ r])
  qed (use assms in simp)
  then show ?thesis unfolding promote_def Let_def upd_where_member using ids by (intro bexI [of _ r]) auto
qed

lemma promote_target:
  assumes "latest_one t" "ids_ok n t" "p \<in> set t"
  shows "\<exists>r\<in>set (promote p t). sr_id r = sr_id p \<and> sr_outage r = sr_outage p \<and> sr_is_latest r"
proof -
  obtain r where r: "r \<in> set (promote p t)" "sr_id r = sr_id p" "sr_outage r = sr_outage p"
    using promote_extends [of t p] assms(3) by (auto simp: extends_def)
  then show ?thesis using promote_member [OF assms(1,2) r(1)] by blast
qed

lemma promote_latest_some:
  assumes "latest_one t" "latest_some t" "ids_ok n t" "p \<in> set t"
  shows "latest_some (promote p t)"
  unfolding latest_some_def
proof
  fix x assume x: "x \<in> set (promote p t)"
  have "\<exists>y\<in>set t. sr_outage x = sr_outage y"
    using x unfolding promote_def Let_def by (force simp: upd_where_member split: option.splits)
  then obtain y where y: "y \<in> set t" "sr_outage x = sr_outage y" by blast
  show "\<exists>r'\<in>set (promote p t). sr_outage r' = sr_outage x \<and> sr_is_latest r'"
  proof (cases "sr_outage x = sr_outage p")
    case True
    then show ?thesis using promote_target [OF assms(1,3,4)] by auto
  next
    case False
    obtain z where "z \<in> set t" "sr_outage z = sr_outage y" "sr_is_latest z" using assms(2) y(1) unfolding latest_some_def by blast
    then show ?thesis using promote_keeps [OF _ _ assms(3,4), of z] False y(2) by auto
  qed
qed

lemma calculate_outage: "calculate cfg oid sev mttr pv src = Inr r \<Longrightarrow> res_outage_id r = oid \<and> res_id r = None"
  by (auto simp: calculate_def Let_def split: if_splits sum.splits prod.splits)

lemma pending_disputeD: "pending_dispute rid ds = Some d \<Longrightarrow> d \<in> set ds \<and> dp_result d = rid \<and> dp_status d = D_PENDING"
  unfolding pending_dispute_def by (drule find_SomeD) simp

lemma result_by_idD: "result_by_id rid t = Some r \<Longrightarrow> r \<in> set t \<and> sr_id r = rid"
  unfolding result_by_id_def by (drule find_SomeD) simp

text \<open>Updating one dispute: ids are distinct, so only that row changes.\<close>

lemma upd_dispute_member:
  assumes "distinct (map dp_id ds)" "d \<in> set ds" "x \<in> set (upd_dispute (dp_id d) f ds)"
  shows "x = f d \<or> x \<in> set ds \<and> x \<noteq> d"
proof -
  obtain y where y: "y \<in> set ds" "x = (if dp_id y = dp_id d then f y else y)" using assms(3) by (auto simp: upd_dispute_def upd_where_member)
  show ?thesis
  proof (cases "dp_id y = dp_id d")
    case True
    then have "y = d" using assms(1,2) y(1) by (auto simp: distinct_map inj_on_def)
    then show ?thesis using y(2) by simp
  qed (use y in auto)
qed

lemma upd_dispute_inv:
  assumes "distinct (map dp_id ds)" "pending_one ds" "\<forall>x\<in>set ds. dispute_ok t x" "extends t t'" "d \<in> set ds" "dp_status d = D_PENDING"
    and f: "dp_id (f d) = dp_id d" "dp_result (f d) = dp_result d" "dispute_ok t' (f d)" and ids: "\<And>x. dp_id (f x) = dp_id x"
  shows "distinct (map dp_id (upd_dispute (dp_id d) f ds))" "pending_one (upd_dispute (dp_id d) f ds)"
    "\<forall>x\<in>set (upd_dispute (dp_id d) f ds). dispute_ok t' x"
proof -
  note m = upd_dispute_member [OF assms(1,5)]
  have "map dp_id (upd_dispute (dp_id d) f ds) = map dp_id ds" unfolding upd_dispute_def by (rule map_upd_where) (rule ids)
  then show "distinct (map dp_id (upd_dispute (dp_id d) f ds))" using assms(1) by simp
  show "pending_one (upd_dispute (dp_id d) f ds)" unfolding pending_one_def
  proof (intro ballI impI)
    fix x y assume x: "x \<in> set (upd_dispute (dp_id d) f ds)" and y: "y \<in> set (upd_dispute (dp_id d) f ds)"
      and p: "dp_status x = D_PENDING \<and> dp_status y = D_PENDING \<and> dp_result x = dp_result y"
    have "\<not> (z \<in> set ds \<and> z \<noteq> d \<and> dp_status z = D_PENDING \<and> dp_result z = dp_result d)" for z
      using assms(2,5,6) unfolding pending_one_def by blast
    then show "x = y" using m [OF x] m [OF y] p f(2) assms(2) unfolding pending_one_def by metis
  qed
  show "\<forall>x\<in>set (upd_dispute (dp_id d) f ds). dispute_ok t' x"
    using m f(3) assms(3,4) dispute_ok_extends by blast
qed

lemma flag_inv: "sla_inv s \<Longrightarrow> sla_inv (snd (flag_dispute now uid rid fb reason s))"
proof -
  assume inv: "sla_inv s"
  show ?thesis
  proof (cases "result_by_id rid (sd_results s)")
    case (Some b)
    have ok: "dispute_ok (sd_results s) \<lparr>dp_id = uid, dp_result = rid, dp_baseline = Some rid, dp_proposed = None, dp_flagged_by = fb,
        dp_reason = reason, dp_flagged_at = now, dp_status = D_PENDING, dp_resolved_by = None, dp_notes = None, dp_resolved_at = None\<rparr>"
      using result_by_idD [OF Some] by (auto simp: dispute_ok_def)
    have "pending_one (sd_disputes s @ [d])" if "pending_dispute rid (sd_disputes s) = None" "dp_result d = rid" for d
      using that inv by (auto simp: pending_one_def sla_inv_def pending_dispute_def find_None_iff)
    then show ?thesis using Some inv ok by (auto simp: flag_dispute_def sla_inv_def Let_def list_ex_iff)
  qed (use inv in \<open>simp add: flag_dispute_def\<close>)
qed

lemma proposed_inv: "sla_inv s \<Longrightarrow> sla_inv (snd (create_proposed_sla env cfg outs now rid q s))"
proof -
  assume inv: "sla_inv s"
  show ?thesis
  proof (cases "\<exists>d b new. pending_dispute rid (sd_disputes s) = Some d \<and> Option.bind (dp_baseline d) (\<lambda>b. result_by_id b (sd_results s)) = Some b
      \<and> calculate cfg (sr_outage b) (pq_severity q) (pq_mttr q) (pq_policy_version q) (pq_threshold_source q) = Inr new
      \<and> get_orm (res_outage_id new) outs \<noteq> None")
    case True
    then obtain d b new where d: "pending_dispute rid (sd_disputes s) = Some d"
      "Option.bind (dp_baseline d) (\<lambda>b. result_by_id b (sd_results s)) = Some b"
      "calculate cfg (sr_outage b) (pq_severity q) (pq_mttr q) (pq_policy_version q) (pq_threshold_source q) = Inr new"
      "get_orm (res_outage_id new) outs \<noteq> None" by blast
    let ?row = "SLAResultORM (se_started env) (sd_next s) False new"
    let ?t = "sd_results s @ [?row]"
    have ext: "extends (sd_results s) ?t" by (simp add: extends_append)
    note p = pending_disputeD [OF d(1)]
    have ok: "dispute_ok (sd_results s) d" using inv p by (simp add: sla_inv_def)
    then have "result_by_id (dp_result d) (sd_results s) = Some b" using d(2) by (simp add: dispute_ok_def)
    then have b: "b \<in> set (sd_results s)" "sr_id b = dp_result d" using result_by_idD by auto
    have "sr_outage ?row = sr_outage b" using calculate_outage [OF d(3)] by simp
    then have new_ok: "dispute_ok ?t (d\<lparr>dp_proposed := Some (sd_next s)\<rparr>)" using ok b by (auto simp: dispute_ok_def)
    have i: "distinct (map dp_id (sd_disputes s))" "pending_one (sd_disputes s)" "\<forall>x\<in>set (sd_disputes s). dispute_ok (sd_results s) x"
      using inv by (auto simp: sla_inv_def)
    have m: "d \<in> set (sd_disputes s)" "dp_status d = D_PENDING" using p by auto
    have "ids_ok (sd_next s + 1) ?t" "latest_one ?t" using inv by (auto simp: sla_inv_def intro: ids_ok_append latest_one_append)
    moreover have "latest_some ?t" using inv b \<open>sr_outage ?row = sr_outage b\<close> by (intro latest_some_append) (auto simp: sla_inv_def)
    ultimately show ?thesis using d upd_dispute_inv [where f = "\<lambda>x. x\<lparr>dp_proposed := Some (sd_next s)\<rparr>", OF i ext m _ _ new_ok]
      by (auto simp: create_proposed_sla_def sla_inv_def Let_def)
  next
    case False
    then show ?thesis using inv ids_ok_mono
      by (auto simp: create_proposed_sla_def sla_inv_def split: option.split sum.split)
  qed
qed

lemma resolve_inv: "sla_inv s \<Longrightarrow> sla_inv (snd (resolve_dispute now rid q s))"
proof -
  assume inv: "sla_inv s"
  show ?thesis
  proof (cases "rq_status q \<in> {D_RESOLVED, D_REJECTED} \<and> pending_dispute rid (sd_disputes s) \<noteq> None")
    case True
    then obtain d where d: "pending_dispute rid (sd_disputes s) = Some d" and st: "rq_status q \<noteq> D_PENDING" by auto
    note p = pending_disputeD [OF d]
    let ?f = "\<lambda>x. x\<lparr>dp_status := rq_status q, dp_resolved_by := Some (rq_resolved_by q), dp_notes := Some (rq_notes q), dp_resolved_at := Some now\<rparr>"
    have i: "distinct (map dp_id (sd_disputes s))" "pending_one (sd_disputes s)" "\<forall>x\<in>set (sd_disputes s). dispute_ok (sd_results s) x"
      and t: "ids_ok (sd_next s) (sd_results s)" "latest_one (sd_results s)" "latest_some (sd_results s)" using inv by (auto simp: sla_inv_def)
    have m: "d \<in> set (sd_disputes s)" "dp_status d = D_PENDING" using p by auto
    have commit: "sla_inv (s\<lparr>sd_results := t', sd_disputes := upd_dispute (dp_id d) ?f (sd_disputes s), sd_log := lg\<rparr>)"
      if "extends (sd_results s) t'" "ids_ok (sd_next s) t'" "latest_one t'" "latest_some t'" for t' lg
    proof -
      have "dispute_ok t' d" using i(3) m(1) that(1) dispute_ok_extends by blast
      then have "dispute_ok t' (?f d)" using st by (simp add: dispute_ok_def)
      from upd_dispute_inv [where f = ?f, OF i that(1) m _ _ this] show ?thesis using that by (simp add: sla_inv_def)
    qed
    have prom: "sla_inv (s\<lparr>sd_results := promote r (sd_results s), sd_disputes := upd_dispute (dp_id d) ?f (sd_disputes s), sd_log := lg\<rparr>)"
      if "result_by_id k (sd_results s) = Some r" for k r lg
      using result_by_idD [OF that] t by (intro commit promote_extends promote_ids promote_latest_one promote_latest_some) auto
    show ?thesis using d inv prom commit [OF extends_refl t]
      by (auto simp: resolve_dispute_def Let_def split: option.split)
  qed (use inv in \<open>auto simp: resolve_dispute_def\<close>)
qed

lemma snapshot_inv: "sla_inv s \<Longrightarrow> sla_inv (snd (create_snapshot env outs now key s))"
  by (auto simp: create_snapshot_def sla_inv_def Let_def split: sum.split)

inductive sla_step :: "sla_store \<Rightarrow> sla_store \<Rightarrow> bool" where
  sst_create: "sla_step s (snd (create_result st outs p s))"
| sst_create_if_changed: "sla_step s (snd (create_if_changed st outs p s))"
| sst_flag: "sla_step s (snd (flag_dispute now uid rid fb reason s))"
| sst_propose: "sla_step s (snd (create_proposed_sla env cfg outs now rid q s))"
| sst_resolve: "sla_step s (snd (resolve_dispute now rid rq s))"
| sst_snapshot: "sla_step s (snd (create_snapshot env outs now key s))"
| sst_rebuild: "sla_step s (snd (rebuild_snapshot env outs now key s))"

definition sla_init :: sla_store where
  "sla_init = \<lparr>sd_results = [], sd_next = 1, sd_snaps = [], sd_snap_next = 1, sd_disputes = [], sd_log = []\<rparr>"

lemma sla_step_inv: "sla_step s s' \<Longrightarrow> sla_inv s \<Longrightarrow> sla_inv s'"
  by (induction rule: sla_step.induct)
    (simp_all add: create_result_inv create_if_changed_inv flag_inv proposed_inv resolve_inv snapshot_inv rebuild_snapshot_def)

lemma sla_init_inv: "sla_inv sla_init"
  by (simp add: sla_init_def sla_inv_def ids_ok_def latest_one_def latest_some_def pending_one_def)

interpretation sla_tables: step_system sla_step sla_inv
  by unfold_locales (rule sla_step_inv)

lemma sla_steps_inv: "sla_step\<^sup>*\<^sup>* sla_init s \<Longrightarrow> sla_inv s"
  using sla_tables.history_inv sla_init_inv by blast

section \<open>Properties\<close>

subsection \<open>Samples\<close>

definition sample_outages :: "outage_row list" where
  "sample_outages = [\<lparr>o_id = ''o1'', o_site_name = ''s'', o_site_id = Some ''x'', o_severity = ''high'', o_status = ''resolved'',
     o_detected_at = 0, o_resolved_at = None, o_description = ''d'', o_affected_services = [''v''], o_affected_subscribers = None,
     o_assigned_to = None, o_created_by = None, o_location = None, o_mttr_minutes = Some 20, o_updated_at = 0\<rparr>]"

definition sample_calc :: "int \<Rightarrow> sla_result res" where
  "sample_calc mttr = calculate SLA_CONFIG ''o1'' ''high'' mttr ''1.0'' ''config''"

definition sample_result :: sla_result where
  "sample_result = sum.projr (sample_calc 20)"

lemma sample_calc_eq: "calculate SLA_CONFIG ''o1'' ''high'' 20 ''1.0'' ''config'' = Inr sample_result"
proof -
  have "\<not> isl (sample_calc 20)" by code_simp
  then show ?thesis unfolding sample_result_def by (simp add: sample_calc_def)
qed

lemma sample_result_outage: "res_outage_id sample_result = ''o1''"
  using calculate_outage [OF sample_calc_eq] by simp

definition sample_store :: sla_store where
  "sample_store = snd (create_result 0 sample_outages sample_result sla_init)"

lemma sample_store_reachable: "sla_step\<^sup>*\<^sup>* sla_init sample_store"
  unfolding sample_store_def by (rule r_into_rtranclp [where r = sla_step]) (rule sst_create)

lemma sample_store_eq:
  "sd_results sample_store = [SLAResultORM 0 1 True sample_result]" "sd_next sample_store = 2" "sd_disputes sample_store = []"
  "sd_snaps sample_store = []" "sd_snap_next sample_store = 1"
  by (simp_all add: sample_store_def create_result_cases sla_init_def sample_result_outage get_orm_def sample_outages_def demote_def upd_where_def)

definition sample_sla_env :: sla_env where
  "sample_sla_env = \<lparr>se_started = 0, se_zone = (\<lambda>_. True), se_trunc = (\<lambda>_ _ x. x), se_show = (\<lambda>_. []), se_iso = (\<lambda>_. []),
     se_digest = (\<lambda>d. if list_ex (\<lambda>(k, v). v = JStr []) d then ''a'' else ''b''), se_dump = (\<lambda>_. [])\<rparr>"

lemma sample_known: "get_orm ''o1'' sample_outages = Some (hd sample_outages)"
  by (simp add: get_orm_def sample_outages_def)

lemma sample_amounts: "0 \<le> res_amount sample_result" "0 \<le> res_mttr sample_result"
proof -
  have "case sample_calc 20 of Inl _ \<Rightarrow> False | Inr r \<Rightarrow> 0 \<le> res_amount r \<and> 0 \<le> res_mttr r" by code_simp
  then show "0 \<le> res_amount sample_result" "0 \<le> res_mttr sample_result" by (simp_all add: sample_calc_def sample_calc_eq)
qed

lemma sample_aggregates:
  "\<exists>k. aggregate_dashboard_kpis sample_outages None None (sd_results sample_store) = Inr k"
  "\<exists>p. aggregate_performance sample_outages None None None None (sd_results sample_store) = Inr p"
proof -
  have r: "sr_amount (SLAResultORM 0 1 True sample_result) = res_amount sample_result" "sr_mttr (SLAResultORM 0 1 True sample_result) = res_mttr sample_result"
    by (simp_all add: SLAResultORM_def)
  show "\<exists>k. aggregate_dashboard_kpis sample_outages None None (sd_results sample_store) = Inr k"
    using sample_amounts by (simp add: aggregate_dashboard_kpis_def SLADashboardKPI_def optional_join_def given_def Let_def sample_store_eq
        sum_rewards_def sum_penalties_def r py_round_nonneg)
  have "py_round 4 1 = 1" by (simp add: py_round_def Let_def)
  then show "\<exists>p. aggregate_performance sample_outages None None None None (sd_results sample_store) = Inr p"
    using sample_amounts by (simp add: aggregate_performance_def SLAPerformanceAggregation_def outage_join_def given_def Let_def sample_store_eq
        newest_rows_def r py_round_nonneg sample_known sample_result_outage count_violated_def)
qed

lemma sample_snapshot: "\<exists>x s'. create_snapshot sample_sla_env sample_outages 9 ''global'' sample_store = (Inr x, s')"
  using sample_aggregates by (auto simp: create_snapshot_def Let_def)

text \<open>
  C7. After any sequence of stored results, disputes, proposals, resolutions and snapshots, result ids are distinct
  and every outage that has a result has exactly one row marked as the latest; a result has at most one pending
  dispute, and every dispute names an existing baseline and, if it has one, an existing proposed result of the same
  outage.
\<close>

theorem sla_tables_consistent:
  assumes "sla_step\<^sup>*\<^sup>* sla_init s"
  shows "distinct (map sr_id (sd_results s))
    \<and> (\<forall>r\<in>set (sd_results s). \<exists>!x. x \<in> set (sd_results s) \<and> sr_outage x = sr_outage r \<and> sr_is_latest x)
    \<and> pending_one (sd_disputes s) \<and> (\<forall>d\<in>set (sd_disputes s). dispute_ok (sd_results s) d)"
  using sla_steps_inv [OF assms] unfolding sla_inv_def ids_ok_def latest_one_def latest_some_def by (metis (no_types, lifting))

theorem sla_tables_consistent_witness:
  "distinct (map sr_id (sd_results sample_store)) \<and> pending_one (sd_disputes sample_store)"
  using sla_tables_consistent [OF sample_store_reachable] by blast

text \<open>
  Storing a computed result through \<open>create_if_changed\<close> always inserts a row, also when nothing changed: the
  computed result has no id and the stored one has, so the comparison never succeeds. The new row is what
  \<open>get_by_outage\<close> answers, and the answer for other outages does not change.
\<close>

theorem recompute_always_inserts:
  assumes "calculate cfg oid sev mttr pv src = Inr p" "get_orm oid outs = Some x" "oid' \<noteq> oid"
  shows "\<exists>s'. create_if_changed st outs p s = (Inr (p\<lparr>res_id := Some (sd_next s)\<rparr>), s')
    \<and> length (sd_results s') = length (sd_results s) + 1
    \<and> get_by_outage oid (sd_results s') = Some (p\<lparr>res_id := Some (sd_next s)\<rparr>)
    \<and> find (\<lambda>r. sr_outage r = oid' \<and> sr_is_latest r) (sd_results s') = find (\<lambda>r. sr_outage r = oid' \<and> sr_is_latest r) (sd_results s)"
proof -
  have p: "res_outage_id p = oid" "res_id p = None" using calculate_outage [OF assms(1)] by auto
  have c: "create_if_changed st outs p s = create_result st outs p s"
    using get_by_outage_id [of oid "sd_results s"] p by (auto simp: create_if_changed_def split: option.split)
  have "length (demote oid t) = length t" for t by (simp add: demote_def)
  moreover have "find (\<lambda>r. sr_outage r = oid' \<and> sr_is_latest r) (demote oid t) = find (\<lambda>r. sr_outage r = oid' \<and> sr_is_latest r) t" for t
    using assms(3) by (induction t) (auto simp: demote_def upd_where_def)
  ultimately show ?thesis using p assms get_by_outage_created [OF p(1)]
    by (auto simp: c create_result_cases find_append split: option.split)
qed

theorem recompute_always_inserts_witness:
  "length (sd_results (snd (create_if_changed 0 sample_outages sample_result sample_store))) = 2"
proof -
  have "''o2'' \<noteq> ''o1''" by simp
  from recompute_always_inserts [OF sample_calc_eq sample_known this, of 0 sample_store] show ?thesis by (auto simp: sample_store_eq)
qed

lemma promote_rows: "r \<in> set (promote p t) \<Longrightarrow> \<exists>x\<in>set t. \<exists>b. r = x\<lparr>sr_is_latest := b\<rparr>"
proof -
  have same: "\<exists>b. x = x\<lparr>sr_is_latest := b\<rparr>" for x :: sla_row by (rule exI [of _ "sr_is_latest x"]) simp
  have upd: "\<exists>x\<in>set u. \<exists>b. r = x\<lparr>sr_is_latest := b\<rparr>" if "r \<in> set (upd_where P (\<lambda>r. r\<lparr>sr_is_latest := c\<rparr>) u)" for r P c and u :: "sla_row list"
  proof -
    from that obtain x where "x \<in> set u" "r = (if P x then x\<lparr>sr_is_latest := c\<rparr> else x)" unfolding upd_where_member by blast
    then show ?thesis using same [of x] by (intro bexI [of _ x]) (auto split: if_splits)
  qed
  assume "r \<in> set (promote p t)"
  from upd [OF this [unfolded promote_def Let_def]] obtain y b where y: "r = y\<lparr>sr_is_latest := b\<rparr>"
    "y \<in> set (case find (\<lambda>r. sr_outage r = sr_outage p \<and> sr_is_latest r) t of None \<Rightarrow> t
      | Some old \<Rightarrow> upd_where (\<lambda>r. sr_id r = sr_id old) (\<lambda>r. r\<lparr>sr_is_latest := False\<rparr>) t)" by blast
  from y(2) have "\<exists>x\<in>set t. \<exists>c. y = x\<lparr>sr_is_latest := c\<rparr>" 
  proof (cases "find (\<lambda>r. sr_outage r = sr_outage p \<and> sr_is_latest r) t")
    case None
    then show ?thesis using y(2) same [of y] by auto
  next
    case (Some old)
    then show ?thesis using y(2) upd by auto
  qed
  then obtain x c where "x \<in> set t" "y = x\<lparr>sr_is_latest := c\<rparr>" by blast
  then show ?thesis using y(1) by (intro bexI [of _ x] exI [of _ b]) simp_all
qed

lemma promote_get:
  assumes "latest_one t" "ids_ok n t" "p \<in> set t"
  shows "get_by_outage (sr_outage p) (promote p t) = Some (sla_orm_to_pydantic p)"
proof -
  obtain r where r: "r \<in> set (promote p t)" "sr_id r = sr_id p" "sr_outage r = sr_outage p" "sr_is_latest r"
    using promote_target [OF assms] by blast
  obtain y b where y: "y \<in> set t" "r = y\<lparr>sr_is_latest := b\<rparr>" using promote_rows [OF r(1)] by blast
  then have "y = p" using ids_ok_eq [OF assms(2) _ assms(3)] r(2) by simp
  then have "sla_orm_to_pydantic r = sla_orm_to_pydantic p" using y(2) by (simp add: sla_orm_to_pydantic_def)
  then show ?thesis using find_latest [OF promote_latest_one [OF assms] r(1,4)] r(3) by (simp add: get_by_outage_def)
qed

lemma latest_found:
  assumes "latest_one t" "latest_some t" "b \<in> set t"
  shows "\<exists>r. find (\<lambda>r. sr_outage r = sr_outage b \<and> sr_is_latest r) t = Some r"
  using assms find_latest [OF assms(1)] unfolding latest_some_def by metis

lemma upd_dispute_last:
  "\<not> list_ex (\<lambda>d. dp_id d = uid) ds \<Longrightarrow> dp_id d = uid \<Longrightarrow> upd_dispute uid f (ds @ [d]) = ds @ [f d]"
  by (auto simp: upd_dispute_def upd_where_def list_ex_iff intro: map_idI)

lemma pending_last:
  "pending_dispute rid ds = None \<Longrightarrow> pending_dispute rid (ds @ [d]) = (if dp_result d = rid \<and> dp_status d = D_PENDING then Some d else None)"
  by (simp add: pending_dispute_def find_append)

text \<open>
  A dispute from flag to application: while it is pending the result cannot be flagged again, and the
  proposed result does not change what \<open>get_by_outage\<close> answers; resolving the dispute with
  \<open>apply_proposed\<close> makes the proposed result the authoritative one of the outage and leaves no pending dispute.
\<close>

theorem dispute_life_cycle:
  assumes reach: "sla_step\<^sup>*\<^sup>* sla_init s" and b: "result_by_id rid (sd_results s) = Some b"
    and pend: "pending_dispute rid (sd_disputes s) = None"
    and fresh: "\<not> list_ex (\<lambda>d. dp_id d = uid) (sd_disputes s)" and reasons: "10 \<le> length reason" "10 \<le> length reason'"
    and new: "calculate cfg (sr_outage b) (pq_severity q) (pq_mttr q) (pq_policy_version q) (pq_threshold_source q) = Inr new"
    and out: "get_orm (sr_outage b) outs = Some x"
    and rq: "rq_status rq = D_RESOLVED" "rq_apply rq" "10 \<le> length (rq_notes rq)"
    and s1: "s1 = snd (flag_dispute now uid rid fb reason s)"
    and s2: "s2 = snd (create_proposed_sla env cfg outs now' rid q s1)"
    and s3: "s3 = snd (resolve_dispute now'' rid rq s2)"
  shows "fst (flag_dispute now' uid' rid fb' reason' s1)
      = Inl (HTTPException 409 ''An active dispute already exists for this SLA result.'')
    \<and> get_by_outage (sr_outage b) (sd_results s2) = get_by_outage (sr_outage b) (sd_results s)
    \<and> get_by_outage (sr_outage b) (sd_results s3) = Some (new\<lparr>res_id := Some (sd_next s)\<rparr>)
    \<and> pending_dispute rid (sd_disputes s3) = None"
proof -
  define d0 where "d0 = \<lparr>dp_id = uid, dp_result = rid, dp_baseline = Some rid, dp_proposed = None, dp_flagged_by = fb,
      dp_reason = reason, dp_flagged_at = now, dp_status = D_PENDING, dp_resolved_by = None, dp_notes = None, dp_resolved_at = None\<rparr>"
  define row where "row = SLAResultORM (se_started env) (sd_next s) False new"
  have inv: "ids_ok (sd_next s) (sd_results s)" "latest_one (sd_results s)" "latest_some (sd_results s)"
    using sla_steps_inv [OF reach] by (auto simp: sla_inv_def)
  have row: "sr_id row = sd_next s" "sr_outage row = sr_outage b" "\<not> sr_is_latest row"
    "sla_orm_to_pydantic row = new\<lparr>res_id := Some (sd_next s)\<rparr>" and ro: "res_outage_id new = sr_outage b"
    using calculate_outage [OF new] by (simp_all add: row_def)
  have d1: "sd_results s1 = sd_results s" "sd_next s1 = sd_next s" "sd_disputes s1 = sd_disputes s @ [d0]"
    using b pend fresh reasons by (simp_all add: s1 flag_dispute_def Let_def d0_def)
  have p1: "pending_dispute rid (sd_disputes s1) = Some d0" using pend by (simp add: d1 pending_last d0_def)
  have "create_proposed_sla env cfg outs now' rid q s1 = (Inr (d0\<lparr>dp_proposed := Some (sd_next s)\<rparr>), s2)"
    "sd_results s2 = sd_results s @ [row]" "sd_disputes s2 = sd_disputes s @ [d0\<lparr>dp_proposed := Some (sd_next s)\<rparr>]"
    using p1 b new out ro fresh by (simp_all add: s2 create_proposed_sla_def Let_def d1 d0_def row_def upd_dispute_last)
  note d2 = this(2,3)
  have p2: "pending_dispute rid (sd_disputes s2) = Some (d0\<lparr>dp_proposed := Some (sd_next s)\<rparr>)"
    using pend by (simp add: d2 pending_last d0_def)
  have t2: "ids_ok (sd_next s + 1) (sd_results s @ [row])" "latest_one (sd_results s @ [row])" "row \<in> set (sd_results s @ [row])"
    using inv row by (auto intro: ids_ok_append latest_one_append)
  have "result_by_id (sd_next s) (sd_results s) = None" using inv(1) by (auto simp: result_by_id_def find_None_iff ids_ok_def)
  then have r2: "result_by_id (sd_next s) (sd_results s2) = Some row" using row by (simp add: d2 result_by_id_def find_append)
  have "sd_next s \<noteq> 0" using inv(1) by (simp add: ids_ok_def)
  then have d3: "sd_results s3 = promote row (sd_results s @ [row])" "pending_dispute rid (sd_disputes s3) = None"
    using p2 r2 rq fresh pend by (simp_all add: s3 resolve_dispute_def Let_def d2 d0_def upd_dispute_last pending_last)
  obtain r where "find (\<lambda>r. sr_outage r = sr_outage b \<and> sr_is_latest r) (sd_results s) = Some r"
    using latest_found [OF inv(2,3)] result_by_idD [OF b] by blast
  then have g2: "get_by_outage (sr_outage b) (sd_results s2) = get_by_outage (sr_outage b) (sd_results s)"
    by (simp add: d2 get_by_outage_def find_append)
  show ?thesis using g2 d3(2) promote_get [OF t2(2,1,3)] row(2,4) p1 b d1 reasons by (simp add: d3(1) flag_dispute_def)
qed

definition sample_proposal :: proposal_request where
  "sample_proposal = \<lparr>pq_created_by = ''e'', pq_severity = ''high'', pq_mttr = 20, pq_policy_version = ''1.0'', pq_threshold_source = ''config'',
     pq_notes = None\<rparr>"

definition sample_resolution :: resolve_request where
  "sample_resolution = \<lparr>rq_resolved_by = ''a'', rq_notes = ''recomputed.'', rq_status = D_RESOLVED, rq_apply = True\<rparr>"

theorem dispute_life_cycle_witness:
  "get_by_outage ''o1'' (sd_results (snd (resolve_dispute 7 1 sample_resolution
      (snd (create_proposed_sla sample_sla_env SLA_CONFIG sample_outages 6 1 sample_proposal
        (snd (flag_dispute 5 ''u1'' 1 ''e'' ''wrong threshold'' sample_store)))))))
    = Some (sample_result\<lparr>res_id := Some 2\<rparr>)"
proof -
  let ?b = "SLAResultORM 0 1 True sample_result"
  have "result_by_id 1 (sd_results sample_store) = Some ?b" "pending_dispute 1 (sd_disputes sample_store) = None"
    "\<not> list_ex (\<lambda>d. dp_id d = ''u1'') (sd_disputes sample_store)" "10 \<le> length ''wrong threshold''" "10 \<le> length ''wrong threshold''"
    "calculate SLA_CONFIG (sr_outage ?b) (pq_severity sample_proposal) (pq_mttr sample_proposal) (pq_policy_version sample_proposal)
       (pq_threshold_source sample_proposal) = Inr sample_result"
    "get_orm (sr_outage ?b) sample_outages = Some (hd sample_outages)"
    "rq_status sample_resolution = D_RESOLVED" "rq_apply sample_resolution" "10 \<le> length (rq_notes sample_resolution)"
    by (simp_all add: sample_store_eq result_by_id_def pending_dispute_def sample_result_outage sample_calc_eq sample_known
        sample_proposal_def sample_resolution_def)
  from dispute_life_cycle [OF sample_store_reachable this refl refl refl] show ?thesis
    by (simp add: sample_result_outage sample_store_eq)
qed

text \<open>A snapshot that is newer than those of its key is the one a query finds.\<close>

lemma insort_key_last: "k a \<le> k x \<Longrightarrow> insort_key k a (ys @ [x]) = insort_key k a ys @ [x]"
  by (induction ys) auto

lemma sort_key_last: "(\<And>y. y \<in> set ys \<Longrightarrow> k y \<le> k x) \<Longrightarrow> sort_key k (ys @ [x]) = sort_key k ys @ [x]"
  by (induction ys) (simp_all add: insort_key_last)

lemma latest_snapshot_new:
  assumes "sn_key x = key" "\<And>y. y \<in> set t \<Longrightarrow> sn_key y = key \<Longrightarrow> dt_secs (sn_created y) < dt_secs (sn_created x)"
  shows "get_latest_snapshot key (t @ [x]) = Some x"
proof -
  have "sort_key (\<lambda>x. dt_secs (sn_created x)) (filter (\<lambda>x. sn_key x = key) t @ [x])
      = sort_key (\<lambda>x. dt_secs (sn_created x)) (filter (\<lambda>x. sn_key x = key) t) @ [x]"
    using assms(2) by (intro sort_key_last) (auto intro: less_imp_le)
  then show ?thesis using assms(1) by (simp add: get_latest_snapshot_def)
qed

lemma create_snapshotD:
  assumes "create_snapshot env outs now key s = (Inr x, s')"
  shows "sd_snaps s' = sd_snaps s @ [x]" "sd_results s' = sd_results s" "sn_key x = key" "sn_created x = Aware now"
    "sn_checksum x = se_digest env (checksum_data (se_iso env) (x\<lparr>sn_created := Naive now\<rparr>))"
    "\<exists>k p. aggregate_dashboard_kpis outs None None (sd_results s) = Inr k \<and> aggregate_performance outs None None None None (sd_results s) = Inr p
      \<and> sn_total_outages x = kp_total_outages k \<and> sn_total_violations x = kp_total_violations k \<and> sn_total_rewards x = kp_total_rewards k
      \<and> sn_total_penalties x = kp_total_penalties k \<and> sn_net_payout x = kp_net_payout k \<and> sn_avg_mttr x = pf_avg_mttr p"
  using assms by (auto simp: create_snapshot_def Let_def stored_def compute_checksum_def checksum_data_def split: sum.splits)

text \<open>
  Verifying a snapshot right after it was taken answers 409, unless the digest has a collision: the checksum
  is computed over the naive creation time, and the row that is read back has an aware one.
\<close>

theorem fresh_snapshot_fails_verification:
  assumes snap: "create_snapshot env outs now key s = (Inr x, s')"
    and newest: "\<forall>y\<in>set (sd_snaps s). sn_key y = key \<longrightarrow> dt_secs (sn_created y) < now"
  shows "verify_snapshot_handler env key s' = Inl (HTTPException 409 ''Checksum mismatch - snapshot may have been tampered with'')
    \<or> (\<exists>a b. a \<noteq> b \<and> se_digest env a = se_digest env b)"
proof -
  note x = create_snapshotD [OF snap]
  have "get_latest_snapshot key (sd_snaps s') = Some x"
    unfolding x(1) using newest x(3,4) by (intro latest_snapshot_new) auto
  moreover have "checksum_data (se_iso env) x \<noteq> checksum_data (se_iso env) (x\<lparr>sn_created := Naive now\<rparr>)"
    using x(4) by (simp add: checksum_data_def)
  ultimately show ?thesis
    by (auto simp: verify_snapshot_handler_def verify_snapshot_integrity_def compute_checksum_def x(5) Let_def)
qed

theorem fresh_snapshot_fails_verification_witness:
  "verify_snapshot_handler sample_sla_env ''global'' (snd (create_snapshot sample_sla_env sample_outages 9 ''global'' sample_store))
      = Inl (HTTPException 409 ''Checksum mismatch - snapshot may have been tampered with'')
    \<or> (\<exists>a b. a \<noteq> b \<and> se_digest sample_sla_env a = se_digest sample_sla_env b)"
proof -
  obtain x s' where x: "create_snapshot sample_sla_env sample_outages 9 ''global'' sample_store = (Inr x, s')" using sample_snapshot by blast
  have "\<forall>y\<in>set (sd_snaps sample_store). sn_key y = ''global'' \<longrightarrow> dt_secs (sn_created y) < 9" by (simp add: sample_store_eq)
  from fresh_snapshot_fails_verification [OF x this] show ?thesis by (simp add: x)
qed

text \<open>
  Right after a rebuild the reconciliation finds no drift. After one more stored result, a reconciliation that
  answers reports drift, recommends a rebuild and shows one more outage.
\<close>

theorem rebuild_reconciles:
  assumes snap: "rebuild_snapshot env outs now key s = (Inr x, s')"
    and newest: "\<forall>y\<in>set (sd_snaps s). sn_key y = key \<longrightarrow> dt_secs (sn_created y) < now"
    and known: "get_orm (res_outage_id p) outs = Some orow"
  shows "(\<exists>r. reconcile_snapshots outs key s' = Inr r \<and> \<not> rp_drift r \<and> rp_recommendation r = ''ok'' \<and> rp_differences r = [])
    \<and> (\<forall>r'. reconcile_snapshots outs key (snd (create_result st outs p s')) = Inr r' \<longrightarrow>
        rp_drift r' \<and> rp_recommendation r' = ''rebuild'' \<and> (''total_outages'', 1) \<in> set (rp_differences r'))"
proof (intro conjI allI impI)
  note x = create_snapshotD [OF snap [unfolded rebuild_snapshot_def]]
  have latest: "get_latest_snapshot key (sd_snaps s') = Some x"
    unfolding x(1) using newest x(3,4) by (intro latest_snapshot_new) auto
  show "\<exists>r. reconcile_snapshots outs key s' = Inr r \<and> \<not> rp_drift r \<and> rp_recommendation r = ''ok'' \<and> rp_differences r = []"
    using x(6) latest by (auto simp: reconcile_snapshots_def x(2) Let_def diff_entry_def)
  define s'' where "s'' = snd (create_result st outs p s')"
  have count: "kp_total_outages k = int (length t)" if "aggregate_dashboard_kpis outs None None t = Inr k" for t k
    using that by (auto simp: aggregate_dashboard_kpis_def Let_def SLADashboardKPI_def optional_join_def given_def split: if_splits)
  have len: "length (sd_results s'') = length (sd_results s) + 1" and snaps: "sd_snaps s'' = sd_snaps s'"
    using known by (auto simp: s''_def create_result_cases x(2) demote_def)
  have tot: "sn_total_outages x = int (length (sd_results s))" using x(6) count by auto
  fix r' assume "reconcile_snapshots outs key (snd (create_result st outs p s')) = Inr r'"
  then have r': "reconcile_snapshots outs key s'' = Inr r'" by (simp add: s''_def)
  then obtain k where k: "aggregate_dashboard_kpis outs None None (sd_results s'') = Inr k"
    by (auto simp: reconcile_snapshots_def split: sum.splits)
  have d: "sn_total_outages x \<noteq> kp_total_outages k" "kp_total_outages k - sn_total_outages x = 1" using count [OF k] len tot by auto
  show "rp_drift r'" "rp_recommendation r' = ''rebuild''" "(''total_outages'', 1) \<in> set (rp_differences r')"
    using r' k latest d by (auto simp: reconcile_snapshots_def snaps Let_def diff_entry_def split: sum.splits)
qed

theorem rebuild_reconciles_witness:
  "\<exists>r. reconcile_snapshots sample_outages ''global'' (snd (rebuild_snapshot sample_sla_env sample_outages 9 ''global'' sample_store)) = Inr r
     \<and> rp_recommendation r = ''ok''"
proof -
  obtain x s' where x: "rebuild_snapshot sample_sla_env sample_outages 9 ''global'' sample_store = (Inr x, s')"
    using sample_snapshot by (auto simp: rebuild_snapshot_def)
  have "\<forall>y\<in>set (sd_snaps sample_store). sn_key y = ''global'' \<longrightarrow> dt_secs (sn_created y) < 9"
    "get_orm (res_outage_id sample_result) sample_outages = Some (hd sample_outages)"
    by (simp_all add: sample_store_eq sample_result_outage sample_known)
  from rebuild_reconciles [OF x this, of 0] show ?thesis by (auto simp: x)
qed

text \<open>The trend query.\<close>

lemma trend_points_spec:
  "trend_points shw f q bs = Inr ps \<Longrightarrow> map tp_date ps = map shw bs
    \<and> map tp_total_outages ps = map (\<lambda>b. int (length (filter (\<lambda>r. f r = b) q))) bs"
proof (induction bs arbitrary: ps)
  case (Cons b bs)
  obtain p ps' where p: "ps = p # ps'" "trend_points shw f q bs = Inr ps'"
    "tp_date p = shw b" "tp_total_outages p = int (length (filter (\<lambda>r. f r = b) q))"
    using Cons.prems by (cases "trend_points shw f q bs") (auto simp: Let_def SLATrendPoint_def split: sum.splits if_splits)
  then show ?case using Cons.IH by simp
qed simp

lemma bucket_sum:
  assumes "distinct bs" "f ` set q \<subseteq> set bs"
  shows "sum_list (map (\<lambda>b. length (filter (\<lambda>r. f r = b) q)) bs) = length q"
  using assms(2)
proof (induction q)
  case (Cons r q)
  have "sum_list (map (\<lambda>b. length (filter (\<lambda>x. f x = b) (r # q))) bs)
      = sum_list (map (\<lambda>b. (if f r = b then 1 else 0) + length (filter (\<lambda>x. f x = b) q)) bs)"
    by (intro arg_cong [where f = sum_list] map_cong) auto
  also have "\<dots> = sum_list (map (\<lambda>b. if f r = b then 1 else 0) bs) + length q"
    using Cons by (simp add: sum_list_addf)
  also have "sum_list (map (\<lambda>b. if f r = b then 1 else 0) bs) = (1::nat)"
    using Cons.prems assms(1) by (simp add: sum_list_distinct_conv_sum_set)
  finally show ?case by simp
qed simp

text \<open>
  The trend query answers at most the requested number of points, in ascending order of distinct buckets, the
  most recent ones; when all buckets fit, the points account for every stored result exactly once.
\<close>

theorem trends_partition:
  assumes got: "aggregate_trends env outs n bucket tz None None t = Inr ps"
    and f: "f = (\<lambda>r. se_trunc env bucket tz (sr_created r))"
  shows "length ps \<le> n
    \<and> (\<exists>bs. sorted bs \<and> distinct bs \<and> set bs \<subseteq> f ` set t \<and> map tp_date ps = map (se_show env) bs
        \<and> (\<forall>b\<in>f ` set t - set bs. \<forall>c\<in>set bs. b < c))
    \<and> (card (f ` set t) \<le> n \<longrightarrow> sum_list (map tp_total_outages ps) = int (length t))"
proof -
  define S where "S = sort (remdups (map f t))"
  define bs where "bs = drop (length S - n) S"
  have S: "sorted S" "distinct S" "set S = f ` set t" by (auto simp: S_def)
  have len: "length S = card (f ` set t)" using S(2,3) distinct_card by metis
  have q: "optional_join outs None None t = t" by (simp add: optional_join_def given_def)
  obtain ps' where ps': "trend_points (se_show env) f t (take n (rev S)) = Inr ps'" "ps = rev ps'"
    using got by (cases "trend_points (se_show env) f t (take n (rev S))")
      (auto simp: aggregate_trends_def q Let_def S_def f split: if_splits)
  have tk: "take n (rev S) = rev bs" by (simp add: bs_def take_rev)
  note sp = trend_points_spec [OF ps'(1), unfolded tk]
  have dates: "map tp_date ps = map (se_show env) bs" using sp by (simp add: ps'(2) rev_map [symmetric])
  have tot: "map tp_total_outages ps = map (\<lambda>b. int (length (filter (\<lambda>r. f r = b) t))) bs"
    using sp by (simp add: ps'(2) rev_map [symmetric])
  have "length ps \<le> n" using arg_cong [OF dates, of length] by (simp add: bs_def)
  moreover have "sorted bs" "distinct bs" "set bs \<subseteq> f ` set t" using S by (auto simp: bs_def sorted_wrt_drop dest: in_set_dropD)
  moreover have "b < c" if "b \<in> f ` set t - set bs" "c \<in> set bs" for b c
  proof -
    have "b \<in> set (take (length S - n) S)" using that(1) S(3) by (metis DiffE Un_iff append_take_drop_id bs_def set_append)
    moreover have "sorted (take (length S - n) S @ bs)" using S(1) by (simp add: bs_def)
    ultimately have "b \<le> c" using that(2) by (auto simp: sorted_append)
    moreover have "b \<noteq> c" using that by blast
    ultimately show ?thesis by simp
  qed
  moreover have "sum_list (map tp_total_outages ps) = int (length t)" if "card (f ` set t) \<le> n"
  proof -
    have "bs = S" using that len by (simp add: bs_def)
    then have "sum_list (map (\<lambda>b. length (filter (\<lambda>r. f r = b) t)) bs) = length t" using S by (intro bucket_sum) auto
    moreover have "sum_list (map (\<lambda>b. int (g b)) xs) = int (sum_list (map g xs))" for g and xs :: "real list" by (induction xs) auto
    ultimately show ?thesis unfolding tot by simp
  qed
  ultimately show ?thesis using dates by blast
qed

theorem trends_partition_witness:
  "\<exists>ps. aggregate_trends sample_sla_env sample_outages 7 ''day'' ''UTC'' None None (sd_results sample_store) = Inr ps
     \<and> sum_list (map tp_total_outages ps) = 1"
proof -
  have r: "sr_amount (SLAResultORM 0 1 True sample_result) = res_amount sample_result" by (simp add: SLAResultORM_def)
  obtain ps where ps: "aggregate_trends sample_sla_env sample_outages 7 ''day'' ''UTC'' None None (sd_results sample_store) = Inr ps"
    using sample_amounts by (simp add: aggregate_trends_def VALID_BUCKETS_def sample_sla_env_def sample_store_eq optional_join_def given_def
        SLATrendPoint_def sum_rewards_def sum_penalties_def py_round_nonneg Let_def r)
  from trends_partition [OF ps refl] have "sum_list (map tp_total_outages ps) = 1" by (simp add: sample_store_eq)
  then show ?thesis using ps by blast
qed

text \<open>
  The cache of the dashboard is keyed by a text that joins severity and site with an underscore: a query is
  answered, for thirty seconds and as a hit, with the figures of any other query that renders to the same key.
\<close>

theorem dashboard_key_shared:
  assumes miss: "get_sla_dashboard_kpis outs now sev site_id site s c = (Inr (v, False), c')"
    and ttl: "tc_ttl c = 30" and time: "now \<le> now'" "now' < now + 30"
    and key: "dashboard_key sev' (resolved_site site_id' site') = dashboard_key sev (resolved_site site_id site)"
  shows "get_sla_dashboard_kpis outs' now' sev' site_id' site' s' c' = (Inr (v, True), c')
    \<and> dashboard_key (Some ''a_b'') None = dashboard_key (Some ''a'') (Some ''b_None'')"
proof -
  have "c' = cache_set now (dashboard_key sev (resolved_site site_id site)) v c"
    using miss by (auto simp: get_sla_dashboard_kpis_def cached_read_def Let_def split: option.splits sum.splits if_splits)
  then have "entry (dashboard_key sev (resolved_site site_id site)) c' = Some (v, now + 30)" using ttl by simp
  then have "get_with_meta now' (dashboard_key sev' (resolved_site site_id' site')) c'
      = Some \<lparr>cr_value = v, cr_age_seconds = now' - (now + 30 - real_of_int (tc_ttl c')), cr_ttl_remaining = max 0 (now + 30 - now')\<rparr>"
    by (simp add: get_with_meta_def key entry_def)
  then show ?thesis using time
    by (simp add: get_sla_dashboard_kpis_def cached_read_def is_expired_def Let_def dashboard_key_def fstr_def)
qed

theorem dashboard_key_shared_witness:
  "\<exists>v c. get_sla_dashboard_kpis sample_outages 0 (Some ''a_b'') None None sample_store dashboard_cache = (Inr (v, False), c)
     \<and> fst (get_sla_dashboard_kpis sample_outages 1 (Some ''a'') (Some ''b_None'') None sample_store c) = Inr (v, True)"
proof -
  have "\<exists>k. aggregate_dashboard_kpis sample_outages (Some ''a_b'') None (sd_results sample_store) = Inr k"
    using sample_amounts by (simp add: aggregate_dashboard_kpis_def optional_join_def given_def outage_join_def sample_store_eq
        SLADashboardKPI_def sum_rewards_def sum_penalties_def count_violated_def py_round_nonneg Let_def)
  then obtain v c where m: "get_sla_dashboard_kpis sample_outages 0 (Some ''a_b'') None None sample_store dashboard_cache = (Inr (v, False), c)"
    by (auto simp: get_sla_dashboard_kpis_def cached_read_def resolved_site_def given_def get_with_meta_def dashboard_cache_def TTLCache_def)
  have "tc_ttl dashboard_cache = 30" "(0::real) \<le> 1" "(1::real) < 0 + 30"
    "dashboard_key (Some ''a'') (resolved_site (Some ''b_None'') None) = dashboard_key (Some ''a_b'') (resolved_site None None)"
    by (simp_all add: dashboard_cache_def dashboard_key_def resolved_site_def given_def fstr_def)
  from dashboard_key_shared [OF m this, of sample_outages sample_store] show ?thesis using m by auto
qed

text \<open>
  After a snapshot has been taken the analytics cache is cold: the next dashboard query reads the tables,
  whatever its filters.
\<close>

theorem snapshot_refreshes_dashboard:
  assumes "create_analytics_snapshot env outs now key s c = (Inr x, s', c')"
    and "aggregate_dashboard_kpis outs sev (resolved_site site_id site) (sd_results s') = Inr k"
  shows "fst (get_sla_dashboard_kpis outs now' sev site_id site s' c') = Inr (KPI k, False) \<and> sd_results s' = sd_results s"
proof -
  have snap: "create_snapshot env outs now key s = (Inr x, s')" and c': "c' = invalidate_analytics_cache c"
    using assms(1) by (auto simp: create_analytics_snapshot_def split: sum.splits prod.splits)
  have "startswith (dashboard_key sev st) ''dashboard_kpis_''" for st by (simp add: dashboard_key_def startswith_def)
  then have "entry (dashboard_key sev st) c' = None" for st by (simp add: c' invalidate_analytics_cache_def)
  then have "get_with_meta now' (dashboard_key sev st) c' = None" for st by (simp add: entry_def get_with_meta_def)
  then show ?thesis using assms(2) create_snapshotD(2) [OF snap]
    by (simp add: get_sla_dashboard_kpis_def cached_read_def Let_def)
qed

theorem snapshot_refreshes_dashboard_witness:
  "\<exists>k. fst (get_sla_dashboard_kpis sample_outages 10 None None None (fst (snd (create_analytics_snapshot sample_sla_env sample_outages 9 ''global'' sample_store
     dashboard_cache))) (snd (snd (create_analytics_snapshot sample_sla_env sample_outages 9 ''global'' sample_store dashboard_cache)))) = Inr (KPI k, False)"
proof -
  obtain x s' where x: "create_snapshot sample_sla_env sample_outages 9 ''global'' sample_store = (Inr x, s')" using sample_snapshot by blast
  obtain c' where c: "create_analytics_snapshot sample_sla_env sample_outages 9 ''global'' sample_store dashboard_cache = (Inr x, s', c')"
    using x by (simp add: create_analytics_snapshot_def)
  obtain k where "aggregate_dashboard_kpis sample_outages None (resolved_site None None) (sd_results s') = Inr k"
    using sample_aggregates(1) create_snapshotD(2) [OF x] by (auto simp: resolved_site_def given_def)
  from snapshot_refreshes_dashboard [OF c this, of 10] show ?thesis by (auto simp: c)
qed

lemma newest_exists:
  fixes L :: "sla_row list"
  assumes "L \<noteq> []"
  shows "\<exists>r\<in>set L. \<forall>y\<in>set L. sr_created y < sr_created r \<or> (sr_created y = sr_created r \<and> sr_id y \<le> sr_id r)"
  using assms
proof (induction L rule: list_nonempty_induct)
  case (cons a L)
  then obtain r where r: "r \<in> set L" "\<forall>y\<in>set L. sr_created y < sr_created r \<or> (sr_created y = sr_created r \<and> sr_id y \<le> sr_id r)" by blast
  consider "sr_created a < sr_created r \<or> (sr_created a = sr_created r \<and> sr_id a \<le> sr_id r)"
    | "sr_created r < sr_created a \<or> (sr_created r = sr_created a \<and> sr_id r \<le> sr_id a)" by linarith
  then show ?case
  proof cases
    case 1
    then show ?thesis using r by auto
  next
    case 2
    then show ?thesis using r(2) by (intro bexI [of _ a]) fastforce+
  qed
qed simp

lemma newest_rows_outages: "sr_outage ` set (newest_rows q) = sr_outage ` set q"
proof
  show "sr_outage ` set q \<subseteq> sr_outage ` set (newest_rows q)"
  proof
    fix oid assume "oid \<in> sr_outage ` set q"
    then have "filter (\<lambda>r. sr_outage r = oid) q \<noteq> []" by (auto simp: filter_empty_conv)
    from newest_exists [OF this] obtain r where r: "r \<in> set q" "sr_outage r = oid"
      "\<forall>y\<in>set q. sr_outage y = oid \<longrightarrow> sr_created y < sr_created r \<or> (sr_created y = sr_created r \<and> sr_id y \<le> sr_id r)" by auto
    then have "r \<in> set (newest_rows q)" by (simp add: newest_rows_def list_all_iff)
    then show "oid \<in> sr_outage ` set (newest_rows q)" using r(2) by blast
  qed
qed (auto simp: newest_rows_def)

lemma newest_rows_count:
  assumes "ids_ok n q"
  shows "length (newest_rows q) = card (sr_outage ` set q)"
proof -
  have "r = r'" if "r \<in> set (newest_rows q)" "r' \<in> set (newest_rows q)" "sr_outage r = sr_outage r'" for r r'
  proof -
    from that have "sr_id r = sr_id r'" unfolding newest_rows_def list_all_iff by force
    then show ?thesis using that ids_ok_eq [OF assms] by (auto simp: newest_rows_def)
  qed
  then have "inj_on sr_outage (set (newest_rows q))" by (rule inj_onI)
  moreover have "distinct (newest_rows q)" using assms by (auto simp: ids_ok_def newest_rows_def distinct_map)
  ultimately have "length (newest_rows q) = card (sr_outage ` set (newest_rows q))" by (simp add: card_image distinct_card)
  then show ?thesis by (simp add: newest_rows_outages)
qed

text \<open>
  The two aggregates count differently: the performance figures count every outage once, by its newest result,
  while the dashboard counts every stored result, superseded and proposed ones included, as an outage.
\<close>

theorem dashboard_counts_results:
  assumes "sla_step\<^sup>*\<^sup>* sla_init s" and known: "\<forall>r\<in>set (sd_results s). get_orm (sr_outage r) outs \<noteq> None"
    and perf: "aggregate_performance outs None None None None (sd_results s) = Inr p"
    and kpi: "aggregate_dashboard_kpis outs None None (sd_results s) = Inr k"
  shows "pf_total_outages p = int (card (sr_outage ` set (sd_results s))) \<and> kp_total_outages k = int (length (sd_results s))
    \<and> pf_total_outages p \<le> kp_total_outages k"
proof -
  have ids: "ids_ok (sd_next s) (sd_results s)" using sla_steps_inv [OF assms(1)] by (simp add: sla_inv_def)
  have "outage_join outs None None (sd_results s) = sd_results s"
    using known by (auto simp: outage_join_def given_def intro!: filter_True split: option.splits)
  then have "pf_total_outages p = int (length (newest_rows (sd_results s)))"
    using perf by (auto simp: aggregate_performance_def Let_def SLAPerformanceAggregation_def split: if_splits)
  moreover have "kp_total_outages k = int (length (sd_results s))"
    using kpi by (auto simp: aggregate_dashboard_kpis_def Let_def SLADashboardKPI_def optional_join_def given_def split: if_splits)
  moreover have "card (sr_outage ` set (sd_results s)) \<le> length (sd_results s)"
    by (meson card_image_le card_length finite_set le_trans)
  ultimately show ?thesis using newest_rows_count [OF ids] by simp
qed

theorem dashboard_counts_results_witness:
  "\<exists>p. aggregate_performance sample_outages None None None None (sd_results sample_store) = Inr p \<and> pf_total_outages p = 1"
proof -
  obtain k p where a: "aggregate_dashboard_kpis sample_outages None None (sd_results sample_store) = Inr k"
    "aggregate_performance sample_outages None None None None (sd_results sample_store) = Inr p" using sample_aggregates by blast
  have "\<forall>r\<in>set (sd_results sample_store). get_orm (sr_outage r) sample_outages \<noteq> None"
    by (simp add: sample_store_eq sample_result_outage sample_known)
  from dashboard_counts_results [OF sample_store_reachable this a(2,1)] a(2) show ?thesis by (auto simp: sample_store_eq)
qed

end
