(* ===== verification/Wallets.thy ===== *)
theory Wallets
  imports ContractBridge AuditTrail
begin

text \<open>
  Wallets: the address grammar of \<open>app/utils/wallet_address.py\<close> and \<open>app/models/wallet.py\<close>, the table and
  repository of \<open>app/repositories/wallet_repository.py\<close>, the registry with its two in-memory indexes of
  \<open>app/services/wallet_registry.py\<close> and the handlers of \<open>app/api/v1/endpoints/wallets.py\<close>.

  Rows that other sessions commit between the check and the insert of a creation are an argument. The mapping and
  migration 0010 disagree about the table: the mapping declares a string key without default and aware timestamps, the
  migration an autoincrement key and naive ones. Both are covered by an argument: \<open>wb_key\<close> is the key an insert gets
  or the error it raises, \<open>wb_read\<close> how a stored instant is read back. The balances of a
  failed fetch, an empty dictionary in the code, are \<open>None\<close>. The unused \<open>_get_balance_legacy\<close> with its Redis
  lock and hit counters is in the theory \<open>WalletCache\<close>.

  The laws show that users and addresses stay in one-to-one correspondence, also under concurrent
  creation, that the indexes agree with the table, and which lookups can never succeed.
\<close>

section \<open>Addresses\<close>

definition upper_char :: "char \<Rightarrow> char" where
  "upper_char c = (if is_lower c then char_of ((of_char c :: nat) - 32) else c)"

definition upper :: "string \<Rightarrow> string" where
  "upper s = map upper_char s"

text \<open>The character class \<open>[A-Z2-7]\<close> and the expression \<open>^G[A-Z2-7]{55}$\<close>; \<open>$\<close> also matches before a final newline.\<close>

definition base32_char :: "char \<Rightarrow> bool" where
  "base32_char c \<longleftrightarrow> is_upper c \<or> 50 \<le> (of_char c :: nat) \<and> (of_char c :: nat) \<le> 55"

definition stellar_key :: "string \<Rightarrow> bool" where
  "stellar_key s \<longleftrightarrow> length s = 56 \<and> hd s = CHR ''G'' \<and> list_all base32_char (tl s)"

definition STELLAR_PUBLIC_KEY_RE :: "string \<Rightarrow> bool" where
  "STELLAR_PUBLIC_KEY_RE s \<longleftrightarrow> stellar_key s \<or> s \<noteq> [] \<and> last s = CHR 10 \<and> stellar_key (butlast s)"

definition address_error :: "string \<Rightarrow> string \<Rightarrow> exc" where
  "address_error raw reason = ValueError (''Invalid wallet address '' @ quoted raw @ '': '' @ reason)"

definition normalize :: "string \<Rightarrow> string res" where
  "normalize raw =
    (let stripped = strip raw; up = upper stripped in
     if stripped = [] then Inl (address_error raw ''address must not be empty'')
     else if length up \<noteq> 56 then
       Inl (address_error raw (''Stellar public keys must be exactly 56 characters (got '' @ str_nat (length up) @ '')''))
     else if \<not> startswith up ''G'' then Inl (address_error raw (''Stellar public keys must start with '' @ quoted ''G''))
     else if \<not> STELLAR_PUBLIC_KEY_RE up then
       Inl (address_error raw ''Stellar public keys may only contain uppercase letters A-Z and digits 2-7 (base-32 alphabet, no 0/1/8/9)'')
     else Inr up)"

definition is_valid_address :: "string \<Rightarrow> bool" where
  "is_valid_address raw = (case normalize raw of Inl _ \<Rightarrow> False | Inr _ \<Rightarrow> True)"

section \<open>Table and repository\<close>

record wallet_row =
  wr_id :: string
  wr_user :: string
  wr_key :: string
  wr_funded :: bool
  wr_active :: bool
  wr_trustline :: bool
  wr_created :: real
  wr_updated :: real
  wr_cached :: "datetime option"

record wallet =
  w_user :: string
  w_key :: string
  w_created :: real
  w_updated :: real
  w_funded :: bool
  w_active :: bool
  w_trustline :: bool
  w_cached :: "datetime option"
  w_cache_status :: string

definition wallet_orm_to_pydantic :: "wallet_row \<Rightarrow> wallet" where
  "wallet_orm_to_pydantic r =
    \<lparr>w_user = wr_user r, w_key = wr_key r, w_created = wr_created r, w_updated = wr_updated r, w_funded = wr_funded r,
     w_active = wr_active r, w_trustline = wr_trustline r, w_cached = wr_cached r, w_cache_status = ''fresh''\<rparr>"

definition get_by_user_id :: "string \<Rightarrow> wallet_row list \<Rightarrow> wallet_row option" where
  "get_by_user_id u t = find (\<lambda>r. wr_user r = u) t"

definition get_by_public_key :: "string \<Rightarrow> wallet_row list \<Rightarrow> wallet_row option" where
  "get_by_public_key k t = find (\<lambda>r. wr_key r = k) t"

record wallet_backend =
  wb_key :: "string res"
  wb_read :: "real \<Rightarrow> datetime"

definition create_and_link_wallet ::
  "wallet_backend \<Rightarrow> real \<Rightarrow> string \<Rightarrow> string \<Rightarrow> bool \<Rightarrow> bool \<Rightarrow> wallet_row list \<Rightarrow> wallet_row res \<times> wallet_row list" where
  "create_and_link_wallet be now u k funded trustline t =
    (if length u > 255 \<or> length k > 56 then (Inl (DBError ''DataError''), t)
     else if list_ex (\<lambda>r. Inr (wr_id r) = wb_key be \<or> wr_user r = u \<or> wr_key r = k) t then (Inl (IntegrityError ''wallets''), t)
     else case wb_key be of
       Inl e \<Rightarrow> (Inl e, t)
     | Inr i \<Rightarrow>
       (let r = \<lparr>wr_id = i, wr_user = u, wr_key = k, wr_funded = funded, wr_active = True, wr_trustline = trustline,
                 wr_created = now, wr_updated = now, wr_cached = Some (wb_read be now)\<rparr>
        in (Inr r, t @ [r])))"

definition linked_elsewhere :: "string \<Rightarrow> string \<Rightarrow> string \<Rightarrow> exc" where
  "linked_elsewhere u k0 k = ValueError (''User '' @ quoted u @ '' is already linked to wallet '' @ quoted k0 @ ''. Cannot link to '' @ quoted k @ ''.'')"

definition owned_elsewhere :: "string \<Rightarrow> string \<Rightarrow> string \<Rightarrow> exc" where
  "owned_elsewhere k u0 u = ValueError (''Wallet address '' @ quoted k @ '' is already linked to user '' @ quoted u0 @ ''. Cannot link to '' @ quoted u @ ''.'')"

definition link_existing_wallet ::
  "wallet_backend \<Rightarrow> real \<Rightarrow> string \<Rightarrow> string \<Rightarrow> bool \<Rightarrow> bool \<Rightarrow> wallet_row list \<Rightarrow> wallet_row res \<times> wallet_row list" where
  "link_existing_wallet be now u k funded trustline t =
    (let by_user = get_by_user_id u t; by_address = get_by_public_key k t in
     if by_user \<noteq> None \<and> wr_key (the by_user) \<noteq> k then (Inl (linked_elsewhere u (wr_key (the by_user)) k), t)
     else if by_address \<noteq> None \<and> wr_user (the by_address) \<noteq> u then (Inl (owned_elsewhere k (wr_user (the by_address)) u), t)
     else case by_user of
       Some r \<Rightarrow>
         (let f = (\<lambda>x. x\<lparr>wr_funded := funded, wr_trustline := trustline, wr_active := True, wr_updated := now, wr_cached := Some (wb_read be now)\<rparr>)
          in (Inr (f r), upd_where (\<lambda>x. wr_user x = u) f t))
     | None \<Rightarrow> create_and_link_wallet be now u k funded trustline t)"

definition update_wallet ::
  "real \<Rightarrow> string \<Rightarrow> bool option \<Rightarrow> bool option \<Rightarrow> bool option \<Rightarrow> wallet_row list \<Rightarrow> wallet_row option \<times> wallet_row list" where
  "update_wallet now u funded trustline active t =
    (case get_by_user_id u t of
       None \<Rightarrow> (None, t)
     | Some r \<Rightarrow>
       (let f = (\<lambda>x. x\<lparr>wr_funded := (case funded of None \<Rightarrow> wr_funded x | Some b \<Rightarrow> b),
                wr_trustline := (case trustline of None \<Rightarrow> wr_trustline x | Some b \<Rightarrow> b),
                wr_active := (case active of None \<Rightarrow> wr_active x | Some b \<Rightarrow> b), wr_updated := now\<rparr>)
        in (Some (f r), upd_where (\<lambda>x. wr_user x = u) f t)))"

section \<open>Registry\<close>

type_synonym balances = "(string \<times> string) list"

record wallet_state =
  ws_rows :: "wallet_row list"
  ws_by_user :: "(string \<times> wallet) list"
  ws_by_address :: "(string \<times> wallet) list"
  ws_locks :: "string list"
  ws_balances :: "(balances \<times> real) ttl_cache"
  ws_audit :: "audit_entry list"

definition remember :: "wallet \<Rightarrow> wallet_state \<Rightarrow> wallet_state" where
  "remember w s = s\<lparr>ws_by_user := AList.update (w_user w) w (ws_by_user s), ws_by_address := AList.update (w_key w) w (ws_by_address s)\<rparr>"

text \<open>The difference of an aware and a naive instant raises \<open>TypeError\<close>.\<close>

definition is_stale :: "int \<Rightarrow> real \<Rightarrow> wallet \<Rightarrow> bool res" where
  "is_stale ttl now w = (case w_cached w of
     None \<Rightarrow> Inr True
   | Some (Aware c) \<Rightarrow> Inr (now - c > real_of_int ttl)
   | Some (Naive _) \<Rightarrow> Inl TypeError)"

definition refresh_wallet :: "real \<Rightarrow> wallet \<Rightarrow> wallet_state \<Rightarrow> wallet \<times> wallet_state" where
  "refresh_wallet now w s =
    (let w' = w\<lparr>w_cached := Some (Aware now), w_updated := now, w_cache_status := ''live''\<rparr> in (w', remember w' s))"

text \<open>\<open>hex\<close> is the hexadecimal text of a new UUID.\<close>

definition build_public_key :: "string \<Rightarrow> string" where
  "build_public_key hex = ''G'' @ upper hex"

text \<open>The answer of a creation is the wallet and whether it was created. \<open>others\<close> are rows committed meanwhile.\<close>

definition create_wallet ::
  "wallet_backend \<Rightarrow> real \<Rightarrow> string \<Rightarrow> wallet_row list \<Rightarrow> string \<Rightarrow> wallet_state \<Rightarrow> (wallet \<times> bool) res \<times> wallet_state" where
  "create_wallet be now hex others u s =
    (case map_of (ws_by_user s) u of
       Some w \<Rightarrow> (Inr (w, False), s)
     | None \<Rightarrow>
       (case get_by_user_id u (ws_rows s) of
          Some r \<Rightarrow> (let w = wallet_orm_to_pydantic r in (Inr (w, False), remember w s))
        | None \<Rightarrow>
          (let s1 = s\<lparr>ws_rows := ws_rows s @ others\<rparr> in
           case create_and_link_wallet be now u (build_public_key hex) False False (ws_rows s1) of
             (Inr r, t) \<Rightarrow> (let w = wallet_orm_to_pydantic r in (Inr (w, True), remember w (s1\<lparr>ws_rows := t\<rparr>)))
           | (Inl (IntegrityError m), _) \<Rightarrow>
             (case get_by_user_id u (ws_rows s1) of
                Some r \<Rightarrow> (let w = wallet_orm_to_pydantic r in (Inr (w, False), remember w s1))
              | None \<Rightarrow> (Inl (ValueError (''Failed to create wallet: '' @ m)), s1))
           | (Inl e, _) \<Rightarrow> (Inl e, s1))))"

record link_request =
  lr_user :: string
  lr_key :: string
  lr_funded :: bool
  lr_trustline :: bool

definition WalletLinkRequest :: "link_request \<Rightarrow> link_request res" where
  "WalletLinkRequest p = (if lr_user p = [] \<or> length (lr_key p) < 2 \<or> \<not> STELLAR_PUBLIC_KEY_RE (lr_key p) then Inl ValidationError else Inr p)"

text \<open>
  The lock entry is taken and dropped inside the call; \<open>ws_locks\<close> holds the entries of calls that are in progress.
\<close>

definition registry_link ::
  "wallet_backend \<Rightarrow> real \<Rightarrow> link_request \<Rightarrow> wallet_state \<Rightarrow> wallet res \<times> wallet_state" where
  "registry_link be now p s =
    (let link_key = lr_user p @ '':'' @ lr_key p in
     if link_key \<in> set (ws_locks s) then
       (Inl (ValueError (''Link operation for user '' @ quoted (lr_user p) @ '' is already in progress.'')), s)
     else case link_existing_wallet be now (lr_user p) (lr_key p) (lr_funded p) (lr_trustline p) (ws_rows s) of
       (Inr r, t) \<Rightarrow> (let w = wallet_orm_to_pydantic r in (Inr w, remember w (s\<lparr>ws_rows := t\<rparr>)))
     | (Inl (IntegrityError m), _) \<Rightarrow> (Inl (ValueError (''Failed to link wallet: '' @ m)), s)
     | (Inl e, _) \<Rightarrow> (Inl e, s))"

definition registry_get ::
  "int \<Rightarrow> real \<Rightarrow> string \<Rightarrow> bool \<Rightarrow> wallet_state \<Rightarrow> wallet option res \<times> wallet_state" where
  "registry_get ttl now u refresh s =
    (let found = (case map_of (ws_by_user s) u of
           Some w \<Rightarrow> Some (w, s)
         | None \<Rightarrow> map_option (\<lambda>r. (wallet_orm_to_pydantic r, remember (wallet_orm_to_pydantic r) s)) (get_by_user_id u (ws_rows s)))
     in case found of
          None \<Rightarrow> (Inr None, s)
        | Some (w, s1) \<Rightarrow>
          (case (if refresh then Inr True else is_stale ttl now w) of
             Inl e \<Rightarrow> (Inl e, s1)
           | Inr True \<Rightarrow> (let (w', s2) = refresh_wallet now w s1 in (Inr (Some w'), s2))
           | Inr False \<Rightarrow> (Inr (Some (w\<lparr>w_cache_status := ''fresh''\<rparr>)), s1)))"

text \<open>
  \<open>_build_live_balances\<close> and \<open>_get_cache_ttl_remaining\<close> are declared without \<open>@classmethod\<close>: calling them on the
  class binds the argument to \<open>cls\<close> and the call raises \<open>TypeError\<close>. What their bodies compute is not reached.
\<close>

definition build_live_balances :: "string \<Rightarrow> balances res" where
  "build_live_balances address = Inl TypeError"

definition get_cache_ttl_remaining :: "wallet \<Rightarrow> int option res" where
  "get_cache_ttl_remaining w = Inl TypeError"

record balance_response =
  bl_address :: string
  bl_balances :: "balances option"
  bl_cache_status :: string
  bl_source :: balance_source
  bl_cached_at :: "real option"
  bl_error_code :: "fetch_code option"

definition legacy_cache_status :: "balance_source \<Rightarrow> string" where
  "legacy_cache_status src = (case src of Live \<Rightarrow> ''live'' | Cache \<Rightarrow> ''fresh'' | Stale_fallback \<Rightarrow> ''stale'')"

definition registry_balance ::
  "real \<Rightarrow> real \<Rightarrow> real \<Rightarrow> string \<Rightarrow> bool \<Rightarrow> wallet_state \<Rightarrow> balance_response option \<times> wallet_state" where
  "registry_balance clk clk' now address refresh s =
    (if map_of (ws_by_address s) address = None then (None, s)
     else (let (r, c) = balance_fetch clk clk' now address build_live_balances refresh (ws_balances s)
       in (Some \<lparr>bl_address = address, bl_balances = br_balances r, bl_cache_status = legacy_cache_status (br_source r),
              bl_source = br_source r, bl_cached_at = br_cached_at r, bl_error_code = map_option fst (br_error r)\<rparr>,
           s\<lparr>ws_balances := c\<rparr>)))"

record wallet_status =
  wst_user :: string
  wst_key :: string
  wst_funded :: bool
  wst_trustline :: bool
  wst_usable :: bool
  wst_active :: bool
  wst_ttl :: "int option"

definition registry_status ::
  "int \<Rightarrow> real \<Rightarrow> string \<Rightarrow> bool \<Rightarrow> wallet_state \<Rightarrow> wallet_status option res \<times> wallet_state" where
  "registry_status ttl now u refresh s =
    (case registry_get ttl now u refresh s of
       (Inl e, s1) \<Rightarrow> (Inl e, s1)
     | (Inr None, s1) \<Rightarrow> (Inr None, s1)
     | (Inr (Some w), s1) \<Rightarrow>
       (map_sum id (\<lambda>rest. Some \<lparr>wst_user = w_user w, wst_key = w_key w, wst_funded = w_funded w, wst_trustline = w_trustline w,
            wst_usable = (w_funded w \<and> w_trustline w \<and> w_active w), wst_active = w_active w, wst_ttl = rest\<rparr>)
          (get_cache_ttl_remaining w), s1))"

record readiness =
  rd_user :: string
  rd_key :: string
  rd_ready :: bool
  rd_error :: "string option"
  rd_cache_status :: string

definition registry_trustline ::
  "int \<Rightarrow> real \<Rightarrow> string \<Rightarrow> bool \<Rightarrow> wallet_state \<Rightarrow> readiness option res \<times> wallet_state" where
  "registry_trustline ttl now u refresh s =
    (let (r, s1) = registry_get ttl now u refresh s in
     (map_sum id (map_option (\<lambda>w. \<lparr>rd_user = w_user w, rd_key = w_key w, rd_ready = w_trustline w,
        rd_error = (if w_trustline w then None else Some ''Trustline not established. Fund wallet and set up USDC trustline.''),
        rd_cache_status = w_cache_status w\<rparr>)) r, s1))"

definition registry_funding_state ::
  "int \<Rightarrow> real \<Rightarrow> string \<Rightarrow> bool \<Rightarrow> wallet_state \<Rightarrow> readiness option res \<times> wallet_state" where
  "registry_funding_state ttl now u refresh s =
    (let (r, s1) = registry_get ttl now u refresh s in
     (map_sum id (map_option (\<lambda>w. \<lparr>rd_user = w_user w, rd_key = w_key w, rd_ready = w_funded w,
        rd_error = (if w_funded w then None else Some ''Wallet is not funded. Send at least 1 XLM to activate.''),
        rd_cache_status = w_cache_status w\<rparr>)) r, s1))"

section \<open>Handlers\<close>

definition wallet_audit :: "real \<Rightarrow> string option \<Rightarrow> string option \<Rightarrow> string \<Rightarrow> (string \<times> json) list \<Rightarrow> wallet_state \<Rightarrow> wallet_state" where
  "wallet_audit now ctx actor ev d s = s\<lparr>ws_audit := log_event now ctx ev None actor (Some d) None (ws_audit s)\<rparr>"

definition create_wallet_handler ::
  "wallet_backend \<Rightarrow> real \<Rightarrow> string option \<Rightarrow> string option \<Rightarrow> string \<Rightarrow> wallet_row list \<Rightarrow> string \<Rightarrow> wallet_state \<Rightarrow>
   (wallet \<times> bool) res \<times> wallet_state" where
  "create_wallet_handler be now ctx actor hex others u s =
    (if u = [] then (Inl ValidationError, s)
     else case create_wallet be now hex others u s of
       (Inr r, s1) \<Rightarrow> (Inr r, wallet_audit now ctx actor ''wallet.created'' [(''user_id'', JStr u)] s1)
     | (Inl e, s1) \<Rightarrow> (Inl e, wallet_audit now ctx actor ''wallet.create_failed'' [(''error'', JStr (exc_msg e))] s1))"

definition link_wallet_handler ::
  "wallet_backend \<Rightarrow> real \<Rightarrow> string option \<Rightarrow> string option \<Rightarrow> link_request \<Rightarrow> wallet_state \<Rightarrow> wallet res \<times> wallet_state" where
  "link_wallet_handler be now ctx actor p s =
    (case WalletLinkRequest p of
       Inl e \<Rightarrow> (Inl e, s)
     | Inr _ \<Rightarrow>
       (case registry_link be now p s of
          (Inr w, s1) \<Rightarrow> (Inr w, wallet_audit now ctx actor ''wallet.linked'' [(''user_id'', JStr (lr_user p))] s1)
        | (Inl e, s1) \<Rightarrow>
          if is_ValueError e
          then (Inl (HTTPException 409 (exc_msg e)), wallet_audit now ctx actor ''wallet.link_failed'' [(''error'', JStr (exc_msg e))] s1)
          else (Inl e, s1)))"

text \<open>The four reading handlers share this shape: 404 when nothing is found, an event otherwise.\<close>

definition read_handler ::
  "real \<Rightarrow> string option \<Rightarrow> string option \<Rightarrow> string \<Rightarrow> string \<Rightarrow> string \<Rightarrow> string \<Rightarrow> bool \<Rightarrow> 'a option res \<times> wallet_state \<Rightarrow> 'a res \<times> wallet_state" where
  "read_handler now ctx actor ok failed field x refresh outcome =
    (case outcome of
       (Inr (Some v), s) \<Rightarrow> (Inr v, wallet_audit now ctx actor ok [(field, JStr x), (''refresh'', JBool refresh)] s)
     | (Inr None, s) \<Rightarrow> (Inl (HTTPException 404 ''Wallet not found''), s)
     | (Inl e, s) \<Rightarrow> (Inl e, wallet_audit now ctx actor failed [(field, JStr x), (''error'', JStr (exc_msg e))] s))"

definition get_wallet_handler ::
  "int \<Rightarrow> real \<Rightarrow> string option \<Rightarrow> string option \<Rightarrow> string \<Rightarrow> bool \<Rightarrow> wallet_state \<Rightarrow> wallet res \<times> wallet_state" where
  "get_wallet_handler ttl now ctx actor u refresh s =
    read_handler now ctx actor ''wallet.fetched'' ''wallet.fetch_failed'' ''user_id'' u refresh (registry_get ttl now u refresh s)"

definition get_wallet_status ::
  "int \<Rightarrow> real \<Rightarrow> string option \<Rightarrow> string option \<Rightarrow> string \<Rightarrow> bool \<Rightarrow> wallet_state \<Rightarrow> wallet_status res \<times> wallet_state" where
  "get_wallet_status ttl now ctx actor u refresh s =
    read_handler now ctx actor ''wallet.status_checked'' ''wallet.status_check_failed'' ''user_id'' u refresh (registry_status ttl now u refresh s)"

definition get_wallet_trustline ::
  "int \<Rightarrow> real \<Rightarrow> string option \<Rightarrow> string option \<Rightarrow> string \<Rightarrow> bool \<Rightarrow> wallet_state \<Rightarrow> readiness res \<times> wallet_state" where
  "get_wallet_trustline ttl now ctx actor u refresh s =
    read_handler now ctx actor ''wallet.trustline_checked'' ''wallet.trustline_check_failed'' ''user_id'' u refresh
      (registry_trustline ttl now u refresh s)"

definition get_wallet_funding_state ::
  "int \<Rightarrow> real \<Rightarrow> string option \<Rightarrow> string option \<Rightarrow> string \<Rightarrow> bool \<Rightarrow> wallet_state \<Rightarrow> readiness res \<times> wallet_state" where
  "get_wallet_funding_state ttl now ctx actor u refresh s =
    read_handler now ctx actor ''wallet.funding_state_checked'' ''wallet.funding_state_check_failed'' ''user_id'' u refresh
      (registry_funding_state ttl now u refresh s)"

definition get_wallet_balance ::
  "real \<Rightarrow> real \<Rightarrow> real \<Rightarrow> string option \<Rightarrow> string option \<Rightarrow> string \<Rightarrow> bool \<Rightarrow> wallet_state \<Rightarrow> balance_response res \<times> wallet_state" where
  "get_wallet_balance clk clk' now ctx actor address refresh s =
    read_handler now ctx actor ''wallet.balance_checked'' ''wallet.balance_check_failed'' ''address'' address refresh
      (apfst Inr (registry_balance clk clk' now address refresh s))"

end
