(* ===== verification/WalletLaws.thy ===== *)
theory WalletLaws
  imports Wallets
begin

text \<open>
  Laws of the wallet component: normal forms of addresses, the one-to-one correspondence of users and addresses
  under every interleaving with other sessions, the agreement of the indexes with the table, creation and
  linking, and the lookups that cannot succeed.
\<close>

section \<open>Addresses\<close>

lemma upper_char_idem [simp]: "upper_char (upper_char c) = upper_char c"
  by (auto simp: upper_char_def is_lower_def of_char_of)

lemma upper_idem [simp]: "upper (upper s) = upper s"
  by (simp add: upper_def)

lemma length_upper [simp]: "length (upper s) = length s"
  by (simp add: upper_def)

lemma is_space_upper [simp]: "is_space (upper_char c) = is_space c"
  by (auto simp: is_space_def upper_char_def is_lower_def of_char_of)

lemma length_strip: "length (strip s) \<le> length s"
  unfolding strip_def by (metis length_dropWhile_le length_rev le_trans)

lemma base32_not_space: "base32_char c \<Longrightarrow> \<not> is_space c"
  by (auto simp: base32_char_def is_space_def is_upper_def)

lemma upper_char_base32: "base32_char c \<Longrightarrow> upper_char c = c"
  by (auto simp: base32_char_def upper_char_def is_lower_def is_upper_def)

lemma base32_G: "base32_char (CHR ''G'')"
  by (simp add: base32_char_def is_upper_def)

lemma stellar_key_base32: "stellar_key s \<Longrightarrow> list_all base32_char s \<and> s \<noteq> []"
  using base32_G by (cases s) (auto simp: stellar_key_def)

lemma stellar_key_fixed: "stellar_key s \<Longrightarrow> strip s = s \<and> upper s = s"
proof -
  assume "stellar_key s"
  then have b: "list_all base32_char s" "s \<noteq> []" using stellar_key_base32 by auto
  then have "strip s = s" using base32_not_space by (intro strip_id) (auto simp: list_all_iff)
  moreover have "upper s = s" unfolding upper_def using b(1) upper_char_base32 by (intro map_idI) (auto simp: list_all_iff)
  ultimately show ?thesis by simp
qed

lemma normalize_Inr:
  assumes "normalize raw = Inr a"
  shows "a = upper (strip raw) \<and> stellar_key a"
proof -
  have a: "a = upper (strip raw)" "length a = 56" "STELLAR_PUBLIC_KEY_RE a"
    using assms by (auto simp: normalize_def Let_def split: if_splits)
  have "\<not> stellar_key (butlast a)" using a(2) by (simp add: stellar_key_def)
  then show ?thesis using a by (simp add: STELLAR_PUBLIC_KEY_RE_def)
qed

lemma normalize_key: "stellar_key s \<Longrightarrow> normalize s = Inr s"
proof -
  assume s: "stellar_key s"
  then obtain t where "s = CHR ''G'' # t" "length s = 56" by (cases s) (auto simp: stellar_key_def)
  then show ?thesis using stellar_key_fixed [OF s] s
    by (simp add: normalize_def STELLAR_PUBLIC_KEY_RE_def startswith_def)
qed

text \<open>
  Normalising a wallet address is a projection onto the Stellar grammar: the result is the stripped, upper-case
  input, has the right form and normalises to itself, and every well-formed key is accepted unchanged. The
  addresses the registry generates for new wallets are never well formed.
\<close>

theorem address_normal_form:
  "(normalize raw = Inr a \<longrightarrow> a = upper (strip raw) \<and> stellar_key a \<and> normalize a = Inr a)
   \<and> (stellar_key raw \<longrightarrow> normalize raw = Inr raw)
   \<and> (length hex = 32 \<longrightarrow> \<not> is_valid_address (build_public_key hex))"
proof (intro conjI impI)
  assume "normalize raw = Inr a"
  from normalize_Inr [OF this] show "a = upper (strip raw)" "stellar_key a" "normalize a = Inr a" using normalize_key by auto
next
  assume "stellar_key raw" then show "normalize raw = Inr raw" by (rule normalize_key)
next
  assume h: "length hex = 32"
  have "length (strip (build_public_key hex)) \<le> 33" using length_strip [of "build_public_key hex"] h by (simp add: build_public_key_def)
  then have "length (upper (strip (build_public_key hex))) \<noteq> 56" by simp
  then show "\<not> is_valid_address (build_public_key hex)"
    by (auto simp: is_valid_address_def normalize_def Let_def)
qed

theorem address_normal_form_witness:
  "normalize ('' g'' @ replicate 55 (CHR ''a'')) = Inr (''G'' @ replicate 55 (CHR ''A''))
   \<and> stellar_key (''G'' @ replicate 55 (CHR ''A''))"
proof -
  have n: "normalize ('' g'' @ replicate 55 (CHR ''a'')) = Inr (''G'' @ replicate 55 (CHR ''A''))" by code_simp
  with address_normal_form [of "'' g'' @ replicate 55 (CHR ''a'')" "''G'' @ replicate 55 (CHR ''A'')" "[]"] show ?thesis by blast
qed

section \<open>Users and addresses\<close>

definition rows_unique :: "wallet_row list \<Rightarrow> bool" where
  "rows_unique t \<longleftrightarrow> distinct (map wr_user t) \<and> distinct (map wr_key t)"

text \<open>Rows are never removed and keep user, address and creation time.\<close>

definition rows_kept :: "wallet_row list \<Rightarrow> wallet_row list \<Rightarrow> bool" where
  "rows_kept t t' \<longleftrightarrow> (\<forall>r\<in>set t. \<exists>r'\<in>set t'. wr_user r' = wr_user r \<and> wr_key r' = wr_key r \<and> wr_created r' = wr_created r)"

definition linked :: "wallet_row list \<Rightarrow> string \<Rightarrow> string \<Rightarrow> bool" where
  "linked t u k \<longleftrightarrow> (\<exists>r\<in>set t. wr_user r = u \<and> wr_key r = k)"

definition indexes_ok :: "wallet_state \<Rightarrow> bool" where
  "indexes_ok s \<longleftrightarrow> (\<forall>u w. map_of (ws_by_user s) u = Some w \<longrightarrow> w_user w = u \<and> linked (ws_rows s) u (w_key w))
     \<and> (\<forall>k w. map_of (ws_by_address s) k = Some w \<longrightarrow> w_key w = k \<and> linked (ws_rows s) (w_user w) k)"

definition wallet_inv :: "wallet_state \<Rightarrow> bool" where
  "wallet_inv s \<longleftrightarrow> rows_unique (ws_rows s) \<and> indexes_ok s \<and> tc_store (ws_balances s) = []"

lemma rows_kept_refl [simp]: "rows_kept t t"
  by (auto simp: rows_kept_def)

lemma rows_kept_trans: "rows_kept t u \<Longrightarrow> rows_kept u v \<Longrightarrow> rows_kept t v"
  unfolding rows_kept_def by metis

lemma rows_kept_append [simp]: "rows_kept t (t @ u)"
  by (auto simp: rows_kept_def)

lemma linked_kept: "linked t u k \<Longrightarrow> rows_kept t t' \<Longrightarrow> linked t' u k"
  unfolding linked_def rows_kept_def by metis

lemma indexes_kept:
  "indexes_ok s \<Longrightarrow> rows_kept (ws_rows s) t \<Longrightarrow> indexes_ok (s\<lparr>ws_rows := t\<rparr>)"
  unfolding indexes_ok_def using linked_kept by fastforce

lemma linked_unique: "rows_unique t \<Longrightarrow> linked t u k \<Longrightarrow> linked t u' k' \<Longrightarrow> u = u' \<longleftrightarrow> k = k'"
  by (auto simp: rows_unique_def linked_def distinct_map inj_on_def)

lemma remember_simps [simp]:
  "ws_rows (remember w s) = ws_rows s" "ws_balances (remember w s) = ws_balances s" "ws_locks (remember w s) = ws_locks s"
  "map_of (ws_by_user (remember w s)) u = (if u = w_user w then Some w else map_of (ws_by_user s) u)"
  "map_of (ws_by_address (remember w s)) k = (if k = w_key w then Some w else map_of (ws_by_address s) k)"
  by (simp_all add: remember_def update_conv')

lemma remember_inv: "wallet_inv s \<Longrightarrow> linked (ws_rows s) (w_user w) (w_key w) \<Longrightarrow> wallet_inv (remember w s)"
  by (auto simp: wallet_inv_def indexes_ok_def)

lemma wallet_of_row [simp]: "w_user (wallet_orm_to_pydantic r) = wr_user r" "w_key (wallet_orm_to_pydantic r) = wr_key r"
  by (simp_all add: wallet_orm_to_pydantic_def)

lemma get_by_user_idD: "get_by_user_id u t = Some r \<Longrightarrow> r \<in> set t \<and> wr_user r = u"
  unfolding get_by_user_id_def by (drule find_SomeD) simp

lemma get_by_public_keyD: "get_by_public_key k t = Some r \<Longrightarrow> r \<in> set t \<and> wr_key r = k"
  unfolding get_by_public_key_def by (drule find_SomeD) simp

lemma get_by_user_id_linked: "get_by_user_id u t = Some r \<Longrightarrow> linked t u (wr_key r)"
  using get_by_user_idD by (fastforce simp: linked_def)

lemma create_and_link_rows:
  assumes "create_and_link_wallet be now u k f trust t = (Inr r, t')"
  shows "t' = t @ [r] \<and> wr_user r = u \<and> wr_key r = k \<and> (rows_unique t \<longrightarrow> rows_unique t')"
  using assms by (auto simp: create_and_link_wallet_def Let_def rows_unique_def list_ex_iff split: if_splits sum.splits)

lemma link_existing_rows:
  assumes "link_existing_wallet be now u k f trust t = (Inr r, t')"
  shows "wr_user r = u \<and> wr_key r = k \<and> linked t' u k \<and> rows_kept t t' \<and> (rows_unique t \<longrightarrow> rows_unique t')"
proof (cases "get_by_user_id u t")
  case None
  then have "create_and_link_wallet be now u k f trust t = (Inr r, t')" using assms by (auto simp: link_existing_wallet_def Let_def split: if_splits)
  from create_and_link_rows [OF this] show ?thesis by (auto simp: linked_def)
next
  case (Some q)
  let ?f = "\<lambda>x. x\<lparr>wr_funded := f, wr_trustline := trust, wr_active := True, wr_updated := now, wr_cached := Some (wb_read be now)\<rparr>"
  have r: "r = ?f q" "t' = upd_where (\<lambda>x. wr_user x = u) ?f t" "wr_key q = k"
    using assms Some by (auto simp: link_existing_wallet_def Let_def split: if_splits)
  have "map wr_user t' = map wr_user t" "map wr_key t' = map wr_key t"
    unfolding r(2) by (rule map_upd_where; simp)+
  moreover have "rows_kept t t'" unfolding r(2) rows_kept_def upd_where_def set_map
    by (intro ballI bexI [OF _ imageI]) simp_all
  moreover have "linked t u k" using get_by_user_id_linked [OF Some] r(3) by simp
  ultimately show ?thesis using r get_by_user_idD [OF Some] linked_kept by (auto simp: rows_unique_def)
qed

section \<open>Operations\<close>

lemma create_wallet_keeps:
  assumes "wallet_inv s" "rows_unique (ws_rows s @ others)"
  shows "wallet_inv (snd (create_wallet be now hex others u s)) \<and> rows_kept (ws_rows s) (ws_rows (snd (create_wallet be now hex others u s)))"
proof (cases "map_of (ws_by_user s) u")
  case (Some w)
  then show ?thesis using assms by (simp add: create_wallet_def)
next
  case None
  note no_entry = None
  let ?s1 = "s\<lparr>ws_rows := ws_rows s @ others\<rparr>"
  have inv1: "wallet_inv ?s1" using assms indexes_kept [of s "ws_rows s @ others"] by (simp add: wallet_inv_def)
  show ?thesis
  proof (cases "get_by_user_id u (ws_rows s)")
    case (Some r)
    then show ?thesis using no_entry assms(1) get_by_user_id_linked [OF Some] get_by_user_idD [OF Some]
      by (auto simp: create_wallet_def Let_def intro: remember_inv)
  next
    case None
    obtain x t where x: "create_and_link_wallet be now u (build_public_key hex) False False (ws_rows s @ others) = (x, t)" by fastforce
    show ?thesis
    proof (cases x)
      case (Inr r)
      note c = create_and_link_rows [OF x [unfolded Inr]]
      have kept: "rows_kept (ws_rows s) t" using c by (metis append.assoc rows_kept_append)
      have "rows_unique t" using c assms(2) by blast
      then have "wallet_inv (s\<lparr>ws_rows := t\<rparr>)" using assms indexes_kept [of s t] kept by (simp add: wallet_inv_def)
      then have "wallet_inv (remember (wallet_orm_to_pydantic r) (s\<lparr>ws_rows := t\<rparr>))"
        using c by (intro remember_inv) (auto simp: linked_def)
      then show ?thesis using no_entry None x Inr kept by (simp add: create_wallet_def Let_def)
    next
      case (Inl e)
      have "wallet_inv (remember (wallet_orm_to_pydantic r) ?s1)" if "get_by_user_id u (ws_rows s @ others) = Some r" for r
        using inv1 get_by_user_id_linked [OF that] get_by_user_idD [OF that] by (intro remember_inv) auto
      then show ?thesis using no_entry None x Inl inv1
        by (cases e) (auto simp: create_wallet_def Let_def split: option.split)
    qed
  qed
qed

lemma registry_link_keeps:
  assumes "wallet_inv s"
  shows "wallet_inv (snd (registry_link be now p s)) \<and> rows_kept (ws_rows s) (ws_rows (snd (registry_link be now p s)))"
proof -
  obtain x t where x: "link_existing_wallet be now (lr_user p) (lr_key p) (lr_funded p) (lr_trustline p) (ws_rows s) = (x, t)" by fastforce
  show ?thesis
  proof (cases x)
    case (Inr r)
    note l = link_existing_rows [OF x [unfolded Inr]]
    have "wallet_inv (s\<lparr>ws_rows := t\<rparr>)" using l assms indexes_kept [of s t] by (simp add: wallet_inv_def)
    then have "wallet_inv (remember (wallet_orm_to_pydantic r) (s\<lparr>ws_rows := t\<rparr>))" using l by (intro remember_inv) auto
    then show ?thesis using x Inr l assms by (simp add: registry_link_def Let_def)
  next
    case (Inl e)
    then show ?thesis using x assms by (cases e) (simp_all add: registry_link_def Let_def)
  qed
qed

lemma registry_get_keeps:
  assumes "wallet_inv s"
  shows "wallet_inv (snd (registry_get ttl now u refresh s)) \<and> ws_rows (snd (registry_get ttl now u refresh s)) = ws_rows s"
proof -
  have row: "wallet_inv (remember (wallet_orm_to_pydantic r) s)" if "get_by_user_id u (ws_rows s) = Some r" for r
    using assms get_by_user_id_linked [OF that] get_by_user_idD [OF that] by (intro remember_inv) auto
  have ref: "wallet_inv (snd (refresh_wallet now w s'))" if "wallet_inv s'" "linked (ws_rows s') (w_user w) (w_key w)" for w s'
    using that by (auto simp: refresh_wallet_def Let_def intro: remember_inv)
  have cached: "linked (ws_rows s) (w_user w) (w_key w)" if "map_of (ws_by_user s) u = Some w" for w
    using assms that by (auto simp: wallet_inv_def indexes_ok_def)
  have fetched: "linked (ws_rows s) (wr_user r) (wr_key r)" if "get_by_user_id u (ws_rows s) = Some r" for r
    using get_by_user_id_linked [OF that] get_by_user_idD [OF that] by auto
  have rr: "ws_rows (snd (refresh_wallet now w s')) = ws_rows s'" for w s' by (simp add: refresh_wallet_def Let_def)
  show ?thesis using assms row ref cached fetched rr
    by (auto simp: registry_get_def Let_def case_prod_beta split: option.split sum.split bool.split)
qed

lemma balance_keeps:
  "wallet_inv s \<Longrightarrow> wallet_inv (snd (registry_balance clk clk' now a refresh s)) \<and> ws_rows (snd (registry_balance clk clk' now a refresh s)) = ws_rows s"
  by (auto simp: registry_balance_def balance_fetch_def build_live_balances_def get_with_meta_def Let_def wallet_inv_def indexes_ok_def)

section \<open>Step relation\<close>

text \<open>
  Requests interleave with commits of other sessions, which obey the unique constraints of the table. A process
  starts with empty indexes and an empty balance cache.
\<close>

definition wallet_init :: "wallet_row list \<Rightarrow> string list \<Rightarrow> int \<Rightarrow> wallet_state \<Rightarrow> bool" where
  "wallet_init rows locks ttl s \<longleftrightarrow> rows_unique rows \<and> s = \<lparr>ws_rows = rows, ws_by_user = [], ws_by_address = [],
     ws_locks = locks, ws_balances = TTLCache ttl, ws_audit = []\<rparr>"

inductive wallet_step :: "wallet_state \<Rightarrow> wallet_state \<Rightarrow> bool" where
  other_session: "rows_unique t \<Longrightarrow> rows_kept (ws_rows s) t \<Longrightarrow> wallet_step s (s\<lparr>ws_rows := t\<rparr>)"
| created: "rows_unique (ws_rows s @ others) \<Longrightarrow> wallet_step s (snd (create_wallet_handler be now ctx actor hex others u s))"
| linked_to: "wallet_step s (snd (link_wallet_handler be now ctx actor p s))"
| fetched: "wallet_step s (snd (get_wallet_handler ttl now ctx actor u refresh s))"
| status_read: "wallet_step s (snd (get_wallet_status ttl now ctx actor u refresh s))"
| trustline_read: "wallet_step s (snd (get_wallet_trustline ttl now ctx actor u refresh s))"
| funding_read: "wallet_step s (snd (get_wallet_funding_state ttl now ctx actor u refresh s))"
| balance_read: "wallet_step s (snd (get_wallet_balance clk clk' now ctx actor a refresh s))"

lemma wallet_audit_simps [simp]:
  "ws_rows (wallet_audit now ctx actor ev d s) = ws_rows s" "wallet_inv (wallet_audit now ctx actor ev d s) = wallet_inv s"
  "ws_by_user (wallet_audit now ctx actor ev d s) = ws_by_user s" "ws_by_address (wallet_audit now ctx actor ev d s) = ws_by_address s"
  by (simp_all add: wallet_audit_def wallet_inv_def indexes_ok_def)

lemma read_handler_keeps:
  "ws_rows (snd (read_handler now ctx actor ok bad f x refresh r)) = ws_rows (snd r)"
  "wallet_inv (snd (read_handler now ctx actor ok bad f x refresh r)) = wallet_inv (snd r)"
  by (simp_all add: read_handler_def split: prod.split sum.split option.split)

lemma read_state:
  "snd (registry_status ttl now u refresh s) = snd (registry_get ttl now u refresh s)"
  "snd (registry_trustline ttl now u refresh s) = snd (registry_get ttl now u refresh s)"
  "snd (registry_funding_state ttl now u refresh s) = snd (registry_get ttl now u refresh s)"
  by (simp_all add: registry_status_def registry_trustline_def registry_funding_state_def split: prod.split option.split sum.split)

lemmas wallet_reads = get_wallet_handler_def get_wallet_status_def get_wallet_trustline_def get_wallet_funding_state_def
  get_wallet_balance_def read_handler_keeps read_state

lemma create_handler_state:
  "u \<noteq> [] \<Longrightarrow> ws_rows (snd (create_wallet_handler be now ctx actor hex others u s)) = ws_rows (snd (create_wallet be now hex others u s))"
  "u \<noteq> [] \<Longrightarrow> wallet_inv (snd (create_wallet_handler be now ctx actor hex others u s)) = wallet_inv (snd (create_wallet be now hex others u s))"
  by (simp_all add: create_wallet_handler_def split: prod.split sum.split)

lemma link_handler_state:
  "ws_rows (snd (link_wallet_handler be now ctx actor p s)) = (case WalletLinkRequest p of Inl _ \<Rightarrow> ws_rows s | Inr _ \<Rightarrow> ws_rows (snd (registry_link be now p s)))"
  "wallet_inv (snd (link_wallet_handler be now ctx actor p s)) = (case WalletLinkRequest p of Inl _ \<Rightarrow> wallet_inv s | Inr _ \<Rightarrow> wallet_inv (snd (registry_link be now p s)))"
  by (simp_all add: link_wallet_handler_def split: prod.split sum.split)

lemma wallet_step_keeps: "wallet_step s s' \<Longrightarrow> wallet_inv s \<Longrightarrow> wallet_inv s' \<and> rows_kept (ws_rows s) (ws_rows s')"
proof (induction rule: wallet_step.induct)
  case (other_session t s)
  then show ?case using indexes_kept [of s t] by (simp add: wallet_inv_def)
next
  case (created s others be now ctx actor hex u)
  then show ?case using create_wallet_keeps [of s others be now hex u]
    by (cases "u = []") (simp_all add: create_handler_state, simp add: create_wallet_handler_def)
next
  case (linked_to s be now ctx actor p)
  then show ?case using registry_link_keeps [of s be now p] by (simp add: link_handler_state split: sum.split)
qed (simp_all add: wallet_reads registry_get_keeps balance_keeps)

lemma wallet_init_inv: "wallet_init rows locks ttl s \<Longrightarrow> wallet_inv s"
  by (auto simp: wallet_init_def wallet_inv_def indexes_ok_def TTLCache_def)

interpretation wallets: growing_system wallet_step wallet_inv "\<lambda>s s'. rows_kept (ws_rows s) (ws_rows s')"
  by unfold_locales (auto dest: wallet_step_keeps intro: rows_kept_trans)

lemma wallet_steps_keep: "wallet_step\<^sup>*\<^sup>* s s' \<Longrightarrow> wallet_inv s \<Longrightarrow> wallet_inv s' \<and> rows_kept (ws_rows s) (ws_rows s')"
  by (rule wallets.history_keeps)

text \<open>
  C9. In every state the wallet handlers reach, also with other sessions committing rows in between, users and
  addresses are in one-to-one correspondence, every wallet the indexes hold is backed by a row that links the same
  user and address, and no later request removes a link or moves it to another user or address.
\<close>

theorem wallet_one_to_one:
  assumes "wallet_init rows locks ttl s0" "wallet_step\<^sup>*\<^sup>* s0 s" "wallet_step\<^sup>*\<^sup>* s s'"
  shows "(linked (ws_rows s) u k \<and> linked (ws_rows s) u' k' \<longrightarrow> (u = u' \<longleftrightarrow> k = k'))
    \<and> (map_of (ws_by_user s) u = Some w \<longrightarrow> w_user w = u \<and> linked (ws_rows s) u (w_key w))
    \<and> (map_of (ws_by_address s) k = Some w \<longrightarrow> w_key w = k \<and> linked (ws_rows s) (w_user w) k)
    \<and> (linked (ws_rows s) u k \<longrightarrow> (linked (ws_rows s') u k' \<longleftrightarrow> k' = k) \<and> (linked (ws_rows s') u' k \<longleftrightarrow> u' = u))"
proof -
  have i: "wallet_inv s" using wallet_steps_keep [OF assms(2) wallet_init_inv [OF assms(1)]] by simp
  then have i': "wallet_inv s'" "rows_kept (ws_rows s) (ws_rows s')" using wallet_steps_keep [OF assms(3)] by simp_all
  have "linked (ws_rows s) u k \<longrightarrow> linked (ws_rows s') u k" using i'(2) linked_kept by blast
  then show ?thesis using i i'(1) linked_unique unfolding wallet_inv_def indexes_ok_def by metis
qed

text \<open>A process over an empty table: one creation, one link and a read, used by the witnesses.\<close>

definition key_a :: string where
  "key_a = ''G'' @ replicate 55 (CHR ''A'')"

definition wallet_empty :: wallet_state where
  "wallet_empty = \<lparr>ws_rows = [], ws_by_user = [], ws_by_address = [], ws_locks = [], ws_balances = TTLCache 60, ws_audit = []\<rparr>"

text \<open>The table of migration 0010: a generated key, naive timestamps.\<close>

definition demo_backend :: "string \<Rightarrow> wallet_backend" where
  "demo_backend k = \<lparr>wb_key = Inr k, wb_read = Naive\<rparr>"

definition wallet_demo :: wallet_state where
  "wallet_demo = snd (link_wallet_handler (demo_backend ''1'') 1 None None \<lparr>lr_user = ''u'', lr_key = key_a, lr_funded = True, lr_trustline = False\<rparr> wallet_empty)"

lemma wallet_empty_init: "wallet_init [] [] 60 wallet_empty"
  by (simp add: wallet_init_def wallet_empty_def rows_unique_def)

lemma wallet_demo_step: "wallet_step\<^sup>*\<^sup>* wallet_empty wallet_demo"
  unfolding wallet_demo_def by (intro r_into_rtranclp wallet_step.linked_to)

lemma key_a_valid: "STELLAR_PUBLIC_KEY_RE key_a" "length key_a = 56"
  by code_simp+

lemma wallet_demo_link: "linked (ws_rows wallet_demo) ''u'' key_a"
proof -
  let ?p = "\<lparr>lr_user = ''u'', lr_key = key_a, lr_funded = True, lr_trustline = False\<rparr>"
  obtain r t where l: "link_existing_wallet (demo_backend ''1'') 1 ''u'' key_a True False [] = (Inr r, t)"
    by (simp add: link_existing_wallet_def create_and_link_wallet_def get_by_user_id_def get_by_public_key_def key_a_valid Let_def demo_backend_def)
  have "WalletLinkRequest ?p = Inr ?p" by (simp add: WalletLinkRequest_def key_a_valid)
  moreover have "ws_rows (snd (registry_link (demo_backend ''1'') 1 ?p wallet_empty)) = t" using l by (simp add: registry_link_def wallet_empty_def Let_def)
  ultimately show ?thesis using link_existing_rows [OF l] by (simp add: wallet_demo_def link_handler_state)
qed

theorem wallet_one_to_one_witness:
  "linked (ws_rows (snd (get_wallet_handler 60 9 None None ''u'' True wallet_demo))) ''u'' key_a
   \<and> \<not> linked (ws_rows (snd (get_wallet_handler 60 9 None None ''u'' True wallet_demo))) ''v'' key_a"
proof -
  let ?s = "snd (get_wallet_handler 60 9 None None ''u'' True wallet_demo)"
  have "wallet_step\<^sup>*\<^sup>* wallet_demo ?s" by (intro r_into_rtranclp wallet_step.fetched)
  note t = wallet_one_to_one [OF wallet_empty_init wallet_demo_step this, THEN conjunct2, THEN conjunct2, THEN conjunct2, rule_format, OF wallet_demo_link]
  have "linked (ws_rows ?s) ''u'' key_a" by (rule t [THEN conjunct1, THEN iffD2, OF refl])
  moreover have "''v'' = ''u''" if "linked (ws_rows ?s) ''v'' key_a" by (rule t [THEN conjunct2, THEN iffD1, OF that])
  ultimately show ?thesis by auto
qed

section \<open>Creation\<close>

lemma create_Inr_cached:
  assumes "create_wallet be now hex others u s = (Inr (w, b), s')" "wallet_inv s"
  shows "map_of (ws_by_user s') u = Some w"
proof (cases "map_of (ws_by_user s) u")
  case (Some x)
  then show ?thesis using assms by (simp add: create_wallet_def)
next
  case None
  note n = None
  let ?t = "ws_rows s @ others"
  show ?thesis
  proof (cases "get_by_user_id u (ws_rows s)")
    case (Some r)
    then show ?thesis using assms(1) n get_by_user_idD [OF Some] by (auto simp: create_wallet_def Let_def)
  next
    case None
    obtain x t where x: "create_and_link_wallet be now u (build_public_key hex) False False ?t = (x, t)" by fastforce
    show ?thesis
    proof (cases x)
      case (Inr r)
      then show ?thesis using assms(1) n None x create_and_link_rows [OF x [unfolded Inr]] by (auto simp: create_wallet_def Let_def)
    next
      case (Inl e)
      then show ?thesis using assms(1) n None x get_by_user_idD [of u ?t]
        by (cases e) (auto simp: create_wallet_def Let_def split: option.splits)
    qed
  qed
qed

lemma get_by_user_id_unique:
  "rows_unique t \<Longrightarrow> r \<in> set t \<Longrightarrow> get_by_user_id (wr_user r) t = Some r"
proof -
  assume t: "rows_unique t" "r \<in> set t"
  then obtain r' where "get_by_user_id (wr_user r) t = Some r'" unfolding get_by_user_id_def
    by (metis (mono_tags, lifting) find_None_iff option.exhaust)
  moreover from this t have "r' = r" using get_by_user_idD by (auto simp: rows_unique_def distinct_map inj_on_def)
  ultimately show ?thesis by simp
qed

text \<open>
  Creating a wallet is idempotent: the first successful answer is cached, every further request of the user gets
  the same wallet without a new row, and a request that loses a race against another session answers with the row that
  session committed instead of a second wallet.
\<close>

theorem create_wallet_idempotent:
  assumes "wallet_inv s" "rows_unique (ws_rows s @ others)"
  shows "(create_wallet be now hex others u s = (Inr (w, b), s') \<longrightarrow> create_wallet be' now' hex' others' u s' = (Inr (w, False), s'))
    \<and> (r \<in> set others \<and> wr_user r = u \<and> length u \<le> 255 \<and> length hex = 32 \<longrightarrow>
        fst (create_wallet be now hex others u s) = Inr (wallet_orm_to_pydantic r, False)
        \<and> ws_rows (snd (create_wallet be now hex others u s)) = ws_rows s @ others)"
proof (intro conjI impI)
  assume "create_wallet be now hex others u s = (Inr (w, b), s')"
  from create_Inr_cached [OF this assms(1)] show "create_wallet be' now' hex' others' u s' = (Inr (w, False), s')"
    by (simp add: create_wallet_def)
next
  assume a: "r \<in> set others \<and> wr_user r = u \<and> length u \<le> 255 \<and> length hex = 32"
  let ?t = "ws_rows s @ others"
  have "u \<notin> wr_user ` set (ws_rows s)" using a assms(2) by (auto simp: rows_unique_def)
  then have new: "get_by_user_id u (ws_rows s) = None" "\<not> linked (ws_rows s) u k" for k
    by (auto simp: get_by_user_id_def find_None_iff linked_def)
  moreover have "map_of (ws_by_user s) u = None"
    using assms(1) new(2) unfolding wallet_inv_def indexes_ok_def by (metis option.exhaust)
  moreover have "create_and_link_wallet be now u (build_public_key hex) False False ?t = (Inl (IntegrityError ''wallets''), ?t)"
    using a by (auto simp: create_and_link_wallet_def build_public_key_def list_ex_iff)
  moreover have "get_by_user_id u ?t = Some r" using get_by_user_id_unique [OF assms(2), of r] a by simp
  ultimately have "create_wallet be now hex others u s = (Inr (wallet_orm_to_pydantic r, False), remember (wallet_orm_to_pydantic r) (s\<lparr>ws_rows := ?t\<rparr>))"
    by (simp add: create_wallet_def Let_def)
  then show "fst (create_wallet be now hex others u s) = Inr (wallet_orm_to_pydantic r, False)"
    "ws_rows (snd (create_wallet be now hex others u s)) = ?t" by simp_all
qed

theorem create_wallet_idempotent_witness:
  "fst (create_wallet (demo_backend ''2'') 5 (replicate 32 (CHR ''a'')) [\<lparr>wr_id = ''1'', wr_user = ''u'', wr_key = ''k'', wr_funded = False, wr_active = True,
       wr_trustline = False, wr_created = 4, wr_updated = 4, wr_cached = None\<rparr>] ''u'' wallet_empty)
   = Inr (\<lparr>w_user = ''u'', w_key = ''k'', w_created = 4, w_updated = 4, w_funded = False, w_active = True, w_trustline = False,
       w_cached = None, w_cache_status = ''fresh''\<rparr>, False)"
proof -
  let ?r = "\<lparr>wr_id = ''1'', wr_user = ''u'', wr_key = ''k'', wr_funded = False, wr_active = True,
       wr_trustline = False, wr_created = 4, wr_updated = 4, wr_cached = None\<rparr>"
  have i: "wallet_inv wallet_empty" "rows_unique (ws_rows wallet_empty @ [?r])"
    using wallet_init_inv [OF wallet_empty_init] by (simp_all add: wallet_empty_def rows_unique_def)
  have "fst (create_wallet (demo_backend ''2'') 5 (replicate 32 (CHR ''a'')) [?r] ''u'' wallet_empty) = Inr (wallet_orm_to_pydantic ?r, False)"
    by (rule create_wallet_idempotent [OF i, THEN conjunct2, rule_format, THEN conjunct1]) simp
  then show ?thesis by (simp add: wallet_orm_to_pydantic_def)
qed

section \<open>Linking\<close>

definition conflict :: "wallet_row list \<Rightarrow> string \<Rightarrow> string \<Rightarrow> bool" where
  "conflict t u k \<longleftrightarrow> (\<exists>r\<in>set t. (wr_user r = u) \<noteq> (wr_key r = k))"

lemma get_by_user_id_None: "get_by_user_id u t = None \<longleftrightarrow> u \<notin> wr_user ` set t"
  by (auto simp: get_by_user_id_def find_None_iff)

lemma get_by_public_key_None: "get_by_public_key k t = None \<longleftrightarrow> k \<notin> wr_key ` set t"
  by (auto simp: get_by_public_key_def find_None_iff)

lemma link_conflict:
  assumes "conflict t u k" "rows_unique t"
  shows "\<exists>m. link_existing_wallet be now u k f trust t = (Inl (ValueError m), t)"
proof -
  obtain r where r: "r \<in> set t" "(wr_user r = u) \<noteq> (wr_key r = k)" using assms(1) by (auto simp: conflict_def)
  show ?thesis
  proof (cases "wr_user r = u")
    case True
    then have "get_by_user_id u t = Some r" using get_by_user_id_unique [OF assms(2) r(1)] by simp
    then show ?thesis using True r(2) by (simp add: link_existing_wallet_def linked_elsewhere_def)
  next
    case False
    then have k: "wr_key r = k" using r(2) by simp
    then obtain q where q: "get_by_public_key k t = Some q"
      using r(1) get_by_public_key_None [of k t] by (metis image_eqI not_None_eq)
    have "q = r" using get_by_public_keyD [OF q] r(1) k assms(2) by (auto simp: rows_unique_def distinct_map inj_on_def)
    then show ?thesis using False q by (simp add: link_existing_wallet_def linked_elsewhere_def owned_elsewhere_def Let_def)
  qed
qed

lemma link_free:
  assumes "\<not> conflict t u k" "length u \<le> 255" "length k \<le> 56" "linked t u k \<or> (\<exists>i. wb_key be = Inr i \<and> i \<notin> wr_id ` set t)"
  obtains r t' where "link_existing_wallet be now u k f trust t = (Inr r, t')" "wr_funded r = f" "wr_trustline r = trust" "wr_active r"
proof (cases "get_by_user_id u t")
  case (Some q)
  let ?f = "\<lambda>x. x\<lparr>wr_funded := f, wr_trustline := trust, wr_active := True, wr_updated := now, wr_cached := Some (wb_read be now)\<rparr>"
  have "wr_key q = k" using assms(1) get_by_user_idD [OF Some] by (auto simp: conflict_def)
  moreover have "wr_user p = u" if "get_by_public_key k t = Some p" for p
    using assms(1) get_by_public_keyD [OF that] by (auto simp: conflict_def)
  ultimately have "link_existing_wallet be now u k f trust t = (Inr (?f q), upd_where (\<lambda>x. wr_user x = u) ?f t)"
    using Some by (cases "get_by_public_key k t") (simp_all add: link_existing_wallet_def Let_def)
  then show ?thesis by (rule that) simp_all
next
  case None
  then have u: "u \<notin> wr_user ` set t" by (simp add: get_by_user_id_None)
  then have k: "k \<notin> wr_key ` set t" using assms(1) by (auto simp: conflict_def)
  have "\<not> linked t u k" using u by (auto simp: linked_def)
  then obtain i where i: "wb_key be = Inr i" "i \<notin> wr_id ` set t" using assms(4) by auto
  have "\<not> list_ex (\<lambda>r. Inr (wr_id r) = wb_key be \<or> wr_user r = u \<or> wr_key r = k) t" using u k i by (auto simp: list_ex_iff)
  moreover have "get_by_public_key k t = None" using k by (simp add: get_by_public_key_None)
  ultimately show ?thesis using that None i(1) assms(2,3) by (simp add: link_existing_wallet_def create_and_link_wallet_def Let_def)
qed

text \<open>
  Linking decides by the correspondence of users and addresses: a request that would give a user a second
  address or an address a second user is answered with 409 and changes neither the table nor the indexes; any
  other request, new or repeated, succeeds, links the pair and stores the flags of the request.
\<close>

theorem link_wallet_spec:
  assumes "WalletLinkRequest p = Inr p" "rows_unique (ws_rows s)" "(lr_user p @ '':'' @ lr_key p) \<notin> set (ws_locks s)"
  shows "(conflict (ws_rows s) (lr_user p) (lr_key p) \<longrightarrow>
      (\<exists>m s'. link_wallet_handler be now ctx actor p s = (Inl (HTTPException 409 m), s')
        \<and> ws_rows s' = ws_rows s \<and> ws_by_user s' = ws_by_user s \<and> ws_by_address s' = ws_by_address s))
    \<and> (\<not> conflict (ws_rows s) (lr_user p) (lr_key p) \<and> length (lr_user p) \<le> 255 \<and> length (lr_key p) \<le> 56
        \<and> (linked (ws_rows s) (lr_user p) (lr_key p) \<or> (\<exists>i. wb_key be = Inr i \<and> i \<notin> wr_id ` set (ws_rows s))) \<longrightarrow>
      (\<exists>w s'. link_wallet_handler be now ctx actor p s = (Inr w, s') \<and> w_user w = lr_user p \<and> w_key w = lr_key p
        \<and> w_funded w = lr_funded p \<and> w_trustline w = lr_trustline p \<and> w_active w
        \<and> linked (ws_rows s') (lr_user p) (lr_key p) \<and> map_of (ws_by_user s') (lr_user p) = Some w))"
proof (intro conjI impI)
  assume "conflict (ws_rows s) (lr_user p) (lr_key p)"
  from link_conflict [OF this assms(2)] obtain m where
    "link_existing_wallet be now (lr_user p) (lr_key p) (lr_funded p) (lr_trustline p) (ws_rows s) = (Inl (ValueError m), ws_rows s)" by blast
  then show "\<exists>m s'. link_wallet_handler be now ctx actor p s = (Inl (HTTPException 409 m), s')
        \<and> ws_rows s' = ws_rows s \<and> ws_by_user s' = ws_by_user s \<and> ws_by_address s' = ws_by_address s"
    using assms(1,3) by (simp add: link_wallet_handler_def registry_link_def Let_def)
next
  assume a: "\<not> conflict (ws_rows s) (lr_user p) (lr_key p) \<and> length (lr_user p) \<le> 255 \<and> length (lr_key p) \<le> 56
        \<and> (linked (ws_rows s) (lr_user p) (lr_key p) \<or> (\<exists>i. wb_key be = Inr i \<and> i \<notin> wr_id ` set (ws_rows s)))"
  then obtain r t where r: "link_existing_wallet be now (lr_user p) (lr_key p) (lr_funded p) (lr_trustline p) (ws_rows s) = (Inr r, t)"
    "wr_funded r = lr_funded p" "wr_trustline r = lr_trustline p" "wr_active r" by (metis link_free)
  from link_existing_rows [OF r(1)] r(2-4) show "\<exists>w s'. link_wallet_handler be now ctx actor p s = (Inr w, s') \<and> w_user w = lr_user p
        \<and> w_key w = lr_key p \<and> w_funded w = lr_funded p \<and> w_trustline w = lr_trustline p \<and> w_active w
        \<and> linked (ws_rows s') (lr_user p) (lr_key p) \<and> map_of (ws_by_user s') (lr_user p) = Some w"
    using assms(1,3) r(1) by (simp add: link_wallet_handler_def registry_link_def Let_def wallet_orm_to_pydantic_def)
qed

theorem link_wallet_spec_witness:
  "\<exists>m s'. link_wallet_handler (demo_backend ''2'') 3 None None \<lparr>lr_user = ''v'', lr_key = key_a, lr_funded = True, lr_trustline = True\<rparr> wallet_demo
     = (Inl (HTTPException 409 m), s') \<and> ws_rows s' = ws_rows wallet_demo"
proof -
  let ?p = "\<lparr>lr_user = ''v'', lr_key = key_a, lr_funded = True, lr_trustline = True\<rparr>"
  have p: "WalletLinkRequest ?p = Inr ?p" by (simp add: WalletLinkRequest_def key_a_valid)
  have "wallet_inv wallet_demo" using wallet_steps_keep [OF wallet_demo_step wallet_init_inv [OF wallet_empty_init]] by simp
  then have u: "rows_unique (ws_rows wallet_demo)" by (simp add: wallet_inv_def)
  have l: "(lr_user ?p @ '':'' @ lr_key ?p) \<notin> set (ws_locks wallet_demo)"
    by (simp add: wallet_demo_def link_wallet_handler_def registry_link_def wallet_audit_def wallet_empty_def Let_def
        split: sum.split exc.split prod.split)
  obtain r where "r \<in> set (ws_rows wallet_demo)" "wr_user r = ''u''" "wr_key r = key_a" using wallet_demo_link by (auto simp: linked_def)
  then have "conflict (ws_rows wallet_demo) (lr_user ?p) (lr_key ?p)" unfolding conflict_def by (intro bexI [of _ r]) simp_all
  with link_wallet_spec [OF p u l, THEN conjunct1] show ?thesis by blast
qed

section \<open>Lookups that cannot succeed\<close>

lemma is_stale_cases: "is_stale ttl now w = Inl TypeError \<or> (\<exists>b. is_stale ttl now w = Inr b)"
  by (cases "w_cached w") (auto simp: is_stale_def split: datetime.split)

lemma registry_get_found:
  assumes "get_by_user_id u (ws_rows s) = Some r"
  shows "(\<exists>w. fst (registry_get ttl now u refresh s) = Inr (Some w)) \<or> fst (registry_get ttl now u refresh s) = Inl TypeError"
proof -
  define w where "w = (case map_of (ws_by_user s) u of Some w \<Rightarrow> w | None \<Rightarrow> wallet_orm_to_pydantic r)"
  show ?thesis using assms is_stale_cases [of ttl now w]
    by (auto simp: registry_get_def Let_def refresh_wallet_def w_def split: option.splits sum.split bool.split)
qed

lemma link_cached:
  assumes "registry_link be now p s = (Inr w, s')"
  shows "w_cached w = Some (wb_read be now) \<and> map_of (ws_by_user s') (lr_user p) = Some w"
proof -
  obtain x t where x: "link_existing_wallet be now (lr_user p) (lr_key p) (lr_funded p) (lr_trustline p) (ws_rows s) = (x, t)" by fastforce
  then obtain r where r: "x = Inr r" "w = wallet_orm_to_pydantic r" "s' = remember w (s\<lparr>ws_rows := t\<rparr>)"
    using assms by (cases x) (auto simp: registry_link_def Let_def split: if_splits exc.splits)
  have "wr_cached r = Some (wb_read be now)"
    using x r(1) by (auto simp: link_existing_wallet_def create_and_link_wallet_def Let_def split: if_splits option.splits sum.splits)
  then show ?thesis using r link_existing_rows [OF x [unfolded r(1)]] by (simp add: wallet_orm_to_pydantic_def)
qed

lemma registry_balance_empty:
  assumes "tc_store (ws_balances s) = []" "map_of (ws_by_address s) a = Some w"
  shows "\<exists>b. registry_balance clk clk' now a refresh s = (Some b, s) \<and> bl_balances b = None \<and> bl_error_code b = Some FETCH_FAILED"
  using assms by (simp add: registry_balance_def balance_fetch_def build_live_balances_def get_with_meta_def Let_def)

text \<open>
  Lookups that never deliver their data, whatever happened before: the status of an existing wallet always ends
  in a type error, and a balance is always the failure answer without balances, since neither helper they call can be
  called on the class. With naive timestamp columns a wallet cannot even be read after it was linked, unless a
  refresh is asked for: the staleness check subtracts a naive from an aware instant.
\<close>

theorem wallet_lookups_degraded:
  assumes "wallet_init rows locks ttl0 s0" "wallet_step\<^sup>*\<^sup>* s0 s"
  shows "(get_by_user_id u (ws_rows s) = Some r \<longrightarrow> fst (get_wallet_status ttl now ctx actor u refresh s) = Inl TypeError)
    \<and> (map_of (ws_by_address s) a = Some w \<longrightarrow> (\<exists>b. fst (get_wallet_balance clk clk' now ctx actor a refresh s) = Inr b
         \<and> bl_balances b = None \<and> bl_error_code b = Some FETCH_FAILED))
    \<and> (wb_read be = Naive \<and> registry_link be now p s = (Inr w, s') \<longrightarrow>
         fst (get_wallet_handler ttl now' ctx actor (lr_user p) False s') = Inl TypeError
         \<and> (\<exists>w'. fst (get_wallet_handler ttl now' ctx actor (lr_user p) True s') = Inr w' \<and> w_key w' = w_key w))"
proof (intro conjI impI)
  assume "get_by_user_id u (ws_rows s) = Some r"
  from registry_get_found [OF this, of ttl now refresh] show "fst (get_wallet_status ttl now ctx actor u refresh s) = Inl TypeError"
    by (cases "registry_get ttl now u refresh s")
       (auto simp: get_wallet_status_def read_handler_def registry_status_def get_cache_ttl_remaining_def)
next
  assume a: "map_of (ws_by_address s) a = Some w"
  have "wallet_inv s" using wallet_steps_keep [OF assms(2) wallet_init_inv [OF assms(1)]] by simp
  then have "tc_store (ws_balances s) = []" by (simp add: wallet_inv_def)
  from registry_balance_empty [OF this a, of clk clk' now refresh]
  show "\<exists>b. fst (get_wallet_balance clk clk' now ctx actor a refresh s) = Inr b \<and> bl_balances b = None \<and> bl_error_code b = Some FETCH_FAILED"
    by (auto simp: get_wallet_balance_def read_handler_def)
next
  assume h: "wb_read be = Naive \<and> registry_link be now p s = (Inr w, s')"
  then have c: "w_cached w = Some (Naive now)" "map_of (ws_by_user s') (lr_user p) = Some w" using link_cached [of be now p s w s'] by simp_all
  then show "fst (get_wallet_handler ttl now' ctx actor (lr_user p) False s') = Inl TypeError"
    by (simp add: get_wallet_handler_def registry_get_def is_stale_def read_handler_def)
  show "\<exists>w'. fst (get_wallet_handler ttl now' ctx actor (lr_user p) True s') = Inr w' \<and> w_key w' = w_key w"
    using c by (simp add: get_wallet_handler_def registry_get_def refresh_wallet_def read_handler_def Let_def)
qed

theorem wallet_lookups_degraded_witness:
  "fst (get_wallet_status 60 9 None None ''u'' False wallet_demo) = Inl TypeError"
proof -
  obtain r where "r \<in> set (ws_rows wallet_demo)" "wr_user r = ''u''" using wallet_demo_link by (auto simp: linked_def)
  then have "get_by_user_id ''u'' (ws_rows wallet_demo) \<noteq> None" unfolding get_by_user_id_None by (metis image_eqI)
  then obtain r' where "get_by_user_id ''u'' (ws_rows wallet_demo) = Some r'" by auto
  then show ?thesis using wallet_lookups_degraded [OF wallet_empty_init wallet_demo_step, THEN conjunct1] by blast
qed

end
