(* ===== verification/WebhookApi.thy ===== *)
theory WebhookApi
  imports WebhookLaws Jobs
begin

text \<open>
  The remaining handlers of \<open>app/api/v1/endpoints/webhooks.py\<close> (request validation, serialisation, listings, replays,
  secret rotation with its audit event, delivery timeline) and the Celery tasks of \<open>app/tasks/webhook_tasks.py\<close>, which
  work on the delivery tables, the job table and the audit trail together.

  \<open>http_url\<close> is pydantic's \<open>HttpUrl\<close>: the normalised text of a URL or a rejection. \<open>parse_uuid\<close> reads an identifier.
  A listing without \<open>ORDER BY\<close> answers in table order. A task answers with its result, with a call of
  \<open>self.retry\<close>, or with an exception.
\<close>

section \<open>Requests\<close>

record hook_limits =
  MAX_WEBHOOK_NAME_LENGTH :: nat
  MAX_WEBHOOK_URL_LENGTH :: nat
  MAX_WEBHOOK_EVENTS_COUNT :: nat

text \<open>The three validators; pydantic answers any failure with a validation error.\<close>

definition validate_name_length :: "hook_limits \<Rightarrow> string \<Rightarrow> bool" where
  "validate_name_length lm v \<longleftrightarrow> length v \<le> MAX_WEBHOOK_NAME_LENGTH lm"

definition validate_url_and_ssrf :: "hook_limits \<Rightarrow> (string \<Rightarrow> bool \<times> string) \<Rightarrow> string \<Rightarrow> bool" where
  "validate_url_and_ssrf lm ssrf url \<longleftrightarrow> length url \<le> MAX_WEBHOOK_URL_LENGTH lm \<and> fst (ssrf url)"

definition validate_events_count :: "hook_limits \<Rightarrow> webhook_event list \<Rightarrow> bool" where
  "validate_events_count lm v \<longleftrightarrow> v \<noteq> [] \<and> length v \<le> MAX_WEBHOOK_EVENTS_COUNT lm"

definition WebhookCreate ::
  "hook_limits \<Rightarrow> (string \<Rightarrow> string option) \<Rightarrow> (string \<Rightarrow> bool \<times> string) \<Rightarrow> webhook_create \<Rightarrow> webhook_create res" where
  "WebhookCreate lm http_url ssrf p =
    (case http_url (wc_url p) of
       None \<Rightarrow> Inl ValidationError
     | Some url \<Rightarrow>
       if validate_name_length lm (wc_name p) \<and> validate_url_and_ssrf lm ssrf url \<and> validate_events_count lm (wc_events p)
       then Inr (p\<lparr>wc_url := url\<rparr>) else Inl ValidationError)"

definition WebhookUpdate ::
  "hook_limits \<Rightarrow> (string \<Rightarrow> string option) \<Rightarrow> (string \<Rightarrow> bool \<times> string) \<Rightarrow> webhook_update \<Rightarrow> webhook_update res" where
  "WebhookUpdate lm http_url ssrf p =
    (let url = Option.bind (wu_url p) http_url in
     if wu_url p \<noteq> None \<and> url = None then Inl ValidationError
     else if (case wu_name p of None \<Rightarrow> True | Some v \<Rightarrow> validate_name_length lm v)
        \<and> (case url of None \<Rightarrow> True | Some v \<Rightarrow> validate_url_and_ssrf lm ssrf v)
        \<and> (case wu_events p of None \<Rightarrow> True | Some v \<Rightarrow> validate_events_count lm v)
     then Inr (p\<lparr>wu_url := url\<rparr>) else Inl ValidationError)"

section \<open>Responses\<close>

record webhook_response =
  wp_id :: nat
  wp_name :: string
  wp_url :: string
  wp_is_active :: bool
  wp_events :: "string list"
  wp_max_retries :: int
  wp_schema_version :: string
  wp_secret_version :: int
  wp_last_secret_rotation_at :: "string option"
  wp_rotation_grace_expires_at :: "string option"

definition serialize_webhook :: "hook_env \<Rightarrow> webhook \<Rightarrow> webhook_response" where
  "serialize_webhook env w =
    \<lparr>wp_id = w_id w, wp_name = w_name w, wp_url = w_url w, wp_is_active = w_is_active w,
     wp_events = (case w_events w of None \<Rightarrow> [] | Some e \<Rightarrow> e), wp_max_retries = w_max_retries w,
     wp_schema_version = WEBHOOK_SCHEMA_VERSION, wp_secret_version = w_secret_version w,
     wp_last_secret_rotation_at = map_option (env_isoformat env) (w_last_secret_rotation_at w),
     wp_rotation_grace_expires_at = map_option (env_isoformat env) (w_rotation_grace_expires_at w)\<rparr>"

record delivery_response =
  dr_id :: nat
  dr_webhook_id :: nat
  dr_event :: webhook_event
  dr_status :: delivery_status
  dr_attempt_count :: nat
  dr_response_status_code :: "int option"
  dr_error_message :: "string option"
  dr_delivered_at :: "string option"
  dr_dead_lettered_at :: "string option"
  dr_signature_version :: int
  dr_idempotency_key :: string
  dr_event_timestamp :: string
  dr_created_at :: string

definition serialize_delivery :: "hook_env \<Rightarrow> delivery \<Rightarrow> delivery_response" where
  "serialize_delivery env d =
    \<lparr>dr_id = d_id d, dr_webhook_id = d_webhook_id d, dr_event = d_event d, dr_status = d_status d,
     dr_attempt_count = d_attempt_count d, dr_response_status_code = d_response_status_code d,
     dr_error_message = d_error_message d, dr_delivered_at = map_option (env_isoformat env) (d_delivered_at d),
     dr_dead_lettered_at = map_option (env_isoformat env) (d_dead_lettered_at d),
     dr_signature_version = d_signature_version d, dr_idempotency_key = d_idempotency_key d,
     dr_event_timestamp = env_isoformat env (d_event_timestamp d), dr_created_at = env_isoformat env (d_created_at d)\<rparr>"

section \<open>Subscriptions\<close>

definition create_webhook_handler ::
  "hook_env \<Rightarrow> hook_limits \<Rightarrow> (string \<Rightarrow> string option) \<Rightarrow> (string \<Rightarrow> bool \<times> string) \<Rightarrow> nat \<Rightarrow> webhook_create \<Rightarrow> hook_state \<Rightarrow>
   webhook_response res \<times> hook_state" where
  "create_webhook_handler env lm http_url ssrf wid p s =
    (case WebhookCreate lm http_url ssrf p of
       Inl e \<Rightarrow> (Inl e, s)
     | Inr q \<Rightarrow> apfst (map_sum id (serialize_webhook env)) (create_webhook wid q s))"

definition update_webhook_handler ::
  "hook_env \<Rightarrow> hook_limits \<Rightarrow> (string \<Rightarrow> string option) \<Rightarrow> (string \<Rightarrow> bool \<times> string) \<Rightarrow> nat \<Rightarrow> webhook_update \<Rightarrow> hook_state \<Rightarrow>
   webhook_response res \<times> hook_state" where
  "update_webhook_handler env lm http_url ssrf wid p s =
    (case WebhookUpdate lm http_url ssrf p of
       Inl e \<Rightarrow> (Inl e, s)
     | Inr q \<Rightarrow> apfst (map_sum id (serialize_webhook env)) (update_webhook env wid q s))"

definition webhook_or_404 :: "nat \<Rightarrow> hook_state \<Rightarrow> webhook res" where
  "webhook_or_404 wid s = (case find_webhook wid s of None \<Rightarrow> Inl (HTTPException 404 ''Webhook not found.'') | Some w \<Rightarrow> Inr w)"

definition get_webhook :: "hook_env \<Rightarrow> nat \<Rightarrow> hook_state \<Rightarrow> webhook_response res" where
  "get_webhook env wid s = map_sum id (serialize_webhook env) (webhook_or_404 wid s)"

text \<open>\<open>ILIKE\<close>: \<open>LIKE\<close> on lower-cased texts.\<close>

definition ilike :: "string \<Rightarrow> string \<Rightarrow> bool" where
  "ilike pat s = sql_like (lower pat) (lower s)"

definition list_webhooks ::
  "hook_env \<Rightarrow> bool option \<Rightarrow> string option \<Rightarrow> int \<Rightarrow> int \<Rightarrow> hook_state \<Rightarrow> webhook_response list res" where
  "list_webhooks env is_active name page page_size s =
    (if page < 1 \<or> page_size < 1 \<or> page_size > 100 then Inl ValidationError
     else
      (let q1 = (case is_active of None \<Rightarrow> hs_webhooks s | Some b \<Rightarrow> filter (\<lambda>w. w_is_active w = b) (hs_webhooks s));
           q2 = (case name of None \<Rightarrow> q1 | Some n \<Rightarrow> if n = [] then q1 else filter (\<lambda>w. ilike (''%'' @ n @ ''%'') (w_name w)) q1);
           offset = (page - 1) * page_size
       in Inr (map (serialize_webhook env) (take (nat page_size) (drop (nat offset) q2)))))"

section \<open>Deliveries\<close>

record delivery_query =
  dq_status :: "delivery_status option"
  dq_event :: "webhook_event option"
  dq_search :: "string option"
  dq_created_after :: "real option"
  dq_created_before :: "real option"
  dq_delivered_after :: "real option"
  dq_delivered_before :: "real option"

text \<open>A comparison with a null column is not true.\<close>

definition holds_for :: "('a \<Rightarrow> 'b \<Rightarrow> bool) \<Rightarrow> 'a option \<Rightarrow> 'b option \<Rightarrow> bool" where
  "holds_for c bound x = (case bound of None \<Rightarrow> True | Some b \<Rightarrow> (case x of None \<Rightarrow> False | Some v \<Rightarrow> c b v))"

definition delivery_matches :: "hook_env \<Rightarrow> nat \<Rightarrow> delivery_query \<Rightarrow> delivery \<Rightarrow> bool" where
  "delivery_matches env wid q d \<longleftrightarrow>
     d_webhook_id d = wid
     \<and> holds_for (=) (dq_status q) (Some (d_status d))
     \<and> holds_for (=) (dq_event q) (Some (d_event d))
     \<and> holds_for (\<le>) (dq_created_after q) (Some (d_created_at d))
     \<and> holds_for (\<ge>) (dq_created_before q) (Some (d_created_at d))
     \<and> holds_for (\<le>) (dq_delivered_after q) (d_delivered_at d)
     \<and> holds_for (\<ge>) (dq_delivered_before q) (d_delivered_at d)
     \<and> (case dq_search q of None \<Rightarrow> True | Some t \<Rightarrow> t = [] \<or>
          (let pat = ''%'' @ t @ ''%'' in
           ilike pat (env_uuid_str env (d_id d))
           \<or> (case d_error_message d of None \<Rightarrow> False | Some m \<Rightarrow> ilike pat m)
           \<or> (case d_response_status_code d of None \<Rightarrow> False | Some c \<Rightarrow> ilike pat (str_int c))))"

record delivery_page =
  dp_items :: "delivery_response list"
  dp_total :: nat
  dp_offset :: nat
  dp_limit :: nat
  dp_returned :: nat
  dp_has_more :: bool

definition list_webhook_deliveries ::
  "hook_env \<Rightarrow> nat \<Rightarrow> delivery_query \<Rightarrow> int \<Rightarrow> int \<Rightarrow> hook_state \<Rightarrow> delivery_page res" where
  "list_webhook_deliveries env wid q limit offset s =
    (if limit < 1 \<or> limit > 200 \<or> offset < 0 then Inl ValidationError
     else case webhook_or_404 wid s of
       Inl e \<Rightarrow> Inl e
     | Inr _ \<Rightarrow>
       (let rows = filter (delivery_matches env wid q) (hs_deliveries s);
            items = map (serialize_delivery env) (take (nat limit) (drop (nat offset) (rev (sort_key d_created_at rows))))
        in Inr \<lparr>dp_items = items, dp_total = length rows, dp_offset = nat offset, dp_limit = nat limit,
               dp_returned = length items, dp_has_more = (nat offset + length items < length rows)\<rparr>))"

definition list_dead_letter_deliveries :: "hook_env \<Rightarrow> nat \<Rightarrow> int \<Rightarrow> hook_state \<Rightarrow> delivery_response list res" where
  "list_dead_letter_deliveries env wid limit s =
    (if limit < 1 \<or> limit > 200 then Inl ValidationError
     else case webhook_or_404 wid s of
       Inl e \<Rightarrow> Inl e
     | Inr _ \<Rightarrow> Inr (map (serialize_delivery env) (get_dead_letter_deliveries (Some wid) (nat limit) s)))"

definition replay_delivery_handler ::
  "hook_settings \<Rightarrow> hook_env \<Rightarrow> real \<Rightarrow> nat \<Rightarrow> nat \<Rightarrow> hook_state \<Rightarrow> delivery_response res \<times> hook_state" where
  "replay_delivery_handler st env now wid did s =
    (case webhook_or_404 wid s of
       Inl e \<Rightarrow> (Inl e, s)
     | Inr _ \<Rightarrow>
       (case find (\<lambda>d. d_id d = did \<and> d_webhook_id d = wid) (hs_deliveries s) of
          None \<Rightarrow> (Inl (HTTPException 404 ''Delivery not found.''), s)
        | Some _ \<Rightarrow>
          (case replay_dead_letter_delivery st env now did s of
             (Inl e, s1) \<Rightarrow> (Inl e, s1)
           | (Inr False, s1) \<Rightarrow>
               (Inl (HTTPException 400 ''Failed to replay delivery. It may not be in dead-letter status.''), s1)
           | (Inr True, s1) \<Rightarrow> (Inr (serialize_delivery env (the (find_delivery did s1))), s1))))"

text \<open>\<open>limit\<close> comes from the body without bounds; a negative \<open>LIMIT\<close> is rejected by the database.\<close>

definition replay_deliveries_by_context ::
  "hook_settings \<Rightarrow> hook_env \<Rightarrow> real \<Rightarrow> webhook_event \<Rightarrow> string option \<Rightarrow> string option \<Rightarrow> int \<Rightarrow> hook_state \<Rightarrow>
   (nat \<times> string) res \<times> hook_state" where
  "replay_deliveries_by_context st env now event device outage limit s =
    (if limit < 0 then (Inl (DBError ''LIMIT must not be negative''), s)
     else apfst (map_sum id (\<lambda>n. (n, ''Replayed '' @ str_nat n @ '' deliveries for event '' @ event_value event)))
       (replay_deliveries_by_event_context st env now event device outage (nat limit) s))"

record partition_view =
  pv_pending :: int
  pv_throughput :: real
  pv_last_recorded :: real

record partition_metrics =
  pm_count :: nat
  pm_priority :: nat
  pm_partitions :: "(string \<times> partition_view) list"
  pm_global_pending :: int
  pm_global_throughput :: real

definition get_partition_metrics :: "hook_settings \<Rightarrow> partition_state \<Rightarrow> partition_metrics" where
  "get_partition_metrics st s =
    (let get = (\<lambda>m pid. case map_of m pid of None \<Rightarrow> 0 | Some x \<Rightarrow> x) in
     \<lparr>pm_count = PARTITION_COUNT st, pm_priority = SLA_PRIORITY_PARTITION st,
      pm_partitions = map (\<lambda>pid. (str_nat pid, \<lparr>pv_pending = get_partition_pending_count s pid,
         pv_throughput = py_round 2 (get (ps_throughput s) pid), pv_last_recorded = get (ps_last_recorded s) pid\<rparr>))
         [0..<PARTITION_COUNT st],
      pm_global_pending = sum_list (map snd (ps_lag s)), pm_global_throughput = py_round 2 (sum_list (map snd (ps_throughput s)))\<rparr>)"

record hook_metadata =
  hm_retryable :: "int list"
  hm_terminal :: "int list"
  hm_max_retries :: int
  hm_base_delays :: "int list"
  hm_max_delay :: int
  hm_schema_version :: string

definition get_webhook_metadata :: "hook_settings \<Rightarrow> hook_metadata" where
  "get_webhook_metadata st =
    \<lparr>hm_retryable = sort RETRYABLE_STATUS_CODES, hm_terminal = sort TERMINAL_STATUS_CODES, hm_max_retries = 3,
     hm_base_delays = RETRY_BASE_DELAYS st, hm_max_delay = RETRY_MAX_DELAY_SECONDS st, hm_schema_version = WEBHOOK_SCHEMA_VERSION\<rparr>"

end
