(* ===== verification/WebhookTasks.thy ===== *)
theory WebhookTasks
  imports WebhookApi
begin

text \<open>
  The Celery tasks of \<open>app/tasks/webhook_tasks.py\<close>, the enqueuing of a disaster-recovery replay of
  \<open>app/services/webhook_service.py\<close>, and the two handlers of \<open>app/api/v1/endpoints/webhooks.py\<close> that use the audit trail.
  They work on the delivery tables, the job table and the trail together.

  \<open>parse_uuid\<close> reads an identifier; \<open>retries\<close> is Celery's counter of the running task and a chain is the sequence of
  executions that \<open>self.retry\<close> causes. \<open>apply_async\<close> is the id of the enqueued task or its failure.
\<close>

record hook_system =
  sy_hooks :: hook_state
  sy_jobs :: job_state

definition sys_audit :: "real \<Rightarrow> string option \<Rightarrow> string \<Rightarrow> (string \<times> json) list \<Rightarrow> hook_system \<Rightarrow> hook_system" where
  "sys_audit now ctx ev d y = y\<lparr>sy_jobs := job_audit now ctx ev d (sy_jobs y)\<rparr>"

section \<open>Handlers with an audit event\<close>

definition rotate_secret_handler ::
  "hook_settings \<Rightarrow> hook_env \<Rightarrow> real \<Rightarrow> string option \<Rightarrow> string \<Rightarrow> string \<Rightarrow> nat \<Rightarrow> hook_system \<Rightarrow>
   (nat \<times> string \<times> string) res \<times> hook_system" where
  "rotate_secret_handler st env now ctx email new_secret wid y =
    (case find_webhook wid (sy_hooks y) of
       None \<Rightarrow> (Inl (HTTPException 404 ''Webhook not found.''), y)
     | Some w \<Rightarrow>
       (case rotate_webhook_secret st now new_secret wid (sy_hooks y) of
          (Inl e, h) \<Rightarrow> (Inl e, y\<lparr>sy_hooks := h\<rparr>)
        | (Inr (sec, expires), h) \<Rightarrow>
          (Inr (wid, sec, env_isoformat env expires),
           sys_audit now ctx ''webhook_secret_rotated''
             [(''webhook_id'', JStr (env_uuid_str env wid)), (''webhook_name'', JStr (w_name w)),
              (''old_secret_version'', JInt (w_secret_version w)), (''new_secret_version'', JInt (w_secret_version w + 1)),
              (''previous_rotation_at'', opt_str (map_option (env_isoformat env) (w_last_secret_rotation_at w))),
              (''grace_expires_at'', JStr (env_isoformat env expires)), (''rotated_by'', JStr email)]
             (y\<lparr>sy_hooks := h\<rparr>))))"

text \<open>
  The timeline reads \<open>timestamp\<close> and \<open>actor\<close>, which are no keys of the entries of the trail, so both are null. A key
  \<open>idempotency_key\<close> that is not a string has no \<open>endswith\<close>.
\<close>

record timeline_entry =
  tl_action :: string
  tl_timestamp :: "string option"
  tl_actor :: "string option"
  tl_details :: "(string \<times> json) list"

definition endswith :: "string \<Rightarrow> string \<Rightarrow> bool" where
  "endswith s t \<longleftrightarrow> suffix t s"

definition about_delivery :: "string \<Rightarrow> audit_entry \<Rightarrow> bool res" where
  "about_delivery did e =
    (if map_of (ev_details e) ''delivery_id'' = Some (JStr did) then Inr True
     else case map_of (ev_details e) ''idempotency_key'' of
       None \<Rightarrow> Inr (endswith [] did)
     | Some (JStr k) \<Rightarrow> Inr (endswith k did)
     | Some _ \<Rightarrow> Inl (AttributeError ''endswith''))"

fun timeline_of :: "string \<Rightarrow> audit_entry list \<Rightarrow> timeline_entry list res" where
  "timeline_of did [] = Inr []"
| "timeline_of did (e # es) =
    (case about_delivery did e of
       Inl x \<Rightarrow> Inl x
     | Inr b \<Rightarrow> map_sum id (\<lambda>r. if b then \<lparr>tl_action = ev_type e, tl_timestamp = None, tl_actor = None, tl_details = ev_details e\<rparr> # r
                                else r) (timeline_of did es))"

definition get_webhook_delivery_timeline :: "nat \<Rightarrow> string \<Rightarrow> hook_system \<Rightarrow> timeline_entry list res" where
  "get_webhook_delivery_timeline wid did y =
    (case webhook_or_404 wid (sy_hooks y) of
       Inl e \<Rightarrow> Inl e
     | Inr _ \<Rightarrow> timeline_of did (list_audit (Some ''webhook.'') None 500 0 (js_audit (sy_jobs y))))"

section \<open>Dispatching tasks\<close>

datatype 'a task_answer = Returned 'a | Retried exc | Raised exc

datatype dispatch_result = Dispatched | Dead_lettered

definition dead_letter_job :: "real \<Rightarrow> string \<Rightarrow> job \<Rightarrow> job" where
  "dead_letter_job now err j = j\<lparr>j_status := J_DEAD_LETTER, j_dead_letter_reason := Some (dead_letter_text 5 err),
     j_dead_letter_at := Some now, j_finished_at := Some now, j_error := Some err,
     j_error_code := Some ''WEBHOOK_RETRIES_EXHAUSTED'', j_error_retryable := Some False\<rparr>"

definition uuid_dispatch ::
  "hook_settings \<Rightarrow> hook_env \<Rightarrow> (string \<Rightarrow> nat option) \<Rightarrow> real \<Rightarrow> string \<Rightarrow> hook_state \<Rightarrow> unit res \<times> hook_state" where
  "uuid_dispatch st env parse_uuid now delivery_id h =
    (case parse_uuid delivery_id of
       None \<Rightarrow> (Inl (ValueError ''badly formed hexadecimal UUID string''), h)
     | Some did \<Rightarrow> dispatch_delivery st env now did h)"

definition dispatch_webhook_delivery ::
  "hook_settings \<Rightarrow> hook_env \<Rightarrow> (string \<Rightarrow> nat option) \<Rightarrow> real \<Rightarrow> string option \<Rightarrow> string \<Rightarrow> nat \<Rightarrow> string \<Rightarrow> hook_system \<Rightarrow>
   dispatch_result task_answer \<times> hook_system" where
  "dispatch_webhook_delivery st env parse_uuid now ctx task retries delivery_id y =
    (let (r, h) = uuid_dispatch st env parse_uuid now delivery_id (sy_hooks y); y1 = y\<lparr>sy_hooks := h\<rparr> in
     case r of
       Inr _ \<Rightarrow> (Returned Dispatched, y1)
     | Inl e \<Rightarrow>
       if retries \<ge> 5 then
         (Returned Dead_lettered,
          (case job_by_task task (js_jobs (sy_jobs y1)) of
             None \<Rightarrow> y1
           | Some j \<Rightarrow>
             sys_audit now ctx ''job_dead_lettered''
               [(''delivery_id'', JStr delivery_id), (''job_type'', JStr (job_type_value WEBHOOK_DISPATCH)),
                (''retry_count'', JInt (int retries + 1)), (''max_retries'', JInt 5), (''error'', JStr (exc_msg e))]
               (y1\<lparr>sy_jobs := on_jobs (upd_task task (dead_letter_job now (exc_msg e))) (sy_jobs y1)\<rparr>)))
       else
         (Retried e, sys_audit now ctx ''webhook_retried''
            [(''delivery_id'', JStr delivery_id), (''retry_count'', JInt (int retries + 1)), (''error'', JStr (exc_msg e))] y1))"

text \<open>All executions of one task message, the number of executions first; execution \<open>n\<close> runs at \<open>clock n\<close>.\<close>

function dispatch_chain ::
  "hook_settings \<Rightarrow> hook_env \<Rightarrow> (string \<Rightarrow> nat option) \<Rightarrow> (nat \<Rightarrow> real) \<Rightarrow> string option \<Rightarrow> string \<Rightarrow> nat \<Rightarrow> string \<Rightarrow> hook_system \<Rightarrow>
   nat \<times> dispatch_result task_answer \<times> hook_system" where
  "dispatch_chain st env parse_uuid clock ctx task retries delivery_id y =
    (case dispatch_webhook_delivery st env parse_uuid (clock retries) ctx task retries delivery_id y of
       (Retried e, y1) \<Rightarrow> apfst Suc (dispatch_chain st env parse_uuid clock ctx task (Suc retries) delivery_id y1)
     | (r, y1) \<Rightarrow> (1, r, y1))"
  by pat_completeness auto
termination
  by (relation "measure (\<lambda>(st, env, p, c, x, t, retries, d, y). 5 - retries)")
     (auto simp: dispatch_webhook_delivery_def Let_def split: prod.splits sum.splits if_splits)

declare dispatch_chain.simps [simp del]

definition retry_pending_webhook_deliveries ::
  "hook_settings \<Rightarrow> hook_env \<Rightarrow> real \<Rightarrow> hook_system \<Rightarrow> nat task_answer \<times> hook_system" where
  "retry_pending_webhook_deliveries st env now y =
    (let (r, h) = retry_pending_deliveries st env now (sy_hooks y)
     in (case r of Inl e \<Rightarrow> Raised e | Inr n \<Rightarrow> Returned n, y\<lparr>sy_hooks := h\<rparr>))"

text \<open>\<open>autoretry_for=(Exception,)\<close>: every exception is handed to Celery's retry.\<close>

definition dispatch_partitioned_delivery ::
  "hook_settings \<Rightarrow> hook_env \<Rightarrow> (string \<Rightarrow> nat option) \<Rightarrow> real \<Rightarrow> string \<Rightarrow> nat \<Rightarrow> hook_system \<Rightarrow>
   (string \<times> nat) task_answer \<times> hook_system" where
  "dispatch_partitioned_delivery st env parse_uuid now delivery_id pid y =
    (if pid \<noteq> SLA_PRIORITY_PARTITION st \<and> is_backpressured st (hs_partitions (sy_hooks y)) pid
     then (Retried (RuntimeError (''Partition '' @ str_nat pid @ '' backpressured ('' @
             str_int (get_partition_pending_count (hs_partitions (sy_hooks y)) pid) @ '' pending)'')), y)
     else (let (r, h) = uuid_dispatch st env parse_uuid now delivery_id (sy_hooks y)
           in (case r of Inl e \<Rightarrow> Retried e | Inr _ \<Rightarrow> Returned (delivery_id, pid), y\<lparr>sy_hooks := h\<rparr>)))"

definition WebhookEvent :: "string \<Rightarrow> webhook_event option" where
  "WebhookEvent v = find (\<lambda>e. event_value e = v) [SLA_VIOLATION, SLA_WARNING, SLA_RESOLVED]"

definition trigger_sla_violation_async ::
  "hook_settings \<Rightarrow> hook_env \<Rightarrow> real \<Rightarrow> real \<Rightarrow> string option \<Rightarrow> nat \<Rightarrow> (string \<times> json) list \<Rightarrow> string \<Rightarrow> hook_system \<Rightarrow>
   (nat \<times> string) task_answer \<times> hook_system" where
  "trigger_sla_violation_async st env now now' ctx retries sla_data event y =
    (let (r, h) = (case WebhookEvent event of
           None \<Rightarrow> (Inl (ValueError (quoted event @ '' is not a valid WebhookEvent'')), sy_hooks y)
         | Some ev \<Rightarrow> trigger_sla_violation_webhooks st env now now' (JObj sla_data) ev CURRENT_SIGNATURE_VERSION (sy_hooks y));
         y1 = y\<lparr>sy_hooks := h\<rparr>
     in case r of
          Inr ds \<Rightarrow> (Returned (length ds, event), y1)
        | Inl e \<Rightarrow>
          (if retries < 3 then Retried e else Raised e,
           if retries < 3 then sys_audit now ctx ''sla_violation_webhook_retried''
             [(''sla_data'', JObj sla_data), (''event'', JStr event), (''retry_count'', JInt (int retries + 1)),
              (''error'', JStr (exc_msg e))] y1
           else y1))"

section \<open>Disaster recovery\<close>

definition replay_payload :: "string \<Rightarrow> string \<Rightarrow> (string \<times> json) list" where
  "replay_payload start_iso end_iso = [(''start_time'', JStr start_iso), (''end_time'', JStr end_iso)]"

definition enqueue_webhook_dr_replay ::
  "hook_env \<Rightarrow> real \<Rightarrow> string \<Rightarrow> string res \<Rightarrow> real \<Rightarrow> real \<Rightarrow> hook_system \<Rightarrow> job res \<times> hook_system" where
  "enqueue_webhook_dr_replay env now uid apply_async start_time end_time y =
    (if end_time < start_time then (Inl (ValueError ''end_time must be greater than or equal to start_time''), y)
     else case add_job_row (Job uid now ''pending'' WEBHOOK_DR_REPLAY
            (replay_payload (env_isoformat env start_time) (env_isoformat env end_time))) (js_jobs (sy_jobs y)) of
       (Inl e, _) \<Rightarrow> (Inl e, y)
     | (Inr _, t) \<Rightarrow>
       (let y1 = y\<lparr>sy_jobs := (sy_jobs y)\<lparr>js_jobs := t\<rparr>\<rparr> in
        case apply_async of
          Inl e \<Rightarrow> (Inl e, y1)
        | Inr task \<Rightarrow>
          (case set_task_id uid task t of
             (Inl e, _) \<Rightarrow> (Inl e, y1)
           | (Inr _, t2) \<Rightarrow> (Inr (the (job_by_id uid t2)), y\<lparr>sy_jobs := (sy_jobs y)\<lparr>js_jobs := t2\<rparr>\<rparr>))))"

text \<open>
  The lease helpers of \<open>WebhookDatabaseTask\<close>. They differ from those of the SLA tasks in one point: a commit that fails is rolled back and not
  reported, so the row stays as it was; \<open>committed\<close> is what the commit answers.
\<close>

definition hook_task_mark_started :: "bool \<Rightarrow> int \<Rightarrow> real \<Rightarrow> string \<Rightarrow> job list \<Rightarrow> job list" where
  "hook_task_mark_started committed timeout now task t = (if committed then mark_started timeout now task t else t)"

definition hook_task_heartbeat :: "bool \<Rightarrow> int \<Rightarrow> real \<Rightarrow> string \<Rightarrow> job list \<Rightarrow> job list" where
  "hook_task_heartbeat committed timeout now task t = (if committed then heartbeat timeout now task t else t)"

definition hook_task_update_progress :: "bool \<Rightarrow> string \<Rightarrow> real \<Rightarrow> (string \<times> json) list option \<Rightarrow> job list \<Rightarrow> job list" where
  "hook_task_update_progress committed task p details t = (if committed then update_progress task p details t else t)"

text \<open>
  One run of the loop over the candidates with the progress callback after each of them. The callback passes the id of
  the job where \<open>_update_progress\<close> looks up a Celery task id.
\<close>

fun recover_with_progress ::
  "hook_settings \<Rightarrow> hook_env \<Rightarrow> real \<Rightarrow> string \<Rightarrow> string \<Rightarrow> string \<Rightarrow> nat \<Rightarrow> nat \<Rightarrow> nat list \<Rightarrow> hook_state \<Rightarrow> job list \<Rightarrow>
   (nat \<times> nat) res \<times> hook_state \<times> job list" where
  "recover_with_progress st env now job_id start_iso end_iso n idx [] h t = (Inr (0, 0), h, t)"
| "recover_with_progress st env now job_id start_iso end_iso n idx (did # ds) h t =
    (case recover_loop st env now [did] h of
       (Inl e, h1) \<Rightarrow> (Inl e, h1, t)
     | (Inr (rp, sk), h1) \<Rightarrow>
       (let t1 = update_progress job_id (real idx / real n * 100)
              (Some [(''stage'', JStr ''replaying''), (''replayed'', JInt (int idx)), (''total'', JInt (int n)),
                     (''start'', JStr start_iso), (''end'', JStr end_iso)]) t
        in case recover_with_progress st env now job_id start_iso end_iso n (Suc idx) ds h1 t1 of
             (Inl e, h2, t2) \<Rightarrow> (Inl e, h2, t2)
           | (Inr (rp', sk'), h2, t2) \<Rightarrow> (Inr (rp + rp', sk + sk'), h2, t2)))"

definition window_candidates :: "real \<Rightarrow> real \<Rightarrow> hook_state \<Rightarrow> nat list" where
  "window_candidates a b h = map d_id (sort_key d_event_timestamp
     (filter (\<lambda>d. a \<le> d_event_timestamp d \<and> d_event_timestamp d \<le> b) (hs_deliveries h)))"

definition replay_result :: "nat \<Rightarrow> nat \<Rightarrow> nat \<Rightarrow> json" where
  "replay_result n rp sk = JObj [(''total'', JInt (int n)), (''replayed'', JInt (int rp)), (''skipped'', JInt (int sk))]"

datatype recover_answer = Missing_job | Recovered nat nat nat

definition recover_webhooks_in_window ::
  "hook_settings \<Rightarrow> hook_env \<Rightarrow> (string \<Rightarrow> real option) \<Rightarrow> real \<Rightarrow> string \<Rightarrow> string \<Rightarrow> string \<Rightarrow> hook_system \<Rightarrow>
   recover_answer task_answer \<times> hook_system" where
  "recover_webhooks_in_window st env fromisoformat now job_id start_iso end_iso y =
    (case (fromisoformat start_iso, fromisoformat end_iso) of
       (Some a, Some b) \<Rightarrow>
       (case job_by_id job_id (js_jobs (sy_jobs y)) of
          None \<Rightarrow> (Returned Missing_job, y)
        | Some j \<Rightarrow>
          (let t0 = upd_job job_id (\<lambda>j. j\<lparr>j_status := J_STARTED, j_started_at := Some now\<rparr>) (js_jobs (sy_jobs y));
               ids = window_candidates a b (sy_hooks y);
               (r, h, t) = (if b < a then (Inl (ValueError ''end_time must be greater than or equal to start_time''), sy_hooks y, t0)
                  else recover_with_progress st env now job_id start_iso end_iso (length ids) 1 ids (sy_hooks y) t0);
               fin = (\<lambda>f. y\<lparr>sy_hooks := h, sy_jobs := (sy_jobs y)\<lparr>js_jobs := upd_job job_id f t\<rparr>\<rparr>)
           in case r of
                Inr (rp, sk) \<Rightarrow>
                  (Returned (Recovered (length ids) rp sk),
                   fin (\<lambda>j. j\<lparr>j_status := J_SUCCESS, j_result := Some (replay_result (length ids) rp sk), j_progress := 100,
                          j_finished_at := Some now\<rparr>))
              | Inl e \<Rightarrow>
                  (Raised e, fin (\<lambda>j. j\<lparr>j_status := J_FAILURE, j_error := Some (exc_msg e), j_finished_at := Some now\<rparr>))))
     | _ \<Rightarrow> (Raised (ValueError ''Invalid isoformat string''), y))"

end
