(* ===== verification/WebhookTaskLaws.thy ===== *)
theory WebhookTaskLaws
  imports WebhookTasks JobLaws
begin

text \<open>
  Laws of the webhook handlers and tasks: paging through deliveries, the chain of executions of a dispatch task, the
  disaster-recovery replay and its job row, and the delivery timeline.
\<close>

section \<open>Paging\<close>

definition matching :: "hook_env \<Rightarrow> nat \<Rightarrow> delivery_query \<Rightarrow> hook_state \<Rightarrow> delivery list" where
  "matching env wid q s = filter (delivery_matches env wid q) (hs_deliveries s)"

definition page_items :: "delivery_page res \<Rightarrow> delivery_response list" where
  "page_items r = (case r of Inl _ \<Rightarrow> [] | Inr p \<Rightarrow> dp_items p)"

lemma deliveries_page:
  assumes "find_webhook wid s = Some w" "1 \<le> limit" "limit \<le> 200" "0 \<le> offset"
  shows "list_webhook_deliveries env wid q limit offset s =
    (let rows = matching env wid q s; items = map (serialize_delivery env) (take (nat limit) (drop (nat offset) (rev (sort_key d_created_at rows))))
     in Inr \<lparr>dp_items = items, dp_total = length rows, dp_offset = nat offset, dp_limit = nat limit,
             dp_returned = length items, dp_has_more = (nat offset + length items < length rows)\<rparr>)"
  using assms by (simp add: list_webhook_deliveries_def webhook_or_404_def matching_def Let_def)

text \<open>
  Walking through the deliveries of a webhook page by page visits every matching delivery exactly once, newest
  first, for any filter; every page reports the full count and announces a further page exactly when one is left.
\<close>

theorem delivery_pages_complete:
  assumes "find_webhook wid s = Some w" "1 \<le> limit" "limit \<le> 200" "length (matching env wid q s) \<le> n * nat limit"
  shows "concat (map (\<lambda>i. page_items (list_webhook_deliveries env wid q limit (int i * limit) s)) [0..<n])
      = map (serialize_delivery env) (rev (sort_key d_created_at (matching env wid q s)))
    \<and> (\<exists>p. list_webhook_deliveries env wid q limit (int i * limit) s = Inr p \<and> dp_total p = length (matching env wid q s)
        \<and> dp_returned p \<le> nat limit \<and> (dp_has_more p \<longleftrightarrow> (i + 1) * nat limit < length (matching env wid q s)))"
proof -
  let ?xs = "rev (sort_key d_created_at (matching env wid q s))"
  have off: "nat (int i * limit) = i * nat limit" for i using assms(2) by (simp add: nat_mult_distrib)
  have page: "list_webhook_deliveries env wid q limit (int i * limit) s =
      Inr \<lparr>dp_items = map (serialize_delivery env) (take (nat limit) (drop (i * nat limit) ?xs)), dp_total = length ?xs,
           dp_offset = i * nat limit, dp_limit = nat limit, dp_returned = length (take (nat limit) (drop (i * nat limit) ?xs)),
           dp_has_more = (i * nat limit + length (take (nat limit) (drop (i * nat limit) ?xs)) < length ?xs)\<rparr>" for i
    using deliveries_page [OF assms(1-3), of "int i * limit" env q] assms(2) by (simp add: off Let_def)
  have "concat (map (\<lambda>i. page_items (list_webhook_deliveries env wid q limit (int i * limit) s)) [0..<n])
      = map (serialize_delivery env) (concat (map (\<lambda>i. take (nat limit) (drop (i * nat limit) ?xs)) [0..<n]))"
    by (simp only: page page_items_def sum.case delivery_page.select_convs map_concat map_map comp_def)
  also have "\<dots> = map (serialize_delivery env) ?xs" using assms(4) by (simp only: concat_chunks) simp
  finally have "concat (map (\<lambda>i. page_items (list_webhook_deliveries env wid q limit (int i * limit) s)) [0..<n])
      = map (serialize_delivery env) ?xs" .
  moreover have "(i * nat limit + min (length ?xs - i * nat limit) (nat limit) < length ?xs) \<longleftrightarrow> (i + 1) * nat limit < length ?xs"
    using assms(2) by (auto simp: min_def algebra_simps)
  ultimately show ?thesis by (simp add: page)
qed

definition sample_delivery :: delivery where
  "sample_delivery = \<lparr>d_id = 5, d_webhook_id = 7, d_event = SLA_WARNING, d_payload = [], d_status = RETRYING, d_attempt_count = 1,
     d_next_retry_at = Some 9, d_response_status_code = Some 503, d_response_body = None, d_error_message = None,
     d_delivered_at = None, d_dead_lettered_at = None, d_signature_version = 1, d_idempotency_key = ''k'',
     d_event_timestamp = 3, d_created_at = 3, d_updated_at = 4\<rparr>"

definition sample_listing :: hook_state where
  "sample_listing = (snd (create_webhook 7 sample_hook hook_init))\<lparr>hs_deliveries := [sample_delivery]\<rparr>"

definition any_delivery :: delivery_query where
  "any_delivery = \<lparr>dq_status = None, dq_event = None, dq_search = None, dq_created_after = None,
      dq_created_before = None, dq_delivered_after = None, dq_delivered_before = None\<rparr>"

theorem delivery_pages_complete_witness:
  "page_items (list_webhook_deliveries sample_env 7 any_delivery 50 0 sample_listing) = [serialize_delivery sample_env sample_delivery]"
proof -
  obtain w where w: "find_webhook 7 sample_listing = Some w"
    by (simp add: sample_listing_def find_webhook_def create_webhook_def Let_def hook_init_def)
  have m: "matching sample_env 7 any_delivery sample_listing = [sample_delivery]"
    by (simp add: matching_def sample_listing_def delivery_matches_def any_delivery_def holds_for_def sample_delivery_def)
  have "length (matching sample_env 7 any_delivery sample_listing) \<le> 1 * nat 50" by (simp add: m)
  from delivery_pages_complete [OF w _ _ this, THEN conjunct1] show ?thesis by (simp add: m)
qed

section \<open>Dispatch tasks\<close>

lemma sys_audit_simps [simp]:
  "sy_hooks (sys_audit now ctx ev d y) = sy_hooks y" "js_jobs (sy_jobs (sys_audit now ctx ev d y)) = js_jobs (sy_jobs y)"
  "length (js_audit (sy_jobs (sys_audit now ctx ev d y))) = Suc (length (js_audit (sy_jobs y)))"
  by (simp_all add: sys_audit_def job_audit_def)

lemma uuid_dispatch_ok:
  assumes "hook_ok st h" "parse_uuid delivery_id = Some did"
  shows "fst (uuid_dispatch st env parse_uuid now delivery_id h) = Inr () \<and> good st h (snd (uuid_dispatch st env parse_uuid now delivery_id h))"
  using dispatch_delivery_ok(1) [of h st did env now] hook_ok_except [OF assms(1), of "{did}"] dispatch_good_ok [OF assms(1), of env now did]
  by (simp add: uuid_dispatch_def assms(2))

lemma dispatch_bad_id:
  assumes "parse_uuid delivery_id = None" "retries < 5"
  shows "\<exists>e y'. dispatch_webhook_delivery st env parse_uuid now ctx task retries delivery_id y = (Retried e, y') \<and> sy_hooks y' = sy_hooks y
     \<and> js_jobs (sy_jobs y') = js_jobs (sy_jobs y) \<and> length (js_audit (sy_jobs y')) = Suc (length (js_audit (sy_jobs y)))"
  using assms by (simp add: dispatch_webhook_delivery_def uuid_dispatch_def)

lemma upd_task_none: "job_by_task task t = None \<Longrightarrow> upd_task task f t = t"
  by (auto simp: job_by_task_def find_None_iff upd_task_def upd_where_def intro: map_idI)

lemma dispatch_bad_id_last:
  assumes "parse_uuid delivery_id = None"
  shows "\<exists>m y'. dispatch_webhook_delivery st env parse_uuid now ctx task 5 delivery_id y = (Returned Dead_lettered, y') \<and> sy_hooks y' = sy_hooks y
     \<and> js_jobs (sy_jobs y') = upd_task task (dead_letter_job now m) (js_jobs (sy_jobs y))"
proof (cases "job_by_task task (js_jobs (sy_jobs y))")
  case None
  then show ?thesis using assms upd_task_none [OF None] by (simp add: dispatch_webhook_delivery_def uuid_dispatch_def)
qed (use assms in \<open>auto simp: dispatch_webhook_delivery_def uuid_dispatch_def on_jobs_def\<close>)

lemma bad_id_chain:
  assumes "parse_uuid delivery_id = None" "k \<le> 5"
  shows "\<exists>m y'. dispatch_chain st env parse_uuid clock ctx task (5 - k) delivery_id y = (Suc k, Returned Dead_lettered, y') \<and> sy_hooks y' = sy_hooks y
     \<and> js_jobs (sy_jobs y') = upd_task task (dead_letter_job (clock 5) m) (js_jobs (sy_jobs y))"
  using assms(2)
proof (induction k arbitrary: y)
  case 0
  show ?case using dispatch_bad_id_last [of parse_uuid delivery_id st env "clock 5" ctx task y] assms(1)
    by (subst dispatch_chain.simps) auto
next
  case (Suc k)
  have "5 - Suc k < 5" by simp
  then obtain e y1 where d: "dispatch_webhook_delivery st env parse_uuid (clock (5 - Suc k)) ctx task (5 - Suc k) delivery_id y = (Retried e, y1)"
      "sy_hooks y1 = sy_hooks y" "js_jobs (sy_jobs y1) = js_jobs (sy_jobs y)"
    using dispatch_bad_id [of parse_uuid delivery_id "5 - Suc k" st env "clock (5 - Suc k)" ctx task y, OF assms(1)] by metis
  have "Suc (5 - Suc k) = 5 - k" using Suc.prems by simp
  then show ?case using Suc.IH [of y1] Suc.prems d by (subst dispatch_chain.simps) auto
qed



section \<open>Disaster recovery\<close>

lemma grows_ids: "grows h h' \<Longrightarrow> did \<in> d_id ` set (hs_deliveries h) \<Longrightarrow> did \<in> d_id ` set (hs_deliveries h')"
proof -
  assume "grows h h'" "did \<in> d_id ` set (hs_deliveries h)"
  then obtain d where "d \<in> set (hs_deliveries h)" "d_id d = did" "identity d \<in> identity ` set (hs_deliveries h')"
    unfolding grows_def by (metis image_eqI imageE set_map set_mono_prefix subsetD)
  then show ?thesis using identity_fields by (metis (no_types, lifting) image_iff)
qed

lemma find_delivery_ex: "did \<in> d_id ` set (hs_deliveries h) \<Longrightarrow> \<exists>d. find_delivery did h = Some d"
  unfolding find_delivery_def by (metis (mono_tags, lifting) find_None_iff imageE option.exhaust)

lemma replay_returns:
  assumes "hook_ok st h"
  shows "\<exists>b. fst (replay_dead_letter_delivery st env now did h) = Inr b"
proof (cases "find_delivery did h")
  case (Some d)
  have "identity (reset_delivery now d) = identity d" by (simp add: reset_delivery_def identity_def)
  from reset_dispatch_good [OF assms Some this, of env now] Some show ?thesis
    by (auto simp: replay_dead_letter_delivery_def split: prod.split sum.split)
qed (auto simp: replay_dead_letter_delivery_def)

lemma recover_one:
  assumes "hook_ok st h" "did \<in> d_id ` set (hs_deliveries h)"
  shows "\<exists>rp sk h1. recover_loop st env now [did] h = (Inr (rp, sk), h1) \<and> rp + sk = 1 \<and> good st h h1"
proof -
  obtain d where d: "find_delivery did h = Some d" using find_delivery_ex [OF assms(2)] by blast
  let ?d = "d\<lparr>d_status := PENDING, d_next_retry_at := None, d_dead_lettered_at := None\<rparr>"
  have "identity ?d = identity d" by (simp add: identity_def)
  note reset = reset_dispatch_good [OF assms(1) d this, of env now]
  obtain b where "fst (replay_dead_letter_delivery st env now did h) = Inr b" using replay_returns [OF assms(1)] by blast
  then have "\<exists>rp sk h1. recover_loop st env now [did] h = (Inr (rp, sk), h1) \<and> rp + sk = 1"
    using reset d by (auto simp: Let_def split: prod.split sum.split)
  then show ?thesis using recover_loop_good [OF assms(1), of env now "[did]"] by (metis snd_conv)
qed

lemma recover_all:
  assumes "hook_ok st h" "set ds \<subseteq> d_id ` set (hs_deliveries h)" "job_by_task job_id t = None"
  shows "\<exists>rp sk h1. recover_with_progress st env now job_id a b n idx ds h t = (Inr (rp, sk), h1, t) \<and> rp + sk = length ds \<and> good st h h1"
  using assms
proof (induction ds arbitrary: h idx)
  case Nil
  then show ?case by (simp add: good_refl)
next
  case (Cons did ds)
  obtain rp sk h1 where one: "recover_loop st env now [did] h = (Inr (rp, sk), h1)" "rp + sk = 1" "good st h h1"
    using recover_one [of st h did env now] Cons.prems by auto
  have "set ds \<subseteq> d_id ` set (hs_deliveries h1)" using Cons.prems(2) grows_ids [of h h1] one(3) by (auto simp: good_def)
  from Cons.IH [OF good_ok [OF one(3)] this Cons.prems(3), of "Suc idx"] obtain rp' sk' h2 where
    "recover_with_progress st env now job_id a b n (Suc idx) ds h1 t = (Inr (rp', sk'), h2, t)" "rp' + sk' = length ds" "good st h1 h2" by blast
  then show ?case using one good_trans [OF one(3)] upd_task_none [OF Cons.prems(3)] by (simp add: update_progress_def)
qed

lemma window_candidates_ids: "set (window_candidates a b h) \<subseteq> d_id ` set (hs_deliveries h)"
  by (auto simp: window_candidates_def)

text \<open>
  A recovery replay of a reachable state succeeds: every delivery of the window is either replayed or skipped, the
  identities and event times of all deliveries are kept, and the job row ends as a success that stores both counts.
  The intermediate progress never reaches the row: its details stay what they were, unless some row has the job's
  id as its Celery task id. A window whose end precedes its start fails and is recorded as a failure.
\<close>

theorem recovery_job_outcome:
  assumes "(hook_step st)\<^sup>*\<^sup>* hook_init (sy_hooks y)" "job_by_id job_id (js_jobs (sy_jobs y)) = Some j"
    "job_by_task job_id (js_jobs (sy_jobs y)) = None" "parse_iso start_iso = Some a" "parse_iso end_iso = Some b"
  shows "(a \<le> b \<longrightarrow> (\<exists>rp sk y'. recover_webhooks_in_window st env parse_iso now job_id start_iso end_iso y = (Returned (Recovered (rp + sk) rp sk), y')
        \<and> rp + sk = length (filter (\<lambda>d. a \<le> d_event_timestamp d \<and> d_event_timestamp d \<le> b) (hs_deliveries (sy_hooks y)))
        \<and> grows (sy_hooks y) (sy_hooks y')
        \<and> job_by_id job_id (js_jobs (sy_jobs y')) = Some (j\<lparr>j_status := J_SUCCESS, j_started_at := Some now,
            j_result := Some (replay_result (rp + sk) rp sk), j_progress := 100, j_finished_at := Some now\<rparr>)))
    \<and> (b < a \<longrightarrow> (\<exists>e y'. recover_webhooks_in_window st env parse_iso now job_id start_iso end_iso y = (Raised e, y')
        \<and> sy_hooks y' = sy_hooks y \<and> map_option j_status (job_by_id job_id (js_jobs (sy_jobs y'))) = Some J_FAILURE))"
proof -
  let ?t = "js_jobs (sy_jobs y)" and ?ids = "window_candidates a b (sy_hooks y)"
  let ?started = "upd_job job_id (\<lambda>j. j\<lparr>j_status := J_STARTED, j_started_at := Some now\<rparr>) ?t"
  have ok: "hook_ok st (sy_hooks y)" using hook_steps_ok [OF assms(1) hook_init_ok] by simp
  have t0: "job_by_id job_id ?started = Some (j\<lparr>j_status := J_STARTED, j_started_at := Some now\<rparr>)"
    using assms(2) by (simp add: job_by_id_upd)
  have "map j_task ?started = map j_task ?t" unfolding upd_job_def by (rule map_upd_where) simp
  then have "job_by_task job_id ?started = None"
    using assms(3) by (metis (mono_tags, lifting) find_None_iff image_eqI imageE job_by_task_def set_map)
  from recover_all [OF ok window_candidates_ids [of a b] this, of env now start_iso end_iso "length ?ids" 1]
  obtain rp sk h1 where r: "recover_with_progress st env now job_id start_iso end_iso (length ?ids) 1 ?ids (sy_hooks y) ?started = (Inr (rp, sk), h1, ?started)"
    "rp + sk = length ?ids" "good st (sy_hooks y) h1" by blast
  have len: "length ?ids = length (filter (\<lambda>d. a \<le> d_event_timestamp d \<and> d_event_timestamp d \<le> b) (hs_deliveries (sy_hooks y)))"
    by (simp add: window_candidates_def)
  have good_case: "recover_webhooks_in_window st env parse_iso now job_id start_iso end_iso y =
      (Returned (Recovered (length ?ids) rp sk), y\<lparr>sy_hooks := h1, sy_jobs := (sy_jobs y)\<lparr>js_jobs :=
        upd_job job_id (\<lambda>j. j\<lparr>j_status := J_SUCCESS, j_result := Some (replay_result (length ?ids) rp sk), j_progress := 100,
          j_finished_at := Some now\<rparr>) ?started\<rparr>\<rparr>)" if "a \<le> b"
    using assms(2,4,5) r(1) that by (simp add: recover_webhooks_in_window_def Let_def)
  have bad_case: "recover_webhooks_in_window st env parse_iso now job_id start_iso end_iso y =
      (Raised (ValueError ''end_time must be greater than or equal to start_time''), y\<lparr>sy_hooks := sy_hooks y, sy_jobs := (sy_jobs y)\<lparr>js_jobs :=
        upd_job job_id (\<lambda>j. j\<lparr>j_status := J_FAILURE, j_error := Some ''end_time must be greater than or equal to start_time'',
          j_finished_at := Some now\<rparr>) ?started\<rparr>\<rparr>)" if "b < a"
    using assms(2,4,5) that by (simp add: recover_webhooks_in_window_def Let_def)
  show ?thesis using r(2,3) len t0 good_case bad_case by (auto simp: job_by_id_upd good_def)
qed

definition sample_replay :: hook_system where
  "sample_replay = \<lparr>sy_hooks = hook_init, sy_jobs = \<lparr>js_jobs = [Job ''j'' 0 ''t'' WEBHOOK_DR_REPLAY []], js_audit = []\<rparr>\<rparr>"

theorem recovery_job_outcome_witness:
  "\<exists>y'. recover_webhooks_in_window sample_hook_settings sample_env (\<lambda>x. if x = ''a'' then Some 1 else Some 2) 9 ''j'' ''a'' ''b'' sample_replay
     = (Returned (Recovered 0 0 0), y')"
proof -
  let ?iso = "\<lambda>x. if x = ''a'' then Some 1 else Some (2::real)"
  have h: "(hook_step sample_hook_settings)\<^sup>*\<^sup>* hook_init (sy_hooks sample_replay)" by (simp add: sample_replay_def)
  have j: "job_by_id ''j'' (js_jobs (sy_jobs sample_replay)) = Some (Job ''j'' 0 ''t'' WEBHOOK_DR_REPLAY [])"
    by (simp add: sample_replay_def job_by_id_def Job_def)
  have t: "job_by_task ''j'' (js_jobs (sy_jobs sample_replay)) = None" by (simp add: sample_replay_def job_by_task_def Job_def)
  have w: "filter P (hs_deliveries (sy_hooks sample_replay)) = []" for P by (simp add: sample_replay_def hook_init_def)
  show ?thesis using recovery_job_outcome [OF h j t, of ?iso "''a''" 1 "''b''" 2 sample_env 9] by (auto simp: w)
qed

text \<open>
  When handing a recovery replay to the broker fails, its row keeps the placeholder task id, and every further
  replay request is rejected by the unique constraint, whatever window it asks for.
\<close>

theorem replay_placeholder_blocks:
  assumes "uid \<notin> j_id ` set (js_jobs (sy_jobs y))" "start \<le> finish"
  shows "(\<exists>r y1. enqueue_webhook_dr_replay env now uid (Inl e) start finish y = (Inl r, y1)
     \<and> (\<forall>env' now' uid' apply' start' finish'. start' \<le> finish' \<longrightarrow>
          enqueue_webhook_dr_replay env' now' uid' apply' start' finish' y1 = (Inl (IntegrityError ''jobs''), y1)))"
proof -
  let ?blocked = "\<lambda>y. \<exists>j\<in>set (js_jobs (sy_jobs y)). j_task j = ''pending''"
  have stuck: "enqueue_webhook_dr_replay env' now' uid' apply' start' finish' z = (Inl (IntegrityError ''jobs''), z)"
    if "?blocked z" "start' \<le> finish'" for env' now' uid' apply' start' finish' z
    using that by (auto simp: enqueue_webhook_dr_replay_def add_job_row_def list_ex_iff Job_def)
  show ?thesis
  proof (cases "?blocked y")
    case True
    then show ?thesis using stuck assms(2) by blast
  next
    case False
    let ?j = "Job uid now ''pending'' WEBHOOK_DR_REPLAY (replay_payload (env_isoformat env start) (env_isoformat env finish))"
    let ?y1 = "y\<lparr>sy_jobs := (sy_jobs y)\<lparr>js_jobs := js_jobs (sy_jobs y) @ [?j]\<rparr>\<rparr>"
    have "enqueue_webhook_dr_replay env now uid (Inl e) start finish y = (Inl e, ?y1)"
      using False assms by (auto simp: enqueue_webhook_dr_replay_def add_job_row_def list_ex_iff Job_def)
    moreover have "?blocked ?y1" by (simp add: Job_def)
    ultimately show ?thesis using stuck by blast
  qed
qed

theorem replay_placeholder_blocks_witness:
  "\<exists>y1. enqueue_webhook_dr_replay sample_env 2 ''b'' (Inr ''task'') 3 4
     (snd (enqueue_webhook_dr_replay sample_env 1 ''a'' (Inl (RuntimeError ''broker'')) 0 5 \<lparr>sy_hooks = hook_init, sy_jobs = job_init\<rparr>))
     = (Inl (IntegrityError ''jobs''), y1)"
proof -
  have "''a'' \<notin> j_id ` set (js_jobs (sy_jobs \<lparr>sy_hooks = hook_init, sy_jobs = job_init\<rparr>))" by (simp add: job_init_def)
  from replay_placeholder_blocks [OF this, of 0 5 sample_env 1 "RuntimeError ''broker''"] show ?thesis by fastforce
qed

section \<open>Timelines\<close>

text \<open>
  The webhook subsystem with the rest of the service around it: other components change the job table and append
  events of their own classes.
\<close>

inductive sys_step :: "hook_settings \<Rightarrow> hook_system \<Rightarrow> hook_system \<Rightarrow> bool" for st where
  sys_hooks: "hook_step st (sy_hooks y) h \<Longrightarrow> sys_step st y (y\<lparr>sy_hooks := h\<rparr>)"
| sys_rotate: "sys_step st y (snd (rotate_secret_handler st env now ctx email sec wid y))"
| sys_dispatch: "sys_step st y (snd (dispatch_webhook_delivery st env parse_uuid now ctx task retries did y))"
| sys_retry: "sys_step st y (snd (retry_pending_webhook_deliveries st env now y))"
| sys_partitioned: "sys_step st y (snd (dispatch_partitioned_delivery st env parse_uuid now did pid y))"
| sys_trigger: "sys_step st y (snd (trigger_sla_violation_async st env now now' ctx retries data ev y))"
| sys_enqueue: "sys_step st y (snd (enqueue_webhook_dr_replay env now uid apply_async a b y))"
| sys_recover: "sys_step st y (snd (recover_webhooks_in_window st env parse_iso now job_id a' b' y))"
| sys_jobs: "sys_step st y (y\<lparr>sy_jobs := (sy_jobs y)\<lparr>js_jobs := t\<rparr>\<rparr>)"
| sys_other: "\<not> startswith ev ''webhook.'' \<Longrightarrow> sys_step st y (sys_audit now ctx ev d y)"

definition no_webhook_events :: "hook_system \<Rightarrow> bool" where
  "no_webhook_events y \<longleftrightarrow> (\<forall>e\<in>set (js_audit (sy_jobs y)). \<not> startswith (ev_type e) ''webhook.'')"

lemma no_webhook_events_simps [simp]:
  "no_webhook_events (y\<lparr>sy_hooks := h\<rparr>) = no_webhook_events y"
  "no_webhook_events (y\<lparr>sy_jobs := (sy_jobs y)\<lparr>js_jobs := t\<rparr>\<rparr>) = no_webhook_events y"
  "no_webhook_events (y\<lparr>sy_jobs := on_jobs f (sy_jobs y)\<rparr>) = no_webhook_events y"
  "no_webhook_events (y\<lparr>sy_hooks := h, sy_jobs := (sy_jobs y)\<lparr>js_jobs := t\<rparr>\<rparr>) = no_webhook_events y"
  "no_webhook_events (y\<lparr>sy_hooks := h, sy_jobs := on_jobs f (sy_jobs y)\<rparr>) = no_webhook_events y"
  "no_webhook_events (sys_audit now ctx ev d y) \<longleftrightarrow> no_webhook_events y \<and> \<not> startswith ev ''webhook.''"
  by (auto simp: no_webhook_events_def on_jobs_def sys_audit_def job_audit_def log_event_def)

lemma emitted_events [simp]:
  "\<not> startswith ''webhook_secret_rotated'' ''webhook.''" "\<not> startswith ''job_dead_lettered'' ''webhook.''"
  "\<not> startswith ''webhook_retried'' ''webhook.''" "\<not> startswith ''sla_violation_webhook_retried'' ''webhook.''"
  by (simp_all add: startswith_def)

lemma sys_step_silent: "sys_step st y y' \<Longrightarrow> no_webhook_events y \<Longrightarrow> no_webhook_events y'"
proof (induction rule: sys_step.induct)
  case (sys_dispatch y env parse_uuid now ctx task retries did)
  then show ?case by (auto simp: dispatch_webhook_delivery_def Let_def split: prod.split sum.split option.split)
next
  case (sys_recover y env parse_iso now job_id a' b')
  then show ?case by (auto simp: recover_webhooks_in_window_def Let_def split: prod.split sum.split option.split)
next
  case (sys_enqueue y env now uid apply_async a b)
  then show ?case by (auto simp: enqueue_webhook_dr_replay_def Let_def split: prod.split sum.split)
next
  case (sys_rotate y env now ctx email sec wid)
  then show ?case by (auto simp: rotate_secret_handler_def split: prod.split sum.split option.split)
next
  case (sys_retry y env now)
  then show ?case by (auto simp: retry_pending_webhook_deliveries_def split: prod.split)
next
  case (sys_partitioned y env parse_uuid now did pid)
  then show ?case by (auto simp: dispatch_partitioned_delivery_def split: prod.split)
next
  case (sys_trigger y env now now' ctx retries data ev)
  then show ?case by (auto simp: trigger_sla_violation_async_def Let_def split: prod.split sum.split)
qed simp_all

text \<open>The lease helpers keep the job table well formed whether or not their commit succeeds, and leave every other task's rows alone.\<close>

lemma hook_task_helpers_inv:
  assumes "jobs_inv t"
  shows "jobs_inv (hook_task_mark_started c timeout now task t)" "jobs_inv (hook_task_heartbeat c timeout now task t)"
    "0 \<le> p \<Longrightarrow> jobs_inv (hook_task_update_progress c task p d t)"
  using assms by (auto simp: hook_task_mark_started_def hook_task_heartbeat_def hook_task_update_progress_def intro: bookkeeping_inv)

lemma job_by_task_other:
  assumes "task' \<noteq> task" "\<And>j. j_task (f j) = j_task j"
  shows "job_by_task task' (upd_task task f t) = job_by_task task' t"
  using assms by (induction t) (auto simp: job_by_task_def upd_task_def upd_where_def)

lemma hook_task_helpers_local:
  assumes "task' \<noteq> task"
  shows "job_by_task task' (hook_task_mark_started c timeout now task t) = job_by_task task' t"
    "job_by_task task' (hook_task_heartbeat c timeout now task t) = job_by_task task' t"
    "job_by_task task' (hook_task_update_progress c task p d t) = job_by_task task' t"
  using assms by (simp_all add: hook_task_mark_started_def hook_task_heartbeat_def hook_task_update_progress_def mark_started_def
      heartbeat_def update_progress_def job_by_task_other)

lemma hook_task_lease:
  assumes "job_by_task task t = Some j" "j_status j = J_STARTED"
  shows "map_option j_lease (job_by_task task (hook_task_heartbeat c timeout now task t)) =
    Some (if c then Some (now + real_of_int timeout) else j_lease j)"
  using assms by (simp add: hook_task_heartbeat_def heartbeat_def job_by_task_upd)

interpretation hook_trail: step_system "sys_step st" no_webhook_events for st
  by unfold_locales (rule sys_step_silent)

text \<open>
  The audit timeline of a delivery is always empty: it reads events of the class \<^verbatim>\<open>webhook.\<close>, and no handler or task
  of the webhook subsystem emits one.
\<close>

theorem timeline_always_empty:
  assumes "(sys_step st)\<^sup>*\<^sup>* y0 y" "js_audit (sy_jobs y0) = []"
  shows "get_webhook_delivery_timeline wid did y =
    (if find_webhook wid (sy_hooks y) = None then Inl (HTTPException 404 ''Webhook not found.'') else Inr [])"
proof -
  have "no_webhook_events y" using hook_trail.history_inv [OF assms(1)] assms(2) by (simp add: no_webhook_events_def)
  then have "filter (\<lambda>e. sql_like (''webhook.'' @ ''%'') (ev_type e)) (js_audit (sy_jobs y)) = []"
    by (subst sql_like_prefix) (auto simp: no_webhook_events_def filter_empty_conv)
  then have "list_audit (Some ''webhook.'') None 500 0 (js_audit (sy_jobs y)) = []"
    by (simp add: list_audit_def newest_first_def)
  then show ?thesis by (simp add: get_webhook_delivery_timeline_def webhook_or_404_def split: option.split)
qed

theorem timeline_always_empty_witness:
  "get_webhook_delivery_timeline 7 ''5'' (snd (rotate_secret_handler sample_hook_settings sample_env 1 None ''a'' ''s'' 7
     \<lparr>sy_hooks = sample_listing, sy_jobs = job_init\<rparr>)) = Inr []"
proof -
  let ?y = "\<lparr>sy_hooks = sample_listing, sy_jobs = job_init\<rparr>"
  have "(sys_step sample_hook_settings)\<^sup>*\<^sup>* ?y (snd (rotate_secret_handler sample_hook_settings sample_env 1 None ''a'' ''s'' 7 ?y))"
    by (intro r_into_rtranclp sys_step.sys_rotate)
  moreover have "js_audit (sy_jobs ?y) = []" by (simp add: job_init_def)
  moreover have "find_webhook 7 (sy_hooks (snd (rotate_secret_handler sample_hook_settings sample_env 1 None ''a'' ''s'' 7 ?y))) \<noteq> None"
    by (simp add: rotate_secret_handler_def rotate_webhook_secret_def sample_listing_def find_webhook_def create_webhook_def
        hook_init_def sample_hook_def Let_def upd_where_def)
  ultimately show ?thesis using timeline_always_empty by simp
qed

end
