(* ===== verification/Trace.thy ===== *)
theory Trace
  imports OutageLaws SlaResults Payments WebhookLaws
begin

text \<open>
  The causal trace of an outage, \<open>app/services/trace.py\<close> with the schema of \<open>app/schemas/trace.py\<close>, and the handlers of
  \<open>app/api/v1/endpoints/audit.py\<close>. The service joins the tables of four components: outages with their events, SLA
  results, payments and webhook deliveries. Rendering of timestamps, floats and UUIDs is an argument.
\<close>

record trace_env =
  te_isoformat :: "real \<Rightarrow> string"
  te_float :: "real \<Rightarrow> string"
  te_uuid :: "nat \<Rightarrow> string"

record trace_db =
  td_outages :: "outage_row list"
  td_events :: "outage_event list"
  td_results :: "sla_row list"
  td_payments :: payments
  td_deliveries :: "delivery list"

record trace_node =
  tn_sequence :: nat
  tn_type :: string
  tn_id :: string
  tn_timestamp :: "string option"
  tn_summary :: string
  tn_details :: "(string \<times> json) list"

record trace_chain =
  tc_outage :: "string option"
  tc_payment :: "string option"
  tc_hash :: "string option"
  tc_nodes :: "trace_node list"
  tc_total :: nat

definition serialize_dt :: "trace_env \<Rightarrow> real option \<Rightarrow> string option" where
  "serialize_dt env dt = map_option (te_isoformat env) dt"

definition or_none :: "string option \<Rightarrow> string option" where
  "or_none x = (if given x then x else None)"

definition resolve_outage_id :: "trace_db \<Rightarrow> string option \<Rightarrow> string option \<Rightarrow> string option \<Rightarrow> string option" where
  "resolve_outage_id db outage_id payment_id tx_hash =
    (if given outage_id then outage_id
     else if given payment_id then map_option p_outage_id (find (\<lambda>p. p_id p = the payment_id) (td_payments db))
     else if given tx_hash then map_option p_outage_id (find (\<lambda>p. p_hash p = the tx_hash) (td_payments db))
     else None)"

section \<open>Nodes\<close>

definition outage_node :: "trace_env \<Rightarrow> nat \<Rightarrow> outage_row \<Rightarrow> trace_node" where
  "outage_node env sq r =
    \<lparr>tn_sequence = sq, tn_type = ''outage'', tn_id = o_id r, tn_timestamp = Some (te_isoformat env (o_detected_at r)),
     tn_summary = ''Outage '' @ o_id r @ '': severity='' @ o_severity r @ '', status='' @ o_status r,
     tn_details =
      [(''site_name'', JStr (o_site_name r)), (''site_id'', json_opt JStr (o_site_id r)), (''severity'', JStr (o_severity r)),
       (''status'', JStr (o_status r)), (''detected_at'', JStr (te_isoformat env (o_detected_at r))),
       (''resolved_at'', json_opt JStr (serialize_dt env (o_resolved_at r))), (''description'', JStr (o_description r)),
       (''affected_services'', JArr (map JStr (o_affected_services r))),
       (''affected_subscribers'', json_opt JInt (o_affected_subscribers r)), (''assigned_to'', json_opt JStr (o_assigned_to r)),
       (''created_by'', json_opt JStr (o_created_by r)), (''mttr_minutes'', json_opt JInt (o_mttr_minutes r))]\<rparr>"

definition event_node :: "trace_env \<Rightarrow> nat \<Rightarrow> outage_event \<Rightarrow> trace_node" where
  "event_node env sq e =
    \<lparr>tn_sequence = sq, tn_type = ''outage_event'', tn_id = oe_id e, tn_timestamp = Some (te_isoformat env (oe_occurred_at e)),
     tn_summary = ''Event: '' @ oe_event_type e,
     tn_details = [(''event_type'', JStr (oe_event_type e)), (''schema_version'', JStr (oe_schema_version e)), (''detail'', JObj (oe_detail e))]\<rparr>"

fun state_value :: "sla_state \<Rightarrow> string" where
  "state_value in_progress = ''in_progress''"
| "state_value met = ''met''"
| "state_value violated = ''violated''"

fun kind_value :: "payment_kind \<Rightarrow> string" where
  "kind_value reward = ''reward''"
| "kind_value penalty = ''penalty''"

fun rating_value :: "sla_rating \<Rightarrow> string" where
  "rating_value exceptional = ''exceptional''"
| "rating_value excellent = ''excellent''"
| "rating_value SlaEngine.good = ''good''"
| "rating_value poor = ''poor''"

definition result_node :: "trace_env \<Rightarrow> nat \<Rightarrow> sla_row \<Rightarrow> trace_node" where
  "result_node env sq r =
    \<lparr>tn_sequence = sq, tn_type = ''sla_result'', tn_id = str_int (sr_id r), tn_timestamp = Some (te_isoformat env (sr_created r)),
     tn_summary = ''SLA '' @ str_int (sr_id r) @ '': status='' @ state_value (sr_status r) @ '', rating='' @ rating_value (sr_rating r)
       @ '', amount='' @ te_float env (real_of_int (sr_amount r)) @ '' ('' @ kind_value (sr_payment_type r) @ '')'',
     tn_details =
      [(''status'', JStr (state_value (sr_status r))), (''mttr_minutes'', JInt (sr_mttr r)), (''threshold_minutes'', JInt (sr_threshold r)),
       (''amount'', JNum (real_of_int (sr_amount r))), (''payment_type'', JStr (kind_value (sr_payment_type r))),
       (''rating'', JStr (rating_value (sr_rating r))), (''policy_version'', JStr (sr_policy_version r)),
       (''threshold_source'', JStr (sr_threshold_source r)), (''reason_code'', json_opt JStr (sr_reason_code r)),
       (''decision_trace'', json_opt JStr (sr_decision_trace r)), (''is_latest'', JBool (sr_is_latest r))]\<rparr>"

definition payment_node :: "trace_env \<Rightarrow> nat \<Rightarrow> payment_row \<Rightarrow> trace_node" where
  "payment_node env sq p =
    \<lparr>tn_sequence = sq, tn_type = ''payment'', tn_id = p_id p, tn_timestamp = Some (te_isoformat env (p_created_at p)),
     tn_summary = ''Payment '' @ p_id p @ '': type='' @ p_type p @ '', amount='' @ te_float env (p_amount p) @ '' '' @ p_asset p
       @ '', status='' @ p_status p,
     tn_details =
      [(''transaction_hash'', JStr (p_hash p)), (''type'', JStr (p_type p)), (''amount'', JNum (p_amount p)), (''asset_code'', JStr (p_asset p)),
       (''from_address'', JStr (p_from p)), (''to_address'', JStr (p_to p)), (''status'', JStr (p_status p)),
       (''created_at'', JStr (te_isoformat env (p_created_at p))), (''confirmed_at'', json_opt JStr (serialize_dt env (p_confirmed_at p))),
       (''retry_count'', JInt (p_retry_count p)), (''last_retried_at'', json_opt JStr (serialize_dt env (p_last_retried_at p))),
       (''failure_taxonomy'', json_opt JStr (p_failure_taxonomy p)), (''idempotency_key'', json_opt JStr (p_idempotency_key p)),
       (''dead_letter_reason'', json_opt JStr (p_dead_letter_reason p)),
       (''dead_lettered_at'', json_opt JStr (serialize_dt env (p_dead_lettered_at p))), (''sla_result_id'', json_opt JInt (p_sla_result_id p))]\<rparr>"

fun delivery_status_value :: "delivery_status \<Rightarrow> string" where
  "delivery_status_value PENDING = ''pending''"
| "delivery_status_value SUCCESS = ''success''"
| "delivery_status_value FAILED = ''failed''"
| "delivery_status_value RETRYING = ''retrying''"
| "delivery_status_value DEAD_LETTER = ''dead_letter''"

definition delivery_node :: "trace_env \<Rightarrow> nat \<Rightarrow> delivery \<Rightarrow> trace_node" where
  "delivery_node env sq d =
    \<lparr>tn_sequence = sq, tn_type = ''webhook_delivery'', tn_id = te_uuid env (d_id d), tn_timestamp = Some (te_isoformat env (d_created_at d)),
     tn_summary = ''Webhook delivery '' @ te_uuid env (d_id d) @ '': event='' @ event_value (d_event d) @ '', status=''
       @ delivery_status_value (d_status d) @ '', attempt='' @ str_nat (d_attempt_count d),
     tn_details =
      [(''webhook_id'', JStr (te_uuid env (d_webhook_id d))), (''event'', JStr (event_value (d_event d))),
       (''status'', JStr (delivery_status_value (d_status d))), (''attempt_count'', JInt (int (d_attempt_count d))),
       (''response_status_code'', json_opt JInt (d_response_status_code d)), (''error_message'', json_opt JStr (d_error_message d)),
       (''delivered_at'', json_opt JStr (serialize_dt env (d_delivered_at d))),
       (''dead_lettered_at'', json_opt JStr (serialize_dt env (d_dead_lettered_at d))),
       (''signature_version'', JInt (d_signature_version d)), (''idempotency_key'', JStr (d_idempotency_key d)),
       (''event_timestamp'', JStr (te_isoformat env (d_event_timestamp d)))]\<rparr>"

section \<open>The chain\<close>

text \<open>One of the five loops: \<open>sequence += 1; nodes.append(...)\<close>.\<close>

definition add_nodes :: "(nat \<Rightarrow> 'a \<Rightarrow> trace_node) \<Rightarrow> 'a list \<Rightarrow> nat \<times> trace_node list \<Rightarrow> nat \<times> trace_node list" where
  "add_nodes mk xs acc = fold (\<lambda>x (sq, nodes). (sq + 1, nodes @ [mk (sq + 1) x])) xs acc"

definition outage_events :: "string \<Rightarrow> trace_db \<Rightarrow> outage_event list" where
  "outage_events oid db = sort_key oe_occurred_at (filter (\<lambda>e. oe_outage_id e = oid) (td_events db))"

definition outage_results :: "string \<Rightarrow> trace_db \<Rightarrow> sla_row list" where
  "outage_results oid db = sort_key sr_created (filter (\<lambda>r. sr_outage r = oid) (td_results db))"

definition outage_payments :: "string \<Rightarrow> trace_db \<Rightarrow> payment_row list" where
  "outage_payments oid db = sort_key p_created_at (filter (\<lambda>p. p_outage_id p = oid) (td_payments db))"

definition outage_deliveries :: "string \<Rightarrow> trace_db \<Rightarrow> delivery list" where
  "outage_deliveries oid db = filter (\<lambda>d. data_field ''outage_id'' d = Some (JStr oid))
     (sort_key d_created_at (filter (\<lambda>d. d_event d \<in> {SLA_VIOLATION, SLA_WARNING, SLA_RESOLVED}) (td_deliveries db)))"

definition build_trace_chain :: "trace_env \<Rightarrow> trace_db \<Rightarrow> string option \<Rightarrow> string option \<Rightarrow> string option \<Rightarrow> trace_chain" where
  "build_trace_chain env db outage_id payment_id tx_hash =
    (let resolved = resolve_outage_id db outage_id payment_id tx_hash in
     if \<not> given resolved then
       \<lparr>tc_outage = or_none outage_id, tc_payment = or_none payment_id, tc_hash = or_none tx_hash, tc_nodes = [], tc_total = 0\<rparr>
     else (let oid = the resolved in
       case find (\<lambda>r. o_id r = oid) (td_outages db) of
         None \<Rightarrow> \<lparr>tc_outage = Some oid, tc_payment = None, tc_hash = None, tc_nodes = [], tc_total = 0\<rparr>
       | Some r \<Rightarrow>
         (let acc1 = add_nodes (outage_node env) [r] (0, []);
              acc2 = add_nodes (event_node env) (outage_events oid db) acc1;
              acc3 = add_nodes (result_node env) (outage_results oid db) acc2;
              acc4 = add_nodes (payment_node env) (outage_payments oid db) acc3;
              acc5 = add_nodes (delivery_node env) (outage_deliveries oid db) acc4
          in \<lparr>tc_outage = Some oid, tc_payment = or_none payment_id, tc_hash = or_none tx_hash, tc_nodes = snd acc5,
              tc_total = length (snd acc5)\<rparr>)))"

section \<open>Handlers\<close>

definition get_audit_log :: "string option \<Rightarrow> string option \<Rightarrow> int \<Rightarrow> int \<Rightarrow> audit_entry list \<Rightarrow> audit_entry list res" where
  "get_audit_log event_type_prefix bridge_outcome limit offset log0 =
    (if limit < 1 \<or> limit > 500 \<or> offset < 0 then Inl ValidationError
     else Inr (list_audit event_type_prefix bridge_outcome (nat limit) (nat offset) log0))"

definition get_trace ::
  "trace_env \<Rightarrow> real \<Rightarrow> string option \<Rightarrow> string \<Rightarrow> trace_db \<Rightarrow> string option \<Rightarrow> string option \<Rightarrow> string option \<Rightarrow> audit_entry list \<Rightarrow>
   trace_chain res \<times> audit_entry list" where
  "get_trace env now ctx email db outage_id payment_id tx_hash log0 =
    (if \<not> (given outage_id \<or> given payment_id \<or> given tx_hash) then
       (Inl (HTTPException 400 ''At least one filter parameter is required: outage_id, payment_id, or tx_hash''), log0)
     else (let chain = build_trace_chain env db outage_id payment_id tx_hash in
       if tc_total chain = 0 \<and> \<not> given (tc_outage chain) then
         (Inl (HTTPException 404 ''No trace chain found for the given filter criteria. The outage, payment, or transaction hash may not exist.''), log0)
       else (Inr chain, audit_log now ctx ''trace.accessed''
         [(''outage_id'', json_opt JStr outage_id), (''payment_id'', json_opt JStr payment_id), (''tx_hash'', json_opt JStr tx_hash),
          (''total_nodes'', JInt (int (tc_total chain))), (''resolved_outage_id'', json_opt JStr (tc_outage chain)), (''actor'', JStr email)] log0)))"

section \<open>Laws\<close>

lemma add_nodes_eq: "add_nodes mk xs (sq, nodes) = (sq + length xs, nodes @ map2 mk [sq + 1..<sq + 1 + length xs] xs)"
proof (induction xs arbitrary: sq nodes)
  case (Cons x xs)
  have "add_nodes mk (x # xs) (sq, nodes) = add_nodes mk xs (sq + 1, nodes @ [mk (sq + 1) x])" by (simp add: add_nodes_def)
  also have "\<dots> = (sq + length (x # xs), (nodes @ [mk (sq + 1) x]) @ map2 mk [sq + 2..<sq + 2 + length xs] xs)"
    by (subst Cons.IH) simp
  finally show ?case by (simp add: upt_conv_Cons del: upt_Suc)
qed (simp add: add_nodes_def)

lemma map_map2_left: "length is = length xs \<Longrightarrow> (\<And>i x. f (mk i x) = i) \<Longrightarrow> map f (map2 mk is xs) = is"
  by (induction "is" xs rule: list_induct2) simp_all

lemma map_map2_right: "length is = length xs \<Longrightarrow> (\<And>i x. f (mk i x) = g x) \<Longrightarrow> map f (map2 mk is xs) = map g xs"
  by (induction "is" xs rule: list_induct2) simp_all

lemma node_sequence [simp]:
  "tn_sequence (outage_node env i r) = i" "tn_sequence (event_node env i e) = i" "tn_sequence (result_node env i q) = i"
  "tn_sequence (payment_node env i p) = i" "tn_sequence (delivery_node env i d) = i"
  by (simp_all add: outage_node_def event_node_def result_node_def payment_node_def delivery_node_def)

definition node_key :: "trace_node \<Rightarrow> string \<times> string" where
  "node_key n = (tn_type n, tn_id n)"

lemma node_keys [simp]:
  "node_key (outage_node env i r) = (''outage'', o_id r)" "node_key (event_node env i e) = (''outage_event'', oe_id e)"
  "node_key (result_node env i q) = (''sla_result'', str_int (sr_id q))" "node_key (payment_node env i p) = (''payment'', p_id p)"
  "node_key (delivery_node env i d) = (''webhook_delivery'', te_uuid env (d_id d))"
  by (simp_all add: node_key_def outage_node_def event_node_def result_node_def payment_node_def delivery_node_def)

text \<open>The records of an outage, in the order of their causes.\<close>

definition trace_spec :: "trace_env \<Rightarrow> trace_db \<Rightarrow> string \<Rightarrow> (string \<times> string) list" where
  "trace_spec env db oid = [(''outage'', oid)] @ map (\<lambda>e. (''outage_event'', oe_id e)) (outage_events oid db)
     @ map (\<lambda>q. (''sla_result'', str_int (sr_id q))) (outage_results oid db) @ map (\<lambda>p. (''payment'', p_id p)) (outage_payments oid db)
     @ map (\<lambda>d. (''webhook_delivery'', te_uuid env (d_id d))) (outage_deliveries oid db)"

definition numbered :: "(string \<times> string) list \<Rightarrow> nat \<times> trace_node list \<Rightarrow> bool" where
  "numbered ks acc \<longleftrightarrow> fst acc = length ks \<and> map tn_sequence (snd acc) = [1..<1 + length ks] \<and> map node_key (snd acc) = ks"

lemma numbered_Nil: "numbered [] (0, [])"
  by (simp add: numbered_def)

lemma numbered_add:
  assumes "numbered ks acc" "\<And>i x. tn_sequence (mk i x) = i" "\<And>i x. node_key (mk i x) = key x"
  shows "numbered (ks @ map key xs) (add_nodes mk xs acc)"
proof -
  let ?m = "length ks" and ?k = "length xs"
  let ?new = "map2 mk [?m + 1..<?m + 1 + ?k] xs"
  have "add_nodes mk xs acc = (?m + ?k, snd acc @ ?new)"
    using add_nodes_eq [of mk xs ?m "snd acc"] assms(1) by (cases acc) (simp add: numbered_def del: upt_Suc)
  moreover have "map tn_sequence ?new = [?m + 1..<?m + 1 + ?k]" by (rule map_map2_left) (simp_all add: assms(2) del: upt_Suc)
  moreover have "map node_key ?new = map key xs" by (rule map_map2_right) (simp_all add: assms(3) del: upt_Suc)
  moreover have "[1..<1 + (?m + ?k)] = [1..<1 + ?m] @ [?m + 1..<?m + 1 + ?k]"
    using upt_add_eq_append [of 1 "1 + ?m" ?k] by (simp add: add.assoc del: upt_Suc)
  ultimately show ?thesis using assms(1) by (simp add: numbered_def del: upt_Suc)
qed

lemma trace_nodes:
  assumes "given (resolve_outage_id db a b c)" "resolve_outage_id db a b c = Some oid" "find (\<lambda>r. o_id r = oid) (td_outages db) = Some r"
  shows "numbered (trace_spec env db oid) (tc_total (build_trace_chain env db a b c), tc_nodes (build_trace_chain env db a b c))
    \<and> tc_outage (build_trace_chain env db a b c) = Some oid"
proof -
  have oid: "o_id r = oid" using assms(3) by (auto dest: find_SomeD)
  let ?a1 = "add_nodes (outage_node env) [r] (0, [])"
  let ?a2 = "add_nodes (event_node env) (outage_events oid db) ?a1"
  let ?a3 = "add_nodes (result_node env) (outage_results oid db) ?a2"
  let ?a4 = "add_nodes (payment_node env) (outage_payments oid db) ?a3"
  let ?a5 = "add_nodes (delivery_node env) (outage_deliveries oid db) ?a4"
  have "numbered (((([] @ map (\<lambda>r. (''outage'', o_id r)) [r]) @ map (\<lambda>e. (''outage_event'', oe_id e)) (outage_events oid db))
     @ map (\<lambda>q. (''sla_result'', str_int (sr_id q))) (outage_results oid db)) @ map (\<lambda>p. (''payment'', p_id p)) (outage_payments oid db)
     @ map (\<lambda>d. (''webhook_delivery'', te_uuid env (d_id d))) (outage_deliveries oid db)) ?a5"
    unfolding append_assoc [symmetric] by (intro numbered_add numbered_Nil) simp_all
  then have "numbered (trace_spec env db oid) ?a5" by (simp add: trace_spec_def oid)
  moreover have "build_trace_chain env db a b c =
      \<lparr>tc_outage = Some oid, tc_payment = or_none b, tc_hash = or_none c, tc_nodes = snd ?a5, tc_total = length (snd ?a5)\<rparr>"
    using assms by (simp add: build_trace_chain_def Let_def)
  moreover have "length (snd ?a5) = length (trace_spec env db oid)"
    using calculation(1) by (metis length_map numbered_def)
  ultimately show ?thesis by (simp add: numbered_def)
qed

section \<open>Properties\<close>

text \<open>
  The trace of a stored outage lists the outage, its events, its SLA results, its payments and its webhook
  deliveries in this causal order, each group sorted by time and complete, numbered consecutively from one; asking by
  payment id or by transaction hash gives the same nodes as asking by the outage of that payment.
\<close>

theorem trace_complete:
  assumes "find (\<lambda>r. o_id r = oid) (td_outages db) = Some r" "oid \<noteq> []"
  shows "(let chain = build_trace_chain env db (Some oid) b c in
      map node_key (tc_nodes chain) = trace_spec env db oid \<and> map tn_sequence (tc_nodes chain) = [1..<1 + tc_total chain]
      \<and> tc_total chain = length (tc_nodes chain))
    \<and> (find (\<lambda>p. p_id p = pid) (td_payments db) = Some p \<and> pid \<noteq> [] \<and> p_outage_id p = oid \<longrightarrow>
        tc_nodes (build_trace_chain env db None (Some pid) c) = tc_nodes (build_trace_chain env db (Some oid) None None))
    \<and> (find (\<lambda>p. p_hash p = h) (td_payments db) = Some p \<and> h \<noteq> [] \<and> p_outage_id p = oid \<longrightarrow>
        tc_nodes (build_trace_chain env db None None (Some h)) = tc_nodes (build_trace_chain env db (Some oid) None None))"
proof -
  have g: "given (resolve_outage_id db (Some oid) b c)" "resolve_outage_id db (Some oid) b c = Some oid"
    using assms(2) by (simp_all add: resolve_outage_id_def given_def)
  have "numbered (trace_spec env db oid) (tc_total (build_trace_chain env db (Some oid) b c), tc_nodes (build_trace_chain env db (Some oid) b c))"
    using trace_nodes [OF g assms(1)] by blast
  then have "let chain = build_trace_chain env db (Some oid) b c in
      map node_key (tc_nodes chain) = trace_spec env db oid \<and> map tn_sequence (tc_nodes chain) = [1..<1 + tc_total chain]
      \<and> tc_total chain = length (tc_nodes chain)"
    unfolding numbered_def Let_def by (metis fst_conv snd_conv length_map)
  then show ?thesis using assms(2) by (simp add: build_trace_chain_def resolve_outage_id_def given_def Let_def split: option.split)
qed

definition sample_trace :: trace_db where
  "sample_trace = \<lparr>td_outages = [\<lparr>o_id = ''o1'', o_site_name = ''s'', o_site_id = None, o_severity = ''high'', o_status = ''open'',
       o_detected_at = 1, o_resolved_at = None, o_description = ''d'', o_affected_services = [], o_affected_subscribers = None,
       o_assigned_to = None, o_created_by = None, o_location = None, o_mttr_minutes = None, o_updated_at = 1\<rparr>],
     td_events = [\<lparr>oe_id = ''e2'', oe_outage_id = ''o1'', oe_event_type = ''updated'', oe_detail = [], oe_schema_version = ''1'', oe_occurred_at = 5\<rparr>,
       \<lparr>oe_id = ''e1'', oe_outage_id = ''o1'', oe_event_type = ''created'', oe_detail = [], oe_schema_version = ''1'', oe_occurred_at = 2\<rparr>],
     td_results = [], td_payments = [], td_deliveries = []\<rparr>"

definition sample_trace_env :: trace_env where
  "sample_trace_env = \<lparr>te_isoformat = (\<lambda>_. ''t''), te_float = (\<lambda>_. ''0.0''), te_uuid = str_nat\<rparr>"

theorem trace_complete_witness:
  "map node_key (tc_nodes (build_trace_chain sample_trace_env sample_trace (Some ''o1'') None None))
     = [(''outage'', ''o1''), (''outage_event'', ''e1''), (''outage_event'', ''e2'')]"
proof -
  obtain r where "find (\<lambda>r. o_id r = ''o1'') (td_outages sample_trace) = Some r" by (simp add: sample_trace_def)
  from trace_complete [OF this, of sample_trace_env None None] show ?thesis
    by (simp add: Let_def trace_spec_def outage_events_def outage_results_def outage_payments_def outage_deliveries_def sample_trace_def)
qed

text \<open>
  The trace handler: no filter is answered with 400 and an unknown payment with 404, both without an audit event; every
  answered request appends exactly one. An outage id that is not stored is answered with an empty chain
  and not, as documented, with 404.
\<close>

theorem trace_answers:
  "(\<not> given a \<and> \<not> given b \<and> \<not> given c \<longrightarrow> (\<exists>m. get_trace env now ctx email db a b c log0 = (Inl (HTTPException 400 m), log0)))
   \<and> (\<not> given a \<and> given b \<and> find (\<lambda>p. p_id p = the b) (td_payments db) = None \<longrightarrow>
       (\<exists>m. get_trace env now ctx email db a b c log0 = (Inl (HTTPException 404 m), log0)))
   \<and> (given a \<and> find (\<lambda>r. o_id r = the a) (td_outages db) = None \<longrightarrow>
       (\<exists>chain e. get_trace env now ctx email db a b c log0 = (Inr chain, log0 @ [e]) \<and> tc_nodes chain = [] \<and> tc_outage chain = a
          \<and> ev_type e = ''trace.accessed''))
   \<and> (fst (get_trace env now ctx email db a b c log0) = Inr chain \<longrightarrow>
       (\<exists>e. snd (get_trace env now ctx email db a b c log0) = log0 @ [e] \<and> ev_type e = ''trace.accessed''))"
proof (intro conjI impI)
  assume "\<not> given a \<and> \<not> given b \<and> \<not> given c"
  then show "\<exists>m. get_trace env now ctx email db a b c log0 = (Inl (HTTPException 400 m), log0)" by (simp add: get_trace_def)
next
  assume h: "\<not> given a \<and> given b \<and> find (\<lambda>p. p_id p = the b) (td_payments db) = None"
  then have "tc_total (build_trace_chain env db a b c) = 0 \<and> \<not> given (tc_outage (build_trace_chain env db a b c))"
    by (simp add: build_trace_chain_def resolve_outage_id_def Let_def or_none_def) (simp add: given_def)
  then show "\<exists>m. get_trace env now ctx email db a b c log0 = (Inl (HTTPException 404 m), log0)" using h by (simp add: get_trace_def)
next
  assume h: "given a \<and> find (\<lambda>r. o_id r = the a) (td_outages db) = None"
  then have "build_trace_chain env db a b c = \<lparr>tc_outage = a, tc_payment = None, tc_hash = None, tc_nodes = [], tc_total = 0\<rparr>"
    by (auto simp: build_trace_chain_def resolve_outage_id_def Let_def given_def)
  then show "\<exists>chain e. get_trace env now ctx email db a b c log0 = (Inr chain, log0 @ [e]) \<and> tc_nodes chain = [] \<and> tc_outage chain = a
      \<and> ev_type e = ''trace.accessed''"
    using h by (simp add: get_trace_def audit_log_def log_event_def)
next
  assume "fst (get_trace env now ctx email db a b c log0) = Inr chain"
  then show "\<exists>e. snd (get_trace env now ctx email db a b c log0) = log0 @ [e] \<and> ev_type e = ''trace.accessed''"
    by (auto simp: get_trace_def Let_def audit_log_def log_event_def split: if_splits)
qed

theorem trace_answers_witness:
  "\<exists>chain e. get_trace sample_trace_env 1 None ''a'' sample_trace (Some ''zz'') None None [] = (Inr chain, [e]) \<and> tc_nodes chain = []"
proof -
  have "given (Some ''zz'') \<and> find (\<lambda>r. o_id r = the (Some ''zz'')) (td_outages sample_trace) = None" by (simp add: given_def sample_trace_def)
  with trace_answers [of "Some ''zz''" None None sample_trace_env 1 None "''a''" sample_trace "[]"] show ?thesis by fastforce
qed

section \<open>Identification\<close>

lemma distinct_map_sort_filter: "distinct (map f xs) \<Longrightarrow> distinct (map f (sort_key k (filter P xs)))"
  by (auto simp: distinct_map inj_on_def)

lemma distinct_map_filter_sort: "distinct (map f xs) \<Longrightarrow> distinct (map f (filter Q (sort_key k (filter P xs))))"
  by (auto simp: distinct_map inj_on_def)

lemma distinct_map_inj: "distinct (map f xs) \<Longrightarrow> inj g \<Longrightarrow> distinct (map (\<lambda>x. (c, g (f x))) xs)"
  by (auto simp: distinct_map inj_on_def)

lemma trace_spec_distinct:
  assumes "distinct (map oe_id (td_events db))" "distinct (map sr_id (td_results db))" "distinct (map p_id (td_payments db))"
    "distinct (map d_id (td_deliveries db))" "inj (te_uuid env)"
  shows "distinct (trace_spec env db oid)"
proof -
  have inj_int: "inj str_int" by (auto intro: injI dest: str_int_inj)
  have "distinct (map (\<lambda>e. (''outage_event'', id (oe_id e))) (outage_events oid db))"
    unfolding outage_events_def by (intro distinct_map_inj distinct_map_sort_filter assms) simp
  moreover have "distinct (map (\<lambda>q. (''sla_result'', str_int (sr_id q))) (outage_results oid db))"
    unfolding outage_results_def by (intro distinct_map_inj distinct_map_sort_filter assms inj_int)
  moreover have "distinct (map (\<lambda>p. (''payment'', id (p_id p))) (outage_payments oid db))"
    unfolding outage_payments_def by (intro distinct_map_inj distinct_map_sort_filter assms) simp
  moreover have "distinct (map (\<lambda>d. (''webhook_delivery'', te_uuid env (d_id d))) (outage_deliveries oid db))"
    unfolding outage_deliveries_def by (intro distinct_map_inj distinct_map_filter_sort assms)
  ultimately show ?thesis by (auto simp: trace_spec_def)
qed

lemma payments_ok_ids: "payments_ok t \<Longrightarrow> distinct (map p_id t)"
proof -
  assume "payments_ok t"
  then have "sorted_wrt (\<lambda>a b. p_id a \<noteq> p_id b) t"
    unfolding payments_ok_def by (elim conjE sorted_wrt_mono_rel [rotated]) (simp add: unique_clash_def)
  then show ?thesis by (induction t) auto
qed

end
