(* ===== verification/Telemetry.thy ===== *)
theory Telemetry
  imports AuditTrail Caching
begin

text \<open>
  Metrics and quality checks: the registry of \<open>app/services/metrics.py\<close> with its percentiles and the reliability scorecard,
  the cardinality guard of \<open>app/metrics/cardinality_guard.py\<close>, the KPI formulas of \<open>app/services/sla_metric_registry.py\<close>, the
  event coverage check and bridge events of \<open>app/services/audit_log.py\<close> and the task of
  \<open>app/tasks/analytics_quality_tasks.py\<close>.

  Dictionaries are association lists in insertion order. Floats are real numbers. SHA-256 over the JSON text is
  an argument.
\<close>

section \<open>Registry\<close>

record metrics =
  me_counters :: "(string \<times> real) list"
  me_gauges :: "(string \<times> real) list"
  me_histograms :: "(string \<times> (real \<times> real) list) list"
  me_timers :: "(string \<times> real list) list"

definition no_metrics :: metrics where
  "no_metrics = \<lparr>me_counters = [], me_gauges = [], me_histograms = [], me_timers = []\<rparr>"

text \<open>\<open>defaultdict\<close> lookup.\<close>

definition get_or :: "'a \<Rightarrow> (string \<times> 'a) list \<Rightarrow> string \<Rightarrow> 'a" where
  "get_or d m k = (case map_of m k of None \<Rightarrow> d | Some v \<Rightarrow> v)"

text \<open>\<open>sorted(tags.items())\<close>: the keys of a dictionary are distinct, so sorting by key decides the order.\<close>

definition make_key :: "string \<Rightarrow> (string \<times> string) list \<Rightarrow> string" where
  "make_key name tags =
    (if tags = [] then name
     else name @ ''{'' @ join '','' (map (\<lambda>(k, v). k @ ''='' @ v) (sort_key (\<lambda>(k, v). map (of_char :: char \<Rightarrow> nat) k) tags)) @ ''}'')"

definition increment_counter :: "string \<Rightarrow> real \<Rightarrow> (string \<times> string) list \<Rightarrow> metrics \<Rightarrow> metrics" where
  "increment_counter name v tags m =
    (let k = make_key name tags in m\<lparr>me_counters := AList.update k (get_or 0 (me_counters m) k + v) (me_counters m)\<rparr>)"

definition set_gauge :: "string \<Rightarrow> real \<Rightarrow> (string \<times> string) list \<Rightarrow> metrics \<Rightarrow> metrics" where
  "set_gauge name v tags m = m\<lparr>me_gauges := AList.update (make_key name tags) v (me_gauges m)\<rparr>"

text \<open>The last \<open>n\<close> elements: a \<open>deque\<close> with \<open>maxlen\<close>, or the slice \<open>[-n:]\<close>.\<close>

definition last_n :: "nat \<Rightarrow> 'a list \<Rightarrow> 'a list" where
  "last_n n xs = drop (length xs - n) xs"

definition record_histogram :: "real \<Rightarrow> string \<Rightarrow> real \<Rightarrow> (string \<times> string) list \<Rightarrow> metrics \<Rightarrow> metrics" where
  "record_histogram now name v tags m =
    (let k = make_key name tags
     in m\<lparr>me_histograms := AList.update k (last_n 1000 (get_or [] (me_histograms m) k @ [(now, v)])) (me_histograms m)\<rparr>)"

definition record_timer :: "string \<Rightarrow> real \<Rightarrow> (string \<times> string) list \<Rightarrow> metrics \<Rightarrow> metrics" where
  "record_timer name ms tags m =
    (let k = make_key name tags; ts = get_or [] (me_timers m) k @ [ms]
     in m\<lparr>me_timers := AList.update k (if length ts > 1000 then last_n 1000 ts else ts) (me_timers m)\<rparr>)"

definition percentile_of :: "real list \<Rightarrow> real \<Rightarrow> real" where
  "percentile_of values p =
    (if values = [] then 0
     else if length values = 1 then hd values
     else (let sorted_values = sort values; k = (p / 100) * real (length values - 1); f = nat \<lfloor>k\<rfloor>; c = f + 1
           in if c \<ge> length values then last sorted_values
              else sorted_values ! f + (sorted_values ! c - sorted_values ! f) * (k - real f)))"

record histogram_summary =
  hg_count :: nat
  hg_min :: real
  hg_max :: real
  hg_avg :: real
  hg_latest :: real

record timer_summary =
  tm_count :: nat
  tm_min :: real
  tm_max :: real
  tm_avg :: real
  tm_p95 :: real
  tm_p99 :: real

record metrics_summary =
  su_counters :: "(string \<times> real) list"
  su_gauges :: "(string \<times> real) list"
  su_histograms :: "(string \<times> histogram_summary) list"
  su_timers :: "(string \<times> timer_summary) list"

definition mean :: "real list \<Rightarrow> real" where
  "mean xs = sum_list xs / real (length xs)"

definition summarize_timer :: "real list \<Rightarrow> timer_summary" where
  "summarize_timer ts = \<lparr>tm_count = length ts, tm_min = Min (set ts), tm_max = Max (set ts), tm_avg = mean ts,
     tm_p95 = percentile_of ts 95, tm_p99 = percentile_of ts 99\<rparr>"

definition summarize_histogram :: "(real \<times> real) list \<Rightarrow> histogram_summary" where
  "summarize_histogram ps = (let vs = map snd ps in
     \<lparr>hg_count = length vs, hg_min = Min (set vs), hg_max = Max (set vs), hg_avg = mean vs, hg_latest = fst (last ps)\<rparr>)"

definition get_metrics_summary :: "metrics \<Rightarrow> metrics_summary" where
  "get_metrics_summary m =
    \<lparr>su_counters = me_counters m, su_gauges = me_gauges m,
     su_histograms = map (map_prod id summarize_histogram) (filter (\<lambda>(k, ps). ps \<noteq> []) (me_histograms m)),
     su_timers = map (map_prod id summarize_timer) (filter (\<lambda>(k, ts). ts \<noteq> []) (me_timers m))\<rparr>"

section \<open>Scorecard\<close>

record scorecard =
  sc_slo :: real
  sc_tests :: real
  sc_vulns :: int
  sc_incidents :: int

definition ScorecardMetrics :: "scorecard \<Rightarrow> scorecard res" where
  "ScorecardMetrics m = (if 0 \<le> sc_slo m \<and> sc_slo m \<le> 1 \<and> 0 \<le> sc_tests m \<and> sc_tests m \<le> 1 \<and> 0 \<le> sc_vulns m \<and> 0 \<le> sc_incidents m
     then Inr m else Inl ValidationError)"

record reliability =
  rl_index :: real
  rl_go :: bool
  rl_slo :: real
  rl_tests :: real
  rl_security :: int
  rl_incidents :: int

definition reliability_index :: "scorecard \<Rightarrow> real" where
  "reliability_index m = sc_slo m * 100 * (40 / 100) + sc_tests m * 100 * (30 / 100)
     + real_of_int (max 0 (100 - sc_vulns m * 25)) * (20 / 100) + real_of_int (max 0 (100 - sc_incidents m * 50)) * (10 / 100)"

definition calculate_reliability_index :: "scorecard \<Rightarrow> reliability" where
  "calculate_reliability_index m =
    \<lparr>rl_index = py_round 2 (reliability_index m), rl_go = (reliability_index m \<ge> 85 \<and> sc_vulns m = 0),
     rl_slo = py_round 2 (sc_slo m * 100), rl_tests = py_round 2 (sc_tests m * 100),
     rl_security = max 0 (100 - sc_vulns m * 25), rl_incidents = max 0 (100 - sc_incidents m * 50)\<rparr>"

section \<open>Cardinality guard\<close>

type_synonym series = "(string \<times> (string \<times> nat) list) list"

definition evict_least_used :: "nat \<Rightarrow> nat \<Rightarrow> string \<Rightarrow> series \<Rightarrow> series" where
  "evict_least_used budget batch metric s =
    (case map_of s metric of
       None \<Rightarrow> s
     | Some ser \<Rightarrow>
       if length ser \<le> budget then s
       else (let victims = take (max (length ser - budget) batch) (map fst (sort_key snd ser))
             in AList.update metric (filter (\<lambda>(k, n). k \<notin> set victims) ser) s))"

definition guard_record :: "nat \<Rightarrow> nat \<Rightarrow> string \<Rightarrow> string \<Rightarrow> series \<Rightarrow> bool \<times> series" where
  "guard_record budget batch metric labels s =
    (let s1 = (if map_of s metric = None then AList.update metric [] s else s);
         known = (\<lambda>s. map_of (get_or [] s metric) labels \<noteq> None);
         full = (\<lambda>s. length (get_or [] s metric) \<ge> budget);
         s2 = (if \<not> known s1 \<and> full s1 then evict_least_used budget batch metric s1 else s1)
     in if \<not> known s1 \<and> full s2 then (False, s2)
        else (True, AList.update metric (AList.update labels (get_or 0 (get_or [] s2 metric) labels + 1) (get_or [] s2 metric)) s2))"

definition get_cardinality :: "nat \<Rightarrow> series \<Rightarrow> (string \<times> nat \<times> nat) list" where
  "get_cardinality budget s = map (\<lambda>(m, ser). (m, length ser, budget)) s"

section \<open>KPI formulas\<close>

definition violation_rate :: "real \<Rightarrow> real \<Rightarrow> real" where
  "violation_rate total_outages total_violations = (if total_outages = 0 then 0 else total_violations / total_outages)"

definition net_payout :: "real \<Rightarrow> real \<Rightarrow> real" where
  "net_payout total_rewards total_penalties = total_rewards - total_penalties"

definition avg_mttr :: "real \<Rightarrow> real \<Rightarrow> real" where
  "avg_mttr total_mttr_minutes total_resolved = (if total_resolved = 0 then 0 else total_mttr_minutes / total_resolved)"

definition availability :: "real \<Rightarrow> real \<Rightarrow> real" where
  "availability downtime_minutes period_minutes =
    (if period_minutes \<le> 0 then 100 else max 0 (min 100 ((period_minutes - downtime_minutes) / period_minutes * 100)))"

definition penalty_exposure :: "real \<Rightarrow> real \<Rightarrow> real" where
  "penalty_exposure total_penalties total_outages = (if total_outages = 0 then 0 else total_penalties / total_outages)"

definition reward_per_met :: "real \<Rightarrow> real \<Rightarrow> real" where
  "reward_per_met total_rewards met_count = (if met_count = 0 then 0 else total_rewards / met_count)"

record metric_definition =
  md_name :: string
  md_inputs :: "string list"
  md_formula :: "real \<Rightarrow> real \<Rightarrow> real"
  md_unit :: string

definition MetricDefinition :: "string \<Rightarrow> string \<Rightarrow> string \<Rightarrow> (real \<Rightarrow> real \<Rightarrow> real) \<Rightarrow> string \<Rightarrow> metric_definition" where
  "MetricDefinition name in1 in2 f unit0 = \<lparr>md_name = name, md_inputs = [in1, in2], md_formula = f, md_unit = unit0\<rparr>"

definition METRIC_REGISTRY :: "metric_definition list" where
  "METRIC_REGISTRY =
    [MetricDefinition ''violation_rate'' ''total_outages'' ''total_violations'' violation_rate ''%'',
     MetricDefinition ''net_payout'' ''total_rewards'' ''total_penalties'' net_payout ''currency'',
     MetricDefinition ''avg_mttr'' ''total_mttr_minutes'' ''total_resolved'' avg_mttr ''minutes'',
     MetricDefinition ''availability'' ''downtime_minutes'' ''period_minutes'' availability ''%'',
     MetricDefinition ''penalty_exposure'' ''total_penalties'' ''total_outages'' penalty_exposure ''currency'',
     MetricDefinition ''reward_per_met'' ''total_rewards'' ''met_count'' reward_per_met ''currency'']"

definition get_metric :: "string \<Rightarrow> metric_definition res" where
  "get_metric name = (case find (\<lambda>m. md_name m = name) METRIC_REGISTRY of
     None \<Rightarrow> Inl (KeyError (''Unknown metric '' @ quoted name)) | Some m \<Rightarrow> Inr m)"

definition list_metrics :: "string list" where
  "list_metrics = map md_name (sort_key (\<lambda>m. map (of_char :: char \<Rightarrow> nat) (md_name m)) METRIC_REGISTRY)"

definition compute_metric :: "string \<Rightarrow> (string \<times> real) list \<Rightarrow> real res" where
  "compute_metric name kwargs =
    (case get_metric name of
       Inl e \<Rightarrow> Inl e
     | Inr m \<Rightarrow>
       if list_ex (\<lambda>i. map_of kwargs i = None) (md_inputs m) then Inl TypeError
       else Inr (md_formula m (the (map_of kwargs (md_inputs m ! 0))) (the (map_of kwargs (md_inputs m ! 1)))))"

section \<open>Event coverage\<close>

record event_class =
  ec_prefix :: string
  ec_metrics :: "string list"
  ec_stage :: string

definition EXPECTED_EVENT_CLASSES :: "event_class list" where
  "EXPECTED_EVENT_CLASSES =
    [\<lparr>ec_prefix = ''wallet.'', ec_metrics = [''wallet_balance'', ''wallet_status'', ''trustline_coverage''], ec_stage = ''wallet_registry''\<rparr>,
     \<lparr>ec_prefix = ''auth.'', ec_metrics = [''login_success_rate'', ''lockout_rate'', ''auth_failure_rate''], ec_stage = ''auth_store''\<rparr>,
     \<lparr>ec_prefix = ''job_'', ec_metrics = [''job_success_rate'', ''retry_rate'', ''failure_rate''], ec_stage = ''sla_tasks / celery''\<rparr>,
     \<lparr>ec_prefix = ''sla.'', ec_metrics = [''sla_violation_rate'', ''avg_mttr'', ''payout_sum''], ec_stage = ''sla_service''\<rparr>,
     \<lparr>ec_prefix = ''webhook.'', ec_metrics = [''webhook_delivery_rate'', ''webhook_failure_rate''], ec_stage = ''webhook_service''\<rparr>,
     \<lparr>ec_prefix = ''payment.'', ec_metrics = [''payment_success_rate'', ''payment_volume''], ec_stage = ''payment_service''\<rparr>,
     \<lparr>ec_prefix = ''redaction.'', ec_metrics = [''redaction_config_changes'', ''redaction_audit_events''], ec_stage = ''webhook_service''\<rparr>,
     \<lparr>ec_prefix = ''webhook.partition.'', ec_metrics = [''partition_lag'', ''partition_throughput'', ''backpressure_events''], ec_stage = ''webhook_service''\<rparr>,
     \<lparr>ec_prefix = ''webhook.slo.'', ec_metrics = [''slo_burn_rate'', ''slo_budget_remaining'', ''slo_latency_breach''], ec_stage = ''webhook_service''\<rparr>]"

record class_coverage =
  cv_class :: event_class
  cv_present :: bool
  cv_count :: nat
  cv_severity :: string

record coverage_report =
  cr_window_hours :: int
  cr_expected :: nat
  cr_covered :: nat
  cr_missing :: nat
  cr_under :: nat
  cr_coverage :: "class_coverage list"

text \<open>The class an event is counted for: the first prefix that matches.\<close>

definition class_of :: "string \<Rightarrow> string option" where
  "class_of event_type = map_option ec_prefix (find (\<lambda>c. startswith event_type (ec_prefix c)) EXPECTED_EVENT_CLASSES)"

definition class_severity :: "nat \<Rightarrow> nat \<Rightarrow> string" where
  "class_severity threshold n = (if n = 0 then ''critical'' else if n < threshold then ''warning'' else ''ok'')"

definition check_event_coverage :: "real \<Rightarrow> int \<Rightarrow> nat \<Rightarrow> audit_entry list \<Rightarrow> coverage_report" where
  "check_event_coverage now window_hours threshold log0 =
    (let cutoff = now - real_of_int window_hours * 3600;
         rows = filter (\<lambda>e. ev_created_at e \<ge> cutoff) log0;
         counts = (\<lambda>p. length (filter (\<lambda>e. class_of (ev_type e) = Some p) rows));
         coverage = map (\<lambda>c. \<lparr>cv_class = c, cv_present = (counts (ec_prefix c) > 0), cv_count = counts (ec_prefix c),
                               cv_severity = class_severity threshold (counts (ec_prefix c))\<rparr>) EXPECTED_EVENT_CLASSES;
         having = (\<lambda>P. length (filter (\<lambda>c. P (cv_count c)) coverage))
     in \<lparr>cr_window_hours = window_hours, cr_expected = length EXPECTED_EVENT_CLASSES, cr_covered = having (\<lambda>n. n \<noteq> 0),
         cr_missing = having (\<lambda>n. n = 0), cr_under = having (\<lambda>n. n \<noteq> 0 \<and> n < threshold), cr_coverage = coverage\<rparr>)"

definition UNDERREPRESENTED_THRESHOLD :: nat where
  "UNDERREPRESENTED_THRESHOLD = 5"

definition run_analytics_quality_checks :: "real \<Rightarrow> int \<Rightarrow> audit_entry list \<Rightarrow> metrics \<Rightarrow> coverage_report \<times> metrics" where
  "run_analytics_quality_checks now window_hours log0 m =
    (let report = check_event_coverage now window_hours UNDERREPRESENTED_THRESHOLD log0
     in (report, set_gauge ''analytics_quality.covered_classes'' (real (cr_covered report)) []
                  (set_gauge ''analytics_quality.underrepresented_classes'' (real (cr_under report)) []
                    (set_gauge ''analytics_quality.missing_event_classes'' (real (cr_missing report)) [] m))))"

text \<open>Bridge events carry digests of request and response, never the data. \<open>digest\<close> is \<open>None\<close> when the data does not serialise.\<close>

definition redacted_digest :: "(json \<Rightarrow> string option) \<Rightarrow> json option \<Rightarrow> string option" where
  "redacted_digest digest data = (case data of
     None \<Rightarrow> None
   | Some d \<Rightarrow> if d \<in> {JNull, JBool False, JInt 0, JNum 0, JStr [], JArr [], JObj []} then None else digest d)"

definition log_bridge_event ::
  "(json \<Rightarrow> string option) \<Rightarrow> real \<Rightarrow> string option \<Rightarrow> string \<Rightarrow> string \<Rightarrow> string \<Rightarrow> real \<Rightarrow> json option \<Rightarrow> json option \<Rightarrow>
   string option \<Rightarrow> (string \<times> json) list \<Rightarrow> audit_entry list \<Rightarrow> audit_entry list" where
  "log_bridge_event digest now ctx event_type mode outcome latency request response actor extra log0 =
    (let str = (\<lambda>x. case x of None \<Rightarrow> JNull | Some s \<Rightarrow> JStr s);
         base = [(''mode'', JStr mode), (''outcome_class'', JStr outcome), (''latency_ms'', JNum (py_round 3 latency)),
                 (''request_digest'', str (redacted_digest digest request)), (''response_digest'', str (redacted_digest digest response))];
         details = (if extra = [] then base else AList.updates (map fst (sanitize (Some extra))) (map snd (sanitize (Some extra))) base)
     in log_event now ctx event_type None actor (Some details) None log0)"

section \<open>Laws of the registry\<close>

lemma last_n_snoc: "last_n n (last_n n xs @ [x]) = last_n n (xs @ [x])"
  by (cases "length xs \<le> n") (auto simp: last_n_def Suc_diff_le)

lemma last_n_short: "length xs \<le> n \<Longrightarrow> last_n n xs = xs"
  by (simp add: last_n_def)

fun record_timers :: "(string \<times> (string \<times> string) list \<times> real) list \<Rightarrow> metrics \<Rightarrow> metrics" where
  "record_timers [] m = m"
| "record_timers ((n, tags, v) # rs) m = record_timers rs (record_timer n v tags m)"

lemma record_timer_get:
  "get_or [] (me_timers (record_timer n v tags m)) k =
    (if k = make_key n tags then last_n 1000 (get_or [] (me_timers m) k @ [v]) else get_or [] (me_timers m) k)"
  by (simp add: record_timer_def Let_def get_or_def update_conv' last_n_short)

lemma record_timers_window:
  assumes "get_or [] (me_timers m) k = last_n 1000 xs"
  shows "get_or [] (me_timers (record_timers rs m)) k =
    last_n 1000 (xs @ map (\<lambda>(n, tags, v). v) (filter (\<lambda>(n, tags, v). make_key n tags = k) rs))"
  using assms
proof (induction rs arbitrary: m xs)
  case (Cons r rs)
  obtain n tags v where r: "r = (n, tags, v)" by (metis prod.exhaust)
  show ?case
  proof (cases "make_key n tags = k")
    case True
    then have "get_or [] (me_timers (record_timer n v tags m)) k = last_n 1000 (xs @ [v])"
      using Cons.prems by (simp add: record_timer_get last_n_snoc)
    from Cons.IH [OF this] show ?thesis using True r by simp
  next
    case False
    then have "get_or [] (me_timers (record_timer n v tags m)) k = last_n 1000 xs"
      using Cons.prems by (auto simp: record_timer_get)
    from Cons.IH [OF this] show ?thesis using False r by simp
  qed
qed simp

lemma interpolate_between:
  fixes a b t :: real
  assumes "a \<le> b" "0 \<le> t" "t \<le> 1"
  shows "a \<le> a + (b - a) * t \<and> a + (b - a) * t \<le> b"
proof -
  have "(b - a) * t \<le> (b - a) * 1" using assms by (intro mult_left_mono) auto
  then show ?thesis using assms by simp
qed

lemma sort_nth_bounds:
  fixes ts :: "real list"
  assumes "i < length ts"
  shows "Min (set ts) \<le> sort ts ! i \<and> sort ts ! i \<le> Max (set ts)"
proof -
  have "sort ts ! i \<in> set ts" using assms by (metis length_sort nth_mem set_sort)
  then show ?thesis by simp
qed

lemma sort_ends:
  fixes ts :: "real list"
  assumes "ts \<noteq> []"
  shows "sort ts ! 0 = Min (set ts)" "last (sort ts) = Max (set ts)"
proof -
  have n: "0 < length ts" using assms by simp
  have first: "sort ts ! 0 \<le> x" if "x \<in> set ts" for x
  proof -
    obtain i where "i < length (sort ts)" "x = sort ts ! i" using \<open>x \<in> set ts\<close> by (metis in_set_conv_nth set_sort)
    then show ?thesis by (simp add: sorted_nth_mono)
  qed
  have final: "x \<le> sort ts ! (length ts - 1)" if "x \<in> set ts" for x
  proof -
    obtain i where "i < length (sort ts)" "x = sort ts ! i" using \<open>x \<in> set ts\<close> by (metis in_set_conv_nth set_sort)
    then show ?thesis by (simp add: sorted_nth_mono)
  qed
  show "sort ts ! 0 = Min (set ts)" using sort_nth_bounds [OF n] first Min_in [of "set ts"] assms by (intro antisym) auto
  have "last (sort ts) = sort ts ! (length ts - 1)" using assms by (metis last_conv_nth length_0_conv length_sort)
  then show "last (sort ts) = Max (set ts)"
    using sort_nth_bounds [of "length ts - 1" ts] final Max_in [of "set ts"] assms by (intro antisym) auto
qed

lemma percentile_between:
  assumes "0 \<le> p" "p \<le> 100" "ts \<noteq> []"
  shows "Min (set ts) \<le> percentile_of ts p \<and> percentile_of ts p \<le> Max (set ts)"
proof (cases "length ts = 1")
  case True
  then obtain x where "ts = [x]" by (auto simp: length_Suc_conv)
  then show ?thesis by (simp add: percentile_of_def)
next
  case False
  define k where "k = (p / 100) * real (length ts - 1)"
  define f where "f = nat \<lfloor>k\<rfloor>"
  have pv: "percentile_of ts p = (if f + 1 \<ge> length ts then last (sort ts)
      else sort ts ! f + (sort ts ! (f + 1) - sort ts ! f) * (k - real f))"
    using assms(3) False unfolding percentile_of_def Let_def k_def f_def by simp
  show ?thesis
  proof (cases "f + 1 \<ge> length ts")
    case True
    then show ?thesis using assms(3) sort_ends(2) [OF assms(3)] by (simp add: pv)
  next
    case small: False
    have "0 \<le> k" using assms by (simp add: k_def)
    then have t: "0 \<le> k - real f" "k - real f \<le> 1" unfolding f_def by linarith+
    have "sort ts ! f \<le> sort ts ! (f + 1)" using small by (intro sorted_nth_mono) simp_all
    from interpolate_between [OF this t]
    have "sort ts ! f \<le> percentile_of ts p" "percentile_of ts p \<le> sort ts ! (f + 1)" using small by (simp_all add: pv)
    moreover have "Min (set ts) \<le> sort ts ! f" "sort ts ! (f + 1) \<le> Max (set ts)"
      using sort_nth_bounds [of f ts] sort_nth_bounds [of "f + 1" ts] small by simp_all
    ultimately show ?thesis by linarith
  qed
qed

lemma percentile_ends:
  assumes "ts \<noteq> []"
  shows "percentile_of ts 0 = Min (set ts)" "percentile_of ts 100 = Max (set ts)"
proof -
  have "percentile_of ts 0 = Min (set ts) \<and> percentile_of ts 100 = Max (set ts)" if "length ts = 1"
    using that by (auto simp: length_Suc_conv percentile_of_def)
  moreover have "percentile_of ts 0 = Min (set ts) \<and> percentile_of ts 100 = Max (set ts)" if "length ts \<noteq> 1"
  proof -
    have "\<not> 1 \<ge> length ts" "Suc (nat (int (length ts) - 1)) = length ts" using that assms by (cases ts; simp)+
    then show ?thesis using assms sort_ends [OF assms] by (simp add: percentile_of_def Let_def)
  qed
  ultimately show "percentile_of ts 0 = Min (set ts)" "percentile_of ts 100 = Max (set ts)" by blast+
qed

text \<open>
  A timer keeps exactly the last thousand measurements of its key, whatever else is recorded in between, and its
  percentiles lie between the smallest and the largest of them, the hundredth being the largest and the zeroth the smallest.
\<close>

theorem timer_window_percentiles:
  assumes "0 \<le> p" "p \<le> 100" "ts = get_or [] (me_timers (record_timers rs no_metrics)) k" "ts \<noteq> []"
  shows "ts = last_n 1000 (map (\<lambda>(n, tags, v). v) (filter (\<lambda>(n, tags, v). make_key n tags = k) rs))
    \<and> Min (set ts) \<le> percentile_of ts p \<and> percentile_of ts p \<le> Max (set ts)
    \<and> percentile_of ts 0 = Min (set ts) \<and> percentile_of ts 100 = Max (set ts)"
proof -
  have "get_or [] (me_timers no_metrics) k = last_n 1000 []" by (simp add: no_metrics_def get_or_def last_n_def)
  from record_timers_window [OF this, of rs] show ?thesis
    using assms(3) percentile_between [OF assms(1,2,4)] percentile_ends [OF assms(4)] by simp
qed

theorem timer_window_percentiles_witness:
  "percentile_of (get_or [] (me_timers (record_timers [(''a'', [], 4), (''b'', [], 9), (''a'', [], 2)] no_metrics)) ''a'') 100 = 4"
proof -
  let ?rs = "[(''a'', [], 4), (''b'', [], 9), (''a'', [], 2)] :: (string \<times> (string \<times> string) list \<times> real) list"
  have t: "get_or [] (me_timers (record_timers ?rs no_metrics)) ''a'' = [4, 2]"
    by (simp add: record_timer_get make_key_def last_n_def) (simp add: no_metrics_def get_or_def)
  have "percentile_of [4, 2] 100 = Max (set [4, 2])"
    by (rule timer_window_percentiles [where p = 100 and k = "''a''", OF _ _ t [symmetric], THEN conjunct2, THEN conjunct2,
        THEN conjunct2, THEN conjunct2]) simp_all
  then show ?thesis unfolding t by simp
qed

section \<open>Laws of the cardinality guard\<close>

text \<open>The first occurrences of a list, in order.\<close>

definition nub :: "'a list \<Rightarrow> 'a list" where
  "nub xs = rev (remdups (rev xs))"

lemma nub_simps [simp]:
  "nub [] = []" "set (nub xs) = set xs" "distinct (nub xs)" "nub (xs @ [x]) = (if x \<in> set xs then nub xs else nub xs @ [x])"
  by (simp_all add: nub_def)

text \<open>What the guard holds for a metric after the labels \<open>ls\<close> were recorded.\<close>

definition kept :: "nat \<Rightarrow> string list \<Rightarrow> (string \<times> nat) list" where
  "kept budget ls = map (\<lambda>k. (k, count_list ls k)) (take budget (nub ls))"

fun guard_records :: "nat \<Rightarrow> nat \<Rightarrow> (string \<times> string) list \<Rightarrow> series \<Rightarrow> bool list \<times> series" where
  "guard_records budget batch [] s = ([], s)"
| "guard_records budget batch ((m, l) # rs) s =
    (let (b, s1) = guard_record budget batch m l s; (bs, s2) = guard_records budget batch rs s1 in (b # bs, s2))"

definition labels_of :: "string \<Rightarrow> (string \<times> string) list \<Rightarrow> string list" where
  "labels_of m rs = map snd (filter (\<lambda>r. fst r = m) rs)"

lemma map_of_pairs: "map_of (map (\<lambda>k. (k, f k)) ks) l = (if l \<in> set ks then Some (f l) else None)"
  by (induction ks) auto

lemma update_pairs:
  "distinct ks \<Longrightarrow> AList.update l v (map (\<lambda>k. (k, f k)) ks) =
    (if l \<in> set ks then map (\<lambda>k. (k, if k = l then v else f k)) ks else map (\<lambda>k. (k, f k)) ks @ [(l, v)])"
  by (induction ks) auto

lemma evict_idle: "length (get_or [] s m) \<le> budget \<Longrightarrow> evict_least_used budget batch m s = s"
  by (auto simp: evict_least_used_def get_or_def split: option.splits)

lemma guard_record_series:
  assumes "length (get_or [] s m) \<le> budget"
  shows "fst (guard_record budget batch m l s) \<longleftrightarrow> map_of (get_or [] s m) l \<noteq> None \<or> length (get_or [] s m) < budget"
    and "get_or [] (snd (guard_record budget batch m l s)) m' =
      (if m' = m \<and> fst (guard_record budget batch m l s)
       then AList.update l (get_or 0 (get_or [] s m) l + 1) (get_or [] s m) else get_or [] s m')"
proof -
  define s1 where "s1 = (if map_of s m = None then AList.update m [] s else s)"
  have g: "get_or [] s1 k = get_or [] s k" for k by (simp add: s1_def get_or_def update_conv')
  have idle: "evict_least_used budget batch m s1 = s1" using evict_idle assms by (simp add: g)
  have r: "guard_record budget batch m l s =
    (if map_of (get_or [] s m) l = None \<and> budget \<le> length (get_or [] s m) then (False, s1)
     else (True, AList.update m (AList.update l (get_or 0 (get_or [] s m) l + 1) (get_or [] s m)) s1))"
    unfolding guard_record_def Let_def s1_def [symmetric] by (simp add: idle g)
  show "fst (guard_record budget batch m l s) \<longleftrightarrow> map_of (get_or [] s m) l \<noteq> None \<or> length (get_or [] s m) < budget"
    by (auto simp: r)
  show "get_or [] (snd (guard_record budget batch m l s)) m' =
      (if m' = m \<and> fst (guard_record budget batch m l s)
       then AList.update l (get_or 0 (get_or [] s m) l + 1) (get_or [] s m) else get_or [] s m')"
    using g [of m'] by (auto simp: r get_or_def [of "[]" "AList.update _ _ _"] update_conv') (auto simp: get_or_def)
qed

lemma kept_step:
  "length (kept budget ls) \<le> budget"
  "map_of (kept budget ls) l \<noteq> None \<or> length (kept budget ls) < budget \<longleftrightarrow> l \<in> set (take budget (nub (ls @ [l])))"
  "kept budget (ls @ [l]) = (if l \<in> set (take budget (nub (ls @ [l])))
     then AList.update l (get_or 0 (kept budget ls) l + 1) (kept budget ls) else kept budget ls)"
proof -
  show "length (kept budget ls) \<le> budget" by (simp add: kept_def)
  show "map_of (kept budget ls) l \<noteq> None \<or> length (kept budget ls) < budget \<longleftrightarrow> l \<in> set (take budget (nub (ls @ [l])))"
    by (auto simp: kept_def map_of_pairs min_def take_Cons' dest: in_set_takeD split: if_splits)
  have "length (nub ls) \<le> budget \<or> budget - length (nub ls) = 0" by auto
  then show "kept budget (ls @ [l]) = (if l \<in> set (take budget (nub (ls @ [l])))
     then AList.update l (get_or 0 (kept budget ls) l + 1) (kept budget ls) else kept budget ls)"
    by (auto simp: kept_def update_pairs get_or_def map_of_pairs count_list_append take_Cons' dest: in_set_takeD split: if_splits
        intro!: arg_cong2 [where f = "(@)"] map_cong)
qed

lemma labels_of_snoc: "labels_of m (rs @ [r]) = labels_of m rs @ (if fst r = m then [snd r] else [])"
  by (simp add: labels_of_def)

lemma guard_record_kept:
  assumes "\<And>m. get_or [] s m = kept budget (labels_of m rs)" "guard_record budget batch (fst r) (snd r) s = (b, s1)"
  shows "b \<longleftrightarrow> snd r \<in> set (take budget (nub (labels_of (fst r) (rs @ [r]))))"
    and "get_or [] s1 m = kept budget (labels_of m (rs @ [r]))"
proof -
  note short = kept_step(1) [of budget "labels_of (fst r) rs", folded assms(1)]
  show b: "b \<longleftrightarrow> snd r \<in> set (take budget (nub (labels_of (fst r) (rs @ [r]))))"
    using guard_record_series(1) [OF short, of batch "snd r"] kept_step(2) [of budget "labels_of (fst r) rs" "snd r"]
    by (simp add: assms labels_of_snoc)
  show "get_or [] s1 m = kept budget (labels_of m (rs @ [r]))"
    using guard_record_series(2) [OF short, of batch "snd r" m] kept_step(3) [of budget "labels_of (fst r) rs" "snd r"] b
    by (auto simp: assms labels_of_snoc)
qed

lemma guard_records_kept:
  assumes "\<And>m. get_or [] s m = kept budget (labels_of m rs0)" "guard_records budget batch rs s = (bs, s')"
  shows "get_or [] s' m = kept budget (labels_of m (rs0 @ rs)) \<and> length bs = length rs
    \<and> (\<forall>i < length rs. bs ! i \<longleftrightarrow> snd (rs ! i) \<in> set (take budget (nub (labels_of (fst (rs ! i)) (rs0 @ take (Suc i) rs)))))"
  using assms
proof (induction rs arbitrary: rs0 s bs)
  case (Cons r rs)
  obtain b s1 bs1 where st: "guard_record budget batch (fst r) (snd r) s = (b, s1)" "guard_records budget batch rs s1 = (bs1, s')"
      "bs = b # bs1"
    using Cons.prems(2) by (cases r) (auto split: prod.splits)
  have "get_or [] s1 m = kept budget (labels_of m (rs0 @ [r]))" for m using guard_record_kept(2) [OF Cons.prems(1) st(1)] .
  from Cons.IH [OF this st(2)] guard_record_kept(1) [OF Cons.prems(1) st(1)] show ?case
    by (auto simp: st(3) nth_Cons less_Suc_eq_0_disj)
qed simp

text \<open>
  Admission to the metrics is first come, first served for ever: after any sequence of records the guard holds, for
  every metric, exactly the first \<open>budget\<close> label combinations that were ever recorded for it, each with the number of
  times it was recorded; a record is refused exactly when its labels are not among those. Eviction of the least used
  series never takes place, however often a later series is recorded.
\<close>

theorem guard_admits_first_series:
  assumes "guard_records budget batch rs [] = (bs, s)"
  shows "get_or [] s m = map (\<lambda>k. (k, count_list (labels_of m rs) k)) (take budget (nub (labels_of m rs)))
    \<and> length (get_or [] s m) \<le> budget
    \<and> (\<forall>i < length rs. bs ! i \<longleftrightarrow> snd (rs ! i) \<in> set (take budget (nub (labels_of (fst (rs ! i)) (take (Suc i) rs)))))"
proof -
  have "get_or [] [] k = kept budget (labels_of k [])" for k by (simp add: get_or_def kept_def labels_of_def)
  from guard_records_kept [OF this assms, of m] show ?thesis using kept_step(1) [of budget "labels_of m rs"] by (simp add: kept_def)
qed

theorem guard_admits_first_series_witness:
  "fst (guard_records 1 10 [(''m'', ''a''), (''m'', ''b''), (''m'', ''b''), (''m'', ''a'')] []) = [True, False, False, True]"
proof -
  let ?rs = "[(''m'', ''a''), (''m'', ''b''), (''m'', ''b''), (''m'', ''a'')]"
  obtain bs s where r: "guard_records 1 10 ?rs [] = (bs, s)" by (metis surj_pair)
  have len: "length bs = 4" using guard_records_kept [of "[]" 1 "[]" 10 ?rs bs s "''m''"] r
    by (simp add: get_or_def kept_def labels_of_def)
  have b: "bs ! i \<longleftrightarrow> snd (?rs ! i) \<in> set (take 1 (nub (labels_of (fst (?rs ! i)) (take (Suc i) ?rs))))" if "i < 4" for i
    using guard_admits_first_series [OF r, of "''m''"] that by simp
  have "bs ! 0" "\<not> bs ! 1" "\<not> bs ! 2" "bs ! 3" using b [of 0] b [of 1] b [of 2] b [of 3]
    by (simp_all add: labels_of_def nub_def numeral_nat)
  then have "bs = [True, False, False, True]" using len by (auto simp: numeral_nat length_Suc_conv)
  then show ?thesis using r by simp
qed

section \<open>Laws of event coverage\<close>

lemma length_filter_mono:
  "(\<And>x. x \<in> set xs \<Longrightarrow> P x \<Longrightarrow> Q x) \<Longrightarrow> length (filter P xs) \<le> length (filter Q xs)"
  by (induction xs) auto

lemma class_of_cases:
  "class_of t = Some p \<longleftrightarrow> startswith t p \<and> p \<in> {''wallet.'', ''auth.'', ''job_'', ''sla.'', ''webhook.'', ''payment.'', ''redaction.''}"
  by (auto simp: class_of_def EXPECTED_EVENT_CLASSES_def startswith_def prefix_def)

definition nested_class :: "event_class \<Rightarrow> bool" where
  "nested_class c \<longleftrightarrow> ec_prefix c \<in> {''webhook.partition.'', ''webhook.slo.''}"

lemma class_counts:
  assumes "c \<in> set EXPECTED_EVENT_CLASSES"
  shows "class_of t = Some (ec_prefix c) \<longleftrightarrow> \<not> nested_class c \<and> startswith t (ec_prefix c)"
  using assms unfolding class_of_cases nested_class_def EXPECTED_EVENT_CLASSES_def by auto

text \<open>
  The coverage report counts, for a class, the recent events whose type starts with its prefix, and every such event
  once; every class is either covered or missing. The two classes nested in \<open>webhook.\<close> are the exception: their
  events are counted for \<open>webhook.\<close>, and they are reported as missing and critical whatever was emitted.
\<close>

theorem coverage_report_counts:
  assumes "report = check_event_coverage now hours threshold log0"
  shows "cr_covered report + cr_missing report = 9 \<and> cr_under report \<le> cr_covered report \<and> 2 \<le> cr_missing report
    \<and> (\<forall>c \<in> set (cr_coverage report).
        cv_count c = (if nested_class (cv_class c) then 0
          else length (filter (\<lambda>e. now - real_of_int hours * 3600 \<le> ev_created_at e \<and> startswith (ev_type e) (ec_prefix (cv_class c))) log0))
        \<and> (cv_present c \<longleftrightarrow> cv_count c \<noteq> 0) \<and> cv_severity c = class_severity threshold (cv_count c))"
proof -
  let ?rows = "filter (\<lambda>e. ev_created_at e \<ge> now - real_of_int hours * 3600) log0"
  let ?n = "\<lambda>c. length (filter (\<lambda>e. class_of (ev_type e) = Some (ec_prefix c)) ?rows)"
  have zero: "?n c = 0" if "c \<in> set EXPECTED_EVENT_CLASSES" "nested_class c" for c using class_counts [OF that(1)] that(2) by simp
  have split: "length (filter P xs) + length (filter (\<lambda>x. \<not> P x) xs) = length xs" for P and xs :: "event_class list"
    by (rule sum_length_filter_compl)
  have cov: "cr_coverage report = map (\<lambda>c. \<lparr>cv_class = c, cv_present = (?n c > 0), cv_count = ?n c,
      cv_severity = class_severity threshold (?n c)\<rparr>) EXPECTED_EVENT_CLASSES" by (simp add: assms check_event_coverage_def Let_def)
  have hv: "cr_covered report = length (filter (\<lambda>c. ?n c \<noteq> 0) EXPECTED_EVENT_CLASSES)"
      "cr_missing report = length (filter (\<lambda>c. ?n c = 0) EXPECTED_EVENT_CLASSES)"
      "cr_under report = length (filter (\<lambda>c. ?n c \<noteq> 0 \<and> ?n c < threshold) EXPECTED_EVENT_CLASSES)"
    by (simp_all add: assms check_event_coverage_def Let_def filter_map o_def)
  have nine: "cr_covered report + cr_missing report = 9"
    using split [of "\<lambda>c. ?n c \<noteq> 0" EXPECTED_EVENT_CLASSES] unfolding hv by (simp add: EXPECTED_EVENT_CLASSES_def)
  have under: "cr_under report \<le> cr_covered report" unfolding hv by (rule length_filter_mono) simp
  have "length (filter nested_class EXPECTED_EVENT_CLASSES) \<le> cr_missing report" unfolding hv
    using zero by (rule length_filter_mono)
  moreover have "length (filter nested_class EXPECTED_EVENT_CLASSES) = 2" by (simp add: EXPECTED_EVENT_CLASSES_def nested_class_def)
  ultimately have two: "2 \<le> cr_missing report" by simp
  have counts: "?n c = (if nested_class c then 0
      else length (filter (\<lambda>e. now - real_of_int hours * 3600 \<le> ev_created_at e \<and> startswith (ev_type e) (ec_prefix c)) log0))"
    if "c \<in> set EXPECTED_EVENT_CLASSES" for c using class_counts [OF that] by (auto intro: arg_cong [where f = length] filter_cong)
  have "\<forall>c \<in> set (cr_coverage report).
        cv_count c = (if nested_class (cv_class c) then 0
          else length (filter (\<lambda>e. now - real_of_int hours * 3600 \<le> ev_created_at e \<and> startswith (ev_type e) (ec_prefix (cv_class c))) log0))
        \<and> (cv_present c \<longleftrightarrow> cv_count c \<noteq> 0) \<and> cv_severity c = class_severity threshold (cv_count c)"
    unfolding cov set_map by (intro ballI, elim imageE) (simp only: class_coverage.simps counts simp_thms neq0_conv)
  then show ?thesis using nine under two by blast
qed

definition slo_event :: audit_entry where
  "slo_event = \<lparr>ev_type = ''webhook.slo.breach'', ev_email = None, ev_actor = None, ev_correlation = None, ev_details = [],
     ev_created_at = 1000\<rparr>"

theorem coverage_report_counts_witness:
  "\<lparr>cv_class = \<lparr>ec_prefix = ''webhook.slo.'', ec_metrics = [''slo_burn_rate'', ''slo_budget_remaining'', ''slo_latency_breach''],
      ec_stage = ''webhook_service''\<rparr>, cv_present = False, cv_count = 0, cv_severity = ''critical''\<rparr>
    \<in> set (cr_coverage (check_event_coverage 1001 24 5 [slo_event]))"
proof -
  let ?r = "check_event_coverage 1001 24 5 [slo_event]"
  have "map (ec_prefix \<circ> cv_class) (cr_coverage ?r) = map ec_prefix EXPECTED_EVENT_CLASSES"
    by (simp add: check_event_coverage_def Let_def)
  then have "length (cr_coverage ?r) = 9" "cv_class (cr_coverage ?r ! 8) = EXPECTED_EVENT_CLASSES ! 8"
    by (simp_all add: check_event_coverage_def Let_def EXPECTED_EVENT_CLASSES_def)
  moreover from this have m: "cr_coverage ?r ! 8 \<in> set (cr_coverage ?r)" by simp
  ultimately have "cv_count (cr_coverage ?r ! 8) = 0" "\<not> cv_present (cr_coverage ?r ! 8)" "cv_severity (cr_coverage ?r ! 8) = ''critical''"
    using coverage_report_counts [OF refl, of 1001 24 5 "[slo_event]"]
    by (auto simp: nested_class_def EXPECTED_EVENT_CLASSES_def class_severity_def)
  then show ?thesis using m \<open>cv_class (cr_coverage ?r ! 8) = EXPECTED_EVENT_CLASSES ! 8\<close>
    by (cases "cr_coverage ?r ! 8") (auto simp: EXPECTED_EVENT_CLASSES_def)
qed

end
