(* ===== verification/Operations.thy ===== *)
theory Operations
  imports Telemetry
begin

text \<open>
  Operation of the workers: the queue analysis of \<open>app/tasks/queue_analyzer.py\<close>, the autoscaler of
  \<open>app/tasks/webhook_autoscaler.py\<close>, the latency tracker of \<open>app/services/queue_latency.py\<close>, the connection pool check of
  \<open>app/db/session.py\<close>, the guardrails of \<open>app/services/concurrency_guardrails.py\<close>, the queue bindings of
  \<open>app/tasks/celery_app.py\<close> and the health endpoints of \<open>app/main.py\<close>.

  The broker, Redis and the connection pool are arguments: what a read of them returns, \<open>None\<close> when it raises.
\<close>

section \<open>Queue analysis\<close>

record partition_depth =
  pd_partition :: string
  pd_depth :: int

record hotspot =
  hs_partition :: string
  hs_depth :: int
  hs_avg :: real
  hs_ratio :: real

record rebalance_suggestion =
  sg_source :: string
  sg_target :: string
  sg_move_count :: int
  sg_reason :: string

record analysis_result =
  ar_partitions :: "partition_depth list"
  ar_total :: int
  ar_avg :: real
  ar_hotspots :: "hotspot list"
  ar_suggestions :: "rebalance_suggestion list"

text \<open>Rendering of floats: \<open>str(x)\<close> and \<open>f"{x:.0f}"\<close>.\<close>

record float_format =
  ff_str :: "real \<Rightarrow> string"
  ff_fixed0 :: "real \<Rightarrow> string"

definition PARTITIONS :: "string list" where
  "PARTITIONS = [''default'', ''sla'', ''webhooks'', ''analytics'']"

definition get_queue_depth :: "(string \<Rightarrow> int option) \<Rightarrow> string \<Rightarrow> int" where
  "get_queue_depth broker queue_name = (case broker queue_name of None \<Rightarrow> 0 | Some n \<Rightarrow> n)"

definition average_depth :: "partition_depth list \<Rightarrow> real" where
  "average_depth depths = (if depths = [] then 0 else real_of_int (sum_list (map pd_depth depths)) / real (length depths))"

definition get_hotspots :: "real \<Rightarrow> partition_depth list \<Rightarrow> real option \<Rightarrow> hotspot list" where
  "get_hotspots threshold depths avg0 =
    (let avg = (case avg0 of None \<Rightarrow> average_depth depths | Some a \<Rightarrow> a);
         ratio = (\<lambda>d. if avg > 0 then real_of_int (pd_depth d) / avg else 0)
     in map (\<lambda>d. \<lparr>hs_partition = pd_partition d, hs_depth = pd_depth d, hs_avg = avg, hs_ratio = py_round 2 (ratio d)\<rparr>)
          (filter (\<lambda>d. ratio d > threshold) depths))"

text \<open>\<open>{d.partition: d.depth for d in depths}\<close> and \<open>min(depth_map, key=depth_map.get)\<close>, the first key with the least value.\<close>

definition depth_map :: "partition_depth list \<Rightarrow> (string \<times> int) list" where
  "depth_map depths = fold (\<lambda>d m. AList.update (pd_partition d) (pd_depth d) m) depths []"

fun least_key :: "(string \<times> int) list \<Rightarrow> string res" where
  "least_key [] = Inl (ValueError ''min() iterable argument is empty'')"
| "least_key [kv] = Inr (fst kv)"
| "least_key (kv # kw # m) = (if snd kw < snd kv then least_key (kw # m) else least_key (kv # m))"

text \<open>\<open>int(x)\<close> truncates towards zero.\<close>

definition py_int :: "real \<Rightarrow> int" where
  "py_int x = (if x \<ge> 0 then \<lfloor>x\<rfloor> else \<lceil>x\<rceil>)"

definition suggestion_for :: "float_format \<Rightarrow> real \<Rightarrow> string \<Rightarrow> hotspot \<Rightarrow> rebalance_suggestion" where
  "suggestion_for ff avg target hs =
    (let move_count = max 0 ((hs_depth hs - py_int avg) div 2)
     in \<lparr>sg_source = hs_partition hs, sg_target = target, sg_move_count = move_count,
         sg_reason = ''Partition '' @ quoted (hs_partition hs) @ '' depth ('' @ str_int (hs_depth hs) @ '') is '' @ ff_str ff (hs_ratio hs)
           @ [CHR 0xD7] @ '' the average ('' @ ff_fixed0 ff avg @ ''). Consider moving ~'' @ str_int move_count @ '' tasks to '' @ quoted target @ ''.''\<rparr>)"

fun suggest_rebalance :: "float_format \<Rightarrow> partition_depth list \<Rightarrow> hotspot list \<Rightarrow> rebalance_suggestion list res" where
  "suggest_rebalance ff depths [] = Inr []"
| "suggest_rebalance ff depths (hs # rest) =
    (case least_key (depth_map depths) of
       Inl e \<Rightarrow> Inl e
     | Inr target \<Rightarrow>
       (case suggest_rebalance ff depths rest of
          Inl e \<Rightarrow> Inl e
        | Inr ss \<Rightarrow> Inr (suggestion_for ff (average_depth depths) target hs # ss)))"

definition analyze :: "float_format \<Rightarrow> string list \<Rightarrow> real \<Rightarrow> (string \<Rightarrow> int option) \<Rightarrow> analysis_result res" where
  "analyze ff partitions threshold broker =
    (let depths = map (\<lambda>p. \<lparr>pd_partition = p, pd_depth = get_queue_depth broker p\<rparr>) (if partitions = [] then PARTITIONS else partitions);
         hotspots = get_hotspots threshold depths (Some (average_depth depths))
     in case suggest_rebalance ff depths hotspots of
          Inl e \<Rightarrow> Inl e
        | Inr ss \<Rightarrow> Inr \<lparr>ar_partitions = depths, ar_total = sum_list (map pd_depth depths), ar_avg = average_depth depths,
                         ar_hotspots = hotspots, ar_suggestions = ss\<rparr>)"

text \<open>The task logs a warning when there are hot spots and one line per suggestion.\<close>

definition analyze_queue_hotspots :: "float_format \<Rightarrow> (string \<Rightarrow> int option) \<Rightarrow> (bool \<times> string list) res" where
  "analyze_queue_hotspots ff broker =
    (case analyze ff [] 2 broker of
       Inl e \<Rightarrow> Inl e
     | Inr r \<Rightarrow> Inr (ar_hotspots r \<noteq> [], map sg_reason (ar_suggestions r)))"

text \<open>The document of the endpoint; \<open>timestamp\<close> is the rendered time of the analysis.\<close>

definition result_to_dict :: "string \<Rightarrow> analysis_result \<Rightarrow> (string \<times> json) list" where
  "result_to_dict timestamp r =
    [(''timestamp'', JStr timestamp), (''total_depth'', JInt (ar_total r)), (''avg_depth'', JNum (py_round 2 (ar_avg r))),
     (''partitions'', JArr (map (\<lambda>d. JObj [(''partition'', JStr (pd_partition d)), (''depth'', JInt (pd_depth d))]) (ar_partitions r))),
     (''hotspots'', JArr (map (\<lambda>h. JObj [(''partition'', JStr (hs_partition h)), (''depth'', JInt (hs_depth h)),
        (''avg_depth'', JNum (py_round 2 (hs_avg h))), (''ratio'', JNum (hs_ratio h))]) (ar_hotspots r))),
     (''suggestions'', JArr (map (\<lambda>s. JObj [(''source'', JStr (sg_source s)), (''target'', JStr (sg_target s)),
        (''move_count'', JInt (sg_move_count s)), (''reason'', JStr (sg_reason s))]) (ar_suggestions r)))]"

definition queue_analysis_endpoint :: "float_format \<Rightarrow> string \<Rightarrow> (string \<Rightarrow> int option) \<Rightarrow> (string \<times> json) list res" where
  "queue_analysis_endpoint ff timestamp broker =
    (case analyze ff [] 2 broker of Inl e \<Rightarrow> Inl e | Inr r \<Rightarrow> Inr (result_to_dict timestamp r))"

section \<open>Autoscaler\<close>

record scaler_settings =
  ss_min :: int
  ss_max :: int
  ss_partitions :: nat
  ss_up :: int
  ss_down :: int
  ss_sla_partition :: nat

record scale_event =
  se_action :: string
  se_total :: int
  se_max_depth :: int
  se_previous :: int
  se_current :: int
  se_partitions :: "(nat \<times> int \<times> int) list"
  se_timestamp :: real

record scaler =
  sw_workers :: int
  sw_partition_workers :: "(nat \<times> int) list"
  sw_last :: "scale_event option"

definition init_partition_workers :: "scaler_settings \<Rightarrow> (nat \<times> int) list" where
  "init_partition_workers cfg =
    (let base = max 1 (ss_min cfg div int (ss_partitions cfg)); workers = map (\<lambda>pid. (pid, base)) [0..<ss_partitions cfg]
     in if map_of workers (ss_sla_partition cfg) \<noteq> None then AList.update (ss_sla_partition cfg) (base + 1) workers else workers)"

text \<open>With no partition the constructor divides by zero and the module does not import.\<close>

definition new_scaler :: "scaler_settings \<Rightarrow> scaler option" where
  "new_scaler cfg =
    (if ss_partitions cfg = 0 then None
     else Some \<lparr>sw_workers = ss_min cfg, sw_partition_workers = init_partition_workers cfg, sw_last = None\<rparr>)"

text \<open>
  A check reads every partition three times, for the total, for the maximum and for the event; \<open>llen i pid\<close> is the \<open>i\<close>-th
  reading. Without a Redis client every depth is zero.
\<close>

type_synonym readings = "(nat \<Rightarrow> nat \<Rightarrow> int option) option"

definition partition_depth_of :: "readings \<Rightarrow> nat \<Rightarrow> nat \<Rightarrow> int" where
  "partition_depth_of redis i pid = (case redis of None \<Rightarrow> 0 | Some llen \<Rightarrow> (case llen i pid of None \<Rightarrow> 0 | Some n \<Rightarrow> n))"

definition total_queue_depth :: "scaler_settings \<Rightarrow> readings \<Rightarrow> nat \<Rightarrow> int" where
  "total_queue_depth cfg redis i = (if redis = None then 0 else sum_list (map (partition_depth_of redis i) [0..<ss_partitions cfg]))"

definition max_partition_depth :: "scaler_settings \<Rightarrow> readings \<Rightarrow> nat \<Rightarrow> int" where
  "max_partition_depth cfg redis i = fold max (map (partition_depth_of redis i) [0..<ss_partitions cfg]) 0"

definition partition_breakdown :: "scaler_settings \<Rightarrow> readings \<Rightarrow> nat \<Rightarrow> scaler \<Rightarrow> (nat \<times> int \<times> int) list" where
  "partition_breakdown cfg redis i s =
    map (\<lambda>pid. (pid, partition_depth_of redis i pid,
           case map_of (sw_partition_workers s) pid of None \<Rightarrow> 1 | Some w \<Rightarrow> w)) [0..<ss_partitions cfg]"

definition check_and_signal :: "scaler_settings \<Rightarrow> readings \<Rightarrow> real \<Rightarrow> scaler \<Rightarrow> scale_event \<times> scaler" where
  "check_and_signal cfg redis now s =
    (let all = total_queue_depth cfg redis 0; worker_count = sw_workers s; most = max_partition_depth cfg redis 1;
         (action, new_workers) =
           (if most > ss_up cfg then
              (let n = min (worker_count + 2) (ss_max cfg) in (if n > worker_count then ''scale_up'' else ''at_max'', n))
            else if all < ss_down cfg then
              (let n = max (worker_count - 1) (ss_min cfg) in (if n < worker_count then ''scale_down'' else ''at_min'', n))
            else (''none'', worker_count));
         event = \<lparr>se_action = action, se_total = all, se_max_depth = most, se_previous = worker_count, se_current = new_workers,
                  se_partitions = partition_breakdown cfg redis 2 s, se_timestamp = now\<rparr>
     in (event, s\<lparr>sw_workers := new_workers,
                  sw_last := (if action \<in> {''scale_up'', ''scale_down''} then Some event else sw_last s)\<rparr>))"

record scaler_metrics =
  sm_total :: int
  sm_workers :: int
  sm_min :: int
  sm_max :: int
  sm_count :: nat
  sm_partitions :: "(nat \<times> int \<times> int) list"
  sm_last :: "scale_event option"

definition get_scaler_metrics :: "scaler_settings \<Rightarrow> readings \<Rightarrow> scaler \<Rightarrow> scaler_metrics" where
  "get_scaler_metrics cfg redis s =
    \<lparr>sm_total = total_queue_depth cfg redis 0, sm_workers = sw_workers s, sm_min = ss_min cfg, sm_max = ss_max cfg,
     sm_count = ss_partitions cfg, sm_partitions = partition_breakdown cfg redis 1 s, sm_last = sw_last s\<rparr>"

section \<open>Latency tracker\<close>

record latency_tracker =
  lt_job_type :: string
  lt_enqueued_at :: "real option"
  lt_started_at :: "real option"

definition tracker_enqueued :: "real \<Rightarrow> latency_tracker \<Rightarrow> latency_tracker" where
  "tracker_enqueued now t = t\<lparr>lt_enqueued_at := Some now\<rparr>"

text \<open>\<open>if self.enqueued_at\<close>: set and not zero.\<close>

definition tracker_started :: "real \<Rightarrow> latency_tracker \<Rightarrow> metrics \<Rightarrow> latency_tracker \<times> metrics" where
  "tracker_started now t m =
    (t\<lparr>lt_started_at := Some now\<rparr>,
     case lt_enqueued_at t of
       Some e \<Rightarrow> if e \<noteq> 0 then record_histogram now (lt_job_type t @ ''_queue_wait_ms'') ((now - e) * 1000) [(''job_type'', lt_job_type t)] m else m
     | None \<Rightarrow> m)"

definition tracker_finished :: "real \<Rightarrow> latency_tracker \<Rightarrow> metrics \<Rightarrow> metrics" where
  "tracker_finished now t m =
    (case lt_started_at t of
       Some s \<Rightarrow> if s \<noteq> 0 then record_histogram now (lt_job_type t @ ''_execution_ms'') ((now - s) * 1000) [(''job_type'', lt_job_type t)] m else m
     | None \<Rightarrow> m)"

section \<open>Connection pool\<close>

record pool =
  po_size :: int
  po_max_overflow :: int
  po_checked_out :: int
  po_checked_in :: int
  po_overflow :: int

record pool_stats =
  ps_size :: int
  ps_active :: int
  ps_idle :: int
  ps_overflow :: int
  ps_max_overflow :: int
  ps_saturation :: real

definition get_stats :: "pool \<Rightarrow> pool_stats" where
  "get_stats p = \<lparr>ps_size = po_size p, ps_active = po_checked_out p, ps_idle = po_checked_in p, ps_overflow = po_overflow p,
     ps_max_overflow = po_max_overflow p,
     ps_saturation = py_round 4 (real_of_int (po_checked_out p) / real_of_int (max (po_size p + po_max_overflow p) 1))\<rparr>"

definition is_saturated :: "real \<Rightarrow> pool \<Rightarrow> bool" where
  "is_saturated reject_threshold p \<longleftrightarrow> ps_saturation (get_stats p) \<ge> reject_threshold"

section \<open>Settings\<close>

text \<open>
  The attributes of \<open>settings\<close> the guardrails and the queue probe read; \<open>None\<close> is an attribute the class \<open>Settings\<close> does
  not declare, reading it raises \<open>AttributeError\<close>. \<open>extra\<close> is \<open>ignore\<close>, so the environment cannot add one.
\<close>

record ops_settings =
  os_app_env :: "string option"
  os_broker_max_connections :: "int option"
  os_broker_saturation_threshold :: "real option"
  os_worker_concurrency :: "int option option"
  os_max_tasks_per_child :: "int option option"
  os_db_guardrail_threshold :: "real option"
  os_db_pool_saturation_threshold :: real
  os_db_pool_size :: int
  os_required_queues :: "string option"
  os_probe_timeout :: "real option"
  os_strict_bindings :: "bool option"
  os_always_eager :: bool

definition attr :: "string \<Rightarrow> 'a option \<Rightarrow> 'a res" where
  "attr name a = (case a of None \<Rightarrow> Inl (AttributeError (quoted ''Settings'' @ '' object has no attribute '' @ quoted name)) | Some v \<Rightarrow> Inr v)"

text \<open>The class as it is written, for the values of the attributes it does declare.\<close>

definition declared_settings :: "real \<Rightarrow> int \<Rightarrow> bool \<Rightarrow> ops_settings" where
  "declared_settings saturation_threshold pool_size eager =
    \<lparr>os_app_env = None, os_broker_max_connections = None, os_broker_saturation_threshold = None, os_worker_concurrency = None,
     os_max_tasks_per_child = None, os_db_guardrail_threshold = None, os_db_pool_saturation_threshold = saturation_threshold,
     os_db_pool_size = pool_size, os_required_queues = None, os_probe_timeout = None, os_strict_bindings = None,
     os_always_eager = eager\<rparr>"

section \<open>Guardrails\<close>

record env_profile =
  ep_concurrency :: int
  ep_max_tasks :: int
  ep_pool_size :: int

definition PROFILES :: "(string \<times> env_profile) list" where
  "PROFILES =
    [(''dev'', \<lparr>ep_concurrency = 2, ep_max_tasks = 100, ep_pool_size = 5\<rparr>),
     (''staging'', \<lparr>ep_concurrency = 4, ep_max_tasks = 500, ep_pool_size = 10\<rparr>),
     (''prod'', \<lparr>ep_concurrency = 8, ep_max_tasks = 1000, ep_pool_size = 20\<rparr>)]"

definition env_key :: "string \<Rightarrow> string" where
  "env_key e = lower (if e = [] then ''dev'' else e)"

definition profile_of :: "string \<Rightarrow> env_profile" where
  "profile_of key = (case map_of PROFILES key of Some p \<Rightarrow> p | None \<Rightarrow> the (map_of PROFILES ''dev''))"

definition get_profile :: "ops_settings \<Rightarrow> env_profile res" where
  "get_profile st = (case attr ''APP_ENV'' (os_app_env st) of Inl e \<Rightarrow> Inl e | Inr v \<Rightarrow> Inr (profile_of (env_key v)))"

text \<open>The broker as \<open>inspect().active_queues()\<close> shows it: the number of workers, \<open>None\<close> when the probe raises.\<close>

datatype broker = No_app | Probe "nat option"

record broker_stats =
  bs_connections :: int
  bs_max :: int
  bs_saturation :: real
  bs_alert :: bool

definition idle_broker :: "int \<Rightarrow> broker_stats" where
  "idle_broker max_conns = \<lparr>bs_connections = 0, bs_max = max_conns, bs_saturation = 0, bs_alert = False\<rparr>"

definition measure_broker_stress :: "ops_settings \<Rightarrow> broker \<Rightarrow> broker_stats res" where
  "measure_broker_stress st b =
    (case attr ''BROKER_MAX_CONNECTIONS'' (os_broker_max_connections st) of
       Inl e \<Rightarrow> Inl e
     | Inr conns \<Rightarrow>
       (case attr ''BROKER_SATURATION_THRESHOLD'' (os_broker_saturation_threshold st) of
          Inl e \<Rightarrow> Inl e
        | Inr threshold \<Rightarrow>
          (let max_conns = max conns 1 in
           case b of
             No_app \<Rightarrow> Inr (idle_broker max_conns)
           | Probe None \<Rightarrow> Inr (idle_broker max_conns)
           | Probe (Some worker_count) \<Rightarrow>
             (case get_profile st of
                Inl e \<Rightarrow> Inl e
              | Inr profile \<Rightarrow>
                (case attr ''CELERY_WORKER_CONCURRENCY'' (os_worker_concurrency st) of
                   Inl e \<Rightarrow> Inl e
                 | Inr c \<Rightarrow>
                   (let effective = (case c of Some n \<Rightarrow> n | None \<Rightarrow> ep_concurrency profile);
                        estimated = int worker_count * max effective 0;
                        saturation = py_round 4 (real_of_int estimated / real_of_int max_conns)
                    in Inr \<lparr>bs_connections = estimated, bs_max = max_conns, bs_saturation = saturation,
                            bs_alert = (saturation \<ge> threshold)\<rparr>))))))"

record guardrail_report =
  gr_db :: pool_stats
  gr_broker :: broker_stats
  gr_alerts :: bool
  gr_db_guardrail :: real
  gr_db_reject :: real
  gr_broker_guardrail :: real

definition guardrail_threshold :: "real \<Rightarrow> real \<Rightarrow> real" where
  "guardrail_threshold db_guard sat_reject = min db_guard (max (sat_reject - 5 / 100) (5 / 100))"

definition evaluate_guardrails :: "ops_settings \<Rightarrow> pool \<Rightarrow> broker \<Rightarrow> metrics \<Rightarrow> guardrail_report res \<times> metrics" where
  "evaluate_guardrails st p b m =
    (case measure_broker_stress st b of
       Inl e \<Rightarrow> (Inl e, m)
     | Inr broker_stats \<Rightarrow>
       (case attr ''DB_GUARDRAIL_THRESHOLD'' (os_db_guardrail_threshold st) of
          Inl e \<Rightarrow> (Inl e, m)
        | Inr guard \<Rightarrow>
          (let db_stats = get_stats p; threshold = guardrail_threshold guard (os_db_pool_saturation_threshold st);
               db_alert = (ps_saturation db_stats \<ge> threshold);
               m' = set_gauge ''guardrail.alert.broker'' (if bs_alert broker_stats then 1 else 0) []
                     (set_gauge ''guardrail.alert.db'' (if db_alert then 1 else 0) []
                       (set_gauge ''broker.saturation'' (bs_saturation broker_stats) []
                         (set_gauge ''db_pool.saturation'' (ps_saturation db_stats) [] m)))
           in (Inr \<lparr>gr_db = db_stats, gr_broker = broker_stats, gr_alerts = (db_alert \<or> bs_alert broker_stats),
                    gr_db_guardrail = threshold, gr_db_reject = os_db_pool_saturation_threshold st,
                    gr_broker_guardrail = the (os_broker_saturation_threshold st)\<rparr>, m'))))"

record guardrails_view =
  gv_env :: string
  gv_concurrency :: int
  gv_max_tasks :: int
  gv_pool_size :: int
  gv_defaults :: env_profile
  gv_overrides :: "bool \<times> bool"
  gv_live :: guardrail_report

definition guardrails_dict :: "ops_settings \<Rightarrow> pool \<Rightarrow> broker \<Rightarrow> metrics \<Rightarrow> guardrails_view res \<times> metrics" where
  "guardrails_dict st p b m =
    (case get_profile st of
       Inl e \<Rightarrow> (Inl e, m)
     | Inr profile \<Rightarrow>
       (case evaluate_guardrails st p b m of
          (Inl e, m') \<Rightarrow> (Inl e, m')
        | (Inr live, m') \<Rightarrow>
          (case (attr ''CELERY_WORKER_CONCURRENCY'' (os_worker_concurrency st),
                 attr ''CELERY_MAX_TASKS_PER_CHILD'' (os_max_tasks_per_child st)) of
             (Inl e, _) \<Rightarrow> (Inl e, m')
           | (Inr _, Inl e) \<Rightarrow> (Inl e, m')
           | (Inr c, Inr t) \<Rightarrow>
             (Inr \<lparr>gv_env = env_key (the (os_app_env st)), gv_concurrency = (case c of Some n \<Rightarrow> n | None \<Rightarrow> ep_concurrency profile),
                   gv_max_tasks = (case t of Some n \<Rightarrow> n | None \<Rightarrow> ep_max_tasks profile),
                   gv_pool_size = (if os_db_pool_size st \<noteq> 0 then os_db_pool_size st else ep_pool_size profile),
                   gv_defaults = profile, gv_overrides = (c \<noteq> None, t \<noteq> None), gv_live = live\<rparr>, m'))))"

section \<open>Queue bindings\<close>

definition required_queue_names :: "string \<Rightarrow> string list" where
  "required_queue_names v = filter (\<lambda>n. n \<noteq> []) (map strip (split_on (CHR '','') v))"

record probe_result =
  pr_ok :: bool
  pr_required :: "string list"
  pr_observed :: "string list"
  pr_missing :: "string list"
  pr_workers :: nat
  pr_timeout :: real

text \<open>The names in the answer of the workers: entries that are not dictionaries with a non-empty string are skipped.\<close>

definition queue_name_of :: "json \<Rightarrow> string list" where
  "queue_name_of q = (case q of JObj o0 \<Rightarrow> (case map_of o0 ''name'' of Some (JStr n) \<Rightarrow> if n \<noteq> [] then [n] else [] | _ \<Rightarrow> []) | _ \<Rightarrow> [])"

definition observed_queues :: "(string \<times> json) list \<Rightarrow> string list" where
  "observed_queues active = concat (map (\<lambda>(w, queues). case queues of JArr qs \<Rightarrow> concat (map queue_name_of qs) | _ \<Rightarrow> []) active)"

text \<open>\<open>repr\<close> of a list of names without quotes or escapes in them.\<close>

definition repr_list :: "string list \<Rightarrow> string" where
  "repr_list xs = ''['' @ join '', '' (map quoted xs) @ '']''"

definition verify_queue_bindings ::
  "ops_settings \<Rightarrow> (string + (string \<times> json) list) \<Rightarrow> real option \<Rightarrow> bool option \<Rightarrow> probe_result res" where
  "verify_queue_bindings st inspect timeout strict =
    (case (case timeout of Some t \<Rightarrow> Inr t | None \<Rightarrow> attr ''CELERY_QUEUE_PROBE_TIMEOUT_SECONDS'' (os_probe_timeout st)) of
       Inl e \<Rightarrow> Inl e
     | Inr probe_timeout \<Rightarrow>
       (case (case strict of Some b \<Rightarrow> Inr b | None \<Rightarrow> attr ''CELERY_STRICT_QUEUE_BINDINGS'' (os_strict_bindings st)) of
          Inl e \<Rightarrow> Inl e
        | Inr strict_flag \<Rightarrow>
          (case attr ''CELERY_REQUIRED_QUEUES'' (os_required_queues st) of
             Inl e \<Rightarrow> Inl e
           | Inr v \<Rightarrow>
             (let required = required_queue_names v;
                  result = \<lparr>pr_ok = True, pr_required = required, pr_observed = [], pr_missing = [], pr_workers = 0, pr_timeout = probe_timeout\<rparr>
              in if required = [] then Inr result
                 else (case inspect of
                    Inl exc0 \<Rightarrow>
                      if strict_flag then Inl (RuntimeError (''BE-W5-051: celery broker unreachable while verifying queues '' @ repr_list required @ '': '' @ exc0))
                      else Inr (result\<lparr>pr_ok := False, pr_missing := required\<rparr>)
                  | Inr active \<Rightarrow>
                    (let observed = observed_queues active; missing = filter (\<lambda>n. n \<notin> set observed) required;
                         result = result\<lparr>pr_observed := sorted_list_of_set (set observed), pr_missing := missing, pr_workers := length active\<rparr>
                     in if missing = [] then Inr result
                        else if strict_flag then Inl (RuntimeError (''BE-W5-051: required queues not bound to any worker: '' @ repr_list missing))
                        else Inr (result\<lparr>pr_ok := False\<rparr>))))))) "

text \<open>What the worker does when it is ready: it goes on, leaves with status 1, or the hook raises.\<close>

datatype boot = Ready | Exit int | Hook_error exc

definition on_worker_ready :: "ops_settings \<Rightarrow> (string + (string \<times> json) list) \<Rightarrow> boot" where
  "on_worker_ready st inspect =
    (if os_always_eager st then Ready
     else (case verify_queue_bindings st inspect None None of
             Inr _ \<Rightarrow> Ready | Inl (RuntimeError _) \<Rightarrow> Exit 1 | Inl e \<Rightarrow> Hook_error e))"

section \<open>Health endpoints\<close>

record queue_health =
  qh_ok :: bool
  qh_error :: "string option"
  qh_probe :: probe_result

definition check_worker_queue_bindings :: "ops_settings \<Rightarrow> (string + (string \<times> json) list) \<Rightarrow> queue_health" where
  "check_worker_queue_bindings st inspect =
    (case verify_queue_bindings st inspect None (Some False) of
       Inr r \<Rightarrow> \<lparr>qh_ok = pr_ok r, qh_error = None, qh_probe = r\<rparr>
     | Inl e \<Rightarrow> \<lparr>qh_ok = False, qh_error = Some (exc_msg e),
         qh_probe = \<lparr>pr_ok = False, pr_required = [], pr_observed = [], pr_missing = [], pr_workers = 0,
           pr_timeout = (case os_probe_timeout st of Some t \<Rightarrow> t | None \<Rightarrow> 5)\<rparr>\<rparr>)"

record readiness_payload =
  rp_status :: string
  rp_database :: string
  rp_celery :: string
  rp_bindings :: string
  rp_probe :: queue_health

definition readiness_endpoint :: "ops_settings \<Rightarrow> bool \<Rightarrow> bool \<Rightarrow> (string + (string \<times> json) list) \<Rightarrow> nat \<times> readiness_payload" where
  "readiness_endpoint st db_ok celery_ok inspect =
    (let queue_probe = check_worker_queue_bindings st inspect; overall_ok = (db_ok \<and> celery_ok \<and> qh_ok queue_probe)
     in (if overall_ok then 200 else 503,
         \<lparr>rp_status = (if overall_ok then ''ok'' else ''degraded''), rp_database = (if db_ok then ''ok'' else ''down''),
          rp_celery = (if celery_ok then ''ok'' else ''down''), rp_bindings = (if qh_ok queue_probe then ''ok'' else ''missing''),
          rp_probe = queue_probe\<rparr>))"

definition worker_health :: "ops_settings \<Rightarrow> (string + (string \<times> json) list) \<Rightarrow> nat \<times> string \<times> queue_health" where
  "worker_health st inspect =
    (let queue_probe = check_worker_queue_bindings st inspect
     in (if qh_ok queue_probe then 200 else 503, if qh_ok queue_probe then ''ok'' else ''missing_queues'', queue_probe))"

definition concurrency_health :: "ops_settings \<Rightarrow> pool \<Rightarrow> broker \<Rightarrow> metrics \<Rightarrow> (string \<times> (string + guardrails_view)) \<times> metrics" where
  "concurrency_health st p b m =
    (case guardrails_dict st p b m of
       (Inl e, m') \<Rightarrow> ((''ok'', Inl (exc_msg e)), m')
     | (Inr v, m') \<Rightarrow> ((if gr_alerts (gv_live v) then ''guardrail_alert'' else ''ok'', Inr v), m'))"

end
