(* ===== verification/OperationLaws.thy ===== *)
theory OperationLaws
  imports Operations
begin

text \<open>
  Laws of the operational components: hot spots are few and the suggested moves do not overshoot, the autoscaler stays
  within its limits and reaches them, the guardrail fires before requests are refused, the queue probe, and what the
  health endpoints answer with the settings as they are declared.
\<close>

section \<open>Queue analysis\<close>

lemma sum_filter_le:
  fixes f :: "'a \<Rightarrow> real"
  assumes "\<And>x. x \<in> set xs \<Longrightarrow> 0 \<le> f x"
  shows "sum_list (map f (filter P xs)) \<le> sum_list (map f xs)"
  using assms by (induction xs) (auto simp: add_increasing)

lemma sum_list_above:
  fixes f :: "'a \<Rightarrow> real"
  assumes "\<And>x. x \<in> set xs \<Longrightarrow> c < f x" "xs \<noteq> []"
  shows "real (length xs) * c < sum_list (map f xs)"
  using assms
proof (induction xs)
  case (Cons x xs)
  then show ?case by (cases xs) (force simp: algebra_simps)+
qed simp

lemma real_sum_list: "real_of_int (sum_list (map f xs)) = sum_list (map (\<lambda>x. real_of_int (f x)) xs)"
  by (induction xs) auto

lemma few_hotspots:
  assumes nonneg: "\<And>d. d \<in> set ds \<Longrightarrow> 0 \<le> pd_depth d" and hot: "get_hotspots t ds (Some (average_depth ds)) \<noteq> []" and t: "0 < t"
  shows "real (length (get_hotspots t ds (Some (average_depth ds)))) * t < real (length ds)"
proof -
  let ?a = "average_depth ds" let ?f = "\<lambda>d. real_of_int (pd_depth d)"
  let ?hot = "\<lambda>d. (if ?a > 0 then ?f d / ?a else 0) > t"
  have ne: "filter ?hot ds \<noteq> []" using hot by (auto simp: get_hotspots_def Let_def filter_empty_conv)
  then have a: "?a > 0" using t by (auto simp: filter_empty_conv split: if_splits)
  have above: "t * ?a < ?f d" if "d \<in> set (filter ?hot ds)" for d using that a by (simp add: pos_less_divide_eq)
  have "real (length (filter ?hot ds)) * (t * ?a) < sum_list (map ?f (filter ?hot ds))" using above ne by (rule sum_list_above)
  also have "\<dots> \<le> sum_list (map ?f ds)" using nonneg by (intro sum_filter_le) auto
  also have "sum_list (map ?f ds) = real (length ds) * ?a"
    using ne by (auto simp: average_depth_def real_sum_list)
  finally have "(real (length (filter ?hot ds)) * t) * ?a < real (length ds) * ?a" by (simp add: mult_ac)
  then show ?thesis using a by (simp add: get_hotspots_def Let_def)
qed

lemma least_key_least:
  "m \<noteq> [] \<Longrightarrow> \<exists>k v. least_key m = Inr k \<and> (k, v) \<in> set m \<and> (\<forall>kv \<in> set m. v \<le> snd kv)"
proof (induction m rule: least_key.induct)
  case (3 kv kw m)
  show ?case
  proof (cases "snd kw < snd kv")
    case True
    then obtain k v where "least_key (kw # m) = Inr k" "(k, v) \<in> set (kw # m)" "\<forall>x \<in> set (kw # m). v \<le> snd x"
      using "3.IH"(1) by blast
    then show ?thesis using True by (intro exI [of _ k] exI [of _ v]) auto
  next
    case False
    then obtain k v where "least_key (kv # m) = Inr k" "(k, v) \<in> set (kv # m)" "\<forall>x \<in> set (kv # m). v \<le> snd x"
      using "3.IH"(2) by blast
    then show ?thesis using False by (intro exI [of _ k] exI [of _ v]) auto
  qed
qed auto

lemma update_graph:
  assumes "\<forall>kv \<in> set m. snd kv = f (fst kv)"
  shows "set (AList.update k (f k) m) = insert (k, f k) (set m)"
  using assms by (induction m) auto

lemma depth_map_set:
  assumes "\<And>d. d \<in> set ds \<Longrightarrow> pd_depth d = f (pd_partition d)"
  shows "set (depth_map ds) = (\<lambda>d. (pd_partition d, f (pd_partition d))) ` set ds"
proof -
  have "set (fold (\<lambda>d m. AList.update (pd_partition d) (pd_depth d) m) ds m)
      = set m \<union> (\<lambda>d. (pd_partition d, f (pd_partition d))) ` set ds" if "\<forall>kv \<in> set m. snd kv = f (fst kv)" for m
    using assms that
  proof (induction ds arbitrary: m)
    case (Cons d ds)
    have d: "pd_depth d = f (pd_partition d)" using Cons.prems(1) by simp
    have s: "set (AList.update (pd_partition d) (pd_depth d) m) = insert (pd_partition d, f (pd_partition d)) (set m)"
      unfolding d using Cons.prems(2) by (rule update_graph)
    then have "\<forall>kv \<in> set (AList.update (pd_partition d) (pd_depth d) m). snd kv = f (fst kv)" using Cons.prems(2) by auto
    from Cons.IH [OF _ this] Cons.prems(1) s show ?case by auto
  qed simp
  then show ?thesis by (simp add: depth_map_def)
qed

lemma suggest_rebalance_all:
  "least_key (depth_map ds) = Inr k \<Longrightarrow>
    suggest_rebalance ff ds hs = Inr (map (suggestion_for ff (average_depth ds) k) hs)"
  by (induction hs) auto

lemma suggestion_fields [simp]:
  "sg_source (suggestion_for ff a k h) = hs_partition h" "sg_target (suggestion_for ff a k h) = k"
  "sg_move_count (suggestion_for ff a k h) = max 0 ((hs_depth h - py_int a) div 2)"
  "sg_source \<circ> suggestion_for ff a k = hs_partition"
  by (auto simp: suggestion_for_def Let_def)

lemma average_above_least:
  assumes "\<And>d. d \<in> set ds \<Longrightarrow> v \<le> pd_depth d" "ds \<noteq> []"
  shows "real_of_int v \<le> average_depth ds"
proof -
  have "int (length ds) * v \<le> sum_list (map pd_depth ds)" using assms(1)
  proof (induction ds)
    case (Cons d ds)
    have "v \<le> pd_depth d" "int (length ds) * v \<le> sum_list (map pd_depth ds)" using Cons by auto
    then show ?case by (simp add: algebra_simps)
  qed simp
  then have "real (length ds) * real_of_int v \<le> real_of_int (sum_list (map pd_depth ds))" by (metis of_int_le_iff of_int_mult of_int_of_nat_eq)
  then show ?thesis using assms(2) by (simp add: average_depth_def le_divide_eq mult.commute)
qed

definition worth_moving :: "(string \<Rightarrow> int option) \<Rightarrow> string list \<Rightarrow> rebalance_suggestion \<Rightarrow> bool" where
  "worth_moving broker ps s \<longleftrightarrow>
    (let src = get_queue_depth broker (sg_source s); dst = get_queue_depth broker (sg_target s)
     in sg_source s \<in> set ps \<and> sg_target s \<in> set ps \<and> (\<forall>p \<in> set ps. dst \<le> get_queue_depth broker p)
        \<and> dst < src \<and> 0 \<le> sg_move_count s \<and> dst + sg_move_count s \<le> src - sg_move_count s)"

lemma move_balances:
  fixes v d :: int and a :: real
  assumes "real_of_int v \<le> a" "a < real_of_int d" "0 \<le> a"
  shows "v < d" "v + max 0 ((d - py_int a) div 2) \<le> d - max 0 ((d - py_int a) div 2)"
proof -
  have i: "py_int a = \<lfloor>a\<rfloor>" using assms(3) by (simp add: py_int_def)
  have v: "v \<le> \<lfloor>a\<rfloor>" using assms(1) by (simp add: le_floor_iff)
  have d: "\<lfloor>a\<rfloor> < d" using assms(2) by (simp add: floor_less_iff)
  show "v < d" using v d by simp
  have "0 \<le> (d - \<lfloor>a\<rfloor>) div 2" using d by simp
  moreover have "2 * ((d - \<lfloor>a\<rfloor>) div 2) \<le> d - \<lfloor>a\<rfloor>" by simp
  ultimately show "v + max 0 ((d - py_int a) div 2) \<le> d - max 0 ((d - py_int a) div 2)" using v unfolding i by linarith
qed

text \<open>
  The analysis of the queues always returns. A partition is reported exactly when its depth exceeds the threshold
  times the average, so there are fewer hot spots than partitions divided by the threshold (with four partitions and
  the threshold of two, at most one). For every hot spot one move is suggested, to a partition of least depth; carried
  out alone it leaves the target no deeper than the source.
\<close>

theorem rebalance_sound:
  assumes "\<forall>q n. broker q = Some n \<longrightarrow> 0 \<le> n" "1 \<le> t" "ps \<noteq> []"
  shows "\<exists>r. analyze ff ps t broker = Inr r
    \<and> map hs_partition (ar_hotspots r) = filter (\<lambda>p. t * ar_avg r < real_of_int (get_queue_depth broker p) \<and> 0 < ar_avg r) ps
    \<and> (ar_hotspots r \<noteq> [] \<longrightarrow> real (length (ar_hotspots r)) * t < real (length ps))
    \<and> map sg_source (ar_suggestions r) = map hs_partition (ar_hotspots r) \<and> (\<forall>s \<in> set (ar_suggestions r). worth_moving broker ps s)"
proof -
  let ?f = "get_queue_depth broker"
  define ds where "ds = map (\<lambda>p. \<lparr>pd_partition = p, pd_depth = ?f p\<rparr>) ps"
  let ?a = "average_depth ds" let ?hs = "get_hotspots t ds (Some ?a)"
  have nonneg: "0 \<le> ?f p" for p using assms(1) by (auto simp: get_queue_depth_def split: option.splits)
  have dset: "set (depth_map ds) = (\<lambda>p. (p, ?f p)) ` set ps" by (subst depth_map_set [where f = ?f]) (auto simp: ds_def image_image)
  then have "depth_map ds \<noteq> []" using assms(3) by (metis image_is_empty set_empty)
  then obtain k where k: "least_key (depth_map ds) = Inr k" "k \<in> set ps" "\<forall>p \<in> set ps. ?f k \<le> ?f p"
    using least_key_least [of "depth_map ds"] dset by auto
  have ne: "ds \<noteq> []" using assms(3) by (simp add: ds_def)
  define r where "r = \<lparr>ar_partitions = ds, ar_total = sum_list (map pd_depth ds), ar_avg = ?a, ar_hotspots = ?hs,
      ar_suggestions = map (suggestion_for ff ?a k) ?hs\<rparr>"
  have run: "analyze ff ps t broker = Inr r"
    using assms(3) suggest_rebalance_all [OF k(1), of ff ?hs] by (simp add: analyze_def Let_def ds_def r_def)
  have parts: "map hs_partition ?hs = filter (\<lambda>p. t * ?a < real_of_int (?f p) \<and> 0 < ?a) ps"
    using assms(2) by (auto simp: get_hotspots_def Let_def ds_def filter_map o_def pos_less_divide_eq intro!: filter_cong)
  have low: "real_of_int (?f k) \<le> ?a" using k(3) by (intro average_above_least) (auto simp: ds_def assms(3))
  have good: "worth_moving broker ps (suggestion_for ff ?a k h)" if "h \<in> set ?hs" for h
  proof -
    have h: "hs_partition h \<in> set ps" "t * ?a < real_of_int (?f (hs_partition h))" "0 < ?a" "hs_depth h = ?f (hs_partition h)"
      using that assms(2) by (auto simp: get_hotspots_def Let_def ds_def pos_less_divide_eq split: if_splits)
    have "?a \<le> t * ?a" using assms(2) h(3) by simp
    then have "?a < real_of_int (?f (hs_partition h))" using h(2) by linarith
    from move_balances [OF low this] h k show ?thesis by (simp add: worth_moving_def Let_def)
  qed
  have few: "real (length ?hs) * t < real (length ps)" if "?hs \<noteq> []"
  proof -
    have "0 \<le> pd_depth d" if "d \<in> set ds" for d using that nonneg by (auto simp: ds_def)
    from few_hotspots [OF this \<open>?hs \<noteq> []\<close>] show ?thesis using assms(2) by (simp add: ds_def)
  qed
  show ?thesis using run parts good few by (intro exI [of _ r]) (simp add: r_def)
qed

theorem rebalance_sound_witness:
  "\<exists>r. analyze \<lparr>ff_str = \<lambda>x. [], ff_fixed0 = \<lambda>x. []\<rparr> PARTITIONS 2 (\<lambda>q. Some (if q = ''sla'' then 90 else 10)) = Inr r
    \<and> length (ar_hotspots r) < 2 \<and> (\<forall>s \<in> set (ar_suggestions r). worth_moving (\<lambda>q. Some (if q = ''sla'' then 90 else 10)) PARTITIONS s)"
proof -
  let ?b = "\<lambda>q :: string. Some (if q = ''sla'' then 90 else 10 :: int)"
  have nn: "\<forall>q n. ?b q = Some n \<longrightarrow> 0 \<le> n" by (auto split: if_splits)
  have ne: "PARTITIONS \<noteq> []" by (simp add: PARTITIONS_def)
  obtain r where "analyze \<lparr>ff_str = \<lambda>x. [], ff_fixed0 = \<lambda>x. []\<rparr> PARTITIONS 2 ?b = Inr r"
      "ar_hotspots r \<noteq> [] \<longrightarrow> real (length (ar_hotspots r)) * 2 < real (length PARTITIONS)"
      "\<forall>s \<in> set (ar_suggestions r). worth_moving ?b PARTITIONS s"
    using rebalance_sound [OF nn _ ne, of 2 "\<lparr>ff_str = \<lambda>x. [], ff_fixed0 = \<lambda>x. []\<rparr>"] by auto
  moreover have "length PARTITIONS = 4" by (simp add: PARTITIONS_def)
  ultimately show ?thesis by (intro exI [of _ r]) (cases "ar_hotspots r = []"; simp)
qed

lemma analyze_total:
  "analyze ff ps t broker = Inr r \<Longrightarrow> ar_total r = sum_list (map (get_queue_depth broker) (if ps = [] then PARTITIONS else ps))"
  by (auto simp: analyze_def Let_def o_def split: sum.splits if_splits)

text \<open>The endpoint always answers; the total counts every partition once and at most one of the four partitions is a hot spot.\<close>

lemma queue_analysis_document:
  assumes "\<forall>q n. broker q = Some n \<longrightarrow> 0 \<le> n"
  shows "\<exists>doc hs. queue_analysis_endpoint ff ts broker = Inr doc
    \<and> map_of doc ''total_depth'' = Some (JInt (sum_list (map (get_queue_depth broker) PARTITIONS)))
    \<and> map_of doc ''hotspots'' = Some (JArr hs) \<and> length hs \<le> 1"
proof -
  have four: "PARTITIONS \<noteq> []" "real (length PARTITIONS) = 4" by (simp_all add: PARTITIONS_def)
  obtain r where r: "analyze ff PARTITIONS 2 broker = Inr r" "ar_hotspots r \<noteq> [] \<longrightarrow> real (length (ar_hotspots r)) * 2 < 4"
    using rebalance_sound [OF assms _ four(1), of 2 ff] unfolding four(2) by auto
  have same: "analyze ff [] 2 broker = analyze ff PARTITIONS 2 broker" using four(1) by (simp add: analyze_def)
  have "length (ar_hotspots r) \<le> 1" using r(2) by (cases "ar_hotspots r = []") auto
  then show ?thesis using analyze_total [OF r(1)] four(1) r(1)
    by (simp add: queue_analysis_endpoint_def same result_to_dict_def)
qed

section \<open>Autoscaler\<close>

inductive scale_step :: "scaler_settings \<Rightarrow> scaler \<Rightarrow> scaler \<Rightarrow> bool" for cfg where
  "scale_step cfg s (snd (check_and_signal cfg redis now s))"

inductive_cases scale_stepE: "scale_step cfg s s'"

definition scaler_ok :: "scaler_settings \<Rightarrow> scaler \<Rightarrow> bool" where
  "scaler_ok cfg s \<longleftrightarrow> ss_min cfg \<le> sw_workers s \<and> sw_workers s \<le> ss_max cfg \<and> sw_partition_workers s = init_partition_workers cfg"

definition hot :: "scaler_settings \<Rightarrow> readings \<Rightarrow> bool" where
  "hot cfg redis \<longleftrightarrow> max_partition_depth cfg redis 1 > ss_up cfg"

definition idle :: "scaler_settings \<Rightarrow> readings \<Rightarrow> bool" where
  "idle cfg redis \<longleftrightarrow> \<not> hot cfg redis \<and> total_queue_depth cfg redis 0 < ss_down cfg"

lemma check_and_signal_workers:
  "sw_workers (snd (check_and_signal cfg redis now s)) =
    (if hot cfg redis then min (sw_workers s + 2) (ss_max cfg)
     else if idle cfg redis then max (sw_workers s - 1) (ss_min cfg) else sw_workers s)"
  "sw_partition_workers (snd (check_and_signal cfg redis now s)) = sw_partition_workers s"
  by (simp_all add: check_and_signal_def Let_def hot_def idle_def split: prod.splits)

interpretation autoscaler: step_system "scale_step cfg" "\<lambda>s. scaler_ok cfg s" for cfg
  by unfold_locales (auto simp: scaler_ok_def check_and_signal_workers elim!: scale_stepE split: if_splits)

definition checks :: "scaler_settings \<Rightarrow> (readings \<times> real) list \<Rightarrow> scaler \<Rightarrow> scaler" where
  "checks cfg rs s = fold (\<lambda>(redis, now) s. snd (check_and_signal cfg redis now s)) rs s"

lemma checks_hot:
  "\<forall>r \<in> set rs. hot cfg (fst r) \<Longrightarrow> sw_workers s \<le> ss_max cfg \<Longrightarrow>
    sw_workers (checks cfg rs s) = min (sw_workers s + 2 * int (length rs)) (ss_max cfg)"
proof (induction rs arbitrary: s)
  case (Cons r rs)
  let ?s = "snd (check_and_signal cfg (fst r) (snd r) s)"
  have "sw_workers ?s = min (sw_workers s + 2) (ss_max cfg)" using Cons.prems(1) by (simp add: check_and_signal_workers)
  moreover have "checks cfg (r # rs) s = checks cfg rs ?s" by (simp add: checks_def split: prod.splits)
  ultimately show ?case using Cons.IH [of ?s] Cons.prems(1) by simp
qed (simp add: checks_def)

lemma checks_idle:
  "\<forall>r \<in> set rs. idle cfg (fst r) \<Longrightarrow> ss_min cfg \<le> sw_workers s \<Longrightarrow>
    sw_workers (checks cfg rs s) = max (sw_workers s - int (length rs)) (ss_min cfg)"
proof (induction rs arbitrary: s)
  case (Cons r rs)
  let ?s = "snd (check_and_signal cfg (fst r) (snd r) s)"
  have "sw_workers ?s = max (sw_workers s - 1) (ss_min cfg)" using Cons.prems(1) by (simp add: check_and_signal_workers idle_def)
  moreover have "checks cfg (r # rs) s = checks cfg rs ?s" by (simp add: checks_def split: prod.splits)
  ultimately show ?case using Cons.IH [of ?s] Cons.prems(1) by simp
qed (simp add: checks_def)

text \<open>
  C35. However the queue depths develop, the number of workers stays between its limits. While some partition is over
  the threshold it grows by two per check until the maximum, and while the queues are almost empty it shrinks by one
  per check to the minimum, so both limits are reached. The numbers per partition never change.
\<close>

theorem autoscaler_limits:
  assumes "new_scaler cfg = Some s0" "ss_min cfg \<le> ss_max cfg" "(scale_step cfg)\<^sup>*\<^sup>* s0 s"
  shows "ss_min cfg \<le> sw_workers s \<and> sw_workers s \<le> ss_max cfg \<and> sw_partition_workers s = init_partition_workers cfg
    \<and> ((\<forall>r \<in> set rs. hot cfg (fst r)) \<longrightarrow> sw_workers (checks cfg rs s) = min (sw_workers s + 2 * int (length rs)) (ss_max cfg))
    \<and> ((\<forall>r \<in> set rs. idle cfg (fst r)) \<longrightarrow> sw_workers (checks cfg rs s) = max (sw_workers s - int (length rs)) (ss_min cfg))"
proof -
  have "scaler_ok cfg s0" using assms(1,2) by (auto simp: new_scaler_def scaler_ok_def split: if_splits)
  then have "scaler_ok cfg s" using autoscaler.history_inv assms(3) by blast
  then show ?thesis using checks_hot [of rs cfg s] checks_idle [of rs cfg s] by (simp add: scaler_ok_def)
qed

definition sample_scaling :: scaler_settings where
  "sample_scaling = \<lparr>ss_min = 1, ss_max = 10, ss_partitions = 4, ss_up = 100, ss_down = 10, ss_sla_partition = 0\<rparr>"

theorem autoscaler_limits_witness:
  "sw_workers (checks sample_scaling (replicate 5 (Some (\<lambda>i pid. Some 200), 0)) (the (new_scaler sample_scaling))) = 10"
proof -
  let ?s0 = "the (new_scaler sample_scaling)" let ?r = "(Some (\<lambda>i pid. Some 200), 0) :: readings \<times> real"
  have s0: "new_scaler sample_scaling = Some ?s0" by (simp add: new_scaler_def sample_scaling_def)
  have "hot sample_scaling (fst ?r)"
    by (simp add: hot_def max_partition_depth_def sample_scaling_def partition_depth_of_def upt_rec numeral_eq_Suc)
  then have "\<forall>r \<in> set (replicate 5 ?r). hot sample_scaling (fst r)" by simp
  then have "sw_workers (checks sample_scaling (replicate 5 ?r) ?s0) = min (sw_workers ?s0 + 2 * int (length (replicate 5 ?r))) (ss_max sample_scaling)"
    using autoscaler_limits [OF s0, of ?s0 "replicate 5 ?r"] by (simp add: sample_scaling_def)
  then show ?thesis by (simp add: new_scaler_def sample_scaling_def)
qed

section \<open>Guardrails and refusals\<close>

lemma attr_simps [simp]: "attr n (Some v) = Inr v" "attr n None = Inl e \<longleftrightarrow> e = AttributeError (quoted ''Settings'' @ '' object has no attribute '' @ quoted n)"
  "attr n None \<noteq> Inr v" "attr n a = Inr v \<longleftrightarrow> a = Some v"
  by (auto simp: attr_def split: option.splits)

lemma gauge_after:
  "map_of (me_gauges (set_gauge n v [] m)) k = (if k = n then Some v else map_of (me_gauges m) k)"
  by (simp add: set_gauge_def make_key_def update_conv')

lemma alert_gauge:
  "map_of (me_gauges (set_gauge ''guardrail.alert.broker'' x [] (set_gauge ''guardrail.alert.db'' y [] m))) ''guardrail.alert.db'' = Some y"
  by (simp add: gauge_after)

lemma evaluate_guardrails_Inr:
  assumes "evaluate_guardrails st p b m = (Inr r, m')"
  obtains guard where "os_db_guardrail_threshold st = Some guard"
    "gr_db_guardrail r = guardrail_threshold guard (os_db_pool_saturation_threshold st)"
    "gr_db_guardrail r \<le> ps_saturation (get_stats p) \<Longrightarrow> gr_alerts r"
    "map_of (me_gauges m') ''guardrail.alert.db'' = Some (if gr_db_guardrail r \<le> ps_saturation (get_stats p) then 1 else 0)"
proof -
  obtain guard bs where "measure_broker_stress st b = Inr bs" "os_db_guardrail_threshold st = Some guard"
    using assms by (auto simp: evaluate_guardrails_def split: sum.splits)
  with assms show thesis by (intro that [of guard]) (auto simp: evaluate_guardrails_def Let_def alert_gauge)
qed

text \<open>
  The guardrail fires before requests are refused: when the rejection threshold exceeds 0.05, the guardrail
  threshold lies strictly below it, so an evaluation on a pool on which requests are refused reports an alert and sets its gauge.
  For a rejection threshold of at most 0.05 and a guardrail of at least 0.05 it does not: there the alert comes no earlier.
\<close>

theorem guardrail_before_rejection:
  assumes "evaluate_guardrails st p b m = (Inr r, m')"
  shows "(os_db_pool_saturation_threshold st > 5 / 100 \<longrightarrow> gr_db_guardrail r < os_db_pool_saturation_threshold st
      \<and> (is_saturated (os_db_pool_saturation_threshold st) p \<longrightarrow>
          gr_alerts r \<and> map_of (me_gauges m') ''guardrail.alert.db'' = Some 1))
    \<and> (os_db_pool_saturation_threshold st \<le> 5 / 100 \<and> os_db_guardrail_threshold st = Some g \<and> g \<ge> 5 / 100 \<longrightarrow>
        os_db_pool_saturation_threshold st \<le> gr_db_guardrail r)"
proof -
  from assms obtain guard where g: "os_db_guardrail_threshold st = Some guard"
    "gr_db_guardrail r = guardrail_threshold guard (os_db_pool_saturation_threshold st)"
    "gr_db_guardrail r \<le> ps_saturation (get_stats p) \<Longrightarrow> gr_alerts r"
    "map_of (me_gauges m') ''guardrail.alert.db'' = Some (if gr_db_guardrail r \<le> ps_saturation (get_stats p) then 1 else 0)"
    by (rule evaluate_guardrails_Inr) blast
  have below: "gr_db_guardrail r < os_db_pool_saturation_threshold st" if "os_db_pool_saturation_threshold st > 5 / 100"
    using that by (simp add: g(2) guardrail_threshold_def)
  have "gr_db_guardrail r \<le> ps_saturation (get_stats p)"
    if "os_db_pool_saturation_threshold st > 5 / 100" "is_saturated (os_db_pool_saturation_threshold st) p"
    using below [OF that(1)] that(2) unfolding is_saturated_def by linarith
  moreover have "os_db_pool_saturation_threshold st \<le> gr_db_guardrail r"
    if "os_db_pool_saturation_threshold st \<le> 5 / 100" "g \<ge> 5 / 100" "guard = g"
    using that by (simp add: g(2) guardrail_threshold_def)
  ultimately show ?thesis using below g(1,3,4) by simp
qed

definition sample_ops :: ops_settings where
  "sample_ops = \<lparr>os_app_env = Some ''prod'', os_broker_max_connections = Some 100, os_broker_saturation_threshold = Some (8 / 10),
     os_worker_concurrency = Some None, os_max_tasks_per_child = Some None, os_db_guardrail_threshold = Some (9 / 10),
     os_db_pool_saturation_threshold = 9 / 10, os_db_pool_size = 10, os_required_queues = Some ''sla, webhooks'',
     os_probe_timeout = Some 5, os_strict_bindings = Some True, os_always_eager = False\<rparr>"

definition full_pool :: pool where
  "full_pool = \<lparr>po_size = 10, po_max_overflow = 20, po_checked_out = 30, po_checked_in = 0, po_overflow = 20\<rparr>"

theorem guardrail_before_rejection_witness:
  "\<exists>r m'. evaluate_guardrails sample_ops full_pool No_app no_metrics = (Inr r, m') \<and> gr_alerts r
    \<and> map_of (me_gauges m') ''guardrail.alert.db'' = Some 1"
proof -
  obtain r m' where e: "evaluate_guardrails sample_ops full_pool No_app no_metrics = (Inr r, m')"
    by (simp add: evaluate_guardrails_def sample_ops_def measure_broker_stress_def Let_def)
  have "py_round 4 1 = (1 :: real)" by (simp add: py_round_def)
  then have "is_saturated (9 / 10) full_pool" by (simp add: is_saturated_def get_stats_def full_pool_def)
  then show ?thesis using guardrail_before_rejection [OF e] e by (simp add: sample_ops_def)
qed

section \<open>Queue bindings and health\<close>

definition all_bound :: "string \<Rightarrow> (string + (string \<times> json) list) \<Rightarrow> bool" where
  "all_bound v inspect \<longleftrightarrow>
    (case inspect of Inl _ \<Rightarrow> required_queue_names v = [] | Inr active \<Rightarrow> set (required_queue_names v) \<subseteq> set (observed_queues active))"

lemma none_missing: "filter (\<lambda>n. n \<notin> S) xs = [] \<longleftrightarrow> set xs \<subseteq> S"
  by (auto simp: filter_empty_conv)

lemma verify_cases:
  assumes "os_probe_timeout st = Some t" "os_required_queues st = Some v" "s0 = Some flag \<or> s0 = None \<and> os_strict_bindings st = Some flag"
  shows "if all_bound v inspect then \<exists>r. verify_queue_bindings st inspect None s0 = Inr r \<and> pr_ok r
    else if flag then \<exists>x. verify_queue_bindings st inspect None s0 = Inl (RuntimeError x)
    else \<exists>r. verify_queue_bindings st inspect None s0 = Inr r \<and> \<not> pr_ok r"
proof -
  have fl: "(case s0 of Some b \<Rightarrow> Inr b | None \<Rightarrow> attr ''CELERY_STRICT_QUEUE_BINDINGS'' (os_strict_bindings st)) = Inr flag"
    using assms(3) by auto
  show ?thesis
    by (cases inspect; cases "required_queue_names v = []")
      (simp_all add: verify_queue_bindings_def fl assms(1,2) all_bound_def Let_def none_missing)
qed

text \<open>
  A worker outside of eager mode with all settings present leaves with status 1 exactly in strict mode when a required
  queue is not among those the workers report, or the workers cannot be asked; the readiness endpoint answers 200
  exactly when the database, the broker and every required queue are there, and 503 otherwise.
\<close>

theorem worker_boot_spec:
  assumes "os_always_eager st = False" "os_probe_timeout st = Some t" "os_strict_bindings st = Some strict" "os_required_queues st = Some v"
  shows "on_worker_ready st inspect = (if strict \<and> \<not> all_bound v inspect then Exit 1 else Ready)
    \<and> fst (readiness_endpoint st db_ok celery_ok inspect) = (if db_ok \<and> celery_ok \<and> all_bound v inspect then 200 else 503)"
  using verify_cases [OF assms(2,4), of None strict inspect] verify_cases [OF assms(2,4), of "Some False" False inspect] assms(1,3)
  by (auto simp: on_worker_ready_def readiness_endpoint_def check_worker_queue_bindings_def Let_def split: if_splits)

theorem worker_boot_spec_witness:
  "on_worker_ready sample_ops (Inr [(''w1'', JArr [JObj [(''name'', JStr ''sla'')]])]) = Exit 1"
proof -
  have "\<not> all_bound ''sla, webhooks'' (Inr [(''w1'', JArr [JObj [(''name'', JStr ''sla'')]])])"
    by (simp add: all_bound_def required_queue_names_def observed_queues_def queue_name_of_def strip_def is_space_def)
  then show ?thesis using worker_boot_spec [of sample_ops 5 True "''sla, webhooks''"] by (simp add: sample_ops_def)
qed

text \<open>
  With the settings the class declares, none of this is reached: the readiness and worker endpoints answer 503 whatever
  the state of database, broker and queues, the guardrail task raises without touching a gauge, the
  concurrency endpoint reports ok with an error in the body whatever the load, and a worker that is not eager never leaves.
\<close>

theorem undeclared_settings:
  assumes "st = declared_settings sat size0 eager"
  shows "fst (readiness_endpoint st db_ok celery_ok inspect) = 503 \<and> fst (worker_health st inspect) = 503
    \<and> (\<exists>e. evaluate_guardrails st p b m = (Inl (AttributeError e), m))
    \<and> (\<exists>e. concurrency_health st p b m = ((''ok'', Inl e), m)) \<and> (\<forall>i. on_worker_ready st inspect \<noteq> Exit i)"
  unfolding assms
  by (simp add: declared_settings_def readiness_endpoint_def worker_health_def check_worker_queue_bindings_def verify_queue_bindings_def
      evaluate_guardrails_def measure_broker_stress_def concurrency_health_def guardrails_dict_def get_profile_def on_worker_ready_def
      attr_def Let_def)

theorem undeclared_settings_witness:
  "fst (readiness_endpoint (declared_settings (9 / 10) 10 False) True True (Inr [(''w1'', JArr [])])) = 503"
  using undeclared_settings [OF refl, of "9 / 10" 10 False True True] by simp

end
