(* ===== verification/Gateway.thy ===== *)
theory Gateway
  imports Operations
begin

text \<open>
  What a request passes before it reaches a handler: the middleware of \<open>app/middleware/\<close> and \<open>app/core/rate_limiter.py\<close> in the
  order in which \<open>app/main.py\<close> stacks it, outermost first: deprecation header, body size by route, version header,
  token bucket per client, CORS, payload size, correlation, pool saturation.

  A middleware turns the handler it wraps into a handler. Clock readings, the state of the pool and the generated
  identifier come with the environment; the CORS middleware of the framework is an argument.
\<close>

section \<open>Integers in headers\<close>

text \<open>\<open>int(text)\<close>: surrounding white space, a sign, and decimal digits with single underscores between them.\<close>

fun digits_value :: "nat \<Rightarrow> string \<Rightarrow> nat option" where
  "digits_value acc [] = Some acc"
| "digits_value acc (c # cs) =
    (if is_digit c then digits_value (10 * acc + (of_char c - 48)) cs
     else if c = CHR ''_'' \<and> cs \<noteq> [] \<and> is_digit (hd cs) then digits_value acc cs else None)"

definition parse_nat :: "string \<Rightarrow> nat option" where
  "parse_nat s = (if s = [] \<or> \<not> is_digit (hd s) then None else digits_value 0 s)"

definition parse_int :: "string \<Rightarrow> int option" where
  "parse_int text0 =
    (case strip text0 of
       CHR ''-'' # s \<Rightarrow> map_option (\<lambda>n. - int n) (parse_nat s)
     | CHR ''+'' # s \<Rightarrow> map_option int (parse_nat s)
     | s \<Rightarrow> map_option int (parse_nat s))"

section \<open>Requests, replies and state\<close>

record request =
  rq_method :: string
  rq_path :: string
  rq_client :: "string option"
  rq_content_length :: "string option"
  rq_correlation :: "string option"
  rq_chunks :: "string list"
  rq_read_limit :: "nat option"

record reply =
  ry_status :: nat
  ry_headers :: "(string \<times> string) list"
  ry_body :: string

record token_bucket =
  tb_capacity :: int
  tb_tokens :: real
  tb_refill_rate :: real
  tb_last_refill :: real

record gateway =
  gw_buckets :: "(string \<times> token_bucket) list"
  gw_saturated_since :: "real option"

record gateway_env =
  ge_monotonic :: real
  ge_time :: real
  ge_pool :: pool
  ge_context :: "string option"
  ge_uuid :: string
  ge_render :: "json \<Rightarrow> string"

record gateway_settings =
  gs_version :: string
  gs_v1_prefix :: string
  gs_max_body :: int
  gs_saturation_threshold :: real
  gs_reject_after :: int
  gs_capacity :: int
  gs_refill_rate :: real

type_synonym handler = "request \<Rightarrow> gateway \<Rightarrow> reply res \<times> gateway"

definition on_reply :: "(reply \<Rightarrow> reply) \<Rightarrow> reply res \<times> gateway \<Rightarrow> reply res \<times> gateway" where
  "on_reply f r = (case r of (Inl e, g) \<Rightarrow> (Inl e, g) | (Inr y, g) \<Rightarrow> (Inr (f y), g))"

definition set_header :: "string \<Rightarrow> string \<Rightarrow> reply \<Rightarrow> reply" where
  "set_header k v y = y\<lparr>ry_headers := AList.update k v (ry_headers y)\<rparr>"

definition JSONResponse :: "gateway_env \<Rightarrow> nat \<Rightarrow> (string \<times> json) list \<Rightarrow> reply" where
  "JSONResponse env code content = \<lparr>ry_status = code, ry_headers = [], ry_body = ge_render env (JObj content)\<rparr>"

section \<open>Token bucket\<close>

definition new_bucket :: "real \<Rightarrow> int \<Rightarrow> real \<Rightarrow> token_bucket" where
  "new_bucket now capacity refill_rate =
    \<lparr>tb_capacity = capacity, tb_tokens = real_of_int capacity, tb_refill_rate = refill_rate, tb_last_refill = now\<rparr>"

definition consume :: "real \<Rightarrow> token_bucket \<Rightarrow> bool \<times> token_bucket" where
  "consume now b =
    (let elapsed = now - tb_last_refill b;
         tokens = min (real_of_int (tb_capacity b)) (tb_tokens b + elapsed * tb_refill_rate b)
     in if tokens \<ge> 1 then (True, b\<lparr>tb_tokens := tokens - 1, tb_last_refill := now\<rparr>)
        else (False, b\<lparr>tb_tokens := tokens, tb_last_refill := now\<rparr>))"

definition get_bucket :: "real \<Rightarrow> string \<Rightarrow> int \<Rightarrow> real \<Rightarrow> (string \<times> token_bucket) list \<Rightarrow> token_bucket \<times> (string \<times> token_bucket) list" where
  "get_bucket now key capacity refill_rate buckets =
    (case map_of buckets key of
       Some b \<Rightarrow> (b, buckets)
     | None \<Rightarrow> (let b = new_bucket now capacity refill_rate in (b, AList.update key b buckets)))"

definition rate_key :: "request \<Rightarrow> string" where
  "rate_key rq = build_key RATE_LIMIT [case rq_client rq of Some ip \<Rightarrow> ip | None \<Rightarrow> ''unknown'']"

text \<open>The bucket is shared by reference: \<open>consume\<close> updates it in the dictionary.\<close>

definition admit :: "real \<Rightarrow> string \<Rightarrow> int \<Rightarrow> real \<Rightarrow> (string \<times> token_bucket) list \<Rightarrow> bool \<times> (string \<times> token_bucket) list" where
  "admit now key capacity refill_rate buckets =
    (let (b, buckets1) = get_bucket now key capacity refill_rate buckets; (ok, b1) = consume now b
     in (ok, AList.update key b1 buckets1))"

definition too_many_requests :: string where
  "too_many_requests = ''{'' @ [CHR 34] @ ''detail'' @ [CHR 34] @ '':'' @ [CHR 34] @ ''Too Many Requests'' @ [CHR 34] @ ''}''"

definition rate_limiter :: "gateway_settings \<Rightarrow> gateway_env \<Rightarrow> handler \<Rightarrow> handler" where
  "rate_limiter cfg env next_handler rq gw =
    (let (ok, buckets) = admit (ge_monotonic env) (rate_key rq) (gs_capacity cfg) (gs_refill_rate cfg) (gw_buckets gw);
         gw1 = gw\<lparr>gw_buckets := buckets\<rparr>
     in if ok then next_handler rq gw1
        else (Inr \<lparr>ry_status = 429, ry_headers = [], ry_body = too_many_requests\<rparr>, gw1))"

section \<open>Size limits\<close>

definition ROUTE_LIMITS :: "(string \<times> int) list" where
  "ROUTE_LIMITS =
    [(''/bulk'', 10485760), (''/webhook'', 1048576), (''/api/v1/auth'', 1024), (''/api/v1/outages'', 10240),
     (''/api/v1/payments'', 10240), (''/api/v1/wallets'', 10240), (''/api/v1/sla'', 10240)]"

definition SIZE_LABELS :: "(int \<times> string) list" where
  "SIZE_LABELS = [(1024, ''1 KB''), (10240, ''10 KB''), (1048576, ''1 MB''), (10485760, ''10 MB'')]"

definition get_limit :: "string \<Rightarrow> int \<times> string" where
  "get_limit path =
    (let limit = (case find (\<lambda>(p, l). startswith path p) ROUTE_LIMITS of Some (p, l) \<Rightarrow> l | None \<Rightarrow> 10240)
     in (limit, case map_of SIZE_LABELS limit of Some l \<Rightarrow> l | None \<Rightarrow> str_int limit @ '' bytes''))"

definition body_size_limiter :: "gateway_env \<Rightarrow> handler \<Rightarrow> handler" where
  "body_size_limiter env next_handler rq gw =
    (if rq_method rq \<in> {''GET'', ''DELETE'', ''OPTIONS'', ''HEAD''} then next_handler rq gw
     else (case rq_content_length rq of
       None \<Rightarrow> next_handler rq gw
     | Some content_length \<Rightarrow>
       (let (limit, label) = get_limit (rq_path rq) in
        case parse_int content_length of
          None \<Rightarrow> (Inl (ValueError (''invalid literal for int() with base 10: '' @ quoted content_length)), gw)
        | Some body_size \<Rightarrow>
          if body_size > limit then
            (Inr (JSONResponse env 413
               [(''detail'', JStr (''Request body too large. Maximum allowed size for this endpoint is '' @ label @ ''.'')),
                (''max_size_bytes'', JInt limit), (''received_size_bytes'', JInt body_size), (''path'', JStr (rq_path rq))]), gw)
          else next_handler rq gw)))"

definition too_large :: "gateway_settings \<Rightarrow> exc" where
  "too_large cfg = HTTPException 413 (''Request body too large. Maximum allowed size is '' @ str_int (gs_max_body cfg) @ '' bytes.'')"

definition payload_size :: "gateway_settings \<Rightarrow> handler \<Rightarrow> handler" where
  "payload_size cfg next_handler rq gw =
    (if rq_method rq \<in> {''GET'', ''HEAD'', ''OPTIONS''} then next_handler rq gw
     else if (case rq_content_length rq of
                Some c \<Rightarrow> c \<noteq> [] \<and> (case parse_int c of Some n \<Rightarrow> n > gs_max_body cfg | None \<Rightarrow> False)
              | None \<Rightarrow> False)
     then (Inl (too_large cfg), gw)
     else next_handler (rq\<lparr>rq_read_limit := Some (nat (gs_max_body cfg))\<rparr>) gw)"

text \<open>Reading the body through \<open>size_limited_receive\<close>: the message that crosses the limit raises.\<close>

fun receive_all :: "gateway_settings \<Rightarrow> nat \<Rightarrow> string list \<Rightarrow> string list res" where
  "receive_all cfg total_body_size [] = Inr []"
| "receive_all cfg total_body_size (chunk # rest) =
    (let size1 = total_body_size + length chunk in
     if int size1 > gs_max_body cfg then Inl (too_large cfg)
     else (case receive_all cfg size1 rest of Inl e \<Rightarrow> Inl e | Inr cs \<Rightarrow> Inr (chunk # cs)))"

definition read_body :: "gateway_settings \<Rightarrow> request \<Rightarrow> string res" where
  "read_body cfg rq =
    (if rq_read_limit rq = None then Inr (concat (rq_chunks rq))
     else (case receive_all cfg 0 (rq_chunks rq) of Inl e \<Rightarrow> Inl e | Inr cs \<Rightarrow> Inr (concat cs)))"

section \<open>Correlation\<close>

definition correlation_id_of :: "gateway_env \<Rightarrow> request \<Rightarrow> string" where
  "correlation_id_of env rq =
    (case rq_correlation rq of
       Some c \<Rightarrow> if c \<noteq> [] then c else (case ge_context env of Some x \<Rightarrow> x | None \<Rightarrow> ge_uuid env)
     | None \<Rightarrow> (case ge_context env of Some x \<Rightarrow> x | None \<Rightarrow> ge_uuid env))"

text \<open>
  The body is read to its end and handed to \<open>_single_body_iterator\<close>, which is defined nowhere; the \<open>NameError\<close> is
  swallowed and the reply keeps the exhausted iterator.
\<close>

definition correlation :: "gateway_env \<Rightarrow> handler \<Rightarrow> handler" where
  "correlation env next_handler rq gw =
    on_reply (\<lambda>y. set_header ''X-Correlation-ID'' (correlation_id_of env rq) y\<lparr>ry_body := []\<rparr>) (next_handler rq gw)"

definition correlation_exception_handler :: "gateway_env \<Rightarrow> exc \<Rightarrow> reply" where
  "correlation_exception_handler env e =
    (let corr_id = (case ge_context env of Some c \<Rightarrow> if c \<noteq> [] then c else ge_uuid env | None \<Rightarrow> ge_uuid env)
     in (JSONResponse env 500 [(''error'', JStr (exc_msg e)), (''correlation_id'', JStr corr_id)])\<lparr>ry_headers := [(''X-Correlation-ID'', corr_id)]\<rparr>)"

section \<open>Pool saturation\<close>

definition saturation_check :: "gateway_settings \<Rightarrow> real \<Rightarrow> bool \<Rightarrow> real option \<Rightarrow> nat option \<times> real option" where
  "saturation_check cfg now saturated since =
    (if saturated then
       (case since of
          None \<Rightarrow> (Some 530, Some now)
        | Some t \<Rightarrow> if now - t > real_of_int (gs_reject_after cfg) then (Some 503, since) else (Some 530, since))
     else (None, None))"

definition pool_saturation :: "gateway_settings \<Rightarrow> gateway_env \<Rightarrow> handler \<Rightarrow> handler" where
  "pool_saturation cfg env next_handler rq gw =
    (let (code, since) = saturation_check cfg (ge_time env) (is_saturated (gs_saturation_threshold cfg) (ge_pool env)) (gw_saturated_since gw);
         gw1 = gw\<lparr>gw_saturated_since := since\<rparr>
     in case code of
          None \<Rightarrow> next_handler rq gw1
        | Some c \<Rightarrow> (Inr (JSONResponse env c
            [(''detail'', JStr (if c = 503 then ''Service temporarily unavailable: connection pool exhausted'' else ''Connection pool saturation detected''))]), gw1))"

section \<open>The stack\<close>

definition add_api_version_header :: "gateway_settings \<Rightarrow> handler \<Rightarrow> handler" where
  "add_api_version_header cfg next_handler rq gw = on_reply (set_header ''X-API-Version'' (gs_version cfg)) (next_handler rq gw)"

definition add_v1_deprecation_header :: "gateway_settings \<Rightarrow> handler \<Rightarrow> handler" where
  "add_v1_deprecation_header cfg next_handler rq gw =
    on_reply (\<lambda>y. if startswith (rq_path rq) (gs_v1_prefix cfg)
      then set_header ''Sunset'' ''2027-01-01T00:00:00Z'' (set_header ''Deprecation'' ''true'' y) else y) (next_handler rq gw)"

definition serve :: "gateway_settings \<Rightarrow> gateway_env \<Rightarrow> (handler \<Rightarrow> handler) \<Rightarrow> handler \<Rightarrow> handler" where
  "serve cfg env cors app =
    add_v1_deprecation_header cfg (body_size_limiter env (add_api_version_header cfg (rate_limiter cfg env
      (cors (payload_size cfg (correlation env (pool_saturation cfg env app)))))))"

end
