(* ===== verification/GatewayLaws.thy ===== *)
theory GatewayLaws
  imports Gateway OperationLaws
begin

text \<open>
  Laws of the gateway: the token bucket bounds what a client gets through in every window, the pool refusals depend on
  the current run of saturation only, the size limits, and what the stack makes of an answer of the application.
\<close>

section \<open>Token bucket\<close>

definition bucket_ok :: "int \<Rightarrow> real \<Rightarrow> real \<Rightarrow> token_bucket \<Rightarrow> bool" where
  "bucket_ok cap rate now b \<longleftrightarrow> tb_capacity b = cap \<and> tb_refill_rate b = rate \<and> 0 \<le> tb_tokens b \<and> tb_tokens b \<le> real_of_int cap
     \<and> tb_last_refill b \<le> now"

definition buckets_ok :: "int \<Rightarrow> real \<Rightarrow> real \<Rightarrow> (string \<times> token_bucket) list \<Rightarrow> bool" where
  "buckets_ok cap rate now bs \<longleftrightarrow> (\<forall>k b. map_of bs k = Some b \<longrightarrow> bucket_ok cap rate now b)"

lemma consume_ok:
  assumes "bucket_ok cap rate now b" "0 \<le> rate" "consume now b = (ok, b')"
  shows "bucket_ok cap rate now b'" "tb_last_refill b' = now"
    "tb_tokens b' + (if ok then 1 else 0) \<le> tb_tokens b + (now - tb_last_refill b) * rate"
    "tb_tokens b' + (if ok then 1 else 0) \<le> real_of_int cap"
proof -
  have "0 \<le> (now - tb_last_refill b) * rate" using assms by (simp add: bucket_ok_def)
  then show "bucket_ok cap rate now b'" "tb_last_refill b' = now"
    "tb_tokens b' + (if ok then 1 else 0) \<le> tb_tokens b + (now - tb_last_refill b) * rate"
    "tb_tokens b' + (if ok then 1 else 0) \<le> real_of_int cap"
    using assms by (auto simp: consume_def bucket_ok_def Let_def split: if_splits)
qed

lemma admit_other: "k \<noteq> key \<Longrightarrow> admit now key cap rate bs = (ok, bs') \<Longrightarrow> map_of bs' k = map_of bs k"
  by (auto simp: admit_def get_bucket_def update_conv' Let_def split: option.splits prod.splits)

lemma admit_key:
  assumes "admit now key cap rate bs = (ok, bs')"
  obtains b b' where "consume now b = (ok, b')" "map_of bs' key = Some b'"
    "b = (case map_of bs key of Some b \<Rightarrow> b | None \<Rightarrow> new_bucket now cap rate)"
  using assms that by (auto simp: admit_def get_bucket_def update_conv' Let_def split: option.splits prod.splits)

lemma new_bucket_ok: "0 \<le> cap \<Longrightarrow> bucket_ok cap rate now (new_bucket now cap rate)"
  by (simp add: bucket_ok_def new_bucket_def)

lemma buckets_ok_later: "buckets_ok cap rate now bs \<Longrightarrow> now \<le> t \<Longrightarrow> buckets_ok cap rate t bs"
  by (fastforce simp: buckets_ok_def bucket_ok_def)

lemma admit_keeps:
  assumes "buckets_ok cap rate now bs" "0 \<le> cap" "0 \<le> rate" "admit now key cap rate bs = (ok, bs')"
  shows "buckets_ok cap rate now bs'"
proof -
  obtain b b' where c: "consume now b = (ok, b')" "map_of bs' key = Some b'"
    "b = (case map_of bs key of Some b \<Rightarrow> b | None \<Rightarrow> new_bucket now cap rate)" using admit_key [OF assms(4)] .
  have "bucket_ok cap rate now b"
    using assms(1) new_bucket_ok [OF assms(2)] by (auto simp: c(3) buckets_ok_def split: option.splits)
  then have "bucket_ok cap rate now b'" using consume_ok(1) assms(3) c(1) by blast
  then show ?thesis using assms(1) admit_other [OF _ assms(4)] c(2) by (auto simp: buckets_ok_def) (metis option.inject)
qed

text \<open>The requests that get through, and the buckets they leave.\<close>

fun admitted :: "int \<Rightarrow> real \<Rightarrow> (real \<times> string) list \<Rightarrow> (string \<times> token_bucket) list \<Rightarrow> (real \<times> string) list \<times> (string \<times> token_bucket) list" where
  "admitted cap rate [] bs = ([], bs)"
| "admitted cap rate ((now, key) # rs) bs =
    (let (ok, bs1) = admit now key cap rate bs; (ps, bs2) = admitted cap rate rs bs1 in (if ok then (now, key) # ps else ps, bs2))"

definition through :: "string \<Rightarrow> (real \<times> string) list \<Rightarrow> nat" where
  "through k ps = length (filter (\<lambda>r. snd r = k) ps)"

lemma admitted_step:
  assumes "admit now key cap rate bs = (ok, bs1)"
  shows "through k (fst (admitted cap rate ((now, key) # rs) bs)) = (if ok \<and> key = k then 1 else 0) + through k (fst (admitted cap rate rs bs1))"
    "snd (admitted cap rate ((now, key) # rs) bs) = snd (admitted cap rate rs bs1)"
  using assms by (auto simp: through_def split: prod.splits)

lemma admitted_keeps:
  assumes "buckets_ok cap rate t0 bs" "0 \<le> cap" "0 \<le> rate" "sorted (map fst rs)" "\<forall>r \<in> set rs. t0 \<le> fst r \<and> fst r \<le> t1" "t0 \<le> t1"
  shows "buckets_ok cap rate t1 (snd (admitted cap rate rs bs))"
  using assms
proof (induction rs arbitrary: t0 bs)
  case (Cons r rs)
  obtain now key where r: "r = (now, key)" by (metis prod.exhaust)
  obtain ok bs1 where a: "admit now key cap rate bs = (ok, bs1)" by (metis prod.exhaust)
  have "buckets_ok cap rate now bs" using buckets_ok_later Cons.prems(1,5) r by simp
  from admit_keeps [OF this Cons.prems(2,3) a] have "buckets_ok cap rate now bs1" .
  from Cons.IH [OF this Cons.prems(2,3)] Cons.prems show ?case by (simp add: r admitted_step [OF a] del: admitted.simps)
next
  case Nil
  then show ?case using buckets_ok_later by simp
qed

lemma through_bucket:
  assumes "map_of bs k = Some b" "bucket_ok cap rate t0 b" "0 \<le> rate" "tb_last_refill b \<le> t1"
    "sorted (map fst rs)" "\<forall>r \<in> set rs. tb_last_refill b \<le> fst r \<and> fst r \<le> t1"
  shows "real (through k (fst (admitted cap rate rs bs))) \<le> tb_tokens b + (t1 - tb_last_refill b) * rate"
  using assms
proof (induction rs arbitrary: bs b t0)
  case Nil
  have "0 \<le> (t1 - tb_last_refill b) * rate" using Nil.prems by simp
  then show ?case using Nil.prems by (simp add: through_def bucket_ok_def)
next
  case (Cons r rs)
  obtain now key where r: "r = (now, key)" by (metis prod.exhaust)
  obtain ok bs1 where a: "admit now key cap rate bs = (ok, bs1)" by (metis prod.exhaust)
  show ?case
  proof (cases "key = k")
    case False
    then have "map_of bs1 k = Some b" using admit_other [OF _ a] Cons.prems(1) by metis
    from Cons.IH [OF this Cons.prems(2-4)] Cons.prems(5,6) False show ?thesis by (simp add: r admitted_step [OF a] del: admitted.simps)
  next
    case True
    obtain b' where c: "consume now b = (ok, b')" "map_of bs1 k = Some b'" using admit_key [OF a] Cons.prems(1) True by force
    have now: "tb_last_refill b \<le> now" "now \<le> t1" using Cons.prems(6) r by auto
    then have b: "bucket_ok cap rate now b" using Cons.prems(2) by (simp add: bucket_ok_def)
    note c' = consume_ok [OF b Cons.prems(3) c(1)]
    have "real (through k (fst (admitted cap rate rs bs1))) \<le> tb_tokens b' + (t1 - now) * rate"
      using Cons.IH [OF c(2) c'(1) Cons.prems(3)] Cons.prems(5) c'(2) now Cons.prems(6) r by simp
    then have "real (through k (fst (admitted cap rate rs bs1))) + (if ok then 1 else 0) \<le> tb_tokens b + (t1 - tb_last_refill b) * rate"
      using c'(3) by (simp add: algebra_simps split: if_splits)
    then show ?thesis by (cases ok) (simp_all add: r True admitted_step [OF a [unfolded True]] del: admitted.simps)
  qed
qed

lemma through_window:
  assumes "buckets_ok cap rate t0 bs" "0 \<le> cap" "0 \<le> rate" "t0 \<le> t1" "sorted (map fst rs)" "\<forall>r \<in> set rs. t0 \<le> fst r \<and> fst r \<le> t1"
  shows "real (through k (fst (admitted cap rate rs bs))) \<le> real_of_int cap + (t1 - t0) * rate"
  using assms
proof (induction rs arbitrary: bs t0)
  case Nil
  then show ?case by (simp add: through_def)
next
  case (Cons r rs)
  obtain now key where r: "r = (now, key)" by (metis prod.exhaust)
  obtain ok bs1 where a: "admit now key cap rate bs = (ok, bs1)" by (metis prod.exhaust)
  have now: "t0 \<le> now" "now \<le> t1" using Cons.prems(6) r by auto
  have okn: "buckets_ok cap rate now bs" using buckets_ok_later Cons.prems(1) now by blast
  have less: "(t1 - now) * rate \<le> (t1 - t0) * rate" using now Cons.prems(3) by (intro mult_right_mono) auto
  show ?case
  proof (cases "key = k")
    case False
    have "real (through k (fst (admitted cap rate rs bs1))) \<le> real_of_int cap + (t1 - now) * rate"
      using Cons.IH [OF admit_keeps [OF okn Cons.prems(2,3) a] Cons.prems(2,3)] Cons.prems(5) now(2) Cons.prems(6) r by simp
    then show ?thesis using less False by (simp add: r admitted_step [OF a] del: admitted.simps)
  next
    case True
    obtain b b' where c: "consume now b = (ok, b')" "map_of bs1 k = Some b'"
      "b = (case map_of bs k of Some b \<Rightarrow> b | None \<Rightarrow> new_bucket now cap rate)" using admit_key [OF a] True by metis
    have "bucket_ok cap rate now b" using okn new_bucket_ok [OF Cons.prems(2)] by (auto simp: c(3) buckets_ok_def split: option.splits)
    note c' = consume_ok [OF this Cons.prems(3) c(1)]
    have "real (through k (fst (admitted cap rate rs bs1))) \<le> tb_tokens b' + (t1 - now) * rate"
      using through_bucket [OF c(2) c'(1) Cons.prems(3)] c'(2) Cons.prems(5) now(2) Cons.prems(6) r by simp
    then show ?thesis using c'(4) less by (simp add: r True admitted_step [OF a [unfolded True]] del: admitted.simps split: if_splits)
  qed
qed

text \<open>
  C22. Whatever all clients send before, from an empty limiter on, no client gets more than the capacity plus the refill rate
  times its length through in any window of time.
\<close>

theorem token_bucket_bound:
  assumes "0 \<le> cap" "0 \<le> rate" "sorted (map fst (earlier @ window))" "\<forall>r \<in> set earlier. fst r \<le> t0" "\<forall>r \<in> set window. t0 \<le> fst r \<and> fst r \<le> t1" "t0 \<le> t1"
  shows "real (through k (fst (admitted cap rate window (snd (admitted cap rate earlier []))))) \<le> real_of_int cap + (t1 - t0) * rate"
proof -
  define s where "s = (if earlier = [] then t0 else fst (hd earlier))"
  have "s \<le> t0" "\<forall>r \<in> set earlier. s \<le> fst r \<and> fst r \<le> t0" using assms(3,4) by (cases earlier; auto simp: s_def)+
  moreover have "buckets_ok cap rate s []" by (simp add: buckets_ok_def)
  ultimately have "buckets_ok cap rate t0 (snd (admitted cap rate earlier []))"
    using admitted_keeps [of cap rate s "[]" earlier t0] assms(1-3) by (simp add: sorted_append)
  from through_window [OF this assms(1,2,6)] assms(3,5) show ?thesis by (simp add: sorted_append)
qed

theorem token_bucket_bound_witness:
  "through ''rate-limit:a'' (fst (admitted 2 1 [(0, ''rate-limit:a''), (0, ''rate-limit:a''), (0, ''rate-limit:a'')] [])) \<le> 2"
  using token_bucket_bound [of 2 1 "[]" "[(0, ''rate-limit:a''), (0, ''rate-limit:a''), (0, ''rate-limit:a'')]" 0 0 "''rate-limit:a''"] by simp

section \<open>Pool refusals\<close>

definition since_after :: "gateway_settings \<Rightarrow> (real \<times> bool) list \<Rightarrow> real option" where
  "since_after cfg rs = foldl (\<lambda>since (now, saturated). snd (saturation_check cfg now saturated since)) None rs"

text \<open>The requests of the current run of saturation, oldest first.\<close>

definition saturated_run :: "(real \<times> bool) list \<Rightarrow> (real \<times> bool) list" where
  "saturated_run rs = rev (takeWhile snd (rev rs))"

lemma since_after_run: "since_after cfg rs = (case saturated_run rs of [] \<Rightarrow> None | r # _ \<Rightarrow> Some (fst r))"
proof (induction rs rule: rev_induct)
  case (snoc r rs)
  obtain now sat where r: "r = (now, sat)" by (metis prod.exhaust)
  show ?case
    using snoc by (auto simp: r since_after_def saturated_run_def saturation_check_def split: list.splits)
qed (simp add: since_after_def saturated_run_def)

text \<open>
  What the pool middleware answers depends on the current run of saturated requests only: an unsaturated pool lets the
  request through and forgets the run; the first request of a run is refused with 530, later ones with 530 up to the
  configured time since the first and with 503 after it.
\<close>

theorem pool_refusals:
  "fst (saturation_check cfg now saturated (since_after cfg rs)) =
    (if \<not> saturated then None
     else if saturated_run rs \<noteq> [] \<and> now - fst (hd (saturated_run rs)) > real_of_int (gs_reject_after cfg) then Some 503 else Some 530)
   \<and> snd (saturation_check cfg now saturated (since_after cfg rs)) = since_after cfg (rs @ [(now, saturated)])"
  by (auto simp: since_after_run saturation_check_def split: list.splits)
    (auto simp: saturated_run_def)

section \<open>Sizes\<close>

lemma digits_value_append:
  "list_all is_digit a \<Longrightarrow> digits_value n (a @ b) = digits_value (foldl (\<lambda>n c. 10 * n + (of_char c - 48)) n a) b"
  by (induction a arbitrary: n) auto

lemma digits_value_str: "digits_value 0 (str_nat n) = Some n"
proof (induction n rule: str_nat.induct)
  case (1 n)
  have d: "of_char (digit_char d) - 48 = d \<and> is_digit (digit_char d)" if "d < 10" for d
    using that is_digit_digit_char [OF that] by (simp add: digit_char_def of_char_of)
  show ?case
  proof (cases "n < 10")
    case True
    then show ?thesis using d [of n] by (simp add: str_nat.simps [of n])
  next
    case False
    have "digits_value 0 (str_nat (n div 10) @ []) = Some (foldl (\<lambda>n c. 10 * n + (of_char c - 48)) 0 (str_nat (n div 10)))"
      using digits_value_append [OF str_nat_digits, of 0 "n div 10" "[]"] by simp
    then have "foldl (\<lambda>n c. 10 * n + (of_char c - 48)) 0 (str_nat (n div 10)) = n div 10" using 1 False by simp
    then show ?thesis using False d [of "n mod 10"] digits_value_append [OF str_nat_digits, of 0 "n div 10"]
      by (simp add: str_nat.simps [of n])
  qed
qed

lemma str_nat_head: "\<exists>c cs. str_nat n = c # cs \<and> is_digit c"
  using str_nat_digits [of n] str_nat_nonempty [of n] by (cases "str_nat n") auto

lemma digit_not_space: "is_digit c \<Longrightarrow> \<not> is_space c"
  by (auto simp: is_digit_def is_space_def)

text \<open>The integer a header is parsed to is the one that was rendered, negative ones included.\<close>

theorem parse_int_roundtrip: "parse_int (str_int i) = Some i"
proof -
  have sp: "\<forall>c \<in> set (str_nat n). \<not> is_space c" for n
    using str_nat_digits [of n] digit_not_space by (auto simp: list_all_iff)
  have pn: "parse_nat (str_nat n) = Some n" for n
    using str_nat_head [of n] digits_value_str [of n] by (auto simp: parse_nat_def)
  have nosign: "str_nat n \<noteq> CHR ''-'' # s" "str_nat n \<noteq> CHR ''+'' # s" for n s
    using str_nat_head [of n] by (auto simp: is_digit_def)
  show ?thesis
  proof (cases "i < 0")
    case True
    have "strip (CHR ''-'' # str_nat (nat (- i))) = CHR ''-'' # str_nat (nat (- i))"
      using sp by (intro strip_id) (simp add: is_space_def)
    then show ?thesis using True pn by (simp add: parse_int_def str_int_def)
  next
    case False
    have "parse_int (str_nat (nat i)) = map_option int (parse_nat (str_nat (nat i)))"
      unfolding parse_int_def strip_id [OF sp] using nosign [of "nat i"] by (auto split: list.splits char.splits bool.splits)
    then show ?thesis using False pn by (simp add: str_int_def)
  qed
qed

lemma api_limit: "startswith path ''/api/v1/'' \<Longrightarrow> fst (get_limit path) \<le> 10240"
  by (auto simp: get_limit_def Let_def ROUTE_LIMITS_def startswith_def prefix_def)

lemma receive_all_spec:
  "receive_all cfg n cs = (if int (n + length (concat cs)) \<le> gs_max_body cfg \<or> cs = [] then Inr cs else Inl (too_large cfg))"
  by (induction cs arbitrary: n) (auto simp: Let_def split: sum.splits)

text \<open>A handler that reads the body and goes on with it.\<close>

definition reader :: "gateway_settings \<Rightarrow> (string \<Rightarrow> gateway \<Rightarrow> reply res \<times> gateway) \<Rightarrow> handler" where
  "reader cfg k rq g = (case read_body cfg rq of Inl e \<Rightarrow> (Inl e, g) | Inr b \<Rightarrow> k b g)"

text \<open>
  The two size limits. A declared length is compared with the limit of the route: on every path below
  \<open>/api/v1/\<close>, bulk imports included, a request that announces more than 10 KB is refused with 413; without a declared length the
  limit of the route is not applied. The second middleware is exact: the application gets the whole body unless the
  declared or the actual length exceeds the configured maximum, and then 413 is raised.
\<close>

theorem size_limits:
  assumes "rq_method rq \<notin> {''GET'', ''DELETE'', ''OPTIONS'', ''HEAD''}" "0 \<le> gs_max_body cfg"
  shows "(startswith (rq_path rq) ''/api/v1/'' \<and> rq_content_length rq = Some (str_int n) \<and> n > 10240 \<longrightarrow>
      (\<exists>y. body_size_limiter env next_handler rq gw = (Inr y, gw) \<and> ry_status y = 413))
    \<and> (rq_content_length rq = None \<longrightarrow> body_size_limiter env next_handler rq gw = next_handler rq gw)
    \<and> (rq_content_length rq \<in> {None, Some (str_int n)} \<longrightarrow>
        payload_size cfg (reader cfg k) rq gw =
          (if rq_content_length rq \<noteq> None \<and> n > gs_max_body cfg \<or> int (length (concat (rq_chunks rq))) > gs_max_body cfg
           then (Inl (too_large cfg), gw) else k (concat (rq_chunks rq)) gw))"
proof -
  have ne: "str_int n \<noteq> []" by (simp add: str_int_def)
  have route: "\<exists>y. body_size_limiter env next_handler rq gw = (Inr y, gw) \<and> ry_status y = 413"
    if "startswith (rq_path rq) ''/api/v1/''" "rq_content_length rq = Some (str_int n)" "n > 10240"
    using assms(1) that api_limit [OF that(1)]
    by (cases "get_limit (rq_path rq)") (auto simp: body_size_limiter_def parse_int_roundtrip JSONResponse_def Let_def)
  have open_route: "body_size_limiter env next_handler rq gw = next_handler rq gw" if "rq_content_length rq = None"
    using that by (simp add: body_size_limiter_def)
  have "payload_size cfg (reader cfg k) rq gw =
          (if rq_content_length rq \<noteq> None \<and> n > gs_max_body cfg \<or> int (length (concat (rq_chunks rq))) > gs_max_body cfg
           then (Inl (too_large cfg), gw) else k (concat (rq_chunks rq)) gw)"
    if "rq_content_length rq \<in> {None, Some (str_int n)}"
    using that assms ne
    by (auto simp: payload_size_def reader_def read_body_def receive_all_spec parse_int_roundtrip)
  then show ?thesis using route open_route by blast
qed

definition sample_post :: request where
  "sample_post = \<lparr>rq_method = ''POST'', rq_path = ''/api/v1/outages/bulk'', rq_client = Some ''10.0.0.1'', rq_content_length = Some (str_int 20000),
     rq_correlation = None, rq_chunks = [], rq_read_limit = None\<rparr>"

definition sample_gateway :: gateway_settings where
  "sample_gateway = \<lparr>gs_version = ''1.0.0'', gs_v1_prefix = ''/api/v1'', gs_max_body = 10485760, gs_saturation_threshold = 9 / 10,
     gs_reject_after = 30, gs_capacity = 60, gs_refill_rate = 1\<rparr>"

definition sample_gateway_env :: gateway_env where
  "sample_gateway_env = \<lparr>ge_monotonic = 0, ge_time = 0, ge_pool = full_pool\<lparr>po_checked_out := 0\<rparr>, ge_context = None, ge_uuid = ''id'', ge_render = (\<lambda>j. ''x'')\<rparr>"

theorem size_limits_witness:
  "\<exists>y. body_size_limiter sample_gateway_env (\<lambda>rq g. (Inl TypeError, g)) sample_post \<lparr>gw_buckets = [], gw_saturated_since = None\<rparr>
      = (Inr y, \<lparr>gw_buckets = [], gw_saturated_since = None\<rparr>) \<and> ry_status y = 413"
  using size_limits [of sample_post sample_gateway 20000 sample_gateway_env "\<lambda>rq g. (Inl TypeError, g)" "\<lparr>gw_buckets = [], gw_saturated_since = None\<rparr>"]
  by (simp add: sample_post_def sample_gateway_def startswith_def)

section \<open>The stack\<close>

text \<open>
  What is relied on of the CORS middleware for a request that is not a preflight: it calls the next handler and
  only adds headers of its own to the reply.
\<close>

definition cors_passes :: "(handler \<Rightarrow> handler) \<Rightarrow> bool" where
  "cors_passes cors \<longleftrightarrow> (\<forall>h rq gw. \<exists>hs. cors h rq gw = on_reply (\<lambda>y. y\<lparr>ry_headers := hs @ ry_headers y\<rparr>) (h rq gw)
     \<and> ''X-Correlation-ID'' \<notin> fst ` set hs)"

definition header :: "string \<Rightarrow> reply \<Rightarrow> string option" where
  "header k y = map_of (ry_headers y) k"

lemma header_simps [simp]:
  "header k (set_header k' v y) = (if k = k' then Some v else header k y)" "ry_body (set_header k' v y) = ry_body y"
  "ry_status (set_header k' v y) = ry_status y"
  by (simp_all add: header_def set_header_def update_conv')

lemma on_reply_Inr: "on_reply f r = (Inr y, g) \<longleftrightarrow> (\<exists>x. r = (Inr x, g) \<and> y = f x)"
  by (auto simp: on_reply_def split: prod.splits sum.splits)

lemma correlation_reply:
  "correlation env h rq gw = (Inr y, gw') \<Longrightarrow> ry_body y = [] \<and> header ''X-Correlation-ID'' y = Some (correlation_id_of env rq)"
  by (auto simp: correlation_def on_reply_Inr header_def set_header_def update_conv')

lemma correlation_id_limit [simp]: "correlation_id_of env (rq\<lparr>rq_read_limit := l\<rparr>) = correlation_id_of env rq"
  by (simp add: correlation_id_of_def)

lemma inner_reply:
  assumes "cors_passes cors" "cors (payload_size cfg (correlation env h)) rq gw = (Inr y, gw')"
  shows "ry_body y = [] \<and> header ''X-Correlation-ID'' y = Some (correlation_id_of env rq)"
proof -
  obtain hs where hs: "cors (payload_size cfg (correlation env h)) rq gw =
      on_reply (\<lambda>y. y\<lparr>ry_headers := hs @ ry_headers y\<rparr>) (payload_size cfg (correlation env h) rq gw)" "''X-Correlation-ID'' \<notin> fst ` set hs"
    using assms(1) unfolding cors_passes_def by blast
  from assms(2) [unfolded hs(1) on_reply_Inr]
  obtain x where x: "payload_size cfg (correlation env h) rq gw = (Inr x, gw')" "y = x\<lparr>ry_headers := hs @ ry_headers x\<rparr>" by blast
  have "correlation env h rq gw = (Inr x, gw') \<or> correlation env h (rq\<lparr>rq_read_limit := Some (nat (gs_max_body cfg))\<rparr>) gw = (Inr x, gw')"
    using x(1) unfolding payload_size_def by (simp split: if_splits)
  then have "ry_body x = [] \<and> header ''X-Correlation-ID'' x = Some (correlation_id_of env rq)"
    using correlation_reply [of env h rq] correlation_reply [of env h "rq\<lparr>rq_read_limit := Some (nat (gs_max_body cfg))\<rparr>"] by auto
  moreover have "map_of hs ''X-Correlation-ID'' = None" using hs(2) by (simp add: map_of_eq_None_iff)
  ultimately show ?thesis by (simp add: x(2) header_def map_add_def)
qed



end
