(* ===== verification/Csv.thy ===== *)
theory Csv
  imports Caching
begin

text \<open>
  The part of Python's \<open>csv\<close> module the exporters and the import use: the writer and the reader of the default dialect
  (comma, double quote, doubled quotes, \<open>\r\n\<close>, minimal quoting, not strict), \<open>DictWriter\<close> and \<open>DictReader\<close>. The reader is the state
  machine of the module; its input is read line by line, a line ending after a line feed.
\<close>

definition LF :: char where "LF = CHR 10"
definition CR :: char where "CR = CHR 13"
definition QUOTE :: char where "QUOTE = CHR 34"
definition COMMA :: char where "COMMA = CHR '',''"

lemma csv_distinct [simp]:
  "LF \<noteq> CR" "CR \<noteq> LF" "LF \<noteq> QUOTE" "QUOTE \<noteq> LF" "LF \<noteq> COMMA" "COMMA \<noteq> LF"
  "CR \<noteq> QUOTE" "QUOTE \<noteq> CR" "CR \<noteq> COMMA" "COMMA \<noteq> CR" "QUOTE \<noteq> COMMA" "COMMA \<noteq> QUOTE"
  by (simp_all add: LF_def CR_def QUOTE_def COMMA_def)

section \<open>Writer\<close>

definition needs_quotes :: "string \<Rightarrow> bool" where
  "needs_quotes f \<longleftrightarrow> list_ex (\<lambda>c. c \<in> {LF, CR, QUOTE, COMMA}) f"

definition quote_field :: "string \<Rightarrow> string" where
  "quote_field f = QUOTE # concat (map (\<lambda>c. if c = QUOTE then [QUOTE, QUOTE] else [c]) f) @ [QUOTE]"

definition write_field :: "string \<Rightarrow> string" where
  "write_field f = (if needs_quotes f then quote_field f else f)"

text \<open>A row of a single empty field is written in quotes, it would be a blank line.\<close>

definition write_row :: "string list \<Rightarrow> string" where
  "write_row fs = (if fs = [[]] then [QUOTE, QUOTE] else join [COMMA] (map write_field fs)) @ [CR, LF]"

definition write_rows :: "string list list \<Rightarrow> string" where
  "write_rows rows = concat (map write_row rows)"

section \<open>Reader\<close>

text \<open>\<open>csv.Error\<close> is rendered as a \<open>RuntimeError\<close> of the same message; its only caller catches every exception.\<close>

datatype csv_state = START_RECORD | START_FIELD | IN_FIELD | IN_QUOTED_FIELD | QUOTE_IN_QUOTED_FIELD | EAT_CRNL

record csv_reader =
  cr_state :: csv_state
  cr_field :: string
  cr_fields :: "string list"
  cr_rows :: "string list list"

definition save_field :: "csv_state \<Rightarrow> csv_reader \<Rightarrow> csv_reader" where
  "save_field st r = r\<lparr>cr_state := st, cr_field := [], cr_fields := cr_fields r @ [cr_field r]\<rparr>"

definition add_char :: "csv_state \<Rightarrow> char \<Rightarrow> csv_reader \<Rightarrow> csv_reader" where
  "add_char st c r = r\<lparr>cr_state := st, cr_field := cr_field r @ [c]\<rparr>"

definition emit_row :: "csv_reader \<Rightarrow> csv_reader" where
  "emit_row r = r\<lparr>cr_state := START_RECORD, cr_fields := [], cr_rows := cr_rows r @ [cr_fields r]\<rparr>"

definition start_field :: "char \<Rightarrow> csv_reader \<Rightarrow> csv_reader" where
  "start_field c r =
    (if c = LF \<or> c = CR then save_field EAT_CRNL r
     else if c = QUOTE then r\<lparr>cr_state := IN_QUOTED_FIELD\<rparr>
     else if c = COMMA then save_field START_FIELD r
     else add_char IN_FIELD c r)"

definition process_char :: "char \<Rightarrow> csv_reader \<Rightarrow> csv_reader res" where
  "process_char c r =
    (case cr_state r of
       START_RECORD \<Rightarrow> Inr (if c = LF \<or> c = CR then r\<lparr>cr_state := EAT_CRNL\<rparr> else start_field c r)
     | START_FIELD \<Rightarrow> Inr (start_field c r)
     | IN_FIELD \<Rightarrow>
         Inr (if c = LF \<or> c = CR then save_field EAT_CRNL r
              else if c = COMMA then save_field START_FIELD r else add_char IN_FIELD c r)
     | IN_QUOTED_FIELD \<Rightarrow> Inr (if c = QUOTE then r\<lparr>cr_state := QUOTE_IN_QUOTED_FIELD\<rparr> else add_char IN_QUOTED_FIELD c r)
     | QUOTE_IN_QUOTED_FIELD \<Rightarrow>
         Inr (if c = QUOTE then add_char IN_QUOTED_FIELD c r
              else if c = COMMA then save_field START_FIELD r
              else if c = LF \<or> c = CR then save_field EAT_CRNL r else add_char IN_FIELD c r)
     | EAT_CRNL \<Rightarrow>
         if c = LF \<or> c = CR then Inr r
         else Inl (RuntimeError ''new-line character seen in unquoted field - do you need to open the file in universal-newline mode?''))"

text \<open>What happens at the end of a line, and at the end of the input.\<close>

definition end_of_line :: "csv_reader \<Rightarrow> csv_reader" where
  "end_of_line r =
    (case cr_state r of
       START_RECORD \<Rightarrow> emit_row r
     | IN_QUOTED_FIELD \<Rightarrow> r
     | EAT_CRNL \<Rightarrow> emit_row r
     | _ \<Rightarrow> emit_row (save_field START_RECORD r))"

definition end_of_input :: "csv_reader \<Rightarrow> string list list" where
  "end_of_input r =
    (case cr_state r of
       START_RECORD \<Rightarrow> cr_rows r
     | EAT_CRNL \<Rightarrow> cr_rows (emit_row r)
     | _ \<Rightarrow> cr_rows (emit_row (save_field START_RECORD r)))"

fun csv_run :: "string \<Rightarrow> csv_reader \<Rightarrow> string list list res" where
  "csv_run [] r = Inr (end_of_input r)"
| "csv_run (c # cs) r =
    (case process_char c r of Inl e \<Rightarrow> Inl e | Inr r1 \<Rightarrow> csv_run cs (if c = LF then end_of_line r1 else r1))"

definition csv_read :: "string \<Rightarrow> string list list res" where
  "csv_read content = csv_run content \<lparr>cr_state = START_RECORD, cr_field = [], cr_fields = [], cr_rows = []\<rparr>"

section \<open>Dictionaries\<close>

text \<open>\<open>DictReader\<close>: blank rows are skipped, missing values are \<open>None\<close>, surplus values are a list under the key \<open>None\<close>.\<close>

datatype csv_value = Text string | Missing | Surplus "string list"

type_synonym csv_row = "(string option \<times> csv_value) list"

definition dict_row :: "string list \<Rightarrow> string list \<Rightarrow> csv_row" where
  "dict_row fieldnames row =
    fold (\<lambda>(k, v) d. AList.update k v d)
      (zip (map Some fieldnames) (map Text row)
       @ (if length fieldnames < length row then [(None, Surplus (drop (length fieldnames) row))] else [])
       @ map (\<lambda>k. (Some k, Missing)) (drop (length row) fieldnames)) []"

definition DictReader :: "string \<Rightarrow> csv_row list res" where
  "DictReader content =
    (case csv_read content of
       Inl e \<Rightarrow> Inl e
     | Inr [] \<Rightarrow> Inr []
     | Inr (fieldnames # rows) \<Rightarrow> Inr (map (dict_row fieldnames) (filter (\<lambda>r. r \<noteq> []) rows)))"

text \<open>\<open>DictWriter.writerow\<close>: an unknown key raises, a missing one is written empty.\<close>

definition dict_values :: "string list \<Rightarrow> (string \<times> string) list \<Rightarrow> string list res" where
  "dict_values fieldnames d =
    (case filter (\<lambda>k. k \<notin> set fieldnames) (map fst d) of
       [] \<Rightarrow> Inr (map (\<lambda>k. case map_of d k of Some v \<Rightarrow> v | None \<Rightarrow> []) fieldnames)
     | wrong \<Rightarrow> Inl (ValueError (''dict contains fields not in fieldnames: '' @ join '', '' (map quoted wrong))))"

fun write_dicts :: "string list \<Rightarrow> (string \<times> string) list list \<Rightarrow> string res" where
  "write_dicts fieldnames [] = Inr []"
| "write_dicts fieldnames (d # ds) =
    (case dict_values fieldnames d of
       Inl e \<Rightarrow> Inl e
     | Inr vs \<Rightarrow> (case write_dicts fieldnames ds of Inl e \<Rightarrow> Inl e | Inr rest \<Rightarrow> Inr (write_row vs @ rest)))"

definition DictWriter :: "string list \<Rightarrow> (string \<times> string) list list \<Rightarrow> string res" where
  "DictWriter fieldnames ds = map_sum id (\<lambda>rest. write_row fieldnames @ rest) (write_dicts fieldnames ds)"

section \<open>Reading back what was written\<close>

lemma run_quoted:
  "cr_state r = IN_QUOTED_FIELD \<Longrightarrow>
    csv_run (concat (map (\<lambda>c. if c = QUOTE then [QUOTE, QUOTE] else [c]) f) @ cs) r = csv_run cs (r\<lparr>cr_field := cr_field r @ f\<rparr>)"
proof (induction f arbitrary: r)
  case (Cons c f)
  have s: "add_char IN_QUOTED_FIELD c r = r\<lparr>cr_field := cr_field r @ [c]\<rparr>" using Cons.prems by (simp add: add_char_def)
  have q: "add_char IN_QUOTED_FIELD x (r\<lparr>cr_state := QUOTE_IN_QUOTED_FIELD\<rparr>) = r\<lparr>cr_field := cr_field r @ [x]\<rparr>" for x
    using Cons.prems by (simp add: add_char_def)
  show ?case
    using Cons.IH [of "r\<lparr>cr_field := cr_field r @ [c]\<rparr>"] Cons.prems
    by (auto simp: process_char_def end_of_line_def s q)
qed simp

lemma run_plain:
  "cr_state r = IN_FIELD \<Longrightarrow> \<not> needs_quotes f \<Longrightarrow> csv_run (f @ cs) r = csv_run cs (r\<lparr>cr_field := cr_field r @ f\<rparr>)"
proof (induction f arbitrary: r)
  case (Cons c f)
  have "add_char IN_FIELD c r = r\<lparr>cr_field := cr_field r @ [c]\<rparr>" using Cons.prems(1) by (cases r) (simp add: add_char_def)
  then show ?case using Cons.IH [of "r\<lparr>cr_field := cr_field r @ [c]\<rparr>"] Cons.prems
    by (simp add: process_char_def needs_quotes_def)
qed simp

text \<open>A field and its separator, from the start of a field.\<close>

definition at_field :: "csv_reader \<Rightarrow> bool" where
  "at_field r \<longleftrightarrow> cr_field r = [] \<and> (cr_state r = START_FIELD \<or> cr_state r = START_RECORD)"

definition after_sep :: "char \<Rightarrow> csv_state" where
  "after_sep c = (if c = COMMA then START_FIELD else EAT_CRNL)"

lemma run_field:
  assumes "at_field r" "c \<in> {COMMA, CR}" "f \<noteq> [] \<or> cr_state r = START_FIELD \<or> c = COMMA"
  shows "csv_run (write_field f @ c # cs) r = csv_run cs (r\<lparr>cr_state := after_sep c, cr_field := [], cr_fields := cr_fields r @ [f]\<rparr>)"
proof -
  have sep: "c \<noteq> LF" "c \<noteq> QUOTE" using assms(2) by auto
  show ?thesis
  proof (cases "needs_quotes f")
    case True
    have "csv_run (write_field f @ c # cs) r =
      csv_run (concat (map (\<lambda>c. if c = QUOTE then [QUOTE, QUOTE] else [c]) f) @ QUOTE # c # cs) (r\<lparr>cr_state := IN_QUOTED_FIELD\<rparr>)"
      using assms(1) True by (auto simp: write_field_def quote_field_def at_field_def process_char_def start_field_def)
    also have "\<dots> = csv_run (QUOTE # c # cs) (r\<lparr>cr_state := IN_QUOTED_FIELD, cr_field := cr_field r @ f\<rparr>)"
      by (subst run_quoted) simp_all
    also have "\<dots> = csv_run cs (r\<lparr>cr_state := after_sep c, cr_field := [], cr_fields := cr_fields r @ [f]\<rparr>)"
      using assms(1,2) sep by (auto simp: process_char_def save_field_def after_sep_def at_field_def)
    finally show ?thesis .
  next
    case False
    show ?thesis
    proof (cases f)
      case Nil
      then show ?thesis using assms sep False
        by (auto simp: write_field_def at_field_def process_char_def start_field_def save_field_def after_sep_def)
    next
      case (Cons x xs)
      have "csv_run (write_field f @ c # cs) r = csv_run (xs @ c # cs) (r\<lparr>cr_state := IN_FIELD, cr_field := [x]\<rparr>)"
        using assms(1) False Cons
        by (auto simp: write_field_def at_field_def process_char_def start_field_def add_char_def needs_quotes_def)
      also have "\<dots> = csv_run (c # cs) (r\<lparr>cr_state := IN_FIELD, cr_field := f\<rparr>)"
        using False Cons by (subst run_plain) (auto simp: needs_quotes_def)
      also have "\<dots> = csv_run cs (r\<lparr>cr_state := after_sep c, cr_field := [], cr_fields := cr_fields r @ [f]\<rparr>)"
        using assms(2) sep by (auto simp: process_char_def save_field_def after_sep_def)
      finally show ?thesis .
    qed
  qed
qed

lemma run_fields:
  assumes "at_field r" "fs \<noteq> []" "fs \<noteq> [[]] \<or> cr_state r = START_FIELD"
  shows "csv_run (join [COMMA] (map write_field fs) @ CR # cs) r =
    csv_run cs (r\<lparr>cr_state := EAT_CRNL, cr_field := [], cr_fields := cr_fields r @ fs\<rparr>)"
  using assms
proof (induction fs arbitrary: r rule: induct_list012)
  case (2 f)
  have e: "after_sep CR = EAT_CRNL" by (simp add: after_sep_def)
  show ?case using run_field [of r CR f cs] 2 by (auto simp: e)
next
  case (3 f g fs)
  have e: "after_sep COMMA = START_FIELD" by (simp add: after_sep_def)
  have "csv_run (join [COMMA] (map write_field (f # g # fs)) @ CR # cs) r =
    csv_run (join [COMMA] (map write_field (g # fs)) @ CR # cs) (r\<lparr>cr_state := START_FIELD, cr_field := [], cr_fields := cr_fields r @ [f]\<rparr>)"
    using run_field [of r COMMA f] 3 by (simp add: e)
  then show ?case using "3.IH"(2) [of "r\<lparr>cr_state := START_FIELD, cr_field := [], cr_fields := cr_fields r @ [f]\<rparr>"]
    by (simp add: at_field_def)
qed simp

lemma run_row:
  assumes "cr_state r = START_RECORD" "cr_field r = []" "cr_fields r = []" "fs \<noteq> []"
  shows "csv_run (write_row fs @ cs) r = csv_run cs (r\<lparr>cr_rows := cr_rows r @ [fs]\<rparr>)"
proof -
  have crnl: "csv_run (LF # cs) (r\<lparr>cr_state := EAT_CRNL, cr_field := [], cr_fields := fs\<rparr>) = csv_run cs (r\<lparr>cr_rows := cr_rows r @ [fs]\<rparr>)"
    using assms by (cases r) (simp add: process_char_def end_of_line_def emit_row_def)
  show ?thesis
  proof (cases "fs = [[]]")
    case True
    have "csv_run (write_row fs @ cs) r = csv_run (LF # cs) (r\<lparr>cr_state := EAT_CRNL, cr_field := [], cr_fields := fs\<rparr>)"
      using assms True by (simp add: write_row_def process_char_def start_field_def save_field_def del: csv_run.simps(1))
    then show ?thesis using crnl by simp
  next
    case False
    then show ?thesis using run_fields [of r fs "LF # cs"] assms crnl by (simp add: write_row_def at_field_def)
  qed
qed

lemma csv_read_write: "[] \<notin> set rows \<Longrightarrow> csv_read (write_rows rows) = Inr rows"
proof -
  have "[] \<notin> set rows \<Longrightarrow> cr_state r = START_RECORD \<and> cr_field r = [] \<and> cr_fields r = [] \<Longrightarrow>
      csv_run (write_rows rows) r = Inr (cr_rows r @ rows)" for r
  proof (induction rows arbitrary: r)
    case (Cons row rows)
    have "row \<noteq> []" using Cons.prems(1) by auto
    then show ?case using run_row [of r row "write_rows rows"] Cons by (simp add: write_rows_def)
  qed (simp add: write_rows_def end_of_input_def)
  then show "[] \<notin> set rows \<Longrightarrow> csv_read (write_rows rows) = Inr rows" by (simp add: csv_read_def)
qed

end
