(* ===== verification/Exports.thy ===== *)
theory Exports
  imports Csv SlaResultLaws OutageLaws Telemetry
begin

text \<open>
  Exports and file import: \<open>app/utils/analytics_exporter.py\<close>, \<open>app/utils/exporter.py\<close>, the export endpoints of
  \<open>app/api/v1/endpoints/sla.py\<close> and \<open>app/api/v1/endpoints/outages.py\<close>, and the decoding of an uploaded file in \<open>import_outages\<close>.
  How floats, containers and timestamps are rendered is an argument.
\<close>

section \<open>Dumps\<close>

record render =
  rn_float :: "real \<Rightarrow> string"
  rn_repr :: "json \<Rightarrow> string"
  rn_dumps :: "json \<Rightarrow> string"
  rn_iso :: "real \<Rightarrow> string"

text \<open>What the writer puts into a cell: \<open>None\<close> is empty, other values go through \<open>str\<close>.\<close>

fun cell :: "render \<Rightarrow> json \<Rightarrow> string" where
  "cell rn JNull = []"
| "cell rn (JBool b) = (if b then ''True'' else ''False'')"
| "cell rn (JInt i) = str_int i"
| "cell rn (JNum x) = rn_float rn x"
| "cell rn (JStr s) = s"
| "cell rn (JArr xs) = rn_repr rn (JArr xs)"
| "cell rn (JObj kvs) = rn_repr rn (JObj kvs)"

definition cells :: "render \<Rightarrow> (string \<times> json) list \<Rightarrow> (string \<times> string) list" where
  "cells rn d = map (\<lambda>(k, v). (k, cell rn v)) d"

definition kpi_dump :: "sla_kpi \<Rightarrow> (string \<times> json) list" where
  "kpi_dump k = [(''total_outages'', JInt (kp_total_outages k)), (''total_violations'', JInt (kp_total_violations k)),
     (''total_rewards'', JNum (kp_total_rewards k)), (''total_penalties'', JNum (kp_total_penalties k)), (''net_payout'', JNum (kp_net_payout k))]"

definition trend_dump :: "trend_point \<Rightarrow> (string \<times> json) list" where
  "trend_dump p = [(''date'', JStr (tp_date p)), (''total_outages'', JInt (tp_total_outages p)), (''violations'', JInt (tp_violations p)),
     (''rewards'', JNum (tp_rewards p)), (''penalties'', JNum (tp_penalties p))]"

definition performance_dump :: "sla_performance \<Rightarrow> (string \<times> json) list" where
  "performance_dump p = [(''total_outages'', JInt (pf_total_outages p)), (''violation_rate'', JNum (pf_violation_rate p)),
     (''avg_mttr'', JNum (pf_avg_mttr p)), (''payout_sum'', JNum (pf_payout_sum p))]"

text \<open>An outage from the repository has neither an SLA status nor a deletion time, but both fields are dumped.\<close>

definition serialize_outage :: "render \<Rightarrow> outage \<Rightarrow> (string \<times> json) list" where
  "serialize_outage rn x =
    [(''id'', JStr (out_id x)), (''site_name'', JStr (out_site_name x)), (''site_id'', json_opt JStr (out_site_id x)),
     (''severity'', JStr (out_severity x)), (''status'', JStr (out_status x)), (''detected_at'', JStr (rn_iso rn (out_detected_at x))),
     (''resolved_at'', json_opt (\<lambda>t. JStr (rn_iso rn t)) (out_resolved_at x)), (''description'', JStr (out_description x)),
     (''affected_services'', JArr (map JStr (out_affected_services x))), (''affected_subscribers'', json_opt JInt (out_affected_subscribers x)),
     (''assigned_to'', json_opt JStr (out_assigned_to x)), (''created_by'', json_opt JStr (out_created_by x)),
     (''location'', json_opt (\<lambda>(a, b). JObj [(''latitude'', JNum a), (''longitude'', JNum b)]) (out_location x)),
     (''sla_status'', JNull), (''deleted_at'', JNull)]"

section \<open>Exporters\<close>

datatype exported = Data json | Csv string

definition unsupported_format :: exc where
  "unsupported_format = ValueError (''Unsupported export format. Use '' @ quoted ''json'' @ '' or '' @ quoted ''csv'' @ ''.'')"

definition in_format :: "string \<Rightarrow> json \<Rightarrow> string res \<Rightarrow> exported res" where
  "in_format fmt data csv_text =
    (if lower fmt = ''json'' then Inr (Data data)
     else if lower fmt \<noteq> ''csv'' then Inl unsupported_format
     else map_sum id Csv csv_text)"

definition export_dashboard_kpi :: "render \<Rightarrow> sla_kpi \<Rightarrow> string \<Rightarrow> exported res" where
  "export_dashboard_kpi rn kpi fmt =
    (let data = kpi_dump kpi in in_format fmt (JObj data) (DictWriter (map fst data) [cells rn data]))"

definition TREND_HEADER :: string where
  "TREND_HEADER = ''date,total_outages,violations,rewards,penalties'' @ [LF]"

definition export_trends :: "render \<Rightarrow> trend_point list \<Rightarrow> string \<Rightarrow> exported res" where
  "export_trends rn trends fmt =
    (let data = map trend_dump trends
     in in_format fmt (JArr (map JObj data))
          (if data = [] then Inr TREND_HEADER else DictWriter (map fst (hd data)) (map (cells rn) data)))"

definition export_performance_aggregation :: "render \<Rightarrow> sla_performance \<Rightarrow> string \<Rightarrow> exported res" where
  "export_performance_aggregation rn agg fmt =
    (let data = performance_dump agg in in_format fmt (JObj data) (DictWriter (map fst data) [cells rn data]))"

definition append_res :: "string res \<Rightarrow> string res \<Rightarrow> string res" where
  "append_res a b = (case a of Inl e \<Rightarrow> Inl e | Inr x \<Rightarrow> (case b of Inl e \<Rightarrow> Inl e | Inr y \<Rightarrow> Inr (x @ y)))"

definition export_analytics_summary ::
  "render \<Rightarrow> sla_kpi \<Rightarrow> trend_point list \<Rightarrow> sla_performance option \<Rightarrow> string \<Rightarrow> exported res" where
  "export_analytics_summary rn kpi trends aggregation fmt =
    (let k = kpi_dump kpi; ts = map trend_dump trends;
         summary = [(''kpi'', JObj k), (''trends'', JArr (map JObj ts)), (''trend_count'', JInt (int (length trends)))]
           @ (case aggregation of Some a \<Rightarrow> [(''aggregation'', JObj (performance_dump a))] | None \<Rightarrow> []);
         trend_part = (if trends \<noteq> [] then DictWriter (map fst (hd ts)) (map (cells rn) ts) else Inr TREND_HEADER);
         agg_part = (case aggregation of
            Some a \<Rightarrow> append_res (Inr (''# Performance Aggregation'' @ [LF])) (DictWriter (map fst (performance_dump a)) [cells rn (performance_dump a)])
          | None \<Rightarrow> Inr [])
     in in_format fmt (JObj summary)
          (append_res (Inr (''# KPI Metrics'' @ [LF])) (append_res (DictWriter (map fst k) [cells rn k])
            (append_res (Inr ([LF] @ ''# Trends Data'' @ [LF])) (append_res trend_part (append_res (Inr [LF]) agg_part))))))"

definition OUTAGE_FIELDS :: "string list" where
  "OUTAGE_FIELDS = [''id'', ''site_name'', ''site_id'', ''severity'', ''status'', ''detected_at'', ''resolved_at'', ''description'',
     ''affected_services'', ''affected_subscribers'', ''assigned_to'', ''created_by'', ''location'', ''sla_status'']"

definition outage_cells :: "render \<Rightarrow> (string \<times> json) list \<Rightarrow> (string \<times> string) list" where
  "outage_cells rn row =
    (let dumped = (\<lambda>k. rn_dumps rn (case map_of row k of Some v \<Rightarrow> v | None \<Rightarrow> JNull))
     in AList.update ''sla_status'' (dumped ''sla_status'') (AList.update ''location'' (dumped ''location'')
          (AList.update ''affected_services'' (dumped ''affected_services'') (cells rn row))))"

definition export_outages :: "render \<Rightarrow> outage list \<Rightarrow> string \<Rightarrow> exported res" where
  "export_outages rn outages fmt =
    (let rows = map (serialize_outage rn) outages
     in in_format fmt (JArr (map JObj rows)) (DictWriter OUTAGE_FIELDS (map (outage_cells rn) rows)))"

section \<open>Export endpoints\<close>

text \<open>A text export is a download with a file name; otherwise the exported value is the JSON body.\<close>

datatype answer = Download string string | Body exported

definition answer_as :: "bool \<Rightarrow> string \<Rightarrow> exported \<Rightarrow> answer" where
  "answer_as csv_wanted filename x = (case x of Csv t \<Rightarrow> if csv_wanted then Download filename t else Body x | Data _ \<Rightarrow> Body x)"

definition export_dashboard_kpis ::
  "render \<Rightarrow> outage_row list \<Rightarrow> string \<Rightarrow> string option \<Rightarrow> string option \<Rightarrow> string option \<Rightarrow> sla_store \<Rightarrow> answer res" where
  "export_dashboard_kpis rn outs fmt severity site_id site s =
    (case aggregate_dashboard_kpis outs severity (resolved_site site_id site) (sd_results s) of
       Inl e \<Rightarrow> Inl e
     | Inr kpi \<Rightarrow> map_sum id (answer_as (lower fmt = ''csv'') ''sla_dashboard_kpi.csv'') (http_on_ValueError 400 (export_dashboard_kpi rn kpi fmt)))"

definition export_sla_trends ::
  "render \<Rightarrow> sla_env \<Rightarrow> outage_row list \<Rightarrow> string \<Rightarrow> nat \<Rightarrow> string \<Rightarrow> string \<Rightarrow> string option \<Rightarrow> string option \<Rightarrow> string option \<Rightarrow> sla_store \<Rightarrow>
   answer res" where
  "export_sla_trends rn env outs fmt days bucket tz severity site_id site s =
    (if days < 1 \<or> days > 365 then Inl ValidationError
     else if bucket \<notin> set VALID_BUCKETS then Inl (HTTPException 400 (invalid_bucket bucket))
     else (case http_on_ValueError 400 (aggregate_trends env outs days bucket tz severity (resolved_site site_id site) (sd_results s)) of
       Inl e \<Rightarrow> Inl e
     | Inr trends \<Rightarrow> map_sum id (answer_as (lower fmt = ''csv'') (''sla_trends_'' @ str_nat days @ ''d.csv''))
         (http_on_ValueError 400 (export_trends rn trends fmt))))"

definition export_performance_endpoint ::
  "render \<Rightarrow> outage_row list \<Rightarrow> string \<Rightarrow> datetime option \<Rightarrow> datetime option \<Rightarrow> string option \<Rightarrow> string option \<Rightarrow> string option \<Rightarrow> sla_store \<Rightarrow>
   answer res" where
  "export_performance_endpoint rn outs fmt start_date end_date severity site_id site s =
    (let a = map_option dt_secs start_date; b = map_option dt_secs end_date in
     if a \<noteq> None \<and> b \<noteq> None \<and> the a > the b then Inl (HTTPException 400 ''start_date cannot be after end_date'')
     else (case aggregate_performance outs a b severity (resolved_site site_id site) (sd_results s) of
       Inl e \<Rightarrow> Inl e
     | Inr agg \<Rightarrow> map_sum id (answer_as (lower fmt = ''csv'') ''sla_performance.csv'')
         (http_on_ValueError 400 (export_performance_aggregation rn agg fmt))))"

definition export_summary_endpoint ::
  "render \<Rightarrow> sla_env \<Rightarrow> outage_row list \<Rightarrow> string \<Rightarrow> nat \<Rightarrow> string \<Rightarrow> string \<Rightarrow> string option \<Rightarrow> string option \<Rightarrow> string option \<Rightarrow> bool \<Rightarrow> sla_store \<Rightarrow>
   answer res" where
  "export_summary_endpoint rn env outs fmt days bucket tz severity site_id site include_aggregation s =
    (if days < 1 \<or> days > 365 then Inl ValidationError
     else if bucket \<notin> set VALID_BUCKETS then Inl (HTTPException 400 (invalid_bucket bucket))
     else (let st = resolved_site site_id site in
       case aggregate_dashboard_kpis outs severity st (sd_results s) of
         Inl e \<Rightarrow> Inl e
       | Inr kpi \<Rightarrow>
         (case http_on_ValueError 400 (aggregate_trends env outs days bucket tz severity st (sd_results s)) of
            Inl e \<Rightarrow> Inl e
          | Inr trends \<Rightarrow>
            (case (if include_aggregation then map_sum id Some (aggregate_performance outs None None severity st (sd_results s)) else Inr None) of
               Inl e \<Rightarrow> Inl e
             | Inr agg \<Rightarrow> map_sum id (answer_as (lower fmt = ''csv'') (''sla_analytics_summary_'' @ str_nat days @ ''d.csv''))
                 (http_on_ValueError 400 (export_analytics_summary rn kpi trends agg fmt))))))"

definition reconcile_analytics_snapshot ::
  "outage_row list \<Rightarrow> string \<Rightarrow> sla_store \<Rightarrow> reconcile_report res" where
  "reconcile_analytics_snapshot outs key s = reconcile_snapshots outs key s"

text \<open>The outage endpoint compares the format without folding its case.\<close>

definition export_outages_endpoint :: "render \<Rightarrow> string \<Rightarrow> outage_filter \<Rightarrow> outage_state \<Rightarrow> answer res" where
  "export_outages_endpoint rn fmt f s =
    map_sum id (answer_as (fmt = ''csv'') ''outages.csv'') (http_on_ValueError 400 (export_outages rn (list_filtered f (os_outages s)) fmt))"

record metric_view =
  mv_name :: string
  mv_inputs :: "string list"
  mv_unit :: string

definition get_metric_definitions :: "metric_view list" where
  "get_metric_definitions =
    map (\<lambda>n. case find (\<lambda>m. md_name m = n) METRIC_REGISTRY of
      Some m \<Rightarrow> \<lparr>mv_name = md_name m, mv_inputs = md_inputs m, mv_unit = md_unit m\<rparr>
    | None \<Rightarrow> \<lparr>mv_name = n, mv_inputs = [], mv_unit = []\<rparr>) list_metrics"

section \<open>Decoding an upload\<close>

text \<open>The chunked read: \<open>chunks\<close> are the reads up to the first empty one.\<close>

fun read_upload :: "nat \<Rightarrow> nat \<Rightarrow> string list \<Rightarrow> string res" where
  "read_upload max_bytes total_read [] = Inr []"
| "read_upload max_bytes total_read (chunk # rest) =
    (if chunk = [] then Inr []
     else (let read1 = total_read + length chunk in
       if read1 > max_bytes then Inl (HTTPException 413 ''File exceeds 10 MB limit'')
       else map_sum id (\<lambda>r. chunk @ r) (read_upload max_bytes read1 rest)))"

text \<open>A decoded row: a dictionary, or another JSON value in the list, which \<open>OutageCreate(**row)\<close> rejects.\<close>

datatype upload_row = Dict "(string option \<times> json) list" | Not_a_dict json

fun json_row :: "json \<Rightarrow> upload_row" where
  "json_row (JObj d) = Dict (map (\<lambda>(k, v). (Some k, v)) d)"
| "json_row v = Not_a_dict v"

fun csv_json :: "csv_value \<Rightarrow> json" where
  "csv_json (Text s) = JStr s"
| "csv_json Missing = JNull"
| "csv_json (Surplus xs) = JArr (map JStr xs)"

definition csv_dict :: "csv_row \<Rightarrow> upload_row" where
  "csv_dict d = Dict (map (\<lambda>(k, v). (k, csv_json v)) d)"

text \<open>\<open>json.loads\<close> is an argument, \<open>Inl\<close> the message of its decode error; so is the decoding of UTF-8, \<open>None\<close> when it fails.\<close>

definition decode_upload ::
  "(string \<Rightarrow> string + json) \<Rightarrow> (string \<Rightarrow> string option) \<Rightarrow> string \<Rightarrow> string \<Rightarrow> upload_row list res" where
  "decode_upload json_loads utf8 filename content =
    (if endswith filename ''.json'' then
       (case json_loads content of
          Inl m \<Rightarrow> Inl (HTTPException 400 (''Invalid JSON: '' @ m))
        | Inr (JArr rows) \<Rightarrow> Inr (map json_row rows)
        | Inr _ \<Rightarrow> Inl (HTTPException 400 ''JSON file must contain a list of outage objects''))
     else if endswith filename ''.csv'' then
       (case utf8 content of
          None \<Rightarrow> Inl (HTTPException 400 ''Invalid CSV: codec error'')
        | Some t \<Rightarrow> (case DictReader t of Inl e \<Rightarrow> Inl (HTTPException 400 (''Invalid CSV: '' @ exc_msg e)) | Inr rows \<Rightarrow> Inr (map csv_dict rows)))
     else Inl (HTTPException 400 ''Unsupported file format. Use .json or .csv''))"

text \<open>
  \<open>row.get("id")\<close> of the error report. The coercion of the fields by pydantic is an argument; a dictionary with
  the key \<open>None\<close> cannot be passed as keyword arguments.
\<close>

definition row_id :: "upload_row \<Rightarrow> string option" where
  "row_id r = (case r of Dict d \<Rightarrow> (case map_of d (Some ''id'') of Some (JStr s) \<Rightarrow> Some s | _ \<Rightarrow> None) | Not_a_dict _ \<Rightarrow> None)"

definition coerce_row :: "((string option \<times> json) list \<Rightarrow> outage_create res) \<Rightarrow> upload_row \<Rightarrow> outage_create res" where
  "coerce_row coerce r = (case r of Dict d \<Rightarrow> if None \<in> fst ` set d then Inl TypeError else coerce d | Not_a_dict _ \<Rightarrow> Inl TypeError)"

definition upload_outages ::
  "(string \<Rightarrow> string + json) \<Rightarrow> (string \<Rightarrow> string option) \<Rightarrow> ((string option \<times> json) list \<Rightarrow> outage_create res) \<Rightarrow> nat \<Rightarrow> outage_limits \<Rightarrow> real \<Rightarrow> string \<Rightarrow>
   string list \<Rightarrow> bool \<Rightarrow> import_consistency \<Rightarrow> outage_state \<Rightarrow> import_response res \<times> outage_state" where
  "upload_outages json_loads utf8 coerce max_bytes lm started filename chunks dry_run consistency s =
    (case read_upload max_bytes 0 chunks of
       Inl e \<Rightarrow> (Inl e, s)
     | Inr content \<Rightarrow>
       (case decode_upload json_loads utf8 filename content of
          Inl e \<Rightarrow> (Inl e, s)
        | Inr rows \<Rightarrow> import_outages lm started dry_run consistency (map (\<lambda>r. (row_id r, coerce_row coerce r)) rows) s))"

section \<open>Reading exports back\<close>

lemma update_fresh: "k \<notin> fst ` set d \<Longrightarrow> AList.update k v d = d @ [(k, v)]"
  by (induction d) auto

lemma fold_update_distinct:
  "distinct (map fst (d @ kvs)) \<Longrightarrow> fold (\<lambda>(k, v) d. AList.update k v d) kvs d = d @ kvs"
proof (induction kvs arbitrary: d)
  case (Cons kv kvs)
  obtain k v where kv: "kv = (k, v)" by (metis prod.exhaust)
  have "AList.update k v d = d @ [(k, v)]" using Cons.prems by (intro update_fresh) (auto simp: kv)
  then show ?case using Cons.IH [of "d @ [(k, v)]"] Cons.prems by (simp add: kv)
qed simp

lemma dict_row_full:
  assumes "distinct fs" "length vs = length fs"
  shows "dict_row fs vs = zip (map Some fs) (map Text vs)"
proof -
  have "distinct (map fst (zip (map Some fs) (map Text vs)))" using assms by (simp add: distinct_map)
  from fold_update_distinct [of "[]", simplified, OF this] show ?thesis using assms(2) by (simp add: dict_row_def)
qed

definition value_of :: "(string \<times> string) list \<Rightarrow> string \<Rightarrow> string" where
  "value_of d k = (case map_of d k of Some v \<Rightarrow> v | None \<Rightarrow> [])"

lemma DictWriter_known:
  assumes "\<forall>d \<in> set ds. set (map fst d) \<subseteq> set fs"
  shows "DictWriter fs ds = Inr (write_rows (fs # map (\<lambda>d. map (value_of d) fs) ds))"
proof -
  have "write_dicts fs ds = Inr (write_rows (map (\<lambda>d. map (value_of d) fs) ds))" using assms
  proof (induction ds)
    case (Cons d ds)
    have "filter (\<lambda>k. k \<notin> set fs) (map fst d) = []" using Cons.prems by (auto simp: filter_empty_conv)
    then have "dict_values fs d = Inr (map (value_of d) fs)" by (simp add: dict_values_def value_of_def)
    then show ?case using Cons by (simp add: write_rows_def)
  qed (simp add: write_rows_def)
  then show ?thesis by (simp add: DictWriter_def write_rows_def)
qed

lemma csv_dict_roundtrip_aux:
  assumes "distinct fs" "fs \<noteq> []" "\<forall>d \<in> set ds. set (map fst d) \<subseteq> set fs"
  shows "\<exists>t. DictWriter fs ds = Inr t \<and> DictReader t = Inr (map (\<lambda>d. map (\<lambda>k. (Some k, Text (value_of d k))) fs) ds)"
proof -
  have ne: "[] \<notin> set (fs # map (\<lambda>d. map (value_of d) fs) ds)" using assms(2) by auto
  have row: "dict_row fs (map (value_of d) fs) = map (\<lambda>k. (Some k, Text (value_of d k))) fs" for d
    using dict_row_full [OF assms(1), of "map (value_of d) fs"] by (simp add: zip_map_map zip_same_conv_map)
  have "filter (\<lambda>r. r \<noteq> []) (map (\<lambda>d. map (value_of d) fs) ds) = map (\<lambda>d. map (value_of d) fs) ds" using assms(2) by simp
  then show ?thesis using DictWriter_known [OF assms(3)] csv_read_write [OF ne]
    by (simp add: DictReader_def row del: filter_map)
qed

text \<open>
  What the dictionary writer wrote, the dictionary reader reads back, whatever the values contain (separators, quotes
  and line breaks included): the same rows in the same order, every field of the header with its value.
\<close>

theorem csv_dict_roundtrip:
  assumes "distinct fs" "fs \<noteq> []" "\<forall>d \<in> set ds. set (map fst d) \<subseteq> set fs"
  shows "\<exists>t. DictWriter fs ds = Inr t \<and> DictReader t = Inr (map (\<lambda>d. map (\<lambda>k. (Some k, Text (value_of d k))) fs) ds)"
  using assms by (rule csv_dict_roundtrip_aux)

theorem csv_dict_roundtrip_witness:
  "\<exists>t. DictWriter [''a'', ''b''] [[(''b'', [COMMA, QUOTE, LF]), (''a'', ''x'')]] = Inr t
    \<and> DictReader t = Inr [[(Some ''a'', Text ''x''), (Some ''b'', Text [COMMA, QUOTE, LF])]]"
  using csv_dict_roundtrip [of "[''a'', ''b'']" "[[(''b'', [COMMA, QUOTE, LF]), (''a'', ''x'')]]"] by (simp add: value_of_def)

lemma value_of_cells: "(k, v) \<in> set d \<Longrightarrow> distinct (map fst d) \<Longrightarrow> value_of (cells rn d) k = cell rn v"
  by (simp add: value_of_def cells_def map_of_map)

lemma cells_keys [simp]: "map fst (cells rn d) = map fst d"
  by (simp add: cells_def comp_def case_prod_beta)

definition read_cells :: "render \<Rightarrow> (string \<times> json) list \<Rightarrow> csv_row" where
  "read_cells rn d = map (\<lambda>(k, v). (Some k, Text (cell rn v))) d"

lemma dump_roundtrip:
  assumes "distinct fs" "fs \<noteq> []" "\<forall>d \<in> set ds. map fst d = fs"
  shows "\<exists>t. DictWriter fs (map (cells rn) ds) = Inr t \<and> DictReader t = Inr (map (read_cells rn) ds)"
proof -
  have row: "map (\<lambda>k. (Some k, Text (value_of (cells rn d) k))) fs = read_cells rn d" if "d \<in> set ds" for d
  proof -
    have fs: "fs = map fst d" and dist: "distinct (map fst d)" using assms that by auto
    show ?thesis using dist by (auto simp: fs read_cells_def value_of_cells)
  qed
  have "set (map fst (cells rn d)) \<subseteq> set fs" if "d \<in> set ds" for d using bspec [OF assms(3) that] unfolding cells_keys by simp
  then have "\<forall>d \<in> set (map (cells rn) ds). set (map fst d) \<subseteq> set fs" unfolding set_map [of "cells rn"] by blast
  from csv_dict_roundtrip_aux [OF assms(1,2) this] show ?thesis using row by (auto cong: map_cong)
qed


definition sample_render :: render where
  "sample_render = \<lparr>rn_float = (\<lambda>x. ''0.0''), rn_repr = (\<lambda>j. []), rn_dumps = (\<lambda>j. ''null''), rn_iso = (\<lambda>t. [])\<rparr>"


section \<open>Outage exports and CSV uploads\<close>

lemma outage_cells_unknown:
  "filter (\<lambda>k. k \<notin> set OUTAGE_FIELDS) (map fst (outage_cells rn (serialize_outage rn x))) = [''deleted_at'']"
  by (simp add: outage_cells_def serialize_outage_def cells_def OUTAGE_FIELDS_def Let_def)

text \<open>
  The export of outages as CSV never contains one: without a matching outage it is the header, and otherwise the dump
  carries \<open>deleted_at\<close>, which is not a column, the writer raises and the endpoint answers 400. The format
  \<open>CSV\<close> in capitals is accepted by the exporter and not by the endpoint, which then returns the text as a JSON string.
\<close>

theorem outage_csv_never_exported:
  assumes "lower fmt = ''csv''"
  shows "export_outages_endpoint rn fmt f s =
    (if list_filtered f (os_outages s) = []
     then Inr (if fmt = ''csv'' then Download ''outages.csv'' (write_row OUTAGE_FIELDS) else Body (Csv (write_row OUTAGE_FIELDS)))
     else Inl (HTTPException 400 (''dict contains fields not in fieldnames: '' @ quoted ''deleted_at'')))"
proof (cases "list_filtered f (os_outages s)")
  case Nil
  then show ?thesis using assms
    by (simp add: export_outages_endpoint_def export_outages_def in_format_def DictWriter_def answer_as_def http_on_ValueError_def)
next
  case (Cons x xs)
  have "dict_values OUTAGE_FIELDS (outage_cells rn (serialize_outage rn x))
      = Inl (ValueError (''dict contains fields not in fieldnames: '' @ quoted ''deleted_at''))"
    unfolding dict_values_def outage_cells_unknown by simp
  then show ?thesis using assms Cons
    by (simp add: export_outages_endpoint_def export_outages_def in_format_def DictWriter_def http_on_ValueError_def Let_def)
qed

theorem outage_csv_never_exported_witness:
  "export_outages_endpoint sample_render ''csv'' \<lparr>fl_severity = None, fl_status = None, fl_search = None, fl_start = None, fl_end = None\<rparr>
      \<lparr>os_outages = [], os_events = [], os_audit = []\<rparr> = Inr (Download ''outages.csv'' (write_row OUTAGE_FIELDS))"
proof -
  have l: "lower ''csv'' = ''csv''" by code_simp
  show ?thesis by (subst outage_csv_never_exported [OF l]) (simp add: list_filtered_def)
qed

lemma set_update_sub: "set (AList.update k v d) \<subseteq> insert (k, v) (set d)"
  by (induction d) auto

lemma dict_row_values: "(Some k, v) \<in> set (dict_row fs row) \<Longrightarrow> v = Missing \<or> (\<exists>s. v = Text s)"
proof -
  have "(Some k, v) \<in> set (fold (\<lambda>(k, v) d. AList.update k v d) kvs d) \<Longrightarrow> (Some k, v) \<in> set kvs \<union> set d" for kvs d
  proof (induction kvs arbitrary: d)
    case (Cons kv kvs)
    then show ?case using set_update_sub [of "fst kv" "snd kv" d] by (cases kv) fastforce
  qed simp
  then show "(Some k, v) \<in> set (dict_row fs row) \<Longrightarrow> v = Missing \<or> (\<exists>s. v = Text s)"
    unfolding dict_row_def by (fastforce dest: set_zip_rightD split: if_splits)
qed

lemma csv_rows_no_list:
  assumes "decode_upload json_loads utf8 filename content = Inr rows" "endswith filename ''.csv''" "r \<in> set rows"
  shows "\<exists>d. r = Dict d \<and> (\<forall>xs. map_of d (Some k) \<noteq> Some (JArr xs))"
proof -
  have nj: "\<not> endswith filename ''.json''"
  proof
    assume "endswith filename ''.json''"
    then obtain a b where "filename = a @ ''.json''" "filename = b @ ''.csv''" using assms(2) by (auto simp: endswith_def suffix_def)
    then have "last filename = CHR ''n''" "last filename = CHR ''v''" by simp_all
    then show False by simp
  qed
  then obtain t fs ws where t: "csv_read t = Inr (fs # ws)" "rows = map csv_dict (map (dict_row fs) (filter (\<lambda>r. r \<noteq> []) ws)) \<or> rows = []"
    using assms(1,2,3) by (auto simp: decode_upload_def DictReader_def split: option.splits sum.splits list.splits)
  then obtain w where w: "r = csv_dict (dict_row fs w)" using assms(3) by auto
  have "map_of (map (\<lambda>(k, v). (k, csv_json v)) (dict_row fs w)) (Some k) \<noteq> Some (JArr xs)" for xs
    using dict_row_values [of k _ fs w] by (fastforce simp: map_of_map dest!: map_of_SomeD)
  then show ?thesis by (simp add: w csv_dict_def)
qed

lemma rejected_rows:
  assumes "\<forall>r \<in> set rows. \<exists>e. snd r = Inl e"
  shows "list_all (\<lambda>r. ir_error r \<noteq> None) (dry_rows i rows t) \<and> length (dry_rows i rows t) = length rows
    \<and> list_all (\<lambda>r. ir_error r \<noteq> None) (parse_outcomes i rows) \<and> length (parse_outcomes i rows) = length rows
    \<and> (\<exists>rs. partial_rows started i rows t = ((rs, 0), t) \<and> list_all (\<lambda>r. ir_error r \<noteq> None) rs \<and> length rs = length rows)"
  using assms
proof (induction rows arbitrary: i)
  case (Cons r rows)
  obtain rid e where r: "r = (rid, Inl e)" using Cons.prems by (cases r) auto
  show ?case using Cons.IH [of "Suc i"] Cons.prems by (auto simp: r row_error_def)
qed simp

lemma all_failed: "list_all (\<lambda>r. ir_error r \<noteq> None) rs \<Longrightarrow> imp_error_count (mk_import_response m n p rs) = length rs"
  by (simp add: mk_import_response_def list_all_iff)

lemma import_rejected:
  assumes "\<forall>r \<in> set (map (validate_raw lm) raw). \<exists>e. snd r = Inl e" "import_outages lm started dry_run consistency raw s = (res, s')"
  shows "s' = s \<and> (case res of Inl _ \<Rightarrow> True | Inr r \<Rightarrow> imp_persisted r = 0 \<and> imp_error_count r = imp_total_rows r)"
proof -
  define rows where "rows = map (validate_raw lm) raw"
  note rej = rejected_rows [OF assms(1) [folded rows_def]]
  have empty: "rows = []" if "\<not> list_ex (\<lambda>r. ir_error r \<noteq> None) (parse_outcomes 0 rows)"
    using that rej [of 0 "os_outages s"] by (cases rows) (auto simp: list_ex_iff list_all_iff)
  obtain rs where "partial_rows started 0 rows (os_outages s) = ((rs, 0), os_outages s)" "list_all (\<lambda>r. ir_error r \<noteq> None) rs" "length rs = length rows"
    using rej by blast
  moreover have "imp_error_count (mk_import_response m n p (dry_rows 0 rows (os_outages s))) = length rows"
      "imp_error_count (mk_import_response m n p (parse_outcomes 0 rows)) = length rows" for m n p
    using rej [of 0 "os_outages s"] by (simp_all add: all_failed)
  moreover have "imp_persisted (mk_import_response m n p x) = p" "imp_total_rows (mk_import_response m n p x) = n" for m n p x
    by (simp_all add: mk_import_response_def)
  moreover have "imp_error_count (mk_import_response m 0 0 []) = 0" for m by (simp add: mk_import_response_def)
  ultimately show ?thesis using assms(2) empty unfolding import_outages_def Let_def rows_def [symmetric]
    by (cases "length rows > MAX_BULK_OUTAGES_COUNT lm"; cases dry_run; cases consistency; cases "list_ex (\<lambda>r. ir_error r \<noteq> None) (parse_outcomes 0 rows)")
      (auto simp: all_failed)
qed

text \<open>
  What is relied on of pydantic: it accepts a row for \<open>OutageCreate\<close> only with a list under \<open>affected_services\<close>, whose type is
  \<open>List[str]\<close> without a default.
\<close>

definition needs_service_list :: "((string option \<times> json) list \<Rightarrow> outage_create res) \<Rightarrow> bool" where
  "needs_service_list coerce \<longleftrightarrow> (\<forall>d p. coerce d = Inr p \<longrightarrow> (\<exists>xs. map_of d (Some ''affected_services'') = Some (JArr xs)))"

text \<open>
  C34. No outage is ever imported from a CSV file: a cell is text and never a list, so every row of every file is reported as
  an error, in each mode, and the tables are unchanged.
\<close>

theorem csv_upload_never_persists:
  assumes "needs_service_list coerce" "endswith filename ''.csv''"
    "upload_outages json_loads utf8 coerce max_bytes lm started filename chunks dry_run consistency s = (res, s')"
  shows "s' = s \<and> (case res of Inl _ \<Rightarrow> True | Inr r \<Rightarrow> imp_persisted r = 0 \<and> imp_error_count r = imp_total_rows r)"
proof (cases "\<exists>content rows. read_upload max_bytes 0 chunks = Inr content \<and> decode_upload json_loads utf8 filename content = Inr rows")
  case False
  then show ?thesis using assms(3) by (auto simp: upload_outages_def split: sum.splits)
next
  case True
  then obtain content rows where c: "read_upload max_bytes 0 chunks = Inr content" "decode_upload json_loads utf8 filename content = Inr rows"
    by blast
  let ?raw = "map (\<lambda>r. (row_id r, coerce_row coerce r)) rows"
  have bad: "\<exists>e. snd x = Inl e" if x: "x \<in> set (map (validate_raw lm) ?raw)" for x
  proof -
    obtain r where r: "r \<in> set rows" "x = validate_raw lm (row_id r, coerce_row coerce r)" using x by auto
    obtain d where d: "r = Dict d" "\<forall>xs. map_of d (Some ''affected_services'') \<noteq> Some (JArr xs)"
      using csv_rows_no_list [OF c(2) assms(2) r(1)] by blast
    then have "\<exists>e. coerce d = Inl e" using assms(1) unfolding needs_service_list_def by (metis sum.exhaust)
    then show ?thesis by (auto simp: r(2) d(1) validate_raw_def coerce_row_def)
  qed
  have "import_outages lm started dry_run consistency ?raw s = (res, s')" using assms(3) c by (simp add: upload_outages_def)
  then show ?thesis using import_rejected [of lm ?raw] bad by blast
qed

definition sample_coerce :: "(string option \<times> json) list \<Rightarrow> outage_create res" where
  "sample_coerce d = (case map_of d (Some ''affected_services'') of Some (JArr xs) \<Rightarrow> Inr sample_outage | _ \<Rightarrow> Inl ValidationError)"

theorem csv_upload_never_persists_witness:
  "snd (upload_outages (\<lambda>t. Inl []) Some sample_coerce 100
      \<lparr>MAX_SITE_NAME_LENGTH = 10, MAX_DESCRIPTION_LENGTH = 10, MAX_AFFECTED_SERVICES_COUNT = 10, MAX_BULK_OUTAGES_COUNT = 10\<rparr> 0 ''o.csv''
      [write_rows [[''id''], [''x'']]] False Partial \<lparr>os_outages = [], os_events = [], os_audit = []\<rparr>)
    = \<lparr>os_outages = [], os_events = [], os_audit = []\<rparr>"
proof -
  have n: "needs_service_list sample_coerce" by (auto simp: needs_service_list_def sample_coerce_def split: option.splits json.splits)
  have c: "endswith ''o.csv'' ''.csv''" by (simp add: endswith_def suffix_def)
  show ?thesis by (rule csv_upload_never_persists [OF n c prod.collapse [symmetric], THEN conjunct1])
qed

end
