(* ===== verification/Canonical.thy ===== *)
theory Canonical
  imports ContractBridge
begin

text \<open>
  Canonical form and signature of a contract request, \<open>app/services/contracts/canonicalization.py\<close>, and the versions of
  bridge responses, \<open>app/services/contracts/response_versioning.py\<close>.

  Numbers in text go through \<open>decimal.Decimal\<close>: parsing, \<open>normalize()\<close> in the default context of 28 digits and \<open>str\<close> are written out.
  \<open>str\<close> of a float, \<open>json.dumps\<close> and SHA-256 are arguments.
\<close>

section \<open>Decimals\<close>

text \<open>Sign, coefficient and exponent of a finite decimal.\<close>

record decimal =
  dc_neg :: bool
  dc_coef :: nat
  dc_exp :: int

definition digits_only :: "string \<Rightarrow> bool" where
  "digits_only s \<longleftrightarrow> list_all is_digit s"

definition nat_of_digits :: "string \<Rightarrow> nat" where
  "nat_of_digits s = foldl (\<lambda>n c. 10 * n + (of_char c - 48)) 0 s"

definition split_sign :: "string \<Rightarrow> bool \<times> string" where
  "split_sign s = (case s of c # cs \<Rightarrow> if c = CHR ''-'' then (True, cs) else if c = CHR ''+'' then (False, cs) else (False, s) | [] \<Rightarrow> (False, []))"

definition parse_exponent :: "string \<Rightarrow> int option" where
  "parse_exponent s = (let (neg, ds) = split_sign s in
     if ds = [] \<or> \<not> digits_only ds then None else Some (if neg then - int (nat_of_digits ds) else int (nat_of_digits ds)))"

definition is_e :: "char \<Rightarrow> bool" where
  "is_e c \<longleftrightarrow> c = CHR ''e'' \<or> c = CHR ''E''"

text \<open>
  \<open>Decimal(text)\<close> for a finite number: white space and underscores are removed, then a sign, digits with at most one point
  and at least one digit, and an exponent. Digits are ASCII.
\<close>

definition parse_decimal :: "string \<Rightarrow> decimal option" where
  "parse_decimal text0 =
    (let (neg, body) = split_sign (filter (\<lambda>c. c \<noteq> CHR ''_'') (strip text0));
         mant = takeWhile (\<lambda>c. \<not> is_e c) body; rest = dropWhile (\<lambda>c. \<not> is_e c) body;
         whole = takeWhile (\<lambda>c. c \<noteq> CHR ''.'') mant; frac = drop 1 (dropWhile (\<lambda>c. c \<noteq> CHR ''.'') mant);
         ex = (if rest = [] then Some 0 else parse_exponent (drop 1 rest))
     in if \<not> digits_only whole \<or> \<not> digits_only frac \<or> whole @ frac = [] then None
        else map_option (\<lambda>e. \<lparr>dc_neg = neg, dc_coef = nat_of_digits (whole @ frac), dc_exp = e - int (length frac)\<rparr>) ex)"

definition num_digits :: "nat \<Rightarrow> nat" where
  "num_digits n = length (str_nat n)"

text \<open>The constructor is exact: what the largest context cannot represent is refused.\<close>

definition adjusted :: "decimal \<Rightarrow> int" where
  "adjusted d = dc_exp d + int (num_digits (dc_coef d)) - 1"

definition representable :: "decimal \<Rightarrow> bool" where
  "representable d \<longleftrightarrow> dc_exp d \<ge> - 1999999999999999997 \<and> adjusted d \<le> 999999999999999999"

text \<open>Rounding in the default context: 28 digits and exponents from -1000026, ties to even.\<close>

definition round_coef :: "decimal \<Rightarrow> decimal" where
  "round_coef d =
    (let cut = max (num_digits (dc_coef d) - 28) (nat (- 1000026 - dc_exp d)) in
     if cut = 0 \<or> dc_coef d = 0 then d
     else (let q = dc_coef d div 10 ^ cut; r = dc_coef d mod 10 ^ cut;
               q1 = (if 2 * r > 10 ^ cut \<or> (2 * r = 10 ^ cut \<and> odd q) then q + 1 else q)
           in d\<lparr>dc_coef := q1, dc_exp := dc_exp d + int cut\<rparr>))"

function strip_zeros :: "nat \<Rightarrow> int \<Rightarrow> nat \<times> int" where
  "strip_zeros n e = (if n = 0 then (0, 0) else if n mod 10 = 0 then strip_zeros (n div 10) (e + 1) else (n, e))"
  by auto
termination by (relation "measure fst") auto

declare strip_zeros.simps [simp del]

definition normalize_decimal :: "decimal \<Rightarrow> decimal" where
  "normalize_decimal d = (let r = round_coef d; (n, e) = strip_zeros (dc_coef r) (dc_exp r) in r\<lparr>dc_coef := n, dc_exp := e\<rparr>)"

text \<open>Infinities and quiet NaNs are normalised to their names; normalising a signalling NaN raises.\<close>

definition special_text :: "string \<Rightarrow> string option" where
  "special_text text0 =
    (let (neg, body) = split_sign (filter (\<lambda>c. c \<noteq> CHR ''_'') (strip text0)); low = lower body;
         sgn = (if neg then ''-'' else []); pay = dropWhile (\<lambda>c. c = CHR ''0'') (drop 3 body)
     in if low = ''inf'' \<or> low = ''infinity'' then Some (sgn @ ''Infinity'')
        else if take 3 low = ''nan'' \<and> digits_only (drop 3 body)
        then Some (sgn @ ''NaN'' @ dropWhile (\<lambda>c. c = CHR ''0'') (drop (length pay - 28) pay))
        else None)"

text \<open>\<open>str(Decimal)\<close>: scientific notation for positive exponents and for small numbers.\<close>

definition str_decimal :: "decimal \<Rightarrow> string" where
  "str_decimal d =
    (let ds = str_nat (dc_coef d); len = int (length ds); left = dc_exp d + len;
         dot = (if dc_exp d \<le> 0 \<and> left > - 6 then left else 1);
         body = (if dot \<le> 0 then ''0.'' @ replicate (nat (- dot)) (CHR ''0'') @ ds
                 else if dot \<ge> len then ds @ replicate (nat (dot - len)) (CHR ''0'')
                 else take (nat dot) ds @ ''.'' @ drop (nat dot) ds);
         ex = (if left = dot then [] else ''E'' @ (if left - dot \<ge> 0 then ''+'' else []) @ str_int (left - dot))
     in (if dc_neg d then ''-'' else []) @ body @ ex)"

section \<open>Normalisation\<close>

definition rstrip_char :: "char \<Rightarrow> string \<Rightarrow> string" where
  "rstrip_char c s = rev (dropWhile (\<lambda>x. x = c) (rev s))"

definition strip_trailing_zeros :: "string \<Rightarrow> string" where
  "strip_trailing_zeros v = (if CHR ''.'' \<notin> set v then v else rstrip_char (CHR ''.'') (rstrip_char (CHR ''0'') v))"

text \<open>The text of \<open>Decimal(s).normalize()\<close>, without a value when the constructor or the normalisation raises (an overflow does).\<close>

definition decimal_text :: "string \<Rightarrow> string option" where
  "decimal_text s =
    (case special_text s of
       Some t \<Rightarrow> Some (strip_trailing_zeros t)
     | None \<Rightarrow>
         (case parse_decimal s of
            None \<Rightarrow> None
          | Some d \<Rightarrow>
              (let r = normalize_decimal d in
               if \<not> representable d \<or> (dc_coef r \<noteq> 0 \<and> adjusted r > 999999) then None else Some (strip_trailing_zeros (str_decimal r)))))"

fun normalize_numeric :: "(real \<Rightarrow> string) \<Rightarrow> json \<Rightarrow> json" where
  "normalize_numeric fstr0 (JNum x) = (case decimal_text (fstr0 x) of Some t \<Rightarrow> JStr t | None \<Rightarrow> JNum x)"
| "normalize_numeric fstr0 (JStr s) = (case decimal_text s of Some t \<Rightarrow> JStr t | None \<Rightarrow> JStr s)"
| "normalize_numeric fstr0 v = v"

definition blank :: "json \<Rightarrow> bool" where
  "blank v \<longleftrightarrow> v \<in> {JNull, JStr [], JObj [], JArr []}"

fun remove_nulls_and_empty :: "json \<Rightarrow> json" and remove_fields :: "(string \<times> json) list \<Rightarrow> (string \<times> json) list"
  and remove_items :: "json list \<Rightarrow> json list" where
  "remove_nulls_and_empty (JObj d) = JObj (remove_fields d)"
| "remove_nulls_and_empty (JArr xs) = JArr (remove_items xs)"
| "remove_nulls_and_empty v = v"
| "remove_fields [] = []"
| "remove_fields ((k, v) # d) = (if blank v then remove_fields d else (k, remove_nulls_and_empty v) # remove_fields d)"
| "remove_items [] = []"
| "remove_items (x # xs) = remove_nulls_and_empty x # remove_items xs"

text \<open>
  \<open>_canonicalize\<close>. The keys of a dictionary are distinct, so it makes no difference that the entries are sorted after
  their values were canonicalised.
\<close>

fun canonicalize :: "(real \<Rightarrow> string) \<Rightarrow> json \<Rightarrow> json" and canonical_fields :: "(real \<Rightarrow> string) \<Rightarrow> (string \<times> json) list \<Rightarrow> (string \<times> json) list"
  and canonical_items :: "(real \<Rightarrow> string) \<Rightarrow> json list \<Rightarrow> json list" where
  "canonicalize fs (JObj d) = JObj (sort_key fst (canonical_fields fs d))"
| "canonicalize fs (JArr xs) = JArr (canonical_items fs xs)"
| "canonicalize fs v = normalize_numeric fs v"
| "canonical_fields fs [] = []"
| "canonical_fields fs ((k, v) # d) =
    (if blank v then canonical_fields fs d
     else (k, case v of JObj _ \<Rightarrow> canonicalize fs v | JArr _ \<Rightarrow> canonicalize fs v | _ \<Rightarrow> normalize_numeric fs (normalize_numeric fs v))
       # canonical_fields fs d)"
| "canonical_items fs [] = []"
| "canonical_items fs (x # xs) =
    (case x of JObj _ \<Rightarrow> canonicalize fs x | JArr _ \<Rightarrow> canonicalize fs x | _ \<Rightarrow> normalize_numeric fs (normalize_numeric fs x)) # canonical_items fs xs"

section \<open>Builder\<close>

record canonical_env =
  ce_float :: "real \<Rightarrow> string"
  ce_dumps :: "json \<Rightarrow> string"
  ce_sha256 :: "string \<Rightarrow> string"
  ce_salt :: string

type_synonym builder = "string \<times> json option"

definition CanonicalRequestBuilder :: "canonical_env \<Rightarrow> string option \<Rightarrow> builder" where
  "CanonicalRequestBuilder env salt = (case salt of Some s \<Rightarrow> if s \<noteq> [] then s else ce_salt env | None \<Rightarrow> ce_salt env, None)"

definition build_canonical :: "canonical_env \<Rightarrow> (string \<times> json) list \<Rightarrow> builder \<Rightarrow> json \<times> builder" where
  "build_canonical env params b = (let c = canonicalize (ce_float env) (remove_nulls_and_empty (JObj params)) in (c, (fst b, Some c)))"

definition hash_canonical :: "canonical_env \<Rightarrow> builder \<Rightarrow> string res" where
  "hash_canonical env b =
    (case snd b of None \<Rightarrow> Inl (RuntimeError ''Call build() before hash()'') | Some c \<Rightarrow> Inr (ce_sha256 env (fst b @ ce_dumps env c)))"

definition verify_canonical :: "canonical_env \<Rightarrow> (string \<times> json) list \<Rightarrow> string \<Rightarrow> builder \<Rightarrow> bool res \<times> builder" where
  "verify_canonical env params expected b =
    (let b1 = snd (build_canonical env params b) in (map_sum id (\<lambda>h. h = expected) (hash_canonical env b1), b1))"

section \<open>Response versions\<close>

datatype schema_version = V1 | V2

definition V1_FIELDS :: "string list" where
  "V1_FIELDS = [''status'', ''amount'', ''asset_code'', ''from_address'', ''to_address'', ''tx_hash'', ''error'']"

definition V2_FIELDS :: "string list" where
  "V2_FIELDS = V1_FIELDS @ [''network'', ''block_number'', ''metadata'']"

definition detect_version :: "(string \<times> json) list \<Rightarrow> schema_version" where
  "detect_version raw =
    (case map_of raw ''bridge_schema_version'' of
       Some (JStr v) \<Rightarrow>
         if v = ''v1'' then V1 else if v = ''v2'' then V2
         else if list_ex (\<lambda>k. map_of raw k \<noteq> None) [''network'', ''block_number'', ''metadata''] then V2 else V1
     | _ \<Rightarrow> if list_ex (\<lambda>k. map_of raw k \<noteq> None) [''network'', ''block_number'', ''metadata''] then V2 else V1)"

text \<open>The default each \<open>raw.get\<close> falls back to.\<close>

definition field_default :: "string \<Rightarrow> json" where
  "field_default k = (if k = ''amount'' then JInt 0 else if k \<in> {''tx_hash'', ''error'', ''network'', ''block_number''} then JNull
     else if k = ''metadata'' then JObj [] else JStr [])"

definition converted :: "string list \<Rightarrow> (string \<times> json) list \<Rightarrow> (string \<times> json) list" where
  "converted ks raw = map (\<lambda>k. (k, case map_of raw k of Some v \<Rightarrow> v | None \<Rightarrow> field_default k)) ks"

text \<open>Validation by pydantic against the model of a version is an argument.\<close>

definition normalize_response ::
  "(schema_version \<Rightarrow> (string \<times> json) list \<Rightarrow> 'm res) \<Rightarrow> schema_version \<Rightarrow> (string \<times> json) list \<Rightarrow> schema_version option \<Rightarrow> 'm res" where
  "normalize_response validate configured raw target_version =
    (let target = (case target_version of Some v \<Rightarrow> v | None \<Rightarrow> configured); source = detect_version raw in
     if source = target then validate target raw
     else (case target of V2 \<Rightarrow> validate V2 (converted V2_FIELDS raw) | V1 \<Rightarrow> validate V1 (converted V1_FIELDS raw)))"

section \<open>Stability of the canonical form\<close>

definition canonical_value :: "(real \<Rightarrow> string) \<Rightarrow> json \<Rightarrow> json" where
  "canonical_value fs v =
    (case v of JObj _ \<Rightarrow> canonicalize fs v | JArr _ \<Rightarrow> canonicalize fs v | _ \<Rightarrow> normalize_numeric fs (normalize_numeric fs v))"

lemma blank_obj: "blank (JObj d) \<longleftrightarrow> d = []" and blank_arr: "blank (JArr xs) \<longleftrightarrow> xs = []"
  by (simp_all add: blank_def)

lemma canonical_value_obj: "canonical_value fs (JObj d) = canonicalize fs (JObj d)"
  and canonical_value_arr: "canonical_value fs (JArr xs) = canonicalize fs (JArr xs)"
  by (simp_all only: canonical_value_def json.case)

lemma remove_fields_map: "remove_fields d = map (\<lambda>kv. (fst kv, remove_nulls_and_empty (snd kv))) (filter (\<lambda>kv. \<not> blank (snd kv)) d)"
  by (induction d) auto

lemma canonical_fields_map: "canonical_fields fs d = map (\<lambda>kv. (fst kv, canonical_value fs (snd kv))) (filter (\<lambda>kv. \<not> blank (snd kv)) d)"
proof (induction d)
  case (Cons kv d)
  obtain k v where kv: "kv = (k, v)" by fastforce
  have "canonical_fields fs (kv # d) = (if blank v then [] else [(k, canonical_value fs v)]) @ canonical_fields fs d"
    by (simp only: kv canonical_fields.simps canonical_value_def [symmetric]) simp
  then show ?case using Cons kv by simp
qed simp

lemma remove_items_map: "remove_items xs = map remove_nulls_and_empty xs"
  by (induction xs) auto

lemma canonical_items_map: "canonical_items fs xs = map (canonical_value fs) xs"
  by (induction xs) (simp_all only: canonical_items.simps canonical_value_def [symmetric] list.map)

lemma mset_map_filter_cong: "mset xs = mset ys \<Longrightarrow> mset (map f (filter p xs)) = mset (map f (filter p ys))"
  by simp

lemma same_length_empty: "mset xs = mset ys \<Longrightarrow> (xs = []) = (ys = [])"
  by (drule mset_eq_length) auto

lemma sort_unique:
  fixes xs ys :: "(string \<times> 'a) list"
  assumes "mset xs = mset ys" "distinct (map fst xs)"
  shows "sort_key fst xs = sort_key fst ys"
proof (rule properties_for_sort_key)
  show "mset (sort_key fst ys) = mset xs" using assms(1) by simp
  show "sorted (map fst (sort_key fst ys))" by simp
  have dy: "distinct (map fst ys)" using assms by (metis mset_eq_imp_distinct_iff mset_map)
  fix x assume "x \<in> set (sort_key fst ys)"
  then have x: "x \<in> set ys" "x \<in> set xs" using assms(1) by (auto dest: mset_eq_setD)
  have one: "filter (\<lambda>z. fst x = fst z) zs = [x]" if "x \<in> set zs" "distinct (map fst zs)" for zs :: "(string \<times> 'a) list"
    using that
  proof (induction zs)
    case (Cons z zs)
    then show ?case by (cases "x = z") (auto simp: filter_empty_conv image_iff)
  qed simp
  have "distinct (map fst (sort_key fst ys))" using dy by (metis mset_eq_imp_distinct_iff mset_map mset_sort)
  then show "filter (\<lambda>z. fst x = fst z) (sort_key fst ys) = filter (\<lambda>z. fst x = fst z) xs" using one x assms(2) by (metis set_sort)
qed

text \<open>
  The same request: entries in another order, at any depth, and numbers in text that are the same decimal.
\<close>

inductive same :: "json \<Rightarrow> json \<Rightarrow> bool" where
  same_refl: "same v v"
| same_trans: "same u v \<Longrightarrow> same v w \<Longrightarrow> same u w"
| same_order: "mset d = mset d' \<Longrightarrow> distinct (map fst d) \<Longrightarrow> same (JObj d) (JObj d')"
| same_field: "same v w \<Longrightarrow> same (JObj (d1 @ (k, v) # d2)) (JObj (d1 @ (k, w) # d2))"
| same_item: "same v w \<Longrightarrow> same (JArr (xs @ v # ys)) (JArr (xs @ w # ys))"
| same_number: "decimal_text s = Some t \<Longrightarrow> decimal_text s' = Some t \<Longrightarrow> same (JStr s) (JStr s')"

lemma decimal_text_nonempty: "decimal_text [] = None"
  by (simp add: decimal_text_def special_text_def parse_decimal_def split_sign_def strip_def lower_def)

lemma same_canonical:
  assumes "same v w"
  shows "blank v = blank w \<and> blank (remove_nulls_and_empty v) = blank (remove_nulls_and_empty w)
    \<and> canonicalize fs (remove_nulls_and_empty v) = canonicalize fs (remove_nulls_and_empty w)
    \<and> canonical_value fs (remove_nulls_and_empty v) = canonical_value fs (remove_nulls_and_empty w)"
  using assms
proof (induction rule: same.induct)
  case (same_order d d')
  let ?r = "\<lambda>d. map (\<lambda>kv. (fst kv, remove_nulls_and_empty (snd kv))) (filter (\<lambda>kv. \<not> blank (snd kv)) d)"
  let ?c = "\<lambda>d. map (\<lambda>kv. (fst kv, canonical_value fs (snd kv))) (filter (\<lambda>kv. \<not> blank (snd kv)) d)"
  have m: "mset (?r d) = mset (?r d')" using same_order(1) by (rule mset_map_filter_cong)
  then have "mset (?c (?r d)) = mset (?c (?r d'))" by (rule mset_map_filter_cong)
  moreover have "distinct (map fst (?c (?r d)))" using same_order(2) by (simp add: distinct_map_filter filter_map comp_def)
  ultimately have "sort_key fst (?c (?r d)) = sort_key fst (?c (?r d'))" by (rule sort_unique)
  moreover have "d = [] \<longleftrightarrow> d' = []" "?r d = [] \<longleftrightarrow> ?r d' = []" by (rule same_length_empty [OF same_order(1)], rule same_length_empty [OF m])
  moreover have "canonicalize fs (remove_nulls_and_empty (JObj u)) = JObj (sort_key fst (?c (?r u)))" for u
    by (simp only: remove_nulls_and_empty.simps canonicalize.simps remove_fields_map canonical_fields_map)
  moreover have "remove_nulls_and_empty (JObj u) = JObj (?r u)" for u by (simp only: remove_nulls_and_empty.simps remove_fields_map)
  ultimately show ?case by (simp add: blank_obj canonical_value_obj)
next
  case (same_field v w d1 k d2)
  then show ?case by (auto simp: blank_obj remove_fields_map canonical_fields_map canonical_value_obj)
next
  case (same_item v w xs ys)
  then show ?case by (auto simp: blank_arr remove_items_map canonical_items_map canonical_value_arr)
next
  case (same_number s t s')
  then have "s \<noteq> []" "s' \<noteq> []" using decimal_text_nonempty by auto
  then show ?case using same_number by (simp add: blank_def canonical_value_def)
qed auto

lemma canonical_key_order: "canonicalize fs (JObj d) = JObj e \<Longrightarrow> sorted (map fst e)"
  by auto

lemma remove_fields_blank: "remove_fields (filter (\<lambda>kv. \<not> blank (snd kv)) d) = remove_fields d"
  by (simp add: remove_fields_map)


lemma same_example:
  "same (JObj [(''b'', JStr ''1.50''), (''a'', JObj [(''y'', JNull), (''x'', JInt 2)])]) (JObj [(''a'', JObj [(''x'', JInt 2), (''y'', JNull)]), (''b'', JStr ''15e-1'')])"
proof -
  have n: "same (JStr ''1.50'') (JStr ''15e-1'')" by (rule same_number [where t = "''1.5''"]) code_simp+
  have o: "same (JObj [(''y'', JNull), (''x'', JInt 2)]) (JObj [(''x'', JInt 2), (''y'', JNull)])" by (rule same_order) auto
  have "same (JObj ([] @ (''b'', JStr ''1.50'') # [(''a'', JObj [(''y'', JNull), (''x'', JInt 2)])]))
      (JObj ([] @ (''b'', JStr ''15e-1'') # [(''a'', JObj [(''y'', JNull), (''x'', JInt 2)])]))"
    by (rule same_field) (rule n)
  moreover have "same (JObj ([(''b'', JStr ''15e-1'')] @ (''a'', JObj [(''y'', JNull), (''x'', JInt 2)]) # []))
      (JObj ([(''b'', JStr ''15e-1'')] @ (''a'', JObj [(''x'', JInt 2), (''y'', JNull)]) # []))"
    by (rule same_field) (rule o)
  moreover have "same (JObj [(''b'', JStr ''15e-1''), (''a'', JObj [(''x'', JInt 2), (''y'', JNull)])])
      (JObj [(''a'', JObj [(''x'', JInt 2), (''y'', JNull)]), (''b'', JStr ''15e-1'')])"
    by (rule same_order) auto
  ultimately show ?thesis by (auto intro: same_trans)
qed


text \<open>
  Requests that are not the same may still have the same signature, and requests that mean the same may not. The amounts
  \<open>150\<close> and \<open>1.5E+20\<close> in text are signed alike, because the zeros stripped from \<open>1.5E+20\<close> belong to the
  exponent. The integer 1 and the float 1.0 are signed differently, and an object that becomes empty by the removal of its
  entries is removed one level at a time only: two levels down it stays.
\<close>

theorem canonical_collision:
  "fst (build_canonical env [(''amount'', JStr ''150'')] b) = fst (build_canonical env [(''amount'', JStr ''1.5E+20'')] b)
   \<and> hash_canonical env (snd (build_canonical env [(''amount'', JStr ''150'')] b))
       = hash_canonical env (snd (build_canonical env [(''amount'', JStr ''1.5E+20'')] b))
   \<and> (ce_float env 1 = ''1.0'' \<longrightarrow>
        fst (build_canonical env [(''amount'', JNum 1)] b) = JObj [(''amount'', JStr ''1'')]
        \<and> fst (build_canonical env [(''amount'', JInt 1)] b) = JObj [(''amount'', JInt 1)])
   \<and> fst (build_canonical env [(''a'', JObj [(''b'', JNull)])] b) = JObj []
   \<and> fst (build_canonical env [(''a'', JObj [(''b'', JObj [(''c'', JNull)])])] b) = JObj [(''a'', JObj [])]"
proof -
  have d: "decimal_text ''150'' = Some ''1.5E+2''" "decimal_text ''1.5E+2'' = Some ''1.5E+2''"
    "decimal_text ''1.5E+20'' = Some ''1.5E+2''" "decimal_text ''1.0'' = Some ''1''" "decimal_text ''1'' = Some ''1''"
    by code_simp+
  show ?thesis by (simp add: build_canonical_def hash_canonical_def blank_def d Let_def)
qed

theorem canonical_collision_witness:
  "ce_float \<lparr>ce_float = \<lambda>x. ''1.0'', ce_dumps = \<lambda>_. [], ce_sha256 = id, ce_salt = []\<rparr> 1 = ''1.0''
   \<and> fst (build_canonical \<lparr>ce_float = \<lambda>x. ''1.0'', ce_dumps = \<lambda>_. [], ce_sha256 = id, ce_salt = []\<rparr> [(''amount'', JNum 1)] ([], None)) = JObj [(''amount'', JStr ''1'')]"
  using canonical_collision [of "\<lparr>ce_float = \<lambda>x. ''1.0'', ce_dumps = \<lambda>_. [], ce_sha256 = id, ce_salt = []\<rparr>" "([], None)"] by simp

section \<open>Conversions between versions\<close>

lemma map_of_converted: "map_of (converted ks raw) k = (if k \<in> set ks then Some (case map_of raw k of Some v \<Rightarrow> v | None \<Rightarrow> field_default k) else None)"
  by (induction ks) (auto simp: converted_def)

lemma converted_sub: "set ks \<subseteq> set ls \<Longrightarrow> converted ks (converted ls raw) = converted ks raw"
  by (auto simp: converted_def [of ks] map_of_converted)

lemma detect_converted: "detect_version (converted V2_FIELDS raw) = V2" "detect_version (converted V1_FIELDS raw) = V1"
  by (simp_all add: detect_version_def map_of_converted V1_FIELDS_def V2_FIELDS_def)

text \<open>
  Conversions of bridge responses do not lose anything the version has. A response of the other version is validated as the
  target's fields with the missing ones at their defaults; converting a version 1 response up and down again validates the same
  fields as it has itself, and the response the model of version 2 dumps is recognised as version 2 again, whatever the configured target.
\<close>

theorem response_version_roundtrip:
  assumes "detect_version raw = V1"
  shows "normalize_response validate cfg raw (Some V2) = validate V2 (converted V2_FIELDS raw)
    \<and> normalize_response validate cfg raw (Some V1) = validate V1 raw
    \<and> normalize_response validate cfg (converted V2_FIELDS raw) (Some V1) = validate V1 (converted V1_FIELDS raw)
    \<and> normalize_response validate V2 (converted V2_FIELDS raw) None = validate V2 (converted V2_FIELDS raw)
    \<and> (\<forall>k v. k \<in> set V1_FIELDS \<and> map_of raw k = Some v \<longrightarrow> map_of (converted V1_FIELDS raw) k = Some v \<and> map_of (converted V2_FIELDS raw) k = Some v)"
proof -
  have "set V1_FIELDS \<subseteq> set V2_FIELDS" by (auto simp: V2_FIELDS_def)
  then show ?thesis using assms by (auto simp: normalize_response_def detect_converted converted_sub map_of_converted)
qed

theorem response_version_roundtrip_witness:
  "detect_version [(''status'', JStr ''ok''), (''bridge_schema_version'', JStr ''v3'')] = V1
   \<and> normalize_response (\<lambda>v d. Inr (v, d)) V1 [(''status'', JStr ''ok''), (''bridge_schema_version'', JStr ''v3'')] (Some V2)
     = (Inr (V2, converted V2_FIELDS [(''status'', JStr ''ok''), (''bridge_schema_version'', JStr ''v3'')]) :: (schema_version \<times> (string \<times> json) list) res)"
proof -
  have v: "detect_version [(''status'', JStr ''ok''), (''bridge_schema_version'', JStr ''v3'')] = V1" by code_simp
  show ?thesis using v response_version_roundtrip [OF v, of "\<lambda>v d. Inr (v, d)" V1] by simp
qed

end
