(* ===== verification/Provenance.thy ===== *)
theory Provenance
  imports NocBase
begin

text \<open>
  Provenance of on-chain transactions: the table and service of \<open>app/services/tx_provenance.py\<close> and the handlers of
  \<open>app/api/v1/endpoints/transactions.py\<close>. The table is the list of its rows; the surrogate key, which no operation reads, is left out.
  Columns are bounded as PostgreSQL bounds them; a failing commit leaves the table as it was.
\<close>

section \<open>Table\<close>

datatype tx_status = SUBMITTED | CONFIRMED | VERIFIED | TX_FAILED

record tx_row =
  tx_hash :: string
  tx_network :: string
  tx_submitted_at :: "real option"
  tx_confirmed_at :: "real option"
  tx_verified_at :: "real option"
  tx_state :: tx_status
  tx_block :: "int option"
  tx_notes :: "string option"

record tx_provenance =
  pv_hash :: string
  pv_network :: string
  pv_submitted_at :: "real option"
  pv_confirmed_at :: "real option"
  pv_verified_at :: "real option"
  pv_state :: tx_status
  pv_block :: "int option"

definition to_dataclass :: "tx_row \<Rightarrow> tx_provenance" where
  "to_dataclass r =
    \<lparr>pv_hash = tx_hash r, pv_network = tx_network r, pv_submitted_at = tx_submitted_at r, pv_confirmed_at = tx_confirmed_at r,
     pv_verified_at = tx_verified_at r, pv_state = tx_state r, pv_block = tx_block r\<rparr>"

text \<open>The widths of the columns.\<close>

definition storable :: "tx_row \<Rightarrow> bool" where
  "storable r \<longleftrightarrow> length (tx_hash r) \<le> 255 \<and> length (tx_network r) \<le> 50
     \<and> (case tx_block r of None \<Rightarrow> True | Some b \<Rightarrow> - (2 ^ 31) \<le> b \<and> b < 2 ^ 31)"

definition get_tx :: "string \<Rightarrow> tx_row list \<Rightarrow> tx_row option" where
  "get_tx h t = find (\<lambda>r. tx_hash r = h) t"

text \<open>\<open>commit\<close> and \<open>refresh\<close> of a row that replaces the stored one with its hash.\<close>

definition commit_tx :: "tx_row \<Rightarrow> tx_row list \<Rightarrow> tx_provenance res \<times> tx_row list" where
  "commit_tx r t =
    (if storable r then (Inr (to_dataclass r), upd_where (\<lambda>x. tx_hash x = tx_hash r) (\<lambda>_. r) t) else (Inl (DBError ''DataError''), t))"

section \<open>Service\<close>

definition record_submission :: "real \<Rightarrow> string \<Rightarrow> string \<Rightarrow> int option \<Rightarrow> tx_row list \<Rightarrow> tx_provenance res \<times> tx_row list" where
  "record_submission now h network block t =
    (case get_tx h t of
       Some r \<Rightarrow> commit_tx (r\<lparr>tx_state := SUBMITTED, tx_submitted_at := Some now, tx_network := network, tx_block := block\<rparr>) t
     | None \<Rightarrow>
         (let r = \<lparr>tx_hash = h, tx_network = network, tx_submitted_at = Some now, tx_confirmed_at = None, tx_verified_at = None,
                   tx_state = SUBMITTED, tx_block = block, tx_notes = None\<rparr>
          in if storable r then (Inr (to_dataclass r), t @ [r]) else (Inl (DBError ''DataError''), t)))"

definition get_record :: "string \<Rightarrow> tx_row list \<Rightarrow> tx_row res" where
  "get_record h t = (case get_tx h t of None \<Rightarrow> Inl (ValueError (''Transaction provenance not found for hash: '' @ h)) | Some r \<Rightarrow> Inr r)"

definition confirm :: "real \<Rightarrow> string \<Rightarrow> int option \<Rightarrow> tx_row list \<Rightarrow> tx_provenance res \<times> tx_row list" where
  "confirm now h block t =
    (case get_record h t of
       Inl e \<Rightarrow> (Inl e, t)
     | Inr r \<Rightarrow>
         commit_tx (r\<lparr>tx_state := CONFIRMED, tx_confirmed_at := Some now,
                      tx_block := (case block of None \<Rightarrow> tx_block r | Some b \<Rightarrow> Some b)\<rparr>) t)"

definition verify :: "real \<Rightarrow> string \<Rightarrow> tx_row list \<Rightarrow> tx_provenance res \<times> tx_row list" where
  "verify now h t =
    (case get_record h t of
       Inl e \<Rightarrow> (Inl e, t)
     | Inr r \<Rightarrow>
         commit_tx (r\<lparr>tx_state := VERIFIED, tx_verified_at := Some now, tx_notes := Some ''On-chain verification completed''\<rparr>) t)"

definition get_status :: "string \<Rightarrow> tx_row list \<Rightarrow> tx_provenance option" where
  "get_status h t = map_option to_dataclass (get_tx h t)"

section \<open>Handlers\<close>

definition not_found :: exc where
  "not_found = HTTPException 404 ''Transaction provenance not found''"

definition get_tx_provenance :: "string \<Rightarrow> tx_row list \<Rightarrow> tx_provenance res" where
  "get_tx_provenance h t = (case get_status h t of None \<Rightarrow> Inl not_found | Some p \<Rightarrow> Inr p)"

record tx_verify_response =
  vr_hash :: string
  vr_state :: tx_status
  vr_verified_at :: "real option"
  vr_message :: string

definition verify_tx :: "real \<Rightarrow> string \<Rightarrow> bool \<Rightarrow> tx_row list \<Rightarrow> tx_verify_response res \<times> tx_row list" where
  "verify_tx now h force t =
    (case get_status h t of
       None \<Rightarrow> (Inl not_found, t)
     | Some p \<Rightarrow>
         if pv_state p = VERIFIED \<and> \<not> force
         then (Inr \<lparr>vr_hash = h, vr_state = VERIFIED, vr_verified_at = pv_verified_at p, vr_message = ''Transaction already verified''\<rparr>, t)
         else (let (r, t') = verify now h t in
               (map_sum id (\<lambda>u. \<lparr>vr_hash = h, vr_state = pv_state u, vr_verified_at = pv_verified_at u,
                                vr_message = ''Transaction verification completed''\<rparr>) r, t')))"

section \<open>Histories\<close>

inductive tx_step :: "tx_row list \<Rightarrow> tx_row list \<Rightarrow> bool" where
  tx_submit: "tx_step t (snd (record_submission now h n b t))"
| tx_confirm: "tx_step t (snd (confirm now h b t))"
| tx_verify: "tx_step t (snd (verify now h t))"
| tx_verify_handler: "tx_step t (snd (verify_tx now h force t))"

text \<open>
  A row has a submission time, and the times and notes its status calls for; no operation writes the status \<open>failed\<close>. Rows stay,
  and the times of confirmation and verification are never taken back.
\<close>

definition row_ok :: "tx_row \<Rightarrow> bool" where
  "row_ok r \<longleftrightarrow> storable r \<and> tx_submitted_at r \<noteq> None \<and> tx_state r \<noteq> TX_FAILED
     \<and> (tx_state r = CONFIRMED \<longrightarrow> tx_confirmed_at r \<noteq> None) \<and> (tx_state r = VERIFIED \<longrightarrow> tx_verified_at r \<noteq> None)
     \<and> (tx_notes r = None \<longleftrightarrow> tx_verified_at r = None)"

definition provenance_ok :: "tx_row list \<Rightarrow> bool" where
  "provenance_ok t \<longleftrightarrow> distinct (map tx_hash t) \<and> (\<forall>r\<in>set t. row_ok r)"

definition keeps :: "tx_row list \<Rightarrow> tx_row list \<Rightarrow> bool" where
  "keeps t t' \<longleftrightarrow> (\<forall>h r. get_tx h t = Some r \<longrightarrow>
     (\<exists>r'. get_tx h t' = Some r' \<and> (tx_confirmed_at r \<noteq> None \<longrightarrow> tx_confirmed_at r' \<noteq> None)
       \<and> (tx_verified_at r \<noteq> None \<longrightarrow> tx_verified_at r' \<noteq> None)))"

lemma get_tx_Some: "get_tx h t = Some r \<Longrightarrow> r \<in> set t \<and> tx_hash r = h"
  unfolding get_tx_def by (auto dest: find_SomeD)

lemma get_tx_set_row: "tx_hash r' = h' \<Longrightarrow> get_tx h (upd_where (\<lambda>x. tx_hash x = h') (\<lambda>_. r') t) = (if h = h' then map_option (\<lambda>_. r') (get_tx h' t) else get_tx h t)"
  by (simp add: get_tx_def table_simps)

lemma commit_ok:
  assumes "provenance_ok t" "row_ok r"
  shows "provenance_ok (snd (commit_tx r t))"
proof (cases "storable r")
  case True
  have "set (upd_where (\<lambda>x. tx_hash x = tx_hash r) (\<lambda>_. r) t) \<subseteq> insert r (set t)" by (auto simp: upd_where_def)
  then show ?thesis using True assms by (auto simp: provenance_ok_def commit_tx_def map_set_row)
qed (use assms in \<open>simp add: commit_tx_def\<close>)

lemma commit_keeps:
  assumes "get_tx (tx_hash r') t = Some r" "tx_confirmed_at r \<noteq> None \<longrightarrow> tx_confirmed_at r' \<noteq> None"
    "tx_verified_at r \<noteq> None \<longrightarrow> tx_verified_at r' \<noteq> None"
  shows "keeps t (snd (commit_tx r' t))"
  using assms by (auto simp: keeps_def commit_tx_def get_tx_set_row)

lemma keeps_refl: "keeps t t" by (simp add: keeps_def)

lemma keeps_append: "keeps t (t @ [r])"
  by (auto simp: keeps_def get_tx_def find_append)

text \<open>Every operation either leaves the table, appends a row with a new hash, or commits a changed row.\<close>

lemma commit_unstorable: "\<not> storable r \<Longrightarrow> snd (commit_tx r t) = t"
  by (simp add: commit_tx_def)

lemma changed_row:
  assumes "provenance_ok t" "get_tx h t = Some r" "tx_hash r' = h" "row_ok r \<Longrightarrow> storable r' \<Longrightarrow> row_ok r'"
    "tx_confirmed_at r \<noteq> None \<longrightarrow> tx_confirmed_at r' \<noteq> None" "tx_verified_at r \<noteq> None \<longrightarrow> tx_verified_at r' \<noteq> None"
  shows "provenance_ok (snd (commit_tx r' t)) \<and> keeps t (snd (commit_tx r' t))"
proof (cases "storable r'")
  case True
  have "row_ok r" using assms(1,2) get_tx_Some by (auto simp: provenance_ok_def)
  then show ?thesis using True assms commit_ok commit_keeps by simp
qed (simp add: assms(1) commit_unstorable keeps_refl)

lemma submit_keeps: "provenance_ok t \<Longrightarrow> provenance_ok (snd (record_submission now h n b t)) \<and> keeps t (snd (record_submission now h n b t))"
proof (cases "get_tx h t")
  case None
  assume "provenance_ok t"
  moreover have "h \<notin> tx_hash ` set t" using None by (auto simp: get_tx_def find_None_iff)
  ultimately show ?thesis using None by (auto simp: record_submission_def provenance_ok_def row_ok_def Let_def keeps_append keeps_refl)
next
  case (Some r)
  assume "provenance_ok t"
  then show ?thesis using Some get_tx_Some [OF Some]
    by (simp add: record_submission_def) (rule changed_row, auto simp: row_ok_def)
qed

lemma confirm_keeps: "provenance_ok t \<Longrightarrow> provenance_ok (snd (confirm now h b t)) \<and> keeps t (snd (confirm now h b t))"
proof (cases "get_tx h t")
  case (Some r)
  assume "provenance_ok t"
  then show ?thesis using Some get_tx_Some [OF Some]
    by (simp add: confirm_def get_record_def) (rule changed_row, auto simp: row_ok_def)
qed (simp add: confirm_def get_record_def keeps_refl)

lemma verify_keeps: "provenance_ok t \<Longrightarrow> provenance_ok (snd (verify now h t)) \<and> keeps t (snd (verify now h t))"
proof (cases "get_tx h t")
  case (Some r)
  assume "provenance_ok t"
  then show ?thesis using Some get_tx_Some [OF Some]
    by (simp add: verify_def get_record_def) (rule changed_row, auto simp: row_ok_def)
qed (simp add: verify_def get_record_def keeps_refl)

lemma verify_tx_state: "snd (verify_tx now h force t) = t \<or> snd (verify_tx now h force t) = snd (verify now h t)"
  by (auto simp: verify_tx_def Let_def split: option.splits prod.splits)

lemma tx_step_keeps: "tx_step t t' \<Longrightarrow> provenance_ok t \<Longrightarrow> provenance_ok t' \<and> keeps t t'"
proof (induction rule: tx_step.induct)
  case (tx_verify_handler t now h force)
  then show ?case using verify_tx_state [of now h force t] verify_keeps keeps_refl by metis
qed (auto dest: submit_keeps confirm_keeps verify_keeps)

interpretation provenance: growing_system tx_step provenance_ok keeps
proof unfold_locales
  show "keeps s u" if "keeps s t" "keeps t u" for s t u using that unfolding keeps_def by meson
qed (auto simp: keeps_refl dest: tx_step_keeps)

lemma empty_ok: "provenance_ok []"
  by (simp add: provenance_ok_def)

text \<open>
  C26. In every table the operations can reach, hashes are unique, every row has a submission time, a confirmed row a confirmation time and a
  verified row a verification time and its note, columns fit, and no transaction is ever recorded as failed. From there on no operation removes a
  row or takes a confirmation or verification time back, not even a new submission of the same hash.
\<close>

theorem provenance_history:
  assumes "tx_step\<^sup>*\<^sup>* [] t" "tx_step\<^sup>*\<^sup>* t t'"
  shows "distinct (map tx_hash t)
    \<and> (\<forall>r\<in>set t. tx_submitted_at r \<noteq> None \<and> tx_state r \<noteq> TX_FAILED \<and> storable r
         \<and> (tx_state r = CONFIRMED \<longrightarrow> tx_confirmed_at r \<noteq> None) \<and> (tx_state r = VERIFIED \<longrightarrow> tx_verified_at r \<noteq> None)
         \<and> (tx_verified_at r \<noteq> None \<longleftrightarrow> tx_notes r \<noteq> None))
    \<and> (\<forall>h p. get_status h t = Some p \<longrightarrow>
         (\<exists>q. get_status h t' = Some q \<and> pv_hash q = pv_hash p
           \<and> (pv_confirmed_at p \<noteq> None \<longrightarrow> pv_confirmed_at q \<noteq> None) \<and> (pv_verified_at p \<noteq> None \<longrightarrow> pv_verified_at q \<noteq> None)))"
proof -
  have ok: "provenance_ok t" using provenance.history_inv [OF assms(1) empty_ok] .
  have "keeps t t'" using provenance.history_grow [OF assms(2) ok] .
  then have "\<exists>q. get_status h t' = Some q \<and> pv_hash q = pv_hash p
           \<and> (pv_confirmed_at p \<noteq> None \<longrightarrow> pv_confirmed_at q \<noteq> None) \<and> (pv_verified_at p \<noteq> None \<longrightarrow> pv_verified_at q \<noteq> None)"
    if "get_status h t = Some p" for h p
    using that get_tx_Some by (fastforce simp: keeps_def get_status_def to_dataclass_def)
  then show ?thesis using ok by (auto simp: provenance_ok_def row_ok_def)
qed

lemma submitted_example: "tx_step\<^sup>*\<^sup>* [] (snd (record_submission 1 ''h'' ''testnet'' None []))"
  by (rule r_into_rtranclp) (rule tx_submit)

theorem provenance_history_witness:
  "tx_step\<^sup>*\<^sup>* [] (snd (record_submission 1 ''h'' ''testnet'' None []))
   \<and> (\<exists>q. get_status ''h'' (snd (record_submission 1 ''h'' ''testnet'' None [])) = Some q \<and> pv_hash q = ''h'')"
proof -
  have "get_status ''h'' (snd (record_submission 1 ''h'' ''testnet'' None []))
      = Some \<lparr>pv_hash = ''h'', pv_network = ''testnet'', pv_submitted_at = Some 1, pv_confirmed_at = None, pv_verified_at = None,
          pv_state = SUBMITTED, pv_block = None\<rparr>"
    by (simp add: record_submission_def get_tx_def get_status_def storable_def to_dataclass_def)
  then show ?thesis using submitted_example provenance_history [OF submitted_example rtranclp.rtrancl_refl] by fastforce
qed

text \<open>
  Verification of a recorded transaction, from any reachable table: the handler answers with the status verified; without \<open>force\<close> a
  second call answers with the time of the first and changes nothing, with \<open>force\<close> it moves the time. Nothing is looked up on the chain and no
  confirmation is needed, and after a new submission of the hash the transaction counts as submitted again although its verification time stays. An
  unknown hash is answered 404 and changes nothing.
\<close>

theorem verify_tx_spec:
  assumes "tx_step\<^sup>*\<^sup>* [] t"
  shows "case get_status h t of
      None \<Rightarrow> verify_tx now h force t = (Inl (HTTPException 404 ''Transaction provenance not found''), t)
    | Some p \<Rightarrow>
      (\<exists>a v. fst (verify_tx now h force t) = Inr a \<and> vr_state a = VERIFIED \<and> vr_verified_at a = Some v
        \<and> (force \<or> pv_state p \<noteq> VERIFIED \<longrightarrow> v = now)
        \<and> snd (verify_tx later h False (snd (verify_tx now h force t))) = snd (verify_tx now h force t)
        \<and> (\<exists>b. fst (verify_tx later h False (snd (verify_tx now h force t))) = Inr b \<and> vr_verified_at b = Some v)
        \<and> (length n \<le> 50 \<longrightarrow>
             (\<exists>q. get_status h (snd (record_submission later h n None (snd (verify_tx now h force t)))) = Some q
               \<and> pv_state q = SUBMITTED \<and> pv_verified_at q = Some v)))"
proof (cases "get_status h t")
  case None
  then show ?thesis by (simp add: verify_tx_def not_found_def)
next
  case (Some p)
  then obtain r where r: "get_tx h t = Some r" "p = to_dataclass r" by (auto simp: get_status_def)
  have rk: "row_ok r" "tx_hash r = h" using get_tx_Some [OF r(1)] provenance.history_inv [OF assms empty_ok] by (auto simp: provenance_ok_def)
  let ?r1 = "r\<lparr>tx_state := VERIFIED, tx_verified_at := Some now, tx_notes := Some ''On-chain verification completed''\<rparr>"
  define t1 where "t1 = snd (verify_tx now h force t)"
  have st: "storable ?r1" using rk by (simp add: row_ok_def storable_def)
  obtain v where v: "\<exists>r1. get_tx h t1 = Some r1 \<and> tx_state r1 = VERIFIED \<and> tx_verified_at r1 = Some v \<and> storable r1"
    "\<exists>a. fst (verify_tx now h force t) = Inr a \<and> vr_state a = VERIFIED \<and> vr_verified_at a = Some v" "force \<or> pv_state p \<noteq> VERIFIED \<longrightarrow> v = now"
  proof (cases "tx_state r = VERIFIED \<and> \<not> force")
    case True
    then obtain w where "tx_verified_at r = Some w" using rk by (auto simp: row_ok_def)
    then show ?thesis using True r rk by (intro that [of w]) (auto simp: t1_def verify_tx_def get_status_def to_dataclass_def row_ok_def)
  next
    case False
    then show ?thesis using r rk st
      by (intro that [of now]) (auto simp: t1_def verify_tx_def get_status_def to_dataclass_def verify_def get_record_def commit_tx_def Let_def get_tx_set_row)
  qed
  then obtain r1 where r1: "get_tx h t1 = Some r1" "tx_state r1 = VERIFIED" "tx_verified_at r1 = Some v" "storable r1" by blast
  have h1: "tx_hash r1 = h" using get_tx_Some [OF r1(1)] by simp
  have again: "snd (verify_tx later h False t1) = t1" "\<exists>b. fst (verify_tx later h False t1) = Inr b \<and> vr_verified_at b = Some v"
    using r1 by (auto simp: verify_tx_def get_status_def to_dataclass_def)
  have sub: "length n \<le> 50 \<longrightarrow> (\<exists>q. get_status h (snd (record_submission later h n None t1)) = Some q \<and> pv_state q = SUBMITTED \<and> pv_verified_at q = Some v)"
    using r1 h1 by (auto simp: record_submission_def commit_tx_def storable_def get_status_def get_tx_set_row to_dataclass_def)
  show ?thesis unfolding Some option.case using v(2,3) again sub unfolding t1_def by blast
qed

theorem verify_tx_spec_witness:
  "tx_step\<^sup>*\<^sup>* [] (snd (record_submission 1 ''h'' ''testnet'' None []))
   \<and> (\<exists>a. fst (verify_tx 5 ''h'' False (snd (record_submission 1 ''h'' ''testnet'' None []))) = Inr a \<and> vr_verified_at a = Some 5)"
proof -
  have g: "get_status ''h'' (snd (record_submission 1 ''h'' ''testnet'' None []))
      = Some \<lparr>pv_hash = ''h'', pv_network = ''testnet'', pv_submitted_at = Some 1, pv_confirmed_at = None, pv_verified_at = None,
          pv_state = SUBMITTED, pv_block = None\<rparr>"
    by (simp add: record_submission_def get_tx_def get_status_def storable_def to_dataclass_def)
  then show ?thesis using submitted_example verify_tx_spec [OF submitted_example, where h = "''h''" and now = 5 and force = False] by auto
qed

end
