(* ===== verification/Lifecycle.thy ===== *)
theory Lifecycle
  imports NocBase "HOL-Library.Word"
begin

text \<open>
  Process-wide services: advisory locks (\<open>app/core/lock.py\<close>), the tracking of database sessions (\<open>app/core/session_hygiene.py\<close>) and the
  optimisations at start-up (\<open>app/core/startup_optimizer.py\<close>).

  SHA-256 is an argument. The lock table is PostgreSQL's: \<open>pg_try_advisory_xact_lock\<close> takes a signed 64 bit key, grants a lock that no
  other transaction holds, and a lock is held until its transaction ends.
\<close>

section \<open>Advisory locks\<close>

definition lock_id_from_key :: "(string \<Rightarrow> 8 word list) \<Rightarrow> string \<Rightarrow> nat" where
  "lock_id_from_key sha256 key = foldl (\<lambda>n b. 256 * n + unat b) 0 (take 8 (sha256 key))"

type_synonym lock_table = "(nat \<times> nat) list"

text \<open>Lock and transaction. A number over the range of \<open>bigint\<close> is sent as a numeric, for which the function does not exist.\<close>

definition pg_try_advisory_xact_lock :: "nat \<Rightarrow> nat \<Rightarrow> lock_table \<Rightarrow> bool res \<times> lock_table" where
  "pg_try_advisory_xact_lock tx i held =
    (if i \<ge> 2 ^ 63 then (Inl (DBError ''UndefinedFunction''), held)
     else if list_ex (\<lambda>(j, u). j = i \<and> u \<noteq> tx) held then (Inr False, held)
     else (Inr True, (i, tx) # held))"

definition end_transaction :: "nat \<Rightarrow> lock_table \<Rightarrow> lock_table" where
  "end_transaction tx held = filter (\<lambda>(_, u). u \<noteq> tx) held"

definition acquire :: "(string \<Rightarrow> 8 word list) \<Rightarrow> (string \<Rightarrow> exc) \<Rightarrow> nat \<Rightarrow> string \<Rightarrow> lock_table \<Rightarrow> unit res \<times> lock_table" where
  "acquire sha256 busy tx key held =
    (case pg_try_advisory_xact_lock tx (lock_id_from_key sha256 key) held of
       (Inl e, h) \<Rightarrow> (Inl e, h)
     | (Inr acquired, h) \<Rightarrow> if \<not> acquired then (Inl (busy key), h) else (Inr (), h))"

text \<open>The body of the \<open>with\<close> statement runs on the lock table and whatever else it changes; its exceptions pass.\<close>

definition with_lock ::
  "(string \<Rightarrow> 8 word list) \<Rightarrow> (string \<Rightarrow> exc) \<Rightarrow> nat \<Rightarrow> string \<Rightarrow> (lock_table \<times> 's \<Rightarrow> 'a res \<times> lock_table \<times> 's) \<Rightarrow> lock_table \<times> 's \<Rightarrow> 'a res \<times> lock_table \<times> 's" where
  "with_lock sha256 busy tx key body st =
    (case acquire sha256 busy tx key (fst st) of (Inl e, h) \<Rightarrow> (Inl e, h, snd st) | (Inr _, h) \<Rightarrow> body (h, snd st))"

definition advisory_busy :: "string \<Rightarrow> exc" where
  "advisory_busy key = ConcurrencyLockError (''Could not acquire lock for '' @ quoted key @ ''. Another operation is in progress.'')"

definition nowait_busy :: "string \<Rightarrow> exc" where
  "nowait_busy key = ConcurrencyLockError (''Operation for '' @ quoted key @ '' is already in progress. Please retry later.'')"

definition advisory_lock ::
  "(string \<Rightarrow> 8 word list) \<Rightarrow> nat \<Rightarrow> string \<Rightarrow> (lock_table \<times> 's \<Rightarrow> 'a res \<times> lock_table \<times> 's) \<Rightarrow> lock_table \<times> 's \<Rightarrow> 'a res \<times> lock_table \<times> 's" where
  "advisory_lock sha256 = with_lock sha256 advisory_busy"

definition advisory_lock_nowait ::
  "(string \<Rightarrow> 8 word list) \<Rightarrow> nat \<Rightarrow> string \<Rightarrow> (lock_table \<times> 's \<Rightarrow> 'a res \<times> lock_table \<times> 's) \<Rightarrow> lock_table \<times> 's \<Rightarrow> 'a res \<times> lock_table \<times> 's" where
  "advisory_lock_nowait sha256 = with_lock sha256 nowait_busy"

section \<open>Sessions\<close>

record hygiene =
  hy_requests :: "(int \<times> int list) list"
  hy_created :: int
  hy_closed :: int

definition on_session_create :: "hygiene \<Rightarrow> hygiene" where
  "on_session_create h = h\<lparr>hy_created := hy_created h + 1\<rparr>"

definition on_session_close :: "hygiene \<Rightarrow> hygiene" where
  "on_session_close h = h\<lparr>hy_closed := hy_closed h + 1\<rparr>"

definition sessions_of :: "int \<Rightarrow> hygiene \<Rightarrow> int list" where
  "sessions_of r h = (case map_of (hy_requests h) r of None \<Rightarrow> [] | Some xs \<Rightarrow> xs)"

text \<open>\<open>get_db_tracked\<close> up to its \<open>yield\<close> and its \<open>finally\<close>.\<close>

definition track_open :: "int option \<Rightarrow> int \<Rightarrow> hygiene \<Rightarrow> hygiene" where
  "track_open request sid h =
    (case request of None \<Rightarrow> h | Some r \<Rightarrow> h\<lparr>hy_requests := AList.update r (sessions_of r h @ [sid]) (hy_requests h)\<rparr>)"

definition track_close :: "int option \<Rightarrow> int \<Rightarrow> hygiene \<Rightarrow> hygiene" where
  "track_close request sid h =
    (case request of
       None \<Rightarrow> h
     | Some r \<Rightarrow>
         (let sessions = remove1 sid (sessions_of r h) in
          h\<lparr>hy_requests := (if sessions = [] then AList.delete r (hy_requests h) else AList.update r sessions (hy_requests h))\<rparr>))"

record pool_view =
  pl_size :: int
  pl_checked_out :: int
  pl_checked_in :: int
  pl_overflow :: int

record audit_view =
  av_pool :: pool_view
  av_created :: int
  av_closed :: int
  av_potential_leaks :: int
  av_open_by_request :: nat
  av_open_session_ids :: "int list"

definition session_audit :: "pool_view \<Rightarrow> hygiene \<Rightarrow> audit_view" where
  "session_audit pool h =
    (let live = filter (\<lambda>(_, xs). xs \<noteq> []) (hy_requests h) in
     \<lparr>av_pool = pool, av_created = hy_created h, av_closed = hy_closed h, av_potential_leaks = hy_created h - hy_closed h,
      av_open_by_request = length live, av_open_session_ids = concat (map snd live)\<rparr>)"

record session_health =
  sh_status :: string
  sh_leak_count :: int
  sh_pool :: pool_view
  sh_open_requests :: nat
  sh_detail :: "string option"

definition health_check_sessions :: "pool_view \<Rightarrow> hygiene \<Rightarrow> session_health" where
  "health_check_sessions pool h =
    (let a = session_audit pool h; n = av_potential_leaks a in
     \<lparr>sh_status = (if n > 10 then ''warning'' else ''ok''), sh_leak_count = n, sh_pool = av_pool a, sh_open_requests = av_open_by_request a,
      sh_detail = (if n > 10 then Some (str_int n @ '' potential session leaks detected since startup.'') else None)\<rparr>)"

section \<open>Start-up\<close>

record phase_record =
  ph_name :: string
  ph_duration_ms :: real
  ph_success :: bool
  ph_error :: "string option"

record profiler =
  pf_phases :: "phase_record list"
  pf_start :: real
  pf_total_ms :: real

text \<open>A phase is what its function does to the state; the readings of the clock before and after come with it.\<close>

definition record_phase :: "string \<Rightarrow> real \<Rightarrow> real \<Rightarrow> ('s \<Rightarrow> unit res \<times> 's) \<Rightarrow> profiler \<times> 's \<Rightarrow> profiler \<times> 's" where
  "record_phase name t0 t1 f ps =
    (let (r, s) = f (snd ps) in
     ((fst ps)\<lparr>pf_phases := pf_phases (fst ps) @ [\<lparr>ph_name = name, ph_duration_ms = (t1 - t0) * 1000, ph_success = \<not> isl r,
        ph_error = (case r of Inl e \<Rightarrow> Some (exc_msg e) | Inr _ \<Rightarrow> None)\<rparr>]\<rparr>, s))"

text \<open>\<open>sys.modules\<close>: a loaded module with its attributes, or a deferred proxy.\<close>

datatype module = Loaded "(string \<times> string) list" | Lazy

definition STARTUP_LAZY_LOAD_MODULES :: "string list" where
  "STARTUP_LAZY_LOAD_MODULES =
    [''app.services.contracts.sla_adapter'', ''app.services.contracts.translation'', ''app.services.outage_store'', ''app.services.sla_metric_registry'']"

definition setup_lazy_imports :: "string list \<Rightarrow> (string \<times> module) list \<Rightarrow> (string \<times> module) list" where
  "setup_lazy_imports module_names mods =
    foldl (\<lambda>m name. if map_of m name \<noteq> None then m else AList.update name Lazy m) mods
      (if module_names = [] then STARTUP_LAZY_LOAD_MODULES else module_names)"

definition recursion_error :: exc where
  "recursion_error = RuntimeError ''maximum recursion depth exceeded''"

text \<open>
  \<open>import_module\<close> of a name that is in \<open>sys.modules\<close> asks the entry for its \<open>__spec__\<close>, to see whether it is still being initialised,
  and returns the entry; \<open>__getattr__\<close> of a proxy that has not loaded yet calls \<open>import_module\<close>. \<open>depth\<close> is what is left of the
  recursion limit; \<open>disk\<close> is what an import from disk gives.
\<close>

fun import_module :: "(string \<Rightarrow> module res) \<Rightarrow> nat \<Rightarrow> (string \<times> module) list \<Rightarrow> string \<Rightarrow> module res"
  and lazy_getattr :: "(string \<Rightarrow> module res) \<Rightarrow> nat \<Rightarrow> (string \<times> module) list \<Rightarrow> string \<Rightarrow> string \<Rightarrow> string res" where
  "import_module disk 0 mods name = Inl recursion_error"
| "import_module disk (Suc depth) mods name =
    (case map_of mods name of
       None \<Rightarrow> disk name
     | Some (Loaded d) \<Rightarrow> Inr (Loaded d)
     | Some Lazy \<Rightarrow> (case lazy_getattr disk depth mods name ''__spec__'' of Inl (AttributeError a) \<Rightarrow> Inr Lazy | Inl e \<Rightarrow> Inl e | Inr _ \<Rightarrow> Inr Lazy))"
| "lazy_getattr disk 0 mods name item = Inl recursion_error"
| "lazy_getattr disk (Suc depth) mods name item =
    (case import_module disk depth mods name of
       Inl e \<Rightarrow> Inl e
     | Inr (Loaded d) \<Rightarrow> (case map_of d item of None \<Rightarrow> Inl (AttributeError item) | Some v \<Rightarrow> Inr v)
     | Inr Lazy \<Rightarrow> lazy_getattr disk depth mods name item)"

text \<open>Attribute access on an entry of \<open>sys.modules\<close>.\<close>

definition module_getattr :: "(string \<Rightarrow> module res) \<Rightarrow> nat \<Rightarrow> (string \<times> module) list \<Rightarrow> string \<Rightarrow> string \<Rightarrow> string res" where
  "module_getattr disk limit0 mods name item =
    (case map_of mods name of
       None \<Rightarrow> Inl (KeyError name)
     | Some (Loaded d) \<Rightarrow> (case map_of d item of None \<Rightarrow> Inl (AttributeError item) | Some v \<Rightarrow> Inr v)
     | Some Lazy \<Rightarrow> lazy_getattr disk limit0 mods name item)"

definition digits_pat :: "string \<Rightarrow> string" where
  "digits_pat n = [CHR 92] @ ''d{'' @ n @ ''}''"

definition PATTERNS :: "(string \<times> string) list" where
  "PATTERNS =
    [(''stellar_address'', ''^[GA-Z0-9]{55,56}$''), (''iso_datetime'', digits_pat ''4'' @ ''-'' @ digits_pat ''2'' @ ''-'' @ digits_pat ''2'' @ ''T'' @ digits_pat ''2'' @ '':'' @ digits_pat ''2'' @ '':'' @ digits_pat ''2''),
     (''uuid4'', ''^[0-9a-f]{8}-[0-9a-f]{4}-4[0-9a-f]{3}-[89ab][0-9a-f]{3}-[0-9a-f]{12}$''), (''asset_code'', ''^[A-Z0-9]{1,12}$''),
     (''url'', ''^https?://[^'' @ [CHR 92] @ ''s/$.?#].[^'' @ [CHR 92] @ ''s]*$'')]"

record startup_state =
  su_modules :: "(string \<times> module) list"
  su_patterns :: "(string \<times> string) list"

text \<open>
  The phases. Warming a cache imports a module and catches every exception, so these two phases only can change \<open>sys.modules\<close>,
  which is an argument. \<open>clock\<close> gives the readings in their order.
\<close>

definition run_startup_optimization ::
  "(nat \<Rightarrow> real) \<Rightarrow> bool \<Rightarrow> ((string \<times> module) list \<Rightarrow> (string \<times> module) list) \<Rightarrow> ((string \<times> module) list \<Rightarrow> (string \<times> module) list)
   \<Rightarrow> profiler \<times> startup_state \<Rightarrow> profiler \<times> startup_state" where
  "run_startup_optimization clock warm wallet_imports sla_imports ps0 =
    (let ps1 = ((fst ps0)\<lparr>pf_start := clock 0\<rparr>, snd ps0);
         ps2 = record_phase ''lazy_imports'' (clock 1) (clock 2)
                 (\<lambda>s. (Inr (), s\<lparr>su_modules := setup_lazy_imports [] (su_modules s)\<rparr>)) ps1;
         ps3 = record_phase ''precompile_regexes'' (clock 3) (clock 4)
                 (\<lambda>s. (Inr (), s\<lparr>su_patterns := foldl (\<lambda>d (k, v). AList.update k v d) (su_patterns s) PATTERNS\<rparr>)) ps2;
         ps4 = (if warm then record_phase ''warm_sla_config_cache'' (clock 7) (clock 8) (\<lambda>s. (Inr (), s\<lparr>su_modules := sla_imports (su_modules s)\<rparr>))
                  (record_phase ''warm_wallet_cache'' (clock 5) (clock 6) (\<lambda>s. (Inr (), s\<lparr>su_modules := wallet_imports (su_modules s)\<rparr>)) ps3)
                else ps3)
     in ((fst ps4)\<lparr>pf_total_ms := (clock (if warm then 9 else 5) - clock 0) * 1000\<rparr>, snd ps4))"

record phase_view =
  pw_name :: string
  pw_duration_ms :: real
  pw_success :: bool
  pw_error :: "string option"

definition summary :: "profiler \<Rightarrow> real \<times> phase_view list" where
  "summary p = (py_round 2 (pf_total_ms p),
     map (\<lambda>x. \<lparr>pw_name = ph_name x, pw_duration_ms = py_round 2 (ph_duration_ms x), pw_success = ph_success x, pw_error = ph_error x\<rparr>) (pf_phases p))"

definition startup_health :: "profiler \<Rightarrow> string \<times> real \<times> phase_view list" where
  "startup_health p = (''ok'', summary p)"

section \<open>Mutual exclusion\<close>

lemma foldl_bytes: "foldl (\<lambda>n b. 256 * n + unat b) a bs < (a + 1) * 256 ^ length bs" for bs :: "8 word list"
proof (induction bs arbitrary: a)
  case (Cons b bs)
  have "unat b < 256" using unsigned_less [of b, where ?'a = nat] by simp
  then have "256 * a + unat b + 1 \<le> 256 * (a + 1)" by simp
  then have "(256 * a + unat b + 1) * 256 ^ length bs \<le> 256 * (a + 1) * 256 ^ length bs" by (rule mult_right_mono) simp
  also have "\<dots> = (a + 1) * 256 ^ length (b # bs)" by (simp add: algebra_simps)
  finally show ?case using Cons.IH [of "256 * a + unat b"] by (simp only: foldl.simps)
qed simp

lemma lock_id_bound: "lock_id_from_key sha256 key < 2 ^ 64"
proof -
  have "lock_id_from_key sha256 key < 256 ^ length (take 8 (sha256 key))"
    using foldl_bytes [of 0 "take 8 (sha256 key)"] by (simp add: lock_id_from_key_def)
  also have "\<dots> \<le> 256 ^ 8" by (rule power_increasing) auto
  finally show ?thesis by simp
qed

text \<open>Transactions enter and leave critical sections in any order; the second component are the sections entered and not left.\<close>

inductive lock_step :: "(string \<Rightarrow> 8 word list) \<Rightarrow> lock_table \<times> (nat \<times> string) list \<Rightarrow> lock_table \<times> (nat \<times> string) list \<Rightarrow> bool"
  for sha256 where
  lock_entered: "acquire sha256 busy tx key held = (Inr (), held') \<Longrightarrow> lock_step sha256 (held, ins) (held', (tx, key) # ins)"
| lock_refused: "acquire sha256 busy tx key held = (Inl e, held') \<Longrightarrow> lock_step sha256 (held, ins) (held', ins)"
| lock_ended: "lock_step sha256 (held, ins) (end_transaction tx held, filter (\<lambda>(u, _). u \<noteq> tx) ins)"

definition locks_ok :: "(string \<Rightarrow> 8 word list) \<Rightarrow> lock_table \<times> (nat \<times> string) list \<Rightarrow> bool" where
  "locks_ok sha256 st \<longleftrightarrow>
     (\<forall>(tx, key)\<in>set (snd st). (lock_id_from_key sha256 key, tx) \<in> set (fst st))
     \<and> (\<forall>(i, tx)\<in>set (fst st). i < 2 ^ 63 \<and> (\<forall>(j, u)\<in>set (fst st). i = j \<longrightarrow> u = tx))"

lemma acquire_Inr:
  "acquire sha256 busy tx key held = (Inr (), held') \<longleftrightarrow>
     lock_id_from_key sha256 key < 2 ^ 63 \<and> (\<forall>(j, u)\<in>set held. j = lock_id_from_key sha256 key \<longrightarrow> u = tx) \<and> held' = (lock_id_from_key sha256 key, tx) # held"
  by (auto simp: acquire_def pg_try_advisory_xact_lock_def list_ex_iff split: if_splits)

lemma acquire_Inl: "acquire sha256 busy tx key held = (Inl e, held') \<Longrightarrow> held' = held"
  by (auto simp: acquire_def pg_try_advisory_xact_lock_def split: if_splits)

lemma lock_step_ok: "lock_step sha256 s t \<Longrightarrow> locks_ok sha256 s \<Longrightarrow> locks_ok sha256 t"
proof (induction rule: lock_step.induct)
  case (lock_entered busy tx key held held' ins)
  then show ?case by (auto simp: acquire_Inr locks_ok_def)
next
  case (lock_refused busy tx key held e held' ins)
  then show ?case using acquire_Inl by metis
next
  case (lock_ended held ins tx)
  then show ?case by (fastforce simp: locks_ok_def end_transaction_def)
qed

interpretation locks: step_system "lock_step sha256" "locks_ok sha256" for sha256
  by unfold_locales (rule lock_step_ok)


lemma lock_example: "(lock_step (\<lambda>k. [of_nat (length k)]))\<^sup>*\<^sup>* ([], []) ([(1, 7)], [(7, ''a'')])"
proof -
  have "acquire (\<lambda>k. [of_nat (length k)]) nowait_busy 7 ''a'' [] = (Inr (), [(1, 7)])"
    by (simp add: acquire_Inr lock_id_from_key_def)
  from lock_entered [OF this, of "[]"] show ?thesis by (rule r_into_rtranclp)
qed


section \<open>Tracking of sessions\<close>

inductive session_step :: "hygiene \<times> (int option \<times> int) list \<Rightarrow> hygiene \<times> (int option \<times> int) list \<Rightarrow> bool" where
  session_opened: "sid \<notin> snd ` set live \<Longrightarrow> session_step (h, live) (track_open r sid h, live @ [(r, sid)])"
| session_closed: "(r, sid) \<in> set live \<Longrightarrow> session_step (h, live) (track_close r sid h, remove1 (r, sid) live)"

definition sessions_for :: "int \<Rightarrow> (int option \<times> int) list \<Rightarrow> int list" where
  "sessions_for r live = map snd (filter (\<lambda>(q, _). q = Some r) live)"

definition tracked :: "hygiene \<times> (int option \<times> int) list \<Rightarrow> bool" where
  "tracked st \<longleftrightarrow> distinct (map snd (snd st)) \<and> distinct (map fst (hy_requests (fst st)))
     \<and> (\<forall>r. map_of (hy_requests (fst st)) r = (if sessions_for r (snd st) = [] then None else Some (sessions_for r (snd st))))"

lemma map_snd_remove1: "inj_on snd (insert x (set xs)) \<Longrightarrow> map snd (remove1 x xs) = remove1 (snd x) (map snd xs)"
  by (induction xs) (auto simp: inj_on_def)

lemma sessions_for_remove1:
  assumes "distinct (map snd live)" "(q, sid) \<in> set live"
  shows "sessions_for r (remove1 (q, sid) live) = (if q = Some r then remove1 sid (sessions_for r live) else sessions_for r live)"
proof -
  have i: "inj_on snd (set live)" using assms(1) by (simp add: distinct_map)
  have "inj_on snd (insert (q, sid) (set (filter (\<lambda>(q, _). q = Some r) live)))" by (rule inj_on_subset [OF i]) (use assms(2) in auto)
  from map_snd_remove1 [OF this] show ?thesis
    by (cases "q = Some r") (auto simp: sessions_for_def filter_remove1 remove1_idem)
qed

lemma tracked_step: "session_step s t \<Longrightarrow> tracked s \<Longrightarrow> tracked t"
proof (induction rule: session_step.induct)
  case (session_opened sid live h r)
  then show ?case
    by (cases r) (auto simp: tracked_def track_open_def sessions_of_def sessions_for_def update_conv' distinct_update)
next
  case (session_closed r sid live h)
  have d: "distinct (map snd live)" using session_closed.prems by (simp add: tracked_def)
  have "distinct (map snd (remove1 (r, sid) live))" using d by (metis distinct_map distinct_remove1 inj_on_subset set_remove1_subset)
  moreover have "sessions_of q h = sessions_for q live" for q using session_closed.prems by (auto simp: tracked_def sessions_of_def)
  moreover have "sessions_for q (remove1 (r, sid) live) = (if r = Some q then remove1 sid (sessions_for q live) else sessions_for q live)" for q
    by (rule sessions_for_remove1 [OF d session_closed.hyps])
  ultimately show ?case using session_closed.prems
    by (cases r) (simp_all add: tracked_def track_close_def update_conv' delete_conv' distinct_update distinct_delete Let_def)
qed

interpretation sessions: step_system session_step tracked
  by unfold_locales (rule tracked_step)

text \<open>
  The tracking of sessions is exact: after any interleaving of requests opening and closing sessions, a request is tracked exactly while it has
  open sessions, with these sessions in the order they were opened; sessions outside of requests leave no trace. The audit lists exactly the open
  sessions of requests and counts the requests that have some, and when all sessions are closed nothing is tracked.
\<close>

theorem session_tracking_exact:
  assumes "session_step\<^sup>*\<^sup>* (\<lparr>hy_requests = [], hy_created = 0, hy_closed = 0\<rparr>, []) (h, live)"
  shows "(\<forall>r. sessions_of r h = sessions_for r live)
    \<and> set (av_open_session_ids (session_audit pool h)) = {sid. \<exists>r. (Some r, sid) \<in> set live}
    \<and> av_open_by_request (session_audit pool h) = card {r. \<exists>sid. (Some r, sid) \<in> set live}
    \<and> (live = [] \<longrightarrow> hy_requests h = [])
    \<and> (sh_status (health_check_sessions pool h) = ''warning'' \<longleftrightarrow> hy_created h - hy_closed h > 10)"
proof -
  have t: "tracked (h, live)" using sessions.history_inv [OF assms] by (simp add: tracked_def sessions_for_def)
  have m: "map_of (hy_requests h) r = (if sessions_for r live = [] then None else Some (sessions_for r live))" for r using t by (simp add: tracked_def)
  have dk: "distinct (map fst (hy_requests h))" using t by (simp add: tracked_def)
  have e: "(r, xs) \<in> set (hy_requests h) \<longleftrightarrow> sessions_for r live \<noteq> [] \<and> xs = sessions_for r live" for r xs
    using m [of r] dk by (metis Some_eq_map_of_iff map_of_eq_None_iff option.distinct(1) option.inject)
  have ne: "filter (\<lambda>(_, xs). xs \<noteq> []) (hy_requests h) = hy_requests h" using e by (auto simp: filter_id_conv)
  have sf: "sid \<in> set (sessions_for r live) \<longleftrightarrow> (Some r, sid) \<in> set live" for r sid by (force simp: sessions_for_def)
  have "set (av_open_session_ids (session_audit pool h)) = (\<Union>(r, xs)\<in>set (hy_requests h). set xs)"
    by (auto simp: session_audit_def ne Let_def)
  also have "\<dots> = {sid. \<exists>r. (Some r, sid) \<in> set live}"
  proof (intro set_eqI iffI)
    fix x assume "x \<in> {sid. \<exists>r. (Some r, sid) \<in> set live}"
    then obtain r where "x \<in> set (sessions_for r live)" using sf by blast
    then have "(r, sessions_for r live) \<in> set (hy_requests h)" "x \<in> set (sessions_for r live)" using e by auto
    then show "x \<in> (\<Union>(r, xs)\<in>set (hy_requests h). set xs)" by blast
  qed (use sf in \<open>auto simp: e\<close>)
  finally have ids: "set (av_open_session_ids (session_audit pool h)) = {sid. \<exists>r. (Some r, sid) \<in> set live}" .
  have "length (hy_requests h) = card (fst ` set (hy_requests h))" using distinct_card [OF dk] by simp
  also have "fst ` set (hy_requests h) = {r. sessions_for r live \<noteq> []}"
  proof (intro set_eqI iffI)
    fix r assume "r \<in> {r. sessions_for r live \<noteq> []}"
    then have "(r, sessions_for r live) \<in> set (hy_requests h)" using e by simp
    then show "r \<in> fst ` set (hy_requests h)" by (rule image_eqI [rotated]) simp
  qed (auto simp: e)
  also have "\<dots> = {r. \<exists>sid. (Some r, sid) \<in> set live}" 
  proof -
    have "sessions_for r live \<noteq> [] \<longleftrightarrow> (\<exists>sid. sid \<in> set (sessions_for r live))" for r by (cases "sessions_for r live") auto
    then show ?thesis using sf by simp
  qed
  finally have n: "length (hy_requests h) = card {r. \<exists>sid. (Some r, sid) \<in> set live}" .
  have "hy_requests h = []" if "live = []"
  proof -
    have "sessions_for r live = []" for r using that by (simp add: sessions_for_def)
    then have "(r, xs) \<notin> set (hy_requests h)" for r xs by (simp add: e)
    then show ?thesis by (cases "hy_requests h") auto
  qed
  then show ?thesis using ids n m
    by (auto simp: sessions_of_def health_check_sessions_def session_audit_def ne Let_def)
qed

lemma session_example:
  "session_step\<^sup>*\<^sup>* (\<lparr>hy_requests = [], hy_created = 0, hy_closed = 0\<rparr>, []) (\<lparr>hy_requests = [(5, [1])], hy_created = 0, hy_closed = 0\<rparr>, [(Some 5, 1)])"
  using session_opened [of 1 "[]" "\<lparr>hy_requests = [], hy_created = 0, hy_closed = 0\<rparr>" "Some 5"] by (simp add: track_open_def sessions_of_def r_into_rtranclp)

theorem session_tracking_exact_witness:
  "session_step\<^sup>*\<^sup>* (\<lparr>hy_requests = [], hy_created = 0, hy_closed = 0\<rparr>, []) (\<lparr>hy_requests = [(5, [1])], hy_created = 0, hy_closed = 0\<rparr>, [(Some 5, 1)])
   \<and> sessions_of 5 \<lparr>hy_requests = [(5, [1])], hy_created = 0, hy_closed = 0\<rparr> = [1]"
  using session_example session_tracking_exact [OF session_example] by (simp add: sessions_for_def)

section \<open>Deferred modules\<close>

lemma lazy_recursion:
  "map_of mods name = Some Lazy \<Longrightarrow> import_module disk d mods name = Inl recursion_error \<and> lazy_getattr disk d mods name item = Inl recursion_error"
proof (induction d arbitrary: item)
  case (Suc d)
  then show ?case by (simp add: recursion_error_def)
qed simp_all

lemma setup_lazy_spec:
  "map_of (foldl (\<lambda>m name. if map_of m name \<noteq> None then m else AList.update name Lazy m) mods names) k
    = (if map_of mods k = None \<and> k \<in> set names then Some Lazy else map_of mods k)"
  by (induction names arbitrary: mods) (auto simp: update_conv')

text \<open>
  What start-up does to the modules: the run never raises and records its phases in order, each as a success; a module that was loaded stays as it is.
  A module that was not loaded when the imports were deferred can never be used: whatever the recursion limit, every access to an attribute
  of it ends with the recursion error, because importing the name finds the proxy itself and asks it for an attribute.
\<close>

theorem deferred_modules_never_load:
  assumes "name \<in> set STARTUP_LAZY_LOAD_MODULES" "map_of (su_modules s) name = None"
    "\<forall>m k. map_of m k \<noteq> None \<longrightarrow> map_of (wallet m) k = map_of m k" "\<forall>m k. map_of m k \<noteq> None \<longrightarrow> map_of (sla m) k = map_of m k"
  shows "module_getattr disk depth (su_modules (snd (run_startup_optimization clock warm wallet sla (p, s)))) name item = Inl recursion_error
    \<and> (\<forall>k d. map_of (su_modules s) k = Some (Loaded d)
         \<longrightarrow> map_of (su_modules (snd (run_startup_optimization clock warm wallet sla (p, s)))) k = Some (Loaded d))
    \<and> (\<exists>phases. pf_phases (fst (run_startup_optimization clock warm wallet sla (p, s))) = pf_phases p @ phases
         \<and> map ph_name phases = [''lazy_imports'', ''precompile_regexes''] @ (if warm then [''warm_wallet_cache'', ''warm_sla_config_cache''] else [])
         \<and> list_all ph_success phases)"
proof -
  let ?m1 = "setup_lazy_imports [] (su_modules s)"
  have l: "map_of ?m1 name = Some Lazy" using assms(1,2) by (simp add: setup_lazy_imports_def setup_lazy_spec [simplified])
  have k: "map_of ?m1 k = Some (Loaded d)" if "map_of (su_modules s) k = Some (Loaded d)" for k d using that by (simp add: setup_lazy_imports_def setup_lazy_spec [simplified])
  have m: "su_modules (snd (run_startup_optimization clock warm wallet sla (p, s))) = (if warm then sla (wallet ?m1) else ?m1)"
    by (simp add: run_startup_optimization_def record_phase_def Let_def)
  have "map_of (if warm then sla (wallet ?m1) else ?m1) name = Some Lazy" using l assms(3,4) by simp
  then have "module_getattr disk depth (su_modules (snd (run_startup_optimization clock warm wallet sla (p, s)))) name item = Inl recursion_error"
    unfolding m module_getattr_def by (simp add: lazy_recursion)
  moreover have "map_of (if warm then sla (wallet ?m1) else ?m1) k' = Some (Loaded d)" if "map_of (su_modules s) k' = Some (Loaded d)" for k' d
    using k [OF that] assms(3,4) by simp
  moreover have "\<exists>phases. pf_phases (fst (run_startup_optimization clock warm wallet sla (p, s))) = pf_phases p @ phases
      \<and> map ph_name phases = [''lazy_imports'', ''precompile_regexes''] @ (if warm then [''warm_wallet_cache'', ''warm_sla_config_cache''] else [])
      \<and> list_all ph_success phases"
    by (simp add: run_startup_optimization_def record_phase_def Let_def)
  ultimately show ?thesis unfolding m by blast
qed

theorem deferred_modules_never_load_witness:
  "module_getattr (\<lambda>n. Inr (Loaded [(''outage_store'', ''object'')])) 1000
     (su_modules (snd (run_startup_optimization (\<lambda>_. 0) False id id (\<lparr>pf_phases = [], pf_start = 0, pf_total_ms = 0\<rparr>, \<lparr>su_modules = [], su_patterns = []\<rparr>))))
     ''app.services.outage_store'' ''outage_store'' = Inl recursion_error"
  by (rule deferred_modules_never_load [THEN conjunct1]) (simp_all add: STARTUP_LAZY_LOAD_MODULES_def)

end
