(* ===== verification/Migration.thy ===== *)
theory Migration
  imports NocBase
begin

text \<open>
  Migration by shadow tables, \<open>app/migrations/shadow_table.py\<close>. The catalogue of the database maps names to tables, with their rows, and to views,
  with the name they select from; the commands on it fail as PostgreSQL has them fail, and a failing transaction leaves the catalogue as it was.
  Rows are compared by their primary key. A query without an order may see the rows in another order every time: \<open>scan n\<close> is the order the
  query of round \<open>n\<close> sees.
\<close>

section \<open>Catalogue\<close>

datatype 'r relation = Table "'r list" | View string

type_synonym 'r catalog = "string \<Rightarrow> 'r relation option"

definition shadow_name :: "string \<Rightarrow> string \<Rightarrow> string" where
  "shadow_name sfx original = original @ sfx"

definition backup_name :: "string \<Rightarrow> string" where
  "backup_name t = t @ ''_view_backup''"

definition drop_view_if_exists :: "string \<Rightarrow> 'r catalog \<Rightarrow> 'r catalog res" where
  "drop_view_if_exists n c =
    (case c n of None \<Rightarrow> Inr c | Some (View _) \<Rightarrow> Inr (c(n := None)) | Some (Table _) \<Rightarrow> Inl (DBError ''WrongObjectType''))"

definition rename_table :: "string \<Rightarrow> string \<Rightarrow> 'r catalog \<Rightarrow> 'r catalog res" where
  "rename_table old new c =
    (case c old of
       None \<Rightarrow> Inl (DBError ''UndefinedTable'')
     | Some r \<Rightarrow> if c new \<noteq> None then Inl (DBError ''DuplicateTable'') else Inr (c(old := None, new := Some r)))"

definition create_view :: "string \<Rightarrow> string \<Rightarrow> 'r catalog \<Rightarrow> 'r catalog res" where
  "create_view n from c =
    (if c from = None then Inl (DBError ''UndefinedTable'') else if c n \<noteq> None then Inl (DBError ''DuplicateTable'') else Inr (c(n := Some (View from))))"

definition drop_table_if_exists :: "string \<Rightarrow> 'r catalog \<Rightarrow> 'r catalog res" where
  "drop_table_if_exists n c =
    (case c n of None \<Rightarrow> Inr c | Some (Table _) \<Rightarrow> Inr (c(n := None)) | Some (View _) \<Rightarrow> Inl (DBError ''WrongObjectType''))"

text \<open>The rows a query on a name gets, through at most one view.\<close>

definition read_rows :: "'r catalog \<Rightarrow> string \<Rightarrow> 'r list option" where
  "read_rows c n =
    (case c n of
       Some (Table rs) \<Rightarrow> Some rs
     | Some (View m) \<Rightarrow> (case c m of Some (Table rs) \<Rightarrow> Some rs | _ \<Rightarrow> None)
     | None \<Rightarrow> None)"

text \<open>One transaction: the commands in order, all or nothing.\<close>

fun transact :: "('r catalog \<Rightarrow> 'r catalog res) list \<Rightarrow> 'r catalog \<Rightarrow> 'r catalog res" where
  "transact [] c = Inr c"
| "transact (f # fs) c = (case f c of Inl e \<Rightarrow> Inl e | Inr c' \<Rightarrow> transact fs c')"

definition begin_block :: "('r catalog \<Rightarrow> 'r catalog res) list \<Rightarrow> 'r catalog \<Rightarrow> unit res \<times> 'r catalog" where
  "begin_block fs c = (case transact fs c of Inl e \<Rightarrow> (Inl e, c) | Inr c' \<Rightarrow> (Inr (), c'))"

section \<open>Operations\<close>

definition reflect :: "string \<Rightarrow> 'r catalog \<Rightarrow> 'r list res" where
  "reflect n c = (case c n of Some (Table rs) \<Rightarrow> Inr rs | _ \<Rightarrow> Inl (DBError ''InvalidRequestError''))"

definition create_shadow_table :: "string \<Rightarrow> string \<Rightarrow> 'r catalog \<Rightarrow> string res \<times> 'r catalog" where
  "create_shadow_table sfx original c =
    (case reflect original c of
       Inl e \<Rightarrow> (Inl e, c)
     | Inr _ \<Rightarrow> (Inr (shadow_name sfx original), if c (shadow_name sfx original) = None then c(shadow_name sfx original := Some (Table [])) else c))"

text \<open>The copying loop; not returning is \<open>None\<close>.\<close>

partial_function (option) migrate_loop ::
  "('r \<Rightarrow> 'k) \<Rightarrow> (nat \<Rightarrow> 'r list) \<Rightarrow> nat \<Rightarrow> nat \<Rightarrow> nat \<Rightarrow> 'r list \<Rightarrow> (nat \<times> 'r list) res option" where
  "migrate_loop key scan batch_size rnd tot target =
    (let rows = take batch_size (drop tot (scan rnd)) in
     if rows = [] then Some (Inr (tot, target))
     else if \<not> distinct (map key (target @ rows)) then Some (Inl (IntegrityError ''primary key''))
     else migrate_loop key scan batch_size (Suc rnd) (tot + length rows) (target @ rows))"

definition migrate_data ::
  "('r \<Rightarrow> 'k) \<Rightarrow> (nat \<Rightarrow> 'r list \<Rightarrow> 'r list) \<Rightarrow> int \<Rightarrow> string \<Rightarrow> string \<Rightarrow> int option \<Rightarrow> 'r catalog \<Rightarrow> (nat res \<times> 'r catalog) option" where
  "migrate_data key scan MIGRATION_BATCH_SIZE source target batch_size c =
    (let b = (case batch_size of Some n \<Rightarrow> if n \<noteq> 0 then n else MIGRATION_BATCH_SIZE | None \<Rightarrow> MIGRATION_BATCH_SIZE) in
     case reflect source c of
       Inl e \<Rightarrow> Some (Inl e, c)
     | Inr src \<Rightarrow>
         (case reflect target c of
            Inl e \<Rightarrow> Some (Inl e, c)
          | Inr tgt \<Rightarrow>
              if b < 0 then Some (Inl (DBError ''InvalidRowCountInLimitClause''), c)
              else map_option (\<lambda>r. case r of Inl e \<Rightarrow> (Inl e, c) | Inr (n, rows) \<Rightarrow> (Inr n, c(target := Some (Table rows))))
                     (migrate_loop key (\<lambda>n. scan n src) (nat b) 0 0 tgt)))"

definition switch_read_traffic :: "string \<Rightarrow> string \<Rightarrow> string option \<Rightarrow> 'r catalog \<Rightarrow> unit res \<times> 'r catalog" where
  "switch_read_traffic sfx t shadow =
    begin_block [drop_view_if_exists (backup_name t), rename_table t (backup_name t),
      create_view t (case shadow of Some s \<Rightarrow> if s \<noteq> [] then s else shadow_name sfx t | None \<Rightarrow> shadow_name sfx t)]"

definition cleanup_shadow :: "string \<Rightarrow> string \<Rightarrow> 'r catalog \<Rightarrow> unit res \<times> 'r catalog" where
  "cleanup_shadow sfx t =
    begin_block [drop_view_if_exists t, rename_table (backup_name t) t, drop_table_if_exists (shadow_name sfx t)]"

section \<open>Copying\<close>

lemma migrate_loop_returns:
  assumes "\<forall>n. mset (scan n) = mset src" "distinct (map key src)" "0 < b" "tot \<le> length src" "length target = tot" "set target \<subseteq> set src"
    "distinct (map key target)"
  shows "(\<exists>e. migrate_loop key scan b n tot target = Some (Inl (IntegrityError e)))
    \<or> (\<exists>rows. migrate_loop key scan b n tot target = Some (Inr (length src, rows)) \<and> mset rows = mset src)"
  using assms(4-)
proof (induction "length src - tot" arbitrary: n tot target rule: less_induct)
  case less
  have len: "length (scan n) = length src" using assms(1) by (metis mset_eq_length)
  let ?rows = "take b (drop tot (scan n))"
  show ?case
  proof (cases "?rows = []")
    case True
    then have "tot = length src" using less.prems(1) assms(3) len by simp
    moreover have "distinct target" using less.prems(4) by (simp add: distinct_map)
    moreover have "distinct src" using assms(2) by (simp add: distinct_map)
    ultimately have "set target = set src" using less.prems(2,3) by (metis card_subset_eq distinct_card List.finite_set)
    then have "mset target = mset src" using \<open>distinct target\<close> \<open>distinct src\<close> by (simp add: set_eq_iff_mset_eq_distinct)
    then show ?thesis using True \<open>tot = length src\<close> by (simp add: migrate_loop.simps)
  next
    case rows: False
    show ?thesis
    proof (cases "distinct (map key (target @ ?rows))")
      case True
      have "set (scan n) = set src" using assms(1) mset_eq_setD by blast
      then have "set ?rows \<subseteq> set src" by (auto dest: in_set_takeD in_set_dropD)
      moreover have "length ?rows > 0" using rows by simp
      moreover have "tot + length ?rows \<le> length src" using len less.prems(1) by simp
      ultimately have "(\<exists>e. migrate_loop key scan b (Suc n) (tot + length ?rows) (target @ ?rows) = Some (Inl (IntegrityError e)))
          \<or> (\<exists>rows. migrate_loop key scan b (Suc n) (tot + length ?rows) (target @ ?rows) = Some (Inr (length src, rows)) \<and> mset rows = mset src)"
        using less.prems True by (intro less.hyps) auto
      moreover have "migrate_loop key scan b n tot target = migrate_loop key scan b (Suc n) (tot + length ?rows) (target @ ?rows)"
        using rows True by (subst migrate_loop.simps) (simp only: Let_def if_False if_True simp_thms)
      ultimately show ?thesis by presburger
    next
      case False
      then have "migrate_loop key scan b n tot target = Some (Inl (IntegrityError ''primary key''))"
        using rows by (subst migrate_loop.simps) (simp only: Let_def if_False if_True simp_thms)
      then show ?thesis by blast
    qed
  qed
qed

lemma migrate_loop_stable:
  assumes "distinct (map key src)" "0 < b"
  shows "tot \<le> length src \<Longrightarrow> migrate_loop key (\<lambda>_. src) b n tot (take tot src) = Some (Inr (length src, src))"
proof (induction "length src - tot" arbitrary: n tot rule: less_induct)
  case less
  let ?rows = "take b (drop tot src)"
  have app: "take tot src @ ?rows = take (tot + b) src" by (simp add: take_add)
  show ?case
  proof (cases "?rows = []")
    case True
    then have "tot = length src" using less.prems assms(2) by simp
    then show ?thesis using True by (simp add: migrate_loop.simps)
  next
    case False
    have t: "take (tot + length ?rows) src = take (tot + b) src" by (simp add: min_def)
    have "distinct (map key (take (tot + b) src))" using assms(1) by (metis distinct_take take_map)
    then have "migrate_loop key (\<lambda>_. src) b n tot (take tot src)
        = migrate_loop key (\<lambda>_. src) b (Suc n) (tot + length ?rows) (take (tot + length ?rows) src)"
      using False app t by (subst migrate_loop.simps) (simp only: Let_def if_False if_True simp_thms)
    also have "\<dots> = Some (Inr (length src, src))" using False less.prems by (intro less.hyps) auto
    finally show ?thesis .
  qed
qed

text \<open>
  Copying a table into an empty one: with a positive batch size the loop always returns, whatever order each of its queries sees the rows in. It
  either stops on a duplicate key, and then the transaction leaves the catalogue as it was, or reports the number of rows of the source and the
  target has exactly these rows. When every query sees the same order it does succeed, and copies in that order.
\<close>

theorem migration_copies:
  assumes "c source = Some (Table src)" "c target = Some (Table [])" "distinct (map key src)" "0 < b" "\<forall>n. mset (scan n src) = mset src"
  shows "\<exists>r. migrate_data key scan MIGRATION_BATCH_SIZE source target (Some b) c = Some r
    \<and> ((\<exists>e. r = (Inl (IntegrityError e), c))
        \<or> (\<exists>rows. r = (Inr (length src), c(target := Some (Table rows))) \<and> mset rows = mset src))
    \<and> ((\<forall>n. scan n src = src) \<longrightarrow> r = (Inr (length src), c(target := Some (Table src))))"
proof -
  have m: "migrate_data key scan MIGRATION_BATCH_SIZE source target (Some b) c =
      map_option (\<lambda>r. case r of Inl e \<Rightarrow> (Inl e, c) | Inr (n, rows) \<Rightarrow> (Inr n, c(target := Some (Table rows)))) (migrate_loop key (\<lambda>n. scan n src) (nat b) 0 0 [])"
    using assms by (simp add: migrate_data_def reflect_def)
  have l: "(\<exists>e. migrate_loop key (\<lambda>n. scan n src) (nat b) 0 0 [] = Some (Inl (IntegrityError e)))
    \<or> (\<exists>rows. migrate_loop key (\<lambda>n. scan n src) (nat b) 0 0 [] = Some (Inr (length src, rows)) \<and> mset rows = mset src)"
    using assms by (intro migrate_loop_returns) auto
  have st: "migrate_loop key (\<lambda>n. scan n src) (nat b) 0 0 [] = Some (Inr (length src, src))" if "\<forall>n. scan n src = src"
    using that migrate_loop_stable [OF assms(3), of "nat b" 0 0] assms(4) by simp
  show ?thesis
  proof (cases "\<forall>n. scan n src = src")
    case True
    have "migrate_data key scan MIGRATION_BATCH_SIZE source target (Some b) c = Some (Inr (length src), c(target := Some (Table src)))"
      using st [OF True] m by simp
    then show ?thesis by blast
  next
    case False
    then show ?thesis using l m by fastforce
  qed
qed

theorem migration_copies_witness:
  "\<exists>r. migrate_data id (\<lambda>_ rs. rs) 500 ''a'' ''b'' (Some 2) [''a'' \<mapsto> Table [1, 2, 3 :: int], ''b'' \<mapsto> Table []] = Some r
     \<and> r = (Inr 3, [''a'' \<mapsto> Table [1, 2, 3], ''b'' \<mapsto> Table [1, 2, 3]])"
proof -
  let ?c = "[''a'' \<mapsto> Table [1, 2, 3 :: int], ''b'' \<mapsto> Table []]"
  have "?c ''a'' = Some (Table [1, 2, 3])" "?c ''b'' = Some (Table [])" "distinct (map id [1, 2, 3 :: int])" "(0 :: int) < 2"
    "\<forall>n :: nat. mset [1, 2, 3 :: int] = mset [1, 2, 3]" by auto
  from migration_copies [OF this(1-4), of "\<lambda>_ rs. rs" 500]
  have "\<exists>r. migrate_data id (\<lambda>_ rs. rs) 500 ''a'' ''b'' (Some 2) ?c = Some r \<and> r = (Inr (length [1, 2, 3 :: int]), ?c(''b'' := Some (Table [1, 2, 3])))" by blast
  then show ?thesis by (simp only: fun_upd_upd list.size) simp
qed

section \<open>Switching\<close>

lemma names_differ: "t @ s = t \<longleftrightarrow> s = []" "backup_name t \<noteq> t" "t \<noteq> backup_name t"
  by (auto simp: backup_name_def)

text \<open>
  The migration from end to end. From a catalogue with the table and neither a shadow nor a backup, creating the shadow and copying in a stable order
  and switching make reads of the name return the rows of the source through the shadow, with the original kept as backup; switching again fails and
  changes nothing. Cleaning up restores the original table and drops the shadow, so that what was migrated, and whatever was written to the shadow in
  between, is gone: the catalogue is the one before the migration.
\<close>

theorem migration_round_trip:
  assumes "c t = Some (Table src)" "sfx \<noteq> []" "sfx \<noteq> ''_view_backup''" "c (shadow_name sfx t) = None" "c (backup_name t) = None"
    "distinct (map key src)" "0 < MIGRATION_BATCH_SIZE"
  defines "c1 \<equiv> snd (create_shadow_table sfx t c)"
  shows "\<exists>c2. migrate_data key (\<lambda>_ rs. rs) MIGRATION_BATCH_SIZE t (shadow_name sfx t) None c1 = Some (Inr (length src), c2)
    \<and> (\<exists>c3. switch_read_traffic sfx t None c2 = (Inr (), c3) \<and> read_rows c3 t = Some src \<and> read_rows c3 (backup_name t) = Some src
        \<and> switch_read_traffic sfx t None c3 = (Inl (DBError ''WrongObjectType''), c3)
        \<and> (\<forall>rows. cleanup_shadow sfx t (c3(shadow_name sfx t := Some (Table rows))) = (Inr (), c)))"
proof -
  have n: "shadow_name sfx t \<noteq> t" "shadow_name sfx t \<noteq> backup_name t" "backup_name t \<noteq> t"
    using assms(2,3) by (auto simp: shadow_name_def backup_name_def)
  have c1: "c1 = c(shadow_name sfx t := Some (Table []))" using assms(1,4) by (simp add: c1_def create_shadow_table_def reflect_def)
  let ?c2 = "c1(shadow_name sfx t := Some (Table src))"
  let ?c3 = "c(shadow_name sfx t := Some (Table src), backup_name t := Some (Table src), t := Some (View (shadow_name sfx t)))"
  have "migrate_data key (\<lambda>_ rs. rs) MIGRATION_BATCH_SIZE t (shadow_name sfx t) None c1 = Some (Inr (length src), ?c2)"
    using migrate_loop_stable [OF assms(6), of "nat MIGRATION_BATCH_SIZE" 0 0] assms(1,7) n c1 by (simp add: migrate_data_def reflect_def)
  moreover have "switch_read_traffic sfx t None ?c2 = (Inr (), ?c3)"
    using assms(1,5) n by (auto simp: switch_read_traffic_def begin_block_def drop_view_if_exists_def rename_table_def create_view_def c1 fun_upd_twist)
  moreover have "read_rows ?c3 t = Some src" "read_rows ?c3 (backup_name t) = Some src" using n by (simp_all add: read_rows_def)
  moreover have "switch_read_traffic sfx t None ?c3 = (Inl (DBError ''WrongObjectType''), ?c3)"
    using n by (simp add: switch_read_traffic_def begin_block_def drop_view_if_exists_def)
  moreover have "cleanup_shadow sfx t (?c3(shadow_name sfx t := Some (Table rows))) = (Inr (), c)" for rows
  proof -
    have "?c3(shadow_name sfx t := Some (Table rows), t := None, backup_name t := None, t := Some (Table src), shadow_name sfx t := None) = c"
      using assms(1,4,5) n by (auto simp: fun_eq_iff)
    then show ?thesis using n by (simp add: cleanup_shadow_def begin_block_def drop_view_if_exists_def rename_table_def drop_table_if_exists_def)
  qed
  ultimately show ?thesis by blast
qed

theorem migration_round_trip_witness:
  "\<exists>c2. migrate_data id (\<lambda>_ rs. rs) 500 ''t'' (shadow_name ''_shadow'' ''t'') None (snd (create_shadow_table ''_shadow'' ''t'' [''t'' \<mapsto> Table [1 :: int, 2]]))
     = Some (Inr 2, c2)"
proof -
  let ?c = "[''t'' \<mapsto> Table [1 :: int, 2]]"
  have "?c ''t'' = Some (Table [1, 2])" "''_shadow'' \<noteq> []" "''_shadow'' \<noteq> ''_view_backup''" "?c (shadow_name ''_shadow'' ''t'') = None"
    "?c (backup_name ''t'') = None" "distinct (map id [1 :: int, 2])" "(0 :: int) < 500"
    by (simp_all add: shadow_name_def backup_name_def)
  from migration_round_trip [OF this]
  have "\<exists>c2. migrate_data id (\<lambda>_ rs. rs) 500 ''t'' (shadow_name ''_shadow'' ''t'') None (snd (create_shadow_table ''_shadow'' ''t'' ?c))
      = Some (Inr (length [1 :: int, 2]), c2)" by blast
  then show ?thesis by (simp add: numeral_2_eq_2)
qed

end
