(* ===== verification/Stores.thy ===== *)
theory Stores
  imports Outages
begin

text \<open>
  The in-memory store of outages with soft deletion, \<open>app/services/outage_store.py\<close> and \<open>app/services/soft_delete.py\<close>, and the handlers of
  \<open>app/api/v1/endpoints/outages.py\<close> that were written for it. The dictionary is an association list in insertion order.
\<close>

section \<open>Records\<close>

record stored_outage = outage +
  out_deleted_at :: "real option"

type_synonym store = "(string \<times> stored_outage) list"

text \<open>\<open>items[start:end]\<close> with Python's treatment of negative and large bounds.\<close>

definition slice_bound :: "nat \<Rightarrow> int \<Rightarrow> nat" where
  "slice_bound n i = (if i < 0 then nat (max 0 (i + int n)) else min (nat i) n)"

definition py_slice :: "int \<Rightarrow> int \<Rightarrow> 'a list \<Rightarrow> 'a list" where
  "py_slice i j xs = (let a = slice_bound (length xs) i; b = slice_bound (length xs) j in take (b - a) (drop a xs))"

section \<open>Soft deletion\<close>

definition is_deleted :: "stored_outage \<Rightarrow> bool" where
  "is_deleted r \<longleftrightarrow> out_deleted_at r \<noteq> None"

definition soft_delete :: "real \<Rightarrow> string \<Rightarrow> store \<Rightarrow> stored_outage option \<times> store" where
  "soft_delete now k s =
    (case map_of s k of
       None \<Rightarrow> (None, s)
     | Some r \<Rightarrow> (let u = r\<lparr>out_deleted_at := Some now\<rparr> in (Some u, AList.update k u s)))"

definition restore :: "string \<Rightarrow> store \<Rightarrow> stored_outage option \<times> store" where
  "restore k s =
    (case map_of s k of
       None \<Rightarrow> (None, s)
     | Some r \<Rightarrow> (let u = r\<lparr>out_deleted_at := None\<rparr> in (Some u, AList.update k u s)))"

definition hard_delete :: "string \<Rightarrow> store \<Rightarrow> bool \<times> store" where
  "hard_delete k s = (if map_of s k \<noteq> None then (True, AList.delete k s) else (False, s))"

definition filter_deleted :: "bool \<Rightarrow> stored_outage list \<Rightarrow> stored_outage list" where
  "filter_deleted include_deleted items = (if include_deleted then items else filter (\<lambda>r. \<not> is_deleted r) items)"

definition list_deleted :: "store \<Rightarrow> stored_outage list" where
  "list_deleted s = filter is_deleted (map snd s)"

section \<open>The store\<close>

record outage_page =
  pg_items :: "stored_outage list"
  pg_total :: nat
  pg_page :: int
  pg_page_size :: int

definition store_list :: "string option \<Rightarrow> string option \<Rightarrow> int \<Rightarrow> int \<Rightarrow> bool \<Rightarrow> store \<Rightarrow> outage_page" where
  "store_list severity status page page_size include_deleted s =
    (let items0 = filter_deleted include_deleted (map snd s);
         items1 = (case severity of None \<Rightarrow> items0 | Some v \<Rightarrow> filter (\<lambda>r. out_severity r = v) items0);
         items = (case status of None \<Rightarrow> items1 | Some v \<Rightarrow> filter (\<lambda>r. out_status r = v) items1);
         start = (page - 1) * page_size
     in \<lparr>pg_items = py_slice start (start + page_size) items, pg_total = length items, pg_page = page, pg_page_size = page_size\<rparr>)"

definition store_list_all :: "store \<Rightarrow> stored_outage list" where
  "store_list_all s = map snd s"

definition store_get :: "string \<Rightarrow> store \<Rightarrow> stored_outage option" where
  "store_get k s = map_of s k"

definition store_create :: "stored_outage \<Rightarrow> store \<Rightarrow> stored_outage \<times> store" where
  "store_create r s = (r, AList.update (out_id r) r s)"

fun store_bulk_create :: "stored_outage list \<Rightarrow> store \<Rightarrow> stored_outage list \<times> store" where
  "store_bulk_create [] s = ([], s)"
| "store_bulk_create (r # rs) s = (let (c, s1) = store_create r s; (cs, s2) = store_bulk_create rs s1 in (c # cs, s2))"

definition store_update :: "string \<Rightarrow> stored_outage \<Rightarrow> store \<Rightarrow> stored_outage \<times> store" where
  "store_update k r s = (r, AList.update k r s)"

text \<open>The body of \<open>delete\<close> goes on with statements about a name that does not exist.\<close>

definition store_delete :: "string \<Rightarrow> store \<Rightarrow> unit res \<times> store" where
  "store_delete k s = (Inl (NameError ''outage''), AList.delete k s)"

text \<open>The first outage that is resolved and not deleted reaches the name of the calculator, which the module does not import.\<close>

fun store_violations :: "stored_outage list \<Rightarrow> unit list res" where
  "store_violations [] = Inr []"
| "store_violations (r # rs) =
    (if is_deleted r then store_violations rs
     else if out_status r \<noteq> ''resolved'' then store_violations rs
     else Inl (NameError ''SLACalculator''))"

definition store_list_violations :: "store \<Rightarrow> unit list res" where
  "store_list_violations s = store_violations (map snd s)"

section \<open>Handlers\<close>

definition list_outages ::
  "outage_filter \<Rightarrow> int \<Rightarrow> int \<Rightarrow> bool \<Rightarrow> sort_field \<Rightarrow> sort_direction \<Rightarrow> outage_state \<Rightarrow> (outage list \<times> nat) res" where
  "list_outages f page page_size include_deleted field dir st = list_rows f page page_size field dir (os_outages st)"

text \<open>The module of the handlers does not import the store.\<close>

definition list_deleted_outages :: "int \<Rightarrow> int \<Rightarrow> outage_page res" where
  "list_deleted_outages page page_size = Inl (NameError ''outage_store'')"

definition restore_outage :: "string \<Rightarrow> stored_outage res" where
  "restore_outage k = Inl (NameError ''outage_store'')"

section \<open>Laws\<close>

text \<open>
  The interface of a store with soft deletion: reads after a deletion and after a restoration, where \<open>mark\<close> stamps and \<open>clear\<close> unstamps a record.
\<close>

locale soft_delete_store =
  fixes look :: "'k \<Rightarrow> 's \<Rightarrow> 'r option"
    and del :: "real \<Rightarrow> 'k \<Rightarrow> 's \<Rightarrow> 's"
    and res :: "'k \<Rightarrow> 's \<Rightarrow> 's"
    and mark :: "real \<Rightarrow> 'r \<Rightarrow> 'r"
    and clear :: "'r \<Rightarrow> 'r"
    and gone :: "'r \<Rightarrow> bool"
  assumes look_del: "look k (del now k' s) = (if k = k' then map_option (mark now) (look k s) else look k s)"
    and look_res: "look k (res k' s) = (if k = k' then map_option clear (look k s) else look k s)"
    and clear_mark: "clear (mark now r) = clear r"
    and clear_clear: "clear (clear r) = clear r"
    and mark_gone: "gone (mark now r)"
    and clear_gone: "\<not> gone (clear r)"
    and clear_live: "\<not> gone r \<Longrightarrow> clear r = r"
begin

inductive toggles :: "'k \<Rightarrow> 's \<Rightarrow> 's \<Rightarrow> bool" for k where
  toggles_refl: "toggles k s s"
| toggles_del: "toggles k s t \<Longrightarrow> toggles k s (del now k' t)"
| toggles_res: "toggles k s t \<Longrightarrow> toggles k s (res k' t)"

lemma toggles_clear: "toggles k s t \<Longrightarrow> map_option clear (look k t) = map_option clear (look k s)"
proof (induction rule: toggles.induct)
  case (toggles_del s t now k')
  then show ?case by (cases "look k t"; cases "look k s") (auto simp: look_del clear_mark)
next
  case (toggles_res s t k')
  then show ?case by (cases "look k t"; cases "look k s") (auto simp: look_res clear_clear)
qed simp

lemma restored: "toggles k s t \<Longrightarrow> look k s = Some r \<Longrightarrow> \<not> gone r \<Longrightarrow> look k (res k t) = Some r"
  using toggles_clear [of k s t] by (auto simp: look_res clear_live)

end

lemma map_of_AList_update: "map_of (AList.update k v s) k' = (if k' = k then Some v else map_of s k')"
  by (simp add: update_conv')

interpretation outage_store: soft_delete_store store_get "\<lambda>now k s. snd (soft_delete now k s)" "\<lambda>k s. snd (restore k s)"
  "\<lambda>now r. r\<lparr>out_deleted_at := Some now\<rparr>" "\<lambda>r. r\<lparr>out_deleted_at := None\<rparr>" is_deleted
  by unfold_locales (auto simp: store_get_def soft_delete_def restore_def is_deleted_def map_of_AList_update Let_def split: option.splits)

lemma keys_soft: "map fst (snd (soft_delete now k s)) = map fst s" "map fst (snd (restore k s)) = map fst s"
  by (cases "map_of s k"; force simp: soft_delete_def restore_def update_keys Let_def dest: map_of_SomeD)+

text \<open>
  Soft deletion can always be undone: however outages are soft-deleted and restored, repeatedly and in any order, restoring an outage that was there
  and not deleted gives back exactly that record; keys and their order stay. At any time the default listing and the list of deleted outages divide the
  store: nothing is in both, everything is in one, and both keep the order of insertion.
\<close>

theorem soft_delete_reversible:
  assumes "store_get k s = Some r" "\<not> is_deleted r" "outage_store.toggles k s t"
  shows "store_get k (snd (restore k t)) = Some r
    \<and> map fst (snd (restore k t)) = map fst t
    \<and> filter_deleted False (store_list_all t) = filter (\<lambda>x. \<not> is_deleted x) (store_list_all t)
    \<and> mset (filter_deleted False (store_list_all t)) + mset (list_deleted t) = mset (store_list_all t)
    \<and> pg_total (store_list None None 1 20 False t) + length (list_deleted t) = length t"
proof -
  have part: "mset (filter (\<lambda>x. \<not> P x) xs) + mset (filter P xs) = mset xs" for P and xs :: "stored_outage list" by (induction xs) auto
  have "mset (filter_deleted False (store_list_all t)) + mset (list_deleted t) = mset (store_list_all t)"
    unfolding filter_deleted_def list_deleted_def store_list_all_def if_False by (rule part)
  moreover have "length (filter (\<lambda>x. \<not> is_deleted x) (map snd t)) + length (filter is_deleted (map snd t)) = length (map snd t)"
    using sum_length_filter_compl [of is_deleted "map snd t"] by simp
  then have "pg_total (store_list None None 1 20 False t) + length (list_deleted t) = length t"
    by (simp add: store_list_def filter_deleted_def list_deleted_def Let_def)
  ultimately show ?thesis using outage_store.restored [OF assms(3,1,2)] keys_soft by (simp add: filter_deleted_def)
qed

definition sample_outage :: stored_outage where
  "sample_outage =
    \<lparr>out_id = ''o1'', out_site_name = ''A'', out_site_id = None, out_severity = ''high'', out_status = ''open'', out_detected_at = 0,
     out_resolved_at = None, out_description = [], out_affected_services = [], out_affected_subscribers = None, out_assigned_to = None,
     out_created_by = None, out_location = None, out_deleted_at = None\<rparr>"

theorem soft_delete_reversible_witness:
  "store_get ''o1'' [(''o1'', sample_outage)] = Some sample_outage \<and> \<not> is_deleted sample_outage
   \<and> store_get ''o1'' (snd (restore ''o1'' (snd (soft_delete 7 ''o1'' [(''o1'', sample_outage)])))) = Some sample_outage"
proof -
  have g: "store_get ''o1'' [(''o1'', sample_outage)] = Some sample_outage" by (simp add: store_get_def)
  have d: "\<not> is_deleted sample_outage" by (simp add: is_deleted_def sample_outage_def)
  have "outage_store.toggles ''o1'' [(''o1'', sample_outage)] (snd (soft_delete 7 ''o1'' [(''o1'', sample_outage)]))"
    by (intro outage_store.toggles_del outage_store.toggles_refl)
  from soft_delete_reversible [OF g d this] show ?thesis using g d by simp
qed

text \<open>
  What does not work in the store: \<open>delete\<close> removes the outage and then always raises; the list of violations raises as soon as one outage is
  resolved and not deleted, and is empty otherwise; the handlers for deleted outages always raise. The handlers of the active path do not know soft deletion:
  the listing is the same whether deleted outages are asked for or not.
\<close>

theorem store_failures:
  "fst (store_delete k s) = Inl (NameError ''outage'') \<and> store_get k (snd (store_delete k s)) = None
   \<and> store_list_violations s =
       (if \<exists>r\<in>set (store_list_all s). \<not> is_deleted r \<and> out_status r = ''resolved'' then Inl (NameError ''SLACalculator'') else Inr [])
   \<and> isl (list_deleted_outages page psz) \<and> isl (restore_outage k)
   \<and> list_outages f page psz True field dir st = list_outages f page psz False field dir st"
proof -
  have "store_violations xs = (if \<exists>r\<in>set xs. \<not> is_deleted r \<and> out_status r = ''resolved'' then Inl (NameError ''SLACalculator'') else Inr [])" for xs
    by (induction xs) auto
  then show ?thesis
    by (simp add: store_delete_def store_get_def delete_conv' store_list_violations_def store_list_all_def list_deleted_outages_def restore_outage_def list_outages_def)
qed

theorem store_failures_witness:
  "store_list_violations [(''o1'', sample_outage)] = Inr []"
proof -
  have "store_list_violations [(''o1'', sample_outage)] =
      (if \<exists>r\<in>set (store_list_all [(''o1'', sample_outage)]). \<not> is_deleted r \<and> out_status r = ''resolved'' then Inl (NameError ''SLACalculator'') else Inr [])"
    using store_failures by blast
  then show ?thesis by (simp add: store_list_all_def sample_outage_def)
qed

section \<open>Pages of outages\<close>

lemma length_order_rows: "mset (order_rows field dir t) = mset t"
proof -
  have "mset (sort_by field u) = mset u" for u by (cases field) auto
  then show ?thesis by (cases dir) (auto simp: order_rows_def)
qed

text \<open>
  Walking through the outages page by page visits every outage that matches the filter exactly once, in the order that was asked for, and every page
  reports the full number of matches.
\<close>

theorem outage_pages_complete:
  assumes "0 < psz" "length (filter (outage_matches f) (os_outages st)) \<le> n * nat psz"
  shows "\<exists>pages. (\<forall>i < n. list_outages f (int i + 1) psz incl field dir st = Inr (pages i, length (filter (outage_matches f) (os_outages st))))
    \<and> concat (map pages [0..<n]) = map outage_orm_to_pydantic (order_rows field dir (filter (outage_matches f) (os_outages st)))
    \<and> mset (concat (map pages [0..<n])) = mset (map outage_orm_to_pydantic (filter (outage_matches f) (os_outages st)))"
proof -
  let ?q = "order_rows field dir (filter (outage_matches f) (os_outages st))"
  define pages where "pages i = map outage_orm_to_pydantic (take (nat psz) (drop (i * nat psz) ?q))" for i
  have len: "length ?q = length (filter (outage_matches f) (os_outages st))" by (metis length_order_rows size_mset)
  have "list_outages f (int i + 1) psz incl field dir st = Inr (pages i, length (filter (outage_matches f) (os_outages st)))" for i
  proof -
    have "nat (int i * psz) = i * nat psz" using assms(1) by (simp add: nat_mult_distrib)
    then show ?thesis using assms(1) by (simp add: list_outages_def list_rows_def Let_def pages_def len mult_less_0_iff)
  qed
  moreover have "concat (map pages [0..<n]) = map outage_orm_to_pydantic (concat (map (\<lambda>i. take (nat psz) (drop (i * nat psz) ?q)) [0..<n]))"
    by (simp add: pages_def [abs_def] map_concat comp_def)
  then have c: "concat (map pages [0..<n]) = map outage_orm_to_pydantic ?q" using assms(2) len by (simp add: concat_chunks)
  moreover have "mset (map outage_orm_to_pydantic ?q) = mset (map outage_orm_to_pydantic (filter (outage_matches f) (os_outages st)))"
    by (simp add: length_order_rows)
  ultimately show ?thesis by metis
qed

theorem outage_pages_complete_witness:
  "\<exists>pages. list_outages \<lparr>fl_severity = None, fl_status = None, fl_search = None, fl_start = None, fl_end = None\<rparr> 1 20 False By_id Asc
     \<lparr>os_outages = [], os_events = [], os_audit = []\<rparr> = Inr (pages 0, 0)"
  using outage_pages_complete [of 20 "\<lparr>fl_severity = None, fl_status = None, fl_search = None, fl_start = None, fl_end = None\<rparr>"
    "\<lparr>os_outages = [], os_events = [], os_audit = []\<rparr>" 1 False By_id Asc] by fastforce

end
