(* ===== verification/Support.thy ===== *)
theory Support
  imports AuditTrail Gateway
begin

text \<open>
  The smaller services: site hierarchy, request log, disputes, changelog, bulk records, readiness and idempotency keys of \<open>app/services/\<close> and
  \<open>app/api/endpoints/\<close>, job deduplication, idempotency tokens of contract calls, security events, correlation in job payloads, and the
  error document of \<open>app/core/exceptions.py\<close>.

  Primary keys come from a sequence: the value an insert gets is an argument, and a step relation lets it be any value above the existing ones. SHA-256,
  \<open>json.dumps\<close> and the text of a value in an f-string are arguments.
\<close>

section \<open>Site hierarchy\<close>

record site =
  si_id :: nat
  si_name :: string
  si_region :: string
  si_parent :: "nat option"

record site_create =
  sc_name :: string
  sc_region :: string
  sc_parent :: "nat option"

definition get_site_by_id :: "nat \<Rightarrow> site list \<Rightarrow> site option" where
  "get_site_by_id i t = find (\<lambda>r. si_id r = i) t"

text \<open>The foreign key is checked on insertion.\<close>

definition create_site :: "nat \<Rightarrow> site_create \<Rightarrow> site list \<Rightarrow> site res \<times> site list" where
  "create_site serial c t =
    (case sc_parent c of
       Some p \<Rightarrow> if get_site_by_id p t = None then (Inl (IntegrityError ''site_hierarchy''), t)
         else (let r = \<lparr>si_id = serial, si_name = sc_name c, si_region = sc_region c, si_parent = Some p\<rparr> in (Inr r, t @ [r]))
     | None \<Rightarrow> (let r = \<lparr>si_id = serial, si_name = sc_name c, si_region = sc_region c, si_parent = None\<rparr> in (Inr r, t @ [r])))"

text \<open>A parent of 0 is not looked up: it is falsy.\<close>

definition create_site_hierarchy :: "nat \<Rightarrow> site_create \<Rightarrow> site list \<Rightarrow> site res \<times> site list" where
  "create_site_hierarchy serial c t =
    (case sc_parent c of
       Some p \<Rightarrow> if p \<noteq> 0 \<and> get_site_by_id p t = None then (Inl (HTTPException 404 ''Parent site not found''), t) else create_site serial c t
     | None \<Rightarrow> create_site serial c t)"

section \<open>Request log\<close>

definition PII_KEYS :: "string list" where
  "PII_KEYS = [''email'', ''password'', ''ssn'', ''credit_card'', ''phone'']"

fun redact_pii :: "json \<Rightarrow> json" and redact_fields :: "(string \<times> json) list \<Rightarrow> (string \<times> json) list" and redact_items :: "json list \<Rightarrow> json list" where
  "redact_pii (JObj d) = JObj (redact_fields d)"
| "redact_pii (JArr xs) = JArr (redact_items xs)"
| "redact_pii v = v"
| "redact_fields [] = []"
| "redact_fields ((k, v) # d) = (k, if lower k \<in> set PII_KEYS then redacted_mark else redact_pii v) # redact_fields d"
| "redact_items [] = []"
| "redact_items (x # xs) = redact_pii x # redact_items xs"

record request_log =
  rl_id :: nat
  rl_method :: string
  rl_path :: string
  rl_status :: int
  rl_payload :: "(string \<times> json) list option"
  rl_timestamp :: real

text \<open>An empty payload is falsy and stored as none.\<close>

definition log_request :: "nat \<Rightarrow> real \<Rightarrow> string \<Rightarrow> string \<Rightarrow> int \<Rightarrow> (string \<times> json) list option \<Rightarrow> request_log list \<Rightarrow> request_log \<times> request_log list" where
  "log_request serial now meth path code payload t =
    (let r = \<lparr>rl_id = serial, rl_method = meth, rl_path = path, rl_status = code,
              rl_payload = (case payload of Some d \<Rightarrow> if d \<noteq> [] then Some (redact_fields d) else None | None \<Rightarrow> None), rl_timestamp = now\<rparr>
     in (r, t @ [r]))"

section \<open>Disputes, changelog, bulk records, keys\<close>

datatype dispute_state = OPEN | UNDER_REVIEW | RESOLVED | REJECTED

record sla_dispute_row =
  sd_id :: nat
  sd_sla_id :: int
  sd_reason :: string
  sd_evidence_url :: "string option"
  sd_state :: dispute_state
  sd_notes :: "string option"
  sd_created_at :: real

definition open_dispute :: "nat \<Rightarrow> real \<Rightarrow> int \<Rightarrow> string \<Rightarrow> string option \<Rightarrow> sla_dispute_row list \<Rightarrow> sla_dispute_row \<times> sla_dispute_row list" where
  "open_dispute serial now sla reason url t =
    (let r = \<lparr>sd_id = serial, sd_sla_id = sla, sd_reason = reason, sd_evidence_url = url, sd_state = OPEN, sd_notes = None, sd_created_at = now\<rparr>
     in (r, t @ [r]))"

definition update_dispute_state :: "nat \<Rightarrow> dispute_state \<Rightarrow> string option \<Rightarrow> sla_dispute_row list \<Rightarrow> sla_dispute_row option \<times> sla_dispute_row list" where
  "update_dispute_state i state notes t =
    (case find (\<lambda>r. sd_id r = i) t of
       None \<Rightarrow> (None, t)
     | Some r \<Rightarrow>
         (let r' = r\<lparr>sd_state := state, sd_notes := (case notes of Some n \<Rightarrow> if n \<noteq> [] then Some n else sd_notes r | None \<Rightarrow> sd_notes r)\<rparr>
          in (Some r', upd_where (\<lambda>x. sd_id x = i) (\<lambda>_. r') t)))"

definition update_sla_dispute :: "nat \<Rightarrow> dispute_state \<Rightarrow> string option \<Rightarrow> sla_dispute_row list \<Rightarrow> sla_dispute_row res \<times> sla_dispute_row list" where
  "update_sla_dispute i state notes t =
    (case update_dispute_state i state notes t of (None, t') \<Rightarrow> (Inl (HTTPException 404 ''Dispute not found''), t') | (Some r, t') \<Rightarrow> (Inr r, t'))"

record changelog_entry =
  cl_id :: nat
  cl_version :: string
  cl_description :: string
  cl_breaking :: bool
  cl_release_date :: real

definition add_entry :: "nat \<Rightarrow> real \<Rightarrow> string \<Rightarrow> string \<Rightarrow> bool \<Rightarrow> changelog_entry list \<Rightarrow> changelog_entry res \<times> changelog_entry list" where
  "add_entry serial now version descr breaking t =
    (if list_ex (\<lambda>r. cl_version r = version) t then (Inl (IntegrityError ''api_changelog''), t)
     else (let r = \<lparr>cl_id = serial, cl_version = version, cl_description = descr, cl_breaking = breaking, cl_release_date = now\<rparr> in (Inr r, t @ [r])))"

definition get_latest_changes :: "nat \<Rightarrow> changelog_entry list \<Rightarrow> changelog_entry list" where
  "get_latest_changes n t = take n (rev (sort_key cl_release_date t))"

record outage_record =
  or_id :: nat
  or_service :: string
  or_description :: string
  or_severity :: string

record bulk_response =
  br_successful :: nat
  br_failed :: nat
  br_message :: string

text \<open>\<open>refused\<close> is the error the commit of the rows raises, if it does.\<close>

definition create_bulk_outages ::
  "(nat \<Rightarrow> nat) \<Rightarrow> string option \<Rightarrow> (string \<times> string \<times> string) list \<Rightarrow> outage_record list \<Rightarrow> bulk_response \<times> outage_record list" where
  "create_bulk_outages serial refused items t =
    (let records = map (\<lambda>(i, sv, d, sev). \<lparr>or_id = serial i, or_service = sv, or_description = d, or_severity = sev\<rparr>) (enumerate 0 items) in
     case refused of
       None \<Rightarrow> (\<lparr>br_successful = length records, br_failed = 0, br_message = ''Successfully created bulk outages''\<rparr>, t @ records)
     | Some e \<Rightarrow> (\<lparr>br_successful = 0, br_failed = length items, br_message = ''Database transaction rolled back due to error: '' @ e\<rparr>, t))"

record idem_key =
  ik_id :: nat
  ik_key :: string
  ik_endpoint :: string
  ik_processed_at :: real

definition process_key :: "nat \<Rightarrow> real \<Rightarrow> string \<Rightarrow> string \<Rightarrow> idem_key list \<Rightarrow> idem_key \<times> idem_key list" where
  "process_key serial now k endpoint t =
    (case find (\<lambda>r. ik_key r = k) t of
       Some r \<Rightarrow> (r, t)
     | None \<Rightarrow> (let r = \<lparr>ik_id = serial, ik_key = k, ik_endpoint = endpoint, ik_processed_at = now\<rparr> in (r, t @ [r])))"

definition process_financial_transaction :: "nat \<Rightarrow> real \<Rightarrow> string \<Rightarrow> idem_key list \<Rightarrow> idem_key \<times> idem_key list" where
  "process_financial_transaction serial now k = process_key serial now k ''/financial-transaction''"

section \<open>Readiness\<close>

record dependency_status =
  ds_status :: string
  ds_latency_ms :: int
  ds_error :: "string option"

text \<open>\<open>execute\<close> is the session's; the argument of the call is a plain string.\<close>

definition check_dependencies :: "(string \<Rightarrow> unit res) \<Rightarrow> real \<Rightarrow> real \<Rightarrow> string \<times> (string \<times> dependency_status) list" where
  "check_dependencies execute t0 t1 =
    (let redis = (''redis'', \<lparr>ds_status = ''up'', ds_latency_ms = 5, ds_error = None\<rparr>) in
     case execute ''SELECT 1'' of
       Inr _ \<Rightarrow> (''ok'', [(''database'', \<lparr>ds_status = ''up'', ds_latency_ms = (let x = (t1 - t0) * 1000 in if x < 0 then \<lceil>x\<rceil> else \<lfloor>x\<rfloor>), ds_error = None\<rparr>), redis])
     | Inl e \<Rightarrow> (''degraded'', [(''database'', \<lparr>ds_status = ''down'', ds_latency_ms = 0, ds_error = Some (exc_msg e)\<rparr>), redis]))"

definition check_readiness :: "(string \<Rightarrow> unit res) \<Rightarrow> real \<Rightarrow> real \<Rightarrow> nat \<times> string \<times> (string \<times> dependency_status) list" where
  "check_readiness execute t0 t1 = (let r = check_dependencies execute t0 t1 in (if fst r \<noteq> ''ok'' then 503 else 200, r))"

section \<open>Deduplication and tokens\<close>

definition payload_get :: "(json \<Rightarrow> string) \<Rightarrow> string \<Rightarrow> (string \<times> json) list \<Rightarrow> string" where
  "payload_get fmt k d = (case map_of d k of None \<Rightarrow> [] | Some v \<Rightarrow> fmt v)"

definition dedupe_base :: "(json \<Rightarrow> string) \<Rightarrow> ((string \<times> json) list \<Rightarrow> string) \<Rightarrow> string \<Rightarrow> (string \<times> json) list \<Rightarrow> string" where
  "dedupe_base fmt dumps_sorted job_type payload =
    (if job_type = ''sla_computation'' then ''sla:'' @ payload_get fmt ''device_id'' payload @ '':'' @ payload_get fmt ''period'' payload
     else if job_type = ''webhook_dispatch'' then ''webhook:'' @ payload_get fmt ''delivery_id'' payload
     else dumps_sorted payload)"

definition compute_dedupe_key :: "(string \<Rightarrow> string) \<Rightarrow> (json \<Rightarrow> string) \<Rightarrow> ((string \<times> json) list \<Rightarrow> string) \<Rightarrow> string \<Rightarrow> (string \<times> json) list \<Rightarrow> string" where
  "compute_dedupe_key sha256hex fmt dumps_sorted job_type payload = take 16 (sha256hex (dedupe_base fmt dumps_sorted job_type payload))"

definition is_duplicate_key :: "string \<Rightarrow> (string \<times> bool) list \<Rightarrow> bool" where
  "is_duplicate_key k reg \<longleftrightarrow> map_of reg k \<noteq> None"

definition register_dedupe_key :: "string \<Rightarrow> (string \<times> bool) list \<Rightarrow> (string \<times> bool) list" where
  "register_dedupe_key k reg = AList.update k True reg"

text \<open>Redis: a key with its value and the instant it expires.\<close>

type_synonym redis = "(string \<times> string \<times> real) list"

definition redis_get :: "real \<Rightarrow> string \<Rightarrow> redis \<Rightarrow> string option" where
  "redis_get now k r = (case map_of r k of Some (v, ex) \<Rightarrow> if now < ex then Some v else None | None \<Rightarrow> None)"

definition KEY_PREFIX :: string where
  "KEY_PREFIX = ''idempotency:''"

definition store_token :: "real \<Rightarrow> real \<Rightarrow> string \<Rightarrow> string \<Rightarrow> redis \<Rightarrow> bool \<times> redis" where
  "store_token ttl now token payload r =
    (if redis_get now (KEY_PREFIX @ token) r = None then (True, AList.update (KEY_PREFIX @ token) (payload, now + ttl) r) else (False, r))"

definition get_payload :: "real \<Rightarrow> string \<Rightarrow> redis \<Rightarrow> string option" where
  "get_payload now token r = redis_get now (KEY_PREFIX @ token) r"

definition is_duplicate_token :: "real \<Rightarrow> string \<Rightarrow> redis \<Rightarrow> bool" where
  "is_duplicate_token now token r \<longleftrightarrow> redis_get now (KEY_PREFIX @ token) r \<noteq> None"

section \<open>Security events\<close>

definition AUDIT_SCHEMA_VERSION :: string where
  "AUDIT_SCHEMA_VERSION = ''1''"

definition versioned_details :: "(string \<times> json) list option \<Rightarrow> (string \<times> json) list" where
  "versioned_details details =
    (let d = (case details of None \<Rightarrow> [] | Some d \<Rightarrow> d) in
     if map_of d ''schema_version'' = None then d @ [(''schema_version'', JStr AUDIT_SCHEMA_VERSION)] else d)"

definition read_schema_version :: "(string \<times> json) list option \<Rightarrow> json" where
  "read_schema_version details =
    (case details of
       None \<Rightarrow> JStr ''0''
     | Some d \<Rightarrow> if d = [] then JStr ''0'' else (case map_of d ''schema_version'' of None \<Rightarrow> JStr ''0'' | Some v \<Rightarrow> v))"

definition log_security_event ::
  "real \<Rightarrow> string option \<Rightarrow> string \<Rightarrow> string \<Rightarrow> string option \<Rightarrow> string option \<Rightarrow> (string \<times> json) list option \<Rightarrow> audit_entry list \<Rightarrow> audit_entry list" where
  "log_security_event now ctx event_type severity actor endpoint details trail =
    (let p1 = AList.update ''severity'' (JStr severity) (versioned_details details);
         p2 = (case endpoint of Some e \<Rightarrow> if e \<noteq> [] then AList.update ''endpoint'' (JStr e) p1 else p1 | None \<Rightarrow> p1)
     in log_event now ctx event_type None actor (Some p2) None trail)"

definition query_security_events :: "nat \<Rightarrow> nat \<Rightarrow> audit_entry list \<Rightarrow> audit_entry list" where
  "query_security_events n off trail = list_audit (Some ''security.'') None n off trail"

section \<open>Correlation and errors\<close>

definition propagate_to_job_payload :: "string option \<Rightarrow> (string \<times> json) list \<Rightarrow> (string \<times> json) list" where
  "propagate_to_job_payload ctx payload =
    (case ctx of Some c \<Rightarrow> if c \<noteq> [] then AList.update ''correlation_id'' (JStr c) payload else payload | None \<Rightarrow> payload)"

definition restore_correlation_from_payload :: "(string \<times> json) list \<Rightarrow> string option \<Rightarrow> string option" where
  "restore_correlation_from_payload payload ctx =
    (case map_of payload ''correlation_id'' of Some (JStr c) \<Rightarrow> if c \<noteq> [] then Some c else ctx | _ \<Rightarrow> ctx)"

datatype error_code = INVALID_REQUEST | UNAUTHORIZED | FORBIDDEN | NOT_FOUND | CONFLICT | INTERNAL_ERROR | VALIDATION_ERROR

record problem_details =
  pd_type :: string
  pd_title :: string
  pd_status :: nat
  pd_detail :: string
  pd_instance :: string
  pd_error_code :: error_code

text \<open>\<open>str\<close> of an \<open>HTTPException\<close> has the status in front; no exception of the program has an \<open>error_code\<close>.\<close>

definition problem_details_handler :: "string \<Rightarrow> exc \<Rightarrow> nat \<times> problem_details" where
  "problem_details_handler url e =
    (let code = (case e of HTTPException n _ \<Rightarrow> n | _ \<Rightarrow> 500);
         txt = (case e of HTTPException n d \<Rightarrow> str_nat n @ '': '' @ d | _ \<Rightarrow> exc_msg e)
     in (code, \<lparr>pd_type = ''about:blank'', pd_title = ''An error occurred'', pd_status = code, pd_detail = txt, pd_instance = url,
                pd_error_code = (if code \<ge> 500 then INTERNAL_ERROR else INVALID_REQUEST)\<rparr>))"

definition MAX_CONTENT_LENGTH :: int where
  "MAX_CONTENT_LENGTH = 10 * 1024 * 1024"

definition check_payload_size :: "string option \<Rightarrow> unit res" where
  "check_payload_size content_length =
    (case content_length of
       None \<Rightarrow> Inr ()
     | Some c \<Rightarrow>
         if c = [] then Inr ()
         else (case parse_int c of
                 None \<Rightarrow> Inl (ValueError (''invalid literal for int() with base 10: '' @ quoted c))
               | Some n \<Rightarrow> if n > MAX_CONTENT_LENGTH then Inl (HTTPException 413 ''Payload too large'') else Inr ()))"

end
