(* ===== verification/SupportLaws.thy ===== *)
theory SupportLaws
  imports Support
begin

text \<open>
  Laws of the smaller services: sites form a forest, the request log keeps no personal data at any depth, idempotency tokens are granted once per life time, and
  what the readiness probe answers.
\<close>

section \<open>Site hierarchy\<close>

inductive site_step :: "site list \<Rightarrow> site list \<Rightarrow> bool" where
  site_created: "\<forall>r\<in>set t. si_id r < serial \<Longrightarrow> 0 < serial \<Longrightarrow> site_step t (snd (create_site_hierarchy serial c t))"

definition parent_rel :: "site list \<Rightarrow> (nat \<times> nat) set" where
  "parent_rel t = {(p, i). \<exists>r\<in>set t. si_id r = i \<and> si_parent r = Some p}"

definition sites_ok :: "site list \<Rightarrow> bool" where
  "sites_ok t \<longleftrightarrow> distinct (map si_id t) \<and> (\<forall>r\<in>set t. \<forall>p. si_parent r = Some p \<longrightarrow> p < si_id r \<and> (\<exists>q\<in>set t. si_id q = p))"

lemma get_site_iff: "get_site_by_id i t \<noteq> None \<longleftrightarrow> (\<exists>r\<in>set t. si_id r = i)"
  by (auto simp: get_site_by_id_def find_None_iff)

lemma site_step_ok: "site_step t t' \<Longrightarrow> sites_ok t \<Longrightarrow> sites_ok t'"
proof (induction rule: site_step.induct)
  case (site_created t serial c)
  have n: "serial \<notin> si_id ` set t" using site_created.hyps by auto
  show ?case
  proof (cases "sc_parent c")
    case None
    then show ?thesis using site_created.prems n by (auto simp: create_site_hierarchy_def create_site_def sites_ok_def Let_def)
  next
    case (Some p)
    show ?thesis
    proof (cases "get_site_by_id p t")
      case None
      then show ?thesis using Some site_created.prems by (cases "p = 0") (simp_all add: create_site_hierarchy_def create_site_def)
    next
      case found: (Some q)
      then have q: "\<exists>q\<in>set t. si_id q = p" using get_site_iff [of p t] by simp
      then have "p < serial" using site_created.hyps by auto
      then show ?thesis using Some found q site_created.prems n
        by (auto simp: create_site_hierarchy_def create_site_def sites_ok_def Let_def)
    qed
  qed
qed

interpretation sites: step_system site_step sites_ok
  by unfold_locales (rule site_step_ok)

lemma forest_root:
  assumes "sites_ok t" "r \<in> set t"
  shows "\<exists>q\<in>set t. si_parent q = None \<and> (si_id q, si_id r) \<in> (parent_rel t)\<^sup>*"
  using assms(2)
proof (induction "si_id r" arbitrary: r rule: less_induct)
  case less
  show ?case
  proof (cases "si_parent r")
    case (Some p)
    then obtain q where q: "q \<in> set t" "si_id q = p" "p < si_id r" using assms(1) less.prems by (auto simp: sites_ok_def)
    then obtain root where root: "root \<in> set t" "si_parent root = None" "(si_id root, si_id q) \<in> (parent_rel t)\<^sup>*" using less.hyps by blast
    have "(si_id q, si_id r) \<in> parent_rel t" using Some less.prems q by (auto simp: parent_rel_def)
    with root(3) have "(si_id root, si_id r) \<in> (parent_rel t)\<^sup>*" by (rule rtrancl_into_rtrancl)
    then show ?thesis using root by blast
  qed (use less.prems in blast)
qed

text \<open>
  C32. Whatever requests create sites, the hierarchy is a forest: identifiers are unique, every parent is a site that was created before, no site is
  its own ancestor, and from every site the parents lead to a root. A request that names a parent that does not exist is answered 404, or fails on the foreign
  key for the parent 0, and stores nothing.
\<close>

theorem sites_form_forest:
  assumes "site_step\<^sup>*\<^sup>* [] t"
  shows "distinct (map si_id t) \<and> acyclic (parent_rel t)
    \<and> (\<forall>r\<in>set t. (\<forall>p. si_parent r = Some p \<longrightarrow> p < si_id r \<and> get_site_by_id p t \<noteq> None)
         \<and> (\<exists>q\<in>set t. si_parent q = None \<and> (si_id q, si_id r) \<in> (parent_rel t)\<^sup>*))
    \<and> (\<forall>p. sc_parent c = Some p \<and> get_site_by_id p t = None \<longrightarrow>
         snd (create_site_hierarchy serial c t) = t
         \<and> fst (create_site_hierarchy serial c t) = Inl (if p = 0 then IntegrityError ''site_hierarchy'' else HTTPException 404 ''Parent site not found''))"
proof -
  have ok: "sites_ok t" using sites.history_inv [OF assms] by (simp add: sites_ok_def)
  have "parent_rel t \<subseteq> measure id" using ok by (auto simp: parent_rel_def sites_ok_def)
  then have "acyclic (parent_rel t)" by (meson acyclic_subset wf_acyclic wf_measure)
  moreover have "snd (create_site_hierarchy serial c t) = t
         \<and> fst (create_site_hierarchy serial c t) = Inl (if p = 0 then IntegrityError ''site_hierarchy'' else HTTPException 404 ''Parent site not found'')"
    if "sc_parent c = Some p" "get_site_by_id p t = None" for p
    using that by (cases "p = 0") (simp_all add: create_site_hierarchy_def create_site_def)
  ultimately show ?thesis using ok forest_root [OF ok] get_site_iff [of _ t] by (simp add: sites_ok_def)
qed

lemma site_example: "site_step\<^sup>*\<^sup>* [] [\<lparr>si_id = 1, si_name = ''n'', si_region = ''r'', si_parent = None\<rparr>]"
proof -
  have "site_step [] (snd (create_site_hierarchy 1 \<lparr>sc_name = ''n'', sc_region = ''r'', sc_parent = None\<rparr> []))" by (rule site_created) auto
  then show ?thesis by (simp add: create_site_hierarchy_def create_site_def r_into_rtranclp Let_def)
qed

theorem sites_form_forest_witness:
  "site_step\<^sup>*\<^sup>* [] [\<lparr>si_id = 1, si_name = ''n'', si_region = ''r'', si_parent = None\<rparr>]
   \<and> fst (create_site_hierarchy 2 \<lparr>sc_name = ''m'', sc_region = ''r'', sc_parent = Some 7\<rparr> [\<lparr>si_id = 1, si_name = ''n'', si_region = ''r'', si_parent = None\<rparr>])
     = Inl (HTTPException 404 ''Parent site not found'')"
  using site_example sites_form_forest [OF site_example, of "\<lparr>sc_name = ''m'', sc_region = ''r'', sc_parent = Some 7\<rparr>" 2]
  by (simp add: get_site_by_id_def)

section \<open>Redaction\<close>

text \<open>No key of personal data, at any depth, has another value than the mark.\<close>

fun pii_free :: "json \<Rightarrow> bool" where
  "pii_free (JObj d) \<longleftrightarrow> (\<forall>(k, v)\<in>set d. (lower k \<in> set PII_KEYS \<longrightarrow> v = redacted_mark) \<and> pii_free v)"
| "pii_free (JArr xs) \<longleftrightarrow> (\<forall>x\<in>set xs. pii_free x)"
| "pii_free _ \<longleftrightarrow> True"

lemma pii_free_mark [simp]: "pii_free redacted_mark"
  by (simp add: redacted_mark_def)

lemma redact_clean:
  "pii_free (redact_pii v)"
  "\<forall>(k, x)\<in>set (redact_fields d). (lower k \<in> set PII_KEYS \<longrightarrow> x = redacted_mark) \<and> pii_free x"
  "\<forall>x\<in>set (redact_items xs). pii_free x"
  by (induction v and d and xs rule: redact_pii_redact_fields_redact_items.induct) auto

lemma redact_id:
  "pii_free v \<Longrightarrow> redact_pii v = v"
  "\<forall>(k, x)\<in>set d. (lower k \<in> set PII_KEYS \<longrightarrow> x = redacted_mark) \<and> pii_free x \<Longrightarrow> redact_fields d = d"
  "\<forall>x\<in>set xs. pii_free x \<Longrightarrow> redact_items xs = xs"
  by (induction v and d and xs rule: redact_pii_redact_fields_redact_items.induct) auto

lemma redact_keys: "map fst (redact_fields d) = map fst d"
  by (induction d) auto

text \<open>
  The request log keeps no personal data: in the payload that is stored, every key that is one of the personal ones up to case has the mark as its value, at
  any depth of objects and lists. The keys and their order are those of the request, a payload without personal data is stored as it is, and redacting twice is the
  same as once.
\<close>

theorem request_log_redacted:
  "(case rl_payload (fst (log_request serial now meth path code payload t)) of
      None \<Rightarrow> payload = None \<or> payload = Some []
    | Some d \<Rightarrow> pii_free (JObj d) \<and> (\<exists>d0. payload = Some d0 \<and> map fst d = map fst d0 \<and> (pii_free (JObj d0) \<longrightarrow> d = d0)) \<and> redact_fields d = d)
   \<and> (\<exists>r. snd (log_request serial now meth path code payload t) = t @ [r] \<and> rl_method r = meth \<and> rl_path r = path \<and> rl_status r = code)"
proof (cases "payload = None \<or> payload = Some []")
  case False
  then obtain d0 where d0: "payload = Some d0" "d0 \<noteq> []" by auto
  have "pii_free (JObj (redact_fields d0))" using redact_clean(2) [of d0] by simp
  moreover have "redact_fields (redact_fields d0) = redact_fields d0" using redact_id(2) redact_clean(2) by blast
  moreover have "pii_free (JObj d0) \<Longrightarrow> redact_fields d0 = d0" using redact_id(2) [of d0] by simp
  ultimately show ?thesis using d0 by (simp add: log_request_def Let_def redact_keys)
qed (auto simp: log_request_def Let_def)

theorem request_log_redacted_witness:
  "rl_payload (fst (log_request 1 0 ''POST'' ''/'' 200 (Some [(''a'', JInt 1)]) [])) = Some [(''a'', JInt 1)]"
proof -
  have p: "pii_free (JObj [(''a'', JInt 1)])" by code_simp
  have "(case rl_payload (fst (log_request 1 0 ''POST'' ''/'' 200 (Some [(''a'', JInt 1)]) [])) of
      None \<Rightarrow> Some [(''a'', JInt 1)] = None \<or> Some [(''a'', JInt 1)] = Some []
    | Some d \<Rightarrow> pii_free (JObj d) \<and> (\<exists>d0. Some [(''a'', JInt 1)] = Some d0 \<and> map fst d = map fst d0 \<and> (pii_free (JObj d0) \<longrightarrow> d = d0)) \<and> redact_fields d = d)"
    using request_log_redacted by blast
  then show ?thesis using p by (auto split: option.splits)
qed

section \<open>Tokens\<close>

inductive token_history :: "real \<Rightarrow> real \<Rightarrow> redis \<Rightarrow> real \<Rightarrow> redis \<Rightarrow> bool" for ttl where
  token_start: "token_history ttl t0 r t0 r"
| token_store: "token_history ttl t0 r t r' \<Longrightarrow> t \<le> now \<Longrightarrow> token_history ttl t0 r now (snd (store_token ttl now tok p r'))"

lemma redis_get_update: "redis_get now k (AList.update k' (v, ex) r) = (if k = k' then if now < ex then Some v else None else redis_get now k r)"
  by (simp add: redis_get_def update_conv')

lemma token_entry_kept:
  assumes "token_history ttl t0 r t r'" "map_of r (KEY_PREFIX @ tok) = Some (p, ex)" "t < ex"
  shows "map_of r' (KEY_PREFIX @ tok) = Some (p, ex)"
  using assms
proof (induction rule: token_history.induct)
  case (token_store t0 r t r' now tok' p')
  then have "map_of r' (KEY_PREFIX @ tok) = Some (p, ex)" by simp
  then show ?case using token_store.prems by (auto simp: store_token_def redis_get_def update_conv' split: if_splits)
qed

text \<open>
  A contract call is made once per token: from the moment a token is stored until its life time is over, whatever tokens are stored meanwhile, its payload is
  the one that was stored, the token is reported as a duplicate, and storing it again is refused and changes nothing. After that it is accepted again. Other tokens are not
  affected.
\<close>

theorem token_granted_once:
  assumes "fst (store_token ttl t0 tok p r0)" "token_history ttl t0 (snd (store_token ttl t0 tok p r0)) t r" "t \<le> now"
  shows "(now < t0 + ttl \<longrightarrow> get_payload now tok r = Some p \<and> is_duplicate_token now tok r \<and> store_token ttl now tok q r = (False, r))
    \<and> (tok' \<noteq> tok \<longrightarrow> get_payload t0 tok' (snd (store_token ttl t0 tok p r0)) = get_payload t0 tok' r0)
    \<and> (t0 + ttl \<le> now \<and> r = snd (store_token ttl t0 tok p r0) \<longrightarrow> fst (store_token ttl now tok q r))"
proof -
  have e: "map_of (snd (store_token ttl t0 tok p r0)) (KEY_PREFIX @ tok) = Some (p, t0 + ttl)"
    using assms(1) by (simp add: store_token_def update_conv' split: if_splits)
  have "map_of r (KEY_PREFIX @ tok) = Some (p, t0 + ttl)" if "now < t0 + ttl"
    by (rule token_entry_kept [OF assms(2) e]) (use that assms(3) in simp)
  moreover have "tok' \<noteq> tok \<longrightarrow> get_payload t0 tok' (snd (store_token ttl t0 tok p r0)) = get_payload t0 tok' r0"
    by (simp add: store_token_def get_payload_def redis_get_update)
  ultimately show ?thesis using e by (auto simp: get_payload_def is_duplicate_token_def store_token_def redis_get_def)
qed

theorem token_granted_once_witness:
  "fst (store_token 3600 0 ''a'' ''p'' []) \<and> get_payload 10 ''a'' (snd (store_token 3600 0 ''a'' ''p'' [])) = Some ''p''"
proof -
  have f: "fst (store_token 3600 0 ''a'' ''p'' [])" by (simp add: store_token_def redis_get_def)
  from token_granted_once [OF f token_start, of 10] f show ?thesis by simp
qed

section \<open>Probes, keys and payloads\<close>

text \<open>
  With a session that does not execute plain strings, as the library has it since version 2, the readiness probe is always degraded and answered 503,
  however healthy the database is.
\<close>

theorem readiness_always_degraded:
  assumes "\<forall>s. isl (execute s)"
  shows "fst (check_readiness execute t0 t1) = 503 \<and> fst (check_dependencies execute t0 t1) = ''degraded''"
proof -
  obtain e where "execute ''SELECT 1'' = Inl e" using assms by (metis isl_def)
  then show ?thesis by (simp add: check_readiness_def check_dependencies_def Let_def)
qed

theorem readiness_always_degraded_witness:
  "fst (check_readiness (\<lambda>s. Inl (DBError (''Not an executable object: '' @ quoted s))) 0 1) = 503"
  using readiness_always_degraded [of "\<lambda>s. Inl (DBError (''Not an executable object: '' @ quoted s))" 0 1] by simp

text \<open>
  Job payloads and event details: a correlation id put into a payload is the one the worker restores, and the version in event details is the one that was
  given or the current one. Jobs with the same identifiers get the same deduplication key; as device and period are only joined by a colon, different computations can
  get the same key too.
\<close>

theorem payload_round_trips:
  "(c \<noteq> [] \<longrightarrow> restore_correlation_from_payload (propagate_to_job_payload (Some c) payload) ctx = Some c)
   \<and> read_schema_version (Some (versioned_details details))
       = (case details of None \<Rightarrow> JStr ''1'' | Some d \<Rightarrow> (case map_of d ''schema_version'' of None \<Rightarrow> JStr ''1'' | Some v \<Rightarrow> v))
   \<and> is_duplicate_key k (register_dedupe_key k reg)
   \<and> (fmt (JStr ''a:b'') = ''a:b'' \<and> fmt (JStr ''c'') = ''c'' \<and> fmt (JStr ''a'') = ''a'' \<and> fmt (JStr ''b:c'') = ''b:c'' \<longrightarrow>
        compute_dedupe_key sha256hex fmt dumps ''sla_computation'' [(''device_id'', JStr ''a:b''), (''period'', JStr ''c'')]
        = compute_dedupe_key sha256hex fmt dumps ''sla_computation'' [(''device_id'', JStr ''a''), (''period'', JStr ''b:c'')])"
proof -
  have v: "read_schema_version (Some (versioned_details details))
       = (case details of None \<Rightarrow> JStr ''1'' | Some d \<Rightarrow> (case map_of d ''schema_version'' of None \<Rightarrow> JStr ''1'' | Some v \<Rightarrow> v))"
  proof (cases details)
    case (Some d)
    then show ?thesis by (cases "map_of d ''schema_version''") (auto simp: read_schema_version_def versioned_details_def AUDIT_SCHEMA_VERSION_def map_add_def)
  qed (simp add: read_schema_version_def versioned_details_def AUDIT_SCHEMA_VERSION_def)
  then show ?thesis
    by (simp add: restore_correlation_from_payload_def propagate_to_job_payload_def update_conv' is_duplicate_key_def register_dedupe_key_def
        compute_dedupe_key_def dedupe_base_def payload_get_def)
qed

theorem payload_round_trips_witness:
  "restore_correlation_from_payload (propagate_to_job_payload (Some ''id'') []) None = Some ''id''"
  using payload_round_trips [where c = "''id''" and payload = "[]" and ctx = None] by simp

end
