(* ===== verification/PyRegex.thy ===== *)
theory PyRegex
  imports NocBase
begin

text \<open>
  The regular expressions that the scripts use, with the semantics of Python's \<open>re\<close>: a backtracking matcher that
  lists the ways to match in the order in which \<open>re\<close> tries them (greedy repetitions first try to go on), one capturing
  group, and \<open>re.finditer\<close>, which scans from the left and goes on behind each match. \<open>matches\<close> says what an expression
  matches without any order, and \<open>runs_matches\<close> that the matcher finds exactly that.
\<close>

section \<open>Expressions\<close>

datatype re =
    REps
  | RBol
  | RChr "char \<Rightarrow> bool"
  | RSeq re re
  | RAlt re re
  | RStar re
  | RGroup re

text \<open>A position: the text before it in reverse, the text after it, and what the group caught.\<close>

type_synonym re_pos = "string \<times> string \<times> string option"

abbreviation ahead :: "re_pos \<Rightarrow> nat" where
  "ahead p \<equiv> length (fst (snd p))"

text \<open>
  \<open>^\<close> matches at the start of a line (flag \<open>MULTILINE\<close>). An iteration of a repetition that consumes nothing ends it.
\<close>

definition at_bol :: "re_pos \<Rightarrow> bool" where
  "at_bol p \<longleftrightarrow> (case fst p of [] \<Rightarrow> True | c # _ \<Rightarrow> c = CHR 10)"

definition eat :: "(char \<Rightarrow> bool) \<Rightarrow> re_pos \<Rightarrow> re_pos list" where
  "eat P p = (case p of (b, a, c) \<Rightarrow> (case a of [] \<Rightarrow> [] | x # xs \<Rightarrow> if P x then [(x # b, xs, c)] else []))"

definition catch :: "re_pos \<Rightarrow> re_pos \<Rightarrow> re_pos" where
  "catch p q = (fst q, fst (snd q), Some (take (ahead p - ahead q) (fst (snd p))))"

fun runs :: "re \<Rightarrow> re_pos \<Rightarrow> re_pos list" where
  "runs REps p = [p]"
| "runs RBol p = (if at_bol p then [p] else [])"
| "runs (RChr P) p = eat P p"
| "runs (RSeq r s) p = concat (map (runs s) (runs r p))"
| "runs (RAlt r s) p = runs r p @ runs s p"
| "runs (RStar r) p = concat (map (\<lambda>q. if ahead q < ahead p then runs (RStar r) q else []) (runs r p)) @ [p]"
| "runs (RGroup r) p = map (catch p) (runs r p)"

declare runs.simps(6) [simp del]

text \<open>\<open>re.finditer\<close>, as the list of what the group caught in each match.\<close>

function finditer :: "re \<Rightarrow> string \<Rightarrow> string \<Rightarrow> string option list" where
  "finditer r b a =
    (case runs r (b, a, None) of
       (b', a', c) # _ \<Rightarrow> if length a' < length a then c # finditer r b' a'
                         else c # (case a of [] \<Rightarrow> [] | x # xs \<Rightarrow> finditer r (x # b) xs)
     | [] \<Rightarrow> (case a of [] \<Rightarrow> [] | x # xs \<Rightarrow> finditer r (x # b) xs))"
  by pat_completeness auto
termination by (relation "measure (\<lambda>(r, b, a). length a)") auto

declare finditer.simps [simp del]

section \<open>Building blocks\<close>

definition lit :: "string \<Rightarrow> re" where
  "lit s = foldr (\<lambda>c r. RSeq (RChr (\<lambda>x. x = c)) r) s REps"

definition lit_nocase :: "string \<Rightarrow> re" where
  "lit_nocase s = foldr (\<lambda>c r. RSeq (RChr (\<lambda>x. lower_char x = lower_char c)) r) s REps"

definition plus_of :: "re \<Rightarrow> re" where
  "plus_of r = RSeq r (RStar r)"

definition word_char :: "char \<Rightarrow> bool" where
  "word_char c \<longleftrightarrow> is_digit c \<or> is_upper c \<or> is_lower c \<or> c = CHR ''_''"

section \<open>What an expression matches\<close>

fun matches :: "re \<Rightarrow> re_pos \<Rightarrow> re_pos \<Rightarrow> bool" where
  "matches REps = (\<lambda>p q. q = p)"
| "matches RBol = (\<lambda>p q. at_bol p \<and> q = p)"
| "matches (RChr P) = (\<lambda>(b, a, c) q. \<exists>x xs. a = x # xs \<and> P x \<and> q = (x # b, xs, c))"
| "matches (RSeq r s) = (\<lambda>p q. \<exists>m. matches r p m \<and> matches s m q)"
| "matches (RAlt r s) = (\<lambda>p q. matches r p q \<or> matches s p q)"
| "matches (RStar r) = (\<lambda>p q. matches r p q \<and> ahead q < ahead p)\<^sup>*\<^sup>*"
| "matches (RGroup r) = (\<lambda>p q. \<exists>m. matches r p m \<and> q = catch p m)"

lemma eat_matches: "set (eat P p) = {q. matches (RChr P) p q}"
  by (cases p) (auto simp: eat_def split: list.split if_split_asm)

lemma star_unfold:
  "q \<in> set (runs (RStar r) p) \<longleftrightarrow> q = p \<or> (\<exists>m \<in> set (runs r p). ahead m < ahead p \<and> q \<in> set (runs (RStar r) m))"
  by (subst runs.simps(6)) (auto split: if_split_asm)

lemma star_runs:
  assumes "\<And>p. set (runs r p) = {q. matches r p q}"
  shows "set (runs (RStar r) p) = {q. matches (RStar r) p q}"
proof (induction "ahead p" arbitrary: p rule: less_induct)
  case less
  show ?case
  proof (intro equalityI subsetI)
    fix q assume "q \<in> set (runs (RStar r) p)"
    then consider "q = p" | m where "matches r p m" "ahead m < ahead p" "q \<in> set (runs (RStar r) m)"
      using assms star_unfold [of q r p] by auto
    then show "q \<in> {q. matches (RStar r) p q}"
    proof cases
      case 2
      then have "matches (RStar r) m q" using less by blast
      then show ?thesis using 2 by (simp add: converse_rtranclp_into_rtranclp)
    qed simp
  next
    fix q assume "q \<in> {q. matches (RStar r) p q}"
    then have "(\<lambda>p q. matches r p q \<and> ahead q < ahead p)\<^sup>*\<^sup>* p q" by simp
    then show "q \<in> set (runs (RStar r) p)"
    proof (cases rule: converse_rtranclpE)
      case (step m)
      then have "q \<in> set (runs (RStar r) m)" using less by auto
      moreover have "m \<in> set (runs r p)" using step assms by simp
      ultimately show ?thesis using step star_unfold [of q r p] by auto
    qed (simp add: star_unfold [of q r q])
  qed
qed

lemma runs_matches: "set (runs r p) = {q. matches r p q}"
proof (induction r arbitrary: p)
  case (RChr P)
  show ?case by (simp only: runs.simps eat_matches)
next
  case (RStar r)
  then show ?case by (rule star_runs)
qed (auto simp del: matches.simps(6))

section \<open>Positions\<close>

text \<open>A match consumes a prefix of what is ahead.\<close>

definition goes_on :: "re_pos \<Rightarrow> re_pos \<Rightarrow> bool" where
  "goes_on p q \<longleftrightarrow> rev (fst q) @ fst (snd q) = rev (fst p) @ fst (snd p) \<and> ahead q \<le> ahead p"

lemma goes_on_refl [simp]: "goes_on p p"
  by (simp add: goes_on_def)

lemma goes_on_trans: "goes_on p q \<Longrightarrow> goes_on q s \<Longrightarrow> goes_on p s"
  by (simp add: goes_on_def)

lemma matches_goes_on: "matches r p q \<Longrightarrow> goes_on p q"
proof (induction r arbitrary: p q)
  case (RStar r)
  then have "(\<lambda>p q. matches r p q \<and> ahead q < ahead p)\<^sup>*\<^sup>* p q" by simp
  then show ?case by (induction rule: rtranclp_induct) (auto intro: goes_on_trans RStar.IH simp del: split_paired_All)
next
  case (RGroup r)
  then obtain m where "matches r p m" "q = catch p m" by auto
  moreover from this(1) have "goes_on p m" by (rule RGroup.IH)
  ultimately show ?case by (simp add: goes_on_def catch_def)
next
  case (RSeq r s)
  then show ?case using goes_on_trans by (metis matches.simps(4))
qed (auto simp: goes_on_def)

text \<open>Expressions in which the group takes part in every match.\<close>

fun catches :: "re \<Rightarrow> bool" where
  "catches (RGroup _) = True"
| "catches (RSeq r s) = (catches r \<or> catches s)"
| "catches (RAlt r s) = (catches r \<and> catches s)"
| "catches _ = False"

lemma matches_keeps_caught: "matches r p q \<Longrightarrow> snd (snd p) \<noteq> None \<Longrightarrow> snd (snd q) \<noteq> None"
proof (induction r arbitrary: p q)
  case (RStar r)
  then have "(\<lambda>p q. matches r p q \<and> ahead q < ahead p)\<^sup>*\<^sup>* p q" by simp
  then show ?case using RStar.prems(2) by (induction rule: rtranclp_induct) (use RStar.IH in blast)+
next
  case (RGroup r)
  then show ?case by (auto simp: catch_def)
next
  case (RSeq r s)
  then show ?case by (metis matches.simps(4))
qed auto

lemma matches_caught: "matches r p q \<Longrightarrow> catches r \<Longrightarrow> snd (snd q) \<noteq> None"
proof (induction r arbitrary: p q)
  case (RSeq r s)
  then show ?case by (metis catches.simps(2) matches.simps(4) matches_keeps_caught)
next
  case (RAlt r s)
  then show ?case by (metis catches.simps(3) matches.simps(5))
qed (auto simp: catch_def)

lemma finditer_caught: "catches r \<Longrightarrow> None \<notin> set (finditer r b a)"
proof (induction r b a rule: finditer.induct)
  case (1 r b a)
  have *: "x \<noteq> None" if "runs r (b, a, None) = (b', a', x) # rest" for b' a' x rest
    using matches_caught [of r "(b, a, None)" "(b', a', x)"] that 1(4) runs_matches [of r "(b, a, None)"] by auto
  show ?case using * 1 by (subst finditer.simps) (auto split: list.split prod.split)
qed

text \<open>The search: everything it yields was caught at some position, and it yields nothing only when no position matches.\<close>

lemma finditer_none:
  "runs r (b, a, None) = [] \<Longrightarrow> finditer r b a = (case a of [] \<Rightarrow> [] | x # xs \<Rightarrow> finditer r (x # b) xs)"
  by (subst finditer.simps) simp

lemma finditer_some:
  "runs r (b, a, None) = (b', a', c) # qs \<Longrightarrow>
    finditer r b a = c # (if length a' < length a then finditer r b' a' else case a of [] \<Rightarrow> [] | x # xs \<Rightarrow> finditer r (x # b) xs)"
  by (subst finditer.simps) simp

lemma finditer_sound:
  "x \<in> set (finditer r b a) \<Longrightarrow> \<exists>b0 a0 q. rev b0 @ a0 = rev b @ a \<and> matches r (b0, a0, None) q \<and> x = snd (snd q)"
proof (induction "length a" arbitrary: a b rule: less_induct)
  case less
  have skip: ?case if "x \<in> set (case a of [] \<Rightarrow> [] | y # ys \<Rightarrow> finditer r (y # b) ys)"
  proof (cases a)
    case (Cons y ys)
    then show ?thesis using that less.hyps [of ys "y # b"] by simp
  qed (use that in simp)
  show ?case
  proof (cases "runs r (b, a, None)")
    case Nil
    then show ?thesis using less.prems skip by (simp add: finditer_none)
  next
    case (Cons q qs)
    obtain b' a' c where q: "q = (b', a', c)" by (cases q)
    have m: "matches r (b, a, None) q" using Cons runs_matches [of r "(b, a, None)"] by auto
    have r: "rev b' @ a' = rev b @ a" using matches_goes_on [OF m] q by (simp add: goes_on_def)
    consider "x = c" | "length a' < length a" "x \<in> set (finditer r b' a')" | "x \<in> set (case a of [] \<Rightarrow> [] | y # ys \<Rightarrow> finditer r (y # b) ys)"
      using less.prems finditer_some [OF Cons [unfolded q]] by (auto split: if_split_asm)
    then show ?thesis
    proof cases
      case 1
      then show ?thesis using m q by (metis snd_conv)
    next
      case 2
      then show ?thesis using less.hyps [of a' b'] r by simp
    qed (rule skip)
  qed
qed

lemma finditer_complete:
  "finditer r b a = [] \<Longrightarrow> a = u @ v \<Longrightarrow> \<not> matches r (rev u @ b, v, None) q"
proof (induction u arbitrary: a b)
  case Nil
  then have "runs r (b, a, None) = []" by (cases "runs r (b, a, None)") (auto simp: finditer_some)
  then have "{q. matches r (b, a, None) q} = {}" using runs_matches [of r "(b, a, None)"] by simp
  then have "\<not> matches r (b, a, None) q" by blast
  then show ?case using Nil by simp
next
  case (Cons x u)
  then have "runs r (b, a, None) = []" by (cases "runs r (b, a, None)") (auto simp: finditer_some)
  then have "finditer r (x # b) (u @ v) = []" using Cons.prems by (simp add: finditer_none)
  from Cons.IH [OF this refl] show ?case by simp
qed

section \<open>What the building blocks match\<close>

lemma matches_lit: "matches (lit s) (b, a, c) q \<longleftrightarrow> (\<exists>t. a = s @ t \<and> q = (rev s @ b, t, c))"
  by (induction s arbitrary: b a) (auto simp: lit_def)

lemma matches_star_chr:
  "matches (RStar (RChr P)) p q \<Longrightarrow> \<exists>w. list_all P w \<and> fst (snd p) = w @ fst (snd q) \<and> fst q = rev w @ fst p \<and> snd (snd q) = snd (snd p)"
proof -
  assume "matches (RStar (RChr P)) p q"
  then have "(\<lambda>p q. matches (RChr P) p q \<and> ahead q < ahead p)\<^sup>*\<^sup>* p q" by simp
  then show ?thesis
  proof (induction rule: rtranclp_induct)
    case base
    show ?case by simp
  next
    case (step y z)
    from step(3) obtain w where w: "list_all P w" "fst (snd p) = w @ fst (snd y)" "fst y = rev w @ fst p" "snd (snd y) = snd (snd p)" by blast
    from step(2) obtain x xs where x: "fst (snd y) = x # xs" "P x" "z = (x # fst y, xs, snd (snd y))" by (cases y) auto
    show ?case using w x by (intro exI [of _ "w @ [x]"]) auto
  qed
qed

lemma matches_plus_chr:
  assumes "matches (plus_of (RChr P)) p q"
  shows "\<exists>w. w \<noteq> [] \<and> list_all P w \<and> fst (snd p) = w @ fst (snd q)"
proof -
  from assms obtain m where m: "matches (RChr P) p m" "matches (RStar (RChr P)) m q" by (auto simp: plus_of_def simp del: matches.simps(3,6))
  from m(1) obtain x xs where x: "fst (snd p) = x # xs" "P x" "fst (snd m) = xs" by (cases p) auto
  from matches_star_chr [OF m(2)] obtain w where "list_all P w" "xs = w @ fst (snd q)" using x(3) by auto
  then show ?thesis using x by (intro exI [of _ "x # w"]) simp
qed

lemma matches_plus_chr_one: "P x \<Longrightarrow> matches (plus_of (RChr P)) (b, x # xs, c) (x # b, xs, c)"
  by (auto simp: plus_of_def)

end
