(* ===== verification/ReleaseDrift.thy ===== *)
theory ReleaseDrift
  imports PyRegex
begin

text \<open>
  The release checklist of \<open>scripts/check_release_drift.py\<close>: what it reads from the documentation, the router, the settings
  and the example environment, the three checks and the exit code of the script.

  The repository is an argument: the text of each file, with line ends as \<open>read_text\<close> gives them, and the tree that the
  parser \<open>ast.parse\<close> of Python builds from a text or the error it raises. Of the tree the classes, the annotated assignments and
  the nesting are kept. A set of strings is a list whose order and repetitions no result depends on; \<open>sorted\<close> of it is the sorted
  list without repetitions.
\<close>

section \<open>What is read\<close>

datatype py_node =
    ClassDef string "py_node list"
  | AnnAssign "string option"
  | Stmt "py_node list"

record repository =
  rp_file :: "string \<Rightarrow> string option"
  rp_parse :: "string \<Rightarrow> py_node list res"

abbreviation API_MD :: string where "API_MD \<equiv> ''docs/API.md''"
abbreviation ROUTER_PY :: string where "ROUTER_PY \<equiv> ''app/api/v1/router.py''"
abbreviation CONFIG_PY :: string where "CONFIG_PY \<equiv> ''app/core/config.py''"
abbreviation ENV_EXAMPLE :: string where "ENV_EXAMPLE \<equiv> ''.env.example''"

definition METHODS :: re where
  "METHODS = RAlt (lit_nocase ''GET'') (RAlt (lit_nocase ''POST'') (RAlt (lit_nocase ''PUT'') (RAlt (lit_nocase ''PATCH'') (lit_nocase ''DELETE''))))"

definition spaces1 :: re where
  "spaces1 = plus_of (RChr is_space)"

definition INLINE_CODE :: re where
  "INLINE_CODE = RSeq (lit ''`'') (RSeq METHODS (RSeq spaces1 (RSeq (RGroup (RSeq (lit ''/'') (plus_of (RChr (\<lambda>c. \<not> is_space c \<and> c \<noteq> CHR ''`''))))) (lit ''`''))))"

definition PLAIN_TEXT :: re where
  "PLAIN_TEXT = RSeq (RAlt RBol (RChr is_space)) (RSeq METHODS (RSeq spaces1
     (RGroup (RSeq (lit_nocase ''/api'') (plus_of (RChr (\<lambda>c. \<not> is_space c \<and> c \<noteq> CHR ''`'' \<and> c \<noteq> CHR '')'')))))))"

text \<open>\<open>x{1,4}\<close>: from one to four, as many as possible.\<close>

definition one_to_four :: "re \<Rightarrow> re" where
  "one_to_four x = RSeq x (RAlt (RSeq x (RAlt (RSeq x (RAlt x REps)) REps)) REps)"

definition HEADING :: re where
  "HEADING = RSeq (one_to_four (lit ''#'')) (RSeq spaces1 (RSeq METHODS (RSeq spaces1 (RGroup (RSeq (lit_nocase ''/api'') (plus_of (RChr (\<lambda>c. \<not> is_space c))))))))"

definition rstrip_slash :: "string \<Rightarrow> string" where
  "rstrip_slash s = rev (dropWhile (\<lambda>c. c = CHR ''/'') (rev s))"

definition found :: "re \<Rightarrow> string \<Rightarrow> string list" where
  "found r t = List.map_filter id (finditer r [] t)"

definition parse_documented_endpoints :: "string \<Rightarrow> string list" where
  "parse_documented_endpoints t = map (\<lambda>p. strip (rstrip_slash p)) (concat (map (\<lambda>r. found r t) [INLINE_CODE, PLAIN_TEXT, HEADING]))"

definition WITH_PREFIX :: re where
  "WITH_PREFIX = RSeq (lit ''include_router('') (RSeq (RStar (RChr (\<lambda>c. c \<noteq> CHR '')''))) (RSeq (lit ''prefix'') (RSeq (RStar (RChr is_space))
     (RSeq (lit ''='') (RSeq (RStar (RChr is_space)) (RSeq (lit [CHR 34]) (RSeq (RGroup (plus_of (RChr (\<lambda>c. c \<noteq> CHR 34)))) (lit [CHR 34]))))))))"

definition NO_PREFIX :: re where
  "NO_PREFIX = RSeq (lit ''include_router('') (RSeq (RGroup (plus_of (RChr word_char))) (lit ''.router)''))"

definition parse_registered_routes :: "string \<Rightarrow> string list" where
  "parse_registered_routes t = found WITH_PREFIX t @ map (\<lambda>m. ''<no-prefix>:'' @ m) (found NO_PREFIX t)"

fun class_fields :: "py_node \<Rightarrow> string list" where
  "class_fields (ClassDef n body) =
    (if n = ''Settings'' then List.map_filter (\<lambda>i. case i of AnnAssign x \<Rightarrow> x | _ \<Rightarrow> None) body else []) @ concat (map class_fields body)"
| "class_fields (Stmt ks) = concat (map class_fields ks)"
| "class_fields (AnnAssign _) = []"

definition parse_config_fields :: "repository \<Rightarrow> string \<Rightarrow> string list res" where
  "parse_config_fields rp t = map_sum id (\<lambda>tree. concat (map class_fields tree)) (rp_parse rp t)"

text \<open>\<open>str.splitlines\<close>: the text of each line without its end; a final line end starts no new line.\<close>

definition line_end :: "char \<Rightarrow> bool" where
  "line_end c \<longleftrightarrow> (of_char c :: nat) \<in> {10, 11, 12, 13, 28, 29, 30}"

fun splitlines :: "string \<Rightarrow> string list" where
  "splitlines [] = []"
| "splitlines (c # cs) =
    (if line_end c then [] # splitlines (if c = CHR 13 \<and> cs \<noteq> [] \<and> hd cs = CHR 10 then tl cs else cs)
     else (case splitlines cs of [] \<Rightarrow> [[c]] | l # ls \<Rightarrow> (c # l) # ls))"

definition env_key :: "string \<Rightarrow> string option" where
  "env_key line =
    (let l = strip (dropWhile (\<lambda>c. c = CHR ''#'') (strip line)) in
     if CHR ''='' \<in> set l then (let k = strip (hd (split_on (CHR ''='') l)) in if k \<noteq> [] then Some k else None) else None)"

definition parse_env_example_keys :: "string option \<Rightarrow> string list" where
  "parse_env_example_keys file = (case file of None \<Rightarrow> [] | Some t \<Rightarrow> List.map_filter env_key (splitlines t))"

section \<open>The checks\<close>

record finding =
  f_severity :: string
  f_category :: string
  f_item :: string
  f_detail :: string

definition sorted_set :: "string list \<Rightarrow> string list" where
  "sorted_set xs = sort (remdups xs)"

definition reachable_path :: "string list \<Rightarrow> string \<Rightarrow> bool" where
  "reachable_path regs e \<longleftrightarrow> list_ex (\<lambda>p. \<not> startswith p ''<no-prefix>'' \<and> startswith e p) regs"

definition check_api_docs :: "repository \<Rightarrow> finding list" where
  "check_api_docs rp =
    (case (rp_file rp API_MD, rp_file rp ROUTER_PY) of
       (Some api, Some router) \<Rightarrow>
         map (\<lambda>e. \<lparr>f_severity = ''warning'', f_category = ''api_docs_vs_router'', f_item = e,
             f_detail = ''Endpoint documented in API.md but no matching router prefix found in '' @ ROUTER_PY @ ''.''\<rparr>)
           (filter (\<lambda>e. \<not> reachable_path (parse_registered_routes router) e) (sorted_set (parse_documented_endpoints api)))
     | (None, _) \<Rightarrow> [\<lparr>f_severity = ''critical'', f_category = ''missing_file'', f_item = API_MD, f_detail = ''docs/API.md is missing.''\<rparr>]
     | (_, None) \<Rightarrow> [\<lparr>f_severity = ''critical'', f_category = ''missing_file'', f_item = ROUTER_PY, f_detail = ''router.py is missing.''\<rparr>])"

definition check_config :: "repository \<Rightarrow> finding list res" where
  "check_config rp =
    (case rp_file rp CONFIG_PY of
       None \<Rightarrow> Inr [\<lparr>f_severity = ''critical'', f_category = ''missing_file'', f_item = CONFIG_PY, f_detail = ''config.py is missing.''\<rparr>]
     | Some t \<Rightarrow>
       (case parse_config_fields rp t of
          Inl e \<Rightarrow> Inl e
        | Inr flds \<Rightarrow>
          (let env_keys = parse_env_example_keys (rp_file rp ENV_EXAMPLE) in
           Inr (map (\<lambda>f. \<lparr>f_severity = ''warning'', f_category = ''config_vs_env_example'', f_item = f,
                  f_detail = ''Settings.'' @ f @ '' has no entry in .env.example.''\<rparr>)
                (filter (\<lambda>f. f \<notin> set env_keys) (sorted_set (filter (\<lambda>f. f \<noteq> ''Config'') flds)))))))"

definition IMPORT_TEXT :: string where
  "IMPORT_TEXT = ''from app.api.v1.endpoints import ''"

definition IMPORT :: re where
  "IMPORT = RSeq (lit IMPORT_TEXT) (RGroup (plus_of (RChr word_char)))"

definition module_path :: "string \<Rightarrow> string" where
  "module_path m = ''app/api/v1/endpoints/'' @ m @ ''.py''"

definition check_imports :: "repository \<Rightarrow> finding list" where
  "check_imports rp =
    (case rp_file rp ROUTER_PY of
       None \<Rightarrow> []
     | Some t \<Rightarrow>
       map (\<lambda>m. \<lparr>f_severity = ''critical'', f_category = ''router_vs_filesystem'', f_item = m,
           f_detail = ''router.py imports '' @ m @ '' but '' @ module_path m @ '' does not exist.''\<rparr>)
         (filter (\<lambda>m. rp_file rp (module_path m) = None) (found IMPORT t)))"

definition run_checks :: "repository \<Rightarrow> finding list res" where
  "run_checks rp = (case check_config rp of Inl e \<Rightarrow> Inl e | Inr fs \<Rightarrow> Inr (check_api_docs rp @ fs @ check_imports rp))"

section \<open>The script\<close>

record drift_report =
  dr_schema_version :: string
  dr_total :: nat
  dr_critical :: nat
  dr_warning :: nat
  dr_info :: nat
  dr_findings :: "finding list"

definition with_severity :: "string \<Rightarrow> finding list \<Rightarrow> nat" where
  "with_severity s fs = length (filter (\<lambda>f. f_severity f = s) fs)"

definition drift_report_of :: "finding list \<Rightarrow> drift_report" where
  "drift_report_of fs =
    \<lparr>dr_schema_version = ''1.0'', dr_total = length fs, dr_critical = with_severity ''critical'' fs,
     dr_warning = with_severity ''warning'' fs, dr_info = with_severity ''info'' fs, dr_findings = fs\<rparr>"

datatype printed =
    Report drift_report
  | Line string

record drift_exit =
  de_code :: nat
  de_file :: "(string \<times> drift_report) option"
  de_stdout :: "printed list"
  de_stderr :: "string list"

definition drift_main :: "repository \<Rightarrow> string option \<Rightarrow> drift_exit res" where
  "drift_main rp output =
    (case run_checks rp of
       Inl e \<Rightarrow> Inl e
     | Inr fs \<Rightarrow>
       (let report = drift_report_of fs;
            (file, out) = (case output of Some (c # cs) \<Rightarrow> (Some (c # cs, report), [Line (''Drift report written to '' @ c # cs)]) | _ \<Rightarrow> (None, [Report report]))
        in if 0 < dr_critical report
           then Inr \<lparr>de_code = 1, de_file = file, de_stdout = out,
             de_stderr = [CHR 10 # ''ERROR: '' @ str_nat (dr_critical report) @ '' CRITICAL drift finding(s) detected. Release workflow should fail.'']\<rparr>
           else Inr \<lparr>de_code = 0, de_file = file,
             de_stdout = out @ (if 0 < dr_warning report then [Line (CHR 10 # ''WARNING: '' @ str_nat (dr_warning report) @ '' warning(s) detected. Review recommended.'')] else []), de_stderr = []\<rparr>))"

section \<open>The verdict\<close>

definition drift_critical :: "repository \<Rightarrow> bool" where
  "drift_critical rp \<longleftrightarrow> rp_file rp API_MD = None \<or> rp_file rp CONFIG_PY = None
    \<or> (case rp_file rp ROUTER_PY of None \<Rightarrow> True | Some t \<Rightarrow> list_ex (\<lambda>m. rp_file rp (module_path m) = None) (found IMPORT t))"

lemma no_severity [simp]: "with_severity s [] = 0"
  by (simp add: with_severity_def)

lemma severity_append [simp]: "with_severity s (xs @ ys) = with_severity s xs + with_severity s ys"
  by (simp add: with_severity_def)

lemma severity_map [simp]: "with_severity s (map f xs) = length (filter (\<lambda>x. f_severity (f x) = s) xs)"
  by (simp add: with_severity_def filter_map comp_def)

lemma two_severities:
  assumes "run_checks rp = Inr fs"
  shows "\<forall>f\<in>set fs. f_severity f \<in> {''critical'', ''warning''}"
  using assms by (auto simp: run_checks_def check_api_docs_def check_config_def check_imports_def Let_def split: sum.splits option.splits)

lemma severities_add_up: "\<forall>f\<in>set fs. f_severity f \<in> {''critical'', ''warning''} \<Longrightarrow>
    with_severity ''critical'' fs + with_severity ''warning'' fs = length fs \<and> with_severity ''info'' fs = 0"
  by (induction fs) (auto simp: with_severity_def)

lemma critical_findings:
  assumes "run_checks rp = Inr fs"
  shows "0 < with_severity ''critical'' fs \<longleftrightarrow> drift_critical rp"
proof -
  obtain cf where cf: "check_config rp = Inr cf" and fs: "fs = check_api_docs rp @ cf @ check_imports rp"
    using assms by (auto simp: run_checks_def split: sum.splits)
  have "0 < with_severity ''critical'' (check_api_docs rp) \<longleftrightarrow> rp_file rp API_MD = None \<or> rp_file rp ROUTER_PY = None"
    by (auto simp: check_api_docs_def with_severity_def split: option.split)
  moreover have "0 < with_severity ''critical'' cf \<longleftrightarrow> rp_file rp CONFIG_PY = None"
    using cf by (auto simp: check_config_def with_severity_def Let_def split: option.splits sum.splits)
  moreover have "0 < with_severity ''critical'' (check_imports rp) \<longleftrightarrow>
      (case rp_file rp ROUTER_PY of None \<Rightarrow> False | Some t \<Rightarrow> list_ex (\<lambda>m. rp_file rp (module_path m) = None) (found IMPORT t))"
    by (auto simp: check_imports_def list_ex_iff filter_empty_conv split: option.split)
  ultimately show ?thesis by (auto simp: fs drift_critical_def split: option.split)
qed


section \<open>Documentation against router\<close>

lemma set_sorted_set [simp]: "set (sorted_set xs) = set xs"
  by (simp add: sorted_set_def)

lemma longer_prefix: "startswith e a \<Longrightarrow> startswith e p \<Longrightarrow> length a \<le> length p \<Longrightarrow> startswith p a"
  unfolding startswith_def by (rule prefix_length_prefix)

text \<open>
  What is compared with the documentation are the prefixes as they are written in the router, without the prefix under which the application mounts it: a
  documented path is reported exactly when no registered prefix starts it, in sorted order and once; and when no registered prefix of four characters or more
  starts with /api and none is shorter, every documented path under /api is reported, whether the application serves it or not.
\<close>

theorem documented_paths_reported:
  assumes "rp_file rp API_MD = Some api" "rp_file rp ROUTER_PY = Some router"
  shows "map f_item (check_api_docs rp) = filter (\<lambda>e. \<not> reachable_path (parse_registered_routes router) e) (sorted_set (parse_documented_endpoints api))
    \<and> ((\<forall>p\<in>set (parse_registered_routes router). 4 \<le> length p \<and> \<not> startswith p ''/api'') \<longrightarrow>
        (\<forall>e\<in>set (parse_documented_endpoints api). startswith e ''/api'' \<longrightarrow> e \<in> f_item ` set (check_api_docs rp)))"
proof -
  have items: "map f_item (check_api_docs rp) = filter (\<lambda>e. \<not> reachable_path (parse_registered_routes router) e) (sorted_set (parse_documented_endpoints api))"
    using assms by (simp add: check_api_docs_def comp_def)
  have "\<not> reachable_path (parse_registered_routes router) e"
    if "\<forall>p\<in>set (parse_registered_routes router). 4 \<le> length p \<and> \<not> startswith p ''/api''" "startswith e ''/api''" for e
    using that longer_prefix [OF that(2)] by (fastforce simp: reachable_path_def list_ex_iff)
  moreover have "f_item ` set (check_api_docs rp) = set (filter (\<lambda>e. \<not> reachable_path (parse_registered_routes router) e) (sorted_set (parse_documented_endpoints api)))"
    unfolding items [symmetric] by simp
  ultimately show ?thesis using items by auto
qed

definition sample_repo :: repository where
  "sample_repo = \<lparr>rp_file = map_of
      [(API_MD, ''### GET /api/v1/audit''),
       (ROUTER_PY, ''from app.api.v1.endpoints import audit'' @ [CHR 10] @ ''api_router.include_router(auth.router, prefix='' @ [CHR 34] @ ''/auth'' @ [CHR 34] @ '')''),
       (CONFIG_PY, ''class Settings''), (ENV_EXAMPLE, ''DEBUG=false'')],
     rp_parse = (\<lambda>_. Inr [ClassDef ''Settings'' [AnnAssign (Some ''DEBUG''), AnnAssign (Some ''VERSION'')]])\<rparr>"

theorem documented_paths_reported_witness:
  "map f_item (check_api_docs sample_repo) = [''/api/v1/audit'']"
proof -
  have f: "rp_file sample_repo API_MD = Some ''### GET /api/v1/audit''"
    "rp_file sample_repo ROUTER_PY = Some (''from app.api.v1.endpoints import audit'' @ [CHR 10] @ ''api_router.include_router(auth.router, prefix='' @ [CHR 34] @ ''/auth'' @ [CHR 34] @ '')'')"
    by (simp_all add: sample_repo_def)
  have e: "filter (\<lambda>e. \<not> reachable_path (parse_registered_routes (''from app.api.v1.endpoints import audit'' @ [CHR 10] @ ''api_router.include_router(auth.router, prefix='' @ [CHR 34] @ ''/auth'' @ [CHR 34] @ '')'')) e)
      (sorted_set (parse_documented_endpoints ''### GET /api/v1/audit'')) = [''/api/v1/audit'']" by code_simp
  show ?thesis using documented_paths_reported [OF f] e by simp
qed

section \<open>Imports of the router\<close>

lemma import_match:
  assumes "matches IMPORT (b, a, None) q"
  shows "\<exists>m v. a = IMPORT_TEXT @ m @ v \<and> m \<noteq> [] \<and> list_all word_char m \<and> snd (snd q) = Some m"
proof -
  from assms obtain n where n: "matches (lit IMPORT_TEXT) (b, a, None) n" "matches (RGroup (plus_of (RChr word_char))) n q" unfolding IMPORT_def matches.simps(4) by blast
  from n(1) obtain t where t: "a = IMPORT_TEXT @ t" "fst (snd n) = t" unfolding matches_lit by auto
  from n(2) obtain k where k: "matches (plus_of (RChr word_char)) n k" "q = catch n k" by auto
  from matches_plus_chr [OF k(1)] obtain w where "w \<noteq> []" "list_all word_char w" "t = w @ fst (snd k)" using t(2) by auto
  then show ?thesis using t k(2) by (intro exI [of _ w] exI [of _ "fst (snd k)"]) (auto simp: catch_def)
qed

lemma found_in: "m \<in> set (found r t) \<longleftrightarrow> Some m \<in> set (finditer r [] t)"
  by (force simp: found_def List.map_filter_def)

lemma import_found: "m \<in> set (found IMPORT t) \<Longrightarrow> \<exists>u v. t = u @ IMPORT_TEXT @ m @ v \<and> m \<noteq> [] \<and> list_all word_char m"
  unfolding found_in using finditer_sound [of "Some m" IMPORT "[]" t] import_match by fastforce

text \<open>
  The check of the imports looks at names that follow the import directly: each module it reports stands behind the words of the import in the text of the
  router and has no file; when no import is followed by a character of a name, as in the parenthesised form that the router uses, it reports nothing,
  whatever modules are missing.
\<close>

theorem router_imports_checked:
  assumes "rp_file rp ROUTER_PY = Some t"
  shows "(\<forall>f\<in>set (check_imports rp). f_severity f = ''critical'' \<and> rp_file rp (module_path (f_item f)) = None
      \<and> (\<exists>u v. t = u @ IMPORT_TEXT @ f_item f @ v) \<and> f_item f \<noteq> [] \<and> list_all word_char (f_item f))
    \<and> ((\<forall>u c v. t = u @ IMPORT_TEXT @ c # v \<longrightarrow> \<not> word_char c) \<longrightarrow> check_imports rp = [])"
proof (intro conjI ballI impI)
  fix f assume "f \<in> set (check_imports rp)"
  then obtain m where m: "m \<in> set (found IMPORT t)" "f_item f = m" "rp_file rp (module_path m) = None" "f_severity f = ''critical''"
    using assms by (auto simp: check_imports_def)
  from import_found [OF m(1)] m show "f_severity f = ''critical''" "rp_file rp (module_path (f_item f)) = None"
    "\<exists>u v. t = u @ IMPORT_TEXT @ f_item f @ v" "f_item f \<noteq> []" "list_all word_char (f_item f)" by auto
next
  assume none: "\<forall>u c v. t = u @ IMPORT_TEXT @ c # v \<longrightarrow> \<not> word_char c"
  have "\<forall>m. m \<notin> set (found IMPORT t)"
  proof (intro allI notI)
    fix m assume "m \<in> set (found IMPORT t)"
    from import_found [OF this] obtain u v where "t = u @ IMPORT_TEXT @ m @ v" "m \<noteq> []" "list_all word_char m" by blast
    then obtain c w where "t = u @ IMPORT_TEXT @ c # w @ v" "word_char c" by (cases m) auto
    then show False using none by blast
  qed
  then have "found IMPORT t = []" by (metis list.set_intros(1) neq_Nil_conv)
  then show "check_imports rp = []" using assms by (simp add: check_imports_def)
qed

theorem router_imports_checked_witness:
  "\<forall>f\<in>set (check_imports sample_repo). rp_file sample_repo (module_path (f_item f)) = None \<and> f_item f \<noteq> []"
  using router_imports_checked [of sample_repo "''from app.api.v1.endpoints import audit'' @ [CHR 10] @ ''api_router.include_router(auth.router, prefix='' @ [CHR 34] @ ''/auth'' @ [CHR 34] @ '')''"]
  by (simp add: sample_repo_def)

section \<open>The example environment\<close>

definition env_text :: "(string \<times> string) list \<Rightarrow> string" where
  "env_text kvs = concat (map (\<lambda>(k, v). k @ ''='' @ v @ [CHR 10]) kvs)"

definition plain_key :: "string \<Rightarrow> bool" where
  "plain_key k \<longleftrightarrow> k \<noteq> [] \<and> list_all word_char k"

lemma line_end_space: "line_end c \<Longrightarrow> is_space c"
  by (auto simp: line_end_def is_space_def)

lemma splitlines_line: "\<forall>c\<in>set l. \<not> line_end c \<Longrightarrow> splitlines (l @ CHR 10 # t) = l # splitlines t"
  by (induction l) (auto simp: line_end_def)

lemma word_char_plain: "word_char c \<Longrightarrow> \<not> is_space c \<and> c \<noteq> CHR ''#'' \<and> c \<noteq> CHR ''=''"
  by (auto simp: word_char_def is_space_def is_digit_def is_upper_def is_lower_def)

lemma strip_head:
  assumes "p \<noteq> []" "\<forall>c\<in>set p. \<not> is_space c"
  shows "\<exists>v'. strip (p @ v) = p @ v'"
proof -
  have a: "dropWhile is_space (p @ v) = p @ v" using assms by (cases p) auto
  have b: "dropWhile is_space (rev p) = rev p" using assms by (cases "rev p") (auto dest: arg_cong [of _ _ set])
  have "dropWhile is_space (rev v @ rev p) = dropWhile is_space (rev v) @ rev p"
    using b dropWhile_append1 [of _ "rev v" is_space "rev p"] dropWhile_append2 [of "rev v" is_space "rev p"]
    by (cases "\<forall>c\<in>set v. is_space c") auto
  then show ?thesis by (simp add: strip_def a)
qed

lemma env_key_line:
  assumes "plain_key k"
  shows "env_key (k @ ''='' @ v) = Some k"
proof -
  let ?p = "k @ ''=''"
  have plain: "\<forall>c\<in>set k. \<not> is_space c \<and> c \<noteq> CHR ''#'' \<and> c \<noteq> CHR ''=''" "k \<noteq> []"
    using assms word_char_plain by (auto simp: plain_key_def list_all_iff)
  then have p: "?p \<noteq> []" "\<forall>c\<in>set ?p. \<not> is_space c" by (auto simp: is_space_def)
  from strip_head [OF p] obtain v1 where v1: "strip (?p @ v) = ?p @ v1" by blast
  from strip_head [OF p] obtain v2 where v2: "strip (?p @ v1) = ?p @ v2" by blast
  have d: "dropWhile (\<lambda>c. c = CHR ''#'') (?p @ v1) = ?p @ v1" using plain by (cases k) auto
  have "CHR ''='' \<notin> set k" using plain(1) by blast
  from split_on_append [OF this, of v2] have h: "hd (split_on (CHR ''='') (?p @ v2)) = k" by simp
  have k: "strip k = k" "k \<noteq> []" using plain strip_id [of k] by blast+
  have "strip (dropWhile (\<lambda>c. c = CHR ''#'') (strip (?p @ v))) = ?p @ v2" using v1 v2 d by metis
  then show ?thesis using h k by (simp add: env_key_def)
qed

lemma env_lines:
  assumes "\<forall>(k, v)\<in>set kvs. plain_key k \<and> (\<forall>c\<in>set v. \<not> line_end c)"
  shows "List.map_filter env_key (splitlines (env_text kvs)) = map fst kvs"
  using assms
proof (induction kvs)
  case Nil
  show ?case by (simp add: env_text_def List.map_filter_def)
next
  case (Cons kv kvs)
  obtain k v where kv: "kv = (k, v)" by fastforce
  have key: "plain_key k" "\<forall>c\<in>set v. \<not> line_end c" using Cons.prems kv by auto
  then have "\<forall>c\<in>set k. \<not> line_end c" using word_char_plain line_end_space by (fastforce simp: plain_key_def list_all_iff)
  moreover have "\<not> line_end (CHR ''='')" by code_simp
  ultimately have "\<forall>c\<in>set (k @ ''='' @ v). \<not> line_end c" using key(2) by auto
  from splitlines_line [OF this] have "splitlines (env_text (kv # kvs)) = (k @ ''='' @ v) # splitlines (env_text kvs)" by (simp add: env_text_def kv)
  moreover have "List.map_filter env_key (splitlines (env_text kvs)) = map fst kvs" using Cons by simp
  ultimately show ?case using kv env_key_line [OF key(1), of v] by (simp add: List.map_filter_def)
qed

text \<open>
  The example environment reads back: of a file with one assignment per line exactly the keys are read, in order, whatever the values, and then the check
  of the settings warns of exactly the annotated fields of Settings that have no line.
\<close>

theorem env_keys_read_back:
  assumes "\<forall>(k, v)\<in>set kvs. plain_key k \<and> (\<forall>c\<in>set v. \<not> line_end c)"
  shows "parse_env_example_keys (Some (env_text kvs)) = map fst kvs
    \<and> (\<forall>rp t flds. rp_file rp CONFIG_PY = Some t \<and> parse_config_fields rp t = Inr flds \<and> rp_file rp ENV_EXAMPLE = Some (env_text kvs) \<longrightarrow>
        (\<exists>fs. check_config rp = Inr fs \<and> f_item ` set fs = set flds - {''Config''} - fst ` set kvs))"
proof -
  have keys: "parse_env_example_keys (Some (env_text kvs)) = map fst kvs" using env_lines [OF assms] by (simp add: parse_env_example_keys_def)
  then show ?thesis by (auto simp: check_config_def image_image)
qed

theorem env_keys_read_back_witness:
  "parse_env_example_keys (Some (env_text [(''DEBUG'', ''false''), (''SECRET_KEY'', ''a=b # c'')])) = [''DEBUG'', ''SECRET_KEY'']"
proof -
  have "\<forall>(k, v)\<in>set [(''DEBUG'', ''false''), (''SECRET_KEY'', ''a=b # c'')]. plain_key k \<and> (\<forall>c\<in>set v. \<not> line_end c)" by code_simp
  from env_keys_read_back [OF this] show ?thesis by simp
qed

end
