(* ===== verification/Exposition.thy ===== *)
theory Exposition
  imports Telemetry
begin

text \<open>
  The metrics endpoints of \<open>app/api/v1/endpoints/metrics.py\<close>: the exposition of the registry as text for Prometheus and the
  evaluation of the scorecard. The rendering of numbers is an argument, and so is the rounding \<open>fl\<close> of floating point
  arithmetic: truncations of products decide what the endpoint reports, so products are rounded where the code multiplies.
  What the laws use of it is that rounding is monotone and exact on the integers of 53 bits.
\<close>

section \<open>Keys\<close>

text \<open>\<open>str.find\<close> of a character and the slice \<open>s[i:j]\<close> for \<open>0 \<le> i\<close>.\<close>

definition find_char :: "char \<Rightarrow> string \<Rightarrow> int" where
  "find_char c s = (if c \<in> set s then int (length (takeWhile (\<lambda>x. x \<noteq> c) s)) else -1)"

definition py_slice :: "string \<Rightarrow> int \<Rightarrow> int \<Rightarrow> string" where
  "py_slice s i j = drop (nat i) (take (nat (if j < 0 then int (length s) + j else j)) s)"

definition metric_name :: "string \<Rightarrow> string" where
  "metric_name key = hd (split_on (CHR ''{'') key)"

definition label_text :: "string \<Rightarrow> string" where
  "label_text key = (if CHR ''{'' \<in> set key then py_slice key (find_char (CHR ''{'') key + 1) (find_char (CHR ''}'') key) else [])"

definition base_labels :: "string \<Rightarrow> string" where
  "base_labels key = (if label_text key = [] then [] else label_text key @ '','')"

section \<open>Lines\<close>

record exposition_env =
  ee_show :: "real \<Rightarrow> string"
  ee_fl :: "real \<Rightarrow> real"

definition counter_help :: "string \<Rightarrow> string list" where
  "counter_help n =
    (if str_in ''request'' (lower n) then [''# HELP '' @ n @ '' Total number of requests'']
     else if str_in ''error'' (lower n) then [''# HELP '' @ n @ '' Total number of errors'']
     else if str_in ''webhook'' (lower n) then [''# HELP '' @ n @ '' Total number of webhook events'']
     else [])"

definition gauge_help :: "string \<Rightarrow> string list" where
  "gauge_help n =
    (if str_in ''active'' (lower n) \<or> str_in ''current'' (lower n) then [''# HELP '' @ n @ '' Current active count''] else [])"

definition sample_line :: "exposition_env \<Rightarrow> string \<Rightarrow> real \<Rightarrow> string" where
  "sample_line env key v =
    (if label_text key \<noteq> [] then metric_name key @ ''{'' @ label_text key @ ''} '' @ ee_show env v
     else metric_name key @ '' '' @ ee_show env v)"

definition type_line :: "string \<Rightarrow> string \<Rightarrow> string" where
  "type_line n k = ''# TYPE '' @ n @ '' '' @ k"

definition counter_lines :: "exposition_env \<Rightarrow> string \<times> real \<Rightarrow> string list" where
  "counter_lines env kv = (let n = metric_name (fst kv) in
     counter_help n @ [type_line n ''counter'', sample_line env (fst kv) (snd kv)])"

definition gauge_lines :: "exposition_env \<Rightarrow> string \<times> real \<Rightarrow> string list" where
  "gauge_lines env kv = (let n = metric_name (fst kv) in
     gauge_help n @ [type_line n ''gauge'', sample_line env (fst kv) (snd kv)])"

text \<open>The bound of a bucket: in the code the quotes are written with a backslash before each, and both are in the text.\<close>

definition le_label :: "string \<Rightarrow> string" where
  "le_label b = ''le='' @ [CHR 92, CHR 34] @ b @ [CHR 92, CHR 34]"

definition histogram_lines :: "exposition_env \<Rightarrow> string \<times> histogram_summary \<Rightarrow> string list" where
  "histogram_lines env ks =
    (let n = metric_name (fst ks); base = base_labels (fst ks); s = snd ks in
     [''# HELP '' @ n @ '' Histogram of '' @ n, type_line n ''histogram'',
      n @ ''_count{'' @ base @ ''} '' @ str_nat (hg_count s),
      n @ ''_sum{'' @ base @ ''} '' @ ee_show env (ee_fl env (hg_avg s * real (hg_count s))),
      n @ ''_bucket{'' @ base @ le_label ''+Inf'' @ ''} '' @ str_nat (hg_count s)])"

definition BUCKETS :: "(real \<times> string) list" where
  "BUCKETS = [(1/1000, ''0.001''), (5/1000, ''0.005''), (1/100, ''0.01''), (25/1000, ''0.025''), (5/100, ''0.05''), (1/10, ''0.1''), (25/100, ''0.25''),
     (5/10, ''0.5''), (1, ''1.0''), (25/10, ''2.5''), (5, ''5.0''), (10, ''10.0''), (30, ''30.0''), (60, ''60.0'')]"

text \<open>\<open>int(count * q)\<close> for a decimal literal \<open>q\<close>: the literal and the product are rounded.\<close>

definition fl_times :: "exposition_env \<Rightarrow> real \<Rightarrow> real \<Rightarrow> real" where
  "fl_times env x q = ee_fl env (x * ee_fl env q)"

definition share :: "exposition_env \<Rightarrow> nat \<Rightarrow> real \<Rightarrow> nat" where
  "share env n q = nat \<lfloor>fl_times env (real n) q\<rfloor>"

definition bucket_count :: "exposition_env \<Rightarrow> timer_summary \<Rightarrow> real \<Rightarrow> nat" where
  "bucket_count env s bound =
    (let avg_seconds = ee_fl env (tm_avg s / 1000); b = ee_fl env bound in
     if b < fl_times env avg_seconds (1/10) then 0
     else if b < fl_times env avg_seconds (1/2) then share env (tm_count s) (1/10)
     else if b < avg_seconds then share env (tm_count s) (3/10)
     else if b < fl_times env avg_seconds 2 then share env (tm_count s) (7/10)
     else if b < fl_times env avg_seconds 5 then share env (tm_count s) (95/100)
     else tm_count s)"

definition bucket_line :: "exposition_env \<Rightarrow> string \<Rightarrow> string \<Rightarrow> nat \<Rightarrow> string" where
  "bucket_line env key b c = metric_name key @ ''_seconds_bucket{'' @ base_labels key @ le_label b @ ''} '' @ str_nat c"

definition timer_lines :: "exposition_env \<Rightarrow> string \<times> timer_summary \<Rightarrow> string list" where
  "timer_lines env ks =
    (let key = fst ks; n = metric_name key; base = base_labels key; s = snd ks in
     [''# HELP '' @ n @ ''_seconds Duration of '' @ n @ '' in seconds'', type_line (n @ ''_seconds'') ''histogram'',
      n @ ''_seconds_count{'' @ base @ ''} '' @ str_nat (tm_count s),
      n @ ''_seconds_sum{'' @ base @ ''} '' @ ee_show env (ee_fl env (ee_fl env (tm_avg s / 1000) * real (tm_count s)))]
     @ map (\<lambda>(b, t). bucket_line env key t (bucket_count env s b)) BUCKETS @ [bucket_line env key ''+Inf'' (tm_count s)])"

definition prometheus_lines :: "exposition_env \<Rightarrow> real \<Rightarrow> metrics_summary \<Rightarrow> string list" where
  "prometheus_lines env now su =
     concat (map (counter_lines env) (su_counters su)) @ concat (map (gauge_lines env) (su_gauges su))
     @ concat (map (histogram_lines env) (su_histograms su)) @ concat (map (timer_lines env) (su_timers su))
     @ [''# HELP app_metrics_timestamp Timestamp of metrics collection'', type_line ''app_metrics_timestamp'' ''gauge'',
        ''app_metrics_timestamp '' @ ee_show env now]"

definition get_prometheus_metrics :: "exposition_env \<Rightarrow> real \<Rightarrow> 'u res \<Rightarrow> metrics \<Rightarrow> string res" where
  "get_prometheus_metrics env now current_user m =
    (case current_user of Inl e \<Rightarrow> Inl e
     | Inr _ \<Rightarrow> Inr (join [CHR 10] (prometheus_lines env now (get_metrics_summary m)) @ [CHR 10]))"

text \<open>The evaluation of a scorecard: pydantic validates the payload, the service cannot fail on a valid one.\<close>

definition evaluate_release_governance :: "scorecard \<Rightarrow> (bool \<times> reliability) res" where
  "evaluate_release_governance payload =
    (case ScorecardMetrics payload of Inl e \<Rightarrow> Inl e | Inr m \<Rightarrow> Inr (True, calculate_reliability_index m))"

section \<open>Buckets\<close>

lemma share_mono:
  assumes "mono (ee_fl env)" "q \<le> q'"
  shows "share env n q \<le> share env n q'"
proof -
  have "real n * ee_fl env q \<le> real n * ee_fl env q'" using monoD [OF assms] by (simp add: mult_left_mono)
  from monoD [OF assms(1) this] show ?thesis unfolding share_def fl_times_def by (intro nat_mono floor_mono)
qed

lemma share_le:
  assumes "mono (ee_fl env)" "\<forall>n\<le>2 ^ 53. ee_fl env (real n) = real n" "n \<le> 2 ^ 53" "q \<le> 1"
  shows "share env n q \<le> n"
proof -
  have "ee_fl env 1 = 1" using assms(2) [rule_format, of 1] by simp
  then have "share env n 1 = n" using assms(2,3) by (simp add: share_def fl_times_def)
  then show ?thesis using share_mono [OF assms(1,4), of n] by simp
qed

lemma bucket_count_mono:
  assumes "mono (ee_fl env)" "\<forall>n\<le>2 ^ 53. ee_fl env (real n) = real n" "tm_count s \<le> 2 ^ 53" "b \<le> b'"
  shows "bucket_count env s b \<le> bucket_count env s b'"
proof -
  have "ee_fl env b \<le> ee_fl env b'" by (rule monoD [OF assms(1,4)])
  moreover have "share env n (1/10) \<le> share env n (3/10)" "share env n (3/10) \<le> share env n (7/10)" "share env n (7/10) \<le> share env n (95/100)" for n
    by (simp_all add: share_mono [OF assms(1)])
  moreover have "share env (tm_count s) (95/100) \<le> tm_count s" by (rule share_le [OF assms(1-3)]) simp
  ultimately show ?thesis unfolding bucket_count_def Let_def
    by (smt (verit, best) le_trans zero_le order_refl)
qed

lemma bucket_count_le:
  assumes "mono (ee_fl env)" "\<forall>n\<le>2 ^ 53. ee_fl env (real n) = real n" "tm_count s \<le> 2 ^ 53"
  shows "bucket_count env s b \<le> tm_count s"
  using share_le [OF assms, of "1/10"] share_le [OF assms, of "3/10"] share_le [OF assms, of "7/10"] share_le [OF assms, of "95/100"]
  by (simp add: bucket_count_def Let_def)

text \<open>
  The buckets of a timer form a histogram: with any monotone rounding that is exact on integers, the reported counts never decrease from one bound to the next and none
  exceeds the number of timings, which is what the last bucket reports.
\<close>

theorem prometheus_buckets:
  assumes "mono (ee_fl env)" "\<forall>n\<le>2 ^ 53. ee_fl env (real n) = real n" "tm_count s \<le> 2 ^ 53"
  shows "sorted (map (\<lambda>(b, t). bucket_count env s b) BUCKETS)
    \<and> (\<forall>(b, t)\<in>set BUCKETS. bucket_count env s b \<le> tm_count s \<and> bucket_line env key t (bucket_count env s b) \<in> set (timer_lines env (key, s)))
    \<and> last (timer_lines env (key, s)) = bucket_line env key ''+Inf'' (tm_count s)"
proof (intro conjI)
  have "sorted (map fst BUCKETS)" by code_simp
  then have "sorted_wrt (\<lambda>x y. fst x \<le> fst y) BUCKETS" by (simp add: sorted_map)
  then have "sorted_wrt (\<lambda>x y. (\<lambda>(b, t). bucket_count env s b) x \<le> (\<lambda>(b, t). bucket_count env s b) y) BUCKETS"
    by (rule sorted_wrt_mono_rel [rotated]) (simp add: case_prod_beta bucket_count_mono [OF assms])
  then show "sorted (map (\<lambda>(b, t). bucket_count env s b) BUCKETS)" by (simp add: sorted_map)
  show "\<forall>(b, t)\<in>set BUCKETS. bucket_count env s b \<le> tm_count s \<and> bucket_line env key t (bucket_count env s b) \<in> set (timer_lines env (key, s))"
    using bucket_count_le [OF assms] by (auto simp: timer_lines_def Let_def intro!: image_eqI)
  show "last (timer_lines env (key, s)) = bucket_line env key ''+Inf'' (tm_count s)" by (simp add: timer_lines_def Let_def)
qed

definition sample_exposition :: exposition_env where
  "sample_exposition = \<lparr>ee_show = (\<lambda>_. ''1.0''), ee_fl = (\<lambda>x. x)\<rparr>"

theorem prometheus_buckets_witness:
  "sorted (map (\<lambda>(b, t). bucket_count sample_exposition (summarize_timer [20, 40]) b) BUCKETS)"
  using prometheus_buckets [of sample_exposition "summarize_timer [20, 40]"] by (simp add: sample_exposition_def summarize_timer_def mono_def)

section \<open>Keys in the text\<close>

lemma name_of_key: "CHR ''{'' \<notin> set n \<Longrightarrow> metric_name (n @ CHR ''{'' # t) = n" "CHR ''{'' \<notin> set n \<Longrightarrow> metric_name n = n"
  by (simp_all add: metric_name_def split_on_append split_on_no_delim)

lemma find_char_at: "c \<notin> set u \<Longrightarrow> find_char c (u @ c # v) = int (length u)"
proof -
  assume "c \<notin> set u"
  then have "takeWhile (\<lambda>x. x \<noteq> c) (u @ c # v) = u" by (induction u) auto
  then show ?thesis by (simp add: find_char_def)
qed

lemma label_of_key:
  assumes "CHR ''{'' \<notin> set n" "CHR ''}'' \<notin> set n" "CHR ''}'' \<notin> set t"
  shows "label_text (n @ ''{'' @ t @ ''}'') = t"
proof -
  have a: "find_char (CHR ''{'') (n @ ''{'' @ t @ ''}'') = int (length n)" using find_char_at [OF assms(1)] by simp
  have "CHR ''}'' \<notin> set (n @ ''{'' @ t)" using assms by simp
  from find_char_at [OF this, of "[]"] have b: "find_char (CHR ''}'') (n @ ''{'' @ t @ ''}'') = int (length n + 1 + length t)" by simp
  show ?thesis unfolding label_text_def a b py_slice_def by (simp add: nat_add_distrib)
qed

lemma join_chars: "set (join sep xs) \<subseteq> set sep \<union> \<Union> (set ` set xs)"
  by (induction sep xs rule: join.induct) auto

lemma join_nonempty: "xs \<noteq> [] \<Longrightarrow> \<forall>x\<in>set xs. x \<noteq> [] \<Longrightarrow> join sep xs \<noteq> []"
  by (induction sep xs rule: join.induct) auto

lemma type_lines_repeated:
  "length (filter (\<lambda>kv. metric_name (fst kv) = n) kvs) \<le> length (filter (\<lambda>l. l = type_line n ''counter'') (concat (map (counter_lines env) kvs)))"
  by (induction kvs) (auto simp: counter_lines_def Let_def)

text \<open>
  What a counter becomes in the text: its line is the key under which the registry keeps it, a blank and the value, for every name and tags without braces, so the
  values of labels are never quoted, as the format would have it; and the type line of a name is written once for every combination of tags, not once for
  the name.
\<close>

theorem exposition_keeps_keys:
  assumes "CHR ''{'' \<notin> set n" "CHR ''}'' \<notin> set n"
    "\<forall>(k, v)\<in>set tags. CHR ''}'' \<notin> set k \<and> CHR ''}'' \<notin> set v"
  shows "sample_line env (make_key n tags) x = make_key n tags @ '' '' @ ee_show env x
    \<and> metric_name (make_key n tags) = n
    \<and> length (filter (\<lambda>kv. metric_name (fst kv) = n) (me_counters m))
        \<le> length (filter (\<lambda>l. l = type_line n ''counter'') (prometheus_lines env now (get_metrics_summary m)))"
proof -
  have reps: "length (filter (\<lambda>kv. metric_name (fst kv) = n) (me_counters m))
        \<le> length (filter (\<lambda>l. l = type_line n ''counter'') (prometheus_lines env now (get_metrics_summary m)))"
    using type_lines_repeated [of n "me_counters m" env] by (simp add: prometheus_lines_def get_metrics_summary_def)
  show ?thesis
  proof (cases "tags = []")
    case True
    then show ?thesis using assms(1) reps by (simp add: make_key_def sample_line_def label_text_def name_of_key)
  next
    case False
    define t where "t = join '','' (map (\<lambda>(k, v). k @ ''='' @ v) (sort_key (\<lambda>(k, v). map (of_char :: char \<Rightarrow> nat) k) tags))"
    have key: "make_key n tags = n @ ''{'' @ t @ ''}''" using False by (simp add: make_key_def t_def)
    have "CHR ''}'' \<notin> set t" using assms(3) join_chars [of "'',''" "map (\<lambda>(k, v). k @ ''='' @ v) (sort_key (\<lambda>(k, v). map (of_char :: char \<Rightarrow> nat) k) tags)"]
      unfolding t_def [symmetric] by fastforce
    from label_of_key [OF assms(1,2) this] have l: "label_text (make_key n tags) = t" using key by simp
    have nm: "metric_name (make_key n tags) = n" using name_of_key(1) [OF assms(1)] key by simp
    have "sort_key f tags \<noteq> []" for f :: "string \<times> string \<Rightarrow> nat list" using False by (metis length_0_conv length_sort)
    then have "t \<noteq> []" unfolding t_def by (intro join_nonempty) auto
    then show ?thesis using reps nm l key by (simp add: sample_line_def)
  qed
qed

theorem exposition_keeps_keys_witness:
  "sample_line sample_exposition (make_key ''http_requests'' [(''method'', ''GET'')]) 1 = ''http_requests{method=GET} 1.0''"
proof -
  have k: "make_key ''http_requests'' [(''method'', ''GET'')] = ''http_requests{method=GET}''" by code_simp
  show ?thesis
    using exposition_keeps_keys [of "''http_requests''" "[(''method'', ''GET'')]" sample_exposition 1 no_metrics 0] k
    by (simp add: sample_exposition_def)
qed

end
