(* ===== verification/WalletCache.thy ===== *)
theory WalletCache
  imports Wallets
begin

text \<open>
  The balance cache of \<open>app/services/wallet_registry.py\<close> that \<open>_get_balance_legacy\<close> keeps: entries with a time to live, the
  lock in Redis under which an entry is refreshed, and the counters that \<open>GET /wallets/metrics\<close> reports.

  Redis is the map of its keys to the instants at which they expire. What other clients do there before an attempt and
  while the lock is held, the clock, and the errors of the client are arguments.
\<close>

section \<open>State\<close>

record asset_balance =
  ab_balance :: string
  ab_asset_type :: string
  ab_asset_code :: "string option"
  ab_asset_issuer :: "string option"

record legacy_balance =
  lb_address :: string
  lb_balances :: "(string \<times> asset_balance) list"
  lb_last_updated :: real

record balance_cache =
  wc_entries :: "(string \<times> legacy_balance \<times> real) list"
  wc_hits :: nat
  wc_misses :: nat
  wc_acquired :: nat
  wc_timeouts :: nat

type_synonym redis_keys = "(string \<times> real) list"

record redis_client =
  rc_ping :: bool
  rc_now :: "nat \<Rightarrow> real"
  rc_others :: "nat \<Rightarrow> redis_keys \<Rightarrow> redis_keys"
  rc_error :: "nat \<Rightarrow> exc option"
  rc_meanwhile :: "redis_keys \<Rightarrow> redis_keys"
  rc_delete_fails :: bool

definition WALLET_CACHE_TTL :: real where "WALLET_CACHE_TTL = 300"
definition WALLET_CACHE_LOCK_TIMEOUT :: real where "WALLET_CACHE_LOCK_TIMEOUT = 5"
definition WALLET_CACHE_LOCK_PREFIX :: string where "WALLET_CACHE_LOCK_PREFIX = ''wallet:lock:''"

text \<open>\<open>SET key 1 NX EX seconds\<close> and \<open>DEL key\<close>.\<close>

definition redis_set_nx :: "real \<Rightarrow> real \<Rightarrow> string \<Rightarrow> redis_keys \<Rightarrow> bool \<times> redis_keys" where
  "redis_set_nx now ex key ks =
    (case map_of ks key of
       Some e \<Rightarrow> if now < e then (False, ks) else (True, AList.update key (now + ex) ks)
     | None \<Rightarrow> (True, AList.update key (now + ex) ks))"

definition redis_delete :: "string \<Rightarrow> redis_keys \<Rightarrow> redis_keys" where
  "redis_delete key ks = filter (\<lambda>(k, _). k \<noteq> key) ks"

section \<open>Lock and cache\<close>

text \<open>Up to three attempts, of which the one with \<open>Suc n\<close> left is number \<open>2 - n\<close>. Without a client the lock counts as taken.\<close>

fun acquire_attempts :: "nat \<Rightarrow> redis_client \<Rightarrow> string \<Rightarrow> balance_cache \<Rightarrow> redis_keys \<Rightarrow> bool res \<times> balance_cache \<times> redis_keys" where
  "acquire_attempts 0 rc key m ks = (Inr False, m, ks)"
| "acquire_attempts (Suc n) rc key m ks =
    (let i = 2 - n; ks1 = rc_others rc i ks in
     case rc_error rc i of
       Some e \<Rightarrow> (Inl e, m, ks1)
     | None \<Rightarrow>
       (case redis_set_nx (rc_now rc i) WALLET_CACHE_LOCK_TIMEOUT key ks1 of
          (True, ks2) \<Rightarrow> (Inr True, m\<lparr>wc_acquired := wc_acquired m + 1\<rparr>, ks2)
        | (False, ks2) \<Rightarrow> acquire_attempts n rc key (m\<lparr>wc_timeouts := wc_timeouts m + 1\<rparr>) ks2))"

definition try_acquire_lock :: "redis_client \<Rightarrow> string \<Rightarrow> balance_cache \<Rightarrow> redis_keys \<Rightarrow> bool res \<times> balance_cache \<times> redis_keys" where
  "try_acquire_lock rc wallet_key m ks =
    (if \<not> rc_ping rc then (Inr True, m, ks) else acquire_attempts 3 rc (WALLET_CACHE_LOCK_PREFIX @ wallet_key) m ks)"

definition release_lock :: "redis_client \<Rightarrow> string \<Rightarrow> redis_keys \<Rightarrow> redis_keys" where
  "release_lock rc wallet_key ks =
    (if \<not> rc_ping rc \<or> rc_delete_fails rc then ks else redis_delete (WALLET_CACHE_LOCK_PREFIX @ wallet_key) ks)"

definition get_cached_balance :: "real \<Rightarrow> string \<Rightarrow> balance_cache \<Rightarrow> legacy_balance option" where
  "get_cached_balance now address m =
    (case map_of (wc_entries m) address of
       None \<Rightarrow> None
     | Some (response, ts) \<Rightarrow> if now - ts > WALLET_CACHE_TTL then None else Some response)"

definition set_cached_balance :: "real \<Rightarrow> string \<Rightarrow> legacy_balance \<Rightarrow> balance_cache \<Rightarrow> balance_cache" where
  "set_cached_balance now address response m = m\<lparr>wc_entries := AList.update address (response, now) (wc_entries m)\<rparr>"

definition legacy_balances :: "wallet \<Rightarrow> (string \<times> asset_balance) list" where
  "legacy_balances w =
    [(''XLM'', \<lparr>ab_balance = (if w_funded w then ''1.0000000'' else ''0.0000000''), ab_asset_type = ''native'', ab_asset_code = None, ab_asset_issuer = None\<rparr>)]
    @ (if w_trustline w
       then [(''USDC'', \<lparr>ab_balance = ''0.0000000'', ab_asset_type = ''credit_alphanum4'', ab_asset_code = Some ''USDC'', ab_asset_issuer = Some ''TEST_ISSUER''\<rparr>)]
       else [])"

text \<open>The clock is read before the first lookup, before the second one and when the entry is stored.\<close>

definition get_balance_legacy ::
  "redis_client \<Rightarrow> real \<Rightarrow> real \<Rightarrow> real \<Rightarrow> (string \<times> wallet) list \<Rightarrow> string \<Rightarrow> balance_cache \<Rightarrow> redis_keys \<Rightarrow>
   (legacy_balance option \<times> string) res \<times> balance_cache \<times> redis_keys" where
  "get_balance_legacy rc now1 now2 now3 by_address address m ks =
    (case map_of by_address address of
       None \<Rightarrow> (Inr (None, ''miss''), m, ks)
     | Some w \<Rightarrow>
       (case get_cached_balance now1 address m of
          Some r \<Rightarrow> (Inr (Some r, ''hit''), m\<lparr>wc_hits := wc_hits m + 1\<rparr>, ks)
        | None \<Rightarrow>
          (case try_acquire_lock rc address (m\<lparr>wc_misses := wc_misses m + 1\<rparr>) ks of
             (Inl e, m1, ks1) \<Rightarrow> (Inl e, m1, ks1)
           | (Inr False, m1, ks1) \<Rightarrow>
             (case get_cached_balance now2 address m1 of
                Some r \<Rightarrow> (Inr (Some r, ''stale''), m1, ks1)
              | None \<Rightarrow> (Inr (None, ''miss''), m1, ks1))
           | (Inr True, m1, ks1) \<Rightarrow>
             (let r = \<lparr>lb_address = address, lb_balances = legacy_balances w, lb_last_updated = now3\<rparr>
              in (Inr (Some r, ''refreshing''), set_cached_balance now3 address r m1, release_lock rc address (rc_meanwhile rc ks1))))))"

definition get_cache_metrics :: "balance_cache \<Rightarrow> (string \<times> nat) list" where
  "get_cache_metrics m = [(''cache_hits'', wc_hits m), (''cache_misses'', wc_misses m), (''lock_acquisitions'', wc_acquired m), (''lock_timeouts'', wc_timeouts m)]"

section \<open>Laws\<close>

lemma acquire_counts:
  assumes "acquire_attempts n rc key m ks = (r, m', ks')"
  shows "wc_entries m' = wc_entries m" "wc_hits m' = wc_hits m" "wc_misses m' = wc_misses m"
    "wc_acquired m' = wc_acquired m + (if r = Inr True then 1 else 0)"
    "wc_timeouts m' \<le> wc_timeouts m + n"
    "r = Inr False \<Longrightarrow> wc_timeouts m' = wc_timeouts m + n"
  using assms
  by (induction n rc key m ks rule: acquire_attempts.induct) (auto simp: Let_def split: option.splits prod.splits bool.splits)

lemma try_acquire_counts:
  assumes "try_acquire_lock rc k m ks = (r, m', ks')"
  shows "wc_entries m' = wc_entries m" "wc_hits m' = wc_hits m" "wc_misses m' = wc_misses m"
    "wc_timeouts m' \<le> wc_timeouts m + 3" "r = Inr False \<Longrightarrow> wc_timeouts m' = wc_timeouts m + 3"
  using assms acquire_counts [of 3 rc "WALLET_CACHE_LOCK_PREFIX @ k" m ks r m' ks'] by (auto simp: try_acquire_lock_def split: if_splits)

text \<open>
  A balance answer: an unknown address is a miss that counts nothing; of the calls for a known address each counts as exactly one hit or miss and as at most three lock time-outs;
  an answer is never older than the time to live unless three attempts at the lock timed out; and after a refresh the entry is served as a hit for the whole time to live, is
  the balance of the wallet, and the lock is free, whoever holds it by then.
\<close>

theorem legacy_balance_spec:
  assumes "get_balance_legacy rc now1 now2 now3 by_address address m ks = (r, m', ks')"
  shows "(map_of by_address address = None \<longrightarrow> r = Inr (None, ''miss'') \<and> m' = m)
    \<and> (map_of by_address address \<noteq> None \<longrightarrow> wc_hits m' + wc_misses m' = wc_hits m + wc_misses m + 1 \<and> wc_timeouts m' \<le> wc_timeouts m + 3)
    \<and> (\<forall>b. r = Inr (b, ''stale'') \<or> r = Inr (b, ''miss'') \<and> map_of by_address address \<noteq> None \<longrightarrow> wc_timeouts m' = wc_timeouts m + 3)
    \<and> (\<forall>b w. r = Inr (Some b, ''refreshing'') \<and> map_of by_address address = Some w \<longrightarrow>
          lb_balances b = legacy_balances w
        \<and> (\<forall>t rc' n2 n3 ks0. t - now3 \<le> WALLET_CACHE_TTL \<longrightarrow> fst (get_balance_legacy rc' t n2 n3 by_address address m' ks0) = Inr (Some b, ''hit''))
        \<and> (rc_ping rc \<and> \<not> rc_delete_fails rc \<longrightarrow> map_of ks' (WALLET_CACHE_LOCK_PREFIX @ address) = None))"
proof -
  have free: "map_of (filter (\<lambda>(k, _). k \<noteq> q) xs) q = None" for q :: string and xs :: redis_keys by (induction xs) auto
  show ?thesis
  proof (cases "map_of by_address address")
    case None
    then show ?thesis using assms by (auto simp: get_balance_legacy_def)
  next
    case (Some w)
    show ?thesis
    proof (cases "get_cached_balance now1 address m")
      case (Some b)
      then show ?thesis using assms \<open>map_of by_address address = Some w\<close> by (auto simp: get_balance_legacy_def)
    next
      case None
      obtain a m1 ks1 where a: "try_acquire_lock rc address (m\<lparr>wc_misses := wc_misses m + 1\<rparr>) ks = (a, m1, ks1)" using prod_cases3 by blast
      note counts = try_acquire_counts [OF a]
      show ?thesis
      proof (cases a)
        case (Inl e)
        then show ?thesis using assms None \<open>map_of by_address address = Some w\<close> a counts by (auto simp: get_balance_legacy_def)
      next
        case (Inr ok)
        show ?thesis
        proof (cases ok)
          case True
          then show ?thesis using assms None \<open>map_of by_address address = Some w\<close> a counts Inr
            by (auto simp: get_balance_legacy_def Let_def set_cached_balance_def get_cached_balance_def update_conv' release_lock_def redis_delete_def free)
        next
          case False
          then show ?thesis using assms None \<open>map_of by_address address = Some w\<close> a counts Inr
            by (auto simp: get_balance_legacy_def split: option.splits)
        qed
      qed
    qed
  qed
qed

definition idle_client :: redis_client where
  "idle_client = \<lparr>rc_ping = True, rc_now = (\<lambda>_. 0), rc_others = (\<lambda>_ ks. ks), rc_error = (\<lambda>_. None), rc_meanwhile = id, rc_delete_fails = False\<rparr>"

definition empty_cache :: balance_cache where
  "empty_cache = \<lparr>wc_entries = [], wc_hits = 0, wc_misses = 0, wc_acquired = 0, wc_timeouts = 0\<rparr>"

definition sample_wallet :: wallet where
  "sample_wallet = \<lparr>w_user = ''u'', w_key = ''G'', w_created = 0, w_updated = 0, w_funded = True, w_active = True, w_trustline = False,
     w_cached = None, w_cache_status = ''fresh''\<rparr>"

theorem legacy_balance_spec_witness:
  "\<exists>b m' ks'. get_balance_legacy idle_client 0 0 0 [(''G'', sample_wallet)] ''G'' empty_cache [] = (Inr (Some b, ''refreshing''), m', ks')
     \<and> lb_balances b = legacy_balances sample_wallet
     \<and> fst (get_balance_legacy idle_client 300 300 300 [(''G'', sample_wallet)] ''G'' m' []) = Inr (Some b, ''hit'')"
proof -
  obtain r m' ks' where g: "get_balance_legacy idle_client 0 0 0 [(''G'', sample_wallet)] ''G'' empty_cache [] = (r, m', ks')" using prod_cases3 by blast
  then obtain b where b: "r = Inr (Some b, ''refreshing'')"
    by (auto simp: get_balance_legacy_def get_cached_balance_def empty_cache_def try_acquire_lock_def idle_client_def eval_nat_numeral redis_set_nx_def Let_def)
  from legacy_balance_spec [OF g] b show ?thesis unfolding g by (auto simp: WALLET_CACHE_TTL_def)
qed

section \<open>The lock over time\<close>

text \<open>
  Clients that enter and leave the section guarded by one lock, with time passing between. With \<open>prompt\<close> nobody stays inside as long as the lock lives.
\<close>

record lock_world =
  lw_now :: real
  lw_keys :: redis_keys
  lw_inside :: "(nat \<times> real) list"

inductive lock_run :: "bool \<Rightarrow> string \<Rightarrow> lock_world \<Rightarrow> lock_world \<Rightarrow> bool" for prompt key where
  lr_wait: "0 \<le> d \<Longrightarrow> prompt \<longrightarrow> (\<forall>(p, t)\<in>set (lw_inside w). lw_now w + d < t + WALLET_CACHE_LOCK_TIMEOUT) \<Longrightarrow>
     lock_run prompt key w (w\<lparr>lw_now := lw_now w + d\<rparr>)"
| lr_enter: "redis_set_nx (lw_now w) WALLET_CACHE_LOCK_TIMEOUT key (lw_keys w) = (True, ks) \<Longrightarrow>
     lock_run prompt key w (w\<lparr>lw_keys := ks, lw_inside := lw_inside w @ [(p, lw_now w)]\<rparr>)"
| lr_leave: "x \<in> set (lw_inside w) \<Longrightarrow>
     lock_run prompt key w (w\<lparr>lw_keys := redis_delete key (lw_keys w), lw_inside := remove1 x (lw_inside w)\<rparr>)"

definition lock_free :: "lock_world" where
  "lock_free = \<lparr>lw_now = 0, lw_keys = [], lw_inside = []\<rparr>"

definition lock_kept :: "string \<Rightarrow> lock_world \<Rightarrow> bool" where
  "lock_kept key w \<longleftrightarrow> lw_inside w = []
    \<or> (\<exists>p t. lw_inside w = [(p, t)] \<and> map_of (lw_keys w) key = Some (t + WALLET_CACHE_LOCK_TIMEOUT) \<and> lw_now w < t + WALLET_CACHE_LOCK_TIMEOUT)"

lemma lock_run_keeps: "lock_run True key w w' \<Longrightarrow> lock_kept key w \<Longrightarrow> lock_kept key w'"
proof (induction rule: lock_run.induct)
  case (lr_wait d w)
  then show ?case by (auto simp: lock_kept_def)
next
  case (lr_enter w ks p)
  then show ?case by (auto simp: lock_kept_def redis_set_nx_def update_conv' WALLET_CACHE_LOCK_TIMEOUT_def split: option.splits if_splits)
next
  case (lr_leave x w)
  then show ?case by (auto simp: lock_kept_def)
qed

interpretation refresh_lock: step_system "lock_run True key" "lock_kept key" for key
  by unfold_locales (rule lock_run_keeps)

text \<open>
  The lock of a refresh: as long as every client leaves before the lock it took expires, at most one client is inside at any time, in every interleaving; but the release
  deletes whatever lock is there, so one client that stays too long lets two others in at once although both of them took the lock just now.
\<close>

theorem refresh_lock_exclusive:
  "(\<forall>w. (lock_run True key)\<^sup>*\<^sup>* lock_free w \<longrightarrow> length (lw_inside w) \<le> 1)
   \<and> (\<exists>w a b. (lock_run False key)\<^sup>*\<^sup>* lock_free w \<and> a \<noteq> b \<and> lw_inside w = [(a, lw_now w), (b, lw_now w)])"
proof (intro conjI allI impI)
  fix w assume "(lock_run True key)\<^sup>*\<^sup>* lock_free w"
  then have "lock_kept key w" by (rule refresh_lock.history_inv) (simp add: lock_kept_def lock_free_def)
  then show "length (lw_inside w) \<le> 1" by (auto simp: lock_kept_def)
next
  let ?w1 = "\<lparr>lw_now = 0, lw_keys = [(key, 5)], lw_inside = [(0::nat, 0)]\<rparr>"
  let ?w2 = "\<lparr>lw_now = 6, lw_keys = [(key, 5)], lw_inside = [(0::nat, 0)]\<rparr>"
  let ?w3 = "\<lparr>lw_now = 6, lw_keys = [(key, 11)], lw_inside = [(0::nat, 0), (1, 6)]\<rparr>"
  let ?w4 = "\<lparr>lw_now = 6, lw_keys = [], lw_inside = [(1::nat, 6)]\<rparr>"
  let ?w5 = "\<lparr>lw_now = 6, lw_keys = [(key, 11)], lw_inside = [(1::nat, 6), (2, 6)]\<rparr>"
  have "lock_run False key lock_free ?w1"
    using lr_enter [of lock_free key "[(key, 5)]" False 0] by (simp add: lock_free_def redis_set_nx_def WALLET_CACHE_LOCK_TIMEOUT_def)
  moreover have "lock_run False key ?w1 ?w2" using lr_wait [of 6 False ?w1 key] by simp
  moreover have "lock_run False key ?w2 ?w3"
    using lr_enter [of ?w2 key "[(key, 11)]" False 1] by (simp add: redis_set_nx_def WALLET_CACHE_LOCK_TIMEOUT_def)
  moreover have "lock_run False key ?w3 ?w4" using lr_leave [of "(0, 0)" ?w3 False key] by (simp add: redis_delete_def)
  moreover have "lock_run False key ?w4 ?w5"
    using lr_enter [of ?w4 key "[(key, 11)]" False 2] by (simp add: redis_set_nx_def WALLET_CACHE_LOCK_TIMEOUT_def)
  ultimately have "(lock_run False key)\<^sup>*\<^sup>* lock_free ?w5" by (meson converse_rtranclp_into_rtranclp rtranclp.rtrancl_refl)
  then show "\<exists>w a b. (lock_run False key)\<^sup>*\<^sup>* lock_free w \<and> a \<noteq> b \<and> lw_inside w = [(a, lw_now w), (b, lw_now w)]"
    by (intro exI [of _ ?w5] exI [of _ 1] exI [of _ 2]) simp
qed

end
