(* ===== verification/Accounts.thy ===== *)
theory Accounts
  imports Auth
begin

text \<open>
  The handlers of \<open>app/api/v1/endpoints/auth.py\<close> for the sessions of an account: the profile, logging out, the inventories of
  sessions and logging out everywhere, for the account itself and for administrators. Each begins with the guard of
  \<open>app/core/security.py\<close>, which may delete an expired session.
\<close>

section \<open>Handlers\<close>

record session_inventory =
  iv_sessions :: "session_info list"
  iv_total_count :: nat
  iv_active_count :: nat

definition session_inventory :: "real \<Rightarrow> string \<Rightarrow> auth_state \<Rightarrow> session_inventory res" where
  "session_inventory now email s =
    map_sum id (\<lambda>l. \<lparr>iv_sessions = l, iv_total_count = length l, iv_active_count = length (filter si_is_active l)\<rparr>) (get_user_sessions now email s)"

definition require_admin :: "auth_env \<Rightarrow> real \<Rightarrow> string option \<Rightarrow> auth_state \<Rightarrow> auth_user res \<times> auth_state" where
  "require_admin env now authorization s = (let (r, s1) = get_current_user env now authorization s in (require_role Role_admin r, s1))"

definition me :: "auth_env \<Rightarrow> real \<Rightarrow> string option \<Rightarrow> auth_state \<Rightarrow> auth_user res \<times> auth_state" where
  "me env now authorization s = get_current_user env now authorization s"

definition logout_handler :: "auth_env \<Rightarrow> real \<Rightarrow> string option \<Rightarrow> string option \<Rightarrow> auth_state \<Rightarrow> string res \<times> auth_state" where
  "logout_handler env now ctx authorization s =
    (case extract_bearer_token authorization of
       Inl e \<Rightarrow> (Inl e, s)
     | Inr token \<Rightarrow> (Inr ''Logged out successfully'', logout env now ctx token s))"

definition get_session_inventory :: "auth_env \<Rightarrow> real \<Rightarrow> string option \<Rightarrow> auth_state \<Rightarrow> session_inventory res \<times> auth_state" where
  "get_session_inventory env now authorization s =
    (case get_current_user env now authorization s of
       (Inl e, s1) \<Rightarrow> (Inl e, s1)
     | (Inr u, s1) \<Rightarrow> (session_inventory now (au_email u) s1, s1))"

definition get_admin_session_inventory ::
  "auth_env \<Rightarrow> real \<Rightarrow> string option \<Rightarrow> string \<Rightarrow> auth_state \<Rightarrow> session_inventory res \<times> auth_state" where
  "get_admin_session_inventory env now authorization email s =
    (case require_admin env now authorization s of
       (Inl e, s1) \<Rightarrow> (Inl e, s1)
     | (Inr _, s1) \<Rightarrow> (session_inventory now email s1, s1))"

definition logout_all_handler :: "auth_env \<Rightarrow> real \<Rightarrow> string option \<Rightarrow> string option \<Rightarrow> auth_state \<Rightarrow> (string \<times> nat) res \<times> auth_state" where
  "logout_all_handler env now ctx authorization s =
    (case get_current_user env now authorization s of
       (Inl e, s1) \<Rightarrow> (Inl e, s1)
     | (Inr u, s1) \<Rightarrow>
       (let (n, s2) = logout_all_sessions now ctx (au_email u) s1 in (Inr (''Logged out from '' @ str_nat n @ '' session(s)'', n), s2)))"

definition admin_logout_all ::
  "auth_env \<Rightarrow> real \<Rightarrow> string option \<Rightarrow> string option \<Rightarrow> string \<Rightarrow> auth_state \<Rightarrow> (string \<times> nat) res \<times> auth_state" where
  "admin_logout_all env now ctx authorization email s =
    (case require_admin env now authorization s of
       (Inl e, s1) \<Rightarrow> (Inl e, s1)
     | (Inr _, s1) \<Rightarrow>
       (let (n, s2) = logout_all_sessions now ctx email s1
        in (Inr (''Logged out user '' @ email @ '' from '' @ str_nat n @ '' session(s)'', n), s2)))"

section \<open>Who is behind a token\<close>

lemma current_user_session:
  assumes "get_current_user env now authorization s = (Inr u, s1)"
  obtains token r where "extract_bearer_token authorization = Inr token" "get_session (env_sha env token) s = Some r" "au_email u = s_email r" "s1 = s"
proof -
  obtain token where t: "extract_bearer_token authorization = Inr token"
    using assms by (cases "extract_bearer_token authorization") (auto simp: get_current_user_def)
  have g: "get_user_for_token env now token s = (Inr (Some u), s1)"
    using assms t by (auto simp: get_current_user_def split: prod.splits sum.splits option.splits)
  then obtain r where r: "get_session (env_sha env token) s = Some r"
    by (cases "get_session (env_sha env token) s") (auto simp: get_user_for_token_def)
  have s1: "s1 = s" using g r
    by (auto simp: get_user_for_token_def split: datetime.splits bool.splits option.splits sum.splits)
  have ms: "map_sum id Some y = Inr (Some u) \<Longrightarrow> y = Inr u" for y :: "auth_user res" by (cases y) simp_all
  have "\<exists>x. get_by_email (s_email r) s = Some x \<and> user_orm_to_pydantic x = Inr u" using g r
    by (auto dest: ms simp: get_user_for_token_def split: datetime.splits bool.splits option.splits sum.splits)
  then obtain x where x: "get_by_email (s_email r) s = Some x" "user_orm_to_pydantic x = Inr u" by blast
  have "au_email u = u_email x" using x(2) by (auto simp: user_orm_to_pydantic_def split: option.splits)
  moreover have "u_email x = s_email r" using x(1) unfolding get_by_email_def by (rule find_Some_key)
  ultimately show ?thesis using that t r s1 by simp
qed

lemma inventory_of_some: "list_sessions_by_email email s \<noteq> [] \<Longrightarrow> session_inventory now email s = Inl TypeError"
  by (cases "list_sessions_by_email email s") (simp_all add: session_inventory_def get_user_sessions_def)

lemma inventory_of_none: "list_sessions_by_email email s = [] \<Longrightarrow>
    session_inventory now email s = Inr \<lparr>iv_sessions = [], iv_total_count = 0, iv_active_count = 0\<rparr>"
  by (simp add: session_inventory_def get_user_sessions_def)

lemma session_listed: "get_session h s = Some r \<Longrightarrow> r \<in> set (list_sessions_by_email (s_email r) s)"
  unfolding get_session_def by (auto simp: list_sessions_by_email_def dest: find_SomeD)

text \<open>
  The inventory of sessions is never answered: the token that authenticates the request is itself a session, and on the first session the comparison of an
  aware and a naive instant raises TypeError; an administrator gets an inventory only of accounts without sessions, and it is empty.
\<close>

theorem session_inventory_never_answers:
  "isl (fst (get_session_inventory env now authorization s))
   \<and> (\<forall>u. fst (get_current_user env now authorization s) = Inr u \<longrightarrow> get_session_inventory env now authorization s = (Inl TypeError, s))
   \<and> (\<forall>iv s1. get_admin_session_inventory env now authorization email s = (Inr iv, s1) \<longrightarrow>
        list_sessions_by_email email s1 = [] \<and> iv_sessions iv = [] \<and> iv_total_count iv = 0 \<and> iv_active_count iv = 0)"
proof (intro conjI allI impI)
  have inv: "get_session_inventory env now authorization s = (Inl TypeError, s)" if cu: "fst (get_current_user env now authorization s) = Inr u" for u
  proof -
    obtain s1 where g: "get_current_user env now authorization s = (Inr u, s1)" using cu by (cases "get_current_user env now authorization s") auto
    from current_user_session [OF g] obtain token r where r: "get_session (env_sha env token) s = Some r" "au_email u = s_email r" "s1 = s" by metis
    have "list_sessions_by_email (au_email u) s \<noteq> []" using session_listed [OF r(1)] r(2) by auto
    then show ?thesis using g r(3) inventory_of_some by (simp add: get_session_inventory_def)
  qed
  fix u assume "fst (get_current_user env now authorization s) = Inr u"
  then show "get_session_inventory env now authorization s = (Inl TypeError, s)" by (rule inv)
next
  show "isl (fst (get_session_inventory env now authorization s))"
  proof (cases "fst (get_current_user env now authorization s)")
    case (Inl e)
    then show ?thesis by (cases "get_current_user env now authorization s") (simp add: get_session_inventory_def)
  next
    case (Inr u)
    then obtain s1 where g: "get_current_user env now authorization s = (Inr u, s1)" by (cases "get_current_user env now authorization s") auto
    from current_user_session [OF g] obtain token r where r: "get_session (env_sha env token) s = Some r" "au_email u = s_email r" "s1 = s" by metis
    have "list_sessions_by_email (au_email u) s \<noteq> []" using session_listed [OF r(1)] r(2) by auto
    then show ?thesis using g r(3) inventory_of_some by (simp add: get_session_inventory_def)
  qed
next
  fix iv s1 assume "get_admin_session_inventory env now authorization email s = (Inr iv, s1)"
  then have i: "session_inventory now email s1 = Inr iv" by (auto simp: get_admin_session_inventory_def split: prod.splits sum.splits)
  then have none: "list_sessions_by_email email s1 = []" using inventory_of_some by fastforce
  then show "list_sessions_by_email email s1 = []" "iv_sessions iv = []" "iv_total_count iv = 0" "iv_active_count iv = 0"
    using i inventory_of_none [OF none, of now] by auto
qed

theorem session_inventory_never_answers_witness:
  "get_session_inventory sample_auth_env 50 (Some ''Bearer atk'') (auth_init\<lparr>as_users := [sample_user], as_sessions := [sample_session]\<rparr>)
    = (Inl TypeError, auth_init\<lparr>as_users := [sample_user], as_sessions := [sample_session]\<rparr>)"
proof -
  let ?s = "auth_init\<lparr>as_users := [sample_user], as_sessions := [sample_session]\<rparr>"
  have "\<exists>u. fst (get_current_user sample_auth_env 50 (Some ''Bearer atk'') ?s) = Inr u"
    by (simp add: get_current_user_def extract_bearer_token_def startswith_def get_user_for_token_def get_session_def get_by_email_def sample_session_def
        sample_user_def sample_auth_env_def user_orm_to_pydantic_def Role_def)
  then show ?thesis using session_inventory_never_answers [of sample_auth_env 50 "Some ''Bearer atk''" ?s] by blast
qed

section \<open>Logging out everywhere\<close>

lemma logout_all_fields [simp]:
  "as_sessions (snd (logout_all_sessions now ctx email s)) = del_where (\<lambda>r. s_email r = email) (as_sessions s)"
  "as_users (snd (logout_all_sessions now ctx email s)) = as_users s"
  "fst (logout_all_sessions now ctx email s) = length (list_sessions_by_email email s)"
  by (simp_all add: logout_all_sessions_def delete_sessions_by_email_def delete_families_by_email_def)

lemma find_filter_keep: "find p xs = Some r \<Longrightarrow> q r \<Longrightarrow> find p (filter q xs) = Some r"
  by (induction xs) (auto split: if_split_asm)

lemma other_session_kept:
  "get_session h s = Some r \<Longrightarrow> s_email r \<noteq> email \<Longrightarrow> get_session h (snd (logout_all_sessions now ctx email s)) = Some r"
  by (simp add: get_session_def del_where_def find_filter_keep)

text \<open>
  C40. Logging an account out everywhere: only an administrator can do it to another account, and whoever is refused changes nothing but an expired session of his own; it
  reports how many sessions the account had, ends exactly those, so that no token authenticates as the account any more, and every token of another account
  that authenticated before authenticates as the same user after it.
\<close>

theorem admin_logout_all_spec:
  "(\<forall>e. fst (require_admin env now authorization s) = Inl e \<longrightarrow>
      admin_logout_all env now ctx authorization email s = (Inl e, snd (require_admin env now authorization s)))
   \<and> (\<forall>u. fst (require_admin env now authorization s) = Inr u \<longrightarrow> au_role u = Role_admin
      \<and> map_sum id snd (fst (admin_logout_all env now ctx authorization email s)) = Inr (length (list_sessions_by_email email s))
      \<and> as_sessions (snd (admin_logout_all env now ctx authorization email s)) = filter (\<lambda>r. s_email r \<noteq> email) (as_sessions s)
      \<and> (\<forall>auth' now' v. fst (get_current_user env now' auth' (snd (admin_logout_all env now ctx authorization email s))) = Inr v \<longrightarrow> au_email v \<noteq> email)
      \<and> (\<forall>auth' now' v. fst (get_current_user env now' auth' s) = Inr v \<and> au_email v \<noteq> email \<longrightarrow>
            fst (get_current_user env now' auth' (snd (admin_logout_all env now ctx authorization email s))) = Inr v))"
proof (intro conjI allI impI)
  fix e assume "fst (require_admin env now authorization s) = Inl e"
  then show "admin_logout_all env now ctx authorization email s = (Inl e, snd (require_admin env now authorization s))"
    by (cases "require_admin env now authorization s") (simp add: admin_logout_all_def)
next
  fix u assume u: "fst (require_admin env now authorization s) = Inr u"
  obtain s1 where s1: "get_current_user env now authorization s = (Inr u, s1)" and role: "au_role u = Role_admin"
    using u by (auto simp: require_admin_def require_role_def case_prod_beta prod_eq_iff split: sum.splits if_splits)
  then have "s1 = s" using current_user_session [OF s1] by metis
  then have r: "require_admin env now authorization s = (Inr u, s)" using s1 role by (simp add: require_admin_def require_role_def)
  let ?t = "snd (logout_all_sessions now ctx email s)"
  have t: "snd (admin_logout_all env now ctx authorization email s) = ?t" using r by (simp add: admin_logout_all_def case_prod_beta)
  show "au_role u = Role_admin" by (rule role)
  show "map_sum id snd (fst (admin_logout_all env now ctx authorization email s)) = Inr (length (list_sessions_by_email email s))"
    using r by (simp add: admin_logout_all_def case_prod_beta)
  show "as_sessions (snd (admin_logout_all env now ctx authorization email s)) = filter (\<lambda>r. s_email r \<noteq> email) (as_sessions s)"
    by (simp add: t del_where_def)
  fix auth' now' v
  {
    assume "fst (get_current_user env now' auth' (snd (admin_logout_all env now ctx authorization email s))) = Inr v"
    then obtain s2 where "get_current_user env now' auth' ?t = (Inr v, s2)" using t by (cases "get_current_user env now' auth' ?t") auto
    from current_user_session [OF this] obtain token x where x: "get_session (env_sha env token) ?t = Some x" "au_email v = s_email x" by metis
    then have "x \<in> set (as_sessions ?t)" unfolding get_session_def by (auto dest: find_SomeD)
    then show "au_email v \<noteq> email" using x(2) by (simp add: del_where_def)
  next
    assume v: "fst (get_current_user env now' auth' s) = Inr v \<and> au_email v \<noteq> email"
    then obtain s2 where g: "get_current_user env now' auth' s = (Inr v, s2)" by (cases "get_current_user env now' auth' s") auto
    from current_user_session [OF g] obtain token x where x: "extract_bearer_token auth' = Inr token" "get_session (env_sha env token) s = Some x" "au_email v = s_email x" by metis
    have "get_session (env_sha env token) ?t = Some x" using other_session_kept [OF x(2)] x(3) v by simp
    moreover have "get_by_email (s_email x) ?t = get_by_email (s_email x) s" by (simp add: get_by_email_def)
    ultimately show "fst (get_current_user env now' auth' (snd (admin_logout_all env now ctx authorization email s))) = Inr v"
      using g x unfolding t
      by (auto simp: get_current_user_def get_user_for_token_def split: datetime.splits bool.splits option.splits sum.splits)
  }
qed

definition sample_admin_state :: auth_state where
  "sample_admin_state = auth_init\<lparr>as_users := [sample_user\<lparr>u_role := ''admin''\<rparr>], as_sessions := [sample_session, sample_session\<lparr>s_access_token := ''x'', s_email := ''other''\<rparr>]\<rparr>"

theorem admin_logout_all_spec_witness:
  "as_sessions (snd (admin_logout_all sample_auth_env 50 None (Some ''Bearer atk'') ''other'' sample_admin_state)) = [sample_session]"
proof -
  have "\<exists>u. fst (require_admin sample_auth_env 50 (Some ''Bearer atk'') sample_admin_state) = Inr u"
    by (simp add: require_admin_def require_role_def sample_admin_state_def get_current_user_def extract_bearer_token_def startswith_def get_user_for_token_def
        get_session_def get_by_email_def sample_session_def sample_user_def sample_auth_env_def user_orm_to_pydantic_def Role_def)
  then show ?thesis
    using admin_logout_all_spec [of sample_auth_env 50 "Some ''Bearer atk''" sample_admin_state None "''other''"]
    by (auto simp: sample_admin_state_def sample_session_def)
qed

end
