(* ===== verification/PaymentPages.thy ===== *)
theory PaymentPages
  imports PaymentApi
begin

text \<open>
  The listing of payments, \<open>list_payments\<close> of \<open>app/api/v1/endpoints/payments.py\<close>: pages by number, and pages by a cursor, which is a text
  that the client sends back. Rendering and parsing of instants are arguments; instants are compared with the column
  as instants in UTC.
\<close>

section \<open>Handler\<close>

record cursor_codec =
  cc_isoformat :: "real \<Rightarrow> string"
  cc_fromisoformat :: "string \<Rightarrow> real res"

datatype payment_listing =
    Numbered "payment_transaction list" int int int
  | Keyed "payment_transaction list" "string option" bool

text \<open>\<open>cursor.split(",", 1)\<close>: the first part always exists, the second only behind a comma.\<close>

definition split_cursor :: "string \<Rightarrow> string \<times> string option" where
  "split_cursor c = (case dropWhile (\<lambda>x. x \<noteq> CHR '','') c of [] \<Rightarrow> (c, None) | _ # rest \<Rightarrow> (takeWhile (\<lambda>x. x \<noteq> CHR '','') c, Some rest))"

definition render_cursor :: "cursor_codec \<Rightarrow> real \<times> string \<Rightarrow> string" where
  "render_cursor cc di = cc_isoformat cc (fst di) @ '','' @ snd di"

definition cursor_listing :: "cursor_codec \<Rightarrow> cursor_page \<Rightarrow> payment_listing" where
  "cursor_listing cc pg = Keyed (cp_items pg) (map_option (render_cursor cc) (cp_next pg)) (cp_has_more pg)"

record listing_query =
  lq_page :: int
  lq_page_size :: int
  lq_cursor :: "string option"
  lq_limit :: int
  lq_status :: "string option"
  lq_type :: "string option"
  lq_outage_id :: "string option"
  lq_date_from :: "datetime option"
  lq_date_to :: "datetime option"

definition listing_query_ok :: "listing_query \<Rightarrow> bool" where
  "listing_query_ok q \<longleftrightarrow> 1 \<le> lq_page q \<and> 1 \<le> lq_page_size q \<and> lq_page_size q \<le> 100 \<and> 1 \<le> lq_limit q \<and> lq_limit q \<le> 100"

definition date_range :: "listing_query \<Rightarrow> unit res" where
  "date_range q =
    (case (lq_date_from q, lq_date_to q) of
       (Some a, Some b) \<Rightarrow> (case dt_less b a of Inl e \<Rightarrow> Inl e
         | Inr True \<Rightarrow> Inl (HTTPException 400 ''date_from cannot be after date_to'') | Inr False \<Rightarrow> Inr ())
     | _ \<Rightarrow> Inr ())"

definition list_payments :: "cursor_codec \<Rightarrow> 'u res \<Rightarrow> listing_query \<Rightarrow> payments \<Rightarrow> payment_listing res" where
  "list_payments cc current_user q t =
    (case current_user of
       Inl e \<Rightarrow> Inl e
     | Inr _ \<Rightarrow>
       if \<not> listing_query_ok q then Inl ValidationError
       else (case date_range q of
         Inl e \<Rightarrow> Inl e
       | Inr _ \<Rightarrow>
         (case lq_cursor q of
            Some (c # cs) \<Rightarrow>
              (let (d, i) = split_cursor (c # cs) in
               case cc_fromisoformat cc d of
                 Inl e \<Rightarrow> Inl e
               | Inr inst \<Rightarrow> Inr (cursor_listing cc (list_cursor (nat (lq_limit q))
                   (case i of None \<Rightarrow> None | Some x \<Rightarrow> Some (inst, x)) (lq_status q) (lq_outage_id q) (lq_type q) t)))
          | _ \<Rightarrow>
            map_sum id (\<lambda>(items, n). Numbered items n (lq_page q) (lq_page_size q))
              (list_payment_rows (lq_page q) (lq_page_size q) (lq_status q) (lq_outage_id q) (lq_type q)
                 (map_option dt_secs (lq_date_from q)) (map_option dt_secs (lq_date_to q)) t))))"

text \<open>
  The route: the answer of the handler is validated as \<open>PaginatedPaymentResponse\<close>, whose data must have a total, a page and a page size. A page by cursor has none
  of them.
\<close>

definition list_payments_route :: "cursor_codec \<Rightarrow> 'u res \<Rightarrow> listing_query \<Rightarrow> payments \<Rightarrow> payment_listing res" where
  "list_payments_route cc current_user q t =
    (case list_payments cc current_user q t of
       Inl e \<Rightarrow> Inl e
     | Inr (Keyed items next hm) \<Rightarrow> Inl ValidationError
     | Inr (Numbered items n page psize) \<Rightarrow> Inr (Numbered items n page psize))"

section \<open>Following the cursors\<close>

text \<open>A client that sends each cursor back as it got it; an error, a listing by number and lack of fuel give \<open>None\<close>.\<close>

fun follow_cursors :: "nat \<Rightarrow> cursor_codec \<Rightarrow> 'u res \<Rightarrow> listing_query \<Rightarrow> string \<Rightarrow> payments \<Rightarrow> payment_transaction list option" where
  "follow_cursors 0 cc user q c t = None"
| "follow_cursors (Suc fuel) cc user q c t =
    (case list_payments cc user (q\<lparr>lq_cursor := Some c\<rparr>) t of
       Inr (Keyed items next hm) \<Rightarrow>
         if hm then (case next of None \<Rightarrow> None | Some c' \<Rightarrow> map_option (append items) (follow_cursors fuel cc user q c' t))
         else Some items
     | _ \<Rightarrow> None)"

text \<open>What the standard library does on the instants that the table holds: a rendered instant reads back and has no comma.\<close>

definition codec_ok :: "cursor_codec \<Rightarrow> payments \<Rightarrow> bool" where
  "codec_ok cc t \<longleftrightarrow> (\<forall>x\<in>p_created_at ` set t. cc_fromisoformat cc (cc_isoformat cc x) = Inr x \<and> CHR '','' \<notin> set (cc_isoformat cc x) \<and> cc_isoformat cc x \<noteq> [])"

lemma dropWhile_neq: "c \<notin> set u \<Longrightarrow> dropWhile (\<lambda>x. x \<noteq> c) (u @ c # v) = c # v" "c \<notin> set u \<Longrightarrow> takeWhile (\<lambda>x. x \<noteq> c) (u @ c # v) = u"
  "c \<notin> set u \<Longrightarrow> dropWhile (\<lambda>x. x \<noteq> c) u = []"
  by (induction u) auto

lemma split_rendered:
  assumes "codec_ok cc t" "d \<in> p_created_at ` set t"
  shows "split_cursor (render_cursor cc (d, i)) = (cc_isoformat cc d, Some i)"
proof -
  have "CHR '','' \<notin> set (cc_isoformat cc d)" using assms unfolding codec_ok_def by blast
  from dropWhile_neq(1,2) [OF this] show ?thesis by (simp add: split_cursor_def render_cursor_def)
qed

lemma split_plain: "CHR '','' \<notin> set c \<Longrightarrow> split_cursor c = (c, None)"
  by (simp add: split_cursor_def dropWhile_neq)

lemma list_cursor_rows:
  "\<exists>rows. set rows \<subseteq> set t \<and> cp_has_more (list_cursor n cursor st oi ty t) = (n < length rows)
    \<and> cp_next (list_cursor n cursor st oi ty t) = (if n < length rows \<and> take n rows \<noteq> [] then Some (cursor_key (last (take n rows))) else None)"
proof -
  define q where "q = opt_filter p_type ty (opt_filter p_outage_id oi (opt_filter p_status st t))"
  define q' where "q' = (case cursor of None \<Rightarrow> q | Some (d, i) \<Rightarrow> if i = [] then q else filter (\<lambda>r. p_created_at r < d \<or> (p_created_at r = d \<and> p_id r < i)) q)"
  have "set q \<subseteq> set t" unfolding q_def by (meson set_opt_filter order_trans)
  then have "set q' \<subseteq> set t" unfolding q'_def by (auto split: option.splits)
  then have sub: "set (take (n + 1) (rev (sort_key cursor_key q'))) \<subseteq> set t" by (auto dest!: in_set_takeD)
  have len: "sort_key cursor_key q' = [] \<longleftrightarrow> q' = []" by (metis length_0_conv length_sort)
  show ?thesis unfolding list_cursor_def q_def [symmetric] Let_def q'_def [symmetric]
    by (rule exI [of _ "take (n + 1) (rev (sort_key cursor_key q'))"]) (use sub in \<open>simp add: len\<close>)
qed

lemma next_stored:
  assumes "cp_next (list_cursor n cursor st oi ty t) = Some (d, i)"
  shows "d \<in> p_created_at ` set t"
proof -
  obtain rows where r: "set rows \<subseteq> set t" "take n rows \<noteq> []" "cursor_key (last (take n rows)) = (d, i)"
    using list_cursor_rows [of t n cursor st oi ty] assms by (auto split: if_splits)
  have "last (take n rows) \<in> set t" using r(1) last_in_set [OF r(2)] by (auto dest: in_set_takeD)
  then show ?thesis using r(3) by (auto simp: cursor_key_def)
qed

lemma next_given:
  assumes "cp_has_more (list_cursor n cursor st oi ty t)" "0 < n"
  obtains d i where "cp_next (list_cursor n cursor st oi ty t) = Some (d, i)"
  using list_cursor_rows [of t n cursor st oi ty] assms by (cases "cp_next (list_cursor n cursor st oi ty t)") (auto split: if_splits)

lemma keyed_listing:
  assumes "user = Inr u" "listing_query_ok q" "date_range q = Inr ()" "c \<noteq> []" "split_cursor c = (d, i)" "cc_fromisoformat cc d = Inr inst"
  shows "list_payments cc user (q\<lparr>lq_cursor := Some c\<rparr>) t = Inr (cursor_listing cc (list_cursor (nat (lq_limit q))
      (map_option (\<lambda>x. (inst, x)) i) (lq_status q) (lq_outage_id q) (lq_type q) t))"
proof -
  obtain x xs where "c = x # xs" using assms(4) by (cases c) auto
  then show ?thesis using assms
    by (cases i) (simp_all add: list_payments_def listing_query_ok_def date_range_def)
qed

lemma follow_walks:
  assumes "user = Inr u" "listing_query_ok q" "date_range q = Inr ()" "codec_ok cc t"
    "c \<noteq> []" "split_cursor c = (d, i)" "cc_fromisoformat cc d = Inr inst"
  shows "follow_cursors fuel cc user q c t
    = walk_pages fuel (nat (lq_limit q)) (map_option (\<lambda>x. (inst, x)) i) (lq_status q) (lq_outage_id q) (lq_type q) t"
  using assms(5-7)
proof (induction fuel arbitrary: c d i inst)
  case 0
  show ?case by simp
next
  case (Suc fuel)
  let ?pg = "list_cursor (nat (lq_limit q)) (map_option (\<lambda>x. (inst, x)) i) (lq_status q) (lq_outage_id q) (lq_type q) t"
  note k = keyed_listing [OF assms(1-3) Suc.prems, of t]
  show ?case
  proof (cases "cp_has_more ?pg")
    case False
    then show ?thesis by (simp add: k cursor_listing_def)
  next
    case True
    have lim: "0 < nat (lq_limit q)" using assms(2) by (simp add: listing_query_ok_def)
    obtain d' i' where n: "cp_next ?pg = Some (d', i')"
      using next_given [OF True lim] by blast
    then have stored: "d' \<in> p_created_at ` set t" by (rule next_stored)
    let ?c = "render_cursor cc (d', i')"
    have "?c \<noteq> []" by (simp add: render_cursor_def)
    moreover have "split_cursor ?c = (cc_isoformat cc d', Some i')" by (rule split_rendered [OF assms(4) stored])
    moreover have "cc_fromisoformat cc (cc_isoformat cc d') = Inr d'" using assms(4) stored unfolding codec_ok_def by blast
    ultimately have "follow_cursors fuel cc user q ?c t
        = walk_pages fuel (nat (lq_limit q)) (map_option (\<lambda>x. (d', x)) (Some i')) (lq_status q) (lq_outage_id q) (lq_type q) t"
      by (rule Suc.IH)
    then show ?thesis using True n by (simp add: k cursor_listing_def)
  qed
qed

text \<open>
  Calling the handler with the cursors it returns: starting with a cursor of a readable instant and no identifier, the calls give each payment that
  matches the filters exactly once, newest first, in at most one call more than there are payments; the date range of the query plays no part in it, and
  a listing without cursor never offers one to start with.
\<close>

theorem cursors_list_all_payments:
  assumes "codec_ok cc t" "listing_query_ok q" "date_range q = Inr ()" "c \<noteq> []" "CHR '','' \<notin> set c" "cc_fromisoformat cc c = Inr inst"
    "distinct (map cursor_key t)" "list_all (\<lambda>r. p_id r \<noteq> []) t"
  shows "follow_cursors (Suc (length t)) cc (Inr u) q c t = Some (map payment_to_pydantic (ordered_rows (lq_status q) (lq_outage_id q) (lq_type q) t))
    \<and> (\<forall>r. lq_cursor q = None \<and> list_payments cc (Inr u) q t = Inr r \<longrightarrow> (\<exists>items n. r = Numbered items n (lq_page q) (lq_page_size q)))"
proof -
  have lim: "0 < nat (lq_limit q)" using assms(2) by (simp add: listing_query_ok_def)
  have "length (ordered_rows st oi ty t) \<le> length t" for st oi ty
    by (simp add: ordered_rows_def query_rows_def) (meson length_opt_filter le_trans)
  then have "length (ordered_rows (lq_status q) (lq_outage_id q) (lq_type q) t) - 0 < Suc (length t)" by (simp add: less_Suc_eq_le)
  from walk_pages_from [OF assms(7,8) lim _ this]
  have "walk_pages (Suc (length t)) (nat (lq_limit q)) None (lq_status q) (lq_outage_id q) (lq_type q) t
      = Some (map payment_to_pydantic (ordered_rows (lq_status q) (lq_outage_id q) (lq_type q) t))" by (simp add: cursor_at_def del: walk_pages.simps)
  moreover have "follow_cursors (Suc (length t)) cc (Inr u) q c t
      = walk_pages (Suc (length t)) (nat (lq_limit q)) None (lq_status q) (lq_outage_id q) (lq_type q) t"
    using follow_walks [OF refl assms(2,3,1,4) split_plain [OF assms(5)] assms(6)] by (simp del: follow_cursors.simps walk_pages.simps)
  moreover have "\<exists>items n. r = Numbered items n (lq_page q) (lq_page_size q)" if "lq_cursor q = None" "list_payments cc (Inr u) q t = Inr r" for r
  proof -
    have "map_sum id f x = Inr r \<Longrightarrow> \<exists>y. r = f y" for f :: "payment_transaction list \<times> int \<Rightarrow> payment_listing" and x :: "(payment_transaction list \<times> int) res"
      by (cases x) auto
    then show ?thesis using that by (fastforce simp: list_payments_def split: sum.splits if_splits)
  qed
  ultimately show ?thesis by (simp del: follow_cursors.simps walk_pages.simps)
qed

definition sample_codec :: cursor_codec where
  "sample_codec = \<lparr>cc_isoformat = (\<lambda>_. ''2024''), cc_fromisoformat = (\<lambda>_. Inr 5)\<rparr>"

definition sample_query :: listing_query where
  "sample_query = \<lparr>lq_page = 1, lq_page_size = 20, lq_cursor = None, lq_limit = 1, lq_status = None, lq_type = None, lq_outage_id = None,
     lq_date_from = None, lq_date_to = None\<rparr>"

theorem cursors_list_all_payments_witness:
  "follow_cursors 3 sample_codec (Inr ()) sample_query ''now'' [sample_payment\<lparr>p_created_at := 5\<rparr>, sample_payment\<lparr>p_id := ''pay_b'', p_created_at := 5\<rparr>]
    = Some (map payment_to_pydantic (ordered_rows None None None [sample_payment\<lparr>p_created_at := 5\<rparr>, sample_payment\<lparr>p_id := ''pay_b'', p_created_at := 5\<rparr>]))"
  using cursors_list_all_payments [of sample_codec "[sample_payment\<lparr>p_created_at := 5\<rparr>, sample_payment\<lparr>p_id := ''pay_b'', p_created_at := 5\<rparr>]" sample_query "''now''" 5 "()"]
  by (simp add: sample_codec_def sample_query_def codec_ok_def listing_query_ok_def date_range_def cursor_key_def sample_payment_def numeral_3_eq_3)

section \<open>The route\<close>

definition matching_rows :: "listing_query \<Rightarrow> payments \<Rightarrow> payments" where
  "matching_rows q t = rev (sort_key p_created_at
    (filter (\<lambda>r. (case lq_date_to q of None \<Rightarrow> True | Some d \<Rightarrow> p_created_at r \<le> dt_secs d))
      (filter (\<lambda>r. (case lq_date_from q of None \<Rightarrow> True | Some d \<Rightarrow> dt_secs d \<le> p_created_at r))
        (query_rows (lq_status q) (lq_outage_id q) (lq_type q) t))))"

lemma list_rows_page:
  assumes "1 \<le> page" "0 \<le> psize"
  shows "list_payment_rows page psize (lq_status q) (lq_outage_id q) (lq_type q) (map_option dt_secs (lq_date_from q)) (map_option dt_secs (lq_date_to q)) t
    = Inr (map payment_to_pydantic (take (nat psize) (drop (nat ((page - 1) * psize)) (matching_rows q t))), int (length (matching_rows q t)))"
proof -
  have "0 \<le> (page - 1) * psize" using assms by simp
  then have "\<not> (page - 1) * psize < 0" by simp
  then show ?thesis using assms
  by (cases "lq_date_from q"; cases "lq_date_to q") (simp_all add: list_payment_rows_def matching_rows_def query_rows_def Let_def)
qed

lemma numbered_route:
  assumes "listing_query_ok q" "date_range q = Inr ()" "lq_cursor q \<in> {None, Some []}"
  shows "list_payments_route cc (Inr u) q t = Inr (Numbered
    (map payment_to_pydantic (take (nat (lq_page_size q)) (drop (nat ((lq_page q - 1) * lq_page_size q)) (matching_rows q t))))
    (int (length (matching_rows q t))) (lq_page q) (lq_page_size q))"
  using assms list_rows_page [of "lq_page q" "lq_page_size q" q t]
  by (auto simp: list_payments_route_def list_payments_def listing_query_ok_def)



end
