(* ===== verification/SecurityLog.thy ===== *)
theory SecurityLog
  imports AuditTrail
begin

text \<open>
  The service \<open>Secu\<close> of \<open>app/services/security.py\<close>, which writes to and reads from the table of the audit trail beside
  \<open>app/services/audit_log.py\<close>, with an older list of sensitive keys, and its names of wallet events. The laws say where the two services
  agree and what the difference lets through.
\<close>

section \<open>Service\<close>

definition WALLET_EVENTS :: "string list" where
  "WALLET_EVENTS = [''wallet.created'', ''wallet.create_failed'', ''wallet.linked'', ''wallet.link_failed'', ''wallet.fetched'', ''wallet.fetch_failed'',
     ''wallet.status_checked'', ''wallet.status_check_failed'', ''wallet.trustline_checked'', ''wallet.trustline_check_failed'',
     ''wallet.funding_state_checked'', ''wallet.funding_state_check_failed'', ''wallet.balance_checked'', ''wallet.balance_check_failed'']"

definition WALLET_PREFIX :: string where
  "WALLET_PREFIX = ''wallet.''"

definition SECU_KEYS :: "string list" where
  "SECU_KEYS = [''password'', ''token'', ''access_token'', ''refresh_token'', ''secret'', ''secret_key'', ''seed'', ''secret_seed'', ''private_key'', ''mnemonic'']"

definition secu_sanitize :: "(string \<times> json) list option \<Rightarrow> (string \<times> json) list" where
  "secu_sanitize details = (case details of None \<Rightarrow> [] | Some d \<Rightarrow> if d = [] then [] else fold sanitize_key SECU_KEYS d)"

definition secu_log_event ::
  "real \<Rightarrow> string option \<Rightarrow> string \<Rightarrow> string option \<Rightarrow> string option \<Rightarrow> (string \<times> json) list option \<Rightarrow> string option \<Rightarrow> audit_entry list \<Rightarrow> audit_entry list" where
  "secu_log_event now ctx_correlation event_type email actor_id details correlation_id log0 =
    log0 @ [\<lparr>ev_type = event_type, ev_email = email, ev_actor = actor_id,
      ev_correlation = (case correlation_id of None \<Rightarrow> ctx_correlation | Some c \<Rightarrow> Some c),
      ev_details = secu_sanitize details, ev_created_at = now\<rparr>]"

definition secu_log ::
  "real \<Rightarrow> string option \<Rightarrow> string \<Rightarrow> (string \<times> json) list option \<Rightarrow> string option \<Rightarrow> string option \<Rightarrow> audit_entry list \<Rightarrow> audit_entry list" where
  "secu_log now ctx event_type details actor_id email log0 = secu_log_event now ctx event_type email actor_id details None log0"

definition secu_list :: "string option \<Rightarrow> nat \<Rightarrow> nat \<Rightarrow> audit_entry list \<Rightarrow> audit_entry list" where
  "secu_list event_type_prefix limit offset log0 =
    (let q = (case event_type_prefix of
                None \<Rightarrow> log0
              | Some p \<Rightarrow> if p = [] then log0 else filter (\<lambda>e. sql_like (p @ ''%'') (ev_type e)) log0)
     in take limit (drop offset (newest_first q)))"

section \<open>Laws\<close>

lemma fold_sanitize_absent: "\<forall>k\<in>set ks. map_of d k = None \<Longrightarrow> fold sanitize_key ks d = d"
  by (induction ks) (auto simp: sanitize_key_def)

lemma map_of_secu_sanitize:
  "map_of (secu_sanitize (Some d)) k = (if k \<in> set SECU_KEYS \<and> map_of d k \<noteq> None then Some redacted_mark else map_of d k)"
  by (auto simp: secu_sanitize_def map_of_fold_sanitize)

lemma keys_extend: "SENSITIVE_KEYS = SECU_KEYS @ [''signing_key'', ''wallet_secret'']"
  by (simp add: SENSITIVE_KEYS_def SECU_KEYS_def)

lemma secu_sanitize_agrees:
  assumes "\<forall>d. details = Some d \<longrightarrow> map_of d ''signing_key'' = None \<and> map_of d ''wallet_secret'' = None"
  shows "secu_sanitize details = sanitize details"
proof (cases details)
  case (Some d)
  have "map_of (fold sanitize_key SECU_KEYS d) k = None" if "map_of d k = None" for k using that by (simp add: map_of_fold_sanitize)
  then have "fold sanitize_key [''signing_key'', ''wallet_secret''] (fold sanitize_key SECU_KEYS d) = fold sanitize_key SECU_KEYS d"
    using assms Some by (intro fold_sanitize_absent) auto
  then show ?thesis using Some by (simp add: secu_sanitize_def sanitize_def keys_extend)
qed (simp add: secu_sanitize_def sanitize_def)

text \<open>
  The two services that write the trail agree on every event whose details have neither of the two keys that only the newer one knows, and on every reading without an
  outcome; on those two keys the older one stores the secret as it is, so one such event makes a clean trail unclean, while all other sensitive keys are
  redacted by both.
\<close>

theorem secu_agrees_with_audit:
  "((\<forall>d. details = Some d \<longrightarrow> map_of d ''signing_key'' = None \<and> map_of d ''wallet_secret'' = None) \<longrightarrow>
      secu_log_event now ctx et em ac details corr log0 = log_event now ctx et em ac details corr log0)
   \<and> secu_list p limit offset log0 = list_audit p None limit offset log0
   \<and> (\<forall>d k v. k \<in> {''signing_key'', ''wallet_secret''} \<and> map_of d k = Some v \<and> v \<noteq> redacted_mark \<longrightarrow>
        map_of (ev_details (last (secu_log now ctx et (Some d) ac em log0))) k = Some v \<and> \<not> trail_clean (secu_log now ctx et (Some d) ac em log0))
   \<and> (\<forall>d. \<forall>k\<in>set SECU_KEYS. map_of (ev_details (last (secu_log now ctx et (Some d) ac em log0))) k \<in> {None, Some redacted_mark})"
proof (intro conjI impI allI ballI)
  assume "\<forall>d. details = Some d \<longrightarrow> map_of d ''signing_key'' = None \<and> map_of d ''wallet_secret'' = None"
  from secu_sanitize_agrees [OF this] show "secu_log_event now ctx et em ac details corr log0 = log_event now ctx et em ac details corr log0"
    by (simp add: secu_log_event_def log_event_def)
next
  show "secu_list p limit offset log0 = list_audit p None limit offset log0" by (simp add: secu_list_def list_audit_def Let_def)
next
  fix d k v assume k: "k \<in> {''signing_key'', ''wallet_secret''} \<and> map_of d k = Some v \<and> v \<noteq> redacted_mark"
  then have "k \<notin> set SECU_KEYS" by (auto simp: SECU_KEYS_def)
  then show kept: "map_of (ev_details (last (secu_log now ctx et (Some d) ac em log0))) k = Some v"
    using k by (simp add: secu_log_def secu_log_event_def map_of_secu_sanitize)
  have "k \<in> set SENSITIVE_KEYS" using k by (auto simp: keys_extend)
  moreover have "last (secu_log now ctx et (Some d) ac em log0) \<in> set (secu_log now ctx et (Some d) ac em log0)"
    by (simp add: secu_log_def secu_log_event_def)
  ultimately show "\<not> trail_clean (secu_log now ctx et (Some d) ac em log0)"
    using kept k unfolding trail_clean_def list_all_iff by force
next
  fix d k assume "k \<in> set SECU_KEYS"
  then show "map_of (ev_details (last (secu_log now ctx et (Some d) ac em log0))) k \<in> {None, Some redacted_mark}"
    by (simp add: secu_log_def secu_log_event_def map_of_secu_sanitize)
qed

theorem secu_agrees_with_audit_witness:
  "secu_log_event 1 None ''wallet.linked'' None None (Some [(''seed'', JStr ''s'')]) None [] = log_event 1 None ''wallet.linked'' None None (Some [(''seed'', JStr ''s'')]) None []
   \<and> map_of (ev_details (last (secu_log 1 None ''wallet.linked'' (Some [(''wallet_secret'', JStr ''s'')]) None None []))) ''wallet_secret'' = Some (JStr ''s'')"
  using secu_agrees_with_audit [of "Some [(''seed'', JStr ''s'')]" 1 None "''wallet.linked''" None None None "[]" None 0 0]
  by (auto simp: redacted_mark_def)

text \<open>
  The pages of wallet events: the reading with the prefix of wallet events returns exactly the entries whose type starts with it, newest first, and
  consecutive pages put together are the listing from its start.
\<close>

theorem wallet_event_pages:
  "(\<forall>t\<in>set WALLET_EVENTS. startswith t WALLET_PREFIX)
   \<and> secu_list (Some WALLET_PREFIX) limit offset log0 = take limit (drop offset (newest_first (filter (\<lambda>e. startswith (ev_type e) WALLET_PREFIX) log0)))
   \<and> secu_list (Some WALLET_PREFIX) limit 0 log0 @ secu_list (Some WALLET_PREFIX) limit' limit log0 = secu_list (Some WALLET_PREFIX) (limit + limit') 0 log0"
proof (intro conjI)
  show "\<forall>t\<in>set WALLET_EVENTS. startswith t WALLET_PREFIX" by (simp add: WALLET_EVENTS_def WALLET_PREFIX_def startswith_def)
  have "sql_like (WALLET_PREFIX @ ''%'') t = startswith t WALLET_PREFIX" for t by (rule sql_like_prefix) (simp_all add: WALLET_PREFIX_def)
  moreover have "WALLET_PREFIX \<noteq> []" by (simp add: WALLET_PREFIX_def)
  ultimately have l: "secu_list (Some WALLET_PREFIX) n m log0 = take n (drop m (newest_first (filter (\<lambda>e. startswith (ev_type e) WALLET_PREFIX) log0)))" for n m
    by (simp add: secu_list_def)
  then show "secu_list (Some WALLET_PREFIX) limit offset log0 = take limit (drop offset (newest_first (filter (\<lambda>e. startswith (ev_type e) WALLET_PREFIX) log0)))" by simp
  show "secu_list (Some WALLET_PREFIX) limit 0 log0 @ secu_list (Some WALLET_PREFIX) limit' limit log0 = secu_list (Some WALLET_PREFIX) (limit + limit') 0 log0"
    unfolding l by (simp add: take_add)
qed

theorem wallet_event_pages_witness:
  "startswith ''wallet.linked'' WALLET_PREFIX"
  using wallet_event_pages [of 0 0 "[]" 0] by (simp add: WALLET_EVENTS_def)

end
