(* ===== verification/JobViews.thy ===== *)
theory JobViews
  imports Jobs
begin

text \<open>
  The two views of a job in \<open>app/api/v1/endpoints/jobs.py\<close>: the response that most endpoints give (\<open>_serialize_job\<close>) and the listing over it, beside the
  envelope of the theory \<open>Jobs\<close>. The columns with JSON text hold the values that they encode; pydantic
  accepts an object or nothing for them.
\<close>

section \<open>Response\<close>

record job_response =
  jr_id :: string
  jr_celery_task_id :: string
  jr_job_type :: job_type
  jr_status :: job_status
  jr_progress :: real
  jr_progress_details :: "(string \<times> json) list option"
  jr_partial_results :: "(string \<times> json) list option"
  jr_per_item_errors :: "(string \<times> json) list option"
  jr_payload :: "(string \<times> json) list option"
  jr_result :: "json option"
  jr_error :: "string option"
  jr_error_detail :: "job_error_detail option"
  jr_retry_count :: int
  jr_max_retries :: int
  jr_retry_class :: "string option"
  jr_last_retried_at :: "real option"
  jr_started_at :: "real option"
  jr_finished_at :: "real option"
  jr_created_at :: real
  jr_payload_hash :: "string option"
  jr_quarantine_reason :: "string option"
  jr_quarantined_at :: "real option"
  jr_dead_letter_reason :: "string option"
  jr_dead_letter_at :: "real option"
  jr_worker_id :: "string option"
  jr_heartbeat_at :: "real option"
  jr_lease_expires_at :: "real option"
  jr_under_investigation :: bool
  jr_under_dispute :: bool
  jr_audit_critical :: bool

fun dict_or_none :: "json option \<Rightarrow> bool" where
  "dict_or_none None = True"
| "dict_or_none (Some (JObj _)) = True"
| "dict_or_none (Some JNull) = True"
| "dict_or_none (Some _) = False"

definition serialize_job :: "job \<Rightarrow> job_response res" where
  "serialize_job j =
    (if \<not> dict_or_none (j_result j) then Inl ValidationError
     else Inr \<lparr>jr_id = j_id j, jr_celery_task_id = j_task j, jr_job_type = j_type j, jr_status = j_status j, jr_progress = j_progress j,
       jr_progress_details = j_progress_details j, jr_partial_results = j_partial_results j, jr_per_item_errors = j_item_errors j,
       jr_payload = j_payload j, jr_result = (if j_result j = Some JNull then None else j_result j), jr_error = j_error j,
       jr_error_detail = build_error_detail j, jr_retry_count = j_retry_count j, jr_max_retries = j_max_retries j,
       jr_retry_class = j_retry_class j, jr_last_retried_at = j_last_retried_at j, jr_started_at = j_started_at j,
       jr_finished_at = j_finished_at j, jr_created_at = j_created_at j, jr_payload_hash = j_payload_hash j,
       jr_quarantine_reason = j_quarantine_reason j, jr_quarantined_at = j_quarantined_at j, jr_dead_letter_reason = j_dead_letter_reason j,
       jr_dead_letter_at = j_dead_letter_at j, jr_worker_id = j_worker j, jr_heartbeat_at = j_heartbeat_at j, jr_lease_expires_at = j_lease j,
       jr_under_investigation = j_under_investigation j, jr_under_dispute = j_under_dispute j, jr_audit_critical = j_audit_critical j\<rparr>)"

fun serialize_jobs :: "job list \<Rightarrow> job_response list res" where
  "serialize_jobs [] = Inr []"
| "serialize_jobs (j # js) = (case serialize_job j of Inl e \<Rightarrow> Inl e | Inr r \<Rightarrow> map_sum id (\<lambda>rs. r # rs) (serialize_jobs js))"

definition list_jobs_endpoint :: "job_type option \<Rightarrow> job_status option \<Rightarrow> int \<Rightarrow> job list \<Rightarrow> job_response list res" where
  "list_jobs_endpoint ty st limit t =
    (if limit < 1 \<or> 200 < limit then Inl ValidationError else serialize_jobs (list_jobs ty st (nat limit) t))"

definition get_job_endpoint :: "string \<Rightarrow> string \<Rightarrow> job_state \<Rightarrow> job_response res \<times> job_state" where
  "get_job_endpoint celery_state uid s =
    (case get_job celery_state uid s of (Inl e, s1) \<Rightarrow> (Inl e, s1) | (Inr j, s1) \<Rightarrow> (serialize_job j, s1))"

section \<open>Laws\<close>

lemma serialize_jobs_all:
  "serialize_jobs js = (if list_all (\<lambda>j. dict_or_none (j_result j)) js then Inr (map (\<lambda>j. projr (serialize_job j)) js) else Inl ValidationError)"
  by (induction js) (auto simp: serialize_job_def)

lemma list_jobs_sorted: "sorted_wrt (\<lambda>a b. j_created_at b \<le> j_created_at a) (list_jobs ty st n t)"
proof -
  have "sorted_wrt (\<lambda>a b. j_created_at b \<le> j_created_at a) (rev (sort_key j_created_at t))"
    using sorted_sort_key [of j_created_at t] by (simp add: sorted_wrt_rev sorted_map)
  then show ?thesis unfolding list_jobs_def by (intro sorted_wrt_take sorted_wrt_filter)
qed

text \<open>
  The two views of a job agree: whenever the result of a job is an object or missing, both show the same identifiers, status, progress, error, retries and times; only a job
  that allows no retry differs, for which the envelope shows three. A failed view never depends on anything but the result, and one job with another
  result makes the whole listing fail; a listing that answers has at most two hundred jobs, newest first.
\<close>

theorem job_views_agree:
  "(case serialize_job j of
      Inl e \<Rightarrow> e = ValidationError \<and> \<not> dict_or_none (j_result j)
    | Inr r \<Rightarrow> (let v = serialize_envelope j in
        je_job_id v = jr_id r \<and> je_task_id v = jr_celery_task_id r \<and> je_job_type v = job_type_value (jr_job_type r)
        \<and> je_status v = job_status_value (jr_status r) \<and> je_progress v = jr_progress r \<and> je_error v = jr_error_detail r
        \<and> je_retry_count v = jr_retry_count r \<and> je_retry_class v = jr_retry_class r \<and> je_started_at v = jr_started_at r
        \<and> je_finished_at v = jr_finished_at r \<and> je_created_at v = jr_created_at r \<and> je_worker v = jr_worker_id r \<and> je_lease v = jr_lease_expires_at r
        \<and> je_flags v = (jr_under_investigation r, jr_under_dispute r, jr_audit_critical r)
        \<and> (je_max_retries v = jr_max_retries r \<longleftrightarrow> jr_max_retries r \<noteq> 0)))
   \<and> (j \<in> set (list_jobs ty st (nat limit) t) \<and> \<not> dict_or_none (j_result j) \<longrightarrow> list_jobs_endpoint ty st limit t = Inl ValidationError)
   \<and> (\<forall>rs. list_jobs_endpoint ty st limit t = Inr rs \<longrightarrow> length rs \<le> 200 \<and> sorted_wrt (\<lambda>a b. jr_created_at b \<le> jr_created_at a) rs)"
proof -
  have "length rs \<le> 200 \<and> sorted_wrt (\<lambda>a b. jr_created_at b \<le> jr_created_at a) rs" if l: "list_jobs_endpoint ty st limit t = Inr rs" for rs
  proof -
    let ?js = "list_jobs ty st (nat limit) t"
    have rs: "rs = map (\<lambda>j. projr (serialize_job j)) ?js" "\<forall>j\<in>set ?js. dict_or_none (j_result j)" "limit \<le> 200"
      using l by (auto simp: list_jobs_endpoint_def serialize_jobs_all list_all_iff split: if_splits)
    have "sorted_wrt (\<lambda>a b. jr_created_at (projr (serialize_job b)) \<le> jr_created_at (projr (serialize_job a))) ?js"
      using list_jobs_sorted by (rule sorted_wrt_mono_rel [rotated]) (use rs(2) in \<open>simp add: serialize_job_def\<close>)
    moreover have "length ?js \<le> 200" using rs(3) by (simp add: list_jobs_def)
    ultimately show ?thesis by (simp add: rs(1) sorted_wrt_map)
  qed
  then show ?thesis
    by (auto simp: serialize_job_def serialize_envelope_def list_jobs_endpoint_def serialize_jobs_all list_all_iff Let_def)
qed

theorem job_views_agree_witness:
  "list_jobs_endpoint None None 50 [(Job ''j'' 0 ''t'' SLA_COMPUTATION [])\<lparr>j_result := Some (JArr [])\<rparr>] = Inl ValidationError"
  using job_views_agree [of "(Job ''j'' 0 ''t'' SLA_COMPUTATION [])\<lparr>j_result := Some (JArr [])\<rparr>" None None 50
      "[(Job ''j'' 0 ''t'' SLA_COMPUTATION [])\<lparr>j_result := Some (JArr [])\<rparr>]"]
  by (simp add: list_jobs_def)

end
