(* ===== verification/Runtime.thy ===== *)
theory Runtime
  imports PyRegex
begin

text \<open>
  What surrounds the handlers: the structured logger of \<open>app/utils/logging.py\<close>, spans and their set-up of \<open>app/core/tracing.py\<close>, the start and end
  of the application of \<open>app/core/lifespan.py\<close>, the container of services of \<open>app/core/dependencies.py\<close> and the labels under which
  \<open>app/metrics/database_metrics.py\<close> counts statements. What the libraries answer is an argument.
\<close>

section \<open>Structured log messages\<close>

text \<open>
  A keyword that is the name of a parameter of \<open>_format_message\<close> raises \<open>TypeError\<close>; keywords are distinct.
\<close>

definition add_context :: "(string \<times> json) list \<Rightarrow> (string \<times> json) list \<Rightarrow> (string \<times> json) list" where
  "add_context kwargs entry = fold (\<lambda>(k, v) e. if k \<in> fst ` set e then e else e @ [(k, v)]) kwargs entry"

definition format_message ::
  "string \<Rightarrow> string \<Rightarrow> string option \<Rightarrow> string \<Rightarrow> string \<Rightarrow> (string \<times> json) list \<Rightarrow> (string \<times> json) list res" where
  "format_message logger_name timestamp correlation level message kwargs =
    (if list_ex (\<lambda>(k, _). k \<in> {''self'', ''level'', ''message''}) kwargs then Inl TypeError
     else Inr (add_context kwargs
       ([(''timestamp'', JStr timestamp), (''level'', JStr level), (''message'', JStr message), (''logger'', JStr logger_name)]
        @ (case correlation of None \<Rightarrow> [] | Some c \<Rightarrow> if c = [] then [] else [(''correlation_id'', JStr c)]))))"

text \<open>\<open>exception\<close> sets a keyword of its own before it formats.\<close>

definition log_exception :: "string \<Rightarrow> string \<Rightarrow> string option \<Rightarrow> string \<Rightarrow> (string \<times> json) list \<Rightarrow> (string \<times> json) list res" where
  "log_exception logger_name timestamp correlation message kwargs =
    format_message logger_name timestamp correlation ''ERROR'' message (AList.update ''exception'' (JBool True) kwargs)"

lemma add_context_map:
  assumes "distinct (map fst kwargs)"
  shows "map_of (add_context kwargs entry) k = (case map_of entry k of Some v \<Rightarrow> Some v | None \<Rightarrow> map_of kwargs k)"
  using assms
proof (induction kwargs arbitrary: entry)
  case Nil
  show ?case by (simp add: add_context_def split: option.split)
next
  case (Cons kv kwargs)
  obtain a v where kv: "kv = (a, v)" by fastforce
  have a: "map_of kwargs a = None" using Cons.prems kv by (simp add: map_of_eq_None_iff)
  have step: "add_context (kv # kwargs) entry = add_context kwargs (if a \<in> fst ` set entry then entry else entry @ [(a, v)])"
    by (simp add: add_context_def kv)
  have ih: "map_of (add_context kwargs e) k = (case map_of e k of Some v \<Rightarrow> Some v | None \<Rightarrow> map_of kwargs k)" for e
    using Cons by simp
  show ?case
  proof (cases "a \<in> fst ` set entry")
    case True
    then have "add_context (kv # kwargs) entry = add_context kwargs entry" by (simp add: step)
    moreover have "map_of entry a \<noteq> None" using True by (simp add: map_of_eq_None_iff)
    ultimately show ?thesis by (auto simp: ih kv split: option.split)
  next
    case False
    then have "add_context (kv # kwargs) entry = add_context kwargs (entry @ [(a, v)])" by (simp add: step)
    moreover have "map_of entry a = None" using False by (simp add: map_of_eq_None_iff)
    ultimately show ?thesis using a by (auto simp: ih kv map_add_def split: option.split)
  qed
qed

text \<open>
  The fields of a log line: a message is refused only when its context names a parameter; otherwise the instant, the level, the message and the logger are the ones given, whatever the
  context says, the correlation id of the request wins over one in the context, and every other keyword is kept with its value and nothing else is there.
\<close>

theorem log_fields_protected:
  assumes "distinct (map fst kwargs)"
  shows "(case format_message lg ts correlation level msg kwargs of
      Inl e \<Rightarrow> e = TypeError \<and> fst ` set kwargs \<inter> {''self'', ''level'', ''message''} \<noteq> {}
    | Inr entry \<Rightarrow> fst ` set kwargs \<inter> {''self'', ''level'', ''message''} = {}
        \<and> map_of entry ''timestamp'' = Some (JStr ts) \<and> map_of entry ''level'' = Some (JStr level)
        \<and> map_of entry ''message'' = Some (JStr msg) \<and> map_of entry ''logger'' = Some (JStr lg)
        \<and> map_of entry ''correlation_id'' = (if correlation \<in> {None, Some []} then map_of kwargs ''correlation_id'' else Some (JStr (the correlation)))
        \<and> (\<forall>k. k \<notin> {''timestamp'', ''level'', ''message'', ''logger'', ''correlation_id''} \<longrightarrow> map_of entry k = map_of kwargs k))"
  using assms by (auto simp: format_message_def add_context_map list_ex_iff split: option.split) force+

theorem log_fields_protected_witness:
  "map_of (projr (format_message ''api'' ''t'' (Some ''c1'') ''INFO'' ''m'' [(''logger'', JStr ''x''), (''job_id'', JInt 3)])) ''logger'' = Some (JStr ''api'')"
  using log_fields_protected [where kwargs = "[(''logger'', JStr ''x''), (''job_id'', JInt 3)]" and lg = "''api''" and ts = "''t''" and correlation = "Some ''c1''"
      and level = "''INFO''" and msg = "''m''"]
  by (auto split: sum.splits)

section \<open>Spans\<close>

record span_record =
  sp_name :: string
  sp_attributes :: "(string \<times> json) list"
  sp_status :: "string option"
  sp_exceptions :: "exc list"

record tracing =
  tr_provider :: bool
  tr_tracer :: bool
  tr_spans :: "span_record list"

definition init_tracing :: "unit res \<Rightarrow> tracing \<Rightarrow> unit res \<times> tracing" where
  "init_tracing setup s = (case setup of Inl e \<Rightarrow> (Inl e, s) | Inr _ \<Rightarrow> (Inr (), s\<lparr>tr_provider := True, tr_tracer := True\<rparr>))"

definition get_tracer :: "tracing \<Rightarrow> unit res" where
  "get_tracer s = (if tr_tracer s then Inr () else Inl (RuntimeError ''Tracing has not been initialised - call init_tracing() first''))"

text \<open>The block of a \<open>with span(...)\<close> is its result.\<close>

definition with_span :: "string \<Rightarrow> (string \<times> json) list \<Rightarrow> 'a res \<Rightarrow> tracing \<Rightarrow> 'a res \<times> tracing" where
  "with_span name attributes body s =
    (case get_tracer s of
       Inl e \<Rightarrow> (Inl e, s)
     | Inr _ \<Rightarrow>
       (case body of
          Inl e \<Rightarrow> (Inl e, s\<lparr>tr_spans := tr_spans s @ [\<lparr>sp_name = name, sp_attributes = attributes, sp_status = Some ''ERROR'', sp_exceptions = [e]\<rparr>]\<rparr>)
        | Inr v \<Rightarrow> (Inr v, s\<lparr>tr_spans := tr_spans s @ [\<lparr>sp_name = name, sp_attributes = attributes, sp_status = Some ''OK'', sp_exceptions = []\<rparr>]\<rparr>)))"

section \<open>Start and end of the application\<close>

datatype celery_probe = No_celery | Celery_error | Workers nat

record life_env =
  le_tracing :: "unit res"
  le_instrument :: bool
  le_pool :: bool
  le_redis_installed :: bool
  le_redis_ping :: bool
  le_redis_close :: bool
  le_celery :: celery_probe

record life =
  lf_tracing :: tracing
  lf_redis :: bool
  lf_pool_disposed :: bool
  lf_log :: "string list"

definition say :: "string \<Rightarrow> life \<Rightarrow> life" where
  "say m s = s\<lparr>lf_log := lf_log s @ [m]\<rparr>"

definition instrument_fastapi :: "life_env \<Rightarrow> life \<Rightarrow> life" where
  "instrument_fastapi env = say (if le_instrument env then ''FastAPI auto-instrumentation enabled'' else ''Failed to instrument FastAPI with OpenTelemetry'')"

definition warmup_db_pool :: "life_env \<Rightarrow> life \<Rightarrow> life" where
  "warmup_db_pool env = say (if le_pool env then ''Database pool warmed up successfully'' else ''Failed to warm up database pool'')"

definition startup_redis :: "life_env \<Rightarrow> life \<Rightarrow> life" where
  "startup_redis env s =
    (if \<not> le_redis_installed env then say ''redis package not installed - skipping Redis startup'' s
     else if le_redis_ping env then say ''Redis connection established'' (s\<lparr>lf_redis := True\<rparr>)
     else say ''Failed to connect to Redis during startup'' (s\<lparr>lf_redis := False\<rparr>))"

definition shutdown_redis :: "life_env \<Rightarrow> life \<Rightarrow> life" where
  "shutdown_redis env s =
    (if lf_redis s then (say (if le_redis_close env then ''Redis connection closed'' else ''Error closing Redis connection'') s)\<lparr>lf_redis := False\<rparr> else s)"

definition check_celery :: "life_env \<Rightarrow> life \<Rightarrow> life" where
  "check_celery env = say (case le_celery env of No_celery \<Rightarrow> ''Celery not configured - skipping connection check''
     | Celery_error \<Rightarrow> ''Celery connection check failed'' | Workers n \<Rightarrow> ''Celery workers online: '' @ str_nat n)"

definition app_startup :: "life_env \<Rightarrow> life \<Rightarrow> unit res \<times> life" where
  "app_startup env s =
    (let s1 = say ''Application starting up'' s; (r, t) = init_tracing (le_tracing env) (lf_tracing s1) in
     case r of
       Inl e \<Rightarrow> (Inl e, s1)
     | Inr _ \<Rightarrow> (Inr (), check_celery env (startup_redis env (warmup_db_pool env (instrument_fastapi env
         (say ''OpenTelemetry tracing initialised'' (s1\<lparr>lf_tracing := t\<rparr>)))))))"

definition shutdown_db_pool :: "life \<Rightarrow> life" where
  "shutdown_db_pool s = say ''Database pool disposed'' (s\<lparr>lf_pool_disposed := True\<rparr>)"

definition shutdown_tracing :: "life \<Rightarrow> life" where
  "shutdown_tracing s = (if tr_provider (lf_tracing s) then say ''OpenTelemetry tracing shut down'' s else s)"

definition app_shutdown :: "life_env \<Rightarrow> life \<Rightarrow> life" where
  "app_shutdown env s = shutdown_tracing (shutdown_db_pool (shutdown_redis env (say ''Application shutting down'' s)))"

lemma life_steps [simp]:
  "lf_tracing (say m s) = lf_tracing s" "lf_redis (say m s) = lf_redis s" "lf_pool_disposed (say m s) = lf_pool_disposed s"
  "lf_tracing (check_celery env s) = lf_tracing s" "lf_redis (check_celery env s) = lf_redis s"
  "lf_tracing (warmup_db_pool env s) = lf_tracing s" "lf_redis (warmup_db_pool env s) = lf_redis s"
  "lf_tracing (instrument_fastapi env s) = lf_tracing s" "lf_redis (instrument_fastapi env s) = lf_redis s"
  "lf_tracing (startup_redis env s) = lf_tracing s" "lf_tracing (shutdown_redis env s) = lf_tracing s" "\<not> lf_redis (shutdown_redis env s)"
  "lf_tracing (shutdown_db_pool s) = lf_tracing s" "lf_redis (shutdown_db_pool s) = lf_redis s" "lf_pool_disposed (shutdown_db_pool s)"
  by (simp_all add: say_def check_celery_def warmup_db_pool_def instrument_fastapi_def startup_redis_def shutdown_redis_def shutdown_db_pool_def)

lemma app_started:
  assumes "le_tracing env = Inr ()"
  shows "fst (app_startup env s) = Inr ()" "tr_provider (lf_tracing (snd (app_startup env s)))" "tr_tracer (lf_tracing (snd (app_startup env s)))"
    "\<not> lf_redis s \<Longrightarrow> lf_redis (snd (app_startup env s)) \<longleftrightarrow> le_redis_installed env \<and> le_redis_ping env"
  using assms by (simp_all add: app_startup_def init_tracing_def Let_def startup_redis_def)

lemma app_stopped:
  "\<not> lf_redis (app_shutdown env s)" "lf_pool_disposed (app_shutdown env s)"
  "tr_provider (lf_tracing s) \<Longrightarrow> last (lf_log (app_shutdown env s)) = ''OpenTelemetry tracing shut down''"
  by (simp_all add: app_shutdown_def shutdown_tracing_def) (simp add: say_def)

text \<open>
  Starting and stopping: the application starts exactly when tracing can be set up, whatever the database pool, Redis, Celery and the instrumentation answer; then spans can be
  opened, and a span closes with the outcome of its block, whose error is recorded and passed on; a Redis client is kept exactly when it was reached, and stopping
  leaves no client and a disposed pool, also when closing fails.
\<close>

theorem lifespan_total:
  assumes "\<not> lf_redis s"
  shows "fst (app_startup env s) = le_tracing env
    \<and> (le_tracing env = Inr () \<longrightarrow> (let t = snd (app_startup env s) in
        (lf_redis t \<longleftrightarrow> le_redis_installed env \<and> le_redis_ping env) \<and> get_tracer (lf_tracing t) = Inr ()
        \<and> fst (with_span n as body (lf_tracing t)) = body
        \<and> (\<exists>sp. tr_spans (snd (with_span n as body (lf_tracing t))) = tr_spans (lf_tracing t) @ [sp] \<and> sp_name sp = n \<and> sp_attributes sp = as
            \<and> (case body of Inl e \<Rightarrow> sp_status sp = Some ''ERROR'' \<and> sp_exceptions sp = [e] | Inr v \<Rightarrow> sp_status sp = Some ''OK'' \<and> sp_exceptions sp = []))
        \<and> (\<forall>env'. \<not> lf_redis (app_shutdown env' t) \<and> lf_pool_disposed (app_shutdown env' t) \<and> last (lf_log (app_shutdown env' t)) = ''OpenTelemetry tracing shut down'')))"
proof (cases "le_tracing env")
  case (Inl e)
  then show ?thesis by (simp add: app_startup_def init_tracing_def Let_def)
next
  case (Inr u)
  then have ok: "le_tracing env = Inr ()" by simp
  note st = app_started [OF ok, of s]
  let ?t = "snd (app_startup env s)"
  have tr: "get_tracer (lf_tracing ?t) = Inr ()" using st(3) by (simp add: get_tracer_def)
  have "fst (with_span n as body (lf_tracing ?t)) = body
    \<and> (\<exists>sp. tr_spans (snd (with_span n as body (lf_tracing ?t))) = tr_spans (lf_tracing ?t) @ [sp] \<and> sp_name sp = n \<and> sp_attributes sp = as
        \<and> (case body of Inl e \<Rightarrow> sp_status sp = Some ''ERROR'' \<and> sp_exceptions sp = [e] | Inr v \<Rightarrow> sp_status sp = Some ''OK'' \<and> sp_exceptions sp = []))"
    by (cases body) (simp_all add: with_span_def tr)
  then show ?thesis using st assms tr app_stopped ok by (simp add: Let_def)
qed

definition nothing_works :: life_env where
  "nothing_works = \<lparr>le_tracing = Inr (), le_instrument = False, le_pool = False, le_redis_installed = True, le_redis_ping = False, le_redis_close = False, le_celery = Celery_error\<rparr>"

definition stopped :: life where
  "stopped = \<lparr>lf_tracing = \<lparr>tr_provider = False, tr_tracer = False, tr_spans = []\<rparr>, lf_redis = False, lf_pool_disposed = False, lf_log = []\<rparr>"

theorem lifespan_total_witness:
  "fst (app_startup nothing_works stopped) = Inr () \<and> \<not> lf_redis (snd (app_startup nothing_works stopped))"
proof -
  have a: "\<not> lf_redis stopped" by (simp add: stopped_def)
  have b: "le_tracing nothing_works = Inr ()" "\<not> le_redis_ping nothing_works" by (simp_all add: nothing_works_def)
  note t = lifespan_total [OF a, of nothing_works "[]" "[]" "Inr () :: unit res"]
  show ?thesis using t [THEN conjunct1] t [THEN conjunct2, THEN mp, OF b(1), unfolded Let_def, THEN conjunct1] b by simp
qed

section \<open>Container of services\<close>

text \<open>Objects are numbered by their creation; the class \<open>WalletRegistry\<close> is object 0.\<close>

record container =
  ct_instance :: bool
  ct_initialised :: bool
  ct_services :: "(string \<times> nat) list"
  ct_next :: nat

definition new_container :: "container \<Rightarrow> container" where
  "new_container s =
    (let s1 = (if ct_instance s then s else s\<lparr>ct_instance := True, ct_initialised := False\<rparr>)
     in if ct_initialised s1 then s1 else s1\<lparr>ct_initialised := True, ct_services := []\<rparr>)"

definition container_wallet_registry :: "container \<Rightarrow> nat \<times> container" where
  "container_wallet_registry s =
    (case map_of (ct_services s) ''wallet_registry'' of
       Some x \<Rightarrow> (x, s) | None \<Rightarrow> (0, s\<lparr>ct_services := AList.update ''wallet_registry'' 0 (ct_services s)\<rparr>))"

definition container_webhook_service :: "container \<Rightarrow> nat \<times> container" where
  "container_webhook_service s =
    (case map_of (ct_services s) ''webhook_service'' of
       Some x \<Rightarrow> (x, s)
     | None \<Rightarrow> (ct_next s, s\<lparr>ct_services := AList.update ''webhook_service'' (ct_next s) (ct_services s), ct_next := ct_next s + 1\<rparr>))"

definition container_reset :: "container \<Rightarrow> container" where
  "container_reset s = s\<lparr>ct_services := []\<rparr>"

inductive container_step :: "container \<Rightarrow> container \<Rightarrow> bool" where
  cs_new: "container_step s (new_container s)"
| cs_wallet: "container_step s (snd (container_wallet_registry s))"
| cs_webhook: "container_step s (snd (container_webhook_service s))"

definition serves :: "nat \<Rightarrow> container \<Rightarrow> bool" where
  "serves x s \<longleftrightarrow> ct_instance s \<and> ct_initialised s \<and> map_of (ct_services s) ''webhook_service'' = Some x \<and> x < ct_next s"

lemma container_step_serves: "container_step s t \<Longrightarrow> serves x s \<Longrightarrow> serves x t"
  by (induction rule: container_step.induct)
    (auto simp: serves_def new_container_def container_wallet_registry_def container_webhook_service_def update_conv' split: option.split)

interpretation services: step_system container_step "serves x" for x
  by unfold_locales (rule container_step_serves)

text \<open>
  One container and one service: after the first request for the webhook service, every later request in the process gets the same object, however often containers are constructed
  and services asked for in between; only a reset makes the next request build another one.
\<close>

theorem container_singletons:
  assumes "ct_instance s" "ct_initialised s" "\<forall>x\<in>snd ` set (ct_services s). x < ct_next s"
    "container_step\<^sup>*\<^sup>* (snd (container_webhook_service s)) t"
  shows "fst (container_webhook_service t) = fst (container_webhook_service s)
    \<and> fst (container_webhook_service (container_reset t)) \<noteq> fst (container_webhook_service s)"
proof -
  let ?x = "fst (container_webhook_service s)"
  have "map_of (ct_services s) k = Some x \<Longrightarrow> x < ct_next s" for k x using assms(3) by (force dest: map_of_SomeD)
  then have "serves ?x (snd (container_webhook_service s))"
    using assms(1,2) by (auto simp: serves_def container_webhook_service_def update_conv' split: option.split)
  from services.history_inv [OF assms(4) this] show ?thesis
    by (auto simp: serves_def container_webhook_service_def container_reset_def)
qed

theorem container_singletons_witness:
  "fst (container_webhook_service (snd (container_webhook_service \<lparr>ct_instance = True, ct_initialised = True, ct_services = [], ct_next = 1\<rparr>))) = 1"
  using container_singletons [of "\<lparr>ct_instance = True, ct_initialised = True, ct_services = [], ct_next = 1\<rparr>", OF _ _ _ rtranclp.rtrancl_refl]
  by (simp add: container_webhook_service_def)

section \<open>Labels of statements\<close>

definition optional :: "re \<Rightarrow> re" where
  "optional r = RAlt r REps"

definition quote_mark :: re where
  "quote_mark = optional (lit [CHR 34])"

definition TABLE_PATTERN :: re where
  "TABLE_PATTERN = RSeq (RAlt (lit ''FROM'') (RAlt (lit ''INTO'') (RAlt (lit ''UPDATE'') (lit ''JOIN''))))
     (RSeq (plus_of (RChr is_space)) (RSeq (optional (RSeq quote_mark (RSeq (plus_of (RChr word_char)) (RSeq quote_mark (lit ''.'')))))
       (RSeq quote_mark (RSeq (RGroup (plus_of (RChr word_char))) quote_mark))))"

definition extract_table_name :: "string \<Rightarrow> string" where
  "extract_table_name statement =
    (case finditer TABLE_PATTERN [] (strip (lower statement)) of Some t # _ \<Rightarrow> t | _ \<Rightarrow> ''unknown'')"

fun py_words :: "string \<Rightarrow> string \<Rightarrow> string list" where
  "py_words w [] = (if w = [] then [] else [rev w])"
| "py_words w (c # cs) = (if is_space c then (if w = [] then py_words [] cs else rev w # py_words [] cs) else py_words (c # w) cs)"

record db_metrics =
  dm_total :: "((string \<times> string) \<times> nat) list"
  dm_durations :: "((string \<times> string) \<times> real) list"

definition statement_labels :: "string \<Rightarrow> string \<times> string" where
  "statement_labels st = ((if strip st \<noteq> [] then lower (hd (py_words [] (strip st))) else ''unknown''), extract_table_name st)"

definition record_db_query :: "string \<times> string \<Rightarrow> real \<Rightarrow> db_metrics \<Rightarrow> db_metrics" where
  "record_db_query l d m = \<lparr>dm_total = AList.update l (case map_of (dm_total m) l of None \<Rightarrow> 1 | Some n \<Rightarrow> n + 1) (dm_total m),
     dm_durations = dm_durations m @ [(l, d)]\<rparr>"

definition run_statement :: "string \<Rightarrow> real \<Rightarrow> real \<Rightarrow> db_metrics \<Rightarrow> db_metrics" where
  "run_statement st t0 t1 m = record_db_query (statement_labels st) (t1 - t0) m"

lemma lower_no_upper: "c \<in> set (lower s) \<Longrightarrow> \<not> is_upper c"
proof -
  have "\<not> is_upper (lower_char c)" for c
    using of_char_lt_256 [of c] by (auto simp: is_upper_def lower_char_def)
  then show "c \<in> set (lower s) \<Longrightarrow> \<not> is_upper c" by (auto simp: lower_def)
qed

lemma set_strip: "set (strip s) \<subseteq> set s"
  unfolding strip_def by (metis set_dropWhileD set_rev subsetI)

lemma table_match_upper: "matches TABLE_PATTERN (b, a, c) q \<Longrightarrow> \<exists>x\<in>set a. is_upper x"
proof -
  assume "matches TABLE_PATTERN (b, a, c) q"
  then obtain m where "matches (lit ''FROM'') (b, a, c) m \<or> matches (lit ''INTO'') (b, a, c) m \<or> matches (lit ''UPDATE'') (b, a, c) m \<or> matches (lit ''JOIN'') (b, a, c) m"
    unfolding TABLE_PATTERN_def matches.simps(4,5) by blast
  then obtain u v where "a = u @ v" "u \<in> {''FROM'', ''INTO'', ''UPDATE'', ''JOIN''}" unfolding matches_lit by blast
  then show ?thesis by (auto simp: is_upper_def)
qed

text \<open>
  The table of a statement is never recognised: the statement is lowered before it is searched for words in capitals, so every statement is counted under the
  table unknown, and the totals are those of the operations only.
\<close>

theorem table_label_unknown:
  "extract_table_name st = ''unknown''
   \<and> snd (statement_labels st) = ''unknown''
   \<and> map_of (dm_total (run_statement st t0 t1 m)) (fst (statement_labels st), ''unknown'')
      = Some (case map_of (dm_total m) (fst (statement_labels st), ''unknown'') of None \<Rightarrow> 1 | Some n \<Rightarrow> n + 1)
   \<and> length (dm_durations (run_statement st t0 t1 m)) = Suc (length (dm_durations m))"
proof -
  have "finditer TABLE_PATTERN [] (strip (lower st)) = []"
  proof (rule ccontr)
    assume "finditer TABLE_PATTERN [] (strip (lower st)) \<noteq> []"
    then obtain x where "x \<in> set (finditer TABLE_PATTERN [] (strip (lower st)))" by (meson last_in_set)
    from finditer_sound [OF this] obtain b a q where q: "rev b @ a = strip (lower st)" "matches TABLE_PATTERN (b, a, None) q" by auto
    from table_match_upper [OF q(2)] obtain x where x: "x \<in> set a" "is_upper x" by blast
    have "x \<in> set (rev b @ a)" using x(1) by simp
    then have "x \<in> set (lower st)" unfolding q(1) using set_strip by blast
    then show False using x(2) lower_no_upper by blast
  qed
  then have u: "extract_table_name st = ''unknown''" by (simp add: extract_table_name_def)
  then show ?thesis by (simp add: statement_labels_def run_statement_def record_db_query_def update_conv')
qed

end
