(* ===== verification/Spec2Isabelle.thy ===== *)
theory Spec2Isabelle
  imports NocBase SlaEngine AuditTrail Payments Idempotency PaymentApi Caching ContractBridge WebhookPolicy Webhooks WebhookLaws Auth OutageLaws JobLaws SlaResultLaws WalletLaws WebhookTaskLaws Trace Telemetry OperationLaws GatewayLaws Exports Canonical Configuration Provenance Lifecycle Migration Stores SupportLaws PyRegex ReleaseDrift Exposition WalletCache Accounts PaymentPages SecurityLog JobViews Runtime
begin

text \<open>
  A verification library for the backend of NOC IQ (\<open>app/\<close> and \<open>scripts/\<close>), a FastAPI service that records network
  outages, measures them against service levels, pays rewards and penalties through a contract on a ledger, and tells
  subscribers about it by webhooks.

  \<^bold>\<open>The program.\<close>
  Requests pass the middleware (theory Gateway) and reach handlers under \<open>app/api/v1/endpoints/\<close>. A resolved outage
  (Outages) is measured by the calculator (SlaEngine); the result is stored with one authoritative row per outage
  (SlaResults) and paid by one payment (Payments, PaymentApi), which a signed callback of the ledger settles. Calls to the
  contract go through the bridge with its caches, guard and circuit breaker (ContractBridge, Canonical) and leave
  transactions behind (Provenance). Whatever changes state writes an audit row (AuditTrail, SecurityLog) and may trigger a
  webhook (WebhookPolicy, Webhooks, WebhookApi, WebhookTasks). Recomputations run as jobs (Jobs). The operators see traces,
  metrics, exports and probes (Trace, Telemetry, Exposition, Exports, Operations).

  \<^bold>\<open>Theories and sources.\<close>
  \<^item> NocBase: exceptions, results, strings, association lists and tables; the locales \<open>status_policy\<close>, \<open>step_system\<close> and
    \<open>growing_system\<close>.
  \<^item> SlaEngine: \<open>services/sla/\<close>, \<open>services/contracts/translation.py\<close> and the handlers that compute.
  \<^item> Outages, OutageLaws: \<open>core/outage_state_machine.py\<close>, the repositories of outages and their events, \<open>endpoints/outages.py\<close>.
    Stores: the in-memory \<open>services/outage_store.py\<close> and \<open>services/soft_delete.py\<close>.
  \<^item> SlaResults, SlaResultLaws: \<open>repositories/sla_repository.py\<close>, \<open>endpoints/sla.py\<close>, \<open>endpoints/sla_dispute.py\<close>.
  \<^item> Payments, PaymentApi, PaymentPages: \<open>models/payment.py\<close>, \<open>repositories/payment_repository.py\<close>, \<open>endpoints/payments.py\<close>.
    Idempotency: \<open>services/idempotency_service.py\<close>.
  \<^item> Caching: \<open>utils/cache.py\<close>, \<open>core/cache_governance.py\<close> and the sliding windows of the limiters.
  \<^item> ContractBridge, Canonical: \<open>services/contracts/\<close>. Provenance:
    \<open>services/tx_provenance.py\<close>, \<open>endpoints/transactions.py\<close>.
  \<^item> Wallets, WalletLaws, WalletCache: \<open>utils/wallet_address.py\<close>, \<open>repositories/wallet_repository.py\<close>,
    \<open>services/wallet_registry.py\<close>, \<open>endpoints/wallets.py\<close>.
  \<^item> Auth, Accounts: \<open>services/auth_store.py\<close>, the repositories of users, sessions and token families, \<open>endpoints/auth.py\<close>.
  \<^item> AuditTrail, SecurityLog: \<open>services/audit_log.py\<close>, \<open>services/security.py\<close>. Trace: \<open>services/trace.py\<close>, \<open>endpoints/audit.py\<close>.
  \<^item> WebhookPolicy, Webhooks, WebhookLaws: \<open>services/webhook_signing.py\<close>, \<open>services/webhook_service.py\<close>, \<open>models/webhook.py\<close>.
    WebhookApi: \<open>endpoints/webhooks.py\<close>. WebhookTasks, WebhookTaskLaws: \<open>tasks/webhook_tasks.py\<close>.
  \<^item> Jobs, JobLaws, JobViews: \<open>models/job.py\<close>, \<open>tasks/sla_tasks.py\<close>, \<open>services/job_cleanup.py\<close>, \<open>endpoints/jobs.py\<close>.
  \<^item> Telemetry, Exposition: \<open>services/metrics.py\<close>, \<open>metrics/cardinality_guard.py\<close>, \<open>services/sla_metric_registry.py\<close>,
    \<open>tasks/analytics_quality_tasks.py\<close>, \<open>endpoints/metrics.py\<close>.
  \<^item> Operations, OperationLaws: \<open>tasks/queue_analyzer.py\<close>, \<open>tasks/webhook_autoscaler.py\<close>, \<open>services/queue_latency.py\<close>, pool
    statistics, guardrails and probes.
  \<^item> Gateway, GatewayLaws: \<open>middleware/\<close> and the part of \<open>core/rate_limiter.py\<close> that is used.
  \<^item> Csv, Exports: \<open>utils/analytics_exporter.py\<close>, \<open>utils/exporter.py\<close>, the export and import endpoints.
  \<^item> Configuration: \<open>core/config.py\<close>, \<open>core/env_validators.py\<close>. Lifecycle: \<open>core/lock.py\<close>, \<open>core/session_hygiene.py\<close>,
    \<open>core/startup_optimizer.py\<close>. Runtime: \<open>utils/logging.py\<close>, \<open>core/tracing.py\<close>, \<open>core/lifespan.py\<close>,
    \<open>core/dependencies.py\<close>, \<open>metrics/database_metrics.py\<close>. Migration: \<open>migrations/shadow_table.py\<close>.
  \<^item> Support, SupportLaws: the smaller services (sites, request log, disputes, changelog, bulk records, tokens, readiness).
  \<^item> PyRegex, ReleaseDrift: Python's regular expressions as far as the sources use them, and \<open>scripts/check_release_drift.py\<close>.
  \<^item> This theory: the properties that span components, \<open>settlement_pipeline\<close> (repair, result, payment, callback, replay) and
    \<open>trace_identifies\<close> (outage handlers and the trace over the rows they leave).

  \<^bold>\<open>State and operations.\<close>
  A mapped class or a Pydantic model is a \<open>record\<close>, an \<open>Enum\<close> a \<open>datatype\<close>, a dictionary an association list where its order
  shows and a map where it does not. A database table is the list of its rows in the order of insertion; a query is a
  filter, a unique constraint is a test at insertion, and a commit that fails leaves the table unchanged. Semantics of queries, types and
  constraints are those of PostgreSQL, for which the models are declared. A fallible operation returns \<open>'a res\<close>, the
  exception or the value, with the state that remains after it. Python's integers are \<open>int\<close>, its floats are real
  numbers except where the text of a float is meant (then its rendering is an argument); naive and aware times are
  different constructors, so that comparing them raises as in Python. The clock, \<open>uuid4\<close>, random numbers, digests, password hashing,
  DNS, HTTP and rendering of numbers are arguments of the definitions that use them. Concurrent processes are
  sequences of atomic steps; the point between a read and the write that depends on it is a step boundary
  where the code has no lock (WalletLaws, Lifecycle, WalletCache).

  \<^bold>\<open>Lemma groups and interfaces.\<close>
  \<^item> \<open>status_policy\<close> states what a table of transitions promises and proves what a history that obeys it can do; it is interpreted by
    the policies of payments and outages.
  \<^item> \<open>step_system\<close> takes a step relation and an invariant to all reachable states; \<open>growing_system\<close> adds an order that every step
    respects. They are interpreted by the sessions and accounts, the idempotency keys, jobs, advisory locks, tracked
    database sessions, autoscaler, outages and their API, payments and their API, provenance, the service
    container, SLA tables, sites, the refresh lock, wallets, webhooks and the outage event log of this theory.
  \<^item> \<open>request_window\<close> and its extension \<open>keyed_window\<close> bound what a sliding window admits; the login limiter and the
    execution guard interpret it. \<open>expiring_store\<close> is the contract of a cache with expiry, interpreted by the TTL cache;
    \<open>soft_delete_store\<close> that of a store with undo, interpreted by the outage store.
  \<^item> Refinements: the calculator against the specification of service levels, the payment API against its repository, the cache against the map of
    last writes, the middleware stack against the reply of the application.
  \<^item> Every theory states, beside its main properties, what each operation does on its error branches.

  \<^bold>\<open>Bounds and fuel.\<close>
  Loops over lists are structural. \<open>migrate_loop\<close> is a \<open>partial_function (option)\<close> with a theorem on when it returns; the batched sweeps of
  the jobs have a measure and agree with one filter. \<open>walk_pages\<close> and \<open>follow_cursors\<close> get one step more
  than the table has rows, and the properties show that this lists all of them. The lock of the balance refresh is tried three
  times, as in the code; a chain of task executions ends after the retries the task declares. The depth
  allowed to the module graph of deferred imports is Python's recursion limit, and reaching it is the \<open>RecursionError\<close> of the code.

  \<^bold>\<open>Not modelled.\<close>
  \<open>services/analytics/trend_aggregator.py\<close> is a syntax error. \<open>utils/explorer.py\<close> imports a name that does not exist.
  \<open>reconcile_payment_analytics\<close> calls a repository method that does not exist, so every call of it raises. The Redis and memory back ends of
  \<open>core/rate_limiter.py\<close> are unreachable. The functions of the placeholder services return constants. Alembic migrations,
  routers, engine and session factories and the Celery configuration are wiring of libraries. The TypeScript modules
  under \<open>src/\<close> are another program. Tests are not part of the implementation.
\<close>

section \<open>From the repair of an outage to its payment\<close>

lemma created_result_is_latest:
  assumes "create_result started outs r s = (Inr sres, s1)"
  shows "get_by_outage (res_outage_id r) (sd_results s1) = Some sres" "res_id sres = Some (sd_next s)" "res_amount sres = res_amount r"
    "res_payment_type sres = res_payment_type r"
proof -
  let ?orm = "SLAResultORM started (sd_next s) True r"
  let ?t = "if find (\<lambda>x. sr_outage x = res_outage_id r \<and> sr_is_latest x) (sd_results s) \<noteq> None then demote (res_outage_id r) (sd_results s) else sd_results s"
  have st: "sres = sla_orm_to_pydantic ?orm" "sd_results s1 = ?t @ [?orm]"
    using assms by (auto simp: create_result_def Let_def split: if_splits)
  have "find (\<lambda>x. sr_outage x = res_outage_id r \<and> sr_is_latest x) ?t = None"
    by (auto simp: find_None_iff demote_def upd_where_def)
  then show "get_by_outage (res_outage_id r) (sd_results s1) = Some sres"
    by (simp add: get_by_outage_def st find_append SLAResultORM_def)
  show "res_id sres = Some (sd_next s)" "res_amount sres = res_amount r" "res_payment_type sres = res_payment_type r"
    by (simp_all add: st sla_orm_to_pydantic_def SLAResultORM_def)
qed

lemma sla_payment_inserted:
  assumes "create_for_sla_result st now uid oid sla t = (Inr p, t1)" "res_id sla = Some rid" "get_by_sla_result rid t = None"
  shows "t1 = t @ [sla_payment st now uid oid rid sla]" "find_payment (''pay_'' @ take 12 uid) t1 = Some (sla_payment st now uid oid rid sla)"
proof -
  let ?r = "sla_payment st now uid oid rid sla"
  have "create_payment ?r t = insert_payment ?r t" by (simp add: create_payment_def sla_payment_def)
  then have t1: "t1 = t @ [?r]" and nc: "\<not> list_ex (unique_clash ?r) t"
    using assms by (auto simp: create_for_sla_result_def insert_payment_def split: if_splits)
  have "find (\<lambda>x. p_id x = p_id ?r) t = None" using nc by (auto simp: find_None_iff list_ex_iff unique_clash_def)
  then show "find_payment (''pay_'' @ take 12 uid) t1 = Some ?r" by (simp add: find_payment_def t1 find_append sla_payment_def)
  show "t1 = t @ [?r]" by (rule t1)
qed

lemma one_payment_per_result:
  assumes "payments_ok t" "x \<in> set t" "p_sla_result_id x = Some rid"
  shows "filter (\<lambda>y. p_sla_result_id y = Some rid) t = [x]"
proof -
  have srt: "sorted_wrt (\<lambda>a b. \<not> unique_clash a b) t" using assms(1) by (simp add: payments_ok_def)
  have all: "y = x" if "y \<in> set (filter (\<lambda>y. p_sla_result_id y = Some rid) t)" for y
    using no_clash_unique [OF srt _ assms(2), of y] that assms(3) by (auto simp: unique_clash_def)
  have "sorted_wrt (\<lambda>a b. \<not> unique_clash a b) (filter (\<lambda>y. p_sla_result_id y = Some rid) t)" using srt by (rule sorted_wrt_filter)
  moreover have "x \<in> set (filter (\<lambda>y. p_sla_result_id y = Some rid) t)" using assms by simp
  ultimately show ?thesis using all
  proof (induction "filter (\<lambda>y. p_sla_result_id y = Some rid) t" rule: remdups_adj.induct)
    case 1
    then show ?case by simp
  next
    case (2 a)
    then show ?case by (metis list.set_intros(1))
  next
    case (3 a b zs)
    then have "a = x" "b = x" by (metis list.set_intros)+
    moreover have "\<not> unique_clash a b" using 3(3,4) by (metis list.set_intros(1,2) sorted_wrt.simps(2))
    ultimately show ?case by (simp add: unique_clash_def)
  qed
qed

text \<open>
  C3. The settlement of an outage, across the SLA engine, the table of results and the payments: when the amount for a repair time is calculated under a valid
  configuration, stored as the result of the outage and a payment is generated for it, then the stored result is the authoritative one of the outage, and however
  payments are created, reconciled, retried and replayed afterwards, there is exactly one payment for the result; it has the absolute value of the amount the
  reference gives for the severity and repair time, it is a penalty exactly when the threshold was exceeded, and it belongs to the outage.
\<close>

theorem settlement_pipeline:
  assumes "config_ok cfg" "calculate cfg oid sev m pv ts = Inr r"
    "create_result started outs r s = (Inr sres, s1)"
    "payment_step\<^sup>*\<^sup>* [] t" "get_by_sla_result (sd_next s) t = None"
    "create_for_sla_result st now uid oid sres t = (Inr p, t1)"
    "payment_step\<^sup>*\<^sup>* t1 t2"
  shows "get_by_outage oid (sd_results s1) = Some sres
    \<and> (\<exists>c row. map_of cfg (lower sev) = Some c \<and> filter (\<lambda>x. p_sla_result_id x = res_id sres) t2 = [row]
        \<and> p_amount row = \<bar>real_of_int (payout_ref c m)\<bar> \<and> p_outage_id row = oid
        \<and> p_type row = (if threshold_minutes c < m then ''penalty'' else ''reward''))"
proof -
  obtain c where c: "map_of cfg (lower sev) = Some c" using assms(2) by (cases "map_of cfg (lower sev)") (auto simp: calculate_unknown)
  have r: "res_amount r = payout_ref c m" "(res_payment_type r = penalty) = (threshold_minutes c < m)" "res_outage_id r = oid"
    using calculate_known [OF assms(1) c, of oid m pv ts] assms(2) by (auto simp: result_ref_def rating_ref_def split: if_splits)
  note sres = created_result_is_latest [OF assms(3)]
  note ins = sla_payment_inserted [OF assms(6) sres(2) assms(5)]
  obtain row ts' where row: "find_payment (''pay_'' @ take 12 uid) t2 = Some row" "p_amount row = \<bar>real_of_int (res_amount sres)\<bar>"
    "p_type row = payment_kind_str (res_payment_type sres)" "p_outage_id row = oid" "p_sla_result_id row = Some (sd_next s)"
    using steps_row_run [OF assms(7) ins(2)] by (auto simp: sla_payment_def)
  have "payment_step t t1" using step_sla [of t st now uid oid sres] assms(6) by simp
  with assms(4) have "payment_step\<^sup>*\<^sup>* [] t1" by (rule rtranclp.rtrancl_into_rtrancl)
  from rtranclp_trans [OF this assms(7)] have "payments_ok t2" by (rule payments_ok_steps) (simp add: payments_ok_def)
  moreover have "row \<in> set t2" using row(1) find_SomeD unfolding find_payment_def by metis
  ultimately have "filter (\<lambda>x. p_sla_result_id x = res_id sres) t2 = [row]" using one_payment_per_result row(5) sres(2) by simp
  moreover have "p_type row = (if threshold_minutes c < m then ''penalty'' else ''reward'')"
  proof (cases "res_payment_type r")
    case reward
    then show ?thesis using row(3) sres(4) r(2) by simp
  next
    case penalty
    then show ?thesis using row(3) sres(4) r(2) by simp
  qed
  moreover have "get_by_outage oid (sd_results s1) = Some sres" using sres(1) r(3) by simp
  moreover have "p_amount row = \<bar>real_of_int (payout_ref c m)\<bar>" using row(2) sres(3) r(1) by simp
  ultimately show ?thesis using c row(4) by blast
qed

theorem settlement_pipeline_witness:
  "\<exists>(sres :: sla_result) (row :: payment_row) t2. payment_step\<^sup>*\<^sup>* [] t2 \<and> filter (\<lambda>x. p_sla_result_id x = res_id sres) t2 = [row] \<and> p_amount row = 1125 \<and> p_outage_id row = ''o1''"
proof -
  have ok: "config_ok SLA_CONFIG" by code_simp
  have l: "lower ''high'' = ''high''" by code_simp
  obtain c where c: "map_of SLA_CONFIG (lower ''high'') = Some c" by (simp add: l SLA_CONFIG_def)
  obtain r where r: "calculate SLA_CONFIG ''o1'' ''high'' 20 ''1.0'' ''config'' = Inr r" "res_outage_id r = ''o1''"
    using calculate_known [OF ok c, of "''o1''" 20 "''1.0''" "''config''"] by (auto simp: result_ref_def)
  obtain sres s1 where k: "create_result 0 (td_outages sample_trace) r sla_init = (Inr sres, s1)"
    using r(2) by (simp add: create_result_def sla_init_def sample_trace_def Outages.get_orm_def Let_def)
  have n: "get_by_sla_result (sd_next sla_init) [] = None" by (simp add: get_by_sla_result_def)
  let ?st = "Payments.payment_settings.make ''USDC'' ''F'' ''T''"
  have i: "res_id sres = Some 1" using created_result_is_latest(2) [OF k] by (simp add: sla_init_def)
  obtain p t1 where p: "create_for_sla_result ?st 3 ''abc'' ''o1'' sres [] = (Inr p, t1)"
    using i by (simp add: create_for_sla_result_def get_by_sla_result_def create_payment_def insert_payment_def)
  have "payment_step [] t1" using step_sla [of "[]" ?st 3 "''abc''" "''o1''" sres] p by simp
  then have t1: "payment_step\<^sup>*\<^sup>* [] t1" by (rule r_into_rtranclp)
  have a: "payout_ref (the (map_of SLA_CONFIG (lower ''high''))) 20 = 1125" unfolding l by code_simp
  from settlement_pipeline [OF ok r(1) k rtranclp.rtrancl_refl n p rtranclp.rtrancl_refl]
  obtain c' row where w: "map_of SLA_CONFIG (lower ''high'') = Some c'" "filter (\<lambda>x. p_sla_result_id x = res_id sres) t1 = [row]"
    "p_amount row = \<bar>real_of_int (payout_ref c' 20)\<bar>" "p_outage_id row = ''o1''" by blast
  have "p_amount row = 1125" using w(3) a w(1) by simp
  then show ?thesis using t1 w(2,4) by blast
qed

section \<open>The trace over the reachable tables\<close>

definition events_distinct :: "outage_state \<Rightarrow> bool" where
  "events_distinct s \<longleftrightarrow> distinct (map oe_id (os_events s))"

lemma events_record: "events_distinct s \<Longrightarrow> events_distinct (snd (record_event conv now eid oid ty d s))"
  by (auto simp: events_distinct_def record_event_def list_ex_iff split: sum.split)

lemma events_frame [simp]:
  "events_distinct (s\<lparr>os_outages := t\<rparr>) = events_distinct s" "events_distinct (s\<lparr>os_audit := l\<rparr>) = events_distinct s"
  "events_distinct (outage_audit env now ev d s) = events_distinct s"
  by (simp_all add: events_distinct_def outage_audit_def)

lemma events_update_record: "events_distinct s \<Longrightarrow> events_distinct (snd (update_and_record env now eid ty oid p dump s))"
  using events_record [of "s\<lparr>os_outages := snd (update_row now oid p (os_outages s))\<rparr>" "oe_as_int env" now eid oid ty dump]
  by (auto simp: update_and_record_def split: prod.splits sum.splits)

lemma events_import: "events_distinct s \<Longrightarrow> events_distinct (snd (import_outages lm started dry c raw s))"
  by (simp add: import_outages_def Let_def case_prod_beta split: import_consistency.split sum.split)

lemma events_step: "outage_step s s' \<Longrightarrow> outage_inv (os_outages s) \<Longrightarrow> events_distinct s \<Longrightarrow> events_distinct s'"
proof (induction rule: outage_step.induct)
  case (os_create s env now eid p)
  obtain r t where ct: "create_row (oe_started env) p (os_outages s) = (r, t)" by fastforce
  show ?case
  proof (cases r)
    case (Inr x)
    then show ?thesis
      using os_create ct events_record [of "outage_audit env now ''outage_created'' [(''id'', JStr (out_id x))] (s\<lparr>os_outages := t\<rparr>)"
          "oe_as_int env" now eid "out_id x" "''created''" "[(''site_name'', JStr (out_site_name x))]"]
      by (auto simp: create_outage_def split: prod.splits sum.splits)
  qed (use os_create ct in \<open>simp add: create_outage_def\<close>)
next
  case (os_bulk s env ps)
  then show ?case by (simp add: bulk_create_outages_def case_prod_beta)
next
  case (os_import s lm started dry c raw)
  then show ?case by (simp add: events_import)
next
  case (os_update s env now eid oid p dump)
  then show ?case by (auto simp: update_outage_def Let_def events_update_record split: option.split prod.split sum.split)
next
  case (os_patch s env now eid oid p dump)
  then show ?case by (auto simp: patch_outage_def events_update_record split: option.split)
next
  case (os_delete s oid)
  then show ?case by (simp add: delete_outage_def split: option.split)
next
  case (os_resolve s env now acquired eid oid mttr)
  then show ?case by (simp add: resolve_outage_refused)
next
  case (os_recompute s acquired oid)
  then show ?case by (simp add: recompute_sla_def split: option.split)
qed

interpretation event_log: step_system outage_step "\<lambda>s. outage_inv (os_outages s) \<and> events_distinct s"
  by unfold_locales (use events_step outage_steps_keep r_into_rtranclp [of outage_step] in blast)

text \<open>
  C27. The trace identifies what it lists: over tables that the handlers of outages, the operations on SLA results, the payment operations and the
  delivery engine reached, each in whatever history of its own, the trace of a stored outage has no two nodes with the same type and identifier, the outage comes first,
  and the nodes are numbered from one without gaps.
\<close>

theorem trace_identifies:
  assumes "outage_step\<^sup>*\<^sup>* outage_init os" "sla_step\<^sup>*\<^sup>* sla_init ss" "payment_step\<^sup>*\<^sup>* [] ps" "(hook_step st)\<^sup>*\<^sup>* hook_init hs"
    "inj (te_uuid env)" "Outages.get_orm oid (os_outages os) = Some r" "oid \<noteq> []"
  defines "db \<equiv> \<lparr>td_outages = os_outages os, td_events = os_events os, td_results = sd_results ss, td_payments = ps, td_deliveries = hs_deliveries hs\<rparr>"
  shows "distinct (map node_key (tc_nodes (build_trace_chain env db (Some oid) b c)))
    \<and> (\<exists>rest. map node_key (tc_nodes (build_trace_chain env db (Some oid) b c)) = (''outage'', oid) # rest)
    \<and> map tn_sequence (tc_nodes (build_trace_chain env db (Some oid) b c)) = [1..<1 + tc_total (build_trace_chain env db (Some oid) b c)]"
proof -
  have o: "find (\<lambda>r. o_id r = oid) (td_outages db) = Some r" using assms(6) by (simp add: db_def Outages.get_orm_def)
  have g: "given (resolve_outage_id db (Some oid) b c)" "resolve_outage_id db (Some oid) b c = Some oid"
    using assms(7) by (simp_all add: resolve_outage_id_def given_def)
  have n: "numbered (trace_spec env db oid) (tc_total (build_trace_chain env db (Some oid) b c), tc_nodes (build_trace_chain env db (Some oid) b c))"
    using trace_nodes [OF g o] by blast
  have "events_distinct os" using event_log.history_inv [OF assms(1)] by (simp add: events_distinct_def outage_init_def outage_inv_def)
  moreover have "distinct (map sr_id (sd_results ss))" using sla_steps_inv [OF assms(2)] by (simp add: sla_inv_def ids_ok_def)
  moreover have "distinct (map p_id ps)" using payments_ok_ids payments_ok_steps [OF assms(3)] by (simp add: payments_ok_def)
  moreover have "distinct (map d_id (hs_deliveries hs))" using hooks.history_inv [OF assms(4) hook_init_ok] by (simp add: hook_ok_def base_ok_def)
  ultimately have "distinct (trace_spec env db oid)" by (intro trace_spec_distinct) (simp_all add: db_def events_distinct_def assms(5))
  then show ?thesis using n by (auto simp: numbered_def trace_spec_def)
qed

theorem trace_identifies_witness:
  "\<exists>db. distinct (map node_key (tc_nodes (build_trace_chain sample_trace_env db (Some ''o1'') None None))) \<and> td_outages db = os_outages sample_outage_state"
  using trace_identifies [OF sample_outage_reachable rtranclp.rtrancl_refl rtranclp.rtrancl_refl rtranclp.rtrancl_refl, where env = sample_trace_env and oid = "''o1''"
      and r = "OutageORM 0 OutageLaws.sample_outage" and b = None and c = None]
  by (intro exI conjI) (auto simp: sample_outage_row sample_trace_env_def inj_def dest: str_nat_inj)

end
